(* ===== verification/Prelude.thy ===== *)
theory Prelude
  imports Main "HOL-Library.AList" "HOL-Library.Sublist"
begin

text \<open>
  Shared vocabulary of the development: JavaScript string and array operations on lists, the
  result type of operations that throw (\<open>Inl\<close> the error, \<open>Inr\<close> the value), insertion-ordered
  maps (a JavaScript \<open>Map\<close> is an association list updated in place, so iteration order is
  insertion order), and the lemmas the components share about them.
\<close>

named_theorems model_simps "defining equations a component unfolds by default"

section \<open>Results of operations that may throw\<close>

type_synonym ('e, 'a) result = "'e + 'a"

fun rbind :: "('e, 'a) result \<Rightarrow> ('a \<Rightarrow> ('e, 'b) result) \<Rightarrow> ('e, 'b) result" where
  "rbind (Inl e) f = Inl e"
| "rbind (Inr x) f = f x"

fun ok :: "('e, 'a) result \<Rightarrow> bool" where
  "ok (Inl e) = False"
| "ok (Inr x) = True"

lemma rbind_Inr_iff: "rbind r f = Inr y \<longleftrightarrow> (\<exists>x. r = Inr x \<and> f x = Inr y)"
  by (cases r) auto

lemma rbind_Inl_iff: "rbind r f = Inl e \<longleftrightarrow> r = Inl e \<or> (\<exists>x. r = Inr x \<and> f x = Inl e)"
  by (cases r) auto

lemma ok_iff: "ok r \<longleftrightarrow> (\<exists>x. r = Inr x)"
  by (cases r) auto

section \<open>Splitting and joining strings\<close>

text \<open>\<open>s.split(c)\<close> for a one-character separator, and \<open>xs.join(c)\<close>.\<close>

fun js_split :: "'a \<Rightarrow> 'a list \<Rightarrow> 'a list list" where
  "js_split c [] = [[]]"
| "js_split c (x # xs) =
     (if x = c then [] # js_split c xs
      else (case js_split c xs of [] \<Rightarrow> [[x]] | s # ss \<Rightarrow> (x # s) # ss))"

fun js_join :: "'a \<Rightarrow> 'a list list \<Rightarrow> 'a list" where
  "js_join c [] = []"
| "js_join c [s] = s"
| "js_join c (s # t # ss) = s @ c # js_join c (t # ss)"

lemma js_split_nonempty [simp]: "js_split c s \<noteq> []"
  by (induction s) (auto split: list.splits)

lemma js_split_no_sep: "seg \<in> set (js_split c s) \<Longrightarrow> c \<notin> set seg"
proof (induction s arbitrary: seg)
  case (Cons x xs)
  then show ?case by (fastforce split: if_splits list.splits)
qed simp

lemma js_split_plain: "c \<notin> set s \<Longrightarrow> js_split c s = [s]"
  by (induction s) auto

lemma js_split_append_sep: "c \<notin> set s \<Longrightarrow> js_split c (s @ c # t) = s # js_split c t"
  by (induction s) auto

lemma js_split_append_sep_gen: "js_split c (s @ c # t) = js_split c s @ js_split c t"
  by (induction s) (auto split: list.splits)

lemma js_split_join:
  "ss \<noteq> [] \<Longrightarrow> \<forall>s \<in> set ss. c \<notin> set s \<Longrightarrow> js_split c (js_join c ss) = ss"
  by (induction c ss rule: js_join.induct) (auto simp: js_split_plain js_split_append_sep)

lemma js_join_Cons: "ss \<noteq> [] \<Longrightarrow> js_join c (s # ss) = s @ c # js_join c ss"
  by (cases ss) auto

lemma js_join_split: "js_join c (js_split c s) = s"
proof (induction s)
  case (Cons x xs)
  show ?case
  proof (cases "x = c")
    case True then show ?thesis using Cons by (simp add: js_join_Cons)
  next
    case False
    obtain h t where ht: "js_split c xs = h # t" by (cases "js_split c xs") auto
    then have "js_join c ((x # h) # t) = x # js_join c (h # t)" by (cases t) auto
    then show ?thesis using False Cons ht by simp
  qed
qed simp

lemma js_join_inject:
  "ss \<noteq> [] \<Longrightarrow> ts \<noteq> [] \<Longrightarrow> \<forall>s \<in> set ss. c \<notin> set s \<Longrightarrow> \<forall>s \<in> set ts. c \<notin> set s \<Longrightarrow>
   js_join c ss = js_join c ts \<longleftrightarrow> ss = ts"
  by (metis js_split_join)

lemma js_join_eq_Nil: "js_join c ss = [] \<longleftrightarrow> ss = [] \<or> ss = [[]]"
  by (induction c ss rule: js_join.induct) auto

text \<open>Everything before the first separator is determined by the whole string.\<close>

lemma append_sep_inject:
  "c \<notin> set a \<Longrightarrow> c \<notin> set b \<Longrightarrow> a @ c # s = b @ c # t \<longleftrightarrow> a = b \<and> s = t"
proof (induction a arbitrary: b)
  case Nil then show ?case by (cases b) auto
next
  case (Cons x a) then show ?case by (cases b) auto
qed

section \<open>Typed-array slices\<close>

text \<open>\<open>xs.subarray(offset, end)\<close> with the clamping of the JavaScript standard: a negative index
  counts from the end, both are clamped to the length, and an inverted range is empty.\<close>

definition js_index :: "nat \<Rightarrow> int \<Rightarrow> nat" where
  "js_index n i = (if i < 0 then nat (max 0 (int n + i)) else min n (nat i))"

definition js_subarray :: "'a list \<Rightarrow> int \<Rightarrow> int option \<Rightarrow> 'a list" where
  "js_subarray xs b e =
     (let n = length xs; i = js_index n b;
          j = (case e of None \<Rightarrow> n | Some e' \<Rightarrow> js_index n e')
      in take (j - i) (drop i xs))"

lemma js_subarray_all [simp]: "js_subarray xs 0 None = xs"
  by (simp add: js_subarray_def js_index_def)

lemma js_subarray_nat:
  "js_subarray xs (int i) (Some (int i + int k)) = take k (drop i xs)"
proof -
  have "nat (int i + int k) = i + k" by simp
  then show ?thesis
    by (cases "length xs \<le> i"; cases "length xs \<le> i + k")
      (auto simp: js_subarray_def js_index_def Let_def min_def)
qed

section \<open>Insertion-ordered maps\<close>

type_synonym ('k, 'v) omap = "('k \<times> 'v) list"

lemma map_of_update: "map_of (AList.update k v m) = (map_of m)(k \<mapsto> v)"
  by (simp add: update_conv')

lemma map_of_delete: "map_of (AList.delete k m) = (map_of m)(k := None)"
  by (simp add: delete_conv')

lemma length_update_le: "length (AList.update k v m) \<le> Suc (length m)"
  by (induction m) auto

lemma length_update: "length (AList.update k v m) =
  (if k \<in> fst ` set m then length m else Suc (length m))"
  by (induction m) auto

lemma set_update_distinct:
  "distinct (map fst m) \<Longrightarrow> set (AList.update k v m) = insert (k, v) {p \<in> set m. fst p \<noteq> k}"
  by (induction m) (auto, force+)

lemma update_in_set: "(k', v') \<in> set (AList.update k v m) \<Longrightarrow> (k', v') = (k, v) \<or> (k', v') \<in> set m"
  by (induction m) (auto split: if_splits)

section \<open>Characters and searching\<close>

text \<open>\<open>toLowerCase\<close> and \<open>toUpperCase\<close> on the characters 0 to 255; the three characters whose upper
  case lies outside that range are left alone.\<close>

definition js_lower_char :: "char \<Rightarrow> char" where
  "js_lower_char c =
     (let n = of_char c :: nat in
      if 65 \<le> n \<and> n \<le> 90 \<or> 192 \<le> n \<and> n \<le> 222 \<and> n \<noteq> 215 then char_of (n + 32) else c)"

definition js_upper_char :: "char \<Rightarrow> char" where
  "js_upper_char c =
     (let n = of_char c :: nat in
      if 97 \<le> n \<and> n \<le> 122 \<or> 224 \<le> n \<and> n \<le> 254 \<and> n \<noteq> 247 then char_of (n - 32) else c)"

definition js_lower :: "string \<Rightarrow> string" where
  "js_lower s = map js_lower_char s"

definition js_upper :: "string \<Rightarrow> string" where
  "js_upper s = map js_upper_char s"

text \<open>The text before the first, and after the last, occurrence of a character (the whole text
  when there is none).\<close>

definition before_first :: "'a \<Rightarrow> 'a list \<Rightarrow> 'a list" where
  "before_first c s = takeWhile (\<lambda>x. x \<noteq> c) s"

definition after_last :: "'a \<Rightarrow> 'a list \<Rightarrow> 'a list" where
  "after_last c s = rev (takeWhile (\<lambda>x. x \<noteq> c) (rev s))"

text \<open>\<open>s.slice(0, s.lastIndexOf(c))\<close> when \<open>c\<close> occurs.\<close>

definition before_last :: "'a \<Rightarrow> 'a list \<Rightarrow> 'a list" where
  "before_last c s = take (length s - Suc (length (after_last c s))) s"

text \<open>The parts around the first occurrence of a pattern.\<close>

fun split_at_pat :: "'a list \<Rightarrow> 'a list \<Rightarrow> ('a list \<times> 'a list) option" where
  "split_at_pat p [] = (if p = [] then Some ([], []) else None)"
| "split_at_pat p (x # xs) =
     (if prefix p (x # xs) then Some ([], drop (length p) (x # xs))
      else map_option (\<lambda>(a, b). (x # a, b)) (split_at_pat p xs))"

fun traverse :: "('a \<Rightarrow> 'b option) \<Rightarrow> 'a list \<Rightarrow> 'b list option" where
  "traverse f [] = Some []"
| "traverse f (x # xs) =
     (case f x of None \<Rightarrow> None | Some y \<Rightarrow> map_option (\<lambda>ys. y # ys) (traverse f xs))"

lemma traverse_all_Some: "\<forall>x \<in> set xs. f x = Some (g x) \<Longrightarrow> traverse f xs = Some (map g xs)"
  by (induction xs) auto

end
