(* ===== verification/FsKeys.thy ===== *)
theory FsKeys
  imports Prelude
begin

text \<open>
  Path resolution and the key scheme of the object store: \<open>packages/engram-fs/src/keys.ts\<close>.
  Strings are character lists; a thrown \<open>FsPathError\<close> is the left summand of the result.  The
  \<open>typeof\<close> guards of the source are discharged by typing.  The lemmas show that a resolved path
  has only proper segments, that resolution is idempotent, and that the keys of two sessions
  never meet.
\<close>

section \<open>Errors\<close>

datatype fs_code = EACCES | EINVAL | EISDIR

datatype fs_error = FsPathError (fs_message: string) (fs_error_code: fs_code)

section \<open>Resolution\<close>

definition hasNul :: "string \<Rightarrow> bool" where
  "hasNul s \<longleftrightarrow> list_ex (\<lambda>c. c = CHR 0x00) s"

definition WORKSPACE_ROOT :: string where
  "WORKSPACE_ROOT = ''/workspace''"

text \<open>\<open>out\<close> is the accumulator of the loop, newest segment last.\<close>

fun normalizeSegments ::
  "string list \<Rightarrow> nat \<Rightarrow> string \<Rightarrow> string list \<Rightarrow> (fs_error, string list) result" where
  "normalizeSegments [] fl original out = Inr out"
| "normalizeSegments (seg # segs) fl original out =
     (if seg = '''' \<or> seg = ''.'' then normalizeSegments segs fl original out
      else if seg = ''..'' then
        (if length out \<le> fl
         then Inl (FsPathError (''path escapes /workspace: '' @ original) EACCES)
         else normalizeSegments segs fl original (butlast out))
      else normalizeSegments segs fl original (out @ [seg]))"

definition WS_SEGS :: "string list" where
  "WS_SEGS = filter (\<lambda>s. s \<noteq> '''') (js_split CHR ''/'' WORKSPACE_ROOT)"

definition stripWsPrefix :: "string \<Rightarrow> string" where
  "stripWsPrefix p =
     (if p = WORKSPACE_ROOT then ''''
      else if prefix (WORKSPACE_ROOT @ ''/'') p then drop (length WORKSPACE_ROOT) p
      else p)"

definition resolve :: "string \<Rightarrow> string \<Rightarrow> (fs_error, string) result" where
  "resolve path cwd =
     (if hasNul path then Inl (FsPathError ''path contains NUL'' EINVAL)
      else if hasNul cwd then Inl (FsPathError ''cwd contains NUL'' EINVAL)
      else
        rbind
          (if prefix ''/'' path then
             Inr (WS_SEGS @ js_split CHR ''/''
               (if path = WORKSPACE_ROOT \<or> prefix (WORKSPACE_ROOT @ ''/'') path
                then drop (length WORKSPACE_ROOT) path else path))
           else
             rbind (normalizeSegments (WS_SEGS @ js_split CHR ''/'' (stripWsPrefix cwd))
                      (length WS_SEGS) cwd [])
               (\<lambda>cwdSegs. Inr (cwdSegs @ js_split CHR ''/'' path)))
          (\<lambda>chain. rbind (normalizeSegments chain (length WS_SEGS) path [])
             (\<lambda>segs. Inr (js_join CHR ''/'' (drop (length WS_SEGS) segs)))))"

definition normPath :: "string \<Rightarrow> (fs_error, string) result" where
  "normPath input = resolve input WORKSPACE_ROOT"

definition resolveCwd :: "string \<Rightarrow> string \<Rightarrow> (fs_error, string) result" where
  "resolveCwd dir cwd =
     rbind (resolve dir cwd)
       (\<lambda>rel. Inr (if rel = '''' then WORKSPACE_ROOT else WORKSPACE_ROOT @ ''/'' @ rel))"

section \<open>Keys\<close>

definition HEX64 :: "string \<Rightarrow> bool" where
  "HEX64 h \<longleftrightarrow> length h = 64 \<and> list_all (\<lambda>c. c \<in> set ''0123456789abcdef'') h"

definition assertSha256 :: "string \<Rightarrow> (fs_error, unit) result" where
  "assertSha256 hash =
     (if HEX64 hash then Inr () else Inl (FsPathError (''not a sha256 hex: '' @ hash) EINVAL))"

definition rootPrefix :: "string \<Rightarrow> (fs_error, string) result" where
  "rootPrefix doId =
     (if doId = '''' then Inl (FsPathError ''doId required'' EINVAL)
      else Inr (''fs/'' @ doId @ ''/''))"

definition liveKey :: "string \<Rightarrow> string \<Rightarrow> (fs_error, string) result" where
  "liveKey doId path =
     rbind (normPath path) (\<lambda>p.
       if p = '''' then Inl (FsPathError ''cannot address the root as a file'' EISDIR)
       else rbind (rootPrefix doId) (\<lambda>r. Inr (r @ p)))"

definition liveDirPrefix :: "string \<Rightarrow> string \<Rightarrow> (fs_error, string) result" where
  "liveDirPrefix doId dir =
     rbind (normPath dir) (\<lambda>p. rbind (rootPrefix doId) (\<lambda>r.
       Inr (if p = '''' then r else r @ p @ ''/'')))"

definition casKey :: "string \<Rightarrow> string \<Rightarrow> (fs_error, string) result" where
  "casKey doId sha256 =
     rbind (assertSha256 sha256) (\<lambda>_. rbind (rootPrefix doId) (\<lambda>r.
       Inr (r @ ''cas/'' @ sha256)))"

definition manifestKey :: "string \<Rightarrow> (fs_error, string) result" where
  "manifestKey doId = rbind (rootPrefix doId) (\<lambda>r. Inr (r @ ''.engram/manifest.json''))"

section \<open>Proper segments\<close>

text \<open>What a segment of a resolved path looks like.\<close>

definition seg_ok :: "string \<Rightarrow> bool" where
  "seg_ok s \<longleftrightarrow> s \<noteq> '''' \<and> s \<noteq> ''.'' \<and> s \<noteq> ''..'' \<and> CHR ''/'' \<notin> set s \<and> \<not> hasNul s"

definition rel_ok :: "string \<Rightarrow> bool" where
  "rel_ok r \<longleftrightarrow> r = '''' \<or> list_all seg_ok (js_split CHR ''/'' r)"

lemma WS_SEGS_eq: "WS_SEGS = [''workspace'']"
  by code_simp

lemma seg_ok_workspace [simp]: "seg_ok ''workspace''"
  by code_simp

lemma hasNul_Nil [simp]: "\<not> hasNul []"
  by (simp add: hasNul_def)

lemma hasNul_Cons [simp]: "hasNul (c # s) \<longleftrightarrow> c = CHR 0x00 \<or> hasNul s"
  by (simp add: hasNul_def)

lemma hasNul_append [simp]: "hasNul (a @ b) \<longleftrightarrow> hasNul a \<or> hasNul b"
  by (simp add: hasNul_def)

lemma hasNul_set: "hasNul s \<longleftrightarrow> CHR 0x00 \<in> set s"
  by (auto simp: hasNul_def list_ex_iff)

lemma js_split_subset: "seg \<in> set (js_split c s) \<Longrightarrow> set seg \<subseteq> set s"
proof (induction s arbitrary: seg)
  case (Cons x xs)
  obtain h t where "js_split c xs = h # t" by (cases "js_split c xs") auto
  with Cons show ?case by (fastforce split: if_splits)
qed simp

lemma split_segs_clean:
  "\<not> hasNul s \<Longrightarrow> seg \<in> set (js_split CHR ''/'' s) \<Longrightarrow>
   CHR ''/'' \<notin> set seg \<and> \<not> hasNul seg"
  using js_split_no_sep js_split_subset by (fastforce simp: hasNul_set)

text \<open>The loop keeps the floor and collects only proper segments.\<close>

lemma normalizeSegments_keeps:
  assumes "normalizeSegments segs fl orig out = Inr r"
    and "fl \<le> length out"
    and "\<forall>s \<in> set segs. CHR ''/'' \<notin> set s \<and> \<not> hasNul s"
    and "\<forall>s \<in> set out. seg_ok s"
  shows "take fl r = take fl out \<and> fl \<le> length r \<and> (\<forall>s \<in> set r. seg_ok s)"
  using assms
proof (induction segs fl orig out rule: normalizeSegments.induct)
  case (2 seg segs fl orig out)
  show ?case
  proof (cases "seg = '''' \<or> seg = ''.''")
    case True then show ?thesis using 2 by simp
  next
    case plain: False
    show ?thesis
    proof (cases "seg = ''..''")
      case True
      with 2(4,5) plain have "fl < length out" by (auto split: if_splits)
      then have fl: "fl \<le> length (butlast out)" "take fl (butlast out) = take fl out"
        by (auto simp: butlast_conv_take)
      then show ?thesis
        using 2 True plain by (auto dest: in_set_butlastD split: if_splits)
    next
      case False
      then have "seg_ok seg" using 2(6) plain by (auto simp: seg_ok_def)
      then show ?thesis using 2 False plain by auto
    qed
  qed
qed simp

lemma normalizeSegments_ok_id:
  "list_all seg_ok segs \<Longrightarrow> normalizeSegments segs fl orig out = Inr (out @ segs)"
  by (induction segs arbitrary: out) (auto simp: seg_ok_def)

lemma normalizeSegments_append:
  "normalizeSegments (a @ b) fl orig out =
     rbind (normalizeSegments a fl orig out) (\<lambda>o'. normalizeSegments b fl orig o')"
  by (induction a fl orig out rule: normalizeSegments.induct) auto

lemma rel_ok_join: "\<forall>s \<in> set segs. seg_ok s \<Longrightarrow> rel_ok (js_join CHR ''/'' segs)"
  by (cases "segs = []") (auto simp: rel_ok_def list_all_iff js_split_join seg_ok_def)

lemma rel_ok_no_slash: "rel_ok r \<Longrightarrow> \<not> prefix ''/'' r"
  by (cases r) (auto simp: rel_ok_def seg_ok_def)

lemma join_no_nul: "list_all seg_ok segs \<Longrightarrow> \<not> hasNul (js_join CHR ''/'' segs)"
  by (induction "CHR ''/''" segs rule: js_join.induct) (auto simp: seg_ok_def hasNul_def)

lemma rel_ok_no_nul: "rel_ok r \<Longrightarrow> \<not> hasNul r"
  using join_no_nul[of "js_split CHR ''/'' r"]
  by (auto simp: rel_ok_def js_join_split)

section \<open>What resolution returns\<close>

lemma root_clean [simp]: "\<not> hasNul WORKSPACE_ROOT"
  by code_simp

lemma hasNul_drop: "hasNul (drop n s) \<Longrightarrow> hasNul s"
  by (auto simp: hasNul_set dest: in_set_dropD)

lemma hasNul_strip: "hasNul (stripWsPrefix s) \<Longrightarrow> hasNul s"
  by (auto simp: stripWsPrefix_def split: if_splits dest: hasNul_drop)

text \<open>The floor segment survives and what lies above it is proper.\<close>

lemma normalize_floor:
  assumes "normalizeSegments segs 1 orig (''workspace'' # pre) = Inr out"
    and "list_all seg_ok pre" and "\<forall>s \<in> set segs. CHR ''/'' \<notin> set s \<and> \<not> hasNul s"
  obtains rest where "out = ''workspace'' # rest" "list_all seg_ok rest"
proof -
  have "take 1 out = [''workspace'']" "1 \<le> length out" "\<forall>s \<in> set out. seg_ok s"
    using normalizeSegments_keeps[OF assms(1)] assms(2,3) by (auto simp: list_all_iff)
  then show thesis using that by (cases out) (auto simp: list_all_iff)
qed

lemma cwd_segments:
  assumes "\<not> hasNul cwd"
    and "normalizeSegments (js_split CHR ''/'' (stripWsPrefix cwd)) 1 cwd [''workspace''] = Inr cs"
  obtains rest where "cs = ''workspace'' # rest" "list_all seg_ok rest"
proof (rule normalize_floor[OF assms(2)])
  show "\<forall>s \<in> set (js_split CHR ''/'' (stripWsPrefix cwd)). CHR ''/'' \<notin> set s \<and> \<not> hasNul s"
    using assms(1) split_segs_clean hasNul_strip by blast
qed (use that in auto)

lemma resolve_abs:
  "prefix ''/'' p \<Longrightarrow> \<not> hasNul p \<Longrightarrow> \<not> hasNul cwd \<Longrightarrow>
   resolve p cwd = rbind (normalizeSegments (js_split CHR ''/'' (stripWsPrefix p)) 1 p [''workspace''])
     (\<lambda>segs. Inr (js_join CHR ''/'' (drop 1 segs)))"
  by (auto simp: resolve_def WS_SEGS_eq stripWsPrefix_def)

lemma resolve_relative:
  assumes "\<not> prefix ''/'' p" "\<not> hasNul p" "\<not> hasNul cwd"
    "normalizeSegments (js_split CHR ''/'' (stripWsPrefix cwd)) 1 cwd [''workspace''] = Inr (''workspace'' # rest)"
    "list_all seg_ok rest"
  shows "resolve p cwd =
    rbind (normalizeSegments (js_split CHR ''/'' p) 1 p (''workspace'' # rest))
      (\<lambda>segs. Inr (js_join CHR ''/'' (drop 1 segs)))"
  using assms by (simp add: resolve_def WS_SEGS_eq normalizeSegments_append normalizeSegments_ok_id)

lemma resolve_cwd_fails:
  assumes "\<not> prefix ''/'' p" "\<not> hasNul p" "\<not> hasNul cwd"
    "normalizeSegments (js_split CHR ''/'' (stripWsPrefix cwd)) 1 cwd [''workspace''] = Inl e"
  shows "resolve p cwd = Inl e"
  using assms by (simp add: resolve_def WS_SEGS_eq)

lemma resolve_clean: "resolve p cwd = Inr r \<Longrightarrow> \<not> hasNul p \<and> \<not> hasNul cwd"
  by (auto simp: resolve_def split: if_splits)

lemma floor_rel_ok:
  assumes "list_all seg_ok pre" "\<not> hasNul s"
    "normalizeSegments (js_split CHR ''/'' s) 1 p (''workspace'' # pre) = Inr out"
  shows "rel_ok (js_join CHR ''/'' (drop 1 out))"
proof (rule normalize_floor[OF assms(3,1)])
  show "\<forall>t \<in> set (js_split CHR ''/'' s). CHR ''/'' \<notin> set t \<and> \<not> hasNul t"
    using split_segs_clean assms(2) by blast
qed (auto intro: rel_ok_join simp: list_all_iff)

lemma resolve_rel_ok:
  assumes "resolve p cwd = Inr r" shows "rel_ok r"
proof (cases "prefix ''/'' p")
  case True
  then show ?thesis
    using assms resolve_clean[OF assms] hasNul_strip[of p] floor_rel_ok[of "[]" "stripWsPrefix p" p]
    by (auto simp: resolve_abs rbind_Inr_iff)
next
  case False
  note nul = resolve_clean[OF assms]
  obtain cs where cs: "normalizeSegments (js_split CHR ''/'' (stripWsPrefix cwd)) 1 cwd [''workspace''] = Inr cs"
    using assms False nul resolve_cwd_fails[of p cwd] by (metis Inl_Inr_False obj_sumE)
  obtain rest where "cs = ''workspace'' # rest" "list_all seg_ok rest"
    using cwd_segments nul cs by blast
  then show ?thesis
    using assms False nul cs floor_rel_ok[of rest p p]
    by (auto simp: resolve_relative rbind_Inr_iff)
qed

lemma stripWs_root [simp]: "stripWsPrefix WORKSPACE_ROOT = ''''"
  by (simp add: stripWsPrefix_def)

lemma normPath_rel:
  assumes "\<not> prefix ''/'' p" "\<not> hasNul p"
  shows "normPath p = rbind (normalizeSegments (js_split CHR ''/'' p) 1 p [''workspace''])
           (\<lambda>segs. Inr (js_join CHR ''/'' (drop 1 segs)))"
  using assms by (simp add: normPath_def resolve_def WS_SEGS_eq)

lemma normPath_rel_ok:
  assumes "rel_ok r" shows "normPath r = Inr r"
proof (cases "r = ''''")
  case True then show ?thesis by (simp add: normPath_rel)
next
  case False
  then have "list_all seg_ok (js_split CHR ''/'' r)" using assms by (simp add: rel_ok_def)
  then show ?thesis
    using assms by (simp add: normPath_rel rel_ok_no_slash rel_ok_no_nul normalizeSegments_ok_id js_join_split)
qed

lemma resolve_workspace_rel:
  assumes "rel_ok r" "\<not> hasNul cwd"
  shows "resolve (WORKSPACE_ROOT @ ''/'' @ r) cwd = Inr r"
proof -
  let ?p = "WORKSPACE_ROOT @ ''/'' @ r"
  have "resolve ?p cwd =
    rbind (normalizeSegments (js_split CHR ''/'' (''/'' @ r)) 1 ?p [''workspace''])
      (\<lambda>segs. Inr (js_join CHR ''/'' (drop 1 segs)))"
    using assms
    by (subst resolve_abs) (auto simp: WORKSPACE_ROOT_def stripWsPrefix_def rel_ok_no_nul)
  moreover have "normalizeSegments (js_split CHR ''/'' (''/'' @ r)) 1 ?p [''workspace'']
      = Inr (''workspace'' # (if r = '''' then [] else js_split CHR ''/'' r))"
    using assms(1) by (auto simp: rel_ok_def normalizeSegments_ok_id)
  ultimately show ?thesis by (auto simp: js_join_split)
qed

lemma resolve_root_cwd:
  assumes "\<not> hasNul cwd"
  shows "resolve WORKSPACE_ROOT cwd = Inr ''''"
  using assms by (subst resolve_abs) (simp_all, simp add: WORKSPACE_ROOT_def)

section \<open>The shell reading of the working directory\<close>

definition cwd_of :: "string \<Rightarrow> string" where
  "cwd_of rel = (if rel = '''' then WORKSPACE_ROOT else WORKSPACE_ROOT @ ''/'' @ rel)"

lemma resolveCwd_alt: "resolveCwd d c = rbind (resolve d c) (\<lambda>rel. Inr (cwd_of rel))"
  by (simp add: resolveCwd_def cwd_of_def)

lemma cwd_of_clean: "rel_ok rel \<Longrightarrow> \<not> hasNul (cwd_of rel)"
  by (auto simp: cwd_of_def rel_ok_no_nul)

lemma cwd_of_segments:
  assumes "rel_ok rel"
  shows "normalizeSegments (js_split CHR ''/'' (stripWsPrefix (cwd_of rel))) 1 w [''workspace'']
    = Inr (''workspace'' # (if rel = '''' then [] else js_split CHR ''/'' rel))"
proof (cases "rel = ''''")
  case True then show ?thesis by (simp add: cwd_of_def)
next
  case False
  have "stripWsPrefix (cwd_of rel) = ''/'' @ rel"
    using False by (auto simp: cwd_of_def stripWsPrefix_def WORKSPACE_ROOT_def)
  then show ?thesis using False assms by (simp add: rel_ok_def normalizeSegments_ok_id)
qed

lemma normalize_loop_orig:
  "normalizeSegments segs fl o1 out = Inr r \<longleftrightarrow> normalizeSegments segs fl o2 out = Inr r"
  by (induction segs fl o1 out rule: normalizeSegments.induct) auto

lemma resolve_in_cwd:
  assumes "rel_ok rel" "rel \<noteq> ''''" "\<not> prefix ''/'' p"
  shows "resolve p (cwd_of rel) = Inr r \<longleftrightarrow> normPath (rel @ ''/'' @ p) = Inr r"
proof (cases "hasNul p")
  case True
  then have "hasNul (rel @ ''/'' @ p)" by simp
  with True show ?thesis using resolve_clean unfolding normPath_def by blast
next
  case False
  let ?segs = "js_split CHR ''/'' rel" and ?j = "\<lambda>segs. js_join CHR ''/'' (drop 1 segs)"
  have segs: "list_all seg_ok ?segs" using assms by (simp add: rel_ok_def)
  have "resolve p (cwd_of rel) = rbind (normalizeSegments (js_split CHR ''/'' p) 1 p (''workspace'' # ?segs))
      (\<lambda>segs. Inr (?j segs))"
    using assms False segs
    by (intro resolve_relative) (auto simp: cwd_of_clean cwd_of_segments simp del: One_nat_def)
  moreover have "\<not> prefix ''/'' (rel @ ''/'' @ p)"
    using assms by (cases rel) (auto dest: rel_ok_no_slash)
  then have "normPath (rel @ ''/'' @ p) =
      rbind (normalizeSegments (js_split CHR ''/'' p) 1 (rel @ ''/'' @ p) (''workspace'' # ?segs))
        (\<lambda>segs. Inr (?j segs))"
    using assms False segs
    by (simp add: normPath_rel rel_ok_no_nul js_split_append_sep_gen normalizeSegments_append
        normalizeSegments_ok_id)
  ultimately show ?thesis
    using normalize_loop_orig[of "js_split CHR ''/'' p" 1 p "''workspace'' # ?segs" _ "rel @ ''/'' @ p"]
    by (auto simp: rbind_Inr_iff)
qed

section \<open>Keys of sessions\<close>

lemma liveKey_Inr:
  "liveKey d p = Inr k \<longleftrightarrow>
   (\<exists>r. normPath p = Inr r \<and> r \<noteq> '''' \<and> d \<noteq> '''' \<and> k = ''fs/'' @ d @ ''/'' @ r)"
  by (auto simp: liveKey_def rootPrefix_def rbind_Inr_iff)

lemma liveDirPrefix_Inr:
  "liveDirPrefix d p = Inr k \<longleftrightarrow>
   (\<exists>r. normPath p = Inr r \<and> d \<noteq> '''' \<and>
        k = ''fs/'' @ d @ ''/'' @ (if r = '''' then '''' else r @ ''/''))"
  by (auto simp: liveDirPrefix_def rootPrefix_def rbind_Inr_iff)

lemma session_split:
  "CHR ''/'' \<notin> set d \<Longrightarrow> CHR ''/'' \<notin> set d' \<Longrightarrow>
   ''fs/'' @ d @ ''/'' @ r = ''fs/'' @ d' @ ''/'' @ r' \<longleftrightarrow> d = d' \<and> r = r'"
  by (simp add: append_sep_inject)

lemma HEX64_seg: "HEX64 h \<Longrightarrow> seg_ok h"
proof -
  assume h: "HEX64 h"
  have "CHR ''/'' \<notin> set ''0123456789abcdef''" "CHR 0x00 \<notin> set ''0123456789abcdef''"
    by code_simp+
  then have "CHR ''/'' \<notin> set h" "\<not> hasNul h"
    using h unfolding HEX64_def list_all_iff hasNul_set by blast+
  moreover have "length h = 64" using h by (simp add: HEX64_def)
  then have "h \<noteq> ''''" "h \<noteq> ''.''" "h \<noteq> ''..''" by (auto simp del: length_greater_0_conv)
  ultimately show ?thesis by (simp add: seg_ok_def)
qed

section \<open>Properties\<close>

text \<open>C21. Confinement: whatever the path and working directory, a successful resolution is the
  workspace root or a slash-joined sequence of proper segments: none empty, none a dot or a double
  dot, none holding a slash or a NUL.  No path leaves the session's root.\<close>

theorem resolve_confined:
  assumes "resolve path cwd = Inr r"
  shows "r = '''' \<or> (\<forall>s \<in> set (js_split CHR ''/'' r).
     s \<noteq> '''' \<and> s \<noteq> ''.'' \<and> s \<noteq> ''..'' \<and> CHR ''/'' \<notin> set s \<and> CHR 0x00 \<notin> set s)"
  using resolve_rel_ok[OF assms] by (auto simp: rel_ok_def list_all_iff seg_ok_def hasNul_set)

theorem resolve_confined_witness:
  "resolve ''b/../c'' ''/workspace/a'' = Inr ''a/c'' \<and> ''c'' \<in> set (js_split CHR ''/'' ''a/c'') \<and>
   ''c'' \<noteq> ''..'' \<and> CHR ''/'' \<notin> set ''c''"
proof -
  have r: "resolve ''b/../c'' ''/workspace/a'' = Inr ''a/c''" by code_simp
  have c: "''c'' \<in> set (js_split CHR ''/'' ''a/c'')" by code_simp
  from resolve_confined[OF r] have "\<forall>s \<in> set (js_split CHR ''/'' ''a/c''). s \<noteq> ''..'' \<and> CHR ''/'' \<notin> set s"
    by simp
  with r c show ?thesis by blast
qed

text \<open>Canonical form: a resolved path resolves to itself, both as the bare relative form that
  keys the store and when it is written out below the workspace root, from any working
  directory.\<close>

theorem resolve_canonical:
  assumes "resolve path cwd = Inr r" and "\<not> hasNul cwd'"
  shows "normPath r = Inr r \<and> resolve (WORKSPACE_ROOT @ ''/'' @ r) cwd' = Inr r"
  using resolve_rel_ok[OF assms(1)] assms(2) by (blast intro: normPath_rel_ok resolve_workspace_rel)

theorem resolve_canonical_witness:
  "normPath ''x/y'' = Inr ''x/y'' \<and> resolve (WORKSPACE_ROOT @ ''/'' @ ''x/y'') ''q'' = Inr ''x/y''"
proof -
  have "resolve ''//x/./y/'' ''q'' = Inr ''x/y''" "\<not> hasNul ''q''" by code_simp+
  from resolve_canonical[OF this] show ?thesis .
qed

text \<open>Changing directory is what a shell does: after a successful \<open>chdir\<close> to \<open>d\<close> a
  relative path resolves as if it had been written after \<open>d\<close>, and the stored directory is
  canonical, so changing to it again changes nothing.\<close>

theorem chdir_then_resolve:
  assumes "resolve d cwd = Inr rel" and "\<not> prefix ''/'' p"
  shows "resolveCwd d cwd = Inr (cwd_of rel) \<and>
         resolveCwd (cwd_of rel) (cwd_of rel) = Inr (cwd_of rel) \<and>
         (resolve p (cwd_of rel) = Inr r \<longleftrightarrow>
          normPath (if rel = '''' then p else rel @ ''/'' @ p) = Inr r)"
proof -
  note r = resolve_rel_ok[OF assms(1)]
  have "resolve (cwd_of rel) (cwd_of rel) = Inr rel"
    using resolve_workspace_rel[OF r cwd_of_clean[OF r]] resolve_root_cwd[of WORKSPACE_ROOT]
    by (auto simp: cwd_of_def)
  moreover have "resolve p (cwd_of rel) = Inr r \<longleftrightarrow>
         normPath (if rel = '''' then p else rel @ ''/'' @ p) = Inr r"
    using resolve_in_cwd[OF r _ assms(2)] by (simp add: cwd_of_def normPath_def)
  ultimately show ?thesis using assms(1) by (simp add: resolveCwd_alt)
qed

theorem chdir_then_resolve_witness:
  "resolve ''../c'' (cwd_of ''a/b'') = Inr ''a/c'' \<longleftrightarrow> normPath ''a/b/../c'' = Inr ''a/c''"
proof -
  have "resolve ''b'' ''/workspace/a'' = Inr ''a/b''" "\<not> prefix ''/'' ''../c''" by code_simp+
  from chdir_then_resolve[OF this, of "''a/c''"] show ?thesis by simp
qed

text \<open>Session isolation: two sessions whose identifiers hold no slash (Durable Object ids are
  hexadecimal) never share an object key, and within a session the key determines the resolved
  path.\<close>

theorem live_keys_isolated:
  assumes "liveKey d p = Inr k" "liveKey d' p' = Inr k"
    and "CHR ''/'' \<notin> set d" "CHR ''/'' \<notin> set d'"
  shows "d = d' \<and> normPath p = normPath p'"
  using assms by (auto simp: liveKey_Inr session_split append_sep_inject)

theorem live_keys_isolated_witness:
  "(''d1''::string) = ''d1'' \<and> normPath ''/a'' = normPath ''./a''"
proof (rule live_keys_isolated)
  show "liveKey ''d1'' ''/a'' = Inr ''fs/d1/a''" "liveKey ''d1'' ''./a'' = Inr ''fs/d1/a''"
    by code_simp+
qed auto

end
