(* ===== verification/Json.thy ===== *)
theory Json
  imports Prelude "HOL-Library.Word"
begin

text \<open>
  JSON values and \<open>JSON.stringify\<close> (no indentation), decimal and hexadecimal rendering of numbers,
  and byte strings: the standard-library routines the program's components share.  An object is an
  association list in insertion order; an undefined member is absent.  \<open>JSON.parse\<close> is not
  modelled: components take parsed values.
\<close>

type_synonym bytes = "8 word list"

section \<open>Rendering numbers\<close>

definition digit_char :: "nat \<Rightarrow> char" where
  "digit_char d = (if d < 10 then char_of (48 + d) else char_of (87 + d))"

text \<open>\<open>n.toString(base)\<close> for a natural number and a base between 2 and 36.\<close>

fun nat_digits :: "nat \<Rightarrow> nat \<Rightarrow> string" where
  "nat_digits base n =
     (if base < 2 \<or> n < base then [digit_char n]
      else nat_digits base (n div base) @ [digit_char (n mod base)])"

declare nat_digits.simps [simp del]

definition nat_str :: "nat \<Rightarrow> string" where
  "nat_str n = nat_digits 10 n"

definition int_str :: "int \<Rightarrow> string" where
  "int_str i = (if i < 0 then ''-'' @ nat_str (nat (- i)) else nat_str (nat i))"

definition padStart :: "nat \<Rightarrow> char \<Rightarrow> string \<Rightarrow> string" where
  "padStart w c s = replicate (w - length s) c @ s"

definition hex2 :: "8 word \<Rightarrow> string" where
  "hex2 b = padStart 2 CHR ''0'' (nat_digits 16 (unat b))"

lemma nat_digits_nonempty [simp]: "nat_digits b n \<noteq> []"
  by (subst nat_digits.simps) simp

definition hex_chars :: string where
  "hex_chars = ''0123456789abcdef''"

lemma digit_char_hex: "d < 16 \<Longrightarrow> digit_char d \<in> set hex_chars"
proof -
  assume "d < 16"
  have "list_all (\<lambda>k. digit_char k \<in> set hex_chars) [0..<16]" by code_simp
  with \<open>d < 16\<close> show ?thesis by (simp add: list_all_iff)
qed

lemma nat_digits_16:
  "n < 256 \<Longrightarrow> nat_digits 16 n =
     (if n < 16 then [digit_char n] else [digit_char (n div 16), digit_char (n mod 16)])"
  by (subst nat_digits.simps, subst nat_digits.simps) (auto simp: nat_digits.simps)

lemma hex2_digits: "length (hex2 b) = 2 \<and> set (hex2 b) \<subseteq> set hex_chars"
proof -
  have "unat b < 2 ^ LENGTH(8)" by (rule unsigned_less)
  then have b: "unat b < 256" by simp
  have z: "CHR ''0'' \<in> set hex_chars" by code_simp
  have "unat b div 16 < 16" "unat b mod 16 < 16" using b by auto
  then show ?thesis using b z
    by (auto simp: hex2_def padStart_def nat_digits_16 digit_char_hex numeral_2_eq_2)
qed

section \<open>JSON\<close>

datatype json =
    JNull
  | JBool bool
  | JNum int
  | JStr string
  | JArr "json list"
  | JObj "(string \<times> json) list"

definition json_escape_char :: "char \<Rightarrow> string" where
  "json_escape_char c =
     (let n = of_char c :: nat in
      if c = CHR 0x22 then [CHR 0x5C, CHR 0x22]
      else if c = CHR 0x5C then [CHR 0x5C, CHR 0x5C]
      else if n = 8 then [CHR 0x5C, CHR ''b'']
      else if n = 9 then [CHR 0x5C, CHR ''t'']
      else if n = 10 then [CHR 0x5C, CHR ''n'']
      else if n = 12 then [CHR 0x5C, CHR ''f'']
      else if n = 13 then [CHR 0x5C, CHR ''r'']
      else if n < 32 then CHR 0x5C # ''u'' @ padStart 4 CHR ''0'' (nat_digits 16 n)
      else [c])"

definition json_quote :: "string \<Rightarrow> string" where
  "json_quote s = CHR 0x22 # concat (map json_escape_char s) @ [CHR 0x22]"

fun json_stringify :: "json \<Rightarrow> string" where
  "json_stringify JNull = ''null''"
| "json_stringify (JBool b) = (if b then ''true'' else ''false'')"
| "json_stringify (JNum i) = int_str i"
| "json_stringify (JStr s) = json_quote s"
| "json_stringify (JArr xs) = ''['' @ js_join CHR '','' (map json_stringify xs) @ '']''"
| "json_stringify (JObj ms) =
     ''{'' @ js_join CHR '','' (map (\<lambda>(k, v). json_quote k @ '':'' @ json_stringify v) ms) @ ''}''"

fun json_get :: "string \<Rightarrow> json \<Rightarrow> json option" where
  "json_get k (JObj ms) = map_of ms k"
| "json_get k _ = None"

section \<open>Parsing numbers\<close>

definition digit_val :: "char \<Rightarrow> nat option" where
  "digit_val c =
     (let n = of_char c :: nat in
      if 48 \<le> n \<and> n \<le> 57 then Some (n - 48)
      else if 97 \<le> n \<and> n \<le> 122 then Some (n - 87)
      else if 65 \<le> n \<and> n \<le> 90 then Some (n - 55)
      else None)"

definition is_digit :: "nat \<Rightarrow> char \<Rightarrow> bool" where
  "is_digit base c \<longleftrightarrow> (case digit_val c of None \<Rightarrow> False | Some d \<Rightarrow> d < base)"

text \<open>\<open>parseInt(s, base)\<close> on a string of digits of that base.\<close>

definition parse_digits :: "nat \<Rightarrow> string \<Rightarrow> nat" where
  "parse_digits base s = foldl (\<lambda>acc c. acc * base + (case digit_val c of None \<Rightarrow> 0 | Some d \<Rightarrow> d)) 0 s"

lemma digit_val_char: "d < 36 \<Longrightarrow> digit_val (digit_char d) = Some d"
  by (cases "d < 10") (simp_all add: digit_val_def digit_char_def Let_def)

lemma nat_digits_snoc:
  "2 \<le> base \<Longrightarrow> base \<le> n \<Longrightarrow> nat_digits base n = nat_digits base (n div base) @ [digit_char (n mod base)]"
  by (subst nat_digits.simps) simp

lemma nat_digits_small: "n < base \<Longrightarrow> nat_digits base n = [digit_char n]"
  by (subst nat_digits.simps) simp

lemma parse_nat_digits:
  "2 \<le> base \<Longrightarrow> base \<le> 36 \<Longrightarrow> parse_digits base (nat_digits base n) = n"
proof (induction base n rule: nat_digits.induct)
  case (1 base n)
  show ?case
  proof (cases "n < base")
    case True
    then show ?thesis using 1 by (simp add: nat_digits_small parse_digits_def digit_val_char)
  next
    case False
    then have "parse_digits base (nat_digits base (n div base)) = n div base" using 1 by simp
    moreover have "n mod base < 36" using 1(2,3) by (meson less_le_trans mod_less_divisor zero_less_numeral order_less_le_trans)
    ultimately show ?thesis
      using False 1 by (simp add: nat_digits_snoc parse_digits_def digit_val_char)
  qed
qed

lemma nat_digits_are_digits:
  "2 \<le> base \<Longrightarrow> base \<le> 36 \<Longrightarrow> c \<in> set (nat_digits base n) \<Longrightarrow> is_digit base c"
proof (induction base n rule: nat_digits.induct)
  case (1 base n)
  have d: "d < base \<Longrightarrow> is_digit base (digit_char d)" for d
    using 1 by (simp add: is_digit_def digit_val_char)
  show ?case
  proof (cases "n < base")
    case True then show ?thesis using 1 d by (simp add: nat_digits_small)
  next
    case False
    moreover have "n mod base < base" using 1 by simp
    ultimately show ?thesis using 1 d by (auto simp: nat_digits_snoc)
  qed
qed

lemma nat_digits_head:
  "2 \<le> base \<Longrightarrow> base \<le> 36 \<Longrightarrow> 0 < n \<Longrightarrow> \<exists>d. 0 < d \<and> d < base \<and> hd (nat_digits base n) = digit_char d"
proof (induction base n rule: nat_digits.induct)
  case (1 base n)
  show ?case
  proof (cases "n < base")
    case True then show ?thesis using 1 by (auto simp: nat_digits_small)
  next
    case False
    then have "0 < n div base" using 1(2) by (simp add: div_greater_zero_iff)
    then show ?thesis using False 1 by (simp add: nat_digits_snoc)
  qed
qed

section \<open>Trimming, 32-bit integers, truth and strings\<close>

text \<open>\<open>\s\<close> and the characters \<open>trim\<close> removes.\<close>

definition js_space :: "char \<Rightarrow> bool" where
  "js_space c = (let n = of_char c :: int in 9 \<le> n \<and> n \<le> 13 \<or> n = 32 \<or> n = 160)"

definition js_trim :: "string \<Rightarrow> string" where
  "js_trim s = rev (dropWhile js_space (rev (dropWhile js_space s)))"

text \<open>\<open>x | 0\<close> on an integer: the low 32 bits, signed.\<close>

definition to_int32 :: "int \<Rightarrow> int" where
  "to_int32 n = sint (word_of_int n :: 32 word)"

definition to_uint32 :: "int \<Rightarrow> int" where
  "to_uint32 n = uint (word_of_int n :: 32 word)"

text \<open>Whether a value is true in a condition, and \<open>String(v)\<close>.\<close>

fun js_truthy :: "json \<Rightarrow> bool" where
  "js_truthy JNull = False"
| "js_truthy (JBool b) = b"
| "js_truthy (JNum n) = (n \<noteq> 0)"
| "js_truthy (JStr s) = (s \<noteq> [])"
| "js_truthy (JArr xs) = True"
| "js_truthy (JObj ms) = True"

fun js_String :: "json \<Rightarrow> string" where
  "js_String JNull = ''null''"
| "js_String (JBool b) = (if b then ''true'' else ''false'')"
| "js_String (JNum n) = int_str n"
| "js_String (JStr s) = s"
| "js_String (JArr xs) = js_join CHR '','' (map (\<lambda>x. if x = JNull then [] else js_String x) xs)"
| "js_String (JObj ms) = ''[object Object]''"

text \<open>\<open>o.k\<close> on an optional value, \<open>undefined\<close> and \<open>null\<close> both read as \<open>None\<close> where the code only tests truth.\<close>

definition js_field :: "string \<Rightarrow> json option \<Rightarrow> json option" where
  "js_field k v = (case v of None \<Rightarrow> None
     | Some j \<Rightarrow> (case json_get k j of Some w \<Rightarrow> if js_truthy w then Some w else None | None \<Rightarrow> None))"

text \<open>An optional member.\<close>

definition opt_field :: "string \<Rightarrow> json option \<Rightarrow> (string \<times> json) list" where
  "opt_field k v = (case v of None \<Rightarrow> [] | Some x \<Rightarrow> [(k, x)])"

end
