(* ===== verification/FsStore.thy ===== *)
theory FsStore
  imports FsKeys Json "HOL-Library.List_Lexorder" "HOL-Library.Char_ord"
begin

text \<open>
  The file substrate \<open>packages/engram-fs/src/index.ts\<close> over the two interfaces of \<open>types.ts\<close>.
  The object bucket and the manifest table are reached through records of operations, one field per
  method of the TypeScript interface; the locales \<open>object_store\<close> and \<open>manifest_store\<close> state
  what a provider promises, and the client's lemmas are proved once over both.  The providers of the
  repository that the sources show, \<open>FakeR2\<close> and \<open>FakeManifest\<close> of \<open>test/fakes.ts\<close>, are
  modelled and interpreted.  The text codec and the SHA-256 digest of the Web platform are
  parameters, collected in a record.  An \<open>await\<close> is sequential composition: an operation of the
  model is a whole method call with no other call in between.
\<close>

section \<open>Interfaces of \<open>types.ts\<close>\<close>

datatype fs_origin = OCell | OFrame | OContainer | OWorker

datatype write_mode = Direct | Txn

record r2_body =
  rb_bytes :: bytes
  rb_etag :: string
  rb_total :: nat

record r2_listed =
  rl_key :: string
  rl_size :: nat
  rl_etag :: string

record 'r r2_ops =
  r2_get :: "'r \<Rightarrow> string \<Rightarrow> int \<Rightarrow> int option \<Rightarrow> r2_body option"
  r2_put :: "'r \<Rightarrow> string \<Rightarrow> bytes \<Rightarrow> string \<times> 'r"
  r2_delete :: "'r \<Rightarrow> string \<Rightarrow> 'r"
  r2_list :: "'r \<Rightarrow> string \<Rightarrow> r2_listed list"
  r2_head :: "'r \<Rightarrow> string \<Rightarrow> (string \<times> nat) option"

record fs_entry =
  fe_path :: string
  fe_r2Key :: string
  fe_size :: nat
  fe_etag :: string
  fe_sha256 :: "string option"
  fe_cell :: nat
  fe_createdMs :: nat
  fe_origin :: fs_origin

record 'm manifest_ops =
  mf_get :: "'m \<Rightarrow> string \<Rightarrow> fs_entry option"
  mf_upsert :: "'m \<Rightarrow> fs_entry \<Rightarrow> 'm"
  mf_delete :: "'m \<Rightarrow> string \<Rightarrow> 'm"
  mf_list :: "'m \<Rightarrow> string \<Rightarrow> fs_entry list"
  mf_bumpVersion :: "'m \<Rightarrow> nat \<times> 'm"
  mf_version :: "'m \<Rightarrow> nat"

record pointer =
  ptr_path :: string
  ptr_etag :: string
  ptr_size :: nat
  ptr_sha256 :: "string option"
  ptr_preview :: "string option"

text \<open>The Web platform: \<open>TextEncoder\<close>, \<open>TextDecoder\<close> (which may throw) and the SHA-256 digest.\<close>

record codec =
  cd_encode :: "string \<Rightarrow> bytes"
  cd_decode :: "bytes \<Rightarrow> string option"
  cd_digest :: "bytes \<Rightarrow> bytes"

datatype fs_data = Text string | Raw bytes

section \<open>The session's file system\<close>

record staged_write =
  sw_path :: string
  sw_bytes :: bytes
  sw_origin :: fs_origin

record ('r, 'm) engram_fs =
  efs_r2 :: 'r
  efs_manifest :: 'm
  efs_doId :: string
  efs_cell :: nat
  efs_nowMs :: nat
  efs_previewBytes :: nat
  efs_cwd :: string
  efs_staged :: "(string, staged_write) omap"

definition toBytes :: "codec \<Rightarrow> fs_data \<Rightarrow> bytes" where
  "toBytes C data = (case data of Text s \<Rightarrow> cd_encode C s | Raw b \<Rightarrow> b)"

definition sha256Hex :: "codec \<Rightarrow> bytes \<Rightarrow> string" where
  "sha256Hex C b = concat (map hex2 (cd_digest C b))"

definition new_EngramFs ::
  "'r \<Rightarrow> 'm \<Rightarrow> string \<Rightarrow> nat option \<Rightarrow> nat option \<Rightarrow> nat option \<Rightarrow> string option \<Rightarrow>
   (fs_error, ('r, 'm) engram_fs) result" where
  "new_EngramFs r2 manifest doId cell nowMs previewBytes cwd =
     rbind (resolveCwd (case cwd of None \<Rightarrow> WORKSPACE_ROOT | Some c \<Rightarrow> c) WORKSPACE_ROOT) (\<lambda>w.
       if doId = '''' then Inl (FsPathError ''doId required'' EINVAL)
       else Inr \<lparr>efs_r2 = r2, efs_manifest = manifest, efs_doId = doId,
         efs_cell = (case cell of None \<Rightarrow> 0 | Some c \<Rightarrow> c),
         efs_nowMs = (case nowMs of None \<Rightarrow> 1700000000000 | Some t \<Rightarrow> t),
         efs_previewBytes = (case previewBytes of None \<Rightarrow> 256 | Some n \<Rightarrow> n),
         efs_cwd = w, efs_staged = []\<rparr>)"

definition chdir :: "string \<Rightarrow> ('r, 'm) engram_fs \<Rightarrow> (fs_error, string \<times> ('r, 'm) engram_fs) result" where
  "chdir dir fs = rbind (resolveCwd dir (efs_cwd fs)) (\<lambda>w. Inr (w, fs\<lparr>efs_cwd := w\<rparr>))"

definition fs_rel :: "('r, 'm) engram_fs \<Rightarrow> string \<Rightarrow> (fs_error, string) result" where
  "fs_rel fs path = resolve path (efs_cwd fs)"

definition fs_preview :: "codec \<Rightarrow> ('r, 'm) engram_fs \<Rightarrow> bytes \<Rightarrow> string" where
  "fs_preview C fs b =
     (case cd_decode C (js_subarray b 0 (Some (int (efs_previewBytes fs)))) of
        Some s \<Rightarrow> s | None \<Rightarrow> '''')"

definition fs_pointer :: "codec \<Rightarrow> ('r, 'm) engram_fs \<Rightarrow> fs_entry \<Rightarrow> bytes option \<Rightarrow> pointer" where
  "fs_pointer C fs e b =
     \<lparr>ptr_path = fe_path e, ptr_etag = fe_etag e, ptr_size = fe_size e, ptr_sha256 = fe_sha256 e,
      ptr_preview = map_option (fs_preview C fs) b\<rparr>"

text \<open>\<open>commitOne\<close>: put the body, then upsert its row.\<close>

definition commitOne ::
  "'r r2_ops \<Rightarrow> 'm manifest_ops \<Rightarrow> string \<Rightarrow> bytes \<Rightarrow> fs_origin \<Rightarrow> ('r, 'm) engram_fs \<Rightarrow>
   (fs_error, fs_entry \<times> ('r, 'm) engram_fs) result" where
  "commitOne R M path b origin fs =
     rbind (liveKey (efs_doId fs) path) (\<lambda>key.
       let (etag, r') = r2_put R (efs_r2 fs) key b;
           entry = \<lparr>fe_path = path, fe_r2Key = key, fe_size = length b, fe_etag = etag,
                    fe_sha256 = None, fe_cell = efs_cell fs, fe_createdMs = efs_nowMs fs,
                    fe_origin = origin\<rparr>
       in Inr (entry, fs\<lparr>efs_r2 := r', efs_manifest := mf_upsert M (efs_manifest fs) entry\<rparr>))"

definition bump :: "'m manifest_ops \<Rightarrow> ('r, 'm) engram_fs \<Rightarrow> ('r, 'm) engram_fs" where
  "bump M fs = fs\<lparr>efs_manifest := snd (mf_bumpVersion M (efs_manifest fs))\<rparr>"

definition writeFile ::
  "'r r2_ops \<Rightarrow> 'm manifest_ops \<Rightarrow> codec \<Rightarrow> string \<Rightarrow> fs_data \<Rightarrow> write_mode option \<Rightarrow> fs_origin option \<Rightarrow>
   ('r, 'm) engram_fs \<Rightarrow> (fs_error, pointer \<times> ('r, 'm) engram_fs) result" where
  "writeFile R M C path data mode origin fs =
     rbind (fs_rel fs path) (\<lambda>p.
       if p = '''' then Inl (FsPathError ''cannot write the root'' EISDIR)
       else
         let b = toBytes C data;
             orig = (case origin of None \<Rightarrow> OFrame | Some x \<Rightarrow> x)
         in if mode = Some Txn then
              Inr (\<lparr>ptr_path = p, ptr_etag = ''(staged)'', ptr_size = length b, ptr_sha256 = None,
                    ptr_preview = Some (fs_preview C fs b)\<rparr>,
                   fs\<lparr>efs_staged := AList.update p \<lparr>sw_path = p, sw_bytes = b, sw_origin = orig\<rparr>
                                     (efs_staged fs)\<rparr>)
            else
              rbind (commitOne R M p b orig fs) (\<lambda>(entry, fs1).
                Inr (fs_pointer C fs entry (Some b), bump M fs1)))"

definition readFile ::
  "'r r2_ops \<Rightarrow> 'm manifest_ops \<Rightarrow> string \<Rightarrow> int option \<Rightarrow> int option \<Rightarrow> ('r, 'm) engram_fs \<Rightarrow>
   (fs_error, bytes option) result" where
  "readFile R M path offset len fs =
     rbind (fs_rel fs path) (\<lambda>p. Inr
       (let off = (case offset of None \<Rightarrow> 0 | Some i \<Rightarrow> i) in
        case map_of (efs_staged fs) p of
          Some st \<Rightarrow> Some (js_subarray (sw_bytes st) off (map_option (\<lambda>l. off + l) len))
        | None \<Rightarrow>
            (case mf_get M (efs_manifest fs) p of
               None \<Rightarrow> None
             | Some entry \<Rightarrow> map_option rb_bytes (r2_get R (efs_r2 fs) (fe_r2Key entry) off len))))"

definition readFileText ::
  "'r r2_ops \<Rightarrow> 'm manifest_ops \<Rightarrow> codec \<Rightarrow> string \<Rightarrow> ('r, 'm) engram_fs \<Rightarrow>
   (fs_error, string option option) result" where
  "readFileText R M C path fs =
     rbind (readFile R M path None None fs) (\<lambda>b. Inr (map_option (cd_decode C) b))"

definition stat ::
  "'m manifest_ops \<Rightarrow> string \<Rightarrow> ('r, 'm) engram_fs \<Rightarrow> (fs_error, fs_entry option) result" where
  "stat M path fs =
     rbind (fs_rel fs path) (\<lambda>p.
       case map_of (efs_staged fs) p of
         Some st \<Rightarrow> rbind (liveKey (efs_doId fs) p) (\<lambda>key. Inr (Some
           \<lparr>fe_path = p, fe_r2Key = key, fe_size = length (sw_bytes st), fe_etag = ''(staged)'',
            fe_sha256 = None, fe_cell = efs_cell fs, fe_createdMs = efs_nowMs fs,
            fe_origin = sw_origin st\<rparr>))
       | None \<Rightarrow> Inr (mf_get M (efs_manifest fs) p))"

definition ls ::
  "'m manifest_ops \<Rightarrow> string \<Rightarrow> ('r, 'm) engram_fs \<Rightarrow> (fs_error, fs_entry list) result" where
  "ls M dir fs = rbind (fs_rel fs dir) (\<lambda>p. Inr (mf_list M (efs_manifest fs) p))"

definition deleteFile ::
  "'r r2_ops \<Rightarrow> 'm manifest_ops \<Rightarrow> string \<Rightarrow> ('r, 'm) engram_fs \<Rightarrow>
   (fs_error, bool \<times> ('r, 'm) engram_fs) result" where
  "deleteFile R M path fs =
     rbind (fs_rel fs path) (\<lambda>p.
       let fs1 = fs\<lparr>efs_staged := AList.delete p (efs_staged fs)\<rparr> in
       case mf_get M (efs_manifest fs1) p of
         None \<Rightarrow> Inr (False, fs1)
       | Some entry \<Rightarrow>
           Inr (True, bump M (fs1\<lparr>efs_r2 := r2_delete R (efs_r2 fs1) (fe_r2Key entry),
                                  efs_manifest := mf_delete M (efs_manifest fs1) p\<rparr>)))"

definition putCas ::
  "'r r2_ops \<Rightarrow> codec \<Rightarrow> fs_data \<Rightarrow> ('r, 'm) engram_fs \<Rightarrow>
   (fs_error, (string \<times> pointer) \<times> ('r, 'm) engram_fs) result" where
  "putCas R C data fs =
     (let b = toBytes C data; hash = sha256Hex C b in
      rbind (casKey (efs_doId fs) hash) (\<lambda>key.
        let (etag, fs1) =
              (case r2_head R (efs_r2 fs) key of
                 Some (etag, _) \<Rightarrow> (etag, fs)
               | None \<Rightarrow> (let (etag, r') = r2_put R (efs_r2 fs) key b in (etag, fs\<lparr>efs_r2 := r'\<rparr>)))
        in Inr ((hash, \<lparr>ptr_path = ''cas/'' @ hash, ptr_etag = etag, ptr_size = length b,
                        ptr_sha256 = Some hash, ptr_preview = Some (fs_preview C fs b)\<rparr>), fs1)))"

definition readCas ::
  "'r r2_ops \<Rightarrow> string \<Rightarrow> ('r, 'm) engram_fs \<Rightarrow> (fs_error, bytes option) result" where
  "readCas R sha256 fs =
     rbind (casKey (efs_doId fs) sha256) (\<lambda>key.
       Inr (map_option rb_bytes (r2_get R (efs_r2 fs) key 0 None)))"

section \<open>Staged commit\<close>

definition stageWrite ::
  "codec \<Rightarrow> string \<Rightarrow> fs_data \<Rightarrow> fs_origin option \<Rightarrow> ('r, 'm) engram_fs \<Rightarrow>
   (fs_error, ('r, 'm) engram_fs) result" where
  "stageWrite C path data origin fs =
     rbind (fs_rel fs path) (\<lambda>p.
       if p = '''' then Inl (FsPathError ''cannot write the root'' EISDIR)
       else Inr (fs\<lparr>efs_staged := AList.update p
                     \<lparr>sw_path = p, sw_bytes = toBytes C data,
                      sw_origin = (case origin of None \<Rightarrow> OCell | Some x \<Rightarrow> x)\<rparr>
                     (efs_staged fs)\<rparr>))"

definition stagedCount :: "('r, 'm) engram_fs \<Rightarrow> nat" where
  "stagedCount fs = length (efs_staged fs)"

text \<open>The loop over \<open>[...this.staged.values()]\<close>; an error of \<open>commitOne\<close> leaves the staged set
  in place, as the \<open>throw\<close> does.\<close>

fun flush_loop ::
  "'r r2_ops \<Rightarrow> 'm manifest_ops \<Rightarrow> codec \<Rightarrow> staged_write list \<Rightarrow> pointer list \<Rightarrow> ('r, 'm) engram_fs \<Rightarrow>
   (fs_error, pointer list \<times> ('r, 'm) engram_fs) result" where
  "flush_loop R M C [] pointers fs = Inr (pointers, fs)"
| "flush_loop R M C (w # ws) pointers fs =
     rbind (commitOne R M (sw_path w) (sw_bytes w) (sw_origin w) fs) (\<lambda>(entry, fs1).
       flush_loop R M C ws (pointers @ [fs_pointer C fs1 entry (Some (sw_bytes w))]) fs1)"

definition flushStaged ::
  "'r r2_ops \<Rightarrow> 'm manifest_ops \<Rightarrow> codec \<Rightarrow> ('r, 'm) engram_fs \<Rightarrow>
   (fs_error, pointer list \<times> ('r, 'm) engram_fs) result" where
  "flushStaged R M C fs =
     (if efs_staged fs = [] then Inr ([], fs)
      else rbind (flush_loop R M C (map snd (efs_staged fs)) [] fs) (\<lambda>(pointers, fs1).
        Inr (pointers, bump M (fs1\<lparr>efs_staged := []\<rparr>))))"

definition discardStaged :: "('r, 'm) engram_fs \<Rightarrow> ('r, 'm) engram_fs" where
  "discardStaged fs = fs\<lparr>efs_staged := []\<rparr>"

definition fs_version :: "'m manifest_ops \<Rightarrow> ('r, 'm) engram_fs \<Rightarrow> nat" where
  "fs_version M fs = mf_version M (efs_manifest fs)"

definition origin_str :: "fs_origin \<Rightarrow> string" where
  "origin_str x = (case x of OCell \<Rightarrow> ''cell'' | OFrame \<Rightarrow> ''frame'' | OContainer \<Rightarrow> ''container''
                   | OWorker \<Rightarrow> ''worker'')"

definition export_doc :: "('r, 'm) engram_fs \<Rightarrow> nat \<Rightarrow> fs_entry list \<Rightarrow> json" where
  "export_doc fs version rows = JObj
     [(''doId'', JStr (efs_doId fs)), (''fsVersion'', JNum (int version)),
      (''exportedMs'', JNum (int (efs_nowMs fs))),
      (''files'', JArr (map (\<lambda>e. JObj
         ([(''path'', JStr (fe_path e)), (''size'', JNum (int (fe_size e))),
           (''etag'', JStr (fe_etag e))]
          @ (case fe_sha256 e of None \<Rightarrow> [] | Some h \<Rightarrow> [(''sha256'', JStr h)])
          @ [(''origin'', JStr (origin_str (fe_origin e)))]))
        (sort_key fe_path rows)))]"

definition exportManifest ::
  "'r r2_ops \<Rightarrow> 'm manifest_ops \<Rightarrow> codec \<Rightarrow> ('r, 'm) engram_fs \<Rightarrow>
   (fs_error, pointer \<times> ('r, 'm) engram_fs) result" where
  "exportManifest R M C fs =
     (let rows = mf_list M (efs_manifest fs) '''';
          version = mf_version M (efs_manifest fs);
          b = cd_encode C (json_stringify (export_doc fs version rows))
      in rbind (manifestKey (efs_doId fs)) (\<lambda>key.
           let (etag, r') = r2_put R (efs_r2 fs) key b
           in Inr (\<lparr>ptr_path = ''.engram/manifest.json'', ptr_etag = etag, ptr_size = length b,
                    ptr_sha256 = None, ptr_preview = Some (fs_preview C fs b)\<rparr>,
                   fs\<lparr>efs_r2 := r'\<rparr>)))"

end
