(* ===== verification/FsFakes.thy ===== *)
theory FsFakes
  imports FsStore
begin

text \<open>
  The in-memory providers of \<open>packages/engram-fs/test/fakes.ts\<close> and the contracts of the two
  interfaces.  \<open>object_store\<close> states what \<open>R2Like\<close> promises about the bodies it holds,
  \<open>manifest_store\<close> what \<open>ManifestStore\<close> promises about its rows and its version; both are
  interpreted on the providers below.
\<close>

section \<open>The contracts\<close>

locale object_store =
  fixes R :: "'r r2_ops"
    and objs :: "'r \<Rightarrow> string \<Rightarrow> (bytes \<times> string) option"
    and r_inv :: "'r \<Rightarrow> bool"
  assumes get_law: "r_inv r \<Longrightarrow> r2_get R r k off len =
      (case objs r k of None \<Rightarrow> None
       | Some (b, e) \<Rightarrow> Some \<lparr>rb_bytes = js_subarray b off (map_option (\<lambda>l. off + l) len),
                              rb_etag = e, rb_total = length b\<rparr>)"
    and put_law: "r_inv r \<Longrightarrow> objs (snd (r2_put R r k b)) = (objs r)(k \<mapsto> (b, fst (r2_put R r k b)))"
    and delete_law: "r_inv r \<Longrightarrow> objs (r2_delete R r k) = (objs r)(k := None)"
    and head_law: "r_inv r \<Longrightarrow> r2_head R r k = map_option (\<lambda>(b, e). (e, length b)) (objs r k)"
    and list_law: "r_inv r \<Longrightarrow> set (r2_list R r pre) =
      {\<lparr>rl_key = k, rl_size = length b, rl_etag = e\<rparr> | k b e. objs r k = Some (b, e) \<and> prefix pre k}"
    and put_inv: "r_inv r \<Longrightarrow> r_inv (snd (r2_put R r k b))"
    and delete_inv: "r_inv r \<Longrightarrow> r_inv (r2_delete R r k)"

locale manifest_store =
  fixes M :: "'m manifest_ops"
    and rows :: "'m \<Rightarrow> string \<Rightarrow> fs_entry option"
    and m_inv :: "'m \<Rightarrow> bool"
  assumes mget_law: "m_inv m \<Longrightarrow> mf_get M m p = rows m p"
    and upsert_law: "m_inv m \<Longrightarrow> rows (mf_upsert M m e) = (rows m)(fe_path e \<mapsto> e)"
    and mdelete_law: "m_inv m \<Longrightarrow> rows (mf_delete M m p) = (rows m)(p := None)"
    and bump_rows: "m_inv m \<Longrightarrow> rows (snd (mf_bumpVersion M m)) = rows m"
    and bump_version: "m_inv m \<Longrightarrow> mf_version M (snd (mf_bumpVersion M m)) = Suc (mf_version M m)"
    and upsert_version: "m_inv m \<Longrightarrow> mf_version M (mf_upsert M m e) = mf_version M m"
    and mdelete_version: "m_inv m \<Longrightarrow> mf_version M (mf_delete M m p) = mf_version M m"
    and mlist_law: "m_inv m \<Longrightarrow> set (mf_list M m d) =
      {e. \<exists>p. rows m p = Some e \<and> prefix (if d = '''' then '''' else d @ ''/'') (fe_path e)}"
    and upsert_inv: "m_inv m \<Longrightarrow> m_inv (mf_upsert M m e)"
    and mdelete_inv: "m_inv m \<Longrightarrow> m_inv (mf_delete M m p)"
    and bump_inv: "m_inv m \<Longrightarrow> m_inv (snd (mf_bumpVersion M m))"

section \<open>\<open>FakeR2\<close>\<close>

record fake_r2 =
  fr_store :: "(string, bytes) omap"
  fr_putCount :: nat
  fr_seq :: nat
  fr_etags :: "(string, string) omap"

definition FakeR2_get :: "fake_r2 \<Rightarrow> string \<Rightarrow> int \<Rightarrow> int option \<Rightarrow> r2_body option" where
  "FakeR2_get r key offset len =
     (case map_of (fr_store r) key of
        None \<Rightarrow> None
      | Some b \<Rightarrow> Some \<lparr>rb_bytes = js_subarray b offset (map_option (\<lambda>l. offset + l) len),
                        rb_etag = the (map_of (fr_etags r) key), rb_total = length b\<rparr>)"

definition FakeR2_put :: "fake_r2 \<Rightarrow> string \<Rightarrow> bytes \<Rightarrow> string \<times> fake_r2" where
  "FakeR2_put r key b =
     (let etag = ''etag-'' @ nat_str (fr_seq r + 1)
      in (etag, r\<lparr>fr_putCount := fr_putCount r + 1, fr_seq := fr_seq r + 1,
                  fr_store := AList.update key b (fr_store r),
                  fr_etags := AList.update key etag (fr_etags r)\<rparr>))"

definition FakeR2_delete :: "fake_r2 \<Rightarrow> string \<Rightarrow> fake_r2" where
  "FakeR2_delete r key = r\<lparr>fr_store := AList.delete key (fr_store r),
                           fr_etags := AList.delete key (fr_etags r)\<rparr>"

definition FakeR2_list :: "fake_r2 \<Rightarrow> string \<Rightarrow> r2_listed list" where
  "FakeR2_list r pre =
     map (\<lambda>(key, b). \<lparr>rl_key = key, rl_size = length b, rl_etag = the (map_of (fr_etags r) key)\<rparr>)
       (filter (\<lambda>(key, b). prefix pre key) (fr_store r))"

definition FakeR2_head :: "fake_r2 \<Rightarrow> string \<Rightarrow> (string \<times> nat) option" where
  "FakeR2_head r key =
     map_option (\<lambda>b. (the (map_of (fr_etags r) key), length b)) (map_of (fr_store r) key)"

definition fakeR2_ops :: "fake_r2 r2_ops" where
  "fakeR2_ops = \<lparr>r2_get = FakeR2_get, r2_put = FakeR2_put, r2_delete = FakeR2_delete,
                 r2_list = FakeR2_list, r2_head = FakeR2_head\<rparr>"

definition new_FakeR2 :: fake_r2 where
  "new_FakeR2 = \<lparr>fr_store = [], fr_putCount = 0, fr_seq = 0, fr_etags = []\<rparr>"

text \<open>The two maps of the class have the same keys, each once.\<close>

definition FakeR2_inv :: "fake_r2 \<Rightarrow> bool" where
  "FakeR2_inv r \<longleftrightarrow> distinct (map fst (fr_store r)) \<and>
     dom (map_of (fr_store r)) = dom (map_of (fr_etags r))"

definition FakeR2_objs :: "fake_r2 \<Rightarrow> string \<Rightarrow> (bytes \<times> string) option" where
  "FakeR2_objs r k = map_option (\<lambda>b. (b, the (map_of (fr_etags r) k))) (map_of (fr_store r) k)"

section \<open>\<open>FakeManifest\<close>\<close>

record fake_manifest =
  fm_rows :: "(string, fs_entry) omap"
  fm_ver :: nat
  fm_bumpCount :: nat

definition FakeManifest_get :: "fake_manifest \<Rightarrow> string \<Rightarrow> fs_entry option" where
  "FakeManifest_get m path = map_of (fm_rows m) path"

definition FakeManifest_upsert :: "fake_manifest \<Rightarrow> fs_entry \<Rightarrow> fake_manifest" where
  "FakeManifest_upsert m e = m\<lparr>fm_rows := AList.update (fe_path e) e (fm_rows m)\<rparr>"

definition FakeManifest_delete :: "fake_manifest \<Rightarrow> string \<Rightarrow> fake_manifest" where
  "FakeManifest_delete m path = m\<lparr>fm_rows := AList.delete path (fm_rows m)\<rparr>"

definition FakeManifest_list :: "fake_manifest \<Rightarrow> string \<Rightarrow> fs_entry list" where
  "FakeManifest_list m dirPath =
     (let pfx = (if dirPath = '''' then '''' else dirPath @ ''/'')
      in filter (\<lambda>e. prefix pfx (fe_path e)) (map snd (fm_rows m)))"

definition FakeManifest_bumpVersion :: "fake_manifest \<Rightarrow> nat \<times> fake_manifest" where
  "FakeManifest_bumpVersion m =
     (fm_ver m + 1, m\<lparr>fm_bumpCount := fm_bumpCount m + 1, fm_ver := fm_ver m + 1\<rparr>)"

definition FakeManifest_version :: "fake_manifest \<Rightarrow> nat" where
  "FakeManifest_version m = fm_ver m"

definition fakeManifest_ops :: "fake_manifest manifest_ops" where
  "fakeManifest_ops = \<lparr>mf_get = FakeManifest_get, mf_upsert = FakeManifest_upsert,
     mf_delete = FakeManifest_delete, mf_list = FakeManifest_list,
     mf_bumpVersion = FakeManifest_bumpVersion, mf_version = FakeManifest_version\<rparr>"

definition new_FakeManifest :: fake_manifest where
  "new_FakeManifest = \<lparr>fm_rows = [], fm_ver = 0, fm_bumpCount = 0\<rparr>"

definition FakeManifest_inv :: "fake_manifest \<Rightarrow> bool" where
  "FakeManifest_inv m \<longleftrightarrow> distinct (map fst (fm_rows m))"

section \<open>The providers keep the contracts\<close>

lemmas fake_r2_simps = fakeR2_ops_def FakeR2_get_def FakeR2_put_def FakeR2_delete_def
  FakeR2_list_def FakeR2_head_def FakeR2_objs_def FakeR2_inv_def

lemmas fake_manifest_simps = fakeManifest_ops_def FakeManifest_get_def FakeManifest_upsert_def
  FakeManifest_delete_def FakeManifest_list_def FakeManifest_bumpVersion_def
  FakeManifest_version_def FakeManifest_inv_def

interpretation fake_r2: object_store fakeR2_ops FakeR2_objs FakeR2_inv
proof
  fix r :: fake_r2 and k b pre off len
  assume inv: "FakeR2_inv r"
  show "r2_get fakeR2_ops r k off len =
      (case FakeR2_objs r k of None \<Rightarrow> None
       | Some (b, e) \<Rightarrow> Some \<lparr>rb_bytes = js_subarray b off (map_option (\<lambda>l. off + l) len),
                              rb_etag = e, rb_total = length b\<rparr>)"
    by (simp add: fake_r2_simps split: option.splits)
  show "FakeR2_objs (snd (r2_put fakeR2_ops r k b)) =
      (FakeR2_objs r)(k \<mapsto> (b, fst (r2_put fakeR2_ops r k b)))"
    by (auto simp: fake_r2_simps map_of_update Let_def)
  show "FakeR2_objs (r2_delete fakeR2_ops r k) = (FakeR2_objs r)(k := None)"
    by (auto simp: fake_r2_simps map_of_delete)
  show "r2_head fakeR2_ops r k = map_option (\<lambda>(b, e). (e, length b)) (FakeR2_objs r k)"
    by (cases "map_of (fr_store r) k") (simp_all add: fake_r2_simps)
  show "set (r2_list fakeR2_ops r pre) =
      {\<lparr>rl_key = k, rl_size = length b, rl_etag = e\<rparr> | k b e.
         FakeR2_objs r k = Some (b, e) \<and> prefix pre k}"
    using inv by (force simp: fake_r2_simps image_iff)
  show "FakeR2_inv (snd (r2_put fakeR2_ops r k b))"
    using inv by (simp add: fake_r2_simps map_of_update Let_def distinct_update)
  show "FakeR2_inv (r2_delete fakeR2_ops r k)"
    using inv by (auto simp: fake_r2_simps map_of_delete distinct_delete)
qed

interpretation fake_manifest: manifest_store fakeManifest_ops "\<lambda>m. map_of (fm_rows m)" FakeManifest_inv
proof
  fix m :: fake_manifest and p d e
  assume inv: "FakeManifest_inv m"
  show "set (mf_list fakeManifest_ops m d) =
      {e. \<exists>p. map_of (fm_rows m) p = Some e \<and> prefix (if d = '''' then '''' else d @ ''/'') (fe_path e)}"
    using inv by (force simp: fake_manifest_simps)
qed (auto simp: fake_manifest_simps map_of_update map_of_delete distinct_update distinct_delete)

end
