(* ===== verification/FsCoherence.thy ===== *)
theory FsCoherence
  imports FsFakes
begin

text \<open>
  What the file substrate keeps: every manifest row names an existing object with the recorded
  etag and size (but for the row of a user file at the path of the exported manifest), the staged
  writes are keyed by resolved paths, and the working directory is
  canonical.  \<open>fs_view\<close> is the abstract file system of a session (staged writes over committed
  files); reads return it, and each operation is characterised by what it does to it.  The lemmas
  are proved once in \<open>engram_substrate\<close>, over any two providers, and used at the interpretation.
\<close>

section \<open>Specification\<close>

definition session_key :: "('r, 'm) engram_fs \<Rightarrow> string \<Rightarrow> string" where
  "session_key fs p = ''fs/'' @ efs_doId fs @ ''/'' @ p"

text \<open>The one path whose object \<open>exportManifest\<close> overwrites behind the manifest's back.\<close>

definition export_path :: string where
  "export_path = ''.engram/manifest.json''"

definition row_backed ::
  "('r \<Rightarrow> string \<Rightarrow> (bytes \<times> string) option) \<Rightarrow> ('r, 'm) engram_fs \<Rightarrow> string \<Rightarrow> fs_entry \<Rightarrow> bool" where
  "row_backed objs fs p e \<longleftrightarrow> fe_path e = p \<and> rel_ok p \<and> p \<noteq> '''' \<and> fe_r2Key e = session_key fs p \<and>
     (\<exists>b etag. objs (efs_r2 fs) (fe_r2Key e) = Some (b, etag) \<and>
        (p \<noteq> export_path \<longrightarrow> etag = fe_etag e \<and> length b = fe_size e))"

definition coherent ::
  "('r \<Rightarrow> string \<Rightarrow> (bytes \<times> string) option) \<Rightarrow> ('m \<Rightarrow> string \<Rightarrow> fs_entry option) \<Rightarrow>
   ('r, 'm) engram_fs \<Rightarrow> bool" where
  "coherent objs rows fs \<longleftrightarrow> efs_doId fs \<noteq> '''' \<and> (\<exists>c. efs_cwd fs = cwd_of c \<and> rel_ok c) \<and>
     distinct (map fst (efs_staged fs)) \<and>
     (\<forall>(p, w) \<in> set (efs_staged fs). sw_path w = p \<and> rel_ok p \<and> p \<noteq> '''') \<and>
     (\<forall>p e. rows (efs_manifest fs) p = Some e \<longrightarrow> row_backed objs fs p e)"

definition committed_view ::
  "('r \<Rightarrow> string \<Rightarrow> (bytes \<times> string) option) \<Rightarrow> ('m \<Rightarrow> string \<Rightarrow> fs_entry option) \<Rightarrow>
   ('r, 'm) engram_fs \<Rightarrow> string \<Rightarrow> bytes option" where
  "committed_view objs rows fs p =
     (case rows (efs_manifest fs) p of None \<Rightarrow> None
      | Some e \<Rightarrow> map_option fst (objs (efs_r2 fs) (fe_r2Key e)))"

definition fs_view ::
  "('r \<Rightarrow> string \<Rightarrow> (bytes \<times> string) option) \<Rightarrow> ('m \<Rightarrow> string \<Rightarrow> fs_entry option) \<Rightarrow>
   ('r, 'm) engram_fs \<Rightarrow> string \<Rightarrow> bytes option" where
  "fs_view objs rows fs p =
     (case map_of (efs_staged fs) p of Some w \<Rightarrow> Some (sw_bytes w)
      | None \<Rightarrow> committed_view objs rows fs p)"

lemma session_key_inj [simp]: "session_key fs p = session_key fs q \<longleftrightarrow> p = q"
  by (simp add: session_key_def)

lemma session_key_cong [simp]:
  "session_key (fs\<lparr>efs_r2 := r\<rparr>) p = session_key fs p"
  "session_key (fs\<lparr>efs_manifest := m\<rparr>) p = session_key fs p"
  "session_key (fs\<lparr>efs_staged := s\<rparr>) p = session_key fs p"
  by (simp_all add: session_key_def)

lemma row_backed_cong [simp]:
  "row_backed objs (fs\<lparr>efs_manifest := m\<rparr>) p e = row_backed objs fs p e"
  "row_backed objs (fs\<lparr>efs_staged := s\<rparr>) p e = row_backed objs fs p e"
  "row_backed objs (fs\<lparr>efs_cwd := c\<rparr>) p e = row_backed objs fs p e"
  "row_backed objs (fs\<lparr>efs_cell := n\<rparr>) p e = row_backed objs fs p e"
  "row_backed objs (fs\<lparr>efs_nowMs := n\<rparr>) p e = row_backed objs fs p e"
  by (simp_all add: row_backed_def session_key_def)

lemma committed_view_cong [simp]:
  "committed_view objs rows (fs\<lparr>efs_staged := s\<rparr>) = committed_view objs rows fs"
  "committed_view objs rows (fs\<lparr>efs_cwd := c\<rparr>) = committed_view objs rows fs"
  by (simp_all add: committed_view_def fun_eq_iff split: option.splits)

lemma liveKey_session:
  "rel_ok p \<Longrightarrow> p \<noteq> '''' \<Longrightarrow> efs_doId fs \<noteq> '''' \<Longrightarrow> liveKey (efs_doId fs) p = Inr (session_key fs p)"
  by (auto simp: liveKey_Inr session_key_def normPath_rel_ok)

lemma delete_set_sub: "x \<in> set (AList.delete k m) \<Longrightarrow> x \<in> set m"
  by (auto simp: AList.delete_eq)

text \<open>Writing out staged writes one by one is the overlay of the staged map.\<close>

lemma overlay:
  assumes "distinct (map fst st)" "\<forall>(p, w) \<in> set st. sw_path w = p \<and> P p"
  shows "foldl (\<lambda>v w. v(sw_path w \<mapsto> sw_bytes w)) v (map snd st) q =
    (case map_of st q of Some w \<Rightarrow> Some (sw_bytes w) | None \<Rightarrow> v q)"
  using assms
proof (induction st arbitrary: v)
  case (Cons x st)
  obtain p w where x: "x = (p, w)" by (cases x)
  then have "sw_path w = p" "map_of st p = None"
    using Cons.prems by (auto simp: map_of_eq_None_iff)
  then show ?case using Cons x by (auto split: option.splits)
qed simp

locale engram_substrate = object_store R objs r_inv + manifest_store M rows m_inv
  for R :: "'r r2_ops" and objs and r_inv and M :: "'m manifest_ops" and rows and m_inv
begin

definition good :: "('r, 'm) engram_fs \<Rightarrow> bool" where
  "good fs \<longleftrightarrow> r_inv (efs_r2 fs) \<and> m_inv (efs_manifest fs) \<and> coherent objs rows fs"

lemma good_rel: "good fs \<Longrightarrow> fs_rel fs path = Inr p \<Longrightarrow> rel_ok p"
  by (auto simp: fs_rel_def resolve_rel_ok)

lemma good_row: "good fs \<Longrightarrow> rows (efs_manifest fs) p = Some e \<Longrightarrow> row_backed objs fs p e"
  by (simp add: good_def coherent_def)

lemma good_staged:
  "good fs \<Longrightarrow> (p, w) \<in> set (efs_staged fs) \<Longrightarrow> sw_path w = p \<and> rel_ok p \<and> p \<noteq> ''''"
  by (auto simp: good_def coherent_def)

lemma read_view:
  assumes "good fs" "fs_rel fs path = Inr p"
  shows "readFile R M path None None fs = Inr (fs_view objs rows fs p)"
  using assms
  by (auto simp: readFile_def fs_view_def committed_view_def good_def mget_law get_law
      split: option.splits)

lemma read_range:
  assumes "good fs" "fs_rel fs path = Inr p"
  shows "readFile R M path off len fs =
    Inr (map_option (\<lambda>b. js_subarray b (case off of None \<Rightarrow> 0 | Some i \<Rightarrow> i)
                           (map_option (\<lambda>l. (case off of None \<Rightarrow> 0 | Some i \<Rightarrow> i) + l) len))
          (fs_view objs rows fs p))"
  using assms
  by (auto simp: readFile_def fs_view_def committed_view_def good_def mget_law get_law
      split: option.splits)

lemma commit_one:
  assumes "good fs" "rel_ok p" "p \<noteq> ''''"
  obtains e fs1 where "commitOne R M p b orig fs = Inr (e, fs1)" "good fs1"
    "efs_staged fs1 = efs_staged fs" "efs_cwd fs1 = efs_cwd fs" "efs_doId fs1 = efs_doId fs"
    "committed_view objs rows fs1 = (committed_view objs rows fs)(p \<mapsto> b)"
    "mf_version M (efs_manifest fs1) = mf_version M (efs_manifest fs)"
    "fe_path e = p" "fe_size e = length b" "rows (efs_manifest fs1) p = Some e"
proof -
  from assms have d: "efs_doId fs \<noteq> ''''" and ri: "r_inv (efs_r2 fs)" and mi: "m_inv (efs_manifest fs)"
    by (auto simp: good_def coherent_def)
  let ?put = "r2_put R (efs_r2 fs) (session_key fs p) b"
  let ?e = "\<lparr>fe_path = p, fe_r2Key = session_key fs p, fe_size = length b, fe_etag = fst ?put,
             fe_sha256 = None, fe_cell = efs_cell fs, fe_createdMs = efs_nowMs fs, fe_origin = orig\<rparr>"
  let ?fs = "fs\<lparr>efs_r2 := snd ?put, efs_manifest := mf_upsert M (efs_manifest fs) ?e\<rparr>"
  have run: "commitOne R M p b orig fs = Inr (?e, ?fs)"
    using assms d by (simp add: commitOne_def liveKey_session Let_def split: prod.splits)
  have rows': "rows (efs_manifest ?fs) q = (if q = p then Some ?e else rows (efs_manifest fs) q)" for q
    using mi by (simp add: upsert_law)
  have objs': "objs (efs_r2 ?fs) k = (if k = session_key fs p then Some (b, fst ?put) else objs (efs_r2 fs) k)" for k
    using ri by (simp add: put_law)
  have "row_backed objs ?fs q e" if "rows (efs_manifest ?fs) q = Some e" for q e
  proof (cases "q = p")
    case True
    then show ?thesis using that rows' objs' assms by (auto simp: row_backed_def)
  next
    case False
    then have "row_backed objs fs q e" using that rows' good_row[OF assms(1)] by simp
    then show ?thesis using False objs' by (auto simp: row_backed_def)
  qed
  moreover have "committed_view objs rows ?fs q = ((committed_view objs rows fs)(p \<mapsto> b)) q" for q
  proof (cases "q = p")
    case True
    then show ?thesis unfolding committed_view_def rows' using objs' by simp
  next
    case False
    then show ?thesis
      unfolding committed_view_def rows' using objs' good_row[OF assms(1), of q]
      by (auto simp: row_backed_def split: option.splits)
  qed
  ultimately have backed: "\<And>q e. rows (efs_manifest ?fs) q = Some e \<Longrightarrow> row_backed objs ?fs q e"
    and view: "committed_view objs rows ?fs = (committed_view objs rows fs)(p \<mapsto> b)"
    by (blast, intro ext, blast)
  have "good ?fs"
    using assms(1) ri mi backed unfolding good_def coherent_def by (simp add: put_inv upsert_inv)
  then show thesis
    using that[OF run _ _ _ _ view] mi rows'[of p] by (simp add: upsert_version)
qed

lemma bump_good: "good fs \<Longrightarrow> good (bump M fs)"
  by (simp add: good_def coherent_def bump_def bump_rows bump_inv)

lemma bump_view [simp]:
  "m_inv (efs_manifest fs) \<Longrightarrow> committed_view objs rows (bump M fs) = committed_view objs rows fs"
  by (auto simp: committed_view_def bump_def bump_rows fun_eq_iff split: option.splits)

lemma bump_fields [simp]:
  "efs_staged (bump M fs) = efs_staged fs" "efs_cwd (bump M fs) = efs_cwd fs"
  "efs_doId (bump M fs) = efs_doId fs"
  "m_inv (efs_manifest fs) \<Longrightarrow> mf_version M (efs_manifest (bump M fs)) = Suc (mf_version M (efs_manifest fs))"
  by (simp_all add: bump_def bump_version)

lemma bump_fs_view:
  "m_inv (efs_manifest fs) \<Longrightarrow> fs_view objs rows (bump M fs) = fs_view objs rows fs"
  by (simp add: fs_view_def fun_eq_iff split: option.splits)

lemma flush_loop_spec:
  assumes "good fs" "\<forall>w \<in> set ws. rel_ok (sw_path w) \<and> sw_path w \<noteq> ''''"
  shows "\<exists>ps fs1. flush_loop R M C ws acc fs = Inr (acc @ ps, fs1) \<and> good fs1 \<and>
    efs_staged fs1 = efs_staged fs \<and> map ptr_path ps = map sw_path ws \<and>
    mf_version M (efs_manifest fs1) = mf_version M (efs_manifest fs) \<and>
    committed_view objs rows fs1 = foldl (\<lambda>v w. v(sw_path w \<mapsto> sw_bytes w)) (committed_view objs rows fs) ws"
  using assms
proof (induction ws arbitrary: acc fs)
  case (Cons w ws)
  obtain e fs1 where c: "commitOne R M (sw_path w) (sw_bytes w) (sw_origin w) fs = Inr (e, fs1)"
    "good fs1" "efs_staged fs1 = efs_staged fs"
    "committed_view objs rows fs1 = (committed_view objs rows fs)(sw_path w \<mapsto> sw_bytes w)"
    "mf_version M (efs_manifest fs1) = mf_version M (efs_manifest fs)" "fe_path e = sw_path w"
    using commit_one[OF Cons.prems(1), of "sw_path w" "sw_bytes w" "sw_origin w"] Cons.prems(2)
    by (metis list.set_intros(1))
  let ?p = "fs_pointer C fs1 e (Some (sw_bytes w))"
  obtain ps fs2 where "flush_loop R M C ws (acc @ [?p]) fs1 = Inr ((acc @ [?p]) @ ps, fs2)" "good fs2"
    "efs_staged fs2 = efs_staged fs1" "map ptr_path ps = map sw_path ws"
    "mf_version M (efs_manifest fs2) = mf_version M (efs_manifest fs1)"
    "committed_view objs rows fs2 = foldl (\<lambda>v w. v(sw_path w \<mapsto> sw_bytes w)) (committed_view objs rows fs1) ws"
    using Cons.IH[OF c(2), of "acc @ [?p]"] Cons.prems(2) by (auto simp del: fun_upd_apply)
  then show ?case
    using c by (intro exI[of _ "?p # ps"] exI[of _ fs2]) (simp add: fs_pointer_def del: fun_upd_apply)
qed simp

lemma drop_staged_good: "good fs \<Longrightarrow> good (fs\<lparr>efs_staged := []\<rparr>)"
  by (simp add: good_def coherent_def)

lemma flush_spec:
  assumes "good fs"
  shows "\<exists>ps fs1. flushStaged R M C fs = Inr (ps, fs1) \<and> good fs1 \<and> efs_staged fs1 = [] \<and>
    map ptr_path ps = map fst (efs_staged fs) \<and>
    mf_version M (efs_manifest fs1) = mf_version M (efs_manifest fs) + (if efs_staged fs = [] then 0 else 1) \<and>
    fs_view objs rows fs1 = fs_view objs rows fs \<and>
    committed_view objs rows fs1 = fs_view objs rows fs"
proof (cases "efs_staged fs = []")
  case True
  then show ?thesis
    using assms by (intro exI[of _ "[]"] exI[of _ fs]) (simp add: flushStaged_def fs_view_def fun_eq_iff)
next
  case False
  let ?ws = "map snd (efs_staged fs)"
  have st: "\<forall>(p, w) \<in> set (efs_staged fs). sw_path w = p \<and> rel_ok p \<and> p \<noteq> ''''"
    and dist: "distinct (map fst (efs_staged fs))"
    using assms by (simp_all add: good_def coherent_def)
  then have ws: "\<forall>w \<in> set ?ws. rel_ok (sw_path w) \<and> sw_path w \<noteq> ''''" by fastforce
  have paths: "map sw_path ?ws = map fst (efs_staged fs)" using st by auto
  obtain ps fs1 where f: "flush_loop R M C ?ws [] fs = Inr (ps, fs1)" "good fs1"
    "map ptr_path ps = map sw_path ?ws"
    "mf_version M (efs_manifest fs1) = mf_version M (efs_manifest fs)"
    "committed_view objs rows fs1 = foldl (\<lambda>v w. v(sw_path w \<mapsto> sw_bytes w)) (committed_view objs rows fs) ?ws"
    using flush_loop_spec[OF assms ws, of C "[]"] by auto
  let ?fs = "bump M (fs1\<lparr>efs_staged := []\<rparr>)"
  have mi: "m_inv (efs_manifest fs1)" using f(2) by (simp add: good_def)
  have "committed_view objs rows ?fs = fs_view objs rows fs"
    using mi f(5) overlay[OF dist st] by (simp add: fs_view_def fun_eq_iff)
  then show ?thesis
    using False f mi bump_good[OF drop_staged_good[OF f(2)]] paths
    by (intro exI[of _ ps] exI[of _ ?fs]) (simp add: flushStaged_def, simp add: fs_view_def fun_eq_iff)
qed

lemma write_direct_spec:
  assumes "good fs" "fs_rel fs path = Inr p" "p \<noteq> ''''" "mode \<noteq> Some Txn"
  shows "\<exists>ptr fs1. writeFile R M C path data mode orig fs = Inr (ptr, fs1) \<and> good fs1 \<and>
    efs_staged fs1 = efs_staged fs \<and> efs_cwd fs1 = efs_cwd fs \<and> ptr_path ptr = p \<and>
    mf_version M (efs_manifest fs1) = Suc (mf_version M (efs_manifest fs)) \<and>
    committed_view objs rows fs1 = (committed_view objs rows fs)(p \<mapsto> toBytes C data)"
proof -
  obtain e fs1 where "commitOne R M p (toBytes C data) (case orig of None \<Rightarrow> OFrame | Some x \<Rightarrow> x) fs
      = Inr (e, fs1)" "good fs1" "efs_staged fs1 = efs_staged fs" "efs_cwd fs1 = efs_cwd fs"
    "committed_view objs rows fs1 = (committed_view objs rows fs)(p \<mapsto> toBytes C data)"
    "mf_version M (efs_manifest fs1) = mf_version M (efs_manifest fs)" "fe_path e = p"
    using commit_one[OF assms(1) good_rel[OF assms(1,2)] assms(3)] by metis
  then show ?thesis
    using assms bump_good[of fs1]
    by (intro exI[of _ "fs_pointer C fs e (Some (toBytes C data))"] exI[of _ "bump M fs1"])
      (simp add: writeFile_def fs_pointer_def good_def)
qed

lemma delete_spec:
  assumes "good fs" "fs_rel fs path = Inr p"
  shows "\<exists>fs1. deleteFile R M path fs = Inr (rows (efs_manifest fs) p \<noteq> None, fs1) \<and> good fs1 \<and>
    fs_view objs rows fs1 = (fs_view objs rows fs)(p := None) \<and>
    mf_version M (efs_manifest fs1) = mf_version M (efs_manifest fs) +
      (if rows (efs_manifest fs) p = None then 0 else 1)"
proof -
  have ri: "r_inv (efs_r2 fs)" and mi: "m_inv (efs_manifest fs)" using assms by (auto simp: good_def)
  let ?fs1 = "fs\<lparr>efs_staged := AList.delete p (efs_staged fs)\<rparr>"
  have g1: "good ?fs1"
    using assms(1) by (auto simp: good_def coherent_def distinct_delete dest: delete_set_sub)
  have v1: "fs_view objs rows ?fs1 q = (if q = p then committed_view objs rows fs p else fs_view objs rows fs q)" for q
    by (simp add: fs_view_def map_of_delete split: option.splits)
  show ?thesis
  proof (cases "rows (efs_manifest fs) p")
    case None
    then have "fs_view objs rows ?fs1 = (fs_view objs rows fs)(p := None)"
      using v1 by (auto simp: fun_eq_iff committed_view_def)
    then show ?thesis
      using None g1 assms mi by (intro exI[of _ ?fs1]) (simp add: deleteFile_def mget_law)
  next
    case (Some e)
    then have key: "fe_r2Key e = session_key fs p" using good_row[OF assms(1)] by (simp add: row_backed_def)
    let ?fs2 = "?fs1\<lparr>efs_r2 := r2_delete R (efs_r2 fs) (fe_r2Key e),
                     efs_manifest := mf_delete M (efs_manifest fs) p\<rparr>"
    have backed: "row_backed objs ?fs2 q e'" if "q \<noteq> p" "rows (efs_manifest fs) q = Some e'" for q e'
      using that good_row[OF assms(1) that(2)] ri by (auto simp: row_backed_def delete_law key)
    have "good ?fs2"
      using g1 ri mi backed unfolding good_def coherent_def
      by (auto simp: delete_inv mdelete_inv mdelete_law split: if_splits)
    moreover have "fs_view objs rows ?fs2 = (fs_view objs rows fs)(p := None)"
    proof
      fix q
      show "fs_view objs rows ?fs2 q = ((fs_view objs rows fs)(p := None)) q"
      proof (cases "q = p")
        case True then show ?thesis using mi by (simp add: fs_view_def committed_view_def map_of_delete mdelete_law)
      next
        case False
        then show ?thesis using mi ri good_row[OF assms(1), of q]
          by (auto simp: fs_view_def committed_view_def map_of_delete mdelete_law delete_law row_backed_def key
              split: option.splits)
      qed
    qed
    ultimately show ?thesis
      using Some assms mi bump_good[of ?fs2] mdelete_inv[OF mi, of p]
      by (intro exI[of _ "bump M ?fs2"])
        (simp add: deleteFile_def mget_law mdelete_version bump_fs_view)
  qed
qed

lemma put_fresh_good:
  assumes "good fs" "k = session_key fs q" "q = export_path \<or> objs (efs_r2 fs) k = None"
  shows "good (fs\<lparr>efs_r2 := snd (r2_put R (efs_r2 fs) k b)\<rparr>)"
proof -
  have ri: "r_inv (efs_r2 fs)" using assms(1) by (simp add: good_def)
  have "row_backed objs (fs\<lparr>efs_r2 := snd (r2_put R (efs_r2 fs) k b)\<rparr>) p e"
    if "rows (efs_manifest fs) p = Some e" for p e
    using good_row[OF assms(1) that] assms(2,3) ri
    by (auto simp: row_backed_def put_law)
  then show ?thesis using assms(1) ri by (simp add: good_def coherent_def put_inv)
qed

lemma casKey_session: "casKey (efs_doId fs) h = Inr k \<Longrightarrow> k = session_key fs (''cas/'' @ h)"
  by (auto simp: casKey_def rootPrefix_def session_key_def rbind_Inr_iff split: if_splits)

lemma putCas_good:
  assumes "good fs" "putCas R C data fs = Inr (x, fs1)"
  shows "good fs1"
proof -
  have ri: "r_inv (efs_r2 fs)" using assms(1) by (simp add: good_def)
  let ?b = "toBytes C data"
  obtain k where k: "casKey (efs_doId fs) (sha256Hex C ?b) = Inr k"
    using assms(2) by (cases "casKey (efs_doId fs) (sha256Hex C ?b)") (simp_all add: putCas_def)
  show ?thesis
  proof (cases "r2_head R (efs_r2 fs) k")
    case None
    then have "fs1 = fs\<lparr>efs_r2 := snd (r2_put R (efs_r2 fs) k ?b)\<rparr>"
      using assms(2) k by (simp add: putCas_def split_def Let_def)
    moreover have "objs (efs_r2 fs) k = None" using None ri by (simp add: head_law)
    ultimately show ?thesis using put_fresh_good[OF assms(1) casKey_session[OF k]] by blast
  next
    case (Some y)
    then show ?thesis using assms k by (simp add: putCas_def split_def Let_def)
  qed
qed

lemma export_good:
  assumes "good fs" "exportManifest R M C fs = Inr (x, fs1)"
  shows "good fs1"
proof -
  have "\<exists>b. fs1 = fs\<lparr>efs_r2 := snd (r2_put R (efs_r2 fs) (session_key fs export_path) b)\<rparr>"
    using assms(2)
    by (auto simp: exportManifest_def Let_def split_def rbind_Inr_iff manifestKey_def rootPrefix_def
        session_key_def export_path_def split: if_splits)
  then show ?thesis using assms(1) put_fresh_good by auto
qed

lemma stage_entry_good:
  assumes "good fs" "rel_ok p" "p \<noteq> ''''" "sw_path w = p"
  shows "good (fs\<lparr>efs_staged := AList.update p w (efs_staged fs)\<rparr>)"
  using assms by (auto simp: good_def coherent_def distinct_update dest: update_in_set)

lemma stage_good: "good fs \<Longrightarrow> stageWrite C path data orig fs = Inr fs1 \<Longrightarrow> good fs1"
  by (auto simp: stageWrite_def rbind_Inr_iff split: if_splits intro!: stage_entry_good dest: good_rel)

lemma write_good:
  assumes "good fs" "writeFile R M C path data mode orig fs = Inr (x, fs1)"
  shows "good fs1"
proof (cases "mode = Some Txn")
  case True
  then show ?thesis using assms
    by (auto simp: writeFile_def Let_def rbind_Inr_iff split: if_splits intro!: stage_entry_good dest: good_rel)
next
  case False
  obtain p where "fs_rel fs path = Inr p" "p \<noteq> ''''"
    using assms(2) by (auto simp: writeFile_def rbind_Inr_iff split: if_splits)
  from write_direct_spec[OF assms(1) this False, of C data orig] show ?thesis
    using assms(2) by auto
qed

lemma chdir_good:
  assumes "good fs" "chdir d fs = Inr (w, fs1)" shows "good fs1"
  using assms resolve_rel_ok
  by (auto simp: good_def coherent_def chdir_def resolveCwd_alt rbind_Inr_iff)

lemma delete_good: "good fs \<Longrightarrow> deleteFile R M path fs = Inr (x, fs1) \<Longrightarrow> good fs1"
  using delete_spec[of fs path] by (auto simp: deleteFile_def rbind_Inr_iff)

lemma flush_good: "good fs \<Longrightarrow> flushStaged R M C fs = Inr (x, fs1) \<Longrightarrow> good fs1"
  using flush_spec[of fs C] by auto

lemma tick_good: "good fs \<Longrightarrow> good (fs\<lparr>efs_cell := c, efs_nowMs := t\<rparr>)"
  by (simp add: good_def coherent_def)

lemma new_good:
  assumes "new_EngramFs r m d c t n w = Inr fs" "r_inv r" "m_inv m" "rows m = Map.empty"
  shows "good fs"
  using assms resolve_rel_ok
  by (auto simp: good_def coherent_def new_EngramFs_def resolveCwd_alt rbind_Inr_iff split: if_splits)

end

section \<open>Steps of a session\<close>

inductive fs_step ::
  "'r r2_ops \<Rightarrow> 'm manifest_ops \<Rightarrow> codec \<Rightarrow> ('r, 'm) engram_fs \<Rightarrow> ('r, 'm) engram_fs \<Rightarrow> bool"
  for R M C where
  step_chdir: "chdir d fs = Inr (w, fs1) \<Longrightarrow> fs_step R M C fs fs1"
| step_write: "writeFile R M C path data mode orig fs = Inr (x, fs1) \<Longrightarrow> fs_step R M C fs fs1"
| step_delete: "deleteFile R M path fs = Inr (x, fs1) \<Longrightarrow> fs_step R M C fs fs1"
| step_putCas: "putCas R C data fs = Inr (x, fs1) \<Longrightarrow> fs_step R M C fs fs1"
| step_stage: "stageWrite C path data orig fs = Inr fs1 \<Longrightarrow> fs_step R M C fs fs1"
| step_flush: "flushStaged R M C fs = Inr (x, fs1) \<Longrightarrow> fs_step R M C fs fs1"
| step_discard: "fs_step R M C fs (discardStaged fs)"
| step_export: "exportManifest R M C fs = Inr (x, fs1) \<Longrightarrow> fs_step R M C fs fs1"
| step_tick: "fs_step R M C fs (fs\<lparr>efs_cell := c, efs_nowMs := t\<rparr>)"

context engram_substrate begin

lemma step_good: "fs_step R M C fs fs1 \<Longrightarrow> good fs \<Longrightarrow> good fs1"
  by (induction rule: fs_step.induct)
    (auto simp: discardStaged_def intro: chdir_good write_good delete_good putCas_good stage_good
      flush_good drop_staged_good export_good tick_good)

lemma steps_good: "(fs_step R M C)\<^sup>*\<^sup>* fs fs1 \<Longrightarrow> good fs \<Longrightarrow> good fs1"
  by (induction rule: rtranclp_induct) (auto intro: step_good)

end

interpretation fake: engram_substrate fakeR2_ops FakeR2_objs FakeR2_inv
  fakeManifest_ops "\<lambda>m. map_of (fm_rows m)" FakeManifest_inv
  ..

section \<open>Properties\<close>

abbreviation fake_rows :: "fake_manifest \<Rightarrow> string \<Rightarrow> fs_entry option" where
  "fake_rows m \<equiv> map_of (fm_rows m)"

type_synonym fake_fs = "(fake_r2, fake_manifest) engram_fs"

lemma new_fake_inv: "FakeR2_inv new_FakeR2" "FakeManifest_inv new_FakeManifest"
  "fake_rows new_FakeManifest = Map.empty"
  by (simp_all add: FakeR2_inv_def FakeManifest_inv_def new_FakeR2_def new_FakeManifest_def)

text \<open>A codec to evaluate the model on: bytes are character codes, the digest is a constant.\<close>

definition demo_codec :: codec where
  "demo_codec = \<lparr>cd_encode = map (\<lambda>c. of_nat (of_char c)),
     cd_decode = (\<lambda>b. Some (map (\<lambda>x. char_of (unat x)) b)), cd_digest = (\<lambda>b. replicate 32 7)\<rparr>"

definition demo_fs :: fake_fs where
  "demo_fs = \<lparr>efs_r2 = new_FakeR2, efs_manifest = new_FakeManifest, efs_doId = ''d1'', efs_cell = 0,
     efs_nowMs = 0, efs_previewBytes = 256, efs_cwd = WORKSPACE_ROOT, efs_staged = []\<rparr>"

lemma demo_new: "new_EngramFs new_FakeR2 new_FakeManifest ''d1'' None (Some 0) None None = Inr demo_fs"
  by (simp add: new_EngramFs_def resolveCwd_alt resolve_root_cwd cwd_of_def demo_fs_def)


lemma fake_substrate: "engram_substrate fakeR2_ops FakeR2_objs FakeR2_inv
    fakeManifest_ops fake_rows FakeManifest_inv"
  by (rule fake.engram_substrate_axioms)


text \<open>C19. The staged commit: on a coherent session \<open>flushStaged\<close> succeeds, leaves nothing staged,
  returns one pointer per staged path in staging order, makes the committed files exactly what the
  session already read (its own reads do not change), and raises the version by one, or not at all
  when nothing was staged.\<close>

theorem flush_commits_view:
  assumes "engram_substrate R objs r_inv M rows m_inv"
    and "r_inv (efs_r2 fs)" "m_inv (efs_manifest fs)" "coherent objs rows fs"
  shows "\<exists>ptrs fs1. flushStaged R M C fs = Inr (ptrs, fs1) \<and> efs_staged fs1 = [] \<and>
     map ptr_path ptrs = map fst (efs_staged fs) \<and>
     committed_view objs rows fs1 = fs_view objs rows fs \<and>
     fs_view objs rows fs1 = fs_view objs rows fs \<and> coherent objs rows fs1 \<and>
     fs_version M fs1 = fs_version M fs + (if stagedCount fs = 0 then 0 else 1)"
proof -
  have "engram_substrate.good objs r_inv rows m_inv fs"
    using assms by (simp add: engram_substrate.good_def[OF assms(1)])
  from engram_substrate.flush_spec[OF assms(1) this, of C] show ?thesis
    by (auto simp: engram_substrate.good_def[OF assms(1)] fs_version_def stagedCount_def)
qed

definition demo_staged :: fake_fs where
  "demo_staged = demo_fs\<lparr>efs_staged :=
     [(''a'', \<lparr>sw_path = ''a'', sw_bytes = [1], sw_origin = OCell\<rparr>)]\<rparr>"

lemma demo_staged_ok: "FakeR2_inv (efs_r2 demo_staged)" "FakeManifest_inv (efs_manifest demo_staged)"
  "coherent FakeR2_objs fake_rows demo_staged"
proof -
  have "WORKSPACE_ROOT = cwd_of ''''" "rel_ok ''''" "rel_ok ''a''"
    by (simp add: cwd_of_def) code_simp+
  then show "coherent FakeR2_objs fake_rows demo_staged"
    by (auto simp: coherent_def demo_staged_def demo_fs_def new_FakeManifest_def)
qed (simp_all add: demo_staged_def demo_fs_def FakeR2_inv_def FakeManifest_inv_def new_FakeR2_def new_FakeManifest_def)

theorem flush_commits_view_witness:
  "\<exists>ptrs fs1. flushStaged fakeR2_ops fakeManifest_ops demo_codec demo_staged = Inr (ptrs, fs1) \<and>
     committed_view FakeR2_objs fake_rows fs1 ''a'' = Some [1]"
proof -
  have "fs_view FakeR2_objs fake_rows demo_staged ''a'' = Some [1]"
    by (simp add: fs_view_def demo_staged_def)
  with flush_commits_view[OF fake_substrate demo_staged_ok, of demo_codec] show ?thesis by auto
qed

text \<open>C20. Reading back a write: on a coherent session a write to a non-root path succeeds; a
  transactional write is staged and read back at once, without touching the committed files; a
  direct write changes exactly that committed file, raises the version by one, and is read back
  unless an earlier staged write of the same path still shadows it.\<close>

theorem write_then_read:
  assumes "engram_substrate R objs r_inv M rows m_inv"
    and "r_inv (efs_r2 fs)" "m_inv (efs_manifest fs)" "coherent objs rows fs"
    and "fs_rel fs path = Inr p" "p \<noteq> ''''"
  shows "\<exists>ptr fs1. writeFile R M C path data mode orig fs = Inr (ptr, fs1) \<and> ptr_path ptr = p \<and>
     readFile R M path None None fs1 = Inr (fs_view objs rows fs1 p) \<and>
     fs_view objs rows fs1 =
       (if mode = Some Txn \<or> map_of (efs_staged fs) p = None
        then (fs_view objs rows fs)(p \<mapsto> toBytes C data) else fs_view objs rows fs) \<and>
     committed_view objs rows fs1 =
       (if mode = Some Txn then committed_view objs rows fs
        else (committed_view objs rows fs)(p \<mapsto> toBytes C data)) \<and>
     fs_version M fs1 = fs_version M fs + (if mode = Some Txn then 0 else 1)"
proof -
  note g_def = engram_substrate.good_def[OF assms(1)]
  have g: "engram_substrate.good objs r_inv rows m_inv fs" using assms by (simp add: g_def)
  have "\<exists>ptr fs1. writeFile R M C path data mode orig fs = Inr (ptr, fs1) \<and> ptr_path ptr = p \<and>
     efs_cwd fs1 = efs_cwd fs \<and>
     efs_staged fs1 = (if mode = Some Txn then AList.update p
        \<lparr>sw_path = p, sw_bytes = toBytes C data, sw_origin = (case orig of None \<Rightarrow> OFrame | Some x \<Rightarrow> x)\<rparr>
        (efs_staged fs) else efs_staged fs) \<and>
     committed_view objs rows fs1 =
       (if mode = Some Txn then committed_view objs rows fs
        else (committed_view objs rows fs)(p \<mapsto> toBytes C data)) \<and>
     fs_version M fs1 = fs_version M fs + (if mode = Some Txn then 0 else 1)"
    using engram_substrate.write_direct_spec[OF assms(1) g assms(5,6), of mode C data orig] assms(5,6)
    by (cases "mode = Some Txn") (auto simp: writeFile_def Let_def fs_version_def)
  then obtain ptr fs1 where w: "writeFile R M C path data mode orig fs = Inr (ptr, fs1)" "ptr_path ptr = p"
    "efs_cwd fs1 = efs_cwd fs" and st: "efs_staged fs1 = (if mode = Some Txn then AList.update p
        \<lparr>sw_path = p, sw_bytes = toBytes C data, sw_origin = (case orig of None \<Rightarrow> OFrame | Some x \<Rightarrow> x)\<rparr>
        (efs_staged fs) else efs_staged fs)"
    and cv: "committed_view objs rows fs1 = (if mode = Some Txn then committed_view objs rows fs
        else (committed_view objs rows fs)(p \<mapsto> toBytes C data))"
    and ver: "fs_version M fs1 = fs_version M fs + (if mode = Some Txn then 0 else 1)"
    by blast
  have "fs_view objs rows fs1 q = (if mode = Some Txn \<or> map_of (efs_staged fs) p = None
        then (fs_view objs rows fs)(p \<mapsto> toBytes C data) else fs_view objs rows fs) q" for q
    unfolding fs_view_def st cv by (auto simp: map_of_update split: option.splits)
  moreover have "readFile R M path None None fs1 = Inr (fs_view objs rows fs1 p)"
    using engram_substrate.write_good[OF assms(1) g w(1)] assms(5) w(3)
    by (intro engram_substrate.read_view[OF assms(1)]) (simp_all add: fs_rel_def)
  ultimately show ?thesis using w cv ver by (auto simp: fun_eq_iff)
qed

theorem write_then_read_witness:
  "\<exists>ptr fs1. writeFile fakeR2_ops fakeManifest_ops demo_codec ''/b'' (Raw [9]) None None demo_staged
       = Inr (ptr, fs1) \<and>
     readFile fakeR2_ops fakeManifest_ops ''/b'' None None fs1 = Inr (Some [9])"
proof -
  have "resolve ''/b'' WORKSPACE_ROOT = Inr ''b''" by code_simp
  then have "fs_rel demo_staged ''/b'' = Inr ''b''" by (simp add: fs_rel_def demo_staged_def demo_fs_def)
  moreover have "map_of (efs_staged demo_staged) ''b'' = None" by (simp add: demo_staged_def)
  ultimately show ?thesis
    using write_then_read[OF fake_substrate demo_staged_ok, of "''/b''" "''b''" demo_codec "Raw [9]" None None]
    by (auto simp: toBytes_def)
qed

text \<open>The content-addressed objects are not protected from the file tree: the key of the
  immutable object \<open>cas/h\<close> is the key of the ordinary file \<open>cas/h\<close>, and the exported
  manifest's key is that of the ordinary file \<open>.engram/manifest.json\<close>.\<close>

theorem cas_key_is_a_file_key:
  assumes "HEX64 h" "doId \<noteq> ''''"
  shows "liveKey doId (''cas/'' @ h) = casKey doId h \<and>
         liveKey doId ''.engram/manifest.json'' = manifestKey doId"
proof -
  have h: "seg_ok h" by (rule HEX64_seg[OF assms(1)])
  have "seg_ok ''cas''" by code_simp
  moreover have "js_split CHR ''/'' (''cas/'' @ h) = [''cas'', h]"
    using h js_split_append_sep[of "CHR ''/''" "''cas''" h] by (simp add: js_split_plain seg_ok_def)
  ultimately have "rel_ok (''cas/'' @ h)" using h by (simp add: rel_ok_def)
  then have "normPath (''cas/'' @ h) = Inr (''cas/'' @ h)" by (rule normPath_rel_ok)
  moreover have "normPath ''.engram/manifest.json'' = Inr ''.engram/manifest.json''"
    by (rule normPath_rel_ok) code_simp
  ultimately show ?thesis
    unfolding liveKey_def casKey_def assertSha256_def manifestKey_def rootPrefix_def
    using assms by simp
qed

theorem cas_key_is_a_file_key_witness:
  "liveKey ''d1'' (''cas/'' @ replicate 64 CHR ''0'') = casKey ''d1'' (replicate 64 CHR ''0'')"
proof -
  have "HEX64 (replicate 64 CHR ''0'')" by code_simp
  from cas_key_is_a_file_key[OF this, of "''d1''"] show ?thesis by simp
qed

end
