(* ===== verification/Gateway.thy ===== *)
theory Gateway
  imports FsFakes
begin

text \<open>
  The second and third users of the key scheme: the VFS gateway handed to dynamically loaded
  workers (\<open>apps/kernel/entry.ts\<close>, class \<open>VfsGateway\<close>) and the kernel glue's own
  normaliser (\<open>normFsPath\<close> in \<open>apps/kernel/src/kernel-glue.ts\<close>).  The bucket is reached through
  the same record of operations as the file substrate.  The lemmas compare the three key schemes.
\<close>

section \<open>The gateway\<close>

datatype gw_error = RegistryUnavailable string | GwFs fs_error

record 'r gateway =
  gw_bucket :: "'r option"
  gw_doId :: "string option"
  gw_cwd :: "string option"

definition gw_lift :: "(fs_error, 'a) result \<Rightarrow> (gw_error, 'a) result" where
  "gw_lift r = (case r of Inl e \<Rightarrow> Inl (GwFs e) | Inr x \<Rightarrow> Inr x)"

definition gw__bucket :: "'r gateway \<Rightarrow> (gw_error, 'r) result" where
  "gw__bucket g =
     (case gw_bucket g of
        None \<Rightarrow> Inl (RegistryUnavailable ''VfsGateway: SNAPSHOTS R2 binding unavailable'')
      | Some b \<Rightarrow> Inr b)"

definition gw_str :: "string option \<Rightarrow> string \<Rightarrow> string" where
  "gw_str s d = (case s of None \<Rightarrow> d | Some x \<Rightarrow> x)"

definition gw__key :: "'r gateway \<Rightarrow> string \<Rightarrow> (gw_error, string) result" where
  "gw__key g path =
     (let doId = gw_str (gw_doId g) '''' in
      if doId = '''' then Inl (RegistryUnavailable ''VfsGateway: missing doId prop (prefix isolation)'')
      else
        rbind (gw_lift (resolve path (gw_str (gw_cwd g) WORKSPACE_ROOT))) (\<lambda>norm.
          if norm = ''''
          then Inl (GwFs (FsPathError (''VfsGateway: '' @ path @ '' is a directory'') EISDIR))
          else Inr (''fs/'' @ doId @ ''/'' @ norm)))"

text \<open>The bucket is looked up before the key is built, as the source evaluates it.\<close>

definition gw_readFileBytes ::
  "'r r2_ops \<Rightarrow> 'r gateway \<Rightarrow> string \<Rightarrow> (gw_error, bytes option) result" where
  "gw_readFileBytes R g path =
     rbind (gw__bucket g) (\<lambda>b. rbind (gw__key g path) (\<lambda>k.
       Inr (map_option rb_bytes (r2_get R b k 0 None))))"

definition gw_readFile ::
  "'r r2_ops \<Rightarrow> (bytes \<Rightarrow> string) \<Rightarrow> 'r gateway \<Rightarrow> string \<Rightarrow> (gw_error, string option) result" where
  "gw_readFile R text g path =
     rbind (gw__bucket g) (\<lambda>b. rbind (gw__key g path) (\<lambda>k.
       Inr (map_option (\<lambda>body. text (rb_bytes body)) (r2_get R b k 0 None))))"

definition gw_writeFile ::
  "'r r2_ops \<Rightarrow> codec \<Rightarrow> 'r gateway \<Rightarrow> string \<Rightarrow> fs_data \<Rightarrow> (gw_error, nat \<times> 'r gateway) result" where
  "gw_writeFile R C g path data =
     (let body = (case data of Text s \<Rightarrow> cd_encode C s | Raw b \<Rightarrow> b) in
      rbind (gw__bucket g) (\<lambda>b. rbind (gw__key g path) (\<lambda>k.
        Inr (length body, g\<lparr>gw_bucket := Some (snd (r2_put R b k body))\<rparr>))))"

definition gw_deleteFile ::
  "'r r2_ops \<Rightarrow> 'r gateway \<Rightarrow> string \<Rightarrow> (gw_error, 'r gateway) result" where
  "gw_deleteFile R g path =
     rbind (gw__bucket g) (\<lambda>b. rbind (gw__key g path) (\<lambda>k.
       Inr (g\<lparr>gw_bucket := Some (r2_delete R b k)\<rparr>)))"

definition gw_list :: "'r r2_ops \<Rightarrow> 'r gateway \<Rightarrow> string \<Rightarrow> (gw_error, string list) result" where
  "gw_list R g pre =
     (let root = ''fs/'' @ gw_str (gw_doId g) '''' @ ''/'' in
      rbind (gw_lift (resolve pre (gw_str (gw_cwd g) WORKSPACE_ROOT))) (\<lambda>norm.
        let r2prefix = (if norm \<noteq> '''' then root @ norm @ ''/'' else root) in
        rbind (gw__bucket g) (\<lambda>b.
          Inr (map (\<lambda>x. ''/'' @ drop (length root) (rl_key x)) (r2_list R b r2prefix)))))"

section \<open>The kernel's normaliser\<close>

fun normFsPath_loop :: "string list \<Rightarrow> string list \<Rightarrow> (string, string list) result" where
  "normFsPath_loop [] out = Inr out"
| "normFsPath_loop (seg # segs) out =
     (if seg = '''' \<or> seg = ''.'' then normFsPath_loop segs out
      else if seg = ''..'' then
        (if out = [] then Inl ''EACCES: path escapes the session root''
         else normFsPath_loop segs (butlast out))
      else normFsPath_loop segs (out @ [seg]))"

definition normFsPath :: "string \<Rightarrow> (string, string) result" where
  "normFsPath p =
     (if hasNul p then Inl ''EINVAL: path contains NUL byte''
      else rbind (normFsPath_loop (js_split CHR ''/'' p) []) (\<lambda>out. Inr (''/'' @ js_join CHR ''/'' out)))"

section \<open>Lemmas\<close>

lemma gw__key_Inr:
  "gw__key g path = Inr k \<longleftrightarrow>
   (\<exists>r. gw_str (gw_doId g) '''' \<noteq> '''' \<and> resolve path (gw_str (gw_cwd g) WORKSPACE_ROOT) = Inr r \<and>
        r \<noteq> '''' \<and> k = ''fs/'' @ gw_str (gw_doId g) '''' @ ''/'' @ r)"
  by (auto simp: gw__key_def gw_lift_def Let_def rbind_Inr_iff split: sum.splits)

text \<open>The two loops do the same work, one floor apart.\<close>

lemma normFsPath_loop_floor:
  "(normFsPath_loop segs out = Inr r) = (normalizeSegments segs 1 orig (w # out) = Inr (w # r))"
proof (induction segs arbitrary: out)
  case (Cons seg segs)
  then show ?case
    by (cases "seg = ''..''"; cases "out = []") auto
qed simp

lemma normalize_head:
  "normalizeSegments segs 1 orig (w # out) = Inr r \<Longrightarrow> \<exists>t. r = w # t"
proof (induction segs arbitrary: out)
  case (Cons seg segs)
  show ?case
  proof (cases "seg = ''..''")
    case True
    then show ?thesis using Cons by (cases "out = []") auto
  next
    case False
    then show ?thesis using Cons by (auto split: if_splits)
  qed
qed auto

text \<open>Where the kernel's normaliser and the shared resolver agree: on every path that does not
  spell out the workspace prefix they accept the same inputs and yield the same relative
  path.\<close>

theorem normFsPath_agrees:
  assumes "stripWsPrefix p = p"
  shows "normFsPath p = Inr (''/'' @ r) \<longleftrightarrow> normPath p = Inr r"
proof (cases "hasNul p")
  case True
  then show ?thesis using resolve_clean by (auto simp: normFsPath_def normPath_def)
next
  case False
  have n: "normPath p = rbind (normalizeSegments (js_split CHR ''/'' p) 1 p [''workspace''])
      (\<lambda>segs. Inr (js_join CHR ''/'' (drop 1 segs)))"
  proof (cases "prefix ''/'' p")
    case True
    then show ?thesis using False assms by (simp add: normPath_def resolve_abs)
  next
    case no: False
    then show ?thesis using False by (simp add: normPath_rel)
  qed
  show ?thesis
    using False normFsPath_loop_floor[of "js_split CHR ''/'' p" "[]" _ p "''workspace''"]
      normalize_head[of "js_split CHR ''/'' p" p "''workspace''" "[]"]
    by (fastforce simp: n normFsPath_def rbind_Inr_iff)
qed

text \<open>Where they part: the normaliser documented to match the kernel's \<open>norm_fs_path\<close> keeps a
  spelled-out workspace prefix as a directory, where the shared resolver strips it.\<close>

theorem normFsPath_keeps_prefix:
  "normFsPath ''/workspace/a'' = Inr ''/workspace/a'' \<and> normPath ''/workspace/a'' = Inr ''a''"
  by code_simp

text \<open>The gateway and the file substrate address the same objects: for the same session the key
  the gateway builds is the live key of the resolved path, it lies below the session's prefix, and
  gateways of different sessions never meet.\<close>

theorem gateway_key_is_live_key:
  assumes "gw__key g path = Inr k" "gw__key g' path' = Inr k'"
    and "CHR ''/'' \<notin> set (gw_str (gw_doId g) '''')" "CHR ''/'' \<notin> set (gw_str (gw_doId g') '''')"
  shows "(\<exists>r. resolve path (gw_str (gw_cwd g) WORKSPACE_ROOT) = Inr r \<and>
              liveKey (gw_str (gw_doId g) '''') r = Inr k) \<and>
         (k = k' \<longrightarrow> gw_doId g = gw_doId g')"
proof -
  have "\<exists>r. resolve path (gw_str (gw_cwd g) WORKSPACE_ROOT) = Inr r \<and>
            liveKey (gw_str (gw_doId g) '''') r = Inr k"
    using assms(1) normPath_rel_ok[OF resolve_rel_ok] by (fastforce simp: gw__key_Inr liveKey_Inr)
  moreover have "k = k' \<Longrightarrow> gw_str (gw_doId g) '''' = gw_str (gw_doId g') ''''"
    using assms by (auto simp: gw__key_Inr append_sep_inject)
  then have "k = k' \<Longrightarrow> gw_doId g = gw_doId g'"
    using assms by (auto simp: gw__key_Inr gw_str_def split: option.splits)
  ultimately show ?thesis by blast
qed

definition demo_gateway :: "string \<Rightarrow> fake_r2 gateway" where
  "demo_gateway d = \<lparr>gw_bucket = Some new_FakeR2, gw_doId = Some d, gw_cwd = None\<rparr>"

theorem gateway_key_is_live_key_witness:
  "gw__key (demo_gateway ''d1'') ''../workspace'' = Inl (GwFs (FsPathError ''path escapes /workspace: ../workspace'' EACCES)) \<and>
   liveKey ''d1'' ''a'' = Inr ''fs/d1/a''"
proof -
  have k: "gw__key (demo_gateway ''d1'') ''./a'' = Inr ''fs/d1/a''" by code_simp
  have "resolve ''./a'' WORKSPACE_ROOT = Inr ''a''" by code_simp
  then have "liveKey ''d1'' ''a'' = Inr ''fs/d1/a''"
    using gateway_key_is_live_key[OF k k] by (auto simp: demo_gateway_def gw_str_def)
  moreover have "gw__key (demo_gateway ''d1'') ''../workspace''
      = Inl (GwFs (FsPathError ''path escapes /workspace: ../workspace'' EACCES))" by code_simp
  ultimately show ?thesis by blast
qed

text \<open>A listing never leaves the session: over a bucket that keeps its contract, every name the
  gateway lists is the slash form of an object whose key starts with the session's own prefix.\<close>

theorem gateway_list_confined:
  assumes "object_store R objs r_inv" "gw_bucket g = Some b" "r_inv b"
    and "gw_list R g pre = Inr names" "n \<in> set names"
  shows "\<exists>rel. n = ''/'' @ rel \<and> objs b (''fs/'' @ gw_str (gw_doId g) '''' @ ''/'' @ rel) \<noteq> None"
proof -
  let ?root = "''fs/'' @ gw_str (gw_doId g) '''' @ ''/''"
  obtain p where p: "prefix ?root p"
    and names: "names = map (\<lambda>x. ''/'' @ drop (length ?root) (rl_key x)) (r2_list R b p)"
    using assms(2,4)
    by (auto simp: gw_list_def Let_def rbind_Inr_iff gw__bucket_def split: if_splits)
      (metis append.assoc append_Cons append_Nil prefixI prefix_order.refl)+
  then obtain x where x: "x \<in> set (r2_list R b p)" "n = ''/'' @ drop (length ?root) (rl_key x)"
    using assms(5) by auto
  then have "objs b (rl_key x) \<noteq> None" "prefix p (rl_key x)"
    by (auto simp: object_store.list_law[OF assms(1,3)])
  moreover from this p obtain rel where "rl_key x = ?root @ rel"
    by (meson prefixE prefix_order.trans)
  ultimately show ?thesis using x(2) by (intro exI[of _ rel]) simp
qed

theorem normFsPath_agrees_witness:
  "normFsPath ''/x/../a'' = Inr ''/a'' \<and> normPath ''/x/../a'' = Inr ''a''"
proof -
  have "stripWsPrefix ''/x/../a'' = ''/x/../a''" "normPath ''/x/../a'' = Inr ''a''" by code_simp+
  with normFsPath_agrees[OF this(1), of "''a''"] show ?thesis by simp
qed

theorem gateway_list_confined_witness:
  "\<exists>rel. ''/a'' = ''/'' @ rel \<and>
     FakeR2_objs (snd (FakeR2_put new_FakeR2 ''fs/d1/a'' [1])) (''fs/d1/'' @ rel) \<noteq> None"
proof -
  let ?b = "snd (FakeR2_put new_FakeR2 ''fs/d1/a'' [1])"
  let ?g = "(demo_gateway ''d1'')\<lparr>gw_bucket := Some ?b\<rparr>"
  have "FakeR2_inv ?b"
    using fake_r2.put_inv[of new_FakeR2] by (simp add: FakeR2_inv_def new_FakeR2_def fakeR2_ops_def)
  moreover have "gw_list fakeR2_ops ?g ''/'' = Inr [''/a'']" by code_simp
  ultimately show ?thesis
    using gateway_list_confined[OF fake_r2.object_store_axioms, of ?g ?b "''/''" "[''/a'']" "''/a''"]
    by (auto simp: demo_gateway_def gw_str_def)
qed

end
