(* ===== verification/Ssrf.thy ===== *)
theory Ssrf
  imports Json
begin

text \<open>
  The egress guard of \<open>apps/kernel/src/kernel-glue.ts\<close>: which hosts are private
  (\<open>isPrivateV4\<close>, \<open>normalizeV4\<close>, \<open>parseV6\<close>, \<open>isBlockedV6\<close>, \<open>isBlockedSsrfHost\<close>), the redirect
  walk that re-checks every hop (\<open>ssrfSafeFetch\<close>), and the destination of a raw socket
  (\<open>_socketHostOf\<close>).  Addresses are naturals: the JavaScript numbers involved are integers, those
  above the 32-bit range are rejected by the code before any bit operation, and \<open>>>>\<close> on the rest
  is division.  The URL parser and the network are parameters.
\<close>

section \<open>IPv4\<close>

type_synonym v4 = "nat \<times> nat \<times> nat \<times> nat"

definition isPrivateV4 :: "nat \<Rightarrow> nat \<Rightarrow> nat \<Rightarrow> nat \<Rightarrow> bool" where
  "isPrivateV4 a b c d =
     (if a = 127 then True
      else if a = 10 then True
      else if a = 0 then True
      else if a = 169 \<and> b = 254 then True
      else if a = 172 \<and> 16 \<le> b \<and> b \<le> 31 then True
      else if a = 192 \<and> b = 168 then True
      else if a = 100 \<and> 64 \<le> b \<and> b \<le> 127 then True
      else False)"

text \<open>One dotted part: hexadecimal, octal, zero or decimal; anything else is no number.\<close>

definition v4_part :: "string \<Rightarrow> nat option" where
  "v4_part p =
     (if p = '''' then None
      else if (prefix ''0x'' p \<or> prefix ''0X'' p) \<and> length p > 2 \<and> list_all (is_digit 16) (drop 2 p)
        then Some (parse_digits 16 (drop 2 p))
      else if prefix ''0'' p \<and> length p > 1 \<and> list_all (is_digit 8) (tl p)
        then Some (parse_digits 8 p)
      else if p = ''0'' then Some 0
      else if is_digit 10 (hd p) \<and> hd p \<noteq> CHR ''0'' \<and> list_all (is_digit 10) (tl p)
        then Some (parse_digits 10 p)
      else None)"

definition v4_octets :: "nat \<Rightarrow> v4" where
  "v4_octets value =
     (value div 16777216 mod 256, value div 65536 mod 256, value div 256 mod 256, value mod 256)"

definition v4_pack :: "nat list \<Rightarrow> nat option" where
  "v4_pack nums =
     (let k = length nums; lst = last nums; firsts = butlast nums in
      if k = 1 then Some lst
      else if \<not> list_all (\<lambda>n. n \<le> 255) firsts then None
      else
        let fillBytes = 4 - (k - 1);
            maxLast = (if 4 \<le> fillBytes then 4294967295 else 256 ^ fillBytes - 1)
        in if maxLast < lst then None
           else Some (foldl (\<lambda>v n. v * 256 + n) 0 firsts * 256 ^ fillBytes + lst))"

definition normalizeV4 :: "string \<Rightarrow> v4 option" where
  "normalizeV4 h =
     (let partsRaw = js_split CHR ''.'' h in
      if length partsRaw < 1 \<or> 4 < length partsRaw then None
      else case traverse v4_part partsRaw of
             None \<Rightarrow> None
           | Some nums \<Rightarrow>
               (case v4_pack nums of
                  None \<Rightarrow> None
                | Some value \<Rightarrow> if 4294967295 < value then None else Some (v4_octets value)))"

section \<open>IPv6\<close>

definition hex16 :: "string \<Rightarrow> nat option" where
  "hex16 x =
     (if 1 \<le> length x \<and> length x \<le> 4 \<and> list_all (is_digit 16) x then Some (parse_digits 16 x) else None)"

definition v6_parts :: "string \<Rightarrow> string list" where
  "v6_parts s = filter (\<lambda>x. x \<noteq> '''') (js_split CHR '':'' s)"

text \<open>The embedded IPv4 tail, when the part after the last colon has a dot: the rest of the text
  and the two groups of the tail.\<close>

definition v6_tail :: "string \<Rightarrow> (string \<times> nat list) option" where
  "v6_tail s =
     (let tail = after_last CHR '':'' s in
      if CHR ''.'' \<in> set tail then
        (case normalizeV4 tail of
           None \<Rightarrow> None
         | Some (a, b, c, d) \<Rightarrow>
             (let head = before_last CHR '':'' s;
                  head' = (if suffix '':'' head \<and> \<not> suffix ''::'' head then butlast head else head)
              in Some (head', [a * 256 + b, c * 256 + d])))
      else Some (s, []))"

definition v6_groups :: "string \<Rightarrow> nat list \<Rightarrow> nat list option" where
  "v6_groups head tailGroups =
     (case split_at_pat ''::'' head of
        Some (l, r) \<Rightarrow>
          (let left = v6_parts l; right = v6_parts r;
               known = length left + length right + length tailGroups
           in if 8 < known then None
              else case (traverse hex16 left, traverse hex16 right) of
                     (Some l', Some r') \<Rightarrow> Some (l' @ replicate (8 - known) 0 @ r' @ tailGroups)
                   | _ \<Rightarrow> None)
      | None \<Rightarrow> map_option (\<lambda>out. out @ tailGroups) (traverse hex16 (v6_parts head)))"

definition parseV6 :: "string \<Rightarrow> nat list option" where
  "parseV6 h =
     (let s = before_first CHR ''%'' h in
      if CHR '':'' \<notin> set s then None
      else case v6_tail s of
             None \<Rightarrow> None
           | Some (head, tailGroups) \<Rightarrow>
               (case v6_groups head tailGroups of
                  None \<Rightarrow> None
                | Some groups \<Rightarrow>
                    if length groups \<noteq> 8 then None
                    else Some (concat (map (\<lambda>g. [g div 256 mod 256, g mod 256]) groups))))"

definition isBlockedV6 :: "nat list \<Rightarrow> bool" where
  "isBlockedV6 b =
     (if list_all (\<lambda>x. x = 0) (take 15 b) \<and> (b ! 15 = 0 \<or> b ! 15 = 1) then True
      else if b ! 0 = 254 \<and> b ! 1 div 64 = 2 then True
      else if b ! 0 div 2 = 126 then True
      else if list_all (\<lambda>x. x = 0) (take 10 b) \<and> b ! 10 = 255 \<and> b ! 11 = 255
              \<and> isPrivateV4 (b ! 12) (b ! 13) (b ! 14) (b ! 15) then True
      else False)"

definition isBlockedSsrfHost :: "string \<Rightarrow> bool" where
  "isBlockedSsrfHost hostname =
     (if hostname = '''' then True
      else
        let h0 = js_lower hostname;
            h = (if prefix ''['' h0 \<and> suffix '']'' h0 then butlast (tl h0) else h0)
        in if h = ''localhost'' \<or> suffix ''.localhost'' h then True
           else if suffix ''.internal'' h \<or> suffix ''.local'' h then True
           else if h = ''metadata.google.internal'' then True
           else if CHR '':'' \<in> set h then
             (case parseV6 h of Some v6 \<Rightarrow> isBlockedV6 v6 | None \<Rightarrow> True)
           else case normalizeV4 h of
                  Some (a, b, c, d) \<Rightarrow> isPrivateV4 a b c d
                | None \<Rightarrow> h \<noteq> '''' \<and> list_all (\<lambda>c. is_digit 10 c \<or> c = CHR ''.'') h)"

section \<open>Redirects\<close>

record url =
  u_href :: string
  u_protocol :: string
  u_host :: string
  u_hostname :: string

record req_init =
  ri_method :: "string option"
  ri_body :: "bytes option"
  ri_bodyB64 :: "string option"
  ri_requestStream :: bool
  ri_headers :: "(string, string) omap"

record response =
  rs_status :: nat
  rs_ok :: bool
  rs_statusText :: string
  rs_url :: string
  rs_redirected :: bool
  rs_headers :: "(string, string) omap"
  rs_body :: "(string, bytes) result list option"

text \<open>A response body is absent or a sequence of chunks, each a
  read that may reject.  The network: what the \<open>n\<close>-th fetch of the walk to a URL returns (an error is a rejected
  promise), and the parser of a reference against a base URL.\<close>

record network =
  nw_fetch :: "nat \<Rightarrow> string \<Rightarrow> req_init \<Rightarrow> (string, response) result"
  nw_parse :: "string \<Rightarrow> string option \<Rightarrow> url option"

text \<open>The absent \<open>init\<close> argument.\<close>

definition no_init :: req_init where
  "no_init = \<lparr>ri_method = None, ri_body = None, ri_bodyB64 = None, ri_requestStream = False,
     ri_headers = []\<rparr>"

definition MAX_REDIRECT_HOPS :: nat where
  "MAX_REDIRECT_HOPS = 5"

definition is_redirect :: "response \<Rightarrow> bool" where
  "is_redirect r \<longleftrightarrow> 300 \<le> rs_status r \<and> rs_status r < 400 \<and> map_of (rs_headers r) ''location'' \<noteq> None"

definition drop_method :: "nat \<Rightarrow> req_init \<Rightarrow> req_init" where
  "drop_method hop i =
     (case ri_method i of
        None \<Rightarrow> i
      | Some m \<Rightarrow>
          if hop = 0 \<and> m \<noteq> '''' \<and> js_upper m \<noteq> ''GET'' \<and> js_upper m \<noteq> ''HEAD''
          then i\<lparr>ri_method := Some ''GET'', ri_body := None\<rparr> else i)"

text \<open>The loop; the second component is the log of the fetches made.  The number of hops left
  bounds the recursion as the loop condition does.\<close>

fun redirect_loop ::
  "network \<Rightarrow> nat \<Rightarrow> nat \<Rightarrow> string \<Rightarrow> req_init \<Rightarrow> (string \<times> req_init) list \<Rightarrow>
   (string, response) result \<times> (string \<times> req_init) list" where
  "redirect_loop N left hop curUrl i log =
     (let log' = log @ [(curUrl, i)] in
      case nw_fetch N hop curUrl i of
        Inl e \<Rightarrow> (Inl e, log')
      | Inr r \<Rightarrow>
          if \<not> is_redirect r then (Inr r, log')
          else case left of
            0 \<Rightarrow> (Inl (''FetchBlockedError: too many redirects (>'' @ nat_str MAX_REDIRECT_HOPS @ '')''), log')
          | Suc left' \<Rightarrow>
              (case nw_parse N (the (map_of (rs_headers r) ''location'')) (Some curUrl) of
                 None \<Rightarrow> (Inl ''FetchBlockedError: invalid redirect Location'', log')
               | Some next \<Rightarrow>
                   if isBlockedSsrfHost (u_hostname next)
                   then (Inl (''FetchBlockedError: redirect to '' @ u_hostname next
                              @ '' is a blocked private/internal address''), log')
                   else redirect_loop N left' (hop + 1) (u_href next) (drop_method hop i) log'))"

declare redirect_loop.simps [simp del]

definition ssrfSafeFetch ::
  "network \<Rightarrow> string \<Rightarrow> req_init \<Rightarrow> (string, response) result \<times> (string \<times> req_init) list" where
  "ssrfSafeFetch N url i = redirect_loop N MAX_REDIRECT_HOPS 0 url i []"

section \<open>Raw sockets\<close>

datatype sock_addr =
    AddrObj (ao_host: "string option") (ao_hostname: "string option")
  | AddrStr string
  | AddrOther

definition js_or :: "string option \<Rightarrow> string option \<Rightarrow> string option" where
  "js_or a b = (if a \<noteq> None \<and> a \<noteq> Some '''' then a else if b \<noteq> Some '''' then b else None)"

definition socketHostOf ::
  "(string \<Rightarrow> string option \<Rightarrow> url option) \<Rightarrow> sock_addr \<Rightarrow> (string option \<times> string option) option \<Rightarrow> string" where
  "socketHostOf parse addr opts =
     (case (case opts of None \<Rightarrow> None | Some (h, hn) \<Rightarrow> js_or h hn) of
        Some h \<Rightarrow> h
      | None \<Rightarrow>
          (case addr of
             AddrObj h hn \<Rightarrow> (case js_or h hn of Some x \<Rightarrow> x | None \<Rightarrow> '''')
           | AddrStr s \<Rightarrow>
               if split_at_pat ''://'' s \<noteq> None then
                 (case parse s None of Some u \<Rightarrow> u_hostname u | None \<Rightarrow> '''')
               else if prefix ''['' s then
                 (if CHR '']'' \<in> set s then takeWhile (\<lambda>c. c \<noteq> CHR '']'') (tl s) else '''')
               else hd (js_split CHR '':'' s)
           | AddrOther \<Rightarrow> ''''))"

datatype allow = AllowAll | AllowNone | AllowHosts "string list"

definition permits :: "allow \<Rightarrow> string \<Rightarrow> bool" where
  "permits al h = (case al of AllowAll \<Rightarrow> True | AllowNone \<Rightarrow> False | AllowHosts hs \<Rightarrow> List.member hs h)"

section \<open>Numeric texts\<close>

text \<open>The three ways the parser reads a number: decimal, \<open>0x\<close> hexadecimal, \<open>0\<close> octal.\<close>

definition num_texts :: "nat \<Rightarrow> string list" where
  "num_texts n = [nat_str n, ''0x'' @ nat_digits 16 n, ''0'' @ nat_digits 8 n]"

definition v4_chars :: string where
  "v4_chars = ''0123456789abcdefx.''"

lemma digit_char_zero: "0 < d \<Longrightarrow> d < 36 \<Longrightarrow> digit_char d \<noteq> CHR ''0''"
proof
  assume d: "0 < d" "d < 36" "digit_char d = CHR ''0''"
  moreover have "digit_val CHR ''0'' = Some 0" by (simp add: digit_val_def)
  ultimately show False using digit_val_char[of d] by simp
qed

lemma digits_all: "2 \<le> b \<Longrightarrow> b \<le> 36 \<Longrightarrow> list_all (is_digit b) (nat_digits b n)"
  by (simp add: list_all_iff nat_digits_are_digits)

lemma v4_part_dec: "v4_part (nat_str n) = Some n"
proof (cases "n = 0")
  case True then show ?thesis by (simp add: nat_str_def nat_digits_small) code_simp
next
  case False
  obtain d where d: "0 < d" "d < 10" "hd (nat_str n) = digit_char d"
    using nat_digits_head[of 10 n] False by (auto simp: nat_str_def)
  obtain c cs where s: "nat_str n = c # cs" by (cases "nat_str n") (simp_all add: nat_str_def)
  have "c \<noteq> CHR ''0''" using d s digit_char_zero[of d] by simp
  moreover have "list_all (is_digit 10) (c # cs)" "parse_digits 10 (c # cs) = n"
    using digits_all[of 10 n] parse_nat_digits[of 10 n] s by (simp_all add: nat_str_def)
  ultimately show ?thesis using s by (auto simp: v4_part_def)
qed

lemma v4_part_hex: "v4_part (''0x'' @ nat_digits 16 n) = Some n"
  using digits_all[of 16 n] parse_nat_digits[of 16 n] nat_digits_nonempty[of 16 n]
  by (simp add: v4_part_def)

lemma parse_digits_lead0: "parse_digits b (CHR ''0'' # s) = parse_digits b s"
  by (simp add: parse_digits_def digit_val_def)

lemma is_digit_not_x: "is_digit 8 c \<Longrightarrow> c \<noteq> CHR ''x'' \<and> c \<noteq> CHR ''X''"
  by (auto simp: is_digit_def digit_val_def split: option.splits)

lemma v4_part_oct: "v4_part (''0'' @ nat_digits 8 n) = Some n"
proof -
  obtain c cs where s: "nat_digits 8 n = c # cs" by (cases "nat_digits 8 n") simp_all
  have "list_all (is_digit 8) (c # cs)" "parse_digits 8 (c # cs) = n"
    using digits_all[of 8 n] parse_nat_digits[of 8 n] s by simp_all
  moreover from this have "c \<noteq> CHR ''x'' \<and> c \<noteq> CHR ''X''" using is_digit_not_x by simp
  ultimately show ?thesis using s by (auto simp: v4_part_def parse_digits_lead0)
qed

lemma v4_part_text: "t \<in> set (num_texts n) \<Longrightarrow> v4_part t = Some n"
  using v4_part_dec v4_part_hex v4_part_oct by (auto simp: num_texts_def)

lemma nat_digits_chars: "b \<in> {8, 10, 16} \<Longrightarrow> c \<in> set (nat_digits b n) \<Longrightarrow> c \<in> set hex_chars"
proof (induction b n rule: nat_digits.induct)
  case (1 b n)
  show ?case
  proof (cases "n < b")
    case True then show ?thesis using 1 by (auto simp: nat_digits_small intro!: digit_char_hex)
  next
    case False
    then show ?thesis using 1 by (auto simp: nat_digits_snoc intro!: digit_char_hex)
  qed
qed

lemma hex_chars_props:
  "c \<in> set hex_chars \<Longrightarrow> js_lower_char c = c \<and> c \<in> set v4_chars \<and> c \<noteq> CHR ''.'' \<and>
     c \<noteq> CHR ''l'' \<and> c \<noteq> CHR ''t''"
proof -
  assume c: "c \<in> set hex_chars"
  have "list_all (\<lambda>c. js_lower_char c = c \<and> c \<in> set v4_chars \<and> c \<noteq> CHR ''.'' \<and>
     c \<noteq> CHR ''l'' \<and> c \<noteq> CHR ''t'') hex_chars" by code_simp
  with c show ?thesis unfolding list_all_iff by blast
qed

lemma num_text_shape:
  assumes "t \<in> set (num_texts n)"
  shows "t \<noteq> '''' \<and> set t \<subseteq> set v4_chars - {CHR ''.''} \<and> last t \<in> set hex_chars"
proof -
  have n: "nat_digits b n \<noteq> []" for b by simp
  have sub: "set (nat_digits b n) \<subseteq> set v4_chars - {CHR ''.''}" if "b \<in> {8, 10, 16}" for b
    using nat_digits_chars[OF that] hex_chars_props by blast
  have l: "last (nat_digits b n) \<in> set hex_chars" if "b \<in> {8, 10, 16}" for b
    using nat_digits_chars[OF that] n[of b] last_in_set by blast
  have z: "{CHR ''0'', CHR ''x''} \<subseteq> set v4_chars - {CHR ''.''}" by code_simp
  show ?thesis
    using assms sub[of 8] sub[of 10] sub[of 16] l[of 8] l[of 10] l[of 16] z
    by (auto simp: num_texts_def nat_str_def)
qed

lemma v4_chars_props: "c \<in> set v4_chars \<Longrightarrow> js_lower_char c = c \<and> c \<noteq> CHR '':'' \<and> c \<noteq> CHR ''[''
   \<and> c \<noteq> CHR ''%''"
proof -
  assume c: "c \<in> set v4_chars"
  have "list_all (\<lambda>c. js_lower_char c = c \<and> c \<noteq> CHR '':'' \<and> c \<noteq> CHR ''[''
     \<and> c \<noteq> CHR ''%'') v4_chars" by code_simp
  with c show ?thesis unfolding list_all_iff by blast
qed

section \<open>Literal addresses\<close>

text \<open>An IPv4 literal: one to four numeric texts joined by dots.\<close>

definition v4_literal :: "nat list \<Rightarrow> string list \<Rightarrow> bool" where
  "v4_literal ns ts \<longleftrightarrow> 1 \<le> length ns \<and> length ns \<le> 4 \<and> list_all2 (\<lambda>t n. t \<in> set (num_texts n)) ts ns"

lemma literal_texts:
  assumes "v4_literal ns ts"
  shows "ts \<noteq> []" "\<forall>t \<in> set ts. t \<noteq> '''' \<and> set t \<subseteq> set v4_chars - {CHR ''.''} \<and> last t \<in> set hex_chars"
proof -
  show "ts \<noteq> []" using assms by (auto simp: v4_literal_def)
  have "list_all2 (\<lambda>t n. t \<in> set (num_texts n)) ts ns" using assms by (simp add: v4_literal_def)
  then have "\<exists>n. t \<in> set (num_texts n)" if "t \<in> set ts" for t
    using that by (induction rule: list_all2_induct) auto
  then show "\<forall>t \<in> set ts. t \<noteq> '''' \<and> set t \<subseteq> set v4_chars - {CHR ''.''} \<and> last t \<in> set hex_chars"
    using num_text_shape by blast
qed

lemma traverse_literal: "list_all2 (\<lambda>t n. t \<in> set (num_texts n)) ts ns \<Longrightarrow> traverse v4_part ts = Some ns"
  by (induction rule: list_all2_induct) (auto simp: v4_part_text)

lemma normalizeV4_literal:
  assumes "v4_literal ns ts"
  shows "normalizeV4 (js_join CHR ''.'' ts) =
    (case v4_pack ns of None \<Rightarrow> None | Some v \<Rightarrow> if 4294967295 < v then None else Some (v4_octets v))"
proof -
  note t = literal_texts[OF assms]
  have "js_split CHR ''.'' (js_join CHR ''.'' ts) = ts"
    using t by (intro js_split_join) auto
  moreover have "length ts = length ns" "traverse v4_part ts = Some ns"
    using assms by (auto simp: v4_literal_def traverse_literal list_all2_lengthD)
  ultimately show ?thesis using assms by (auto simp: normalizeV4_def v4_literal_def)
qed

lemma join_shape:
  "ts \<noteq> [] \<Longrightarrow> \<forall>t \<in> set ts. t \<noteq> '''' \<and> set t \<subseteq> set v4_chars - {CHR ''.''} \<and> last t \<in> set hex_chars \<Longrightarrow>
   js_join CHR ''.'' ts \<noteq> '''' \<and> set (js_join CHR ''.'' ts) \<subseteq> set v4_chars \<and>
   last (js_join CHR ''.'' ts) \<in> set hex_chars"
proof (induction "CHR ''.''" ts rule: js_join.induct)
  case (3 s t ss)
  have "CHR ''.'' \<in> set v4_chars" by code_simp
  with 3 show ?case by auto
qed auto

text \<open>A text over the literal characters passes every name test of the guard.\<close>

lemma suffix_last: "suffix p s \<Longrightarrow> p \<noteq> [] \<Longrightarrow> last s = last p"
  by (auto simp: suffix_def)

lemma guard_on_literal:
  assumes "h \<noteq> ''''" "set h \<subseteq> set v4_chars" "last h \<in> set hex_chars" "normalizeV4 h = Some (a, b, c, d)"
  shows "isBlockedSsrfHost h = isPrivateV4 a b c d"
proof -
  have low: "js_lower h = h"
    using assms(2) v4_chars_props by (auto simp: js_lower_def intro!: map_idI)
  have l: "last h \<noteq> CHR ''t''" "last h \<noteq> CHR ''l''"
    using assms(3) hex_chars_props by auto
  have "CHR '':'' \<notin> set h" "CHR ''['' \<notin> set h" using assms(2) v4_chars_props by auto
  moreover have "\<not> prefix ''['' h" using calculation(2) by (cases h) auto
  moreover have "\<not> suffix ''.localhost'' h" "\<not> suffix ''.internal'' h" "\<not> suffix ''.local'' h"
    using suffix_last[of "''.localhost''" h] suffix_last[of "''.internal''" h]
      suffix_last[of "''.local''" h] l by auto
  moreover have "h \<noteq> ''localhost''" "h \<noteq> ''metadata.google.internal''" using l by auto
  ultimately show ?thesis
    using assms(1,4) unfolding isBlockedSsrfHost_def low by simp
qed

text \<open>An IPv4-mapped IPv6 literal.\<close>

lemma after_last_append: "c \<notin> set q \<Longrightarrow> after_last c (p @ c # q) = q"
  by (simp add: after_last_def takeWhile_append)

lemma parseV6_mapped:
  assumes "CHR '':'' \<notin> set q" "CHR ''%'' \<notin> set q" "CHR ''.'' \<in> set q"
    and "normalizeV4 q = Some (a, b, c, d)" "a < 256" "b < 256" "c < 256" "d < 256"
  shows "parseV6 (''::ffff:'' @ q) = Some [0, 0, 0, 0, 0, 0, 0, 0, 0, 0, 255, 255, a, b, c, d]"
proof -
  have tail: "after_last CHR '':'' (''::ffff:'' @ q) = q"
    using after_last_append[OF assms(1), of "''::ffff''"] by simp
  then have head: "before_last CHR '':'' (''::ffff:'' @ q) = ''::ffff''"
    by (simp add: before_last_def)
  have bf: "before_first CHR ''%'' (''::ffff:'' @ q) = ''::ffff:'' @ q"
    using assms(2) unfolding before_first_def by (subst takeWhile_eq_all_conv) auto
  have "v6_tail (''::ffff:'' @ q) = Some (''::ffff'', [a * 256 + b, c * 256 + d])"
    unfolding v6_tail_def tail head using assms by (simp add: Let_def suffix_def)
  moreover have "v6_groups ''::ffff'' [x, y] = Some [0, 0, 0, 0, 0, 65535, x, y]" for x y
  proof -
    have "split_at_pat ''::'' ''::ffff'' = Some ('''', ''ffff'')" "v6_parts '''' = []"
      "v6_parts ''ffff'' = [''ffff'']" "replicate 5 (0 :: nat) = [0, 0, 0, 0, 0]" by code_simp+
    moreover have "traverse hex16 [''ffff''] = Some [65535]"
      by (simp add: hex16_def parse_digits_def digit_val_def is_digit_def)
    ultimately show ?thesis by (simp add: v6_groups_def)
  qed
  moreover have "CHR '':'' \<in> set (''::ffff:'' @ q)" by simp
  moreover have "(a * 256 + b) div 256 mod 256 = a" "(a * 256 + b) mod 256 = b"
    "(c * 256 + d) div 256 mod 256 = c" "(c * 256 + d) mod 256 = d" using assms(5-8) by auto
  moreover have "(65535 :: nat) div 256 mod 256 = 255" "(65535 :: nat) mod 256 = 255" by simp_all
  ultimately show ?thesis
    unfolding parseV6_def bf Let_def
    by simp
qed

lemma v4_octets_bound: "v4_octets v = (a, b, c, d) \<Longrightarrow> a < 256 \<and> b < 256 \<and> c < 256 \<and> d < 256"
  by (auto simp: v4_octets_def)

lemma isBlockedV6_mapped:
  "isBlockedV6 [0, 0, 0, 0, 0, 0, 0, 0, 0, 0, 255, 255, a, b, c, d] = isPrivateV4 a b c d"
  by (simp add: isBlockedV6_def)

lemma guard_on_v6:
  assumes "CHR '':'' \<in> set h" "set h \<subseteq> set v4_chars \<union> {CHR '':''}" "last h \<in> set hex_chars"
  shows "isBlockedSsrfHost h = (case parseV6 h of Some v6 \<Rightarrow> isBlockedV6 v6 | None \<Rightarrow> True)"
    and "isBlockedSsrfHost (''['' @ h @ '']'') = (case parseV6 h of Some v6 \<Rightarrow> isBlockedV6 v6 | None \<Rightarrow> True)"
proof -
  have colon: "js_lower_char CHR '':'' = CHR '':''" "js_lower_char CHR ''['' = CHR ''[''"
    "js_lower_char CHR '']'' = CHR '']''" by code_simp+
  have low: "js_lower h = h"
    using assms(2) v4_chars_props colon by (auto simp: js_lower_def intro!: map_idI)
  have low': "js_lower (''['' @ h @ '']'') = ''['' @ h @ '']''"
    using low colon by (simp add: js_lower_def)
  have l: "last h \<noteq> CHR ''t''" "last h \<noteq> CHR ''l''"
    using assms(3) hex_chars_props by auto
  have "CHR ''['' \<notin> set h" using assms(2) v4_chars_props by auto
  then have nb: "\<not> prefix ''['' h" by (cases h) auto
  have sf: "\<not> suffix ''.localhost'' h" "\<not> suffix ''.internal'' h" "\<not> suffix ''.local'' h"
    using suffix_last[of "''.localhost''" h] suffix_last[of "''.internal''" h]
      suffix_last[of "''.local''" h] l by auto
  have nn: "h \<noteq> ''localhost''" "h \<noteq> ''metadata.google.internal''" "h \<noteq> ''''" using l assms(1) by auto
  show "isBlockedSsrfHost h = (case parseV6 h of Some v6 \<Rightarrow> isBlockedV6 v6 | None \<Rightarrow> True)"
    using assms(1) sf nn nb unfolding isBlockedSsrfHost_def low by simp
  have br: "prefix ''['' (''['' @ h @ '']'')" "suffix '']'' (''['' @ h @ '']'')"
    "butlast (tl (''['' @ h @ '']'')) = h" by (simp_all add: suffix_def butlast_append)
  show "isBlockedSsrfHost (''['' @ h @ '']'') = (case parseV6 h of Some v6 \<Rightarrow> isBlockedV6 v6 | None \<Rightarrow> True)"
    using assms(1) sf nn br unfolding isBlockedSsrfHost_def low' by (simp add: Let_def)
qed

section \<open>Properties\<close>



lemma redirect_loop_log:
  assumes "redirect_loop N left hop u i log = (r, log')"
  shows "\<exists>rest. log' = log @ (u, i) # rest \<and> length rest \<le> left \<and>
    (\<forall>(v, j) \<in> set rest. \<exists>loc base p. nw_parse N loc (Some base) = Some p \<and> v = u_href p \<and>
       \<not> isBlockedSsrfHost (u_hostname p)) \<and>
    (\<forall>x. r = Inr x \<longrightarrow> \<not> is_redirect x)"
  using assms
proof (induction left arbitrary: hop u i log)
  case 0
  then show ?case
    by (subst (asm) redirect_loop.simps) (auto simp: Let_def split: sum.splits if_splits)
next
  case (Suc left)
  show ?case
  proof (cases "nw_fetch N hop u i")
    case (Inl e)
    then show ?thesis using Suc.prems by (subst (asm) redirect_loop.simps) (auto simp: Let_def)
  next
    case (Inr x)
    show ?thesis
    proof (cases "is_redirect x")
      case False
      then show ?thesis using Suc.prems Inr by (subst (asm) redirect_loop.simps) (auto simp: Let_def)
    next
      case True
      let ?p = "nw_parse N (the (map_of (rs_headers x) ''location'')) (Some u)"
      show ?thesis
      proof (cases "\<exists>p. ?p = Some p \<and> \<not> isBlockedSsrfHost (u_hostname p)")
        case False
        then show ?thesis using Suc.prems Inr True
          by (subst (asm) redirect_loop.simps) (auto simp: Let_def split: option.splits if_splits)
      next
        case ex: True
        then obtain p where p: "?p = Some p" "\<not> isBlockedSsrfHost (u_hostname p)" by blast
        then have "redirect_loop N left (hop + 1) (u_href p) (drop_method hop i) (log @ [(u, i)]) = (r, log')"
          using Suc.prems Inr True by (subst (asm) redirect_loop.simps) (simp add: Let_def)
        from Suc.IH[OF this] p show ?thesis by fastforce
      qed
    qed
  qed
qed

text \<open>C23. The redirect walk: it fetches the given URL first, then at most five more; every URL after
  the first is one the parser produced for a host the guard does not block; and a response it
  returns is not itself a redirect.\<close>

theorem redirects_are_rechecked:
  assumes "ssrfSafeFetch N url i = (r, log)"
  shows "\<exists>rest. log = (url, i) # rest \<and> length log \<le> 6 \<and>
    (\<forall>(v, j) \<in> set rest. \<exists>loc base p. nw_parse N loc (Some base) = Some p \<and> v = u_href p \<and>
       \<not> isBlockedSsrfHost (u_hostname p)) \<and>
    (\<forall>x. r = Inr x \<longrightarrow> \<not> is_redirect x)"
  using redirect_loop_log[OF assms[unfolded ssrfSafeFetch_def MAX_REDIRECT_HOPS_def]] by auto

definition demo_net :: network where
  "demo_net = \<lparr>nw_fetch = (\<lambda>n u i. Inr \<lparr>rs_status = 302, rs_ok = False, rs_statusText = '''', rs_url = u,
       rs_redirected = False, rs_headers = [(''location'', ''http://169.254.169.254/'')], rs_body = None\<rparr>),
     nw_parse = (\<lambda>s base. Some \<lparr>u_href = s, u_protocol = ''http:'', u_host = ''169.254.169.254'',
       u_hostname = ''169.254.169.254''\<rparr>)\<rparr>"

theorem redirects_are_rechecked_witness:
  "snd (ssrfSafeFetch demo_net ''http://a/'' no_init)
     = [(''http://a/'', no_init)]"
proof -
  let ?i = no_init
  obtain r log where run: "ssrfSafeFetch demo_net ''http://a/'' ?i = (r, log)" by (metis surj_pair)
  from redirects_are_rechecked[OF run] obtain rest where rest: "log = (''http://a/'', ?i) # rest"
    "\<forall>(v, j) \<in> set rest. \<exists>loc base p. nw_parse demo_net loc (Some base) = Some p \<and> v = u_href p \<and>
       \<not> isBlockedSsrfHost (u_hostname p)" by blast
  have "nat_str 169 = ''169''" "nat_str 254 = ''254''"
    by (simp_all add: nat_str_def nat_digits.simps digit_char_def char_of_eq_iff)
  then have l: "v4_literal [169, 254, 169, 254] [''169'', ''254'', ''169'', ''254'']"
    by (simp add: v4_literal_def num_texts_def)
  have "normalizeV4 ''169.254.169.254'' = Some (169, 254, 169, 254)"
    using normalizeV4_literal[OF l] by (simp add: v4_pack_def v4_octets_def)
  moreover have "set ''169.254.169.254'' \<subseteq> set v4_chars" "last ''169.254.169.254'' \<in> set hex_chars"
    by code_simp+
  ultimately have "isBlockedSsrfHost ''169.254.169.254''"
    using guard_on_literal[of "''169.254.169.254''"] by (simp add: isPrivateV4_def)
  then have "rest = []" using rest(2) by (cases rest) (auto simp: demo_net_def)
  then show ?thesis using run rest(1) by simp
qed

text \<open>What the guard lets through although it names this host or a private range: a trailing dot
  on \<open>localhost\<close>, the IPv4-compatible IPv6 form of the loopback address, and the NAT64 form of the
  metadata address.\<close>

theorem guard_gaps:
  "\<not> isBlockedSsrfHost ''localhost.'' \<and> \<not> isBlockedSsrfHost ''[::7f00:1]'' \<and>
   \<not> isBlockedSsrfHost ''[64:ff9b::a9fe:a9fe]''"
proof (intro conjI)
  show "\<not> isBlockedSsrfHost ''localhost.''" by code_simp
  have "traverse hex16 [''7f00'', ''1''] = Some [32512, 1]"
    "traverse hex16 [''64'', ''ff9b''] = Some [100, 65435]"
    "traverse hex16 [''a9fe'', ''a9fe''] = Some [43518, 43518]" "traverse hex16 [] = Some []"
    by (simp_all add: hex16_def parse_digits_def digit_val_def is_digit_def)
  moreover have "v6_parts '''' = []" "v6_parts ''7f00:1'' = [''7f00'', ''1'']" "v6_parts ''64:ff9b'' = [''64'', ''ff9b'']"
    "v6_parts ''a9fe:a9fe'' = [''a9fe'', ''a9fe'']"
    "split_at_pat ''::'' ''::7f00:1'' = Some ('''', ''7f00:1'')"
    "split_at_pat ''::'' ''64:ff9b::a9fe:a9fe'' = Some (''64:ff9b'', ''a9fe:a9fe'')"
    "replicate 6 (0 :: nat) = [0, 0, 0, 0, 0, 0]" "replicate 4 (0 :: nat) = [0, 0, 0, 0]"
    "before_first CHR ''%'' ''::7f00:1'' = ''::7f00:1''" "v6_tail ''::7f00:1'' = Some (''::7f00:1'', [])"
    "before_first CHR ''%'' ''64:ff9b::a9fe:a9fe'' = ''64:ff9b::a9fe:a9fe''"
    "v6_tail ''64:ff9b::a9fe:a9fe'' = Some (''64:ff9b::a9fe:a9fe'', [])" by code_simp+
  ultimately have p: "parseV6 ''::7f00:1'' = Some [0,0,0,0,0,0,0,0,0,0,0,0,127,0,0,1]"
    "parseV6 ''64:ff9b::a9fe:a9fe'' = Some [0,100,255,155,0,0,0,0,0,0,0,0,169,254,169,254]"
    by (simp_all add: parseV6_def v6_groups_def)
  have h: "CHR '':'' \<in> set ''::7f00:1''" "set ''::7f00:1'' \<subseteq> set v4_chars \<union> {CHR '':''}"
    "last ''::7f00:1'' \<in> set hex_chars" by code_simp+
  show "\<not> isBlockedSsrfHost ''[::7f00:1]''"
    using guard_on_v6(2)[OF h] p by (simp add: isBlockedV6_def)
  have h: "CHR '':'' \<in> set ''64:ff9b::a9fe:a9fe''"
    "set ''64:ff9b::a9fe:a9fe'' \<subseteq> set v4_chars \<union> {CHR '':''}"
    "last ''64:ff9b::a9fe:a9fe'' \<in> set hex_chars" by code_simp+
  show "\<not> isBlockedSsrfHost ''[64:ff9b::a9fe:a9fe]''"
    using guard_on_v6(2)[OF h] p by (simp add: isBlockedV6_def)
qed

end
