(* ===== verification/Base64.thy ===== *)
theory Base64
  imports Json
begin

text \<open>
  Base64 as the engine and the glue exchange it: \<open>bytesToB64\<close> and \<open>b64ToBytes\<close> of
  \<open>kernel-glue.ts\<close> over \<open>btoa\<close> and \<open>atob\<close> of the platform, and the round trip.
\<close>

definition b64_alphabet :: string where
  "b64_alphabet = ''ABCDEFGHIJKLMNOPQRSTUVWXYZabcdefghijklmnopqrstuvwxyz0123456789+/''"

fun index_of :: "'a \<Rightarrow> 'a list \<Rightarrow> nat option" where
  "index_of x [] = None"
| "index_of x (y # ys) = (if x = y then Some 0 else map_option Suc (index_of x ys))"

definition enc6 :: "nat \<Rightarrow> char" where
  "enc6 n = b64_alphabet ! n"

definition dec6 :: "char \<Rightarrow> nat option" where
  "dec6 c = index_of c b64_alphabet"

text \<open>Groups of three bytes to groups of four six-bit values, and back.\<close>

fun sextets :: "nat list \<Rightarrow> nat list" where
  "sextets (a # b # c # r) = a div 4 # (a mod 4 * 16 + b div 16) # (b mod 16 * 4 + c div 64) # c mod 64 # sextets r"
| "sextets [a, b] = [a div 4, a mod 4 * 16 + b div 16, b mod 16 * 4]"
| "sextets [a] = [a div 4, a mod 4 * 16]"
| "sextets [] = []"

fun octets :: "nat list \<Rightarrow> nat list" where
  "octets (a # b # c # d # r) = (a * 4 + b div 16) # (b mod 16 * 16 + c div 4) # (c mod 4 * 64 + d) # octets r"
| "octets [a, b, c] = [a * 4 + b div 16, b mod 16 * 16 + c div 4]"
| "octets [a, b] = [a * 4 + b div 16]"
| "octets [a] = []"
| "octets [] = []"

definition b64_pad :: "nat \<Rightarrow> string" where
  "b64_pad n = (if n mod 3 = 1 then ''=='' else if n mod 3 = 2 then ''='' else '''')"

definition btoa :: "string \<Rightarrow> string" where
  "btoa s = map enc6 (sextets (map of_char s)) @ b64_pad (length s)"

definition is_ascii_ws :: "char \<Rightarrow> bool" where
  "is_ascii_ws c \<longleftrightarrow> (let n = of_char c :: nat in n = 9 \<or> n = 10 \<or> n = 12 \<or> n = 13 \<or> n = 32)"

definition strip_pad :: "string \<Rightarrow> string" where
  "strip_pad s =
     (if length s mod 4 \<noteq> 0 then s
      else if suffix ''=='' s then take (length s - 2) s
      else if suffix ''='' s then take (length s - 1) s else s)"

definition atob :: "string \<Rightarrow> string option" where
  "atob s =
     (let t = strip_pad (filter (\<lambda>c. \<not> is_ascii_ws c) s) in
      if length t mod 4 = 1 then None
      else map_option (\<lambda>v. map char_of (octets v)) (traverse dec6 t))"

text \<open>\<open>bytesToB64\<close> builds the binary string in chunks of 32768 bytes.\<close>

definition byte_char :: "8 word \<Rightarrow> char" where
  "byte_char b = char_of (unat b)"

definition b64_chunk :: nat where
  "b64_chunk = 32768"

fun bin_string :: "nat \<Rightarrow> bytes \<Rightarrow> string" where
  "bin_string 0 u8 = ''''"
| "bin_string (Suc n) u8 =
     (if u8 = [] then '''' else map byte_char (take b64_chunk u8) @ bin_string n (drop b64_chunk u8))"

definition bytesToB64 :: "bytes \<Rightarrow> string" where
  "bytesToB64 u8 = btoa (bin_string (length u8) u8)"

definition b64ToBytes :: "string \<Rightarrow> (string, bytes) result" where
  "b64ToBytes b64 =
     (case atob b64 of
        None \<Rightarrow> Inl ''InvalidCharacterError''
      | Some bin \<Rightarrow> Inr (map (\<lambda>c. of_nat (of_char c)) bin))"

section \<open>Round trip\<close>

lemma bin_string_map: "length u8 \<le> n \<Longrightarrow> bin_string n u8 = map byte_char u8"
proof (induction n arbitrary: u8)
  case (Suc n)
  show ?case
  proof (cases "u8 = []")
    case False
    then have "length (drop b64_chunk u8) \<le> n" using Suc.prems by (simp add: b64_chunk_def)
    then show ?thesis using Suc.IH False
      by simp (metis append_take_drop_id map_append)
  qed simp
qed simp

lemma index_of_nth: "distinct ys \<Longrightarrow> n < length ys \<Longrightarrow> index_of (ys ! n) ys = Some n"
  by (induction ys arbitrary: n) (auto simp: nth_Cons split: nat.splits)

lemma alphabet: "distinct b64_alphabet" "length b64_alphabet = 64"
  by (simp_all add: b64_alphabet_def)

lemma dec6_enc6: "n < 64 \<Longrightarrow> dec6 (enc6 n) = Some n"
  using alphabet by (simp add: dec6_def enc6_def index_of_nth)

lemma enc6_plain: "n < 64 \<Longrightarrow> \<not> is_ascii_ws (enc6 n) \<and> enc6 n \<noteq> CHR ''=''"
proof -
  assume "n < 64"
  then have "enc6 n \<in> set b64_alphabet" using alphabet by (simp add: enc6_def)
  moreover have "list_all (\<lambda>c. \<not> is_ascii_ws c \<and> c \<noteq> CHR ''='') b64_alphabet"
    by (simp add: b64_alphabet_def is_ascii_ws_def)
  ultimately show ?thesis unfolding list_all_iff by blast
qed

lemma sextets_bound: "\<forall>x \<in> set xs. x < 256 \<Longrightarrow> y \<in> set (sextets xs) \<Longrightarrow> y < 64"
  by (induction xs rule: sextets.induct) auto

lemma octets_sextets: "\<forall>x \<in> set xs. x < 256 \<Longrightarrow> octets (sextets xs) = xs"
proof (induction xs rule: sextets.induct)
  case (1 a b c r)
  then have "b div 16 < 16" "c div 64 < 4" by auto
  with 1 show ?case by simp
next
  case (2 a b)
  then have "b div 16 < 16" by auto
  with 2 show ?case by simp
qed auto

lemma sextets_length: "length (sextets xs) mod 4 =
  (if length xs mod 3 = 0 then 0 else if length xs mod 3 = 1 then 2 else 3)"
proof (induction xs rule: sextets.induct)
  case (1 a b c r)
  have "Suc (Suc (Suc n)) mod 3 = n mod 3" "Suc (Suc (Suc (Suc n))) mod 4 = n mod 4" for n :: nat
    by presburger+
  with 1 show ?case by simp
qed simp_all

lemma suffix_eq_no: "\<forall>c \<in> set s. c \<noteq> CHR ''='' \<Longrightarrow> \<not> suffix ''='' s \<and> \<not> suffix ''=='' s"
  using set_mono_suffix[of "''=''" s] set_mono_suffix[of "''==''" s] by fastforce

lemma strip_pad_btoa:
  assumes "\<forall>c \<in> set e. c \<noteq> CHR ''=''"
    and "length e mod 4 = (if n mod 3 = 0 then 0 else if n mod 3 = 1 then 2 else 3)"
  shows "strip_pad (e @ b64_pad n) = e"
proof -
  have three: "n mod 3 = 0 \<or> n mod 3 = 1 \<or> n mod 3 = 2" by presburger
  have two: "\<not> suffix ''=='' (e @ ''='')"
  proof
    assume "suffix ''=='' (e @ ''='')"
    then have "suffix ''='' e" by (auto simp: suffix_def)
    then show False using suffix_eq_no[OF assms(1)] by blast
  qed
  have len: "length e mod 4 = 2 \<Longrightarrow> (length e + 2) mod 4 = 0" "length e mod 4 = 3 \<Longrightarrow> (length e + 1) mod 4 = 0"
    by presburger+
  from three show ?thesis
    using assms(2) len two suffix_eq_no[OF assms(1)]
    by (elim disjE) (auto simp: strip_pad_def b64_pad_def suffix_def)
qed

lemma traverse_dec6: "\<forall>y \<in> set ys. y < 64 \<Longrightarrow> traverse dec6 (map enc6 ys) = Some ys"
  by (induction ys) (auto simp: dec6_enc6)

lemma atob_btoa: "atob (btoa s) = Some s"
proof -
  let ?x = "map of_char s :: nat list"
  let ?e = "map enc6 (sextets ?x)"
  have "of_char c < (256 :: nat)" for c using of_char_mod_256[of c, where 'a = nat] by (metis mod_less_divisor zero_less_numeral)
  then have x: "\<forall>x \<in> set ?x. x < 256" by auto
  then have b: "\<forall>y \<in> set (sextets ?x). y < 64" using sextets_bound by blast
  then have e: "\<forall>c \<in> set ?e. \<not> is_ascii_ws c \<and> c \<noteq> CHR ''=''" using enc6_plain by auto
  have "\<not> is_ascii_ws CHR ''=''" by code_simp
  then have "filter (\<lambda>c. \<not> is_ascii_ws c) (btoa s) = btoa s"
    using e by (simp add: btoa_def b64_pad_def)
  moreover have "strip_pad (btoa s) = ?e"
    unfolding btoa_def by (rule strip_pad_btoa) (use e sextets_length[of ?x] in auto)
  moreover have "length ?e mod 4 \<noteq> 1" using sextets_length[of ?x] by auto
  ultimately show ?thesis using octets_sextets[OF x] traverse_dec6[OF b]
    by (simp add: atob_def comp_def)
qed

lemma byte_char_inv: "word_of_nat (of_char (byte_char b)) = b"
proof -
  have "unat b < 2 ^ LENGTH(8)" by (rule unsigned_less)
  then show ?thesis by (simp add: byte_char_def)
qed

text \<open>Binary bodies cross the boundary unchanged: decoding the base64 of any bytes gives the
  bytes back.\<close>

theorem b64_roundtrip: "b64ToBytes (bytesToB64 u8) = Inr u8"
  by (simp add: b64ToBytes_def bytesToB64_def bin_string_map atob_btoa comp_def byte_char_inv)

end
