(* ===== verification/HostFetch.thy ===== *)
theory HostFetch
  imports Ssrf Base64
begin

text \<open>
  The fetch effects of the kernel glue (\<open>kernel-glue.ts\<close>): \<open>_fetchPrep\<close> (guard, allowlist, body
  decoding, idempotency fence), the buffered \<open>_doFetch\<close>, the streaming \<open>_doFetchStream\<close> with its
  registry of open streams, and the raw-socket egress check \<open>_socketOpen\<close>.  The network, the text
  codec and the digest are parameters.  A stream's upstream reader is the sequence of reads it
  still has to give; a writer is the chunks written so far and whether it still accepts writes.
\<close>

section \<open>State\<close>

datatype host_result = HOk json | HErr string

record upload_writer =
  uw_chunks :: "bytes list"
  uw_failed :: "string option"

record stream_state =
  ss_reader :: "(string, bytes) result list option"
  ss_writer :: "upload_writer option"
  ss_promise :: "(string, response) result option"
  ss_pending :: "bytes option"
  ss_done :: bool

record host_env =
  he_net :: network
  he_encode :: "string \<Rightarrow> bytes"
  he_decode :: "bytes \<Rightarrow> string"
  he_digest :: "bytes \<Rightarrow> bytes"
  he_maxBody :: nat

record host_state =
  hs_allow :: allow
  hs_fenceDoId :: "string option"
  hs_fenceCell :: "nat option"
  hs_curFetchSeq :: "nat option"
  hs_streams :: "(string, stream_state) omap"

definition STREAM_CHUNK_BYTES :: nat where "STREAM_CHUNK_BYTES = 256 * 1024"

definition STREAM_INLINE_THRESHOLD :: nat where "STREAM_INLINE_THRESHOLD = 256 * 1024"

definition FETCH_BODY_UTF8_PREVIEW_BYTES :: nat where "FETCH_BODY_UTF8_PREVIEW_BYTES = 64 * 1024"

section \<open>Headers\<close>

text \<open>\<open>new Headers(init)\<close> lowers the names and joins repeated ones; \<open>set\<close> replaces.\<close>

fun headers_new :: "(string, string) omap \<Rightarrow> (string, string) omap \<Rightarrow> (string, string) omap" where
  "headers_new [] acc = acc"
| "headers_new ((k, v) # hs) acc =
     headers_new hs (AList.update (js_lower k)
       (case map_of acc (js_lower k) of None \<Rightarrow> v | Some w \<Rightarrow> w @ '', '' @ v) acc)"

section \<open>Preparing a request\<close>

definition idempotency_methods :: "string list" where
  "idempotency_methods = [''POST'', ''PUT'', ''DELETE'', ''PATCH'']"

definition fence_material :: "string \<Rightarrow> nat \<Rightarrow> nat \<Rightarrow> string" where
  "fence_material doId cell seq = doId @ '':'' @ nat_str cell @ '':'' @ nat_str seq"

definition idempotency_key :: "host_env \<Rightarrow> string \<Rightarrow> nat \<Rightarrow> nat \<Rightarrow> string" where
  "idempotency_key E doId cell seq =
     ''engram-'' @ take 32 (concat (map hex2 (he_digest E (he_encode E (fence_material doId cell seq)))))"

definition fence :: "host_env \<Rightarrow> host_state \<Rightarrow> req_init \<Rightarrow> req_init" where
  "fence E s i =
     (let method = js_upper (case ri_method i of Some m \<Rightarrow> if m = '''' then ''GET'' else m | None \<Rightarrow> ''GET'') in
      if List.member idempotency_methods method then
        (let hdrs = headers_new (ri_headers i) [] in
         case (map_of hdrs ''idempotency-key'', hs_fenceDoId s, hs_fenceCell s) of
           (None, Some doId, Some cell) \<Rightarrow>
             i\<lparr>ri_headers := AList.update ''idempotency-key''
                 (idempotency_key E doId cell (case hs_curFetchSeq s of None \<Rightarrow> 0 | Some n \<Rightarrow> n)) hdrs\<rparr>
         | _ \<Rightarrow> i)
      else i)"

text \<open>The outer result is a thrown error (a malformed base64 body), the inner one the
  \<open>{error}\<close> envelope or the prepared request.\<close>

definition fetchPrep ::
  "host_env \<Rightarrow> host_state \<Rightarrow> string \<Rightarrow> req_init \<Rightarrow> (string, (string, req_init) result) result" where
  "fetchPrep E s url i =
     (case nw_parse (he_net E) url None of
        None \<Rightarrow> Inr (Inl ''FetchError: invalid url'')
      | Some u \<Rightarrow>
          if isBlockedSsrfHost (u_hostname u)
          then Inr (Inl (''FetchBlockedError: '' @ u_hostname u @ '' is a blocked private/internal address''))
          else if \<not> permits (hs_allow s) (u_host u)
          then Inr (Inl (''FetchBlockedError: '' @ u_host u @ '' not allowed''))
          else
            rbind (case ri_bodyB64 i of
                     None \<Rightarrow> Inr i
                   | Some b64 \<Rightarrow> rbind (b64ToBytes b64) (\<lambda>b.
                       Inr (i\<lparr>ri_bodyB64 := None, ri_body := Some b\<rparr>)))
              (\<lambda>fi. Inr (Inr (fence E s fi))))"

section \<open>The buffered fetch\<close>

fun read_all :: "(string, bytes) result list \<Rightarrow> (string, bytes) result" where
  "read_all [] = Inr []"
| "read_all (c # cs) = rbind c (\<lambda>b. rbind (read_all cs) (\<lambda>r. Inr (b @ r)))"

definition arrayBuffer :: "response \<Rightarrow> (string, bytes) result" where
  "arrayBuffer r = (case rs_body r of None \<Rightarrow> Inr [] | Some cs \<Rightarrow> read_all cs)"

definition headers_json :: "response \<Rightarrow> json" where
  "headers_json r = JObj (map (\<lambda>(k, v). (k, JStr v)) (rs_headers r))"

definition resp_url :: "string \<Rightarrow> response \<Rightarrow> string" where
  "resp_url url r = (if rs_url r = '''' then url else rs_url r)"

definition fetch_value :: "host_env \<Rightarrow> string \<Rightarrow> response \<Rightarrow> bytes \<Rightarrow> json" where
  "fetch_value E url r ab =
     (let truncated = (he_maxBody E < length ab);
          b = (if truncated then take (he_maxBody E) ab else ab);
          bodyTruncated = (FETCH_BODY_UTF8_PREVIEW_BYTES < length b)
      in JObj
        [(''status'', JNum (int (rs_status r))), (''ok'', JBool (rs_ok r)),
         (''statusText'', JStr (rs_statusText r)), (''url'', JStr (resp_url url r)),
         (''redirected'', JBool (rs_redirected r)), (''headers'', headers_json r),
         (''body'', JStr (he_decode E (if bodyTruncated then take FETCH_BODY_UTF8_PREVIEW_BYTES b else b))),
         (''bodyTruncated'', JBool bodyTruncated), (''bodyB64'', JStr (bytesToB64 b)),
         (''byteLength'', JNum (int (length b))), (''truncated'', JBool truncated)])"

text \<open>The log is the list of requests that left the process.\<close>

definition doFetch ::
  "host_env \<Rightarrow> host_state \<Rightarrow> string \<Rightarrow> req_init \<Rightarrow> host_result \<times> (string \<times> req_init) list" where
  "doFetch E s url i =
     (case fetchPrep E s url i of
        Inl e \<Rightarrow> (HErr (''FetchError: '' @ e), [])
      | Inr (Inl err) \<Rightarrow> (HErr err, [])
      | Inr (Inr fi) \<Rightarrow>
          (let (r, log) = ssrfSafeFetch (he_net E) url fi in
           case rbind r (\<lambda>x. rbind (arrayBuffer x) (\<lambda>ab. Inr (x, ab))) of
             Inl e \<Rightarrow> (HErr (''FetchError: '' @ e), log)
           | Inr (x, ab) \<Rightarrow> (HOk (fetch_value E url x ab), log)))"

section \<open>Streams\<close>

definition stream_id :: "host_state \<Rightarrow> string" where
  "stream_id s =
     (case hs_fenceDoId s of None \<Rightarrow> ''do'' | Some d \<Rightarrow> d) @ '':'' @
     nat_str (case hs_fenceCell s of None \<Rightarrow> 0 | Some c \<Rightarrow> c) @ '':'' @
     nat_str (case hs_curFetchSeq s of None \<Rightarrow> 0 | Some n \<Rightarrow> n)"

definition new_stream :: stream_state where
  "new_stream = \<lparr>ss_reader = None, ss_writer = None, ss_promise = None, ss_pending = None, ss_done = False\<rparr>"

definition set_stream :: "string \<Rightarrow> stream_state \<Rightarrow> host_state \<Rightarrow> host_state" where
  "set_stream sid st s = s\<lparr>hs_streams := AList.update sid st (hs_streams s)\<rparr>"

definition drop_stream :: "string \<Rightarrow> host_state \<Rightarrow> host_state" where
  "drop_stream sid s = s\<lparr>hs_streams := AList.delete sid (hs_streams s)\<rparr>"

text \<open>\<open>Number(header)\<close> on a content-length: the digits of a non-negative integer, surrounded by
  white space; the empty text is zero.  Anything else is taken as not finite.\<close>

definition content_length :: "response \<Rightarrow> nat option" where
  "content_length r =
     (case map_of (rs_headers r) ''content-length'' of
        None \<Rightarrow> None
      | Some v \<Rightarrow>
          (let t = dropWhile is_ascii_ws (rev (dropWhile is_ascii_ws (rev v))) in
           if list_all (is_digit 10) t then Some (parse_digits 10 t) else None))"

definition stream_meta :: "string \<Rightarrow> string \<Rightarrow> response \<Rightarrow> (string \<times> json) list" where
  "stream_meta sid url r =
     [(''streamId'', JStr sid), (''stream'', JBool True), (''status'', JNum (int (rs_status r))),
      (''ok'', JBool (rs_ok r)), (''statusText'', JStr (rs_statusText r)),
      (''url'', JStr (resp_url url r)), (''redirected'', JBool (rs_redirected r)),
      (''headers'', headers_json r)]"

definition inline_value :: "bytes \<Rightarrow> (string \<times> json) list" where
  "inline_value b =
     [(''bodyB64'', JStr (bytesToB64 b)), (''byteLength'', JNum (int (length b))), (''inline'', JBool True)]"

definition doFetchStream ::
  "host_env \<Rightarrow> host_state \<Rightarrow> string \<Rightarrow> req_init \<Rightarrow>
   host_result \<times> host_state \<times> (string \<times> req_init) list" where
  "doFetchStream E s url i =
     (case fetchPrep E s url i of
        Inl e \<Rightarrow> (HErr (''FetchError: '' @ e), s, [])
      | Inr (Inl err) \<Rightarrow> (HErr err, s, [])
      | Inr (Inr fi) \<Rightarrow>
          (let sid = stream_id s in
           if ri_requestStream i then
             (let upInit = fi\<lparr>ri_requestStream := False, ri_body := None\<rparr>
              in (HOk (JObj [(''streamId'', JStr sid), (''uploadOpen'', JBool True), (''stream'', JBool True)]),
                  set_stream sid (new_stream\<lparr>ss_writer := Some \<lparr>uw_chunks = [], uw_failed = None\<rparr>,
                    ss_promise := Some (nw_fetch (he_net E) 0 url upInit)\<rparr>) s,
                  [(url, upInit)]))
           else
             (let (r, log) = ssrfSafeFetch (he_net E) url fi in
              case r of
                Inl e \<Rightarrow> (HErr (''FetchError: '' @ e), s, log)
              | Inr x \<Rightarrow>
                  (case content_length x of
                     Some clen \<Rightarrow>
                       if clen \<le> STREAM_INLINE_THRESHOLD then
                         (case arrayBuffer x of
                            Inl e \<Rightarrow> (HErr (''FetchError: '' @ e), s, log)
                          | Inr ab \<Rightarrow> (HOk (JObj (stream_meta sid url x @ inline_value ab)), s, log))
                       else (case rs_body x of
                               None \<Rightarrow> (HOk (JObj (stream_meta sid url x @ inline_value [])), s, log)
                             | Some rd \<Rightarrow> (HOk (JObj (stream_meta sid url x)),
                                           set_stream sid (new_stream\<lparr>ss_reader := Some rd\<rparr>) s, log))
                   | None \<Rightarrow>
                       (case rs_body x of
                          None \<Rightarrow> (HOk (JObj (stream_meta sid url x @ inline_value [])), s, log)
                        | Some rd \<Rightarrow> (HOk (JObj (stream_meta sid url x)),
                                      set_stream sid (new_stream\<lparr>ss_reader := Some rd\<rparr>) s, log))))))"

text \<open>What a read gives the VM, before it is rendered.\<close>

datatype stream_read = RExpired | RDone | RChunk bytes | RError string

definition stream_next :: "stream_state \<Rightarrow> stream_read \<times> stream_state option" where
  "stream_next st =
     (case ss_reader st of
        None \<Rightarrow> (RExpired, Some st)
      | Some rd \<Rightarrow>
          (let emit = (\<lambda>chunk st'.
                 if STREAM_CHUNK_BYTES < length chunk
                 then (RChunk (take STREAM_CHUNK_BYTES chunk),
                       Some (st'\<lparr>ss_pending := Some (drop STREAM_CHUNK_BYTES chunk)\<rparr>))
                 else (RChunk chunk, Some st'))
           in case ss_pending st of
                Some (p # ps) \<Rightarrow> emit (p # ps) (st\<lparr>ss_pending := None\<rparr>)
              | _ \<Rightarrow>
                  (case rd of
                     [] \<Rightarrow> (RDone, None)
                   | Inl e # rest \<Rightarrow> (RError e, None)
                   | Inr b # rest \<Rightarrow> emit b (st\<lparr>ss_reader := Some rest\<rparr>))))"

definition read_value :: "string \<Rightarrow> stream_read \<Rightarrow> json" where
  "read_value sid x =
     (case x of
        RExpired \<Rightarrow> JObj [(''error'', JStr (''StreamExpiredError: stream '' @ sid @
           '' did not survive hibernation (consume a stream within the cell that opened it)''))]
      | RDone \<Rightarrow> JObj [(''done'', JBool True)]
      | RChunk b \<Rightarrow> JObj [(''chunk'', JStr (bytesToB64 b)), (''done'', JBool False)]
      | RError e \<Rightarrow> JObj [(''error'', JStr (''StreamReadError: '' @ e))])"

definition doStreamRead :: "string \<Rightarrow> host_state \<Rightarrow> host_result \<times> host_state" where
  "doStreamRead sid s =
     (case map_of (hs_streams s) sid of
        None \<Rightarrow> (HOk (read_value sid RExpired), s)
      | Some st \<Rightarrow>
          (case stream_next st of
             (x, None) \<Rightarrow> (HOk (read_value sid x), drop_stream sid s)
           | (x, Some st') \<Rightarrow> (HOk (read_value sid x), set_stream sid st' s)))"

definition doStreamCancel :: "string \<Rightarrow> host_state \<Rightarrow> host_result \<times> host_state" where
  "doStreamCancel sid s =
     (HOk (JObj [(''ok'', JBool True)]),
      if map_of (hs_streams s) sid = None then s else drop_stream sid s)"

definition uw_write :: "bytes \<Rightarrow> upload_writer \<Rightarrow> (string, upload_writer) result" where
  "uw_write b w = (case uw_failed w of Some e \<Rightarrow> Inl e | None \<Rightarrow> Inr (w\<lparr>uw_chunks := uw_chunks w @ [b]\<rparr>))"

definition stream_error :: "string \<Rightarrow> host_result" where
  "stream_error e = HOk (JObj [(''error'', JStr (''StreamWriteError: '' @ e))])"

text \<open>The steps of \<open>_doStreamWrite\<close>: the optional write, then, when done, closing the writer and
  flipping the entry to the response's reader.  A failure leaves the entry as far as it got.\<close>

definition finish_upload :: "string \<Rightarrow> stream_state \<Rightarrow> upload_writer \<Rightarrow> host_state \<Rightarrow> host_result \<times> host_state" where
  "finish_upload sid st w s =
     (case uw_failed w of
        Some e \<Rightarrow> (stream_error e, s)
      | None \<Rightarrow>
          (let st1 = st\<lparr>ss_writer := None\<rparr> in
           case ss_promise st of
             None \<Rightarrow> (stream_error ''undefined'', set_stream sid st1 s)
           | Some (Inl e) \<Rightarrow> (stream_error e, set_stream sid st1 s)
           | Some (Inr r) \<Rightarrow>
               (let st2 = st1\<lparr>ss_promise := None\<rparr>;
                    st3 = (case rs_body r of Some rd \<Rightarrow> st2\<lparr>ss_reader := Some rd\<rparr>
                           | None \<Rightarrow> st2\<lparr>ss_done := True\<rparr>)
                in (HOk (JObj [(''ok'', JBool True), (''uploaded'', JBool True),
                        (''status'', JNum (int (rs_status r))), (''statusOk'', JBool (rs_ok r)),
                        (''statusText'', JStr (rs_statusText r)), (''headers'', headers_json r)]),
                    set_stream sid st3 s))))"

definition doStreamWrite ::
  "string \<Rightarrow> string option \<Rightarrow> bool \<Rightarrow> host_state \<Rightarrow> host_result \<times> host_state" where
  "doStreamWrite sid chunkB64 dne s =
     (case map_of (hs_streams s) sid of
        None \<Rightarrow> (HOk (JObj [(''error'', JStr (''StreamExpiredError: upload stream '' @ sid @ '' is gone''))]), s)
      | Some st \<Rightarrow>
          (case ss_writer st of
             None \<Rightarrow> (HOk (JObj [(''error'', JStr (''StreamExpiredError: upload stream '' @ sid @ '' is gone''))]), s)
           | Some w \<Rightarrow>
               (case (case chunkB64 of
                        None \<Rightarrow> Inr w
                      | Some c \<Rightarrow> if c = '''' then Inr w else rbind (b64ToBytes c) (\<lambda>b. uw_write b w)) of
                  Inl e \<Rightarrow> (stream_error e, s)
                | Inr w' \<Rightarrow>
                    (let st' = st\<lparr>ss_writer := Some w'\<rparr>; s' = set_stream sid st' s in
                     if dne then finish_upload sid st' w' s'
                     else (HOk (JObj [(''ok'', JBool True)]), s')))))"

section \<open>Raw sockets\<close>

text \<open>\<open>Inl\<close> is the soft \<open>{error, code}\<close> value, \<open>Inr\<close> the destination handed to the provider.\<close>

definition socketOpen ::
  "host_env \<Rightarrow> host_state \<Rightarrow> sock_addr \<Rightarrow> (string option \<times> string option) option \<Rightarrow>
   (string \<times> string) + string" where
  "socketOpen E s addr opts =
     (let host = socketHostOf (nw_parse (he_net E)) addr opts in
      if host = '''' then Inl (''SocketError: could not determine destination host'', ''EINVAL'')
      else if isBlockedSsrfHost host
      then Inl (''FetchBlockedError: '' @ host @ '' is a blocked private/internal address'', ''EACCES'')
      else if \<not> permits (hs_allow s) host
      then Inl (''FetchBlockedError: '' @ host @ '' not allowed'', ''EACCES'')
      else Inr host)"

end
