(* ===== verification/HostFetchProps.thy ===== *)
theory HostFetchProps
  imports HostFetch
begin

text \<open>
  What the fetch effects guarantee: no request leaves unless the guard and the allowlist admit the
  host, a streamed body is delivered whole in bounded chunks, the idempotency material is unique
  per effect; and where the code falls short of its comments.
\<close>

section \<open>Egress\<close>

lemma fetchPrep_ok:
  "fetchPrep E s url i = Inr (Inr fi) \<Longrightarrow>
   \<exists>u. nw_parse (he_net E) url None = Some u \<and> \<not> isBlockedSsrfHost (u_hostname u) \<and> permits (hs_allow s) (u_host u)"
  by (auto simp: fetchPrep_def rbind_Inr_iff split: option.splits if_splits)

lemma ssrf_log:
  "ssrfSafeFetch N url i = (r, log) \<Longrightarrow> \<exists>rest. log = (url, i) # rest \<and> length log \<le> 6 \<and>
    (\<forall>(v, j) \<in> set rest. \<exists>loc base p. nw_parse N loc (Some base) = Some p \<and> v = u_href p \<and>
       \<not> isBlockedSsrfHost (u_hostname p))"
  unfolding ssrfSafeFetch_def MAX_REDIRECT_HOPS_def by (drule redirect_loop_log) auto

text \<open>C24. Egress of a fetch: when any request at all leaves the process, the given URL parses, its
  host is not blocked and the session's allowlist admits it; at most six requests leave, the first
  to that URL and each later one to a redirect target whose host is not blocked.\<close>

theorem fetch_egress:
  assumes "doFetch E s url i = (res, log)" "log \<noteq> []"
  shows "\<exists>u rest fi. nw_parse (he_net E) url None = Some u \<and> \<not> isBlockedSsrfHost (u_hostname u) \<and>
     permits (hs_allow s) (u_host u) \<and> log = (url, fi) # rest \<and> length log \<le> 6 \<and>
     (\<forall>(v, j) \<in> set rest. \<exists>loc base p. nw_parse (he_net E) loc (Some base) = Some p \<and> v = u_href p \<and>
        \<not> isBlockedSsrfHost (u_hostname p))"
proof -
  from assms obtain fi where fi: "fetchPrep E s url i = Inr (Inr fi)"
    by (auto simp: doFetch_def split: sum.splits)
  obtain r log' where run: "ssrfSafeFetch (he_net E) url fi = (r, log')" by (metis surj_pair)
  then have "log' = log" using assms(1) fi by (auto simp: doFetch_def split: sum.splits)
  with fetchPrep_ok[OF fi] ssrf_log[OF run] show ?thesis by blast
qed

text \<open>A network where every URL parses to the host spelled after its scheme and \<open>a\<close> redirects
  to \<open>evil.test\<close>, which answers.\<close>

definition two_host_net :: network where
  "two_host_net = \<lparr>nw_fetch = (\<lambda>n u i. if u = ''http://a''
      then Inr \<lparr>rs_status = 302, rs_ok = False, rs_statusText = '''', rs_url = u, rs_redirected = False,
                rs_headers = [(''location'', ''http://evil.test'')], rs_body = None\<rparr>
      else Inr \<lparr>rs_status = 200, rs_ok = True, rs_statusText = '''', rs_url = u, rs_redirected = False,
                rs_headers = [], rs_body = None\<rparr>),
     nw_parse = (\<lambda>s base. Some \<lparr>u_href = s, u_protocol = ''http:'', u_host = drop 7 s, u_hostname = drop 7 s\<rparr>)\<rparr>"

definition demo_env :: host_env where
  "demo_env = \<lparr>he_net = two_host_net, he_encode = map (\<lambda>c. of_nat (of_char c)),
     he_decode = map (\<lambda>b. char_of (unat b)), he_digest = (\<lambda>b. replicate 32 0), he_maxBody = 1000\<rparr>"

definition demo_state :: "allow \<Rightarrow> host_state" where
  "demo_state al = \<lparr>hs_allow = al, hs_fenceDoId = Some ''d'', hs_fenceCell = Some 1,
     hs_curFetchSeq = Some 0, hs_streams = []\<rparr>"

lemma demo_hosts: "\<not> isBlockedSsrfHost ''a''" "\<not> isBlockedSsrfHost ''evil.test''"
  by code_simp+

lemma two_host_walk:
  "ssrfSafeFetch two_host_net ''http://a'' no_init =
     (Inr \<lparr>rs_status = 200, rs_ok = True, rs_statusText = '''', rs_url = ''http://evil.test'',
           rs_redirected = False, rs_headers = [], rs_body = None\<rparr>,
      [(''http://a'', no_init), (''http://evil.test'', no_init)])"
  unfolding ssrfSafeFetch_def MAX_REDIRECT_HOPS_def
  by (subst redirect_loop.simps, simp add: two_host_net_def is_redirect_def demo_hosts numeral_eq_Suc,
      subst redirect_loop.simps, simp add: is_redirect_def drop_method_def no_init_def)

lemma demo_prep:
  "fetchPrep demo_env (demo_state (AllowHosts [''a''])) ''http://a'' no_init = Inr (Inr no_init)"
  by (simp add: fetchPrep_def demo_env_def two_host_net_def demo_hosts demo_state_def permits_def
      no_init_def fence_def idempotency_methods_def js_upper_def js_upper_char_def)

lemma demo_fetch_log:
  "snd (doFetch demo_env (demo_state (AllowHosts [''a''])) ''http://a'' no_init)
     = [(''http://a'', no_init), (''http://evil.test'', no_init)]"
proof -
  have "he_net demo_env = two_host_net" by (simp add: demo_env_def)
  then show ?thesis by (simp add: doFetch_def demo_prep two_host_walk arrayBuffer_def)
qed

theorem fetch_egress_witness:
  "permits (AllowHosts [''a'']) ''a'' \<and> length (snd (doFetch demo_env (demo_state (AllowHosts [''a'']))
      ''http://a'' no_init)) \<le> 6"
proof -
  let ?d = "doFetch demo_env (demo_state (AllowHosts [''a''])) ''http://a'' no_init"
  have "?d = (fst ?d, snd ?d)" by simp
  moreover have "snd ?d \<noteq> []" by (simp add: demo_fetch_log)
  ultimately show ?thesis using fetch_egress[of demo_env _ _ _ "fst ?d" "snd ?d"]
    by (auto simp: permits_def)
qed

text \<open>The allowlist is not re-checked on redirects: with only the host \<open>a\<close> allowed, a redirect
  from it carries the request on to a host outside the list.\<close>

theorem redirect_leaves_allowlist:
  "\<exists>E s. \<not> permits (hs_allow s) ''evil.test'' \<and>
     (''http://evil.test'', no_init) \<in> set (snd (doFetch E s ''http://a'' no_init)) \<and>
     nw_parse (he_net E) ''http://evil.test'' None \<noteq> None \<and>
     u_host (the (nw_parse (he_net E) ''http://evil.test'' None)) = ''evil.test''"
proof (intro exI conjI)
  show "(''http://evil.test'', no_init)
      \<in> set (snd (doFetch demo_env (demo_state (AllowHosts [''a''])) ''http://a'' no_init))"
    by (simp add: demo_fetch_log)
qed (simp_all add: permits_def demo_state_def demo_env_def two_host_net_def)

text \<open>Fetch and raw sockets read one allowlist differently: for a URL whose host carries a port,
  an allowlist of the bare host name refuses the fetch and admits the socket.\<close>

theorem allowlist_port_mismatch:
  assumes "nw_parse (he_net E) url None = Some u" "u_host u = h @ '':'' @ p" "u_hostname u = h"
    and "\<not> isBlockedSsrfHost h" "h \<noteq> ''''" "hs_allow s = AllowHosts [h]"
  shows "fetchPrep E s url i = Inr (Inl (''FetchBlockedError: '' @ (h @ '':'' @ p) @ '' not allowed'')) \<and>
         socketOpen E s (AddrObj (Some h) None) None = Inr h"
  using assms by (simp add: fetchPrep_def socketOpen_def socketHostOf_def js_or_def permits_def)

theorem allowlist_port_mismatch_witness:
  "\<exists>E s. fetchPrep E s ''http://a:81'' no_init = Inr (Inl ''FetchBlockedError: a:81 not allowed'') \<and>
     socketOpen E s (AddrObj (Some ''a'') None) None = Inr ''a''"
proof -
  let ?u = "\<lparr>u_href = ''http://a:81'', u_protocol = ''http:'', u_host = ''a'' @ '':'' @ ''81'', u_hostname = ''a''\<rparr>"
  let ?E = "demo_env\<lparr>he_net := two_host_net\<lparr>nw_parse := (\<lambda>s b. Some ?u)\<rparr>\<rparr>"
  have "nw_parse (he_net ?E) ''http://a:81'' None = Some ?u" by simp
  from allowlist_port_mismatch[OF this, of "''a''" "''81''" "demo_state (AllowHosts [''a''])" no_init]
  show ?thesis by (intro exI[of _ ?E] exI[of _ "demo_state (AllowHosts [''a''])"])
      (simp add: demo_hosts demo_state_def)
qed

section \<open>Streams\<close>

text \<open>Reading a stream until it ends or the fuel runs out: the chunks and how it ended.\<close>

fun drain :: "nat \<Rightarrow> stream_state \<Rightarrow> bytes list \<times> stream_read option" where
  "drain 0 st = ([], None)"
| "drain (Suc n) st =
     (case stream_next st of
        (RChunk b, Some st') \<Rightarrow> (let (bs, r) = drain n st' in (b # bs, r))
      | (x, _) \<Rightarrow> ([], Some x))"

definition pending_of :: "stream_state \<Rightarrow> bytes" where
  "pending_of st = (case ss_pending st of None \<Rightarrow> [] | Some p \<Rightarrow> p)"

text \<open>Reads one chunk of \<open>n\<close> bytes needs.\<close>

definition pieces :: "nat \<Rightarrow> nat" where
  "pieces n = n div STREAM_CHUNK_BYTES + 1"

definition reads_needed :: "stream_state \<Rightarrow> nat" where
  "reads_needed st =
     (if pending_of st = [] then 0 else pieces (length (pending_of st))) +
     (case ss_reader st of None \<Rightarrow> 0
      | Some rd \<Rightarrow> sum_list (map (\<lambda>c. case c of Inl e \<Rightarrow> 0 | Inr b \<Rightarrow> pieces (length b)) rd)) + 1"

lemma cap_pos: "0 < STREAM_CHUNK_BYTES" by (simp add: STREAM_CHUNK_BYTES_def)

lemma pieces_drop:
  assumes "STREAM_CHUNK_BYTES < n"
  shows "pieces n = Suc (pieces (n - STREAM_CHUNK_BYTES))"
  using assms cap_pos by (simp add: pieces_def le_div_geq)

lemma pieces_pos: "0 < pieces n" by (simp add: pieces_def)

text \<open>One read takes the next piece off the remaining bytes.\<close>

lemma stream_next_chunk:
  assumes "ss_reader st = Some (map Inr bs)" "pending_of st \<noteq> [] \<or> bs \<noteq> []"
  obtains b st' bs' where "stream_next st = (RChunk b, Some st')" "ss_reader st' = Some (map Inr bs')"
    "length b \<le> STREAM_CHUNK_BYTES" "b @ pending_of st' @ concat bs' = pending_of st @ concat bs"
    "reads_needed st' < reads_needed st"
proof -
  note finish = that
  have emit: thesis
    if "stream_next st = (if STREAM_CHUNK_BYTES < length chunk
          then (RChunk (take STREAM_CHUNK_BYTES chunk),
                Some (st0\<lparr>ss_pending := Some (drop STREAM_CHUNK_BYTES chunk)\<rparr>))
          else (RChunk chunk, Some st0))"
      and "ss_reader st0 = Some (map Inr bs0)" "pending_of st0 = []"
      and "chunk @ concat bs0 = pending_of st @ concat bs"
      and need: "reads_needed st = pieces (length chunk) + sum_list (map (\<lambda>b. pieces (length b)) bs0) + 1"
    for chunk st0 bs0
  proof (cases "STREAM_CHUNK_BYTES < length chunk")
    case True
    let ?st = "st0\<lparr>ss_pending := Some (drop STREAM_CHUNK_BYTES chunk)\<rparr>"
    have p: "pending_of ?st = drop STREAM_CHUNK_BYTES chunk" by (simp add: pending_of_def)
    have "reads_needed ?st < reads_needed st"
      using True that(2) pieces_drop[OF True] unfolding need by (simp add: reads_needed_def p comp_def)
    then show thesis
      using that(1,2,4) True p
      by (intro finish[of "take STREAM_CHUNK_BYTES chunk" ?st bs0]) (simp_all flip: append_assoc)
  next
    case False
    have "reads_needed st0 < reads_needed st"
      using that(2,3) pieces_pos unfolding need by (simp add: reads_needed_def comp_def)
    then show thesis using that(1-4) False by (intro finish[of chunk st0 bs0]) simp_all
  qed
  show thesis
  proof (cases "pending_of st = []")
    case True
    then obtain b r where bs: "bs = b # r" using assms(2) by (cases bs) auto
    have "reads_needed st = pieces (length b) + sum_list (map (\<lambda>b. pieces (length b)) r) + 1"
      using True assms(1) bs by (simp add: reads_needed_def comp_def)
    then show thesis
      using True assms(1) bs
      by (intro emit[of b "st\<lparr>ss_reader := Some (map Inr r)\<rparr>" r])
        (auto simp: stream_next_def pending_of_def split: option.splits list.splits)
  next
    case False
    then obtain p ps where p: "ss_pending st = Some (p # ps)"
      by (cases "ss_pending st"; cases "the (ss_pending st)") (auto simp: pending_of_def)
    have "reads_needed st = pieces (length (p # ps)) + sum_list (map (\<lambda>b. pieces (length b)) bs) + 1"
      using False assms(1) p by (simp add: reads_needed_def comp_def pending_of_def)
    then show thesis
      using assms(1) p
      by (intro emit[of "p # ps" "st\<lparr>ss_pending := None\<rparr>" bs]) (auto simp: stream_next_def pending_of_def)
  qed
qed

lemma drain_all:
  assumes "ss_reader st = Some (map Inr bs)" "reads_needed st \<le> n"
  shows "\<exists>cs. drain n st = (cs, Some RDone) \<and> concat cs = pending_of st @ concat bs \<and>
    (\<forall>c \<in> set cs. length c \<le> STREAM_CHUNK_BYTES)"
  using assms
proof (induction n arbitrary: st bs)
  case 0 then show ?case by (simp add: reads_needed_def)
next
  case (Suc n)
  show ?case
  proof (cases "pending_of st \<noteq> [] \<or> bs \<noteq> []")
    case True
    obtain b st' bs' where x: "stream_next st = (RChunk b, Some st')" "ss_reader st' = Some (map Inr bs')"
      "length b \<le> STREAM_CHUNK_BYTES" "b @ pending_of st' @ concat bs' = pending_of st @ concat bs"
      "reads_needed st' < reads_needed st"
      using stream_next_chunk[OF Suc.prems(1) True] by blast
    obtain cs where "drain n st' = (cs, Some RDone)" "concat cs = pending_of st' @ concat bs'"
      "\<forall>c \<in> set cs. length c \<le> STREAM_CHUNK_BYTES"
      using Suc.IH[OF x(2)] x(5) Suc.prems(2) by auto
    then show ?thesis using x by (intro exI[of _ "b # cs"]) simp
  next
    case False
    then have "stream_next st = (RDone, None)"
      using Suc.prems(1) by (auto simp: stream_next_def pending_of_def split: option.splits list.splits)
    then show ?thesis using False by simp
  qed
qed

text \<open>C30. A streamed body arrives whole: reading a freshly registered stream whose upstream delivers
  the chunks \<open>bs\<close> without error ends after boundedly many reads, every chunk handed to the VM fits
  the cap, and their concatenation is the body.\<close>

theorem stream_delivers_body:
  assumes "ss_reader st = Some (map Inr bs)" "ss_pending st = None"
    and "n = 1 + sum_list (map (\<lambda>b. length b div STREAM_CHUNK_BYTES + 1) bs)"
  shows "\<exists>cs. drain n st = (cs, Some RDone) \<and> concat cs = concat bs \<and>
    (\<forall>c \<in> set cs. length c \<le> STREAM_CHUNK_BYTES)"
proof -
  have "pending_of st = []" using assms(2) by (simp add: pending_of_def)
  moreover from this have "reads_needed st \<le> n"
    using assms by (simp add: reads_needed_def comp_def pieces_def)
  ultimately show ?thesis using drain_all[OF assms(1), of n] by simp
qed

theorem stream_delivers_body_witness:
  "\<exists>cs. drain 3 (new_stream\<lparr>ss_reader := Some [Inr [1], Inr [2, 3]]\<rparr>) = (cs, Some RDone) \<and> concat cs = [1, 2, 3]"
proof -
  let ?st = "new_stream\<lparr>ss_reader := Some [Inr [1], Inr [2, 3]]\<rparr>"
  have "ss_reader ?st = Some (map Inr [[1], [2, 3]])" "ss_pending ?st = None"
    "3 = 1 + sum_list (map (\<lambda>b. length b div STREAM_CHUNK_BYTES + 1) [[1 :: 8 word], [2, 3]])"
    by (simp_all add: new_stream_def STREAM_CHUNK_BYTES_def)
  from stream_delivers_body[OF this] show ?thesis by auto
qed

text \<open>An upload whose response has no body cannot be read to its end: finishing the upload leaves
  the entry registered without a reader, and the next read reports an expired stream instead of a
  finished one.\<close>

theorem bodyless_upload_reads_expired:
  assumes "map_of (hs_streams s) sid = Some st" "ss_writer st = Some w" "uw_failed w = None"
    and "ss_reader st = None" "ss_promise st = Some (Inr r)" "rs_body r = None"
  shows "\<exists>v s'. doStreamWrite sid None True s = (HOk v, s') \<and> json_get ''uploaded'' v = Some (JBool True) \<and>
    map_of (hs_streams s') sid \<noteq> None \<and> doStreamRead sid s' = (HOk (read_value sid RExpired), set_stream sid
      (the (map_of (hs_streams s') sid)) s')"
  using assms
  by (auto simp: doStreamWrite_def finish_upload_def set_stream_def map_of_update doStreamRead_def stream_next_def)

theorem bodyless_upload_reads_expired_witness:
  "\<exists>v s'. doStreamWrite ''u'' None True ((demo_state AllowAll)\<lparr>hs_streams := [(''u'',
       new_stream\<lparr>ss_writer := Some \<lparr>uw_chunks = [], uw_failed = None\<rparr>,
         ss_promise := Some (Inr \<lparr>rs_status = 204, rs_ok = True, rs_statusText = '''', rs_url = '''',
           rs_redirected = False, rs_headers = [], rs_body = None\<rparr>)\<rparr>)]\<rparr>) = (HOk v, s') \<and>
     fst (doStreamRead ''u'' s') = HOk (read_value ''u'' RExpired)"
proof -
  let ?r = "\<lparr>rs_status = 204, rs_ok = True, rs_statusText = '''', rs_url = '''',
           rs_redirected = False, rs_headers = [], rs_body = None\<rparr>"
  let ?st = "new_stream\<lparr>ss_writer := Some \<lparr>uw_chunks = [], uw_failed = None\<rparr>, ss_promise := Some (Inr ?r)\<rparr>"
  let ?s = "(demo_state AllowAll)\<lparr>hs_streams := [(''u'', ?st)]\<rparr>"
  have "map_of (hs_streams ?s) ''u'' = Some ?st" by simp
  from bodyless_upload_reads_expired[OF this, of "\<lparr>uw_chunks = [], uw_failed = None\<rparr>" ?r]
  show ?thesis by (auto simp: new_stream_def)
qed

section \<open>The idempotency fence\<close>

lemma nat_str_inj: "nat_str m = nat_str n \<longleftrightarrow> m = n"
proof
  have "parse_digits 10 (nat_str k) = k" for k by (simp add: nat_str_def parse_nat_digits)
  then show "nat_str m = nat_str n \<Longrightarrow> m = n" by metis
qed simp

text \<open>The exactly-once fence: the material hashed into an idempotency key determines the session,
  the cell and the ordinal of the effect (for session ids without a colon), so no two effects share
  it; and a key the cell set itself is never replaced.\<close>

theorem fence_material_unique:
  assumes "CHR '':'' \<notin> set d" "CHR '':'' \<notin> set d'"
  shows "(fence_material d c n = fence_material d' c' n' \<longrightarrow> d = d' \<and> c = c' \<and> n = n') \<and>
    (map_of (headers_new (ri_headers i) []) ''idempotency-key'' \<noteq> None \<longrightarrow> fence E s i = i)"
proof -
  have colon: "CHR '':'' \<notin> set (nat_str m)" for m
  proof
    assume "CHR '':'' \<in> set (nat_str m)"
    then have "is_digit 10 CHR '':''" using nat_digits_are_digits[of 10 _ m] by (simp add: nat_str_def)
    then show False by (simp add: is_digit_def digit_val_def)
  qed
  show ?thesis
    using assms colon
    by (auto simp: fence_material_def append_sep_inject nat_str_inj fence_def Let_def split: option.splits)
qed

theorem fence_material_unique_witness:
  "fence_material ''d'' 1 2 \<noteq> fence_material ''d'' 12 0"
proof -
  have "CHR '':'' \<notin> set ''d''" by simp
  from fence_material_unique[OF this this] show ?thesis by fastforce
qed

end
