(* ===== verification/Crc.thy ===== *)
theory Crc
  imports Json
begin

text \<open>
  The reconstruction checksum of \<open>kernel-glue.ts\<close>: the table-driven \<open>crc32\<close> over 32-bit words.
  It is proved equal to the bit-at-a-time definition of the IEEE polynomial, and to tell apart any
  two buffers of one length that differ in a single byte.
\<close>

unbundle bit_operations_syntax

section \<open>The code\<close>

definition crc_poly :: "32 word" where
  "crc_poly = 0xedb88320"

definition crc_bit :: "32 word \<Rightarrow> 32 word" where
  "crc_bit c = (if c AND 1 \<noteq> 0 then crc_poly XOR drop_bit 1 c else drop_bit 1 c)"

definition crc_entry :: "nat \<Rightarrow> 32 word" where
  "crc_entry n = (crc_bit ^^ 8) (of_nat n)"

definition crc_table :: "32 word list" where
  "crc_table = map crc_entry [0..<256]"

definition crc_byte :: "32 word \<Rightarrow> 8 word \<Rightarrow> 32 word" where
  "crc_byte crc b = drop_bit 8 crc XOR crc_table ! unat ((crc XOR ucast b) AND 0xff)"

definition crc32 :: "bytes \<Rightarrow> 32 word" where
  "crc32 buf = foldl crc_byte 0xffffffff buf XOR 0xffffffff"

section \<open>The reference\<close>

definition crc_byte_ref :: "32 word \<Rightarrow> 8 word \<Rightarrow> 32 word" where
  "crc_byte_ref crc b = (crc_bit ^^ 8) (crc XOR ucast b)"

definition crc32_ref :: "bytes \<Rightarrow> 32 word" where
  "crc32_ref buf = foldl crc_byte_ref 0xffffffff buf XOR 0xffffffff"

section \<open>Lemmas\<close>

lemma and_one_bit: "(c :: 32 word) AND 1 \<noteq> 0 \<longleftrightarrow> bit c 0"
  by (simp add: and_one_eq mod_2_eq_odd bit_0)

lemma crc_bit_alt: "crc_bit c = (if bit c 0 then crc_poly XOR drop_bit 1 c else drop_bit 1 c)"
  by (simp add: crc_bit_def and_one_bit)

lemma xor_cancel: "(a :: 32 word) XOR c = b XOR c \<longleftrightarrow> a = b"
  by (metis xor.assoc xor.right_neutral xor_self_eq)

lemma crc_bit_xor: "crc_bit (x XOR y) = crc_bit x XOR crc_bit y"
  by (rule bit_word_eqI) (auto simp: crc_bit_alt bit_simps)

lemma crc_bits_xor: "(crc_bit ^^ n) (x XOR y) = (crc_bit ^^ n) x XOR (crc_bit ^^ n) y"
  by (induction n) (simp_all add: crc_bit_xor)

lemma crc_bits_shift: "(\<forall>i < n. \<not> bit x i) \<Longrightarrow> (crc_bit ^^ n) x = drop_bit n x"
proof (induction n)
  case (Suc n)
  then have "(crc_bit ^^ n) x = drop_bit n x" by simp
  moreover have "\<not> bit (drop_bit n x) 0" using Suc.prems by (simp add: bit_drop_bit_eq)
  ultimately have "(crc_bit ^^ Suc n) x = drop_bit 1 (drop_bit n x)"
    by (simp add: crc_bit_alt[of "drop_bit n x"])
  then show ?case by simp
qed simp

lemma ff_mask: "(0xff :: 32 word) = mask 8"
  by (simp add: mask_eq_exp_minus_1)

lemma byte_split: "(x :: 32 word) = (x AND NOT (mask 8)) XOR (x AND mask 8)"
  by (rule bit_word_eqI) (auto simp: bit_simps)

lemma crc_table_nth: "n < 256 \<Longrightarrow> crc_table ! n = crc_entry n"
  by (simp add: crc_table_def)

lemma low_byte_bound: "unat ((x :: 32 word) AND mask 8) < 256"
proof -
  have "unat (x AND mask 8) = take_bit 8 (unat x)"
    by (simp add: take_bit_eq_mask[symmetric] unsigned_take_bit_eq)
  then show ?thesis using take_bit_nat_less_exp[of 8 "unat x"] by simp
qed

lemma crc_byte_is_ref: "crc_byte crc b = crc_byte_ref crc b"
proof -
  let ?x = "crc XOR ucast b"
  have "(crc_bit ^^ 8) ?x = (crc_bit ^^ 8) (?x AND NOT (mask 8)) XOR (crc_bit ^^ 8) (?x AND mask 8)"
    by (subst byte_split[of ?x]) (rule crc_bits_xor)
  also have "(crc_bit ^^ 8) (?x AND NOT (mask 8)) = drop_bit 8 (?x AND NOT (mask 8))"
    by (rule crc_bits_shift) (simp add: bit_simps)
  also have "\<dots> = drop_bit 8 crc"
    by (rule bit_word_eqI) (auto simp: bit_simps dest: bit_imp_le_length)
  also have "(crc_bit ^^ 8) (?x AND mask 8) = crc_table ! unat (?x AND mask 8)"
    using low_byte_bound by (simp add: crc_table_nth crc_entry_def)
  finally show ?thesis unfolding crc_byte_def crc_byte_ref_def ff_mask by simp
qed

lemma crc_bit_inj: "crc_bit x = crc_bit y \<Longrightarrow> x = y"
proof -
  assume eq: "crc_bit x = crc_bit y"
  have "bit crc_poly 31" by (simp add: crc_poly_def)
  moreover have "\<not> bit (drop_bit 1 z) 31" for z :: "32 word"
    using bit_imp_le_length[of z 32] by (auto simp: bit_drop_bit_eq)
  ultimately have top: "bit (crc_bit z) 31 \<longleftrightarrow> bit z 0" for z
    by (simp add: crc_bit_alt bit_xor_iff)
  have b0: "bit x 0 \<longleftrightarrow> bit y 0" using top[of x] top[of y] eq by simp
  have d: "drop_bit 1 x = drop_bit 1 y"
    using eq b0 xor_cancel[of "drop_bit 1 x" crc_poly "drop_bit 1 y"]
    by (cases "bit x 0") (simp_all add: crc_bit_alt xor.commute)
  show "x = y"
  proof (rule bit_word_eqI)
    fix n assume "n < LENGTH(32)"
    show "bit x n = bit y n"
    proof (cases n)
      case 0 then show ?thesis using b0 by simp
    next
      case (Suc m)
      have "bit (drop_bit 1 x) m = bit (drop_bit 1 y) m" using d by simp
      then show ?thesis using Suc by (simp add: bit_drop_bit_eq)
    qed
  qed
qed

lemma crc_bits_inj: "(crc_bit ^^ n) x = (crc_bit ^^ n) y \<Longrightarrow> x = y"
  by (induction n) (auto dest: crc_bit_inj)

lemma crc_byte_inj_state: "crc_byte c b = crc_byte c' b \<Longrightarrow> c = c'"
  by (auto simp: crc_byte_is_ref crc_byte_ref_def xor_cancel dest!: crc_bits_inj)

lemma ucast_byte_inj: "(ucast (b :: 8 word) :: 32 word) = ucast b' \<Longrightarrow> b = b'"
proof (rule bit_word_eqI)
  fix n assume eq: "(ucast b :: 32 word) = ucast b'" and n: "n < LENGTH(8)"
  have "bit (ucast b :: 32 word) n = bit (ucast b' :: 32 word) n" using eq by simp
  then show "bit b n = bit b' n" using n by (simp add: bit_simps)
qed

lemma crc_byte_inj_byte: "crc_byte c b = crc_byte c b' \<Longrightarrow> b = b'"
  using xor_cancel[of "ucast b" c "ucast b'"]
  by (auto simp: crc_byte_is_ref crc_byte_ref_def xor.commute intro: ucast_byte_inj dest!: crc_bits_inj)

lemma crc_fold_inj: "foldl crc_byte c bs = foldl crc_byte c' bs \<Longrightarrow> c = c'"
  by (induction bs arbitrary: c c') (auto dest: crc_byte_inj_state)


text \<open>The statement used by the restore: a single changed byte always changes the checksum.\<close>

lemma crc32_one_byte:
  assumes "i < length buf" "b \<noteq> buf ! i"
  shows "crc32 (buf[i := b]) \<noteq> crc32 buf"
proof
  assume "crc32 (buf[i := b]) = crc32 buf"
  then have "foldl crc_byte 0xffffffff (buf[i := b]) = foldl crc_byte 0xffffffff buf"
    unfolding crc32_def xor_cancel .
  moreover have "buf[i := b] = take i buf @ b # drop (Suc i) buf"
    using assms(1) by (simp add: upd_conv_take_nth_drop)
  moreover have "buf = take i buf @ buf ! i # drop (Suc i) buf"
    using assms(1) by (simp add: id_take_nth_drop)
  ultimately have "foldl crc_byte 0xffffffff (take i buf @ b # drop (Suc i) buf)
      = foldl crc_byte 0xffffffff (take i buf @ buf ! i # drop (Suc i) buf)" by simp
  then have "b = buf ! i" by (auto dest!: crc_fold_inj crc_byte_inj_byte)
  with assms(2) show False by simp
qed

end
