(* ===== verification/Snapshot.thy ===== *)
theory Snapshot
  imports Crc
begin

text \<open>
  Heap snapshots of the kernel (\<open>kernel-glue.ts\<close>): size admission (\<open>_serializeForDump\<close>), the full
  and the byte-delta dump (\<open>dump\<close>, \<open>dumpW4\<close>), promotion of the staged image (\<open>commitDump\<close>),
  reconstruction from a base and a chain of deltas with its checksum (\<open>restoreW4\<close>), the plain
  restore, and the codec selector.  The compressor and the engine are parameters; an engine reports
  its buffer and used bytes, scrubs its arena and gives its memory image.  Sizes are naturals, the
  slack of the scrub decision an integer; the two fractions of that decision (0.6 and 0.4) are
  taken as rationals.
\<close>

section \<open>Ceilings\<close>

definition MiB :: nat where "MiB = 1024 * 1024"

definition SCRATCH_DELTA_BYTES :: nat where "SCRATCH_DELTA_BYTES = 31 * MiB"
definition MAX_USED_BYTES :: nat where "MAX_USED_BYTES = 50 * MiB"
definition MAX_RESTORE_USED_BYTES :: nat where "MAX_RESTORE_USED_BYTES = 50 * MiB"
definition MEASURED_RESTORE_RAW_CEILING_BYTES :: nat where "MEASURED_RESTORE_RAW_CEILING_BYTES = 60 * MiB"
definition SAFE_SERIALIZE_BUFFER_BYTES :: nat where
  "SAFE_SERIALIZE_BUFFER_BYTES = MEASURED_RESTORE_RAW_CEILING_BYTES"
definition MAX_RESTORE_RAW_BYTES :: nat where "MAX_RESTORE_RAW_BYTES = MEASURED_RESTORE_RAW_CEILING_BYTES"
definition LARGE_BUFFER_NO_RETAIN_BYTES :: nat where "LARGE_BUFFER_NO_RETAIN_BYTES = 63 * MiB"
definition FULL_BASE_NO_RETAIN_BYTES :: nat where "FULL_BASE_NO_RETAIN_BYTES = 16 * MiB"
definition SCRUB_SLACK_BYTES :: nat where "SCRUB_SLACK_BYTES = 4 * MiB"
definition SCRUB_MAX_BUFFER_BYTES :: nat where "SCRUB_MAX_BUFFER_BYTES = 44 * MiB + SCRATCH_DELTA_BYTES"
definition COMPACT_TRIGGER_BYTES :: nat where "COMPACT_TRIGGER_BYTES = 12 * MiB"
definition INCOMPRESSIBLE_BUFFER_CEILING_BYTES :: nat where "INCOMPRESSIBLE_BUFFER_CEILING_BYTES = 24 * MiB"
definition DELTA_GRAIN_BYTES :: nat where "DELTA_GRAIN_BYTES = 256"
definition DELTA_MAX_BLOB_BYTES :: nat where "DELTA_MAX_BLOB_BYTES = 1400000"

lemmas ceilings = MiB_def SCRATCH_DELTA_BYTES_def MAX_USED_BYTES_def MAX_RESTORE_USED_BYTES_def
  MEASURED_RESTORE_RAW_CEILING_BYTES_def SAFE_SERIALIZE_BUFFER_BYTES_def MAX_RESTORE_RAW_BYTES_def
  LARGE_BUFFER_NO_RETAIN_BYTES_def FULL_BASE_NO_RETAIN_BYTES_def SCRUB_SLACK_BYTES_def
  SCRUB_MAX_BUFFER_BYTES_def COMPACT_TRIGGER_BYTES_def INCOMPRESSIBLE_BUFFER_CEILING_BYTES_def

section \<open>The engine and the codec\<close>

record 'e engine =
  en_buffer_bytes :: "'e \<Rightarrow> nat"
  en_used_heap :: "'e \<Rightarrow> nat"
  en_scrub_arena :: "nat \<Rightarrow> 'e \<Rightarrow> nat \<times> 'e"
  en_memory :: "'e \<Rightarrow> bytes"

record zcodec =
  zc_compress :: "bytes \<Rightarrow> bytes"
  zc_unzstd :: "nat \<Rightarrow> bytes \<Rightarrow> (string, bytes) result"
  zc_gunzip :: "bytes \<Rightarrow> (string, bytes) result"

datatype snap_codec = Gzip | Zstd

definition normCodec :: "string option \<Rightarrow> snap_codec" where
  "normCodec tag = (if tag = Some ''zstd'' then Zstd else Gzip)"

definition codecDecompress :: "zcodec \<Rightarrow> bytes \<Rightarrow> string option \<Rightarrow> nat \<Rightarrow> (string, bytes) result" where
  "codecDecompress Z u8 codec rawLenHint =
     (if normCodec codec = Zstd then zc_unzstd Z rawLenHint u8 else zc_gunzip Z u8)"

section \<open>Admission\<close>

datatype snap_error =
    BufferTooBig nat
  | UsedTooBig nat
  | Incompressible nat
  | RestoreUsed nat
  | RestoreRaw nat
  | ShortImage nat nat
  | CrcMismatch "32 word" "32 word" nat
  | ReattachFailed
  | ProbeFailed
  | CodecError string

record serialized =
  sz_raw :: bytes
  sz_usedHeap :: nat
  sz_bufferBytes :: nat
  sz_scrubbed :: bool

definition scrub_budget :: "int \<Rightarrow> nat" where
  "scrub_budget slack = nat (max 0 (min (slack * 6 div (10 * int MiB)) 24))"

definition serializeForDump :: "'e engine \<Rightarrow> 'e \<Rightarrow> (snap_error, serialized) result \<times> 'e" where
  "serializeForDump G e0 =
     (let bufBytes0 = en_buffer_bytes G e0 in
      if SAFE_SERIALIZE_BUFFER_BYTES < bufBytes0 then (Inl (BufferTooBig bufBytes0), e0)
      else
        let bloated = (COMPACT_TRIGGER_BYTES < bufBytes0);
            (usedHeap, e1) = (if bloated then en_scrub_arena G 0 e0 else (en_used_heap G e0, e0))
        in if MAX_USED_BYTES < usedHeap then (Inl (UsedTooBig usedHeap), e1)
           else
             let incompressibleBytes = max usedHeap (bufBytes0 - SCRATCH_DELTA_BYTES) in
             if INCOMPRESSIBLE_BUFFER_CEILING_BYTES \<le> incompressibleBytes
             then (Inl (Incompressible incompressibleBytes), e1)
             else
               let slack = int bufBytes0 - int usedHeap;
                   wedgedRatio = (bloated \<and> 10 * usedHeap < 4 * bufBytes0);
                   (usedHeap2, scrubbed, e2) =
                     (if bloated \<and> (int SCRUB_SLACK_BYTES < slack \<or> wedgedRatio)
                         \<and> bufBytes0 \<le> SCRUB_MAX_BUFFER_BYTES
                      then (let budgetMb = scrub_budget slack in
                            if 1 \<le> budgetMb
                            then (let (u, e') = en_scrub_arena G budgetMb e1 in (u, True, e'))
                            else (usedHeap, False, e1))
                      else (usedHeap, False, e1))
               in (Inr \<lparr>sz_raw = en_memory G e2, sz_usedHeap = usedHeap2,
                        sz_bufferBytes = en_buffer_bytes G e2, sz_scrubbed = scrubbed\<rparr>, e2))"

section \<open>Deltas\<close>

text \<open>Little-endian 32-bit indices.\<close>

definition le32 :: "nat \<Rightarrow> bytes" where
  "le32 n = [of_nat (n mod 256), of_nat (n div 256 mod 256), of_nat (n div 65536 mod 256),
             of_nat (n div 16777216 mod 256)]"

definition getUint32 :: "bytes \<Rightarrow> nat \<Rightarrow> nat" where
  "getUint32 b i = unat (b ! i) + 256 * unat (b ! (i + 1)) + 65536 * unat (b ! (i + 2))
     + 16777216 * unat (b ! (i + 3))"

definition ceil_div :: "nat \<Rightarrow> nat \<Rightarrow> nat" where
  "ceil_div n g = (n + g - 1) div g"

definition grain_changed :: "nat \<Rightarrow> bytes \<Rightarrow> bytes \<Rightarrow> nat \<Rightarrow> bool" where
  "grain_changed grain raw prev i =
     (let start = i * grain; fin = min (start + grain) (length raw); prevLen = length prev in
      if prevLen \<le> start then True
      else
        let cmpEnd = min fin prevLen in
        list_ex (\<lambda>j. raw ! j \<noteq> prev ! j) [start..<cmpEnd] \<or> prevLen < fin)"

definition changed_grains :: "nat \<Rightarrow> bytes \<Rightarrow> bytes \<Rightarrow> nat list" where
  "changed_grains grain raw prev =
     filter (grain_changed grain raw prev) [0..<ceil_div (length raw) grain]"

text \<open>Each changed grain fills a slot of \<open>grain\<close> bytes of the zeroed payload.\<close>

definition pad_grain :: "nat \<Rightarrow> bytes \<Rightarrow> bytes" where
  "pad_grain grain b = b @ replicate (grain - length b) 0"

definition delta_payload :: "nat \<Rightarrow> bytes \<Rightarrow> nat list \<Rightarrow> bytes" where
  "delta_payload grain raw changed =
     concat (map (\<lambda>i. pad_grain grain (take grain (drop (i * grain) raw))) changed)"

definition delta_indices :: "nat list \<Rightarrow> bytes" where
  "delta_indices changed = concat (map le32 changed)"

section \<open>Dumping\<close>

datatype dump_mode = Full | Delta

record dump_result =
  dr_mode :: dump_mode
  dr_gz :: bytes
  dr_indicesGz :: "bytes option"
  dr_snapCodec :: snap_codec
  dr_nChanged :: nat
  dr_grain :: nat
  dr_imageLen :: nat
  dr_sizeGz :: nat
  dr_imageCrc :: "32 word"
  dr_usedHeap :: nat
  dr_bufferBytes :: nat
  dr_scrubbed :: bool

record retained =
  rt_lastImage :: "bytes option"
  rt_pendingImage :: "bytes option"

definition full_result :: "zcodec \<Rightarrow> serialized \<Rightarrow> dump_result" where
  "full_result Z s =
     (let gz = zc_compress Z (sz_raw s) in
      \<lparr>dr_mode = Full, dr_gz = gz, dr_indicesGz = None, dr_snapCodec = Zstd, dr_nChanged = 0,
       dr_grain = DELTA_GRAIN_BYTES, dr_imageLen = length (sz_raw s), dr_sizeGz = length gz,
       dr_imageCrc = crc32 (sz_raw s), dr_usedHeap = sz_usedHeap s,
       dr_bufferBytes = sz_bufferBytes s, dr_scrubbed = sz_scrubbed s\<rparr>)"

definition dump_full :: "zcodec \<Rightarrow> serialized \<Rightarrow> retained \<Rightarrow> dump_result \<times> retained" where
  "dump_full Z s rt = (full_result Z s, rt\<lparr>rt_pendingImage := Some (sz_raw s)\<rparr>)"

definition emitFull :: "zcodec \<Rightarrow> serialized \<Rightarrow> retained \<Rightarrow> dump_result \<times> retained" where
  "emitFull Z s rt =
     (full_result Z s,
      if FULL_BASE_NO_RETAIN_BYTES < length (sz_raw s)
      then rt\<lparr>rt_lastImage := None, rt_pendingImage := None\<rparr>
      else rt\<lparr>rt_pendingImage := Some (sz_raw s)\<rparr>)"

definition dump_image :: "zcodec \<Rightarrow> bool \<Rightarrow> serialized \<Rightarrow> retained \<Rightarrow> dump_result \<times> retained" where
  "dump_image Z forceFull s rt =
     (let raw = sz_raw s in
      if LARGE_BUFFER_NO_RETAIN_BYTES < length raw
      then (full_result Z s, rt\<lparr>rt_lastImage := None, rt_pendingImage := None\<rparr>)
      else case rt_lastImage rt of
        None \<Rightarrow> emitFull Z s rt
      | Some prev \<Rightarrow>
          if forceFull \<or> length raw < length prev then emitFull Z s rt
          else
            let grain = DELTA_GRAIN_BYTES;
                changed = changed_grains grain raw prev;
                changedBytes = length changed * grain
            in if length raw \<le> 2 * changedBytes then emitFull Z s rt
               else
                 let payGz = zc_compress Z (delta_payload grain raw changed);
                     idxGz = zc_compress Z (delta_indices changed)
                 in if length payGz \<le> DELTA_MAX_BLOB_BYTES \<and> length idxGz \<le> DELTA_MAX_BLOB_BYTES
                    then (\<lparr>dr_mode = Delta, dr_gz = payGz, dr_indicesGz = Some idxGz, dr_snapCodec = Zstd,
                           dr_nChanged = length changed, dr_grain = grain, dr_imageLen = length raw,
                           dr_sizeGz = length payGz + length idxGz, dr_imageCrc = crc32 raw,
                           dr_usedHeap = sz_usedHeap s, dr_bufferBytes = sz_bufferBytes s,
                           dr_scrubbed = sz_scrubbed s\<rparr>,
                          rt\<lparr>rt_pendingImage := Some raw\<rparr>)
                    else emitFull Z s rt)"

definition dumpW4 ::
  "'e engine \<Rightarrow> zcodec \<Rightarrow> bool \<Rightarrow> 'e \<Rightarrow> retained \<Rightarrow> (snap_error, dump_result) result \<times> 'e \<times> retained" where
  "dumpW4 G Z forceFull e rt =
     (case serializeForDump G e of
        (Inl err, e') \<Rightarrow> (Inl err, e', rt)
      | (Inr s, e') \<Rightarrow> (let (d, rt') = dump_image Z forceFull s rt in (Inr d, e', rt')))"

definition dump ::
  "'e engine \<Rightarrow> zcodec \<Rightarrow> 'e \<Rightarrow> retained \<Rightarrow> (snap_error, dump_result) result \<times> 'e \<times> retained" where
  "dump G Z e rt =
     (case serializeForDump G e of
        (Inl err, e') \<Rightarrow> (Inl err, e', rt)
      | (Inr s, e') \<Rightarrow> (let (d, rt') = dump_full Z s rt in (Inr d, e', rt')))"

definition commitDump :: "retained \<Rightarrow> retained" where
  "commitDump rt =
     (case rt_pendingImage rt of
        None \<Rightarrow> rt
      | Some img \<Rightarrow> rt\<lparr>rt_lastImage := Some img, rt_pendingImage := None\<rparr>)"

section \<open>Reconstruction\<close>

record w4_delta =
  wd_gz :: bytes
  wd_indicesGz :: bytes
  wd_grain :: "nat option"
  wd_codec :: "string option"
  wd_payloadLen :: nat
  wd_indicesLen :: nat

record decoded =
  dc_payload :: bytes
  dc_idx :: "nat list"
  dc_grain :: nat

definition decode_indices :: "bytes \<Rightarrow> nat list" where
  "decode_indices b = map (\<lambda>k. getUint32 b (k * 4)) [0..<length b div 4]"

definition decode_delta :: "zcodec \<Rightarrow> w4_delta \<Rightarrow> (string, decoded) result" where
  "decode_delta Z d =
     rbind (codecDecompress Z (wd_gz d) (wd_codec d) (wd_payloadLen d)) (\<lambda>payload.
     rbind (codecDecompress Z (wd_indicesGz d) (wd_codec d) (wd_indicesLen d)) (\<lambda>idxBytes.
       Inr \<lparr>dc_payload = payload, dc_idx = decode_indices idxBytes,
            dc_grain = (case wd_grain d of Some g \<Rightarrow> if g = 0 then DELTA_GRAIN_BYTES else g
                        | None \<Rightarrow> DELTA_GRAIN_BYTES)\<rparr>))"

fun decode_all :: "zcodec \<Rightarrow> w4_delta list \<Rightarrow> (string, decoded list) result" where
  "decode_all Z [] = Inr []"
| "decode_all Z (d # ds) = rbind (decode_delta Z d) (\<lambda>x. rbind (decode_all Z ds) (\<lambda>xs. Inr (x # xs)))"

definition chain_len :: "nat \<Rightarrow> decoded list \<Rightarrow> nat" where
  "chain_len baseLen ds =
     foldl (\<lambda>m d. if dc_idx d = [] then m else max m ((Max (set (dc_idx d)) + 1) * dc_grain d)) baseLen ds"

definition grow :: "nat \<Rightarrow> bytes \<Rightarrow> bytes" where
  "grow n img = img @ replicate (n - length img) 0"

text \<open>\<open>image.set(src, dst)\<close> for a source that fits.\<close>

definition blit :: "bytes \<Rightarrow> nat \<Rightarrow> bytes \<Rightarrow> bytes" where
  "blit src dst img = take dst img @ src @ drop (dst + length src) img"

fun apply_grains :: "nat \<Rightarrow> bytes \<Rightarrow> nat list \<Rightarrow> nat \<Rightarrow> bytes \<Rightarrow> bytes" where
  "apply_grains grain payload [] k img = img"
| "apply_grains grain payload (gi # gis) k img =
     (let dst = gi * grain; n = min grain (length img - dst);
          img' = (if 0 < n then blit (take n (drop (k * grain) payload)) dst img else img)
      in apply_grains grain payload gis (k + 1) img')"

definition apply_delta :: "decoded \<Rightarrow> bytes \<Rightarrow> bytes" where
  "apply_delta d img = apply_grains (dc_grain d) (dc_payload d) (dc_idx d) 0 img"

definition reconstruct :: "zcodec \<Rightarrow> bytes \<Rightarrow> string option \<Rightarrow> w4_delta list \<Rightarrow> (string, bytes) result" where
  "reconstruct Z baseGz baseCodec deltas =
     rbind (codecDecompress Z baseGz baseCodec 0) (\<lambda>base.
     rbind (decode_all Z deltas) (\<lambda>ds.
       Inr (foldl (\<lambda>img d. apply_delta d img) (grow (chain_len (length base) ds) base) ds)))"

definition check_crc :: "bytes \<Rightarrow> int \<Rightarrow> 32 word \<Rightarrow> (snap_error, unit) result" where
  "check_crc img expectLen expectCrc =
     (let wantLen = nat expectLen in
      if 0 < wantLen \<and> expectCrc \<noteq> 0 then
        (if length img < wantLen then Inl (ShortImage (length img) wantLen)
         else let got = crc32 (take wantLen img) in
           if got \<noteq> expectCrc then Inl (CrcMismatch got expectCrc wantLen) else Inr ())
      else Inr ())"

definition admit_restore :: "nat \<Rightarrow> bytes \<Rightarrow> (snap_error, unit) result" where
  "admit_restore usedHeap img =
     (if MAX_RESTORE_USED_BYTES < usedHeap then Inl (RestoreUsed usedHeap)
      else if MAX_RESTORE_RAW_BYTES < length img then Inl (RestoreRaw (length img))
      else Inr ())"

definition codec_result :: "(string, 'a) result \<Rightarrow> (snap_error, 'a) result" where
  "codec_result r = (case r of Inl e \<Rightarrow> Inl (CodecError e) | Inr x \<Rightarrow> Inr x)"

text \<open>The image that is blitted and retained.  \<open>reattach\<close> and \<open>probe\<close> are the engine's verdicts on
  a blitted image.\<close>

definition restoreW4 ::
  "zcodec \<Rightarrow> (bytes \<Rightarrow> bool) \<Rightarrow> (bytes \<Rightarrow> bool) \<Rightarrow> bytes \<Rightarrow> string option \<Rightarrow> w4_delta list \<Rightarrow>
   nat \<Rightarrow> 32 word \<Rightarrow> int \<Rightarrow> retained \<Rightarrow> (snap_error, retained) result" where
  "restoreW4 Z reattach probe baseGz baseCodec deltas usedHeap expectCrc expectLen rt =
     rbind (codec_result (reconstruct Z baseGz baseCodec deltas)) (\<lambda>img.
     rbind (check_crc img expectLen expectCrc) (\<lambda>_.
     rbind (admit_restore usedHeap img) (\<lambda>_.
       if \<not> reattach img then Inl ReattachFailed
       else if \<not> probe img then Inl ProbeFailed
       else Inr (rt\<lparr>rt_lastImage := Some img\<rparr>))))"

definition restore_plain ::
  "zcodec \<Rightarrow> (bytes \<Rightarrow> bool) \<Rightarrow> bytes \<Rightarrow> string option \<Rightarrow> nat \<Rightarrow> retained \<Rightarrow> (snap_error, retained) result" where
  "restore_plain Z reattach gz baseCodec usedHeap rt =
     rbind (codec_result (codecDecompress Z gz baseCodec 0)) (\<lambda>raw.
     rbind (admit_restore usedHeap raw) (\<lambda>_.
       if \<not> reattach raw then Inl ReattachFailed
       else Inr (rt\<lparr>rt_lastImage := Some raw\<rparr>)))"

end
