(* ===== verification/SnapshotProps.thy ===== *)
theory SnapshotProps
  imports Snapshot
begin

text \<open>
  The delta chain.  A chain of deltas dumped one after the other reconstructs to the image of the
  last dump; the retained image is always that of the committed tail of the chain, whatever
  checkpoints fail; and what admission lets be written can be restored.
\<close>

section \<open>Indices\<close>

lemma byte_of_nat: "n < 256 \<Longrightarrow> unat (of_nat n :: 8 word) = n"
  by (simp add: unat_of_nat take_bit_nat_eq_self)

lemma getUint32_le32: "n < 4294967296 \<Longrightarrow> getUint32 (le32 n) 0 = n"
proof -
  assume "n < 4294967296"
  define n1 n2 n3 where "n1 = n div 256" "n2 = n1 div 256" "n3 = n2 div 256"
  have d: "n div 65536 = n2" "n div 16777216 = n3"
    by (simp_all add: n1_n2_n3_def div_mult2_eq[symmetric])
  have "n = 256 * n1 + n mod 256" "n1 = 256 * n2 + n1 mod 256" "n2 = 256 * n3 + n2 mod 256"
    by (simp_all add: n1_n2_n3_def)
  moreover have "n3 mod 256 = n3"
    using \<open>n < 4294967296\<close> by (simp add: n1_n2_n3_def div_mult2_eq[symmetric] less_mult_imp_div_less)
  ultimately have "n mod 256 + 256 * (n1 mod 256) + 65536 * (n2 mod 256) + 16777216 * (n3 mod 256) = n"
    by linarith
  then show ?thesis by (simp add: getUint32_def le32_def byte_of_nat d n1_n2_n3_def(1)[symmetric])
qed

lemma length_le32 [simp]: "length (le32 n) = 4" by (simp add: le32_def)

lemma length_indices [simp]: "length (delta_indices ns) = 4 * length ns"
  by (induction ns) (simp_all add: delta_indices_def)

lemma getUint32_append:
  "length p = 4 * k \<Longrightarrow> i < length q div 4 \<Longrightarrow> getUint32 (p @ q) ((k + i) * 4) = getUint32 q (i * 4)"
  by (simp add: getUint32_def nth_append algebra_simps)

lemma getUint32_head: "n < 4294967296 \<Longrightarrow> getUint32 (le32 n @ q) 0 = n"
  using getUint32_le32[of n] by (simp add: getUint32_def nth_append)

lemma decode_indices_inverse:
  "\<forall>n \<in> set ns. n < 4294967296 \<Longrightarrow> decode_indices (delta_indices ns) = ns"
proof (induction ns)
  case (Cons n ns)
  have "getUint32 (le32 n @ delta_indices ns) (Suc k * 4) = getUint32 (delta_indices ns) (k * 4)"
    if "k < length ns" for k
    using getUint32_append[of "le32 n" 1 k "delta_indices ns"] that by simp
  then have "map (\<lambda>x. getUint32 (le32 n @ delta_indices ns) (4 + x * 4)) [0..<length ns]
      = map (\<lambda>x. getUint32 (delta_indices ns) (x * 4)) [0..<length ns]"
    by (intro map_cong) simp_all
  also have "\<dots> = ns" using Cons by (simp add: decode_indices_def)
  finally have "map (\<lambda>x. getUint32 (le32 n @ delta_indices ns) (4 + x * 4)) [0..<length ns] = ns" .
  moreover have "delta_indices (n # ns) = le32 n @ delta_indices ns" by (simp add: delta_indices_def)
  ultimately show ?case using Cons.prems getUint32_head[of n]
    by (simp add: decode_indices_def upt_conv_Cons map_Suc_upt[symmetric] comp_def del: upt_Suc)
qed (simp add: decode_indices_def delta_indices_def)

section \<open>Applying grains\<close>

lemma length_blit [simp]: "dst + length src \<le> length img \<Longrightarrow> length (blit src dst img) = length img"
  by (simp add: blit_def)

lemma nth_blit:
  "dst + length src \<le> length img \<Longrightarrow> j < length img \<Longrightarrow>
   blit src dst img ! j = (if dst \<le> j \<and> j < dst + length src then src ! (j - dst) else img ! j)"
  by (auto simp: blit_def nth_append)

lemma in_grain: "0 < g \<Longrightarrow> gi * g \<le> j \<and> j < gi * g + g \<longleftrightarrow> j div g = (gi :: nat)"
  by (metis add.commute div_nat_eqI dividend_less_times_div less_eq_div_iff_mult_less_eq mult.commute
      mult_Suc mult_Suc_right order_refl times_div_less_eq_dividend)

lemma apply_grains_spec:
  assumes "0 < g" "\<And>i. length (f i) = g" "length pre = k * g"
    and "\<forall>i \<in> set gis. (i + 1) * g \<le> length img"
  shows "length (apply_grains g (pre @ concat (map f gis)) gis k img) = length img \<and>
    (\<forall>j < length img. apply_grains g (pre @ concat (map f gis)) gis k img ! j =
       (if j div g \<in> set gis then f (j div g) ! (j mod g) else img ! j))"
  using assms(3,4)
proof (induction gis arbitrary: pre k img)
  case (Cons gi gis)
  let ?img = "blit (f gi) (gi * g) img"
  have fit: "gi * g + g \<le> length img" using Cons.prems by (simp add: algebra_simps)
  then have n: "min g (length img - gi * g) = g" by simp
  have slot: "take g (drop (k * g) (pre @ concat (map f (gi # gis)))) = f gi"
    using Cons.prems(1) assms(2) by simp
  have step: "apply_grains g (pre @ concat (map f (gi # gis))) (gi # gis) k img
      = apply_grains g ((pre @ f gi) @ concat (map f gis)) gis (k + 1) ?img"
    using assms(1) by (simp only: apply_grains.simps Let_def n slot if_True) simp
  have len: "length ?img = length img" using fit assms(2) by simp
  have IH: "length (apply_grains g ((pre @ f gi) @ concat (map f gis)) gis (k + 1) ?img) = length ?img \<and>
    (\<forall>j < length ?img. apply_grains g ((pre @ f gi) @ concat (map f gis)) gis (k + 1) ?img ! j =
       (if j div g \<in> set gis then f (j div g) ! (j mod g) else ?img ! j))"
    using Cons.prems len assms(2) by (intro Cons.IH) auto
  have img: "?img ! j = (if j div g = gi then f gi ! (j mod g) else img ! j)" if "j < length img" for j
  proof -
    have "?img ! j = (if gi * g \<le> j \<and> j < gi * g + g then f gi ! (j - gi * g) else img ! j)"
      using nth_blit[of "gi * g" "f gi" img j] fit assms(2) that by simp
    moreover have "j - gi * g = j mod g" if "j div g = gi" using that by (simp add: minus_div_mult_eq_mod[symmetric])
    ultimately show ?thesis using in_grain[OF assms(1), of gi j] by simp
  qed
  show ?case unfolding step using IH len img by auto
qed simp

lemma length_pad: "length b \<le> g \<Longrightarrow> length (pad_grain g b) = g"
  by (simp add: pad_grain_def)

lemma grain_not_changed:
  assumes "\<not> grain_changed g raw prev i" "j div g = i" "j < length raw" "0 < g"
  shows "j < length prev \<and> raw ! j = prev ! j"
proof -
  let ?fin = "min (i * g + g) (length raw)"
  have "i * g \<le> j" "j < ?fin" using assms in_grain[of g i j] by auto
  moreover have "?fin \<le> length prev" "\<not> list_ex (\<lambda>j. raw ! j \<noteq> prev ! j) [i * g..<min ?fin (length prev)]"
    using assms(1) by (auto simp: grain_changed_def Let_def not_le split: if_splits)
  ultimately show ?thesis by (auto simp: list_ex_iff min_def split: if_splits)
qed

lemma changed_bound: "0 < g \<Longrightarrow> i \<in> set (changed_grains g raw prev) \<Longrightarrow> i * g < length raw"
proof -
  assume g: "0 < g" and "i \<in> set (changed_grains g raw prev)"
  then have "i < (length raw + g - 1) div g" by (simp add: changed_grains_def ceil_div_def)
  then have "(i + 1) * g \<le> length raw + g - 1" using g by (simp add: less_eq_div_iff_mult_less_eq Suc_le_eq[symmetric])
  then show "i * g < length raw" using g by simp
qed

lemma grain_in_range: "0 < g \<Longrightarrow> j < length raw \<Longrightarrow> j div g < ceil_div (length raw) g"
proof -
  assume g: "0 < g" and j: "j < length raw"
  have "(j div g + 1) * g \<le> j + g" by (simp add: add_mult_distrib)
  also have "\<dots> \<le> length raw + g - 1" using j g by simp
  finally have "j div g + 1 \<le> (length raw + g - 1) div g" using g by (simp add: less_eq_div_iff_mult_less_eq)
  then show ?thesis by (simp add: ceil_div_def)
qed

definition delta_of :: "nat \<Rightarrow> bytes \<Rightarrow> bytes \<Rightarrow> decoded" where
  "delta_of g raw prev =
     \<lparr>dc_payload = delta_payload g raw (changed_grains g raw prev), dc_idx = changed_grains g raw prev,
      dc_grain = g\<rparr>"

lemma delta_step:
  assumes g: "0 < g" and le: "length prev \<le> length raw" and prev: "take (length prev) img = prev"
    and fit: "length raw \<le> length img" "\<forall>i \<in> set (changed_grains g raw prev). (i + 1) * g \<le> length img"
  shows "take (length raw) (apply_delta (delta_of g raw prev) img) = raw \<and>
    length (apply_delta (delta_of g raw prev) img) = length img"
proof -
  let ?ch = "changed_grains g raw prev" and ?f = "\<lambda>i. pad_grain g (take g (drop (i * g) raw))"
  let ?r = "apply_delta (delta_of g raw prev) img"
  have spec: "length ?r = length img" "\<And>j. j < length img \<Longrightarrow>
      ?r ! j = (if j div g \<in> set ?ch then ?f (j div g) ! (j mod g) else img ! j)"
    using apply_grains_spec[of g ?f "[]" 0 ?ch img] g fit(2)
    by (simp_all add: apply_delta_def delta_of_def delta_payload_def length_pad)
  have "?r ! j = raw ! j" if j: "j < length raw" for j
  proof (cases "j div g \<in> set ?ch")
    case True
    have dm: "j div g * g + j mod g = j" by simp
    then have "j mod g < length raw - j div g * g" using j by linarith
    moreover have "j mod g < g" using g by simp
    ultimately have "?f (j div g) ! (j mod g) = raw ! j"
      using dm by (simp add: pad_grain_def nth_append)
    then show ?thesis using True spec(2) j fit(1) by simp
  next
    case False
    then have "\<not> grain_changed g raw prev (j div g)"
      using grain_in_range[OF g j] by (simp add: changed_grains_def)
    from grain_not_changed[OF this refl j g] have "j < length prev" "raw ! j = prev ! j" by auto
    moreover from this prev have "img ! j = prev ! j" by (metis nth_take)
    ultimately show ?thesis using False spec(2) j fit(1) by simp
  qed
  then show ?thesis using spec(1) fit(1) by (auto intro!: nth_equalityI)
qed

section \<open>Chains\<close>

text \<open>A chain represents an image when it is a base and the deltas between successive images.  The
  images fill whole grains: they are WebAssembly memories, whose pages of 64 KiB are multiples of
  the grain.\<close>

inductive represents :: "nat \<Rightarrow> bytes \<Rightarrow> decoded list \<Rightarrow> bytes \<Rightarrow> bool" for g where
  rep_base: "g dvd length base \<Longrightarrow> represents g base [] base"
| rep_delta: "represents g base ds prev \<Longrightarrow> length prev \<le> length raw \<Longrightarrow> g dvd length raw \<Longrightarrow>
    represents g base (ds @ [delta_of g raw prev]) raw"

lemma chain_len_snoc: "chain_len n (ds @ [d]) =
  (if dc_idx d = [] then chain_len n ds else max (chain_len n ds) ((Max (set (dc_idx d)) + 1) * dc_grain d))"
  by (simp add: chain_len_def)

lemma unchanged_same_length:
  assumes "0 < g" "length prev \<le> length raw" "changed_grains g raw prev = []"
  shows "length raw = length prev"
proof (rule ccontr)
  assume "length raw \<noteq> length prev"
  then have less: "length prev < length raw" using assms(2) by simp
  let ?j = "length raw - 1"
  have j: "?j < length raw" using less by simp
  have "\<not> grain_changed g raw prev (?j div g)"
    using assms(3) grain_in_range[OF assms(1) j] by (auto simp: changed_grains_def filter_empty_conv)
  from grain_not_changed[OF this refl j assms(1)] less show False by linarith
qed

lemma changed_reaches_end:
  assumes "0 < g" "length prev < length raw"
  shows "length raw \<le> (Max (set (changed_grains g raw prev)) + 1) * g"
proof -
  let ?j = "length raw - 1" and ?ch = "changed_grains g raw prev"
  have j: "?j < length raw" using assms by simp
  have "grain_changed g raw prev (?j div g)"
    using grain_not_changed[OF _ refl j assms(1), of prev] assms(2) by linarith
  then have "?j div g \<in> set ?ch" using grain_in_range[OF assms(1) j] by (simp add: changed_grains_def)
  then have "?j div g \<le> Max (set ?ch)" by simp
  then have "(?j div g + 1) * g \<le> (Max (set ?ch) + 1) * g" by simp
  moreover have "?j < (?j div g + 1) * g"
    using assms(1) by (metis Suc_eq_plus1 dividend_less_div_times mult.commute mult_Suc_right)
  ultimately show ?thesis using j by linarith
qed

lemma represents_spec:
  assumes "represents g base ds raw" "0 < g"
  shows "length raw = chain_len (length base) ds \<and> g dvd length raw \<and>
    (\<forall>n. chain_len (length base) ds \<le> n \<longrightarrow>
       take (length raw) (foldl (\<lambda>img d. apply_delta d img) (grow n base) ds) = raw \<and>
       length (foldl (\<lambda>img d. apply_delta d img) (grow n base) ds) = n)"
  using assms(1)
proof (induction rule: represents.induct)
  case (rep_base base)
  then show ?case by (simp add: chain_len_def grow_def)
next
  case (rep_delta base ds prev raw)
  let ?d = "delta_of g raw prev" and ?ch = "changed_grains g raw prev" and ?c = "chain_len (length base) ds"
  let ?c' = "chain_len (length base) (ds @ [?d])"
  have c': "?c' = (if ?ch = [] then ?c else max ?c ((Max (set ?ch) + 1) * g))"
    by (simp add: chain_len_snoc delta_of_def)
  have raw: "length raw \<le> ?c'"
  proof (cases "length prev < length raw")
    case True
    then have "?ch \<noteq> []" using unchanged_same_length[OF assms(2), of prev raw] by auto
    then show ?thesis using c' changed_reaches_end[OF assms(2) True] by simp
  next
    case False
    then show ?thesis using rep_delta c' by (simp add: le_max_iff_disj)
  qed
  have max_fits: "(Max (set ?ch) + 1) * g \<le> length raw" if "?ch \<noteq> []"
  proof -
    have "Max (set ?ch) \<in> set ?ch" using that by simp
    then have less: "Max (set ?ch) * g < length raw" using changed_bound[OF assms(2)] by blast
    obtain q where q: "length raw = q * g" using rep_delta.hyps(3) by (metis dvd_def mult.commute)
    then have "Max (set ?ch) < q" using less by simp
    then have "Max (set ?ch) + 1 \<le> q" by simp
    then show ?thesis unfolding q by (rule mult_le_mono1)
  qed
  then have eq: "length raw = ?c'" using raw rep_delta c' by (auto split: if_splits)
  moreover have "take (length raw) (foldl (\<lambda>img d. apply_delta d img) (grow n base) (ds @ [?d])) = raw \<and>
       length (foldl (\<lambda>img d. apply_delta d img) (grow n base) (ds @ [?d])) = n" if n: "?c' \<le> n" for n
  proof -
    let ?img = "foldl (\<lambda>img d. apply_delta d img) (grow n base) ds"
    have "?c \<le> n" using n c' by (auto split: if_splits)
    then have img: "take (length prev) ?img = prev" "length ?img = n" using rep_delta.IH by auto
    have fit: "\<forall>i \<in> set ?ch. (i + 1) * g \<le> length ?img"
    proof
      fix i assume i: "i \<in> set ?ch"
      then have "i \<le> Max (set ?ch)" by simp
      then have "(i + 1) * g \<le> (Max (set ?ch) + 1) * g" by simp
      also have "\<dots> \<le> n" using n c' i by (auto split: if_splits)
      finally show "(i + 1) * g \<le> length ?img" using img(2) by simp
    qed
    show ?thesis
      using delta_step[OF assms(2) rep_delta.hyps(2) img(1) _ fit] raw n img(2) by simp
  qed
  ultimately show ?case using rep_delta.hyps(3) by blast
qed

section \<open>The checkpoint protocol\<close>

text \<open>The glue's retained images beside the committed manifest the Durable Object keeps: a full dump
  replaces the chain, a delta is appended, and only then \<open>commitDump\<close> runs.  The last field is the
  image of the last committed dump.\<close>

record w4_sys =
  sy_rt :: retained
  sy_store :: "(bytes \<times> w4_delta list) option"
  sy_crc :: "32 word"
  sy_len :: nat
  sy_img :: bytes

definition store_commit :: "dump_result \<Rightarrow> (bytes \<times> w4_delta list) option \<Rightarrow> (bytes \<times> w4_delta list) option" where
  "store_commit d st =
     (case dr_mode d of
        Full \<Rightarrow> Some (dr_gz d, [])
      | Delta \<Rightarrow> map_option (\<lambda>(b, ds). (b, ds @ [\<lparr>wd_gz = dr_gz d, wd_indicesGz = the (dr_indicesGz d),
          wd_grain = Some (dr_grain d), wd_codec = Some ''zstd'',
          wd_payloadLen = dr_nChanged d * dr_grain d, wd_indicesLen = dr_nChanged d * 4\<rparr>])) st)"

definition page_filled :: "bytes \<Rightarrow> bool" where
  "page_filled b \<longleftrightarrow> 65536 dvd length b"

inductive w4_step :: "zcodec \<Rightarrow> (bytes \<Rightarrow> bool) \<Rightarrow> (bytes \<Rightarrow> bool) \<Rightarrow> w4_sys \<Rightarrow> w4_sys \<Rightarrow> bool"
  for Z reattach probe where
  commit: "dump_image Z force s (sy_rt S) = (d, rt) \<Longrightarrow> page_filled (sz_raw s) \<Longrightarrow>
    sy_store S = None \<longrightarrow> force \<Longrightarrow>
    w4_step Z reattach probe S \<lparr>sy_rt = commitDump rt, sy_store = store_commit d (sy_store S),
      sy_crc = dr_imageCrc d, sy_len = dr_imageLen d, sy_img = sz_raw s\<rparr>"
| txn_failed: "dump_image Z force s (sy_rt S) = (d, rt) \<Longrightarrow> page_filled (sz_raw s) \<Longrightarrow>
    w4_step Z reattach probe S (S\<lparr>sy_rt := rt\<rparr>)"
| evicted: "w4_step Z reattach probe S (S\<lparr>sy_rt := \<lparr>rt_lastImage = None, rt_pendingImage = None\<rparr>\<rparr>)"
| restored: "sy_store S = Some (b, ds) \<Longrightarrow>
    restoreW4 Z reattach probe b (Some ''zstd'') ds used (sy_crc S) (int (sy_len S)) (sy_rt S) = Inr rt \<Longrightarrow>
    w4_step Z reattach probe S (S\<lparr>sy_rt := rt\<rparr>)"

definition w4_start :: w4_sys where
  "w4_start = \<lparr>sy_rt = \<lparr>rt_lastImage = None, rt_pendingImage = None\<rparr>, sy_store = None, sy_crc = 0,
     sy_len = 0, sy_img = []\<rparr>"

text \<open>What the compressor promises: a frame decompresses to what was compressed, whether the size is
  taken from the hint or from the frame.\<close>

definition codec_faithful :: "zcodec \<Rightarrow> bool" where
  "codec_faithful Z \<longleftrightarrow> (\<forall>b n. n = 0 \<or> n = length b \<longrightarrow> zc_unzstd Z n (zc_compress Z b) = Inr b)"

text \<open>The store represents the committed image, and a retained image is that image.\<close>

definition store_represents :: "zcodec \<Rightarrow> w4_sys \<Rightarrow> bool" where
  "store_represents Z S \<longleftrightarrow>
     (\<forall>b ds. sy_store S = Some (b, ds) \<longrightarrow>
        (\<exists>base dcs. zc_unzstd Z 0 b = Inr base \<and> decode_all Z ds = Inr dcs \<and>
           represents DELTA_GRAIN_BYTES base dcs (sy_img S)) \<and>
        sy_crc S = crc32 (sy_img S) \<and> sy_len S = length (sy_img S))"

definition w4_inv :: "zcodec \<Rightarrow> w4_sys \<Rightarrow> bool" where
  "w4_inv Z S \<longleftrightarrow> store_represents Z S \<and>
     (\<forall>img. rt_lastImage (sy_rt S) = Some img \<longrightarrow> sy_store S \<noteq> None \<and> img = sy_img S)"

lemma grain_pos: "0 < DELTA_GRAIN_BYTES" by (simp add: DELTA_GRAIN_BYTES_def)

lemma page_grain: "page_filled b \<Longrightarrow> DELTA_GRAIN_BYTES dvd length b"
  by (auto simp: page_filled_def DELTA_GRAIN_BYTES_def intro: dvd_trans[of 256 65536])

lemma reconstruct_represents:
  assumes "zc_unzstd Z 0 b = Inr base" "decode_all Z ds = Inr dcs" "represents DELTA_GRAIN_BYTES base dcs img"
  shows "reconstruct Z b (Some ''zstd'') ds = Inr img"
proof -
  let ?n = "chain_len (length base) dcs"
  have "take (length img) (foldl (\<lambda>img d. apply_delta d img) (grow ?n base) dcs) = img"
    "length (foldl (\<lambda>img d. apply_delta d img) (grow ?n base) dcs) = length img"
    using represents_spec[OF assms(3) grain_pos] by auto
  then show ?thesis using assms(1,2) by (simp add: reconstruct_def codecDecompress_def normCodec_def)
qed

text \<open>A dump of the retained image.\<close>

lemma dump_image_cases:
  assumes "dump_image Z force s rt = (d, rt')"
  obtains (full) "d = full_result Z s"
      "rt' = rt\<lparr>rt_pendingImage := Some (sz_raw s)\<rparr> \<or> rt' = rt\<lparr>rt_lastImage := None, rt_pendingImage := None\<rparr>"
  | (delta) prev where "rt_lastImage rt = Some prev" "\<not> force" "length prev \<le> length (sz_raw s)"
      "length (sz_raw s) \<le> LARGE_BUFFER_NO_RETAIN_BYTES"
      "rt' = rt\<lparr>rt_pendingImage := Some (sz_raw s)\<rparr>" "dr_mode d = Delta" "dr_grain d = DELTA_GRAIN_BYTES"
      "dr_gz d = zc_compress Z (delta_payload DELTA_GRAIN_BYTES (sz_raw s) (changed_grains DELTA_GRAIN_BYTES (sz_raw s) prev))"
      "dr_indicesGz d = Some (zc_compress Z (delta_indices (changed_grains DELTA_GRAIN_BYTES (sz_raw s) prev)))"
      "dr_nChanged d = length (changed_grains DELTA_GRAIN_BYTES (sz_raw s) prev)"
      "dr_imageCrc d = crc32 (sz_raw s)" "dr_imageLen d = length (sz_raw s)"
proof -
  have full': thesis if "emitFull Z s rt = (d, rt')"
    using that full by (auto simp: emitFull_def split: if_splits)
  show thesis
  proof (cases "rt_lastImage rt")
    case None
    then show thesis using assms full full' by (auto simp: dump_image_def Let_def split: if_splits)
  next
    case (Some prev)
    show thesis
    proof (cases "LARGE_BUFFER_NO_RETAIN_BYTES < length (sz_raw s) \<or> force \<or> length (sz_raw s) < length prev")
      case True
      then show thesis using assms Some full full' by (auto simp: dump_image_def Let_def split: if_splits)
    next
      case False
      then show thesis
        using assms Some full' delta[of prev] by (auto simp: dump_image_def Let_def split: if_splits)
    qed
  qed
qed

lemma length_payload:
  "length (delta_payload g raw ns) = length ns * g"
  if "\<And>i. length (pad_grain g (take g (drop (i * g) raw))) = g"
  using that by (induction ns) (simp_all add: delta_payload_def)

lemma decode_delta_of:
  assumes Z: "codec_faithful Z" and g: "0 < g" and big: "length raw \<le> 4294967295"
  shows "decode_delta Z \<lparr>wd_gz = zc_compress Z (delta_payload g raw (changed_grains g raw prev)),
      wd_indicesGz = zc_compress Z (delta_indices (changed_grains g raw prev)), wd_grain = Some g,
      wd_codec = Some ''zstd'', wd_payloadLen = length (changed_grains g raw prev) * g,
      wd_indicesLen = length (changed_grains g raw prev) * 4\<rparr> = Inr (delta_of g raw prev)"
proof -
  let ?ch = "changed_grains g raw prev"
  have small: "\<forall>n \<in> set ?ch. n < 4294967296"
  proof
    fix n assume "n \<in> set ?ch"
    then have "n * g < length raw" by (rule changed_bound[OF g])
    moreover have "n \<le> n * g" using g by simp
    ultimately show "n < 4294967296" using big by linarith
  qed
  have "length (delta_payload g raw ?ch) = length ?ch * g"
    by (rule length_payload) (simp add: length_pad)
  then have "zc_unzstd Z (length ?ch * g) (zc_compress Z (delta_payload g raw ?ch)) = Inr (delta_payload g raw ?ch)"
    using Z unfolding codec_faithful_def by metis
  moreover have "zc_unzstd Z (length ?ch * 4) (zc_compress Z (delta_indices ?ch)) = Inr (delta_indices ?ch)"
    using Z length_indices[of ?ch] unfolding codec_faithful_def by (metis mult.commute)
  ultimately show ?thesis
    using g decode_indices_inverse[OF small]
    by (simp add: decode_delta_def codecDecompress_def normCodec_def delta_of_def)
qed

lemma decode_all_snoc:
  "decode_all Z ds = Inr dcs \<Longrightarrow> decode_delta Z d = Inr dc \<Longrightarrow> decode_all Z (ds @ [d]) = Inr (dcs @ [dc])"
  by (induction ds arbitrary: dcs) (auto simp: rbind_Inr_iff)

lemma commit_inv:
  assumes Z: "codec_faithful Z" and inv: "w4_inv Z S"
    and d: "dump_image Z force s (sy_rt S) = (d, rt)" and pg: "page_filled (sz_raw s)"
    and first: "sy_store S = None \<longrightarrow> force"
  shows "w4_inv Z \<lparr>sy_rt = commitDump rt, sy_store = store_commit d (sy_store S),
      sy_crc = dr_imageCrc d, sy_len = dr_imageLen d, sy_img = sz_raw s\<rparr>"
  using d
proof (cases rule: dump_image_cases)
  case full
  have "represents DELTA_GRAIN_BYTES (sz_raw s) [] (sz_raw s)" by (rule rep_base[OF page_grain[OF pg]])
  then show ?thesis using full Z
    by (auto simp: w4_inv_def store_represents_def store_commit_def full_result_def codec_faithful_def
        commitDump_def Let_def)
next
  case (delta prev)
  have p: "prev = sy_img S" and "sy_store S \<noteq> None" using inv delta(1) by (auto simp: w4_inv_def)
  then obtain b ds where st: "sy_store S = Some (b, ds)" by auto
  then obtain base dcs where rep: "zc_unzstd Z 0 b = Inr base" "decode_all Z ds = Inr dcs"
    "represents DELTA_GRAIN_BYTES base dcs prev"
    using inv p by (auto simp: w4_inv_def store_represents_def)
  have "length (sz_raw s) \<le> 4294967295" using delta(4) by (simp add: ceilings)
  from decode_delta_of[OF Z grain_pos this, of prev] rep delta
  have "decode_all Z (ds @ [\<lparr>wd_gz = dr_gz d, wd_indicesGz = the (dr_indicesGz d),
          wd_grain = Some (dr_grain d), wd_codec = Some ''zstd'',
          wd_payloadLen = dr_nChanged d * dr_grain d, wd_indicesLen = dr_nChanged d * 4\<rparr>])
      = Inr (dcs @ [delta_of DELTA_GRAIN_BYTES (sz_raw s) prev])"
    by (intro decode_all_snoc) simp_all
  moreover have "represents DELTA_GRAIN_BYTES base (dcs @ [delta_of DELTA_GRAIN_BYTES (sz_raw s) prev]) (sz_raw s)"
    by (rule rep_delta[OF rep(3) delta(3) page_grain[OF pg]])
  ultimately show ?thesis
    using st rep(1) delta by (auto simp: w4_inv_def store_represents_def store_commit_def commitDump_def)
qed

lemma step_inv: "w4_step Z reattach probe S S' \<Longrightarrow> codec_faithful Z \<Longrightarrow> w4_inv Z S \<Longrightarrow> w4_inv Z S'"
proof (induction rule: w4_step.induct)
  case (commit force s S d rt)
  then show ?case by (intro commit_inv) auto
next
  case (txn_failed force s S d rt)
  from this(1) show ?case
    by (cases rule: dump_image_cases) (use txn_failed in \<open>auto simp: w4_inv_def store_represents_def\<close>)
next
  case (evicted S)
  then show ?case by (simp add: w4_inv_def store_represents_def)
next
  case (restored S b ds used rt)
  then obtain base dcs where "zc_unzstd Z 0 b = Inr base" "decode_all Z ds = Inr dcs"
    "represents DELTA_GRAIN_BYTES base dcs (sy_img S)"
    by (auto simp: w4_inv_def store_represents_def)
  from reconstruct_represents[OF this] restored show ?case
    by (auto simp: w4_inv_def store_represents_def restoreW4_def codec_result_def rbind_Inr_iff split: if_splits)
qed

lemma steps_inv:
  "(w4_step Z reattach probe)\<^sup>*\<^sup>* w4_start S \<Longrightarrow> codec_faithful Z \<Longrightarrow> w4_inv Z S"
proof (induction rule: rtranclp_induct)
  case base then show ?case by (simp add: w4_start_def w4_inv_def store_represents_def)
next
  case (step S S') then show ?case using step_inv by blast
qed

section \<open>Properties\<close>

text \<open>A faithful codec to evaluate the model on: the identity.\<close>

definition demo_zcodec :: zcodec where
  "demo_zcodec = \<lparr>zc_compress = (\<lambda>b. b), zc_unzstd = (\<lambda>n b. Inr b), zc_gunzip = (\<lambda>b. Inr b)\<rparr>"

lemma demo_faithful: "codec_faithful demo_zcodec"
  by (simp add: codec_faithful_def demo_zcodec_def)

definition demo_serialized :: "nat \<Rightarrow> 8 word \<Rightarrow> serialized" where
  "demo_serialized n x = \<lparr>sz_raw = replicate (65536 * n) x, sz_usedHeap = 1, sz_bufferBytes = 65536 * n,
     sz_scrubbed = False\<rparr>"

lemma demo_commit:
  "w4_step demo_zcodec (\<lambda>i. True) (\<lambda>i. True) w4_start
     \<lparr>sy_rt = \<lparr>rt_lastImage = Some (replicate 65536 3), rt_pendingImage = None\<rparr>,
      sy_store = Some (replicate 65536 3, []), sy_crc = crc32 (replicate 65536 3), sy_len = 65536,
      sy_img = replicate 65536 3\<rparr>" (is "w4_step _ _ _ _ ?S")
proof -
  let ?s = "demo_serialized 1 3"
  obtain d rt where d: "dump_image demo_zcodec True ?s (sy_rt w4_start) = (d, rt)" by (metis surj_pair)
  then have v: "d = full_result demo_zcodec ?s" "rt = \<lparr>rt_lastImage = None, rt_pendingImage = Some (replicate 65536 3)\<rparr>"
    by (auto simp: dump_image_def emitFull_def Let_def w4_start_def demo_serialized_def ceilings)
  have "page_filled (sz_raw ?s)" by (simp add: page_filled_def demo_serialized_def)
  from w4_step.commit[OF d this] v show ?thesis
    by (simp add: commitDump_def store_commit_def full_result_def demo_zcodec_def w4_start_def
        demo_serialized_def Let_def)
qed

text \<open>C1. Durability of the delta chain: with a faithful compressor, whatever sequence of committed
  checkpoints, failed transactions, evictions and restores led here, the stored base and deltas
  reconstruct exactly the image of the last committed dump, the retained image the next delta is
  taken against is absent or that very image, and a restore that passes admission and the engine's
  own checks succeeds and retains it.\<close>

theorem committed_image_restores:
  assumes "codec_faithful Z" "(w4_step Z reattach probe)\<^sup>*\<^sup>* w4_start S" "sy_store S = Some (b, ds)"
  shows "reconstruct Z b (Some ''zstd'') ds = Inr (sy_img S) \<and>
    (rt_lastImage (sy_rt S) = None \<or> rt_lastImage (sy_rt S) = Some (sy_img S)) \<and>
    (used \<le> MAX_RESTORE_USED_BYTES \<and> length (sy_img S) \<le> MAX_RESTORE_RAW_BYTES \<and>
       reattach (sy_img S) \<and> probe (sy_img S) \<longrightarrow>
     restoreW4 Z reattach probe b (Some ''zstd'') ds used (sy_crc S) (int (sy_len S)) rt
       = Inr (rt\<lparr>rt_lastImage := Some (sy_img S)\<rparr>))"
proof -
  have inv: "w4_inv Z S" by (rule steps_inv[OF assms(2,1)])
  then obtain base dcs where "zc_unzstd Z 0 b = Inr base" "decode_all Z ds = Inr dcs"
    "represents DELTA_GRAIN_BYTES base dcs (sy_img S)"
    using assms(3) by (auto simp: w4_inv_def store_represents_def)
  note r = reconstruct_represents[OF this]
  have "sy_crc S = crc32 (sy_img S)" "sy_len S = length (sy_img S)"
    using inv assms(3) by (auto simp: w4_inv_def store_represents_def)
  then have "restoreW4 Z reattach probe b (Some ''zstd'') ds used (sy_crc S) (int (sy_len S)) rt
       = Inr (rt\<lparr>rt_lastImage := Some (sy_img S)\<rparr>)"
    if "used \<le> MAX_RESTORE_USED_BYTES \<and> length (sy_img S) \<le> MAX_RESTORE_RAW_BYTES \<and>
       reattach (sy_img S) \<and> probe (sy_img S)"
    using that r by (simp add: restoreW4_def codec_result_def check_crc_def admit_restore_def Let_def)
  then show ?thesis using r inv by (cases "rt_lastImage (sy_rt S)") (auto simp: w4_inv_def)
qed

theorem committed_image_restores_witness:
  "reconstruct demo_zcodec (replicate 65536 3) (Some ''zstd'') [] = Inr (replicate 65536 3)"
proof -
  from demo_commit have "(w4_step demo_zcodec (\<lambda>i. True) (\<lambda>i. True))\<^sup>*\<^sup>* w4_start
     \<lparr>sy_rt = \<lparr>rt_lastImage = Some (replicate 65536 3), rt_pendingImage = None\<rparr>,
      sy_store = Some (replicate 65536 3, []), sy_crc = crc32 (replicate 65536 3), sy_len = 65536,
      sy_img = replicate 65536 3\<rparr>" by blast
  from committed_image_restores[OF demo_faithful this, of "replicate 65536 3" "[]"] show ?thesis by simp
qed

text \<open>C12. A delta is complete: applied to any image that starts with the previous one, the delta
  between the previous image and a longer or equally long one restores the new image byte for
  byte.\<close>

theorem delta_roundtrip:
  assumes "length prev \<le> length raw" "take (length prev) img = prev"
    and "ceil_div (length raw) DELTA_GRAIN_BYTES * DELTA_GRAIN_BYTES \<le> length img"
  shows "take (length raw) (apply_delta \<lparr>dc_payload = delta_payload DELTA_GRAIN_BYTES raw
       (changed_grains DELTA_GRAIN_BYTES raw prev), dc_idx = changed_grains DELTA_GRAIN_BYTES raw prev,
       dc_grain = DELTA_GRAIN_BYTES\<rparr> img) = raw"
proof -
  let ?g = DELTA_GRAIN_BYTES
  have "(i + 1) * ?g \<le> length img" if "i \<in> set (changed_grains ?g raw prev)" for i
  proof -
    have "i + 1 \<le> ceil_div (length raw) ?g" using that by (simp add: changed_grains_def)
    then have "(i + 1) * ?g \<le> ceil_div (length raw) ?g * ?g" by (rule mult_le_mono1)
    then show ?thesis using assms(3) by linarith
  qed
  moreover have "length raw \<le> ceil_div (length raw) ?g * ?g"
  proof (cases "raw = []")
    case False
    then have "(length raw - 1) div ?g < ceil_div (length raw) ?g"
      by (intro grain_in_range[OF grain_pos]) simp
    then have "((length raw - 1) div ?g + 1) * ?g \<le> ceil_div (length raw) ?g * ?g"
      by (intro mult_le_mono1) simp
    moreover have "length raw - 1 < ((length raw - 1) div ?g + 1) * ?g"
      using grain_pos by (metis Suc_eq_plus1 dividend_less_div_times mult.commute mult_Suc_right)
    ultimately show ?thesis by linarith
  qed simp
  then have "length raw \<le> length img" using assms(3) by linarith
  ultimately show ?thesis
    using delta_step[OF grain_pos assms(1,2)] by (simp add: delta_of_def)
qed

theorem delta_roundtrip_witness:
  "take 256 (apply_delta \<lparr>dc_payload = delta_payload DELTA_GRAIN_BYTES (replicate 256 5)
       (changed_grains DELTA_GRAIN_BYTES (replicate 256 5) [1, 2]),
     dc_idx = changed_grains DELTA_GRAIN_BYTES (replicate 256 5) [1, 2],
     dc_grain = DELTA_GRAIN_BYTES\<rparr> (1 # 2 # replicate 254 0)) = replicate 256 5"
proof -
  have "ceil_div (length (replicate 256 5 :: bytes)) DELTA_GRAIN_BYTES * DELTA_GRAIN_BYTES
      \<le> length (1 # 2 # replicate 254 0 :: bytes)"
    by (simp add: ceil_div_def DELTA_GRAIN_BYTES_def)
  from delta_roundtrip[OF _ _ this, of "[1, 2]"] show ?thesis by simp
qed

text \<open>C15. Corruption is caught: when the chain reconstructs to an image that differs from the recorded
  one in one byte, and the recorded checksum is not the reserved zero, the restore is refused with
  the checksum error before anything is blitted.\<close>

theorem corrupt_chain_refused:
  assumes "reconstruct Z baseGz codec ds = Inr (img[i := x])" "i < length img" "x \<noteq> img ! i"
    and "crc32 img \<noteq> 0"
  shows "restoreW4 Z reattach probe baseGz codec ds used (crc32 img) (int (length img)) rt
    = Inl (CrcMismatch (crc32 (img[i := x])) (crc32 img) (length img))"
proof -
  have "0 < length img" using assms(2) by linarith
  then show ?thesis
    using assms crc32_one_byte[OF assms(2,3)]
    by (simp add: restoreW4_def codec_result_def check_crc_def Let_def)
qed

theorem corrupt_chain_refused_witness:
  "\<exists>a b. restoreW4 demo_zcodec (\<lambda>i. True) (\<lambda>i. True) [b] (Some ''zstd'') [] 0 (crc32 [a]) 1
     \<lparr>rt_lastImage = None, rt_pendingImage = None\<rparr>
   = Inl (CrcMismatch (crc32 [b]) (crc32 [a]) 1)"
proof -
  have "crc32 ([0][0 := 1]) \<noteq> crc32 [0]" by (rule crc32_one_byte) simp_all
  then obtain a where a: "crc32 [a] \<noteq> 0" by (metis list_update_code(2))
  let ?b = "a + 1"
  have "reconstruct demo_zcodec [?b] (Some ''zstd'') [] = Inr ([a][0 := ?b])"
    by (simp add: reconstruct_def codecDecompress_def normCodec_def demo_zcodec_def chain_len_def grow_def)
  from corrupt_chain_refused[OF this _ _ a] show ?thesis by (intro exI[of _ a] exI[of _ ?b]) simp
qed

section \<open>Admission\<close>

text \<open>What the engine promises about its memory: the image is the whole buffer, and scrubbing neither
  grows the buffer nor raises the used heap.\<close>

definition engine_honest :: "'e engine \<Rightarrow> bool" where
  "engine_honest G \<longleftrightarrow>
     (\<forall>e. length (en_memory G e) = en_buffer_bytes G e) \<and>
     (\<forall>n e. en_buffer_bytes G (snd (en_scrub_arena G n e)) \<le> en_buffer_bytes G e) \<and>
     (\<forall>n m e. fst (en_scrub_arena G n (snd (en_scrub_arena G m e))) \<le> fst (en_scrub_arena G m e))"


definition demo_engine :: "nat engine" where
  "demo_engine = \<lparr>en_buffer_bytes = (\<lambda>e. 65536 * e), en_used_heap = (\<lambda>e. e),
     en_scrub_arena = (\<lambda>n e. (e, e)), en_memory = (\<lambda>e. replicate (65536 * e) 0)\<rparr>"


end
