(* ===== verification/ReplScan.thy ===== *)
theory ReplScan
  imports Json
begin

text \<open>
  The tokenizer shared by the two source rewrites of \<open>apps/kernel/src/repl-transform.ts\<close>: character
  classes, trivia, string, template and regular-expression skippers.  A cursor is an index into the
  source and \<open>src[i]\<close> is \<open>charAt src i\<close>, \<open>None\<close> (JavaScript's \<open>undefined\<close>) past the end: an escape or an
  unterminated block comment moves the cursor past the end by one or two.  A skipper returns the new
  cursor, or \<open>None\<close> where the code returns false (every caller then abandons the scan).
\<close>

section \<open>Characters\<close>

definition charAt :: "string \<Rightarrow> nat \<Rightarrow> char option" where
  "charAt s i = (if i < length s then Some (s ! i) else None)"

lemma charAt_None: "charAt s i = None \<longleftrightarrow> length s \<le> i"
  by (auto simp: charAt_def)

lemma charAt_Some: "charAt s i = Some c \<longleftrightarrow> i < length s \<and> s ! i = c"
  by (auto simp: charAt_def)

lemma charAt_lessD [dest]: "charAt s i = Some c \<Longrightarrow> i < length s"
  by (simp add: charAt_Some)

text \<open>\<open>src.slice(a, b)\<close> for nonnegative bounds.\<close>

definition js_slice :: "string \<Rightarrow> nat \<Rightarrow> nat \<Rightarrow> string" where
  "js_slice s a b = take (b - a) (drop a s)"

definition letter :: "char \<Rightarrow> bool" where
  "letter c = (let n = of_char c :: int in
     65 \<le> n \<and> n \<le> 90 \<or> 97 \<le> n \<and> n \<le> 122 \<or> n = 95 \<or> n = 36)"

definition digit :: "char \<Rightarrow> bool" where
  "digit c = (let n = of_char c :: int in 48 \<le> n \<and> n \<le> 57)"

text \<open>\<open>RegExp.test\<close> turns \<open>undefined\<close> into the text "undefined", so both classes accept it.\<close>

fun isIdentStart :: "char option \<Rightarrow> bool" where
  "isIdentStart None = True"
| "isIdentStart (Some c) = letter c"

fun isIdentPart :: "char option \<Rightarrow> bool" where
  "isIdentPart None = True"
| "isIdentPart (Some c) = (letter c \<or> digit c)"

definition word_char :: "char \<Rightarrow> bool" where
  "word_char c = (let n = of_char c :: int in
     65 \<le> n \<and> n \<le> 90 \<or> 97 \<le> n \<and> n \<le> 122 \<or> 48 \<le> n \<and> n \<le> 57 \<or> n = 95)"

abbreviation newline :: char where "newline \<equiv> CHR 0x0A"
abbreviation backslash :: char where "backslash \<equiv> CHR 0x5C"
abbreviation backquote :: char where "backquote \<equiv> CHR 0x60"
abbreviation dquote :: char where "dquote \<equiv> CHR 0x22"
abbreviation squote :: char where "squote \<equiv> CHR 0x27"

definition is_quote :: "char \<Rightarrow> bool" where
  "is_quote c \<longleftrightarrow> c = dquote \<or> c = squote \<or> c = backquote"

definition is_open :: "char \<Rightarrow> bool" where
  "is_open c \<longleftrightarrow> c = CHR ''{'' \<or> c = CHR ''('' \<or> c = CHR ''[''"

definition is_close :: "char \<Rightarrow> bool" where
  "is_close c \<longleftrightarrow> c = CHR ''}'' \<or> c = CHR '')'' \<or> c = CHR '']''"

definition blank :: "char \<Rightarrow> bool" where
  "blank c \<longleftrightarrow> c = CHR '' '' \<or> c = CHR 0x09 \<or> c = CHR 0x0D \<or> c = newline"

section \<open>Comments, blanks and identifiers\<close>

text \<open>\<open>i += 2; while (i < n && src[i] !== "\n") i++\<close>: the cursor stops on the newline.\<close>

function skip_to_newline :: "string \<Rightarrow> nat \<Rightarrow> nat" where
  "skip_to_newline s i =
     (if i < length s \<and> s ! i \<noteq> newline then skip_to_newline s (i + 1) else i)"
  by pat_completeness auto
termination by (relation "measure (\<lambda>(s, i). length s - i)") auto

text \<open>The end of a block comment: two past the star, also when the comment is never closed.\<close>

function skip_block_comment :: "string \<Rightarrow> nat \<Rightarrow> nat" where
  "skip_block_comment s i =
     (if i < length s \<and> \<not> (s ! i = CHR ''*'' \<and> charAt s (i + 1) = Some CHR ''/'')
      then skip_block_comment s (i + 1) else i + 2)"
  by pat_completeness auto
termination by (relation "measure (\<lambda>(s, i). length s - i)") auto

declare skip_to_newline.simps [simp del] skip_block_comment.simps [simp del]

lemma skip_to_newline_ge: "i \<le> skip_to_newline s i"
  by (induction s i rule: skip_to_newline.induct) (subst skip_to_newline.simps, auto)

lemma skip_block_comment_ge: "i + 2 \<le> skip_block_comment s i"
  by (induction s i rule: skip_block_comment.induct) (subst skip_block_comment.simps, auto)

text \<open>Where the comment starting at \<open>i\<close> ends, if a comment starts there.\<close>

definition comment_end :: "string \<Rightarrow> nat \<Rightarrow> nat option" where
  "comment_end s i =
     (if charAt s i = Some CHR ''/'' \<and> charAt s (i + 1) = Some CHR ''/'' then Some (skip_to_newline s (i + 2))
      else if charAt s i = Some CHR ''/'' \<and> charAt s (i + 1) = Some CHR ''*'' then Some (skip_block_comment s (i + 2))
      else None)"

lemma comment_end_ge: "comment_end s i = Some j \<Longrightarrow> i + 2 \<le> j"
  using skip_to_newline_ge[of "i + 2" s] skip_block_comment_ge[of "i + 2" s]
  by (auto simp: comment_end_def split: if_splits)

function skipTrivia :: "string \<Rightarrow> nat \<Rightarrow> nat" where
  "skipTrivia s i = (case charAt s i of None \<Rightarrow> i
     | Some c \<Rightarrow> if blank c then skipTrivia s (i + 1)
                else (case comment_end s i of None \<Rightarrow> i | Some j \<Rightarrow> skipTrivia s j))"
  by pat_completeness auto
termination
  by (relation "measure (\<lambda>(s, i). length s - i)") (fastforce dest: comment_end_ge)+

declare skipTrivia.simps [simp del]

lemma skipTrivia_ge: "i \<le> skipTrivia s i"
proof (induction s i rule: skipTrivia.induct)
  case (1 s i)
  show ?case
  proof (cases "charAt s i")
    case (Some c)
    then show ?thesis using 1 comment_end_ge[of s i]
      by (subst skipTrivia.simps) (fastforce split: option.splits)
  qed (simp add: skipTrivia.simps)
qed

text \<open>\<open>while (i < n && isIdentPart(src[i])) i++\<close>.\<close>

function skip_ident :: "string \<Rightarrow> nat \<Rightarrow> nat" where
  "skip_ident s i = (if i < length s \<and> isIdentPart (charAt s i) then skip_ident s (i + 1) else i)"
  by pat_completeness auto
termination by (relation "measure (\<lambda>(s, i). length s - i)") auto

declare skip_ident.simps [simp del]

lemma skip_ident_ge: "i \<le> skip_ident s i"
  by (induction s i rule: skip_ident.induct) (subst skip_ident.simps, auto)

lemma skip_ident_le: "i \<le> length s \<Longrightarrow> skip_ident s i \<le> length s"
  by (induction s i rule: skip_ident.induct) (subst skip_ident.simps, auto)

section \<open>Strings, templates and regular expressions\<close>

text \<open>\<open>skipString\<close> after the opening quote, and the loop over a template's \<open>${ ... }\<close> at brace depth
  \<open>d\<close>, which calls \<open>skipString\<close> again for the strings inside.  The code keeps the template loop inside
  the string loop; here the two are mutually recursive.\<close>

function skip_str :: "string \<Rightarrow> char \<Rightarrow> nat \<Rightarrow> nat option"
  and skip_template :: "string \<Rightarrow> nat \<Rightarrow> nat \<Rightarrow> nat option" where
  "skip_str s q i = (case charAt s i of None \<Rightarrow> None
     | Some c \<Rightarrow>
         if c = backslash then skip_str s q (i + 2)
         else if q = backquote then
           if c = backquote then Some (i + 1)
           else if c = CHR ''$'' \<and> charAt s (i + 1) = Some CHR ''{'' then
             (case skip_template s 1 (i + 2) of None \<Rightarrow> None | Some j \<Rightarrow> skip_str s q j)
           else skip_str s q (i + 1)
         else if c = q then Some (i + 1)
         else if c = newline then None
         else skip_str s q (i + 1))"
| "skip_template s d i = (if d = 0 then Some i else case charAt s i of None \<Rightarrow> Some i
     | Some c \<Rightarrow>
         if c = backslash then skip_template s d (i + 2)
         else if c = CHR ''{'' then skip_template s (d + 1) (i + 1)
         else if c = CHR ''}'' then skip_template s (d - 1) (i + 1)
         else if is_quote c then
           (case skip_str s c (i + 1) of None \<Rightarrow> None | Some j \<Rightarrow> skip_template s d j)
         else skip_template s d (i + 1))"
  by pat_completeness auto

text \<open>Both only move forward; the lemma on the domain is what the termination proof needs.\<close>

lemma skip_dom_ge:
  "skip_str_skip_template_dom (Inl (s, q, i)) \<Longrightarrow> (\<forall>j. skip_str s q i = Some j \<longrightarrow> i < j)"
  "skip_str_skip_template_dom (Inr (s, d, i)) \<Longrightarrow> (\<forall>j. skip_template s d i = Some j \<longrightarrow> i \<le> j)"
proof (induction s q i and s d i rule: skip_str_skip_template.pinduct)
  case (1 s q i)
  note dom = 1(1) and ih = 1(2-6)
  show ?case
  proof (intro allI impI)
    fix j assume r: "skip_str s q i = Some j"
    note r' = r[unfolded skip_str.psimps[OF dom]]
    from r obtain c where c: "charAt s i = Some c"
      by (cases "charAt s i") (simp_all add: skip_str.psimps[OF dom])
    consider "c = backslash" | "c \<noteq> backslash" "q = backquote" | "c \<noteq> backslash" "q \<noteq> backquote" by blast
    then show "i < j"
    proof cases
      case 1 then show ?thesis using r' c ih(1)[OF c] by auto
    next
      case 2
      show ?thesis
      proof (cases "c \<noteq> backquote \<and> c = CHR ''$'' \<and> charAt s (i + 1) = Some CHR ''{''")
        case True
        then obtain k where k: "skip_template s 1 (i + 2) = Some k" and rest: "skip_str s q k = Some j"
          using r' c 2 by (auto split: option.splits)
        have "i + 2 \<le> k" using ih(2)[OF c] True 2 k by blast
        moreover have "k < j" using ih(3)[OF c] True 2 k rest by blast
        ultimately show ?thesis by simp
      next
        case False
        then show ?thesis using r' c 2 ih(4)[OF c]
          by (auto split: if_splits)
      qed
    next
      case 3
      then show ?thesis using r' c ih(5)[OF c]
        by (auto split: if_splits)
    qed
  qed
next
  case (2 s d i)
  note dom = 2(1) and ih = 2(2-7)
  show ?case
  proof (intro allI impI)
    fix j assume r: "skip_template s d i = Some j"
    note r' = r[unfolded skip_template.psimps[OF dom]]
    show "i \<le> j"
    proof (cases "d = 0 \<or> charAt s i = None")
      case True then show ?thesis using r' by (auto split: if_splits)
    next
      case False
      then obtain c where d: "d \<noteq> 0" and c: "charAt s i = Some c" by auto
      show ?thesis
      proof (cases "c = backslash \<or> c = CHR ''{'' \<or> c = CHR ''}'' \<or> \<not> is_quote c")
        case True
        then show ?thesis using r' d c ih(1)[OF d c] ih(2)[OF d c] ih(3)[OF d c] ih(6)[OF d c]
          by (auto simp: is_quote_def dest: Suc_leD split: if_splits)
      next
        case False
        then have nc: "c \<noteq> backslash" "c \<noteq> CHR ''{''" "c \<noteq> CHR ''}''" "is_quote c" by auto
        then show ?thesis using r' d c ih(4)[OF d c nc] ih(5)[OF d c nc]
          by (force split: option.splits)
      qed
    qed
  qed
qed

lemma skip_all_dom: "All skip_str_skip_template_dom"
  by (relation "measure (\<lambda>x. case x of Inl (s, q, i) \<Rightarrow> length s - i | Inr (s, d, i) \<Rightarrow> length s - i)")
    (auto dest!: skip_dom_ge[rule_format, rotated])

termination skip_str by (rule skip_all_dom)

declare skip_str.simps [simp del] skip_template.simps [simp del]

lemma skip_str_ge: "skip_str s q i = Some j \<Longrightarrow> i < j"
  by (rule skip_dom_ge(1)[rule_format, OF spec[OF skip_all_dom]])

text \<open>\<open>skipString\<close> with the cursor on the opening quote \<open>q\<close>.\<close>

definition skipString :: "string \<Rightarrow> nat \<Rightarrow> char \<Rightarrow> nat option" where
  "skipString s i q = skip_str s q (i + 1)"

lemma skipString_ge: "skipString s i q = Some j \<Longrightarrow> i + 2 \<le> j"
  by (auto simp: skipString_def dest: skip_str_ge)

text \<open>The body of a regular expression literal; \<open>inClass\<close> inside \<open>[...]\<close>.  Running off the end is not
  an error here, a newline is.\<close>

function skip_regex_body :: "string \<Rightarrow> bool \<Rightarrow> nat \<Rightarrow> nat option" where
  "skip_regex_body s inClass i = (case charAt s i of None \<Rightarrow> Some i
     | Some c \<Rightarrow>
         if c = backslash then skip_regex_body s inClass (i + 2)
         else if c = CHR ''['' then skip_regex_body s True (i + 1)
         else if c = CHR '']'' then skip_regex_body s False (i + 1)
         else if c = CHR ''/'' \<and> \<not> inClass then Some (i + 1)
         else if c = newline then None
         else skip_regex_body s inClass (i + 1))"
  by pat_completeness auto
termination by (relation "measure (\<lambda>(s, b, i). length s - i)") auto

declare skip_regex_body.simps [simp del]

lemma skip_regex_body_ge: "skip_regex_body s b i = Some j \<Longrightarrow> i \<le> j"
proof (induction s b i rule: skip_regex_body.induct)
  case (1 s b i)
  show ?case
  proof (cases "charAt s i")
    case (Some c)
    note ih = 1(1-4)[OF Some] and r = 1(5)[unfolded skip_regex_body.simps[of s b i]]
    show ?thesis using r Some ih by (auto split: if_splits)
  next
    case None
    then show ?thesis using 1(5) by (simp add: skip_regex_body.simps)
  qed
qed

definition skipRegex :: "string \<Rightarrow> nat \<Rightarrow> nat option" where
  "skipRegex s i = map_option (skip_ident s) (skip_regex_body s False (i + 1))"

lemma skipRegex_ge: "skipRegex s i = Some j \<Longrightarrow> i < j"
  by (auto simp: skipRegex_def dest!: skip_regex_body_ge intro: less_le_trans[OF _ skip_ident_ge])

lemmas skip_ge = skipString_ge skipRegex_ge comment_end_ge

end
