(* ===== verification/ReplTransform.thy ===== *)
theory ReplTransform
  imports ReplScan "HOL-Library.Product_Lexorder"
begin

text \<open>
  The cell rewrites of \<open>apps/kernel/src/repl-transform.ts\<close>: \<open>transformCell\<close> turns top-level declarations
  into global assignments (\<open>planEdits\<close> is the scan, \<open>handleDeclaration\<close> one declaration) and
  \<open>wrapAsyncCompletion\<close> turns the trailing expression of an awaiting cell into a \<open>return\<close>.  The loop
  body of \<open>planEdits\<close> is the step function \<open>plan_step\<close> over a record of the loop's variables; every
  \<open>return null\<close> is \<open>None\<close>, and the cell is then left as it is.
\<close>

definition KW :: "string list" where
  "KW = [''let'', ''const'', ''function'', ''class'']"

definition RESERVED_HOST_GLOBALS :: "string list" where
  "RESERVED_HOST_GLOBALS =
     [''crypto'', ''fetch'', ''host'', ''process'', ''console'', ''Buffer'',
      ''require'', ''use'', ''performance'', ''globalThis'']"

section \<open>Which names a declarator list binds\<close>

definition ident_char :: "char \<Rightarrow> bool" where
  "ident_char c = isIdentPart (Some c)"

text \<open>The text up to the first top-level \<open>=\<close> that is not part of a comparison or an arrow's tail;
  the first argument is the character before the current one.\<close>

fun binding_region :: "char option \<Rightarrow> int \<Rightarrow> string \<Rightarrow> string" where
  "binding_region p depth [] = []"
| "binding_region p depth (c # cs) =
     (if is_open c then c # binding_region (Some c) (depth + 1) cs
      else if is_close c then c # binding_region (Some c) (depth - 1) cs
      else if c = CHR ''='' \<and> depth = 0 \<and> charAt cs 0 \<noteq> Some CHR ''=''
              \<and> p \<notin> {Some CHR ''='', Some CHR ''!'', Some CHR ''<'', Some CHR ''>''} then []
      else c # binding_region (Some c) depth cs)"

text \<open>\<open>region.match(/[A-Za-z_$][\w$]*/g)\<close>.\<close>

function ident_tokens :: "string \<Rightarrow> string list" where
  "ident_tokens [] = []"
| "ident_tokens (c # cs) =
     (if letter c then (c # takeWhile ident_char cs) # ident_tokens (dropWhile ident_char cs)
      else ident_tokens cs)"
  by pat_completeness auto
termination
  by (relation "measure length") (auto simp: length_dropWhile_le le_imp_less_Suc)

text \<open>\<open>/^[A-Za-z_$][\w$]*/\<close> at the start of a text.\<close>

fun leading_ident :: "string \<Rightarrow> string option" where
  "leading_ident [] = None"
| "leading_ident (c # cs) = (if letter c then Some (c # takeWhile ident_char cs) else None)"

definition segment_name :: "string \<Rightarrow> string option" where
  "segment_name seg = leading_ident (dropWhile js_space seg)"

definition reserved :: "string \<Rightarrow> bool" where
  "reserved w \<longleftrightarrow> w \<in> set RESERVED_HOST_GLOBALS"

definition declListBindsReserved :: "string \<Rightarrow> bool \<Rightarrow> bool" where
  "declListBindsReserved declText startsWithPattern =
     (if startsWithPattern then list_ex reserved (ident_tokens (binding_region None 0 declText))
      else list_ex (\<lambda>seg. case segment_name seg of None \<Rightarrow> False | Some w \<Rightarrow> reserved w)
             (js_split CHR '','' declText))"

section \<open>Edits\<close>

record edit =
  e_at :: nat
  e_consume :: nat
  e_text :: string
  e_prefix :: bool

record hoist =
  h_name :: string
  h_text :: string
  h_at :: nat
  h_consume :: nat

datatype decl_result =
    Rewrite "edit list"
  | HoistFn hoist
  | KeepLexical

definition mk_edit :: "nat \<Rightarrow> nat \<Rightarrow> string \<Rightarrow> edit" where
  "mk_edit a k t = \<lparr>e_at = a, e_consume = k, e_text = t, e_prefix = False\<rparr>"

lemma mk_edit_sel [simp]:
  "e_at (mk_edit a k t) = a" "e_consume (mk_edit a k t) = k" "e_text (mk_edit a k t) = t"
  "e_prefix (mk_edit a k t) = False"
  by (simp_all add: mk_edit_def)

definition applyEdit :: "string \<Rightarrow> edit \<Rightarrow> string" where
  "applyEdit out e = take (e_at e) out @ e_text e @ drop (e_at e + e_consume e) out"

text \<open>\<open>edits.sort\<close>: later offsets first, the hoist prefix after the others of its offset; stable.\<close>

definition sortEdits :: "edit list \<Rightarrow> edit list" where
  "sortEdits = sort_key (\<lambda>e. (- int (e_at e), e_prefix e))"

section \<open>One declaration\<close>

text \<open>The two loops of \<open>skipToBlockEnd\<close>: to the first brace, then to its partner.\<close>

function skip_to_brace :: "string \<Rightarrow> nat \<Rightarrow> nat option" where
  "skip_to_brace s i = (case charAt s i of None \<Rightarrow> Some i
     | Some c \<Rightarrow>
         if c = CHR ''{'' then Some i
         else if is_quote c then
           (case skipString s i c of None \<Rightarrow> None | Some j \<Rightarrow> skip_to_brace s j)
         else (case comment_end s i of Some j \<Rightarrow> skip_to_brace s j
               | None \<Rightarrow> skip_to_brace s (i + 1)))"
  by pat_completeness auto
termination by (relation "measure (\<lambda>(s, i). length s - i)") (auto dest!: skip_ge)

function skip_braces :: "string \<Rightarrow> int \<Rightarrow> nat \<Rightarrow> nat option" where
  "skip_braces s d i = (case charAt s i of None \<Rightarrow> None
     | Some c \<Rightarrow>
         if is_quote c then
           (case skipString s i c of None \<Rightarrow> None | Some j \<Rightarrow> skip_braces s d j)
         else (case comment_end s i of Some j \<Rightarrow> skip_braces s d j
               | None \<Rightarrow>
                   if c = CHR ''{'' then skip_braces s (d + 1) (i + 1)
                   else if c = CHR ''}'' then
                     (if d - 1 = 0 then Some (i + 1) else skip_braces s (d - 1) (i + 1))
                   else skip_braces s d (i + 1)))"
  by pat_completeness auto
termination by (relation "measure (\<lambda>(s, d, i). length s - i)") (auto dest!: skip_ge)

definition skipToBlockEnd :: "string \<Rightarrow> nat \<Rightarrow> nat option" where
  "skipToBlockEnd s i = (case skip_to_brace s i of None \<Rightarrow> None
     | Some j \<Rightarrow> if charAt s j \<noteq> Some CHR ''{'' then None else skip_braces s 0 j)"

function skipBalanced :: "string \<Rightarrow> int \<Rightarrow> nat \<Rightarrow> nat option" where
  "skipBalanced s d i = (case charAt s i of None \<Rightarrow> None
     | Some c \<Rightarrow>
         if is_quote c then
           (case skipString s i c of None \<Rightarrow> None | Some j \<Rightarrow> skipBalanced s d j)
         else (case comment_end s i of Some j \<Rightarrow> skipBalanced s d j
               | None \<Rightarrow>
                   if is_open c then skipBalanced s (d + 1) (i + 1)
                   else if is_close c then
                     (if d - 1 = 0 then Some (i + 1) else skipBalanced s (d - 1) (i + 1))
                   else skipBalanced s d (i + 1)))"
  by pat_completeness auto
termination by (relation "measure (\<lambda>(s, d, i). length s - i)") (auto dest!: skip_ge)

definition prevNonWs :: "string \<Rightarrow> nat \<Rightarrow> char option" where
  "prevNonWs s i = charAt (dropWhile js_space (rev (take i s))) 0"

definition regex_lead :: "char option \<Rightarrow> bool" where
  "regex_lead p = (case p of None \<Rightarrow> True | Some c \<Rightarrow> c \<in> set ''=+-*%&|^!<>?:(,[{~'')"

function skipInitializer :: "string \<Rightarrow> int \<Rightarrow> nat \<Rightarrow> nat option" where
  "skipInitializer s d i = (case charAt s i of None \<Rightarrow> Some i
     | Some c \<Rightarrow>
         if is_quote c then
           (case skipString s i c of None \<Rightarrow> None | Some j \<Rightarrow> skipInitializer s d j)
         else (case comment_end s i of Some j \<Rightarrow> skipInitializer s d j
               | None \<Rightarrow>
                   if c = CHR ''/'' then
                     (if regex_lead (prevNonWs s i)
                      then (case skipRegex s i of None \<Rightarrow> None | Some j \<Rightarrow> skipInitializer s d j)
                      else skipInitializer s d (i + 1))
                   else if is_open c then skipInitializer s (d + 1) (i + 1)
                   else if is_close c then
                     (if d = 0 then Some i else skipInitializer s (d - 1) (i + 1))
                   else if d = 0 \<and> (c = CHR '','' \<or> c = CHR '';'') then Some i
                   else skipInitializer s d (i + 1)))"
  by pat_completeness auto
termination by (relation "measure (\<lambda>(s, d, i). length s - i)") (auto dest!: skip_ge)

declare skip_to_brace.simps [simp del] skip_braces.simps [simp del] skipBalanced.simps [simp del]
  skipInitializer.simps [simp del]

text \<open>Every skipper moves forward.\<close>

lemma skip_to_brace_ge: "skip_to_brace s i = Some j \<Longrightarrow> i \<le> j"
proof (induction s i rule: skip_to_brace.induct)
  case (1 s i)
  show ?case
  proof (cases "charAt s i")
    case (Some c)
    note ih = 1(1-3)[OF Some] and r = 1(4)[unfolded skip_to_brace.simps[of s i]]
    show ?thesis using r Some ih by (fastforce split: if_splits option.splits dest: skip_ge)
  next
    case None
    then show ?thesis using 1(4) by (simp add: skip_to_brace.simps)
  qed
qed

lemma skip_braces_gt: "skip_braces s d i = Some j \<Longrightarrow> i < j"
proof (induction s d i rule: skip_braces.induct)
  case (1 s d i)
  show ?case
  proof (cases "charAt s i")
    case (Some c)
    note ih = 1(1-5)[OF Some] and r = 1(6)[unfolded skip_braces.simps[of s d i]]
    show ?thesis using r Some ih by (fastforce split: if_splits option.splits dest: skip_ge)
  next
    case None
    then show ?thesis using 1(6) by (simp add: skip_braces.simps)
  qed
qed

lemma skipBalanced_gt: "skipBalanced s d i = Some j \<Longrightarrow> i < j"
proof (induction s d i rule: skipBalanced.induct)
  case (1 s d i)
  show ?case
  proof (cases "charAt s i")
    case (Some c)
    note ih = 1(1-5)[OF Some] and r = 1(6)[unfolded skipBalanced.simps[of s d i]]
    show ?thesis using r Some ih by (fastforce split: if_splits option.splits dest: skip_ge)
  next
    case None
    then show ?thesis using 1(6) by (simp add: skipBalanced.simps)
  qed
qed

lemma skipInitializer_ge: "skipInitializer s d i = Some j \<Longrightarrow> i \<le> j"
proof (induction s d i rule: skipInitializer.induct)
  case (1 s d i)
  show ?case
  proof (cases "charAt s i")
    case (Some c)
    note ih = 1(1-7)[OF Some] and r = 1(8)[unfolded skipInitializer.simps[of s d i]]
    show ?thesis
    proof (cases "is_quote c \<or> comment_end s i \<noteq> None")
      case True
      then show ?thesis using r Some ih(1,7) by (fastforce split: if_splits option.splits dest: skip_ge)
    next
      case False
      then have q: "\<not> is_quote c" and n: "comment_end s i = None" by auto
      show ?thesis
      proof (cases "c = CHR ''/''")
        case True
        then show ?thesis using r Some q n ih(2,3)
          by (fastforce split: if_splits option.splits dest: skip_ge)
      next
        case f: False
        then show ?thesis using r Some q n ih(4-6) by (auto split: if_splits)
      qed
    qed
  next
    case None
    then show ?thesis using 1(8) by (simp add: skipInitializer.simps)
  qed
qed

lemma skipToBlockEnd_gt: "skipToBlockEnd s i = Some j \<Longrightarrow> i < j"
  by (auto simp: skipToBlockEnd_def split: option.splits if_splits
      dest!: skip_to_brace_ge skip_braces_gt)

text \<open>One declarator of the list: a pattern or a name, then an optional initializer; the result is the
  cursor after it.\<close>

definition declarator_target :: "string \<Rightarrow> nat \<Rightarrow> nat option" where
  "declarator_target s i =
     (case charAt s i of
        None \<Rightarrow> None
      | Some c \<Rightarrow>
          if c = CHR ''{'' \<or> c = CHR ''['' then skipBalanced s 0 i
          else if isIdentStart (Some c) then Some (skip_ident s (i + 1))
          else None)"

definition declarator_init :: "string \<Rightarrow> nat \<Rightarrow> nat option" where
  "declarator_init s i =
     (let i = skipTrivia s i in
      if charAt s i = Some CHR ''='' then map_option (skipTrivia s) (skipInitializer s 0 (i + 1))
      else Some (skipTrivia s i))"

definition declarator :: "string \<Rightarrow> nat \<Rightarrow> nat option" where
  "declarator s i = (case declarator_target s i of None \<Rightarrow> None | Some j \<Rightarrow> declarator_init s j)"

lemma declarator_target_gt: "declarator_target s i = Some j \<Longrightarrow> i < j"
  using skip_ident_ge[of "i + 1" s]
  by (auto simp: declarator_target_def split: option.splits if_splits dest: skipBalanced_gt)

lemma declarator_init_ge: "declarator_init s i = Some j \<Longrightarrow> i \<le> j"
  using skipTrivia_ge[of i s] skipTrivia_ge[of "skipTrivia s i" s]
  by (auto simp: declarator_init_def Let_def split: if_splits dest!: skipInitializer_ge
      intro: order.trans[OF _ skipTrivia_ge])

lemma declarator_gt: "declarator s i = Some j \<Longrightarrow> i < j"
  by (fastforce simp: declarator_def split: option.splits dest: declarator_target_gt declarator_init_ge)

function validateDeclaratorList :: "string \<Rightarrow> nat \<Rightarrow> nat option" where
  "validateDeclaratorList s i =
     (let i = skipTrivia s i in
      if length s \<le> i then Some i
      else case declarator s i of None \<Rightarrow> None
         | Some j \<Rightarrow> if charAt s j = Some CHR '','' then validateDeclaratorList s (j + 1) else Some j)"
  by pat_completeness auto
termination
proof (relation "measure (\<lambda>(s, i). length s - i)")
  fix s :: string and i k j :: nat
  assume "k = skipTrivia s i" "\<not> length s \<le> k" "declarator s k = Some j"
  then show "((s, j + 1), s, i) \<in> measure (\<lambda>(s, i). length s - i)"
    using skipTrivia_ge[of i s] declarator_gt[of s k j] by auto
qed simp

declare validateDeclaratorList.simps [simp del]

lemma validateDeclaratorList_ge: "validateDeclaratorList s i = Some j \<Longrightarrow> i \<le> j"
proof (induction s i rule: validateDeclaratorList.induct)
  case (1 s i)
  have "i \<le> skipTrivia s i" by (rule skipTrivia_ge)
  then show ?case
    using 1(2)[unfolded validateDeclaratorList.simps[of s i]] 1(1)[OF refl]
    by (auto simp: Let_def split: if_splits option.splits dest!: declarator_gt)
qed

section \<open>A declaration\<close>

text \<open>The assignment \<open>globalThis["NAME"] = \<close> that replaces a declaration.\<close>

definition assign_global :: "string \<Rightarrow> string" where
  "assign_global name = ''globalThis['' @ json_quote name @ ''] = ''"

definition declare_global :: "string \<Rightarrow> string" where
  "declare_global name = ''globalThis['' @ json_quote name @ ''] ??= undefined''"

fun join_with :: "string \<Rightarrow> string list \<Rightarrow> string" where
  "join_with sep [] = []"
| "join_with sep [s] = s"
| "join_with sep (s # t # ss) = s @ sep @ join_with sep (t # ss)"

definition plain_ident :: "string \<Rightarrow> bool" where
  "plain_ident nm \<longleftrightarrow> leading_ident nm = Some nm"

definition bare_names :: "string \<Rightarrow> string list" where
  "bare_names declText = filter (\<lambda>s. s \<noteq> []) (map js_trim (js_split CHR '','' declText))"

text \<open>A \<open>function\<close> or \<open>class\<close>; \<open>i\<close> is the cursor after the keyword at \<open>kwStart\<close>.\<close>

definition handle_named :: "string \<Rightarrow> string \<Rightarrow> nat \<Rightarrow> nat \<Rightarrow> (decl_result \<times> nat) option" where
  "handle_named s kw kwStart i =
     (let i = skipTrivia s i in
      if kw = ''function'' \<and> charAt s i = Some CHR ''*'' then None
      else if \<not> isIdentStart (charAt s i) then None
      else
        (let ns = i; i = skip_ident s (i + 1); name = js_slice s ns i in
         case skipToBlockEnd s i of None \<Rightarrow> None
         | Some bodyEnd \<Rightarrow>
             if reserved name then Some (KeepLexical, bodyEnd)
             else if kw = ''function'' then
               Some (HoistFn \<lparr>h_name = name, h_text = js_slice s kwStart bodyEnd, h_at = kwStart,
                              h_consume = bodyEnd - kwStart\<rparr>, bodyEnd)
             else Some (Rewrite [mk_edit kwStart 0 (assign_global name), mk_edit bodyEnd 0 '';''],
                        bodyEnd)))"

text \<open>A \<open>let\<close> or \<open>const\<close>.\<close>

definition handle_lexical :: "string \<Rightarrow> nat \<Rightarrow> nat \<Rightarrow> (decl_result \<times> nat) option" where
  "handle_lexical s kwStart i =
     (let i = skipTrivia s i in
      if length s \<le> i then None
      else
        (let firstNonKw = i;
             startsWithPattern = (charAt s i = Some CHR ''{'' \<or> charAt s i = Some CHR ''['')
         in case validateDeclaratorList s i of None \<Rightarrow> None
            | Some i \<Rightarrow>
                (let i = skipTrivia s i;
                     hadSemi = (charAt s i = Some CHR '';'');
                     declEnd = i;
                     i = (if hadSemi then i + 1 else i);
                     declText = js_slice s firstNonKw declEnd
                 in if declListBindsReserved declText startsWithPattern then Some (KeepLexical, i)
                    else if CHR ''='' \<notin> set declText \<and> \<not> startsWithPattern then
                      (let names = bare_names declText in
                       if names \<noteq> [] \<and> list_all plain_ident names then
                         Some (Rewrite [mk_edit kwStart (declEnd - kwStart)
                                 (''void('' @ join_with '', '' (map declare_global names) @ '')'')], i)
                       else None)
                    else if startsWithPattern then
                      Some (Rewrite [mk_edit kwStart (declEnd - kwStart)
                              (''('' @ js_slice s firstNonKw declEnd @ '')'')], i)
                    else Some (Rewrite [mk_edit kwStart (firstNonKw - kwStart) []], i))))"

definition handleDeclaration :: "string \<Rightarrow> string \<Rightarrow> nat \<Rightarrow> nat \<Rightarrow> (decl_result \<times> nat) option" where
  "handleDeclaration s kw kwStart i =
     (if kw = ''function'' \<or> kw = ''class'' then handle_named s kw kwStart i
      else handle_lexical s kwStart i)"

lemma handle_named_ge: "handle_named s kw k i = Some (r, j) \<Longrightarrow> i < j"
  using skipTrivia_ge[of i s] skip_ident_ge[of "skipTrivia s i + 1" s]
  by (auto simp: handle_named_def Let_def split: if_splits option.splits dest!: skipToBlockEnd_gt)

lemma handle_lexical_ge: "handle_lexical s k i = Some (r, j) \<Longrightarrow> i \<le> j"
proof -
  assume r: "handle_lexical s k i = Some (r, j)"
  define i1 where "i1 = skipTrivia s i"
  obtain i2 where v: "validateDeclaratorList s i1 = Some i2"
    using r by (cases "validateDeclaratorList s i1") (auto simp: handle_lexical_def Let_def i1_def split: if_splits)
  have "j = skipTrivia s i2 \<or> j = skipTrivia s i2 + 1"
    using r v by (auto simp: handle_lexical_def Let_def i1_def[symmetric] split: if_splits)
  moreover have "i \<le> i1" "i1 \<le> i2" "i2 \<le> skipTrivia s i2"
    using validateDeclaratorList_ge[OF v] by (auto simp: i1_def skipTrivia_ge)
  ultimately show ?thesis by auto
qed

lemma handleDeclaration_ge: "handleDeclaration s kw k i = Some (r, j) \<Longrightarrow> i \<le> j"
  by (auto simp: handleDeclaration_def split: if_splits dest: handle_named_ge handle_lexical_ge)

section \<open>The scan of a cell\<close>

datatype tok = TStart | TVal | TOp | TKw | TOpen | TComma | TSemi | TStmt | TCloseBrace | TBoundary

record plan =
  pos :: nat
  depth :: int
  atStmtStart :: bool
  prevTok :: tok
  pendingAsyncOrExport :: bool
  edits :: "edit list"
  hoists :: "hoist list"

definition plan_init :: plan where
  "plan_init = \<lparr>pos = 0, depth = 0, atStmtStart = True, prevTok = TStart,
     pendingAsyncOrExport = False, edits = [], hoists = []\<rparr>"

definition goto_tok :: "plan \<Rightarrow> nat \<Rightarrow> tok \<Rightarrow> plan" where
  "goto_tok st j t = st\<lparr>pos := j, prevTok := t, atStmtStart := False, pendingAsyncOrExport := False\<rparr>"

definition after_decl :: "plan \<Rightarrow> nat \<Rightarrow> plan" where
  "after_decl st j = st\<lparr>pos := j, prevTok := TStmt, atStmtStart := True, pendingAsyncOrExport := False\<rparr>"

text \<open>What the scan records of a handled declaration.\<close>

fun record_decl :: "decl_result \<Rightarrow> plan \<Rightarrow> plan" where
  "record_decl KeepLexical st = st"
| "record_decl (Rewrite es) st = st\<lparr>edits := edits st @ es\<rparr>"
| "record_decl (HoistFn h) st =
     st\<lparr>edits := edits st @ [mk_edit (h_at h) (h_consume h) '';''], hoists := hoists st @ [h]\<rparr>"

definition regex_ok :: "tok \<Rightarrow> bool" where
  "regex_ok t \<longleftrightarrow> t \<in> {TStart, TOp, TKw, TOpen, TComma, TSemi, TStmt}"

definition KW_BEFORE_VALUE :: "string list" where
  "KW_BEFORE_VALUE = [''return'', ''typeof'', ''instanceof'', ''in'', ''of'', ''new'', ''delete'',
     ''void'', ''do'', ''else'', ''yield'', ''await'', ''case'', ''throw'']"

text \<open>An identifier or keyword spanning \<open>start\<close> to \<open>j\<close>.\<close>

definition plan_word :: "string \<Rightarrow> nat \<Rightarrow> nat \<Rightarrow> plan \<Rightarrow> plan option" where
  "plan_word s start j st =
     (let word = js_slice s start j in
      if depth st = 0 \<and> atStmtStart st \<and> word \<in> set KW then
        if pendingAsyncOrExport st then None
        else (case handleDeclaration s word start j of
                None \<Rightarrow> None
              | Some (r, k) \<Rightarrow> Some (after_decl (record_decl r st) k))
      else if word = ''async'' \<or> word = ''export'' then
        Some (st\<lparr>pos := j, prevTok := TKw, atStmtStart := False, pendingAsyncOrExport := True\<rparr>)
      else Some (goto_tok st j (if word \<in> set KW_BEFORE_VALUE then TKw else TVal)))"

text \<open>One round of the loop, with the cursor on a character that is not trivia.\<close>

definition plan_char :: "string \<Rightarrow> char \<Rightarrow> plan \<Rightarrow> plan option" where
  "plan_char s c st =
     (let i = pos st in
      if is_quote c then map_option (\<lambda>j. goto_tok st j TVal) (skipString s i c)
      else if c = CHR ''/'' then
        if regex_ok (prevTok st) then map_option (\<lambda>j. goto_tok st j TVal) (skipRegex s i)
        else Some (st\<lparr>pos := i + 1, prevTok := TOp, atStmtStart := False\<rparr>)
      else if is_open c then Some (goto_tok (st\<lparr>depth := depth st + 1\<rparr>) (i + 1) TOpen)
      else if is_close c then
        (if depth st - 1 < 0 then None
         else Some (st\<lparr>pos := i + 1, depth := depth st - 1,
                       prevTok := (if c = CHR ''}'' then TCloseBrace else TVal),
                       atStmtStart := (depth st - 1 = 0 \<and> c = CHR ''}'' \<or> atStmtStart st),
                       pendingAsyncOrExport := False\<rparr>))
      else if c = CHR '';'' then
        Some (st\<lparr>pos := i + 1, prevTok := TSemi, atStmtStart := (depth st = 0 \<or> atStmtStart st),
                 pendingAsyncOrExport := False\<rparr>)
      else if c = CHR '','' then
        Some (st\<lparr>pos := i + 1, prevTok := TComma, pendingAsyncOrExport := False\<rparr>)
      else if isIdentStart (Some c) then plan_word s i (skip_ident s (i + 1)) st
      else Some (goto_tok st (i + 1) TOp))"

lemma pos_simps [simp]:
  "pos (goto_tok st j t) = j" "pos (after_decl st j) = j"
  by (simp_all add: goto_tok_def after_decl_def)

lemma plan_char_advances: "plan_char s c st = Some st' \<Longrightarrow> pos st < pos st'"
proof -
  assume r: "plan_char s c st = Some st'"
  have w: "plan_word s i j st = Some st' \<Longrightarrow> j \<le> pos st'" for i j
    by (auto simp: plan_word_def Let_def split: if_splits option.splits dest!: handleDeclaration_ge)
  have "pos st + 1 \<le> skip_ident s (pos st + 1)" by (rule skip_ident_ge)
  then show ?thesis
    using r w[of "pos st" "skip_ident s (pos st + 1)"]
    by (auto simp: plan_char_def Let_def split: if_splits dest!: skipString_ge skipRegex_ge)
qed

function plan_loop :: "string \<Rightarrow> plan \<Rightarrow> plan option" where
  "plan_loop s st =
     (let st = st\<lparr>pos := skipTrivia s (pos st)\<rparr> in
      case charAt s (pos st) of None \<Rightarrow> Some st
      | Some c \<Rightarrow> (case plan_char s c st of None \<Rightarrow> None | Some st' \<Rightarrow> plan_loop s st'))"
  by pat_completeness auto
termination
proof (relation "measure (\<lambda>(s, st). length s - pos st)")
  fix s st st1 c st'
  assume st1: "st1 = st\<lparr>pos := skipTrivia s (pos st)\<rparr>" and c: "charAt s (pos st1) = Some c"
    and r: "plan_char s c st1 = Some st'"
  have "pos st \<le> pos st1" using st1 skipTrivia_ge[of "pos st" s] by simp
  moreover have "pos st1 < pos st'" by (rule plan_char_advances[OF r])
  ultimately show "((s, st'), s, st) \<in> measure (\<lambda>(s, st). length s - pos st)"
    using charAt_lessD[OF c] by auto
qed simp

declare plan_loop.simps [simp del]

definition hoist_text :: "hoist \<Rightarrow> string" where
  "hoist_text h = assign_global (h_name h) @ h_text h @ '';''"

definition hoist_prefix :: "hoist list \<Rightarrow> edit list" where
  "hoist_prefix hs =
     (if hs = [] then []
      else [\<lparr>e_at = 0, e_consume = 0, e_text = concat (map hoist_text hs), e_prefix = True\<rparr>])"

definition planEdits :: "string \<Rightarrow> edit list option" where
  "planEdits s = (case plan_loop s plan_init of None \<Rightarrow> None
     | Some st \<Rightarrow> if depth st \<noteq> 0 then None else Some (edits st @ hoist_prefix (hoists st)))"

text \<open>The test of the fast path, \<open>/(?:^|[^.\w$])(let|const|function|class)[^\w$]/\<close>; the flag says
  whether the text before allows a keyword here.\<close>

fun has_decl_keyword :: "bool \<Rightarrow> string \<Rightarrow> bool" where
  "has_decl_keyword b [] = False"
| "has_decl_keyword b (c # cs) =
     (b \<and> list_ex (\<lambda>k. prefix k (c # cs)
                     \<and> (case charAt (c # cs) (length k) of None \<Rightarrow> False | Some x \<Rightarrow> \<not> ident_char x)) KW
      \<or> has_decl_keyword (c \<noteq> CHR ''.'' \<and> \<not> ident_char c) cs)"

definition transformCell :: "string \<Rightarrow> string" where
  "transformCell s =
     (if s = [] then s
      else if \<not> has_decl_keyword True s then s
      else case planEdits s of None \<Rightarrow> s | Some es \<Rightarrow> foldl applyEdit s (sortEdits es))"

section \<open>The completion value of an awaiting cell\<close>

definition STMT_LEAD :: "string list" where
  "STMT_LEAD = [''if'', ''for'', ''while'', ''switch'', ''try'', ''do'', ''else'', ''return'', ''throw'',
     ''break'', ''continue'', ''var'', ''let'', ''const'', ''function'', ''class'', ''with'', ''debugger'',
     ''export'', ''import'']"

record top_scan =
  t_pos :: nat
  t_depth :: int
  t_prev :: tok
  t_boundary :: "nat option"

definition KW_BEFORE_OPERAND :: "string list" where
  "KW_BEFORE_OPERAND = [''typeof'', ''instanceof'', ''in'', ''of'', ''new'', ''delete'', ''void'',
     ''yield'', ''await'', ''case'']"

definition top_goto :: "top_scan \<Rightarrow> nat \<Rightarrow> tok \<Rightarrow> top_scan" where
  "top_goto st j t = st\<lparr>t_pos := j, t_prev := t\<rparr>"

definition top_char :: "string \<Rightarrow> char \<Rightarrow> top_scan \<Rightarrow> top_scan option" where
  "top_char s c st =
     (let i = t_pos st in
      if blank c then Some (st\<lparr>t_pos := i + 1\<rparr>)
      else case comment_end s i of Some j \<Rightarrow> Some (st\<lparr>t_pos := j\<rparr>)
      | None \<Rightarrow>
          if is_quote c then map_option (\<lambda>j. top_goto st j TVal) (skipString s i c)
          else if c = CHR ''/'' then
            if t_prev st \<in> {TStart, TOp, TOpen, TKw, TBoundary}
            then map_option (\<lambda>j. top_goto st j TVal) (skipRegex s i)
            else Some (top_goto st (i + 1) TOp)
          else if is_open c then Some (top_goto (st\<lparr>t_depth := t_depth st + 1\<rparr>) (i + 1) TOpen)
          else if is_close c then
            (if t_depth st - 1 < 0 then None
             else if c = CHR ''}'' \<and> t_depth st - 1 = 0 then
               Some (top_goto (st\<lparr>t_depth := t_depth st - 1, t_boundary := Some (i + 1)\<rparr>) (i + 1) TBoundary)
             else Some (top_goto (st\<lparr>t_depth := t_depth st - 1\<rparr>) (i + 1) TVal))
          else if c = CHR '';'' then
            (if t_depth st = 0 then Some (top_goto (st\<lparr>t_boundary := Some (i + 1)\<rparr>) (i + 1) TBoundary)
             else Some (top_goto st (i + 1) TOp))
          else if isIdentStart (Some c) then
            (let j = skip_ident s (i + 1); w = js_slice s i j in
             Some (top_goto st j (if w \<in> set STMT_LEAD \<or> w \<in> set KW_BEFORE_OPERAND then TKw else TVal)))
          else Some (top_goto st (i + 1) TOp))"

lemma top_char_advances: "top_char s c st = Some st' \<Longrightarrow> t_pos st < t_pos st'"
  using skip_ident_ge[of "Suc (t_pos st)" s]
  by (auto simp: top_char_def top_goto_def Let_def split: if_splits option.splits dest!: skip_ge)

function top_loop :: "string \<Rightarrow> top_scan \<Rightarrow> top_scan option" where
  "top_loop s st = (case charAt s (t_pos st) of None \<Rightarrow> Some st
     | Some c \<Rightarrow> (case top_char s c st of None \<Rightarrow> None | Some st' \<Rightarrow> top_loop s st'))"
  by pat_completeness auto
termination
  by (relation "measure (\<lambda>(s, st). length s - t_pos st)") (auto dest!: top_char_advances)

declare top_loop.simps [simp del]

text \<open>The outer option is the unbalanced scan, the inner one the boundary \<open>-1\<close>.\<close>

definition scanTopLevel :: "string \<Rightarrow> nat option option" where
  "scanTopLevel s =
     (case top_loop s \<lparr>t_pos = 0, t_depth = 0, t_prev = TStart, t_boundary = None\<rparr> of
        None \<Rightarrow> None
      | Some st \<Rightarrow> if t_depth st \<noteq> 0 then None else Some (t_boundary st))"

text \<open>\<open>/\bawait\b/.test(src)\<close>; the flag says whether a word boundary precedes.\<close>

fun has_await :: "bool \<Rightarrow> string \<Rightarrow> bool" where
  "has_await b [] = False"
| "has_await b (c # cs) =
     (b \<and> prefix ''await'' (c # cs)
        \<and> (case charAt (c # cs) 5 of None \<Rightarrow> True | Some x \<Rightarrow> \<not> word_char x)
      \<or> has_await (\<not> word_char c) cs)"

definition wrapAsyncCompletion :: "string \<Rightarrow> string" where
  "wrapAsyncCompletion s =
     (if s = [] then s
      else if \<not> has_await True s then s
      else case scanTopLevel s of None \<Rightarrow> s
      | Some None \<Rightarrow> s
      | Some (Some b) \<Rightarrow>
          (if b = 0 \<or> length s \<le> b then s
           else
             (let tailTrim = js_trim (drop b s) in
              if tailTrim = [] then s
              else if (case leading_ident tailTrim of None \<Rightarrow> False | Some w \<Rightarrow> w \<in> set STMT_LEAD) then s
              else if charAt tailTrim 0 = Some CHR ''{'' then s
              else take b s @ '';return ('' @ [newline] @ tailTrim @ [newline] @ '');'')))"

end
