(* ===== verification/ReplProps.thy ===== *)
theory ReplProps
  imports ReplTransform "HOL-Library.Multiset"
begin

text \<open>
  What the two rewrites of \<open>ReplTransform\<close> guarantee: the planned edits are disjoint spans in source
  order, so applying them from the right is one left-to-right pass over the cell (unless a class body
  is followed by a declaration without a separator); no edit the plan makes assigns a reserved host
  global it can see; \<open>wrapAsyncCompletion\<close> only wraps the text after the last top-level boundary.
  The cells on which the rewrites go wrong are theorems too.
\<close>

section \<open>One pass\<close>

text \<open>The specification: copy the source from \<open>i\<close> on, replacing each edit's span by its text.\<close>

fun one_pass :: "string \<Rightarrow> nat \<Rightarrow> edit list \<Rightarrow> string" where
  "one_pass s i [] = drop i s"
| "one_pass s i (e # es) = js_slice s i (e_at e) @ e_text e @ one_pass s (e_at e + e_consume e) es"

text \<open>The edits start at or after \<open>lo\<close>, in source order, no two overlapping, and end by \<open>hi\<close>.\<close>

fun spans :: "nat \<Rightarrow> edit list \<Rightarrow> nat \<Rightarrow> bool" where
  "spans lo [] hi = (lo \<le> hi)"
| "spans lo (e # es) hi = (lo \<le> e_at e \<and> spans (e_at e + e_consume e) es hi)"

lemma spans_append: "spans lo es m \<Longrightarrow> spans m fs hi \<Longrightarrow> spans lo (es @ fs) hi"
proof (induction es arbitrary: lo)
  case Nil
  then show ?case by (cases fs) auto
qed simp

lemma spans_le: "spans lo es hi \<Longrightarrow> lo \<le> hi"
  by (induction es arbitrary: lo) (auto, fastforce)

lemma spans_mono: "spans lo es hi \<Longrightarrow> hi \<le> hi' \<Longrightarrow> spans lo es hi'"
  by (induction es arbitrary: lo) auto

lemma spans_lower: "spans lo es hi \<Longrightarrow> \<forall>e \<in> set es. lo \<le> e_at e"
  by (induction es arbitrary: lo) (auto, fastforce)

lemma js_slice_append_drop: "i \<le> j \<Longrightarrow> js_slice s i j @ drop j s = drop i s"
  by (simp add: js_slice_def) (metis append_take_drop_id drop_drop le_add_diff_inverse2)

lemma take_slice: "i \<le> j \<Longrightarrow> take i s @ js_slice s i j = take j s"
  by (simp add: js_slice_def take_add[symmetric])

text \<open>Applying the edits from the last to the first equals the pass.\<close>

lemma foldr_applyEdit:
  "spans lo es hi \<Longrightarrow> \<forall>e \<in> set es. e_at e \<le> length s \<Longrightarrow>
   foldl applyEdit s (rev es) = take lo s @ one_pass s lo es"
proof (induction es arbitrary: lo)
  case (Cons e es)
  let ?m = "e_at e + e_consume e"
  have ih: "foldl applyEdit s (rev es) = take ?m s @ one_pass s ?m es" using Cons by simp
  have lo: "lo \<le> e_at e" "e_at e \<le> length s" using Cons.prems by auto
  have rest: "drop ?m (take ?m s @ one_pass s ?m es) = one_pass s ?m es"
  proof (cases es)
    case (Cons f fs)
    then have "?m \<le> length s" using Cons.prems by (auto intro: order.trans)
    then show ?thesis by simp
  qed simp
  have pre: "take (e_at e) (take ?m s @ one_pass s ?m es) = take (e_at e) s" using lo by simp
  have "foldl applyEdit s (rev (e # es)) = applyEdit (take ?m s @ one_pass s ?m es) e" using ih by simp
  also have "\<dots> = take (e_at e) s @ e_text e @ one_pass s ?m es"
    by (simp only: applyEdit_def rest pre)
  finally show ?case using lo by (simp add: take_slice[symmetric])
qed simp

lemma sorted_at: "spans lo es hi \<Longrightarrow> sorted (map e_at es)"
proof (induction es arbitrary: lo)
  case (Cons e es)
  then show ?case using spans_lower[of "e_at e + e_consume e" es hi] by auto
qed simp

text \<open>The code's sort is the reversal, when no two edits start at the same place.\<close>

lemma sort_reverses:
  assumes "sorted (map e_at es)" "distinct (map e_at es)" "\<forall>e \<in> set es. \<not> e_prefix e"
  shows "sortEdits (es @ hoist_prefix hs) = rev es @ hoist_prefix hs"
proof -
  let ?f = "\<lambda>e. (- int (e_at e), e_prefix e)"
  have inj: "inj_on ?f (set (rev es @ hoist_prefix hs))"
    using assms(2,3) by (auto simp: inj_on_def hoist_prefix_def distinct_map)
  have "sorted (map ?f (rev es @ hoist_prefix hs))"
    using assms(1,3)
    by (auto simp: sorted_append sorted_wrt_map sorted_wrt_rev hoist_prefix_def less_eq_prod_def
        elim: sorted_wrt_mono_rel[rotated])
  then show ?thesis
    unfolding sortEdits_def by (intro sort_key_inj_key_eq) (use inj in auto)
qed

section \<open>The plan's edits are disjoint spans of the source\<close>

fun result_edits :: "decl_result \<Rightarrow> edit list" where
  "result_edits KeepLexical = []"
| "result_edits (Rewrite es) = es"
| "result_edits (HoistFn h) = [mk_edit (h_at h) (h_consume h) '';'']"

lemma record_decl_edits [simp]: "edits (record_decl r st) = edits st @ result_edits r"
  by (cases r) simp_all

lemma record_decl_pos [simp]: "pos (record_decl r st) = pos st"
  by (cases r) simp_all

lemma plan_edits_simps [simp]:
  "edits (goto_tok st j t) = edits st" "edits (after_decl st j) = edits st"
  "hoists (goto_tok st j t) = hoists st" "hoists (after_decl st j) = hoists st"
  by (simp_all add: goto_tok_def after_decl_def)

lemma skip_braces_le: "skip_braces s d i = Some j \<Longrightarrow> j \<le> length s"
proof (induction s d i rule: skip_braces.induct)
  case (1 s d i)
  show ?case
  proof (cases "charAt s i")
    case (Some c)
    note ih = 1(1-5)[OF Some] and r = 1(6)[unfolded skip_braces.simps[of s d i]]
    show ?thesis using r Some ih by (auto split: if_splits option.splits)
  next
    case None
    then show ?thesis using 1(6) by (simp add: skip_braces.simps)
  qed
qed

definition edits_ok :: "string \<Rightarrow> nat \<Rightarrow> edit list \<Rightarrow> nat \<Rightarrow> bool" where
  "edits_ok s lo es hi \<longleftrightarrow> spans lo es hi \<and> (\<forall>e \<in> set es. e_at e \<le> length s \<and> \<not> e_prefix e)"

lemma edits_ok_append: "edits_ok s lo es m \<Longrightarrow> edits_ok s m fs hi \<Longrightarrow> edits_ok s lo (es @ fs) hi"
  by (auto simp: edits_ok_def spans_append)

lemma edits_ok_mono: "edits_ok s lo es hi \<Longrightarrow> hi \<le> hi' \<Longrightarrow> edits_ok s lo es hi'"
  by (auto simp: edits_ok_def spans_mono)

lemma edits_ok_Nil [simp]: "edits_ok s lo [] hi \<longleftrightarrow> lo \<le> hi"
  by (simp add: edits_ok_def)

lemma handle_named_spans:
  assumes r: "handle_named s kw start i = Some (r, k)" and "start \<le> i" "start < length s"
  shows "edits_ok s start (result_edits r) k"
proof -
  have k: "i < k" by (rule handle_named_ge[OF r])
  define e where "e = skip_ident s (Suc (skipTrivia s i))"
  have b: "skipToBlockEnd s e = Some k"
    using r by (auto simp: handle_named_def Let_def e_def split: if_splits option.splits)
  then have "k \<le> length s"
    by (auto simp: skipToBlockEnd_def split: option.splits if_splits dest: skip_braces_le)
  then show ?thesis
    using r b k assms(2,3)
    by (auto simp: handle_named_def Let_def e_def[symmetric] edits_ok_def split: if_splits)
qed

lemma handle_lexical_cases:
  assumes r: "handle_lexical s start i = Some (r, k)"
  obtains declEnd where "skipTrivia s i \<le> declEnd" "declEnd \<le> k" "skipTrivia s i < length s"
    "let firstNonKw = skipTrivia s i;
         pat = (charAt s firstNonKw = Some CHR ''{'' \<or> charAt s firstNonKw = Some CHR ''['');
         declText = js_slice s firstNonKw declEnd
     in if declListBindsReserved declText pat then r = KeepLexical
        else if CHR ''='' \<notin> set declText \<and> \<not> pat then
          r = Rewrite [mk_edit start (declEnd - start)
                (''void('' @ join_with '', '' (map declare_global (bare_names declText)) @ '')'')]
          \<and> list_all plain_ident (bare_names declText)
        else if pat then r = Rewrite [mk_edit start (declEnd - start) (''('' @ declText @ '')'')]
        else r = Rewrite [mk_edit start (firstNonKw - start) []]"
proof -
  note finish = that
  define i1 where "i1 = skipTrivia s i"
  have lt: "i1 < length s" using r by (auto simp: handle_lexical_def Let_def i1_def split: if_splits)
  obtain i2 where v: "validateDeclaratorList s i1 = Some i2"
    using r lt by (cases "validateDeclaratorList s i1") (auto simp: handle_lexical_def Let_def i1_def)
  have "i1 \<le> skipTrivia s i2"
    using validateDeclaratorList_ge[OF v] skipTrivia_ge[of i2 s] by simp
  moreover have "skipTrivia s i2 \<le> k"
    using r lt v by (auto simp: handle_lexical_def Let_def i1_def[symmetric] split: if_splits)
  ultimately show ?thesis
    using finish[of "skipTrivia s i2", folded i1_def] lt r v
    by (auto simp: handle_lexical_def Let_def i1_def[symmetric] split: if_splits)
qed

lemma handle_lexical_spans:
  assumes r: "handle_lexical s start i = Some (r, k)" and "start \<le> i" "start < length s"
  shows "edits_ok s start (result_edits r) k"
  by (rule handle_lexical_cases[OF r])
    (use assms(2,3) skipTrivia_ge[of i s] in \<open>auto simp: Let_def edits_ok_def split: if_splits\<close>)

lemma handleDeclaration_spans:
  assumes "handleDeclaration s kw start i = Some (r, k)" "start \<le> i" "start < length s"
  shows "edits_ok s start (result_edits r) k"
  using assms handle_named_spans handle_lexical_spans
  by (auto simp: handleDeclaration_def split: if_splits)

lemma plan_word_spans:
  assumes r: "plan_word s i j st = Some st'" and ok: "edits_ok s 0 (edits st) i" and "i < j" "i < length s"
  shows "edits_ok s 0 (edits st') (pos st')"
proof (cases "edits st' = edits st")
  case True
  have "j \<le> pos st'"
    using r by (auto simp: plan_word_def Let_def split: if_splits option.splits dest!: handleDeclaration_ge)
  then show ?thesis using True ok assms(3) by (auto intro: edits_ok_mono)
next
  case False
  then obtain x k w where h: "handleDeclaration s w i j = Some (x, k)"
    and st': "st' = after_decl (record_decl x st) k"
    using r by (auto simp: plan_word_def Let_def split: if_splits option.splits)
  have "edits_ok s i (result_edits x) k"
    using handleDeclaration_spans[OF h] assms(3,4) by simp
  then show ?thesis using ok st' by (auto intro: edits_ok_append)
qed

lemma plan_char_spans:
  assumes r: "plan_char s c st = Some st'" and ok: "edits_ok s 0 (edits st) (pos st)" and lt: "pos st < length s"
  shows "edits_ok s 0 (edits st') (pos st')"
proof (cases "\<not> (is_quote c \<or> c = CHR ''/'' \<or> is_open c \<or> is_close c \<or> c = CHR '';'' \<or> c = CHR '','')
              \<and> isIdentStart (Some c)")
  case True
  then have "plan_word s (pos st) (skip_ident s (pos st + 1)) st = Some st'"
    using r by (simp add: plan_char_def Let_def)
  then show ?thesis using plan_word_spans ok lt skip_ident_ge[of "pos st + 1" s] by fastforce
next
  case False
  then have "edits st' = edits st" using r by (auto simp: plan_char_def Let_def split: if_splits)
  then show ?thesis using ok plan_char_advances[OF r] by (auto intro: edits_ok_mono)
qed

lemma plan_loop_spans:
  "plan_loop s st = Some st' \<Longrightarrow> edits_ok s 0 (edits st) (pos st) \<Longrightarrow> edits_ok s 0 (edits st') (pos st')"
proof (induction s st rule: plan_loop.induct)
  case (1 s st)
  define st1 where "st1 = st\<lparr>pos := skipTrivia s (pos st)\<rparr>"
  have ok1: "edits_ok s 0 (edits st1) (pos st1)"
    using 1(3) skipTrivia_ge[of "pos st" s] by (auto simp: st1_def intro: edits_ok_mono)
  have r: "(case charAt s (pos st1) of None \<Rightarrow> Some st1
      | Some c \<Rightarrow> (case plan_char s c st1 of None \<Rightarrow> None | Some x \<Rightarrow> plan_loop s x)) = Some st'"
    using 1(2) unfolding plan_loop.simps[of s st] st1_def Let_def .
  show ?case
  proof (cases "charAt s (pos st1)")
    case None
    then show ?thesis using r ok1 by simp
  next
    case (Some c)
    then obtain x where x: "plan_char s c st1 = Some x" and rest: "plan_loop s x = Some st'"
      using r by (auto split: option.splits)
    show ?thesis
      using 1(1)[OF st1_def Some x rest] plan_char_spans[OF x ok1] Some by auto
  qed
qed

lemma plan_init_ok: "edits_ok s 0 (edits plan_init) (pos plan_init)"
  by (simp add: plan_init_def)



section \<open>Reserved host globals\<close>

text \<open>What an edit may do: end a statement, assign or declare globals whose names are not reserved, or
  drop the keyword of (or parenthesize) a declarator list in which the check sees no reserved name.\<close>

definition safe_edit :: "string \<Rightarrow> edit \<Rightarrow> bool" where
  "safe_edit s e \<longleftrightarrow>
     e_text e = '';''
     \<or> (\<exists>name. e_text e = assign_global name \<and> \<not> reserved name)
     \<or> (\<exists>names. e_text e = ''void('' @ join_with '', '' (map declare_global names) @ '')''
              \<and> (\<forall>nm \<in> set names. plain_ident nm \<and> \<not> reserved nm))
     \<or> (\<exists>declText. e_text e = ''('' @ declText @ '')'' \<and> \<not> declListBindsReserved declText True)
     \<or> (e_text e = [] \<and> (\<exists>hi. \<not> declListBindsReserved (js_slice s (e_at e + e_consume e) hi) False))"

lemma ident_char_not_space: "ident_char c \<Longrightarrow> \<not> js_space c"
  by (auto simp: ident_char_def letter_def digit_def js_space_def Let_def)

lemma plain_ident_chars: "plain_ident nm \<Longrightarrow> (\<exists>c cs. nm = c # cs \<and> letter c) \<and> (\<forall>c \<in> set nm. ident_char c)"
proof (cases nm)
  case (Cons c cs)
  assume p: "plain_ident nm"
  then have "letter c" "takeWhile ident_char cs = cs"
    using Cons by (auto simp: plain_ident_def split: if_splits)
  then show ?thesis using Cons by (auto simp: takeWhile_eq_all_conv ident_char_def)
qed (simp add: plain_ident_def)

lemma dropWhile_space_trim: "\<exists>w. dropWhile js_space s = js_trim s @ w \<and> (\<forall>c \<in> set w. js_space c)"
proof -
  let ?t = "rev (dropWhile js_space s)"
  have "takeWhile js_space ?t @ dropWhile js_space ?t = ?t" by simp
  then have "dropWhile js_space s = js_trim s @ rev (takeWhile js_space ?t)"
    unfolding js_trim_def by (metis rev_append rev_rev_ident)
  moreover have "\<forall>c \<in> set (rev (takeWhile js_space ?t)). js_space c" by (auto dest: set_takeWhileD)
  ultimately show ?thesis by blast
qed

text \<open>A bare name is the leading name of its segment.\<close>

lemma segment_name_trim: "plain_ident (js_trim seg) \<Longrightarrow> segment_name seg = Some (js_trim seg)"
proof -
  assume p: "plain_ident (js_trim seg)"
  obtain w where w: "dropWhile js_space seg = js_trim seg @ w" "\<forall>c \<in> set w. js_space c"
    using dropWhile_space_trim by blast
  obtain c cs where c: "js_trim seg = c # cs" "letter c" "\<forall>x \<in> set cs. ident_char x"
    using plain_ident_chars[OF p] by auto
  have "takeWhile ident_char (cs @ w) = cs"
    using c(3) w(2) ident_char_not_space by (cases w) (auto simp: takeWhile_tail)
  then show ?thesis using w c by (simp add: segment_name_def)
qed

lemma bare_names_not_reserved:
  assumes "\<not> declListBindsReserved d False" "list_all plain_ident (bare_names d)" "nm \<in> set (bare_names d)"
  shows "plain_ident nm \<and> \<not> reserved nm"
proof -
  obtain seg where seg: "seg \<in> set (js_split CHR '','' d)" "nm = js_trim seg"
    using assms(3) by (auto simp: bare_names_def)
  have p: "plain_ident nm" using assms(2,3) by (simp add: list_all_iff)
  then have "segment_name seg = Some nm" using segment_name_trim seg(2) by simp
  then show ?thesis using assms(1) seg(1) p by (fastforce simp: declListBindsReserved_def list_ex_iff)
qed

lemma handle_lexical_safe:
  assumes r: "handle_lexical s start i = Some (r, k)" and "start \<le> i"
  shows "\<forall>e \<in> set (result_edits r). safe_edit s e"
proof -
  obtain declEnd where c: "let firstNonKw = skipTrivia s i;
         pat = (charAt s firstNonKw = Some CHR ''{'' \<or> charAt s firstNonKw = Some CHR ''['');
         declText = js_slice s firstNonKw declEnd
     in if declListBindsReserved declText pat then r = KeepLexical
        else if CHR ''='' \<notin> set declText \<and> \<not> pat then
          r = Rewrite [mk_edit start (declEnd - start)
                (''void('' @ join_with '', '' (map declare_global (bare_names declText)) @ '')'')]
          \<and> list_all plain_ident (bare_names declText)
        else if pat then r = Rewrite [mk_edit start (declEnd - start) (''('' @ declText @ '')'')]
        else r = Rewrite [mk_edit start (firstNonKw - start) []]"
    by (rule handle_lexical_cases[OF r])
  let ?f = "skipTrivia s i" let ?d = "js_slice s ?f declEnd"
  let ?pat = "charAt s ?f = Some CHR ''{'' \<or> charAt s ?f = Some CHR ''[''"
  have le: "start \<le> ?f" using assms(2) skipTrivia_ge[of i s] by simp
  show ?thesis
  proof (cases "declListBindsReserved ?d ?pat")
    case True then show ?thesis using c by (simp add: Let_def)
  next
    case nr: False
    show ?thesis
    proof (cases "CHR ''='' \<notin> set ?d \<and> \<not> ?pat")
      case True
      then have "r = Rewrite [mk_edit start (declEnd - start)
            (''void('' @ join_with '', '' (map declare_global (bare_names ?d)) @ '')'')]"
        and "list_all plain_ident (bare_names ?d)" and "\<not> declListBindsReserved ?d False"
        using c nr by (simp_all add: Let_def)
      then show ?thesis using bare_names_not_reserved by (auto simp: safe_edit_def)
    next
      case nb: False
      show ?thesis
      proof (cases ?pat)
        case True
        then have "r = Rewrite [mk_edit start (declEnd - start) (''('' @ ?d @ '')'')]"
          and "\<not> declListBindsReserved ?d True" using c nr nb by (auto simp: Let_def)
        then show ?thesis by (auto simp: safe_edit_def)
      next
        case False
        then have "r = Rewrite [mk_edit start (?f - start) []]" and "\<not> declListBindsReserved ?d False"
          using c nr nb by (auto simp: Let_def)
        then show ?thesis using le by (auto simp: safe_edit_def)
      qed
    qed
  qed
qed

lemma handle_lexical_not_hoist: "handle_lexical s start i \<noteq> Some (HoistFn h, k)"
  by (auto simp: handle_lexical_def Let_def split: if_splits option.splits)

lemma handle_named_safe:
  assumes "handle_named s kw start i = Some (r, k)"
  shows "(\<forall>e \<in> set (result_edits r). safe_edit s e) \<and> (\<forall>h. r = HoistFn h \<longrightarrow> \<not> reserved (h_name h))"
proof -
  obtain name where "\<not> reserved name \<or> r = KeepLexical"
    "r = KeepLexical \<or> (\<exists>b. r = Rewrite [mk_edit start 0 (assign_global name), mk_edit b 0 '';''])
       \<or> (\<exists>h. r = HoistFn h \<and> h_name h = name)"
    using assms by (auto simp: handle_named_def Let_def split: if_splits option.splits)
  then show ?thesis by (auto simp: safe_edit_def)
qed

definition plan_safe :: "string \<Rightarrow> plan \<Rightarrow> bool" where
  "plan_safe s st \<longleftrightarrow>
     (\<forall>e \<in> set (edits st). safe_edit s e) \<and> (\<forall>h \<in> set (hoists st). \<not> reserved (h_name h))"

lemma plan_char_safe:
  assumes r: "plan_char s c st = Some st'" and ok: "plan_safe s st"
  shows "plan_safe s st'"
proof (cases "edits st' = edits st \<and> hoists st' = hoists st")
  case True then show ?thesis using ok by (simp add: plan_safe_def)
next
  case False
  then obtain w x k j where h: "handleDeclaration s w (pos st) j = Some (x, k)" "pos st \<le> j"
    and st': "st' = after_decl (record_decl x st) k"
    using r skip_ident_ge[of "pos st + 1" s]
    by (auto simp: plan_char_def plan_word_def Let_def split: if_splits option.splits)
  have "\<forall>e \<in> set (result_edits x). safe_edit s e" "\<forall>h. x = HoistFn h \<longrightarrow> \<not> reserved (h_name h)"
    using h handle_named_safe handle_lexical_safe handle_lexical_not_hoist
    by (auto simp: handleDeclaration_def split: if_splits)
  then show ?thesis using ok st' by (cases x) (auto simp: plan_safe_def)
qed

lemma plan_loop_safe: "plan_loop s st = Some st' \<Longrightarrow> plan_safe s st \<Longrightarrow> plan_safe s st'"
proof (induction s st rule: plan_loop.induct)
  case (1 s st)
  define st1 where "st1 = st\<lparr>pos := skipTrivia s (pos st)\<rparr>"
  have ok1: "plan_safe s st1" using 1(3) by (simp add: st1_def plan_safe_def)
  have r: "(case charAt s (pos st1) of None \<Rightarrow> Some st1
      | Some c \<Rightarrow> (case plan_char s c st1 of None \<Rightarrow> None | Some x \<Rightarrow> plan_loop s x)) = Some st'"
    using 1(2) unfolding plan_loop.simps[of s st] st1_def Let_def .
  show ?case
  proof (cases "charAt s (pos st1)")
    case None then show ?thesis using r ok1 by simp
  next
    case (Some c)
    then obtain x where x: "plan_char s c st1 = Some x" and rest: "plan_loop s x = Some st'"
      using r by (auto split: option.splits)
    show ?thesis by (rule 1(1)[OF st1_def Some x rest plan_char_safe[OF x ok1]])
  qed
qed

text \<open>No edit of a plan writes a reserved host global that the check can see: every edit either ends
  a statement, assigns or declares globals whose names are not reserved, or drops the keyword of a
  declarator list in which \<open>declListBindsReserved\<close> finds no reserved name; and no hoisted function has
  a reserved name.\<close>

lemma transform_keeps_reserved:
  assumes "plan_loop s plan_init = Some st"
  shows "(\<forall>e \<in> set (edits st). safe_edit s e) \<and> (\<forall>h \<in> set (hoists st). \<not> reserved (h_name h))"
  using plan_loop_safe[OF assms] by (simp add: plan_safe_def plan_init_def)

lemma transform_keeps_reserved_witness:
  "\<not> list_ex (\<lambda>h. reserved (h_name h))
        (hoists (the (plan_loop ''function fetch(){} function f(){} let crypto = 1'' plan_init)))
   \<and> hoists (the (plan_loop ''function fetch(){} function f(){} let crypto = 1'' plan_init)) \<noteq> []"
proof -
  let ?s = "''function fetch(){} function f(){} let crypto = 1''"
  have p: "plan_loop ?s plan_init \<noteq> None" by code_simp
  have n: "hoists (the (plan_loop ?s plan_init)) \<noteq> []" by code_simp
  show ?thesis
    using transform_keeps_reserved[of ?s "the (plan_loop ?s plan_init)"] p n
    by (auto simp: list_ex_iff)
qed

text \<open>The check misses reserved names: behind a comment in a later declarator, in a pattern that is
  not the first declarator, and in a declarator after a pattern.  For each of the ten reserved names
  the keyword is dropped there, so the cell assigns the host global the transform promises to keep.\<close>

lemma reserved_check_gaps:
  "list_all (\<lambda>w.
      transformCell (''let a = 1, /**/'' @ w @ '' = 2'') = ''a = 1, /**/'' @ w @ '' = 2''
      \<and> transformCell (''let a = 1, {'' @ w @ ''} = o'') = ''a = 1, {'' @ w @ ''} = o''
      \<and> transformCell (''let {a} = o, '' @ w @ '' = 2'') = ''({a} = o, '' @ w @ '' = 2)''
      \<and> transformCell (''let '' @ w @ '' = 2'') = ''let '' @ w @ '' = 2'')
    RESERVED_HOST_GLOBALS"
  by code_simp

text \<open>Valid cells the transform breaks.  A class directly followed by a declaration: the two edits at
  the shared offset are applied in the wrong order, and \<open>class A{}class B{}\<close> becomes a cell with
  \<open>= ;class B\<close> in it, which does not parse.  A bare \<open>let a\<close> ended by a newline: the newline is
  replaced with the declaration, so the next statement is glued to the call \<open>void(...)\<close>.  And without
  semicolons only the first of two initialized declarations is rewritten, so the second does not
  persist.\<close>

lemma transform_breaks:
  "transformCell ''class A{}class B{}'' =
     assign_global ''A'' @ ''class A{}'' @ assign_global ''B'' @ '';class B{};''
   \<and> transformCell (''let a'' @ [newline] @ ''f(a)'') = ''void('' @ declare_global ''a'' @ '')f(a)''
   \<and> transformCell (''let a = 1'' @ [newline] @ ''let b = 2'') = ''a = 1'' @ [newline] @ ''let b = 2''
   \<and> transformCell ''let a = 1; let b = 2'' = ''a = 1; b = 2''"
proof -
  have "transformCell ''class A{}class B{}'' =
     assign_global ''A'' @ ''class A{}'' @ assign_global ''B'' @ '';class B{};''" by code_simp
  moreover have "transformCell (''let a'' @ [newline] @ ''f(a)'') = ''void('' @ declare_global ''a'' @ '')f(a)''"
    by code_simp
  moreover have "transformCell (''let a = 1'' @ [newline] @ ''let b = 2'') = ''a = 1'' @ [newline] @ ''let b = 2''"
    by code_simp
  moreover have "transformCell ''let a = 1; let b = 2'' = ''a = 1; b = 2''" by code_simp
  ultimately show ?thesis by blast
qed

section \<open>The completion value of an awaiting cell\<close>

definition boundary_at :: "string \<Rightarrow> nat \<Rightarrow> bool" where
  "boundary_at s b \<longleftrightarrow> 0 < b \<and> b \<le> length s \<and> s ! (b - 1) \<in> {CHR '';'', CHR ''}''}"

lemma top_char_boundary:
  assumes "top_char s c st = Some st'" "charAt s (t_pos st) = Some c"
    "\<forall>b. t_boundary st = Some b \<longrightarrow> boundary_at s b"
  shows "\<forall>b. t_boundary st' = Some b \<longrightarrow> boundary_at s b"
  using assms
  by (auto simp: top_char_def top_goto_def Let_def boundary_at_def charAt_Some
      split: if_splits option.splits)

lemma top_loop_boundary:
  "top_loop s st = Some st' \<Longrightarrow> \<forall>b. t_boundary st = Some b \<longrightarrow> boundary_at s b \<Longrightarrow>
   \<forall>b. t_boundary st' = Some b \<longrightarrow> boundary_at s b"
proof (induction s st rule: top_loop.induct)
  case (1 s st)
  show ?case
  proof (cases "charAt s (t_pos st)")
    case None then show ?thesis using 1(2,3) by (simp add: top_loop.simps)
  next
    case (Some c)
    then obtain x where x: "top_char s c st = Some x" and rest: "top_loop s x = Some st'"
      using 1(2) by (subst (asm) top_loop.simps) (auto split: option.splits)
    show ?thesis by (rule 1(1)[OF Some x rest top_char_boundary[OF x Some 1(3)]])
  qed
qed

lemma scanTopLevel_boundary: "scanTopLevel s = Some (Some b) \<Longrightarrow> boundary_at s b"
  using top_loop_boundary[of s "\<lparr>t_pos = 0, t_depth = 0, t_prev = TStart, t_boundary = None\<rparr>"]
  by (auto simp: scanTopLevel_def split: option.splits if_splits)

text \<open>\<open>wrapAsyncCompletion\<close> returns the cell as it is, or, for a cell that mentions \<open>await\<close>, keeps
  everything up to a semicolon or closing brace that ends a top-level statement and returns the trimmed,
  non-empty rest, which does not start with a statement keyword or a block.\<close>

lemma wrap_async_shape:
  "wrapAsyncCompletion s = s
   \<or> (\<exists>b. has_await True s \<and> scanTopLevel s = Some (Some b) \<and> boundary_at s b
        \<and> js_trim (drop b s) \<noteq> []
        \<and> (\<nexists>w. leading_ident (js_trim (drop b s)) = Some w \<and> w \<in> set STMT_LEAD)
        \<and> hd (js_trim (drop b s)) \<noteq> CHR ''{''
        \<and> wrapAsyncCompletion s =
            take b s @ '';return ('' @ [newline] @ js_trim (drop b s) @ [newline] @ '');'')"
proof (cases "wrapAsyncCompletion s = s")
  case False
  then obtain b where b: "scanTopLevel s = Some (Some b)"
    by (auto simp: wrapAsyncCompletion_def split: if_splits option.splits)
  have "boundary_at s b" by (rule scanTopLevel_boundary[OF b])
  moreover have "charAt (js_trim (drop b s)) 0 = Some (hd (js_trim (drop b s)))" if "js_trim (drop b s) \<noteq> []"
    using that by (cases "js_trim (drop b s)") (auto simp: charAt_def)
  ultimately show ?thesis
    using False b
    by (auto simp: wrapAsyncCompletion_def Let_def split: if_splits option.splits)
qed simp

text \<open>A comment after the last semicolon counts as the trailing expression: the cell
  \<open>await f(); // done\<close> becomes one that returns an empty parenthesis, which does not parse, although
  only "trailing whitespace/comment" follows the boundary.\<close>

lemma wrap_async_comment_tail:
  "wrapAsyncCompletion ''await f(); // done'' =
     ''await f();;return ('' @ [newline] @ ''// done'' @ [newline] @ '');''
   \<and> wrapAsyncCompletion ''await f(); '' = ''await f(); ''"
  by code_simp

end
