(* ===== verification/WsClient.thy ===== *)
theory WsClient
  imports HostFetch
begin

text \<open>
  The in-VM WebSocket client of the kernel glue (\<open>kernel-glue.ts\<close>, \<open>_wsEnqueue\<close> to \<open>_wsClose\<close>): a
  registry of live sockets, each with a bounded queue of numbered frames and the parked receivers the
  next frame wakes.  The VM pulls: it asks for the first frame at or after its cursor.  The upgrade
  handshake walks redirects with the network of \<open>Ssrf\<close>; the socket itself is a parameter (what a send
  answers, and the ready state).
\<close>

section \<open>State\<close>

record ws_frame =
  wf_type :: string
  wf_seq :: nat
  wf_data :: "string option"
  wf_binary :: bool
  wf_code :: "int option"
  wf_reason :: "string option"

record ws_waiter =
  ww_id :: nat
  ww_since :: nat

record ws_state =
  ws_url :: string
  ws_queue :: "ws_frame list"
  ws_seq :: nat
  ws_waiters :: "ws_waiter list"
  ws_severed :: bool
  ws_closed :: bool
  ws_dropped :: nat

type_synonym ws_registry = "(string, ws_state) omap"

definition WS_RECV_IDLE_MS :: nat where "WS_RECV_IDLE_MS = 25000"
definition WS_RECV_POLL_MS :: nat where "WS_RECV_POLL_MS = 15"
definition WS_QUEUE_MAX_FRAMES :: nat where "WS_QUEUE_MAX_FRAMES = 1024"
definition WS_FRAME_MAX_BYTES :: nat where "WS_FRAME_MAX_BYTES = 24 * 1024 * 1024"

definition plain_frame :: "string \<Rightarrow> ws_frame" where
  "plain_frame t = \<lparr>wf_type = t, wf_seq = 0, wf_data = None, wf_binary = False, wf_code = None, wf_reason = None\<rparr>"

definition new_ws :: "string \<Rightarrow> ws_state" where
  "new_ws url = \<lparr>ws_url = url, ws_queue = [], ws_seq = 0, ws_waiters = [], ws_severed = False,
     ws_closed = False, ws_dropped = 0\<rparr>"

text \<open>What a receive resolves with.  Every value carries a sequence number; for an overflow it is the
  last number dropped.\<close>

datatype ws_event =
    EvFrame ws_frame
  | EvOverflow nat
  | EvClose (ec_code: int) (ec_severed: bool) (ec_seq: nat)
  | EvIdle nat

fun event_seq :: "ws_event \<Rightarrow> nat" where
  "event_seq (EvFrame f) = wf_seq f"
| "event_seq (EvOverflow n) = n"
| "event_seq (EvClose c b n) = n"
| "event_seq (EvIdle n) = n"

section \<open>Inbound frames\<close>

text \<open>The loop that drops the oldest frames of an over-long queue.\<close>

fun drop_oldest :: "ws_frame list \<Rightarrow> nat \<Rightarrow> ws_frame list \<times> nat" where
  "drop_oldest [] d = ([], d)"
| "drop_oldest (f # fs) d =
     (if WS_QUEUE_MAX_FRAMES < length (f # fs) then drop_oldest fs (max d (wf_seq f)) else (f # fs, d))"

text \<open>The second result is the waiter the frame wakes.\<close>

definition wsEnqueue :: "ws_state \<Rightarrow> ws_frame \<Rightarrow> ws_state \<times> (ws_waiter \<times> ws_frame) option" where
  "wsEnqueue st frame =
     (let seq = ws_seq st + 1;
          f = frame\<lparr>wf_seq := seq\<rparr>;
          (q, d) = drop_oldest (ws_queue st @ [f]) (ws_dropped st);
          st' = st\<lparr>ws_seq := seq, ws_queue := q, ws_dropped := d\<rparr>
      in case ws_waiters st of
           [] \<Rightarrow> (st', None)
         | w # ws \<Rightarrow> (st'\<lparr>ws_waiters := ws\<rparr>, Some (w, f)))"

datatype ws_payload = Text string | Binary bytes | BadBinary

text \<open>The frame the \<open>message\<close> listener enqueues.\<close>

definition message_frame :: "ws_payload \<Rightarrow> ws_frame" where
  "message_frame p =
     (case p of
        Text d \<Rightarrow>
          if WS_FRAME_MAX_BYTES < length d then (plain_frame ''overflow'')\<lparr>wf_reason := Some ''frame too large''\<rparr>
          else (plain_frame ''message'')\<lparr>wf_data := Some d\<rparr>
      | Binary b \<Rightarrow>
          if WS_FRAME_MAX_BYTES < length b then (plain_frame ''overflow'')\<lparr>wf_reason := Some ''frame too large''\<rparr>
          else (plain_frame ''message'')\<lparr>wf_data := Some (bytesToB64 b), wf_binary := True\<rparr>
      | BadBinary \<Rightarrow> (plain_frame ''error'')\<lparr>wf_reason := Some ''bad binary frame''\<rparr>)"

definition on_message :: "ws_state \<Rightarrow> ws_payload \<Rightarrow> ws_state \<times> (ws_waiter \<times> ws_frame) option" where
  "on_message st p = wsEnqueue st (message_frame p)"

definition on_close :: "ws_state \<Rightarrow> int \<Rightarrow> string \<Rightarrow> ws_state \<times> (ws_waiter \<times> ws_frame) option" where
  "on_close st code reason =
     wsEnqueue (st\<lparr>ws_closed := True\<rparr>)
       ((plain_frame ''close'')\<lparr>wf_code := Some (if code = 0 then 1000 else code), wf_reason := Some reason\<rparr>)"

definition on_error :: "ws_state \<Rightarrow> ws_state \<times> (ws_waiter \<times> ws_frame) option" where
  "on_error st = wsEnqueue st ((plain_frame ''error'')\<lparr>wf_reason := Some ''socket error''\<rparr>)"

section \<open>Receiving\<close>

definition first_from :: "nat \<Rightarrow> ws_state \<Rightarrow> ws_frame option" where
  "first_from since st = find (\<lambda>f. since \<le> wf_seq f) (ws_queue st)"

text \<open>The part of \<open>_wsRecv\<close> before parking: the overflow marker, a queued frame, or the close.\<close>

definition recv_now :: "ws_state \<Rightarrow> nat \<Rightarrow> ws_event option \<times> ws_state" where
  "recv_now st since =
     (if since \<le> ws_dropped st then (Some (EvOverflow (ws_dropped st)), st\<lparr>ws_dropped := 0\<rparr>)
      else case first_from since st of
             Some f \<Rightarrow> (Some (EvFrame f), st)
           | None \<Rightarrow> if ws_closed st then (Some (EvClose 1006 False (ws_seq st)), st) else (None, st))"

definition park :: "nat \<Rightarrow> nat \<Rightarrow> ws_state \<Rightarrow> ws_state" where
  "park wid since st = st\<lparr>ws_waiters := ws_waiters st @ [\<lparr>ww_id = wid, ww_since = since\<rparr>]\<rparr>"

definition unpark :: "nat \<Rightarrow> ws_state \<Rightarrow> ws_state" where
  "unpark wid st = st\<lparr>ws_waiters := filter (\<lambda>w. ww_id w \<noteq> wid) (ws_waiters st)\<rparr>"

text \<open>\<open>_wsRecv\<close> on the registry; \<open>None\<close> when it parks under the identity \<open>wid\<close>.\<close>

definition wsRecv :: "ws_registry \<Rightarrow> nat \<Rightarrow> string \<Rightarrow> nat \<Rightarrow> ws_event option \<times> ws_registry" where
  "wsRecv reg wid handleId since =
     (case map_of reg handleId of
        None \<Rightarrow> (Some (EvClose 1006 True since), reg)
      | Some st \<Rightarrow>
          (case recv_now st since of
             (Some ev, st') \<Rightarrow> (Some ev, AList.update handleId st' reg)
           | (None, st') \<Rightarrow> (None, AList.update handleId (park wid since st') reg)))"

definition recv_deadline :: "nat option \<Rightarrow> nat" where
  "recv_deadline timeoutMs =
     (case timeoutMs of Some t \<Rightarrow> if 0 < t then t else WS_RECV_IDLE_MS | None \<Rightarrow> WS_RECV_IDLE_MS)"

text \<open>One turn of the polling loop of a parked receive, \<open>elapsed\<close> milliseconds after it parked.\<close>

definition poll_tick :: "ws_state \<Rightarrow> nat \<Rightarrow> nat \<Rightarrow> nat \<Rightarrow> ws_event option" where
  "poll_tick st since deadline elapsed =
     (case first_from since st of
        Some f \<Rightarrow> Some (EvFrame f)
      | None \<Rightarrow>
          if ws_closed st then Some (EvClose 1006 False (ws_seq st))
          else if deadline \<le> elapsed then Some (EvIdle since)
          else None)"

text \<open>The polling loop against an environment: the socket's state and the elapsed time at each turn.\<close>

fun poll_loop :: "(nat \<Rightarrow> ws_state) \<Rightarrow> (nat \<Rightarrow> nat) \<Rightarrow> nat \<Rightarrow> nat \<Rightarrow> nat \<Rightarrow> nat \<Rightarrow> (nat \<times> ws_event) option" where
  "poll_loop states elapsed since deadline 0 k = None"
| "poll_loop states elapsed since deadline (Suc fuel) k =
     (case poll_tick (states k) since deadline (elapsed k) of
        Some ev \<Rightarrow> Some (k, ev)
      | None \<Rightarrow> poll_loop states elapsed since deadline fuel (k + 1))"

section \<open>Draining, sending, closing\<close>

definition wsPoll :: "ws_registry \<Rightarrow> (ws_state \<Rightarrow> nat) \<Rightarrow> string \<Rightarrow> nat \<Rightarrow> ws_event list \<times> nat" where
  "wsPoll reg readyState handleId since =
     (case map_of reg handleId of
        None \<Rightarrow> ([EvClose 1006 True since], 3)
      | Some st \<Rightarrow>
          (map EvFrame (filter (\<lambda>f. since \<le> wf_seq f) (ws_queue st)),
           if ws_closed st then 3 else readyState st))"

datatype ws_send_result = SendOk | SendErr string

text \<open>\<open>_wsSend\<close>; \<open>send\<close> is the socket's own send, which may throw.\<close>

definition wsSend ::
  "ws_registry \<Rightarrow> (ws_state \<Rightarrow> ws_payload \<Rightarrow> string option) \<Rightarrow> string \<Rightarrow> string option \<Rightarrow> bool \<Rightarrow> ws_send_result" where
  "wsSend reg send handleId data isBinary =
     (case map_of reg handleId of
        None \<Rightarrow> SendErr ''WsClosedError: handle gone (severed by hibernation?)''
      | Some st \<Rightarrow>
          if ws_closed st \<or> ws_severed st then SendErr ''WsClosedError: socket closed''
          else
            (let p = (case data of
                        Some d \<Rightarrow> if isBinary then map_sum id Binary (b64ToBytes d) else Inr (Text d)
                      | None \<Rightarrow> Inr (Text ''''))
             in case p of
                  Inl e \<Rightarrow> SendErr (''WsSendError: '' @ e)
                | Inr m \<Rightarrow> (case send st m of
                      None \<Rightarrow> SendOk
                    | Some e \<Rightarrow> SendErr (''WsSendError: '' @ e))))"

text \<open>\<open>_wsClose\<close>: the second result lists the parked receivers it resolves.\<close>

definition wsClose :: "ws_registry \<Rightarrow> string \<Rightarrow> int option \<Rightarrow> string \<Rightarrow> ws_registry \<times> (ws_waiter \<times> ws_frame) list" where
  "wsClose reg handleId code reason =
     (case map_of reg handleId of
        None \<Rightarrow> (reg, [])
      | Some st \<Rightarrow>
          (let f = \<lparr>wf_type = ''close'', wf_seq = ws_seq st, wf_data = None, wf_binary = False,
                    wf_code = Some (case code of None \<Rightarrow> 1000 | Some c \<Rightarrow> if c = 0 then 1000 else c),
                    wf_reason = Some reason\<rparr>
           in (AList.update handleId (st\<lparr>ws_closed := True, ws_waiters := []\<rparr>) reg,
               map (\<lambda>w. (w, f)) (ws_waiters st))))"

section \<open>Opening\<close>

text \<open>The upgrade walk: up to \<open>MAX_REDIRECT_HOPS\<close> redirects, each target checked; unlike a fetch,
  running out of hops is not an error, the last response is used.  The last component is the log.\<close>

fun upgrade_loop ::
  "network \<Rightarrow> nat \<Rightarrow> nat \<Rightarrow> string \<Rightarrow> req_init \<Rightarrow> response \<Rightarrow> (string \<times> req_init) list \<Rightarrow>
   (string, response) result \<times> (string \<times> req_init) list" where
  "upgrade_loop N 0 hop curUrl i resp log = (Inr resp, log)"
| "upgrade_loop N (Suc left) hop curUrl i resp log =
     (if \<not> is_redirect resp then (Inr resp, log)
      else case nw_parse N (the (map_of (rs_headers resp) ''location'')) (Some curUrl) of
        None \<Rightarrow> (Inl ''WsBlockedError: invalid redirect Location'', log)
      | Some next \<Rightarrow>
          if isBlockedSsrfHost (u_hostname next)
          then (Inl (''WsBlockedError: redirect to '' @ u_hostname next
                     @ '' is a blocked private/internal address''), log)
          else (let log' = log @ [(u_href next, i)] in
                case nw_fetch N (hop + 1) (u_href next) i of
                  Inl e \<Rightarrow> (Inl (''WsError: '' @ e), log')
                | Inr r \<Rightarrow> upgrade_loop N left (hop + 1) (u_href next) i r log'))"

text \<open>\<open>url.replace(/^ws:/i, "http:").replace(/^wss:/i, "https:")\<close>.\<close>

definition http_url :: "string \<Rightarrow> string" where
  "http_url url =
     (if js_lower (take 3 url) = ''ws:'' then ''http:'' @ drop 3 url
      else if js_lower (take 4 url) = ''wss:'' then ''https:'' @ drop 4 url
      else url)"

definition ws_handle :: "host_state \<Rightarrow> string" where
  "ws_handle s = ''ws:'' @ stream_id s"

fun join_protocols :: "string list \<Rightarrow> string" where
  "join_protocols [] = []"
| "join_protocols [p] = p"
| "join_protocols (p # q # ps) = p @ '', '' @ join_protocols (q # ps)"

definition upgrade_init :: "string list \<Rightarrow> req_init" where
  "upgrade_init protocols = no_init\<lparr>ri_headers := (''Upgrade'', ''websocket'') #
     (if protocols = [] then [] else [(''Sec-WebSocket-Protocol'', join_protocols protocols)])\<rparr>"

text \<open>\<open>webSocket r\<close> is the response's socket: absent, or present and acceptable or not.\<close>

definition wsOpen ::
  "network \<Rightarrow> (response \<Rightarrow> bool option) \<Rightarrow> (response \<Rightarrow> int) \<Rightarrow> host_state \<Rightarrow> ws_registry \<Rightarrow> string \<Rightarrow> string list \<Rightarrow>
   host_result \<times> ws_registry \<times> (string \<times> req_init) list" where
  "wsOpen N webSocket readyState s reg url protocols =
     (case nw_parse N url None of
        None \<Rightarrow> (HErr ''WsError: invalid url'', reg, [])
      | Some u \<Rightarrow>
          if u_protocol u \<noteq> ''ws:'' \<and> u_protocol u \<noteq> ''wss:''
          then (HErr (''WsError: only ws:/wss: URLs are allowed (got '' @ u_protocol u @ '')''), reg, [])
          else if isBlockedSsrfHost (u_hostname u)
          then (HErr (''WsBlockedError: '' @ u_hostname u @ '' is a blocked private/internal address''), reg, [])
          else if \<not> permits (hs_allow s) (u_host u)
          then (HErr (''WsBlockedError: '' @ u_host u @ '' not allowed''), reg, [])
          else
            (let handleId = ws_handle s; i = upgrade_init protocols; first = http_url url in
             case nw_fetch N 0 first i of
               Inl e \<Rightarrow> (HErr (''WsError: '' @ e), reg, [(first, i)])
             | Inr r0 \<Rightarrow>
                 (case upgrade_loop N MAX_REDIRECT_HOPS 0 first i r0 [(first, i)] of
                    (Inl e, log) \<Rightarrow> (HErr e, reg, log)
                  | (Inr r, log) \<Rightarrow>
                      (case webSocket r of
                         None \<Rightarrow> (HErr (''WsError: upstream did not upgrade (status '' @ nat_str (rs_status r) @ '')''), reg, log)
                       | Some acceptable \<Rightarrow>
                           if \<not> acceptable
                           then (HErr ''WsError: outbound socket is not acceptable (no accept())'',
                                 AList.delete handleId reg, log)
                           else
                             (HOk (JObj [(''handleId'', JStr handleId), (''url'', JStr url), (''readyState'', JNum (readyState r))]),
                              AList.update handleId (fst (wsEnqueue (new_ws url) (plain_frame ''open''))) reg,
                              log)))))"

end
