(* ===== verification/WsProps.thy ===== *)
theory WsProps
  imports WsClient
begin

text \<open>
  A session of the in-VM WebSocket client: frames arrive, the client asks for the next one and is
  answered at once or parked and woken.  The client's cursor is the largest sequence number it has seen,
  as the VM's \<open>_ingest\<close> keeps it.  Without idle answers it receives every frame exactly once and in
  order, or an overflow marker for exactly the frames lost; an idle answer breaks this.
\<close>

section \<open>The client\<close>

text \<open>\<open>if (f.seq > this._lastSeq) this._lastSeq = f.seq\<close>; it asks for \<open>lastSeq + 1\<close> next.\<close>

definition ingest_cursor :: "nat \<Rightarrow> ws_event \<Rightarrow> nat" where
  "ingest_cursor lastSeq ev = (if lastSeq < event_seq ev then event_seq ev else lastSeq)"

text \<open>The VM's \<open>recv\<close>: the first event of a poll, else a receive (\<open>None\<close> when that parks).\<close>

definition vm_recv :: "ws_state \<Rightarrow> nat \<Rightarrow> ws_event option \<times> ws_state" where
  "vm_recv st lastSeq =
     (case filter (\<lambda>f. lastSeq + 1 \<le> wf_seq f) (ws_queue st) of
        f # _ \<Rightarrow> (Some (EvFrame f), st)
      | [] \<Rightarrow> recv_now st (lastSeq + 1))"

record ws_session =
  sn_st :: ws_state
  sn_last :: nat
  sn_arrived :: "ws_frame list"
  sn_got :: "ws_event list"
  sn_waiting :: bool

definition start_session :: "string \<Rightarrow> ws_session" where
  "start_session url = \<lparr>sn_st = new_ws url, sn_last = 0, sn_arrived = [], sn_got = [], sn_waiting = False\<rparr>"

definition number_frame :: "ws_session \<Rightarrow> ws_frame \<Rightarrow> ws_frame" where
  "number_frame s f = f\<lparr>wf_seq := ws_seq (sn_st s) + 1\<rparr>"

definition receive :: "ws_session \<Rightarrow> ws_event \<Rightarrow> ws_session" where
  "receive s ev = s\<lparr>sn_got := sn_got s @ [ev], sn_last := ingest_cursor (sn_last s) ev, sn_waiting := False\<rparr>"

inductive ws_step :: "ws_session \<Rightarrow> ws_session \<Rightarrow> bool" where
  arrive:
    "wsEnqueue (sn_st s) f = (st', None) \<Longrightarrow>
     ws_step s (s\<lparr>sn_st := st', sn_arrived := sn_arrived s @ [number_frame s f]\<rparr>)"
| wake:
    "wsEnqueue (sn_st s) f = (st', Some (w, f')) \<Longrightarrow>
     ws_step s (receive (s\<lparr>sn_st := st', sn_arrived := sn_arrived s @ [number_frame s f]\<rparr>) (EvFrame f'))"
| closing:
    "ws_step s (s\<lparr>sn_st := (sn_st s)\<lparr>ws_closed := True\<rparr>\<rparr>)"
| answer:
    "\<not> sn_waiting s \<Longrightarrow> recv_now (sn_st s) (sn_last s + 1) = (Some ev, st') \<Longrightarrow>
     ws_step s (receive (s\<lparr>sn_st := st'\<rparr>) ev)"
| parks:
    "\<not> sn_waiting s \<Longrightarrow> recv_now (sn_st s) (sn_last s + 1) = (None, st') \<Longrightarrow>
     ws_step s (s\<lparr>sn_st := park wid (sn_last s + 1) st', sn_waiting := True\<rparr>)"
| polled:
    "sn_waiting s \<Longrightarrow> poll_tick (sn_st s) (sn_last s + 1) deadline elapsed = Some ev \<Longrightarrow>
     ws_waiters (sn_st s) = [w] \<Longrightarrow>
     ws_step s (receive (s\<lparr>sn_st := unpark (ww_id w) (sn_st s)\<rparr>) ev)"

inductive_cases ws_stepE: "ws_step s t"

inductive ws_reach :: "string \<Rightarrow> ws_session \<Rightarrow> bool" for url where
  start: "ws_reach url (start_session url)"
| step: "ws_reach url s \<Longrightarrow> ws_step s t \<Longrightarrow> ws_reach url t"

text \<open>The specification: the events received account for the frames numbered \<open>l + 1\<close> to \<open>l'\<close>.\<close>

fun accounts :: "ws_frame list \<Rightarrow> nat \<Rightarrow> ws_event list \<Rightarrow> nat \<Rightarrow> bool" where
  "accounts A l [] l' = (l = l')"
| "accounts A l (EvFrame f # es) l' = (l < length A \<and> f = A ! l \<and> accounts A (l + 1) es l')"
| "accounts A l (EvOverflow n # es) l' = (l < n \<and> n + WS_QUEUE_MAX_FRAMES \<le> length A \<and> accounts A n es l')"
| "accounts A l (EvClose c b n # es) l' = (n = l \<and> accounts A l es l')"
| "accounts A l (EvIdle n # es) l' = False"

lemma accounts_append: "accounts A l (es @ fs) l' \<longleftrightarrow> (\<exists>m. accounts A l es m \<and> accounts A m fs l')"
  by (induction A l es l' rule: accounts.induct) auto

lemma accounts_grow: "accounts A l es l' \<Longrightarrow> accounts (A @ B) l es l'"
  by (induction A l es l' rule: accounts.induct) (auto simp: nth_append)

definition no_idle :: "ws_event list \<Rightarrow> bool" where
  "no_idle es \<longleftrightarrow> list_all (\<lambda>e. \<not> (\<exists>n. e = EvIdle n)) es"

section \<open>The invariant\<close>

definition numbered :: "ws_frame list \<Rightarrow> bool" where
  "numbered A \<longleftrightarrow> (\<forall>i < length A. wf_seq (A ! i) = i + 1)"

text \<open>The queue is a tail of what arrived; \<open>k\<close> frames have left it.\<close>

definition queue_inv :: "ws_frame list \<Rightarrow> nat \<Rightarrow> ws_state \<Rightarrow> bool" where
  "queue_inv A lst st \<longleftrightarrow>
     numbered A \<and> ws_seq st = length A
     \<and> (\<exists>k. k \<le> length A \<and> ws_queue st = drop k A \<and> length A - k \<le> WS_QUEUE_MAX_FRAMES
          \<and> (0 < k \<longrightarrow> length A - k = WS_QUEUE_MAX_FRAMES)
          \<and> (ws_dropped st = k \<or> ws_dropped st = 0 \<and> k \<le> lst))"

lemma drop_oldest_eq:
  "length fs \<le> WS_QUEUE_MAX_FRAMES + 1 \<Longrightarrow> fs \<noteq> [] \<Longrightarrow>
   drop_oldest fs d = (if length fs = WS_QUEUE_MAX_FRAMES + 1 then (tl fs, max d (wf_seq (hd fs))) else (fs, d))"
proof (cases fs)
  case (Cons f q)
  assume le: "length fs \<le> WS_QUEUE_MAX_FRAMES + 1"
  show ?thesis
  proof (cases "length fs = WS_QUEUE_MAX_FRAMES + 1")
    case True
    then have "drop_oldest q (max d (wf_seq f)) = (q, max d (wf_seq f))" using Cons by (cases q) auto
    then show ?thesis using True Cons by simp
  next
    case False
    then show ?thesis using Cons le by auto
  qed
qed simp

lemma queue_inv_enqueue:
  assumes inv: "queue_inv A lst st" and r: "wsEnqueue st f = (st', w)"
  shows "queue_inv (A @ [f\<lparr>wf_seq := length A + 1\<rparr>]) lst st'
    \<and> ws_waiters st' = tl (ws_waiters st) \<and> ws_closed st' = ws_closed st
    \<and> w = (case ws_waiters st of [] \<Rightarrow> None | x # _ \<Rightarrow> Some (x, f\<lparr>wf_seq := length A + 1\<rparr>))"
proof -
  let ?f = "f\<lparr>wf_seq := length A + 1\<rparr>" and ?M = WS_QUEUE_MAX_FRAMES
  obtain k where k: "k \<le> length A" "ws_queue st = drop k A" "length A - k \<le> ?M"
    "0 < k \<longrightarrow> length A - k = ?M" "ws_dropped st = k \<or> ws_dropped st = 0 \<and> k \<le> lst"
    and num: "numbered A" and seq: "ws_seq st = length A"
    using inv unfolding queue_inv_def by blast
  have num': "numbered (A @ [?f])" using num by (auto simp: numbered_def nth_append less_Suc_eq)
  have q: "ws_queue st @ [?f] = drop k (A @ [?f])" using k by simp
  define B where "B = A @ [?f]"
  have lenB: "length B = length A + 1" by (simp add: B_def)
  have "drop_oldest (drop k B) (ws_dropped st) =
     (if length A - k = ?M then (drop (k + 1) B, max (ws_dropped st) (wf_seq (hd (drop k B))))
      else (drop k B, ws_dropped st))"
    using k(1,3) lenB by (subst drop_oldest_eq) (auto simp: drop_Suc tl_drop)
  then have e: "drop_oldest (ws_queue st @ [?f]) (ws_dropped st) =
     (if length A - k = ?M then (drop (k + 1) (A @ [?f]), max (ws_dropped st) (wf_seq (hd (drop k (A @ [?f])))))
      else (ws_queue st @ [?f], ws_dropped st))"
    unfolding B_def q by simp
  have hd: "k < length (A @ [?f]) \<Longrightarrow> wf_seq (hd (drop k (A @ [?f]))) = k + 1"
    using num' by (subst hd_drop_conv_nth) (auto simp: numbered_def)
  have "queue_inv (A @ [?f]) lst st'"
  proof (cases "length A - k = ?M")
    case True
    then have "ws_queue st' = drop (k + 1) (A @ [?f])" "ws_dropped st' = k + 1" "ws_seq st' = length A + 1"
      using r e hd k seq by (auto simp: wsEnqueue_def Let_def split: list.splits prod.splits)
    then show ?thesis using num' True k by (auto simp: queue_inv_def intro!: exI[of _ "k + 1"])
  next
    case False
    then have "ws_queue st' = drop k (A @ [?f])" "ws_dropped st' = ws_dropped st" "ws_seq st' = length A + 1"
      using r e q seq by (auto simp: wsEnqueue_def Let_def split: list.splits prod.splits)
    then show ?thesis using num' False k by (auto simp: queue_inv_def intro!: exI[of _ k])
  qed
  moreover have "ws_waiters st' = tl (ws_waiters st)" "ws_closed st' = ws_closed st"
    "w = (case ws_waiters st of [] \<Rightarrow> None | x # _ \<Rightarrow> Some (x, ?f))"
    using r seq by (auto simp: wsEnqueue_def Let_def split: list.splits prod.splits)
  ultimately show ?thesis by blast
qed

lemma find_split: "\<forall>x \<in> set xs. \<not> P x \<Longrightarrow> P y \<Longrightarrow> find P (xs @ y # ys) = Some y"
  by (induction xs) auto

text \<open>What \<open>find\<close> returns on the queue: the frame numbered \<open>lst + 1\<close>, if it has arrived.\<close>

lemma find_from:
  assumes "numbered A" "k \<le> lst" "k \<le> length A"
  shows "find (\<lambda>f. lst + 1 \<le> wf_seq f) (drop k A) = (if lst < length A then Some (A ! lst) else None)"
proof (cases "lst < length A")
  case True
  have "drop k A = take (lst - k) (drop k A) @ A ! lst # drop (Suc lst) A"
    using assms True id_take_nth_drop[of "lst - k" "drop k A"] by simp
  moreover have "\<forall>f \<in> set (take (lst - k) (drop k A)). wf_seq f < lst + 1"
    using assms True by (auto simp: in_set_conv_nth numbered_def)
  moreover have "wf_seq (A ! lst) = lst + 1" using assms True by (simp add: numbered_def)
  ultimately have "find (\<lambda>f. lst + 1 \<le> wf_seq f) (drop k A) = Some (A ! lst)"
    using find_split[of "take (lst - k) (drop k A)" "\<lambda>f. lst + 1 \<le> wf_seq f" "A ! lst" "drop (Suc lst) A"]
    by force
  then show ?thesis using True by simp
next
  case False
  then have "\<forall>f \<in> set (drop k A). wf_seq f < lst + 1"
    using assms by (auto simp: in_set_conv_nth numbered_def)
  then show ?thesis using False by (auto simp: find_None_iff)
qed

lemma queue_inv_first:
  assumes "queue_inv A lst st" "\<not> lst + 1 \<le> ws_dropped st" "lst \<le> length A"
  shows "first_from (lst + 1) st = (if lst < length A then Some (A ! lst) else None)"
proof -
  obtain k where "numbered A" "ws_queue st = drop k A" "k \<le> length A" "k \<le> lst"
    using assms(1,2) unfolding queue_inv_def by (metis Suc_eq_plus1 not_less_eq_eq)
  then show ?thesis unfolding first_from_def using find_from by simp
qed

definition session_inv :: "ws_session \<Rightarrow> bool" where
  "session_inv s \<longleftrightarrow>
     queue_inv (sn_arrived s) (sn_last s) (sn_st s)
     \<and> sn_last s \<le> length (sn_arrived s)
     \<and> accounts (sn_arrived s) 0 (sn_got s) (sn_last s)
     \<and> (sn_waiting s \<longrightarrow> (\<exists>w. ws_waiters (sn_st s) = [w]) \<and> sn_last s = length (sn_arrived s)
                        \<and> \<not> sn_last s + 1 \<le> ws_dropped (sn_st s))
     \<and> (\<not> sn_waiting s \<longrightarrow> ws_waiters (sn_st s) = [])"

lemma queue_inv_advance: "queue_inv A lst st \<Longrightarrow> queue_inv A (lst + 1) st"
  unfolding queue_inv_def by force

text \<open>Answering without parking.\<close>

lemma recv_now_inv:
  assumes inv: "queue_inv A lst st" "lst \<le> length A" and r: "recv_now st (lst + 1) = (Some ev, st')"
  shows "queue_inv A (ingest_cursor lst ev) st' \<and> ingest_cursor lst ev \<le> length A
    \<and> accounts A lst [ev] (ingest_cursor lst ev) \<and> ws_waiters st' = ws_waiters st"
proof (cases "lst + 1 \<le> ws_dropped st")
  case True
  then have ev: "ev = EvOverflow (ws_dropped st)" and st': "st' = st\<lparr>ws_dropped := 0\<rparr>"
    using r by (auto simp: recv_now_def)
  obtain k where k: "k \<le> length A" "ws_queue st = drop k A" "length A - k \<le> WS_QUEUE_MAX_FRAMES"
    "0 < k \<longrightarrow> length A - k = WS_QUEUE_MAX_FRAMES" "ws_dropped st = k \<or> ws_dropped st = 0 \<and> k \<le> lst"
    and n: "numbered A" "ws_seq st = length A"
    using inv(1) unfolding queue_inv_def by blast
  then have "ws_dropped st = k" "lst < k" using True by auto
  moreover have "queue_inv A k st'"
    unfolding queue_inv_def using k n st' by (auto intro!: exI[of _ k])
  ultimately show ?thesis using k ev st' by (auto simp: ingest_cursor_def)
next
  case False
  note first = queue_inv_first[OF inv(1) False inv(2)]
  show ?thesis
  proof (cases "lst < length A")
    case True
    then have ev: "ev = EvFrame (A ! lst)" "st' = st" using r False first by (auto simp: recv_now_def)
    have "wf_seq (A ! lst) = lst + 1" using inv(1) True by (auto simp: queue_inv_def numbered_def)
    moreover have "queue_inv A (lst + 1) st" using inv(1) by (rule queue_inv_advance)
    ultimately show ?thesis using ev True by (simp add: ingest_cursor_def)
  next
    case nl: False
    then have "ev = EvClose 1006 False (ws_seq st)" "st' = st" "ws_seq st = lst"
      using r False first inv by (auto simp: recv_now_def queue_inv_def split: if_splits)
    then show ?thesis using inv by (simp add: ingest_cursor_def)
  qed
qed

lemma recv_now_parks:
  assumes inv: "queue_inv A lst st" "lst \<le> length A" and r: "recv_now st (lst + 1) = (None, st')"
  shows "st' = st \<and> lst = length A \<and> \<not> lst + 1 \<le> ws_dropped st"
proof -
  have nd: "\<not> lst + 1 \<le> ws_dropped st" and st': "st' = st" and n: "first_from (lst + 1) st = None"
    using r by (auto simp: recv_now_def split: if_splits option.splits)
  then show ?thesis using queue_inv_first[OF inv(1) nd inv(2)] inv(2) by (auto split: if_splits)
qed

lemma queue_inv_waiters: "queue_inv A lst (st\<lparr>ws_waiters := w\<rparr>) = queue_inv A lst st"
  by (simp add: queue_inv_def)

lemma queue_inv_closed: "queue_inv A lst (st\<lparr>ws_closed := c\<rparr>) = queue_inv A lst st"
  by (simp add: queue_inv_def)

lemma ws_step_inv:
  assumes "ws_step s t" "session_inv s" "no_idle (sn_got t)"
  shows "session_inv t"
  using assms(1)
proof (cases rule: ws_step.cases)
  case (arrive f st')
  let ?A = "sn_arrived s @ [f\<lparr>wf_seq := length (sn_arrived s) + 1\<rparr>]"
  have q: "queue_inv (sn_arrived s) (sn_last s) (sn_st s)" using assms(2) by (simp add: session_inv_def)
  note e = queue_inv_enqueue[OF q arrive(2)]
  have nw: "ws_waiters (sn_st s) = []" using e by (cases "ws_waiters (sn_st s)") auto
  then have "\<not> sn_waiting s" using assms(2) by (auto simp: session_inv_def)
  moreover have "sn_arrived t = ?A" using arrive(1) q by (simp add: number_frame_def queue_inv_def)
  ultimately show ?thesis using e nw assms(2) arrive(1) by (auto simp: session_inv_def accounts_grow)
next
  case (wake f st' w f')
  let ?f = "f\<lparr>wf_seq := length (sn_arrived s) + 1\<rparr>"
  have q: "queue_inv (sn_arrived s) (sn_last s) (sn_st s)" using assms(2) by (simp add: session_inv_def)
  note e = queue_inv_enqueue[OF q wake(2)]
  obtain w' where w': "ws_waiters (sn_st s) = [w']" "sn_last s = length (sn_arrived s)"
    using e assms(2) by (cases "sn_waiting s") (auto simp: session_inv_def)
  then have f': "f' = ?f" using e by simp
  have A: "sn_arrived t = sn_arrived s @ [?f]"
    using wake(1) q by (simp add: receive_def number_frame_def queue_inv_def)
  have "accounts (sn_arrived s @ [?f]) 0 (sn_got s @ [EvFrame ?f]) (length (sn_arrived s) + 1)"
    using assms(2) w'(2) by (auto simp: session_inv_def accounts_append intro!: exI[of _ "length (sn_arrived s)"] accounts_grow)
  then show ?thesis
    using e w' A f' wake(1) assms(2)
    by (auto simp: session_inv_def receive_def ingest_cursor_def dest: queue_inv_advance)
next
  case closing
  then show ?thesis using assms(2) by (auto simp: session_inv_def queue_inv_closed)
next
  case (answer ev st')
  have i: "queue_inv (sn_arrived s) (sn_last s) (sn_st s)" "sn_last s \<le> length (sn_arrived s)"
    using assms(2) by (auto simp: session_inv_def)
  note r = recv_now_inv[OF i answer(3)]
  then show ?thesis using assms(2) answer(1,2) by (auto simp: session_inv_def receive_def accounts_append)
next
  case (parks st' wid)
  have i: "queue_inv (sn_arrived s) (sn_last s) (sn_st s)" "sn_last s \<le> length (sn_arrived s)"
    using assms(2) by (auto simp: session_inv_def)
  note r = recv_now_parks[OF i parks(3)]
  then show ?thesis using assms(2) parks(1,2)
    by (auto simp: session_inv_def park_def queue_inv_waiters)
next
  case (polled deadline elapsed ev w)
  have i: "queue_inv (sn_arrived s) (sn_last s) (sn_st s)" "sn_last s = length (sn_arrived s)"
    "\<not> sn_last s + 1 \<le> ws_dropped (sn_st s)" "accounts (sn_arrived s) 0 (sn_got s) (sn_last s)"
    using assms(2) polled(2) by (auto simp: session_inv_def)
  have "first_from (sn_last s + 1) (sn_st s) = None" using queue_inv_first[OF i(1,3)] i(2) by simp
  moreover have "\<nexists>n. ev = EvIdle n" using assms(3) polled(1) by (auto simp: receive_def no_idle_def)
  ultimately have ev: "ev = EvClose 1006 False (sn_last s)"
    using polled(3) i(1,2) by (auto simp: poll_tick_def queue_inv_def split: if_splits)
  then show ?thesis
    using i polled(1,4) by (auto simp: session_inv_def receive_def ingest_cursor_def unpark_def queue_inv_waiters accounts_append)
qed

lemma start_inv: "session_inv (start_session url)"
  by (simp add: session_inv_def start_session_def new_ws_def queue_inv_def numbered_def)

lemma step_got: "ws_step s t \<Longrightarrow> no_idle (sn_got t) \<Longrightarrow> no_idle (sn_got s)"
  by (erule ws_step.cases) (auto simp: receive_def no_idle_def)

lemma reach_inv: "ws_reach url s \<Longrightarrow> no_idle (sn_got s) \<Longrightarrow> session_inv s"
  by (induction rule: ws_reach.induct) (auto simp: start_inv intro: ws_step_inv step_got)

section \<open>Properties\<close>


lemma quiet_enqueue:
  assumes "ws_waiters st = []" "length (ws_queue st) < WS_QUEUE_MAX_FRAMES"
  shows "wsEnqueue st f =
    (st\<lparr>ws_seq := ws_seq st + 1, ws_queue := ws_queue st @ [f\<lparr>wf_seq := ws_seq st + 1\<rparr>]\<rparr>, None)"
  using assms by (simp add: wsEnqueue_def Let_def drop_oldest_eq)

definition frame_no :: "nat \<Rightarrow> ws_frame \<Rightarrow> ws_frame" where
  "frame_no n f = f\<lparr>wf_seq := n\<rparr>"

definition ws_with :: "string \<Rightarrow> ws_frame list \<Rightarrow> ws_state" where
  "ws_with url fs = (new_ws url)\<lparr>ws_seq := length fs, ws_queue := fs\<rparr>"

text \<open>A frame arrives at a session that is not waiting and whose queue has room.\<close>

lemma arrive_quiet:
  assumes "ws_reach url \<lparr>sn_st = ws_with url fs, sn_last = l, sn_arrived = fs, sn_got = g, sn_waiting = False\<rparr>"
    and "length fs < WS_QUEUE_MAX_FRAMES"
  shows "ws_reach url \<lparr>sn_st = ws_with url (fs @ [frame_no (length fs + 1) f]), sn_last = l,
     sn_arrived = fs @ [frame_no (length fs + 1) f], sn_got = g, sn_waiting = False\<rparr>"
proof -
  let ?s = "\<lparr>sn_st = ws_with url fs, sn_last = l, sn_arrived = fs, sn_got = g, sn_waiting = False\<rparr>"
  have "wsEnqueue (sn_st ?s) f = (ws_with url (fs @ [frame_no (length fs + 1) f]), None)"
    using assms(2) by (simp add: quiet_enqueue ws_with_def new_ws_def frame_no_def)
  from ws_step.arrive[OF this] have "ws_step ?s (?s\<lparr>sn_st := ws_with url (fs @ [frame_no (length fs + 1) f]),
     sn_arrived := fs @ [frame_no (length fs + 1) f]\<rparr>)"
    by (simp add: number_frame_def frame_no_def ws_with_def)
  then show ?thesis using ws_reach.step[OF assms(1)] by simp
qed

lemma answer_quiet:
  assumes r: "ws_reach url \<lparr>sn_st = ws_with url fs, sn_last = l, sn_arrived = fs, sn_got = g, sn_waiting = False\<rparr>"
    and f: "find (\<lambda>f. l + 1 \<le> wf_seq f) fs = Some f"
  shows "ws_reach url \<lparr>sn_st = ws_with url fs, sn_last = ingest_cursor l (EvFrame f), sn_arrived = fs,
     sn_got = g @ [EvFrame f], sn_waiting = False\<rparr>"
proof -
  let ?s = "\<lparr>sn_st = ws_with url fs, sn_last = l, sn_arrived = fs, sn_got = g, sn_waiting = False\<rparr>"
  have "recv_now (sn_st ?s) (sn_last ?s + 1) = (Some (EvFrame f), ws_with url fs)"
    using f by (simp add: recv_now_def first_from_def ws_with_def new_ws_def)
  from ws_step.answer[OF _ this] ws_reach.step[OF r] show ?thesis by (simp add: receive_def)
qed

text \<open>An idle client: it parks with nothing to receive and its deadline passes.\<close>

lemma idle_quiet:
  assumes r: "ws_reach url \<lparr>sn_st = ws_with url fs, sn_last = l, sn_arrived = fs, sn_got = g, sn_waiting = False\<rparr>"
    and n: "find (\<lambda>f. l + 1 \<le> wf_seq f) fs = None"
  shows "ws_reach url \<lparr>sn_st = ws_with url fs, sn_last = l + 1, sn_arrived = fs,
     sn_got = g @ [EvIdle (l + 1)], sn_waiting = False\<rparr>"
proof -
  let ?s = "\<lparr>sn_st = ws_with url fs, sn_last = l, sn_arrived = fs, sn_got = g, sn_waiting = False\<rparr>"
  let ?t = "?s\<lparr>sn_st := park 0 (l + 1) (ws_with url fs), sn_waiting := True\<rparr>"
  have "recv_now (sn_st ?s) (sn_last ?s + 1) = (None, ws_with url fs)"
    using n by (simp add: recv_now_def first_from_def ws_with_def new_ws_def)
  from ws_step.parks[OF _ this] have t: "ws_reach url ?t" using ws_reach.step[OF r] by simp
  have "poll_tick (sn_st ?t) (sn_last ?t + 1) 0 0 = Some (EvIdle (l + 1))"
    using n by (simp add: poll_tick_def park_def first_from_def ws_with_def new_ws_def)
  moreover have "ws_waiters (sn_st ?t) = [\<lparr>ww_id = 0, ww_since = l + 1\<rparr>]"
    by (simp add: park_def ws_with_def new_ws_def)
  ultimately have "ws_step ?t (receive (?t\<lparr>sn_st := unpark 0 (sn_st ?t)\<rparr>) (EvIdle (l + 1)))"
    using ws_step.polled[of ?t 0 0] by fastforce
  then show ?thesis
    using ws_reach.step[OF t]
    by (simp add: receive_def ingest_cursor_def unpark_def park_def ws_with_def new_ws_def)
qed

text \<open>An idle answer loses the next frame: it carries the sequence number the client asked for, the
  client's cursor moves past it, and the frame that then arrives under this number is never asked for.
  For any frames \<open>a\<close>, \<open>b\<close> there is a session in which three frames arrive and the client receives the
  first and the third.\<close>

theorem ws_idle_loses_frame:
  "\<exists>s. ws_reach url s \<and> sn_arrived s = [frame_no 1 o1, frame_no 2 a, frame_no 3 b]
     \<and> sn_got s = [EvFrame (frame_no 1 o1), EvIdle 2, EvFrame (frame_no 3 b)] \<and> sn_last s = 3"
proof -
  have seqs: "wf_seq (frame_no n f) = n" for n f by (simp add: frame_no_def)
  have q: "WS_QUEUE_MAX_FRAMES = 1024" by (simp add: WS_QUEUE_MAX_FRAMES_def)
  let ?o = "frame_no 1 o1" and ?a = "frame_no 2 a" and ?b = "frame_no 3 b"
  have "ws_reach url \<lparr>sn_st = ws_with url [], sn_last = 0, sn_arrived = [], sn_got = [], sn_waiting = False\<rparr>"
    using ws_reach.start[of url] by (simp add: start_session_def ws_with_def new_ws_def)
  from arrive_quiet[OF this, of o1]
  have "ws_reach url \<lparr>sn_st = ws_with url [?o], sn_last = 0, sn_arrived = [?o], sn_got = [], sn_waiting = False\<rparr>"
    by (simp add: q)
  from answer_quiet[OF this, of ?o]
  have "ws_reach url \<lparr>sn_st = ws_with url [?o], sn_last = 1, sn_arrived = [?o], sn_got = [EvFrame ?o], sn_waiting = False\<rparr>"
    by (simp add: seqs ingest_cursor_def)
  from idle_quiet[OF this]
  have "ws_reach url \<lparr>sn_st = ws_with url [?o], sn_last = 2, sn_arrived = [?o],
      sn_got = [EvFrame ?o, EvIdle 2], sn_waiting = False\<rparr>"
    by (simp add: seqs numeral_2_eq_2)
  from arrive_quiet[OF this, of a]
  have "ws_reach url \<lparr>sn_st = ws_with url [?o, ?a], sn_last = 2, sn_arrived = [?o, ?a],
      sn_got = [EvFrame ?o, EvIdle 2], sn_waiting = False\<rparr>"
    by (simp add: q numeral_2_eq_2)
  from arrive_quiet[OF this, of b]
  have "ws_reach url \<lparr>sn_st = ws_with url [?o, ?a, ?b], sn_last = 2, sn_arrived = [?o, ?a, ?b],
      sn_got = [EvFrame ?o, EvIdle 2], sn_waiting = False\<rparr>"
    by (simp add: q numeral_3_eq_3)
  from answer_quiet[OF this, of ?b]
  have "ws_reach url \<lparr>sn_st = ws_with url [?o, ?a, ?b], sn_last = 3, sn_arrived = [?o, ?a, ?b],
      sn_got = [EvFrame ?o, EvIdle 2, EvFrame ?b], sn_waiting = False\<rparr>"
    by (simp add: seqs ingest_cursor_def)
  then show ?thesis by fastforce
qed


text \<open>A parked receive settles: if the polling turns come at least \<open>WS_RECV_POLL_MS\<close> apart, then
  whatever happens to the socket, one of the first \<open>deadline / WS_RECV_POLL_MS + 1\<close> turns resolves it.\<close>

theorem ws_recv_settles:
  assumes clock: "\<And>n. n * WS_RECV_POLL_MS \<le> elapsed n"
  shows "\<exists>n ev. n \<le> deadline div WS_RECV_POLL_MS + 1 \<and>
    poll_loop states elapsed since deadline (deadline div WS_RECV_POLL_MS + 2) 0 = Some (n, ev)"
proof -
  let ?K = "deadline div WS_RECV_POLL_MS + 1"
  have late: "deadline \<le> elapsed ?K"
  proof -
    have "deadline mod WS_RECV_POLL_MS < WS_RECV_POLL_MS" by (simp add: WS_RECV_POLL_MS_def)
    then have "deadline \<le> ?K * WS_RECV_POLL_MS"
      using div_mult_mod_eq[of deadline WS_RECV_POLL_MS] unfolding add_mult_distrib by linarith
    then show ?thesis using clock[of ?K] by simp
  qed
  have last: "poll_tick (states ?K) since deadline (elapsed ?K) \<noteq> None"
    using late by (simp add: poll_tick_def split: option.splits)
  have "\<exists>n ev. n \<le> ?K \<and> poll_loop states elapsed since deadline fuel k = Some (n, ev)"
    if "k \<le> ?K" "?K < k + fuel" for fuel k
    using that
  proof (induction fuel arbitrary: k)
    case (Suc fuel)
    show ?case
    proof (cases "poll_tick (states k) since deadline (elapsed k)")
      case (Some ev)
      then show ?thesis using Suc.prems by auto
    next
      case None
      then have "k \<noteq> ?K" using last by auto
      then show ?thesis using Suc.IH[of "k + 1"] Suc.prems None by simp
    qed
  qed simp
  from this[of 0 "deadline div WS_RECV_POLL_MS + 2"] show ?thesis by simp
qed

lemma ws_recv_settles_witness:
  "\<exists>n ev. n \<le> (30::nat) div WS_RECV_POLL_MS + 1 \<and>
    poll_loop (\<lambda>_. new_ws []) (\<lambda>n. n * WS_RECV_POLL_MS) 1 30 (30 div WS_RECV_POLL_MS + 2) 0 = Some (n, ev)"
  by (rule ws_recv_settles) simp

text \<open>When frames were pushed out, the VM's receive (which polls first) answers with the first frame still
  queued and moves the cursor past the lost ones: the overflow marker a direct receive would give is
  never seen.\<close>

lemma ws_poll_hides_overflow:
  assumes inv: "queue_inv A lst st" and lost: "lst + 1 \<le> ws_dropped st" and "ws_queue st \<noteq> []"
  shows "fst (recv_now st (lst + 1)) = Some (EvOverflow (ws_dropped st))
    \<and> (\<exists>f. vm_recv st lst = (Some (EvFrame f), st) \<and> wf_seq f = ws_dropped st + 1
         \<and> \<not> ingest_cursor lst (EvFrame f) + 1 \<le> ws_dropped st)"
proof -
  obtain k where k: "k \<le> length A" "ws_queue st = drop k A" "ws_dropped st = k" and n: "numbered A"
    using inv lost unfolding queue_inv_def by force
  then have lt: "k < length A" using assms(3) by auto
  have q: "ws_queue st = A ! k # drop (k + 1) A" using k(2) lt by (simp add: Cons_nth_drop_Suc)
  have s: "wf_seq (A ! k) = k + 1" using n lt by (simp add: numbered_def)
  have "vm_recv st lst = (Some (EvFrame (A ! k)), st)"
    using lost k(3) s by (simp add: vm_recv_def q)
  then show ?thesis using lost k(3) s by (simp add: recv_now_def ingest_cursor_def)
qed

end
