(* ===== verification/CellLoop.thy ===== *)
theory CellLoop
  imports HostFetch ReplTransform Complex_Main
begin

text \<open>
  Evaluating a cell (\<open>evalCode\<close>, \<open>_applyConfig\<close>, \<open>replayJournal\<close> of \<open>kernel-glue.ts\<close>): the configuration a
  kernel reads, the source pipeline, the budgets, and the loop that services the engine's host calls and
  resumes it, recording every result and, during a replay, feeding the recorded ones.  The engine (a
  WebAssembly module) is a parameter: its begin and resume steps, the pending request and the result
  buffer.  What services a call is a parameter of the loop; the routing is in \<open>HostCalls\<close>.
\<close>

section \<open>Configuration\<close>

record ext_limits =
  el_callsPerCell :: "int option"
  el_maxResultBytes :: "int option"

record ext_decl =
  ed_name :: string
  ed_kind :: "string option"
  ed_limits :: ext_limits
  ed_tools :: "string list"

datatype modules_config = ModUnset | ModDefault | ModNone | ModAll | ModNames "string list"

record kernel_config =
  kc_rngSeed :: "int option"
  kc_clockReal :: bool
  kc_typescript :: "bool option"
  kc_fetch :: "allow option"
  kc_extensions :: "ext_decl list"
  kc_modules :: modules_config
  kc_cellBudgetTicks :: "rat option"
  kc_cellGrowCapPages :: "int option"
  kc_maxHostCallsPerCell :: "int option"
  kc_maxStreamOpsPerCell :: "int option"
  kc_maxWsOpsPerCell :: "int option"
  kc_maxFsOpsPerCell :: "int option"

definition CLOCK_EPOCH_BASE_MS :: int where "CLOCK_EPOCH_BASE_MS = 1700000000000"
definition EXT_MAX_CALLS_PER_CELL :: int where "EXT_MAX_CALLS_PER_CELL = 64"
definition EXT_MAX_RESULT_BYTES :: int where "EXT_MAX_RESULT_BYTES = 65536"
definition WS_MAX_OPS_PER_CELL :: int where "WS_MAX_OPS_PER_CELL = 4096"

text \<open>\<open>(x ?? 0) || d\<close>.\<close>

definition or_default :: "int option \<Rightarrow> int \<Rightarrow> int" where
  "or_default x d = (case x of None \<Rightarrow> d | Some n \<Rightarrow> if n = 0 then d else n)"

record ext_tool =
  et_ext :: string
  et_callsPerCell :: int
  et_maxResultBytes :: int

definition ext_limit :: "int \<Rightarrow> int option \<Rightarrow> int" where
  "ext_limit cap given =
     (let n = to_int32 (case given of None \<Rightarrow> 0 | Some g \<Rightarrow> g)
      in max 1 (min cap (if n = 0 then cap else n)))"

definition ext_entries :: "ext_decl \<Rightarrow> (string \<times> ext_tool) list" where
  "ext_entries e =
     (if ed_name e = [] \<or> (case ed_kind e of None \<Rightarrow> False | Some k \<Rightarrow> k \<noteq> [] \<and> k \<noteq> ''client'') then []
      else map (\<lambda>fn. (ed_name e @ ''.'' @ fn,
                      \<lparr>et_ext = ed_name e,
                       et_callsPerCell = ext_limit EXT_MAX_CALLS_PER_CELL (el_callsPerCell (ed_limits e)),
                       et_maxResultBytes = ext_limit EXT_MAX_RESULT_BYTES (el_maxResultBytes (ed_limits e))\<rparr>))
             (filter (\<lambda>fn. fn \<noteq> []) (ed_tools e)))"

definition resolveExtensions :: "ext_decl list \<Rightarrow> (string, ext_tool) omap" where
  "resolveExtensions exts = foldl (\<lambda>m (k, t). AList.update k t m) [] (concat (map ext_entries exts))"

record kernel =
  k_rngSeed :: int
  k_clockSeed :: int
  k_tsEnabled :: bool
  k_fetchAllow :: allow
  k_extTools :: "(string, ext_tool) omap"

text \<open>\<open>now\<close> is the wall clock in milliseconds.\<close>

definition applyConfig :: "int \<Rightarrow> kernel_config \<Rightarrow> kernel" where
  "applyConfig now cfg =
     \<lparr>k_rngSeed = (let s = to_uint32 (case kc_rngSeed cfg of None \<Rightarrow> 0 | Some n \<Rightarrow> n) in if s = 0 then 42 else s),
      k_clockSeed = (if kc_clockReal cfg then max 0 (now - CLOCK_EPOCH_BASE_MS) else 0),
      k_tsEnabled = (kc_typescript cfg \<noteq> Some False),
      k_fetchAllow = (case kc_fetch cfg of None \<Rightarrow> AllowAll | Some a \<Rightarrow> a),
      k_extTools = resolveExtensions (kc_extensions cfg)\<rparr>"

text \<open>The preloaded standard library: \<open>bundle\<close> are the modules present with their sources, \<open>names\<close>,
  \<open>optIn\<close> and \<open>defaults\<close> the catalog.\<close>

definition MAX_STDLIB_SOURCE_BYTES :: nat where "MAX_STDLIB_SOURCE_BYTES = 500 * 1024"

record stdlib_catalog =
  sc_bundle :: "(string, string) omap"
  sc_names :: "string list"
  sc_optIn :: "string list"
  sc_defaults :: "string list"

definition available :: "stdlib_catalog \<Rightarrow> string \<Rightarrow> bool" where
  "available C n = (map_of (sc_bundle C) n \<noteq> None)"

definition resolveStdlibModules :: "stdlib_catalog \<Rightarrow> modules_config \<Rightarrow> string list" where
  "resolveStdlibModules C m =
     (let defaults = filter (available C) (sc_defaults C) in
      case m of
        ModNone \<Rightarrow> []
      | ModUnset \<Rightarrow> defaults
      | ModDefault \<Rightarrow> defaults
      | ModAll \<Rightarrow> filter (\<lambda>n. available C n \<and> \<not> List.member (sc_optIn C) n) (sc_names C)
      | ModNames ns \<Rightarrow> rev (remdups (rev (defaults @ filter (available C) ns))))"

text \<open>The admission of the injected sources: an error, or the modules to evaluate.\<close>

definition stdlib_total :: "stdlib_catalog \<Rightarrow> string list \<Rightarrow> nat" where
  "stdlib_total C ms = sum_list (map (\<lambda>n. case map_of (sc_bundle C) n of None \<Rightarrow> 0 | Some s \<Rightarrow> length s) ms)"

definition injectStdlib :: "stdlib_catalog \<Rightarrow> modules_config \<Rightarrow> (string, string list) result" where
  "injectStdlib C m =
     (let ms = resolveStdlibModules C m; total = stdlib_total C ms in
      if ms = [] then Inr []
      else if MAX_STDLIB_SOURCE_BYTES < total then
        Inl (''SizeAdmissionError: selected stdlib source '' @ nat_str total @ '' > MAX_STDLIB_SOURCE_BYTES ''
             @ nat_str MAX_STDLIB_SOURCE_BYTES @ '' (modules: '' @ js_join CHR '','' ms @ '')'')
      else Inr (filter (available C) ms))"

section \<open>Budgets\<close>

definition CELL_BUDGET_TICKS_MIN :: int where "CELL_BUDGET_TICKS_MIN = 1"
definition CELL_BUDGET_TICKS_DEFAULT :: int where "CELL_BUDGET_TICKS_DEFAULT = 500000"
definition CELL_BUDGET_TICKS_MAX :: int where "CELL_BUDGET_TICKS_MAX = 5000000"

text \<open>A tick budget that is missing or not finite is \<open>None\<close>.\<close>

definition budget_ticks :: "rat option \<Rightarrow> int" where
  "budget_ticks raw =
     (case raw of
        None \<Rightarrow> CELL_BUDGET_TICKS_DEFAULT
      | Some r \<Rightarrow> if 0 < r then min (max \<lfloor>r\<rfloor> CELL_BUDGET_TICKS_MIN) CELL_BUDGET_TICKS_MAX
                  else CELL_BUDGET_TICKS_DEFAULT)"

record budgets =
  b_host :: int
  b_stream :: int
  b_ws :: int
  b_fs :: int

definition cell_budgets :: "kernel_config \<Rightarrow> budgets" where
  "cell_budgets cfg =
     \<lparr>b_host = or_default (kc_maxHostCallsPerCell cfg) 64,
      b_stream = or_default (kc_maxStreamOpsPerCell cfg) 4096,
      b_ws = or_default (kc_maxWsOpsPerCell cfg) WS_MAX_OPS_PER_CELL,
      b_fs = or_default (kc_maxFsOpsPerCell cfg) 8192\<rparr>"

section \<open>The host-call loop\<close>

datatype status = StatusDone | StatusHostCall

record host_call =
  hc_name :: string
  hc_args :: "json list"

record 'e vm_engine =
  eg_begin :: "'e \<Rightarrow> bytes \<Rightarrow> int \<Rightarrow> int \<Rightarrow> status \<times> 'e"
  eg_resume :: "'e \<Rightarrow> host_result \<Rightarrow> status \<times> 'e"
  eg_request :: "'e \<Rightarrow> host_call"
  eg_result :: "'e \<Rightarrow> string"
  eg_reserve :: "nat \<Rightarrow> 'e \<Rightarrow> 'e"
  eg_cap :: "'e \<Rightarrow> nat"
  eg_release :: "'e \<Rightarrow> 'e"

text \<open>The variables of the loop.  \<open>ls_host\<close> is the host's state, \<open>ls_replay\<close> the recorded results still to
  be fed during a replay, \<open>ls_log\<close> the results given so far.\<close>

record ('e, 'h) loop_state =
  ls_status :: status
  ls_engine :: 'e
  ls_guard :: int
  ls_stream :: int
  ls_ws :: int
  ls_fs :: int
  ls_replay :: "host_result list"
  ls_host :: 'h
  ls_log :: "host_result list"

definition stream_ops :: "string list" where
  "stream_ops = [''streamRead'', ''streamWrite'', ''socket.read'', ''socket.write'']"

definition ws_ops :: "string list" where
  "ws_ops = [''ws.recv'', ''ws.poll'', ''ws.send'']"

text \<open>Which counter a call is charged to.\<close>

definition charge :: "string \<Rightarrow> ('e, 'h) loop_state \<Rightarrow> ('e, 'h) loop_state" where
  "charge name st =
     (if List.member stream_ops name then st\<lparr>ls_stream := ls_stream st + 1\<rparr>
      else if List.member ws_ops name then st\<lparr>ls_ws := ls_ws st + 1\<rparr>
      else if name = ''__fs'' then st\<lparr>ls_fs := ls_fs st + 1\<rparr>
      else st\<lparr>ls_guard := ls_guard st + 1\<rparr>)"

definition within_budgets :: "budgets \<Rightarrow> ('e, 'h) loop_state \<Rightarrow> bool" where
  "within_budgets B st \<longleftrightarrow> ls_guard st \<le> b_host B \<and> ls_stream st \<le> b_stream B
     \<and> ls_ws st \<le> b_ws B \<and> ls_fs st \<le> b_fs B"

text \<open>The result of a call: the next recorded one, if any is left, else the service's; \<open>svc\<close> also gets
  the ordinal of the call in the cell (\<open>_curFetchSeq\<close>).\<close>

definition answer_call ::
  "('h \<Rightarrow> nat \<Rightarrow> host_call \<Rightarrow> host_result \<times> 'h) \<Rightarrow> host_call \<Rightarrow> ('e, 'h) loop_state \<Rightarrow> ('e, 'h) loop_state" where
  "answer_call svc req st =
     (case ls_replay st of
        r # rs \<Rightarrow> st\<lparr>ls_replay := rs, ls_log := ls_log st @ [r]\<rparr>
      | [] \<Rightarrow> (let (r, h) = svc (ls_host st) (length (ls_log st)) req
               in st\<lparr>ls_host := h, ls_log := ls_log st @ [r]\<rparr>))"

definition resume :: "'e vm_engine \<Rightarrow> ('e, 'h) loop_state \<Rightarrow> ('e, 'h) loop_state" where
  "resume E st = (let (s, e) = eg_resume E (ls_engine st) (last (ls_log st))
                  in st\<lparr>ls_status := s, ls_engine := e\<rparr>)"

definition loop_body ::
  "'e vm_engine \<Rightarrow> ('h \<Rightarrow> nat \<Rightarrow> host_call \<Rightarrow> host_result \<times> 'h) \<Rightarrow> ('e, 'h) loop_state \<Rightarrow> ('e, 'h) loop_state" where
  "loop_body E svc st =
     (let req = eg_request E (ls_engine st)
      in resume E (answer_call svc req (charge (hc_name req) st)))"

text \<open>What is left of the four budgets; every round spends one.\<close>

definition left :: "budgets \<Rightarrow> ('e, 'h) loop_state \<Rightarrow> nat" where
  "left B st = nat (b_host B + 1 - ls_guard st) + nat (b_stream B + 1 - ls_stream st)
     + nat (b_ws B + 1 - ls_ws st) + nat (b_fs B + 1 - ls_fs st)"

lemma loop_body_counters:
  "ls_guard (loop_body E svc st) = ls_guard (charge (hc_name (eg_request E (ls_engine st))) st)"
  "ls_stream (loop_body E svc st) = ls_stream (charge (hc_name (eg_request E (ls_engine st))) st)"
  "ls_ws (loop_body E svc st) = ls_ws (charge (hc_name (eg_request E (ls_engine st))) st)"
  "ls_fs (loop_body E svc st) = ls_fs (charge (hc_name (eg_request E (ls_engine st))) st)"
  by (simp_all add: loop_body_def resume_def answer_call_def Let_def split: list.split prod.split)

lemma spend_one: "a \<le> b \<Longrightarrow> Suc (nat (b - a)) = nat (b + 1 - a)" for a b :: int
  by simp

lemma left_decreases: "within_budgets B st \<Longrightarrow> left B (loop_body E svc st) + 1 = left B st"
  by (auto simp: left_def loop_body_counters within_budgets_def charge_def spend_one)

function cell_loop ::
  "'e vm_engine \<Rightarrow> ('h \<Rightarrow> nat \<Rightarrow> host_call \<Rightarrow> host_result \<times> 'h) \<Rightarrow> budgets \<Rightarrow> ('e, 'h) loop_state \<Rightarrow> ('e, 'h) loop_state" where
  "cell_loop E svc B st =
     (if ls_status st = StatusHostCall \<and> within_budgets B st then cell_loop E svc B (loop_body E svc st) else st)"
  by pat_completeness auto
termination
proof (relation "measure (\<lambda>(E, svc, B, st). left B st)")
  fix E :: "'a vm_engine" and svc :: "'b \<Rightarrow> nat \<Rightarrow> host_call \<Rightarrow> host_result \<times> 'b" and B :: budgets and st :: "('a, 'b) loop_state"
  assume "ls_status st = StatusHostCall \<and> within_budgets B st"
  then show "((E, svc, B, loop_body E svc st), E, svc, B, st) \<in> measure (\<lambda>(E, svc, B, st). left B st)"
    using left_decreases[of B st E svc] by simp
qed simp

declare cell_loop.simps [simp del]

section \<open>A cell\<close>

text \<open>What an evaluation gives the caller: an error raised before the engine runs, or the text of the
  engine's result buffer.\<close>

datatype cell_outcome = CellError (ce_name: string) (ce_message: string) | CellResult string

record 'e kernel_env =
  ke_engine :: "'e vm_engine"
  ke_strip :: "string \<Rightarrow> (string \<times> string, string) result"
  ke_encode :: "string \<Rightarrow> bytes"

text \<open>\<open>_writeScratch\<close>: reserve, then check the capacity; \<open>None\<close> is the \<open>ProtocolSizeError\<close>.\<close>

definition writeScratch :: "'e vm_engine \<Rightarrow> nat \<Rightarrow> 'e \<Rightarrow> 'e option" where
  "writeScratch E n e = (let e' = eg_reserve E n e in if eg_cap E e' < n then None else Some e')"

definition start_loop :: "status \<times> 'e \<Rightarrow> host_result list \<Rightarrow> 'h \<Rightarrow> ('e, 'h) loop_state" where
  "start_loop se replay h =
     \<lparr>ls_status = fst se, ls_engine = snd se, ls_guard = 0, ls_stream = 0, ls_ws = 0, ls_fs = 0,
      ls_replay = replay, ls_host = h, ls_log = []\<rparr>"

text \<open>The source a cell runs: types stripped, declarations globalized, completion value returned.\<close>

definition cell_source :: "'e kernel_env \<Rightarrow> kernel \<Rightarrow> string \<Rightarrow> (string \<times> string, string) result" where
  "cell_source K k src =
     rbind (if k_tsEnabled k then ke_strip K src else Inr src)
       (\<lambda>ts. Inr (wrapAsyncCompletion (transformCell ts)))"

text \<open>The loop of a cell whose bytes are in the scratch buffer.\<close>

definition run_cell ::
  "'e vm_engine \<Rightarrow> ('h \<Rightarrow> nat \<Rightarrow> host_call \<Rightarrow> host_result \<times> 'h) \<Rightarrow> kernel_config \<Rightarrow>
   host_result list \<Rightarrow> bytes \<Rightarrow> 'e \<Rightarrow> 'h \<Rightarrow> ('e, 'h) loop_state" where
  "run_cell E svc cfg replay b e h =
     cell_loop E svc (cell_budgets cfg)
       (start_loop (eg_begin E e b (budget_ticks (kc_cellBudgetTicks cfg))
                      (or_default (kc_cellGrowCapPages cfg) 1024)) replay h)"

text \<open>\<open>evalCode\<close>: the outcome, the engine, the host state and the recorded results.\<close>

definition evalCode ::
  "'e kernel_env \<Rightarrow> ('h \<Rightarrow> nat \<Rightarrow> host_call \<Rightarrow> host_result \<times> 'h) \<Rightarrow> kernel_config \<Rightarrow> kernel \<Rightarrow>
   host_result list \<Rightarrow> string \<Rightarrow> 'e \<Rightarrow> 'h \<Rightarrow> cell_outcome \<times> 'e \<times> 'h \<times> host_result list" where
  "evalCode K svc cfg k replay src e h =
     (let E = ke_engine K in
      case cell_source K k src of
        Inl (name, msg) \<Rightarrow> (CellError (if name = [] then ''TypeScriptError'' else name) msg, e, h, [])
      | Inr code \<Rightarrow>
          (let b = ke_encode K code in
           case writeScratch E (length b) e of
             None \<Rightarrow> (CellError ''ProtocolSizeError''
                        (''cell source '' @ nat_str (length b) @ ''B exceeds max ''
                         @ nat_str (eg_cap E (eg_reserve E (length b) e)) @ ''B''),
                      eg_release E (eg_reserve E (length b) e), h, [])
           | Some e' \<Rightarrow>
               (let st = run_cell E svc cfg replay b e' h
                in (CellResult (eg_result E (ls_engine st)), eg_release E (ls_engine st), ls_host st, ls_log st))))"

section \<open>Journal replay\<close>

record replay_cell =
  rc_src :: string
  rc_hostResults :: "host_result list"

text \<open>\<open>replayJournal\<close> over the retained cells: each is evaluated with its recorded results.\<close>

fun replay_cells ::
  "'e kernel_env \<Rightarrow> ('h \<Rightarrow> nat \<Rightarrow> host_call \<Rightarrow> host_result \<times> 'h) \<Rightarrow> kernel_config \<Rightarrow> kernel \<Rightarrow>
   replay_cell list \<Rightarrow> 'e \<Rightarrow> 'h \<Rightarrow> cell_outcome list \<times> 'e \<times> 'h" where
  "replay_cells K svc cfg k [] e h = ([], e, h)"
| "replay_cells K svc cfg k (c # cs) e h =
     (let (out, e', h', lg) = evalCode K svc cfg k (rc_hostResults c) (rc_src c) e h;
          (outs, e'', h'') = replay_cells K svc cfg k cs e' h'
      in (out # outs, e'', h''))"

end
