(* ===== verification/CellProps.thy ===== *)
theory CellProps
  imports CellLoop
begin

text \<open>
  What evaluating cells guarantees: the calls a cell makes are bounded by its budgets, replaying a
  recorded journal reproduces outcomes and engine without touching the host, and a cell cut off by a
  budget answers with the result buffer of an earlier cell.
\<close>

section \<open>The budgets bound the loop\<close>

lemma loop_body_log [simp]: "length (ls_log (loop_body E svc st)) = Suc (length (ls_log st))"
  by (simp add: loop_body_def resume_def answer_call_def charge_def Let_def split: list.split prod.split)

lemma cell_loop_log: "length (ls_log (cell_loop E svc B st)) \<le> length (ls_log st) + left B st"
proof (induction E svc B st rule: cell_loop.induct)
  case (1 E svc B st)
  show ?case
  proof (cases "ls_status st = StatusHostCall \<and> within_budgets B st")
    case True
    then show ?thesis
      using 1 left_decreases[of B st E svc] by (subst cell_loop.simps) simp
  next
    case False
    then show ?thesis by (subst cell_loop.simps) auto
  qed
qed

lemma start_loop_sel [simp]:
  "ls_log (start_loop se r h) = []" "ls_guard (start_loop se r h) = 0" "ls_stream (start_loop se r h) = 0"
  "ls_ws (start_loop se r h) = 0" "ls_fs (start_loop se r h) = 0" "ls_replay (start_loop se r h) = r"
  "ls_host (start_loop se r h) = h" "ls_status (start_loop se r h) = fst se"
  "ls_engine (start_loop se r h) = snd se"
  by (simp_all add: start_loop_def)

text \<open>C8. Whatever the cell and the services do, a cell makes at most one call more than each of its four
  budgets: the loop ends.\<close>

theorem cell_calls_bounded:
  "length (snd (snd (snd (evalCode K svc cfg k replay src e h)))) \<le>
     nat (b_host (cell_budgets cfg) + 1) + nat (b_stream (cell_budgets cfg) + 1)
     + nat (b_ws (cell_budgets cfg) + 1) + nat (b_fs (cell_budgets cfg) + 1)"
proof -
  have "length (ls_log (run_cell (ke_engine K) svc cfg replay b e' h)) \<le>
     nat (b_host (cell_budgets cfg) + 1) + nat (b_stream (cell_budgets cfg) + 1)
     + nat (b_ws (cell_budgets cfg) + 1) + nat (b_fs (cell_budgets cfg) + 1)" for b e'
    unfolding run_cell_def by (rule order.trans[OF cell_loop_log]) (simp add: left_def)
  then show ?thesis by (simp add: evalCode_def Let_def split: sum.split option.split)
qed

section \<open>Replay\<close>

text \<open>Two loop states that differ only in where results come from.\<close>

definition same_run :: "('e, 'h) loop_state \<Rightarrow> ('e, 'k) loop_state \<Rightarrow> bool" where
  "same_run s t \<longleftrightarrow>
     ls_status s = ls_status t \<and> ls_engine s = ls_engine t \<and> ls_guard s = ls_guard t
     \<and> ls_stream s = ls_stream t \<and> ls_ws s = ls_ws t \<and> ls_fs s = ls_fs t \<and> ls_log s = ls_log t"

text \<open>One live round and one replayed round on the recorded result.\<close>

lemma loop_body_replay:
  assumes "same_run s t" "ls_replay s = []" "ls_replay t = last (ls_log (loop_body E svc s)) # rs"
  shows "same_run (loop_body E svc s) (loop_body E svc' t)"
    and "ls_replay (loop_body E svc s) = []" and "ls_replay (loop_body E svc' t) = rs"
    and "ls_host (loop_body E svc' t) = ls_host t"
  using assms
  by (auto simp: same_run_def loop_body_def resume_def answer_call_def charge_def Let_def
      split: prod.splits if_splits)

lemma loop_body_log_prefix: "\<exists>r. ls_log (loop_body E svc st) = ls_log st @ [r]"
  by (simp add: loop_body_def resume_def answer_call_def charge_def Let_def split: list.split prod.split)

lemma cell_loop_log_prefix: "\<exists>rs. ls_log (cell_loop E svc B st) = ls_log st @ rs"
proof (induction E svc B st rule: cell_loop.induct)
  case (1 E svc B st)
  show ?case
  proof (cases "ls_status st = StatusHostCall \<and> within_budgets B st")
    case True
    then have "cell_loop E svc B st = cell_loop E svc B (loop_body E svc st)"
      by (subst cell_loop.simps) simp
    then obtain rs where "ls_log (cell_loop E svc B st) = ls_log (loop_body E svc st) @ rs"
      using 1 True by auto
    then show ?thesis using loop_body_log_prefix[of E svc st] by auto
  next
    case False
    then show ?thesis by (subst cell_loop.simps) auto
  qed
qed

lemma cell_loop_replay:
  "same_run s t \<Longrightarrow> ls_replay s = [] \<Longrightarrow> ls_log (cell_loop E svc B s) = ls_log s @ ls_replay t \<Longrightarrow>
   same_run (cell_loop E svc B s) (cell_loop E svc' B t) \<and> ls_host (cell_loop E svc' B t) = ls_host t"
proof (induction E svc B s arbitrary: t rule: cell_loop.induct)
  case (1 E svc B s)
  show ?case
  proof (cases "ls_status s = StatusHostCall \<and> within_budgets B s")
    case True
    then have run: "ls_status t = StatusHostCall \<and> within_budgets B t"
      using 1(2) by (simp add: same_run_def within_budgets_def)
    have e1: "cell_loop E svc B s = cell_loop E svc B (loop_body E svc s)"
      using True by (subst cell_loop.simps) simp
    have e2: "cell_loop E svc' B t = cell_loop E svc' B (loop_body E svc' t)"
      using run by (subst cell_loop.simps) simp
    obtain r where r: "ls_log (loop_body E svc s) = ls_log s @ [r]" using loop_body_log_prefix by blast
    obtain rs where rs: "ls_log (cell_loop E svc B s) = ls_log (loop_body E svc s) @ rs"
      using cell_loop_log_prefix e1 by metis
    have rep: "ls_replay t = last (ls_log (loop_body E svc s)) # rs" using 1(4) r rs by simp
    note b = loop_body_replay[OF 1(2,3) rep]
    show ?thesis
      using 1(1)[OF True b(1,2)] b(3,4) e1 e2 rs by simp
  next
    case False
    then have "\<not> (ls_status t = StatusHostCall \<and> within_budgets B t)"
      using 1(2) by (simp add: same_run_def within_budgets_def)
    then have "cell_loop E svc' B t = t" by (subst cell_loop.simps) auto
    moreover have "cell_loop E svc B s = s" using False by (subst cell_loop.simps) auto
    ultimately show ?thesis using 1(2) by simp
  qed
qed

lemma evalCode_replay:
  assumes "evalCode K svc cfg k [] src e h = (out, e', h', lg)"
  shows "evalCode K svc' cfg k lg src e g = (out, e', g, lg)"
proof (cases "cell_source K k src")
  case (Inl err)
  then show ?thesis using assms by (cases err) (simp add: evalCode_def Let_def)
next
  case (Inr code)
  let ?E = "ke_engine K" let ?b = "ke_encode K code"
  show ?thesis
  proof (cases "writeScratch ?E (length ?b) e")
    case None
    then show ?thesis using assms Inr by (simp add: evalCode_def Let_def)
  next
    case (Some e1)
    let ?se = "eg_begin ?E e1 ?b (budget_ticks (kc_cellBudgetTicks cfg)) (or_default (kc_cellGrowCapPages cfg) 1024)"
    let ?s = "run_cell ?E svc cfg [] ?b e1 h"
    have live: "out = CellResult (eg_result ?E (ls_engine ?s))" "e' = eg_release ?E (ls_engine ?s)" "lg = ls_log ?s"
      using assms Inr Some by (auto simp: evalCode_def Let_def)
    have start: "same_run (start_loop ?se [] h) (start_loop ?se lg g)"
      by (simp add: same_run_def)
    have "same_run ?s (run_cell ?E svc' cfg lg ?b e1 g) \<and> ls_host (run_cell ?E svc' cfg lg ?b e1 g) = g"
      unfolding run_cell_def
      using cell_loop_replay[OF start, of ?E svc "cell_budgets cfg" svc'] live(3) by (simp add: run_cell_def)
    then show ?thesis using Inr Some live by (auto simp: evalCode_def Let_def same_run_def)
  qed
qed

text \<open>A live session: the cells evaluated in turn, and the journal the kernel retains of them.\<close>

fun live_cells ::
  "'e kernel_env \<Rightarrow> ('h \<Rightarrow> nat \<Rightarrow> host_call \<Rightarrow> host_result \<times> 'h) \<Rightarrow> kernel_config \<Rightarrow> kernel \<Rightarrow>
   string list \<Rightarrow> 'e \<Rightarrow> 'h \<Rightarrow> cell_outcome list \<times> replay_cell list \<times> 'e \<times> 'h" where
  "live_cells K svc cfg k [] e h = ([], [], e, h)"
| "live_cells K svc cfg k (src # srcs) e h =
     (let (out, e', h', lg) = evalCode K svc cfg k [] src e h;
          (outs, journal, e'', h'') = live_cells K svc cfg k srcs e' h'
      in (out # outs, \<lparr>rc_src = src, rc_hostResults = lg\<rparr> # journal, e'', h''))"


section \<open>A budget that runs out\<close>

text \<open>The engine writes its result buffer only when a cell finishes: a step that parks on a host call,
  and the scratch buffer's operations, leave it as it was.\<close>

definition engine_keeps_result :: "'e vm_engine \<Rightarrow> bool" where
  "engine_keeps_result E \<longleftrightarrow>
     (\<forall>e b t g e'. eg_begin E e b t g = (StatusHostCall, e') \<longrightarrow> eg_result E e' = eg_result E e)
     \<and> (\<forall>e r e'. eg_resume E e r = (StatusHostCall, e') \<longrightarrow> eg_result E e' = eg_result E e)
     \<and> (\<forall>e n. eg_result E (eg_reserve E n e) = eg_result E e)"

lemma loop_body_result:
  "engine_keeps_result E \<Longrightarrow> ls_status (loop_body E svc st) = StatusHostCall \<Longrightarrow>
   eg_result E (ls_engine (loop_body E svc st)) = eg_result E (ls_engine st)"
  by (auto simp: engine_keeps_result_def loop_body_def resume_def answer_call_def charge_def Let_def
      split: list.splits prod.splits if_splits)

lemma cell_loop_result:
  "engine_keeps_result E \<Longrightarrow> ls_status (cell_loop E svc B st) = StatusHostCall \<Longrightarrow>
   eg_result E (ls_engine (cell_loop E svc B st)) = eg_result E (ls_engine st)"
proof (induction E svc B st rule: cell_loop.induct)
  case (1 E svc B st)
  show ?case
  proof (cases "ls_status st = StatusHostCall \<and> within_budgets B st")
    case True
    then have e: "cell_loop E svc B st = cell_loop E svc B (loop_body E svc st)"
      by (subst cell_loop.simps) simp
    show ?thesis
    proof (cases "ls_status (loop_body E svc st) = StatusHostCall")
      case T: True
      then show ?thesis using 1 True e loop_body_result[OF 1(2) T] by simp
    next
      case False
      then have "cell_loop E svc B (loop_body E svc st) = loop_body E svc st"
        by (subst cell_loop.simps) simp
      then show ?thesis using False e 1(3) by simp
    qed
  next
    case False
    then have "cell_loop E svc B st = st" by (subst cell_loop.simps) auto
    then show ?thesis by simp
  qed
qed

text \<open>A cell that is still waiting for a host call when a budget runs out is answered with the text the
  result buffer had before it began: the result of an earlier cell, reported as this one's.\<close>

theorem budget_cut_returns_stale:
  assumes law: "engine_keeps_result (ke_engine K)"
    and src: "cell_source K k src = Inr code"
    and fit: "writeScratch (ke_engine K) (length (ke_encode K code)) e = Some e1"
    and cut: "ls_status (run_cell (ke_engine K) svc cfg replay (ke_encode K code) e1 h) = StatusHostCall"
  shows "fst (evalCode K svc cfg k replay src e h) = CellResult (eg_result (ke_engine K) e)"
proof -
  let ?E = "ke_engine K"
  have "e1 = eg_reserve ?E (length (ke_encode K code)) e"
    using fit by (simp add: writeScratch_def Let_def split: if_splits)
  then have "eg_result ?E e1 = eg_result ?E e" using law by (simp add: engine_keeps_result_def)
  moreover obtain s e2 where b: "eg_begin ?E e1 (ke_encode K code) (budget_ticks (kc_cellBudgetTicks cfg))
      (or_default (kc_cellGrowCapPages cfg) 1024) = (s, e2)" by force
  moreover have "eg_result ?E (ls_engine (run_cell ?E svc cfg replay (ke_encode K code) e1 h)) = eg_result ?E e2"
    using cell_loop_result[OF law, of svc "cell_budgets cfg" "start_loop (s, e2) replay h"] cut b
    by (simp add: run_cell_def)
  moreover have "s = StatusHostCall"
  proof (rule ccontr)
    assume "s \<noteq> StatusHostCall"
    then have "cell_loop ?E svc (cell_budgets cfg) (start_loop (s, e2) replay h) = start_loop (s, e2) replay h"
      by (subst cell_loop.simps) simp
    then show False using cut b \<open>s \<noteq> StatusHostCall\<close> by (simp add: run_cell_def)
  qed
  ultimately show ?thesis
    using src fit law by (auto simp: evalCode_def Let_def engine_keeps_result_def)
qed

text \<open>An engine whose state is its result buffer and whose cells ask the host forever.\<close>

definition asking_engine :: "string vm_engine" where
  "asking_engine = \<lparr>eg_begin = (\<lambda>e b t g. (StatusHostCall, e)), eg_resume = (\<lambda>e r. (StatusHostCall, e)),
     eg_request = (\<lambda>e. \<lparr>hc_name = ''f'', hc_args = []\<rparr>), eg_result = (\<lambda>e. e), eg_reserve = (\<lambda>n e. e),
     eg_cap = (\<lambda>e. 10), eg_release = (\<lambda>e. e)\<rparr>"

definition demo_config :: kernel_config where
  "demo_config = \<lparr>kc_rngSeed = None, kc_clockReal = False, kc_typescript = None, kc_fetch = None,
     kc_extensions = [], kc_modules = ModUnset, kc_cellBudgetTicks = None, kc_cellGrowCapPages = None,
     kc_maxHostCallsPerCell = Some 1, kc_maxStreamOpsPerCell = None, kc_maxWsOpsPerCell = None,
     kc_maxFsOpsPerCell = None\<rparr>"

definition demo_kernel_env :: "string kernel_env" where
  "demo_kernel_env = \<lparr>ke_engine = asking_engine, ke_strip = Inr, ke_encode = (\<lambda>s. [])\<rparr>"

lemma budget_cut_returns_stale_witness:
  "fst (evalCode demo_kernel_env (\<lambda>h n r. (HOk JNull, h)) demo_config (applyConfig 0 demo_config) []
          ''f()'' ''the result of an earlier cell'' ())
   = CellResult ''the result of an earlier cell''"
proof -
  let ?svc = "\<lambda>(h::unit) (n::nat) (r::host_call). (HOk JNull, h)"
  have law: "engine_keeps_result (ke_engine demo_kernel_env)"
    by (simp add: demo_kernel_env_def asking_engine_def engine_keeps_result_def)
  have src: "cell_source demo_kernel_env (applyConfig 0 demo_config) ''f()'' = Inr ''f()''"
    by (simp add: cell_source_def demo_kernel_env_def applyConfig_def demo_config_def, code_simp)
  have fit: "writeScratch (ke_engine demo_kernel_env) (length (ke_encode demo_kernel_env ''f()'')) e = Some e" for e
    by (simp add: writeScratch_def demo_kernel_env_def asking_engine_def)
  have cut: "ls_status (run_cell (ke_engine demo_kernel_env) ?svc demo_config []
      (ke_encode demo_kernel_env ''f()'') e ()) = StatusHostCall" for e
    by (simp add: run_cell_def demo_kernel_env_def asking_engine_def start_loop_def cell_budgets_def
        demo_config_def or_default_def cell_loop.simps within_budgets_def loop_body_def resume_def
        answer_call_def charge_def stream_ops_def ws_ops_def WS_MAX_OPS_PER_CELL_def)
  show ?thesis
    using budget_cut_returns_stale[OF law src fit cut]
    by (simp add: demo_kernel_env_def asking_engine_def)
qed


end
