(* ===== verification/HostCalls.thy ===== *)
theory HostCalls
  imports CellLoop
begin

text \<open>
  Servicing a host call (\<open>_serviceHostCall\<close> of \<open>kernel-glue.ts\<close> and what it routes to): the routing table,
  the extension tools with their per-cell call cap and result clamp, the bridge that parks a call until
  the client answers, the sandbox and file effects, the worker registry, and the async mutex that
  serializes evaluations.  The client, the sandbox endpoint, the file handler and the worker loader are
  parameters.
\<close>

section \<open>Routing\<close>

datatype route =
    ToFetch | ToFetchStream | ToStreamRead | ToStreamCancel | ToStreamWrite
  | ToWsOpen | ToWsSend | ToWsRecv | ToWsPoll | ToWsClose
  | ToSocketOpen | ToSocketWrite | ToSocketRead | ToSocketStartTls | ToSocketClose
  | ToSandbox | ToFs | ToExt ext_tool | ToClient

definition route_table :: "(string \<times> route) list" where
  "route_table =
     [(''fetch'', ToFetch), (''fetchStream'', ToFetchStream), (''streamRead'', ToStreamRead),
      (''streamCancel'', ToStreamCancel), (''streamWrite'', ToStreamWrite),
      (''ws.open'', ToWsOpen), (''ws.send'', ToWsSend), (''ws.recv'', ToWsRecv), (''ws.poll'', ToWsPoll),
      (''ws.close'', ToWsClose), (''socket.open'', ToSocketOpen), (''socket.write'', ToSocketWrite),
      (''socket.read'', ToSocketRead), (''socket.startTls'', ToSocketStartTls), (''socket.close'', ToSocketClose)]"

definition route_of :: "(string, ext_tool) omap \<Rightarrow> string \<Rightarrow> route" where
  "route_of tools name =
     (case map_of route_table name of
        Some r \<Rightarrow> r
      | None \<Rightarrow>
          if prefix ''sandbox.'' name then ToSandbox
          else if name = ''__fs'' then ToFs
          else (case map_of tools name of Some t \<Rightarrow> ToExt t | None \<Rightarrow> ToClient))"

section \<open>Extension tools\<close>

text \<open>\<open>jsize\<close> is the number of UTF-8 bytes of a value's JSON text.  The state pairs the per-cell counters
  with the client's; the last component of the result is the analytics datapoint.\<close>

definition ext_clamp :: "(json \<Rightarrow> nat) \<Rightarrow> ext_tool \<Rightarrow> string \<Rightarrow> host_result \<Rightarrow> host_result" where
  "ext_clamp jsize t name res =
     (case res of
        HOk v \<Rightarrow>
          if et_maxResultBytes t < int (jsize v)
          then HOk (JObj [(''__extResultClamped'', JBool True), (''ext'', JStr (et_ext t)), (''tool'', JStr name),
                          (''bytes'', JNum (int (jsize v))), (''maxResultBytes'', JNum (et_maxResultBytes t))])
          else res
      | HErr e \<Rightarrow> res)"

definition ops_of :: "(string, int) omap \<Rightarrow> string \<Rightarrow> int" where
  "ops_of ops ext = (case map_of ops ext of None \<Rightarrow> 0 | Some n \<Rightarrow> n)"

definition ext_call ::
  "('c \<Rightarrow> string \<Rightarrow> json list \<Rightarrow> host_result \<times> 'c) \<Rightarrow> (json \<Rightarrow> nat) \<Rightarrow> ext_tool \<Rightarrow> string \<Rightarrow> json list \<Rightarrow>
   (string, int) omap \<times> 'c \<Rightarrow> host_result \<times> ((string, int) omap \<times> 'c) \<times> string option" where
  "ext_call client jsize t name args st =
     (let (ops, c) = st;
          used = ops_of ops (et_ext t) + 1;
          ops' = AList.update (et_ext t) used ops
      in if et_callsPerCell t < used
         then (HErr (''ExtCallLimitError: ext '' @ [squote] @ et_ext t @ [squote] @ '' exceeded callsPerCell ''
                     @ int_str (et_callsPerCell t)), (ops', c), None)
         else (let (res, c') = client c name args
               in (ext_clamp jsize t name res, (ops', c'), Some (''ext:'' @ et_ext t))))"

section \<open>The client bridge\<close>

record bridge =
  br_seq :: nat
  br_pending :: "(string, string) omap"
  br_settled :: "(string \<times> host_result) list"

definition call_id :: "nat \<Rightarrow> nat \<Rightarrow> string" where
  "call_id n now = ''hc-'' @ nat_digits 36 n @ ''-'' @ nat_digits 36 now"

definition hostcall_frame :: "string \<Rightarrow> string \<Rightarrow> json list \<Rightarrow> json" where
  "hostcall_frame i name args =
     JObj [(''t'', JStr ''hostcall''), (''id'', JStr i), (''name'', JStr name), (''args'', JArr args)]"

text \<open>\<open>_clientHostCall\<close>: an immediate result, or the id the call is parked under.  \<open>send\<close> is the installed
  sender, if any; \<open>jsize\<close> the byte length of a frame.\<close>

definition clientHostCall ::
  "(json \<Rightarrow> bool) option \<Rightarrow> (json \<Rightarrow> nat) \<Rightarrow> nat \<Rightarrow> string \<Rightarrow> json list \<Rightarrow> bridge \<Rightarrow> (host_result + string) \<times> bridge" where
  "clientHostCall sender jsize now name args b =
     (case sender of
        None \<Rightarrow> (Inl (HErr (''HostCallUnavailable: no client socket for host.'' @ name)), b)
      | Some send \<Rightarrow>
          (let n = br_seq b + 1; i = call_id n now; frame = hostcall_frame i name args; b' = b\<lparr>br_seq := n\<rparr>
           in if 65536 < jsize frame
              then (Inl (HErr (''HostCallSizeError: host.'' @ name @ '' request exceeds 64KB'')), b')
              else if \<not> send frame
              then (Inl (HErr (''HostCallUnavailable: client socket send failed for host.'' @ name)), b')
              else (Inr i, b'\<lparr>br_pending := AList.update i name (br_pending b')\<rparr>)))"

definition settle :: "string \<Rightarrow> host_result \<Rightarrow> bridge \<Rightarrow> bridge" where
  "settle i r b = b\<lparr>br_pending := AList.delete i (br_pending b), br_settled := br_settled b @ [(i, r)]\<rparr>"

text \<open>\<open>resolveHostCall\<close>: \<open>value\<close> is the parsed reply (\<open>None\<close> when empty or not JSON).\<close>

definition resolveHostCall :: "string \<Rightarrow> bool \<Rightarrow> json option \<Rightarrow> string \<Rightarrow> bridge \<Rightarrow> bridge" where
  "resolveHostCall i okay value error b =
     (case map_of (br_pending b) i of
        None \<Rightarrow> b
      | Some name \<Rightarrow>
          settle i (if okay then HOk (case value of None \<Rightarrow> JNull | Some v \<Rightarrow> v)
                    else HErr (if error = [] then ''host callback failed'' else error)) b)"

definition call_timeout :: "string \<Rightarrow> bridge \<Rightarrow> bridge" where
  "call_timeout i b =
     (case map_of (br_pending b) i of
        None \<Rightarrow> b
      | Some name \<Rightarrow> settle i (HErr (''HostCallTimeout: client did not answer host.'' @ name @ '' in time'')) b)"

section \<open>The file effect\<close>

record fs_request =
  fq_op :: string
  fq_path :: json
  fq_chunk :: "int option"
  fq_chunks :: "int option"
  fq_off :: "int option"
  fq_len :: "int option"
  fq_data :: "string option"

record fs_payload =
  fp_op :: string
  fp_path :: json
  fp_chunk :: "int option"
  fp_chunks :: "int option"
  fp_off :: "int option"
  fp_len :: "int option"
  fp_bytes :: "bytes option"

record fs_reply =
  fr_error :: "json option"
  fr_bytes :: "bytes option"
  fr_names :: "json list option"
  fr_size :: "int option"
  fr_isFile :: bool
  fr_isDirectory :: bool

definition fs_error_value :: "json \<Rightarrow> host_result" where
  "fs_error_value e = HOk (JObj [(''error'', e)])"

text \<open>\<open>_serviceFs\<close>: \<open>handler\<close> is the installed provider, which may throw.\<close>

definition serviceFs ::
  "('s \<Rightarrow> fs_payload \<Rightarrow> (string, fs_reply) result \<times> 's) option \<Rightarrow> fs_request \<Rightarrow> 's \<Rightarrow> host_result \<times> 's" where
  "serviceFs handler req s =
     (case handler of
        None \<Rightarrow> (fs_error_value (JStr ''FsError: no fs provider active (set config.fs.provider)''), s)
      | Some h \<Rightarrow>
          (case (if fq_op req = ''write'' then
                   (case fq_data req of None \<Rightarrow> Inr None | Some d \<Rightarrow> map_sum id Some (b64ToBytes d))
                 else Inr None) of
             Inl e \<Rightarrow> (fs_error_value (JStr ''FsError: bad base64 write payload''), s)
           | Inr b \<Rightarrow>
               (case h s \<lparr>fp_op = fq_op req, fp_path = fq_path req, fp_chunk = fq_chunk req,
                          fp_chunks = fq_chunks req, fp_off = fq_off req, fp_len = fq_len req, fp_bytes = b\<rparr> of
                  (Inl e, s') \<Rightarrow> (fs_error_value (JStr (''FsError: '' @ e)), s')
                | (Inr r, s') \<Rightarrow>
                    (case fr_error r of
                       Some e \<Rightarrow> (fs_error_value e, s')
                     | None \<Rightarrow>
                         (HOk (JObj ([(''ok'', JBool True)]
                            @ opt_field ''data'' (map_option (\<lambda>x. JStr (bytesToB64 x)) (fr_bytes r))
                            @ opt_field ''names'' (map_option JArr (fr_names r))
                            @ opt_field ''size'' (map_option JNum (fr_size r))
                            @ (if fq_op req = ''stat''
                               then [(''isFile'', JBool (fr_isFile r)), (''isDirectory'', JBool (fr_isDirectory r))]
                               else []))), s')))))"

section \<open>The worker registry\<close>

definition REGISTRY_ABI :: string where "REGISTRY_ABI = ''wkr1''"
definition REGISTRY_DEFAULT_CPU_MS :: rat where "REGISTRY_DEFAULT_CPU_MS = 5000"

text \<open>\<open>/[0-9a-f]/i\<close>.\<close>

definition hex_digit :: "char \<Rightarrow> bool" where
  "hex_digit c = is_digit 16 c"

definition doIdShort :: "string \<Rightarrow> string" where
  "doIdShort doId = (let s = take 16 (filter hex_digit doId) in if s = [] then ''0'' else s)"

definition codeId :: "string \<Rightarrow> string \<Rightarrow> string" where
  "codeId doId hash = REGISTRY_ABI @ '':'' @ doIdShort doId @ '':'' @ hash"

record worker_code =
  wc_user :: string
  wc_vfs :: string
  wc_cpuMs :: rat

text \<open>The loader keeps one warm isolate per code id and calls back for the code only when there is none.\<close>

definition loader_get :: "(string, worker_code) omap \<Rightarrow> string \<Rightarrow> worker_code \<Rightarrow> worker_code \<times> (string, worker_code) omap" where
  "loader_get warm cid fresh =
     (case map_of warm cid of Some w \<Rightarrow> (w, warm) | None \<Rightarrow> (fresh, AList.update cid fresh warm))"

definition registry_cpu :: "rat option \<Rightarrow> rat" where
  "registry_cpu given = (case given of Some n \<Rightarrow> if 0 < n then n else REGISTRY_DEFAULT_CPU_MS
                                     | None \<Rightarrow> REGISTRY_DEFAULT_CPU_MS)"

text \<open>\<open>registryInvoke\<close>: an unavailability error, or the isolate the input is sent to.  The file gateway an
  isolate is given is the DO id it is bound to.\<close>

definition registryInvoke ::
  "bool \<Rightarrow> bool \<Rightarrow> string \<Rightarrow> string \<Rightarrow> string \<Rightarrow> rat option \<Rightarrow> (string, worker_code) omap \<Rightarrow>
   (string, worker_code) result \<times> (string, worker_code) omap" where
  "registryInvoke hasLoader hasVfs doId hash source cpuMs warm =
     (if \<not> hasLoader then (Inl ''RegistryUnavailableError'', warm)
      else if \<not> hasVfs then (Inl ''RegistryUnavailableError'', warm)
      else (let (w, warm') = loader_get warm (codeId doId hash)
                  \<lparr>wc_user = source, wc_vfs = doId, wc_cpuMs = registry_cpu cpuMs\<rparr>
            in (Inr w, warm')))"

section \<open>The async mutex\<close>

text \<open>Each \<open>acquire\<close> chains on the promise of the previous one: ticket \<open>n\<close> is granted once ticket
  \<open>n - 1\<close> has been released.\<close>

record mutex =
  mx_next :: nat
  mx_released :: "nat list"

definition new_mutex :: mutex where "new_mutex = \<lparr>mx_next = 0, mx_released = []\<rparr>"

definition acquire :: "mutex \<Rightarrow> nat \<times> mutex" where
  "acquire m = (mx_next m, m\<lparr>mx_next := mx_next m + 1\<rparr>)"

definition granted :: "mutex \<Rightarrow> nat \<Rightarrow> bool" where
  "granted m n \<longleftrightarrow> n < mx_next m \<and> (n = 0 \<or> List.member (mx_released m) (n - 1))"

definition release :: "nat \<Rightarrow> mutex \<Rightarrow> mutex" where
  "release n m = m\<lparr>mx_released := mx_released m @ [n]\<rparr>"

end
