(* ===== verification/HostCallsProps.thy ===== *)
theory HostCallsProps
  imports HostCalls
begin

text \<open>
  What the host-call services guarantee: an extension is called at most as often as its cap in a cell and
  its limits never exceed the hard caps; every parked client call is settled at most once and late or
  duplicate replies change nothing; a worker isolate serves only sessions with the short id it was
  created for; at most one evaluation holds the mutex.
\<close>

section \<open>Extension tools\<close>

lemma ext_limit_bounds: "1 \<le> cap \<Longrightarrow> 1 \<le> ext_limit cap g \<and> ext_limit cap g \<le> cap"
  by (simp add: ext_limit_def Let_def)

definition tool_within_caps :: "ext_tool \<Rightarrow> bool" where
  "tool_within_caps t \<longleftrightarrow>
     1 \<le> et_callsPerCell t \<and> et_callsPerCell t \<le> EXT_MAX_CALLS_PER_CELL
     \<and> 1 \<le> et_maxResultBytes t \<and> et_maxResultBytes t \<le> EXT_MAX_RESULT_BYTES"

lemma ext_entries_caps: "(k, t) \<in> set (ext_entries e) \<Longrightarrow> tool_within_caps t \<and> prefix (et_ext t @ ''.'') k"
  using ext_limit_bounds[of EXT_MAX_CALLS_PER_CELL] ext_limit_bounds[of EXT_MAX_RESULT_BYTES]
  by (auto simp: ext_entries_def tool_within_caps_def EXT_MAX_CALLS_PER_CELL_def EXT_MAX_RESULT_BYTES_def
      split: if_splits)

lemma fold_update_in:
  "(k, t) \<in> set (foldl (\<lambda>m (k, t). AList.update k t m) m es) \<Longrightarrow> (k, t) \<in> set m \<or> (k, t) \<in> set es"
proof (induction es arbitrary: m)
  case (Cons p es)
  obtain k' t' where p: "p = (k', t')" by force
  have "(k, t) \<in> set (AList.update k' t' m) \<or> (k, t) \<in> set es"
    using Cons.IH[of "AList.update k' t' m"] Cons.prems p by simp
  then show ?case using update_in_set[of k t k' t' m] p by auto
qed simp

lemma resolved_tool_caps:
  "map_of (resolveExtensions exts) name = Some t \<Longrightarrow> tool_within_caps t \<and> prefix (et_ext t @ ''.'') name"
  using fold_update_in[of name t "[]" "concat (map ext_entries exts)"] ext_entries_caps
  by (fastforce simp: resolveExtensions_def dest!: map_of_SomeD)

text \<open>A cell's calls to extension tools, in order; the counters start empty.\<close>

fun ext_calls ::
  "('c \<Rightarrow> string \<Rightarrow> json list \<Rightarrow> host_result \<times> 'c) \<Rightarrow> (json \<Rightarrow> nat) \<Rightarrow> (ext_tool \<times> string \<times> json list) list \<Rightarrow>
   (string, int) omap \<times> 'c \<Rightarrow> (host_result \<times> string option) list" where
  "ext_calls client jsize [] st = []"
| "ext_calls client jsize ((t, name, args) # cs) st =
     (let (r, st', ae) = ext_call client jsize t name args st in (r, ae) # ext_calls client jsize cs st')"

lemma ext_call_ops:
  "ext_call client jsize t name args (ops, c) = (r, (ops', c'), ae) \<Longrightarrow>
   ops_of ops' x = ops_of ops x + (if x = et_ext t then 1 else 0)
   \<and> (ae \<noteq> None \<longrightarrow> ae = Some (''ext:'' @ et_ext t) \<and> ops_of ops (et_ext t) < et_callsPerCell t)"
  by (auto simp: ext_call_def Let_def ops_of_def map_of_update split: if_splits prod.splits)

lemma ext_calls_count:
  "\<forall>p \<in> set cs. et_ext (fst p) = x \<longrightarrow> et_callsPerCell (fst p) \<le> cap \<Longrightarrow>
   int (length (filter (\<lambda>p. snd p = Some (''ext:'' @ x)) (ext_calls client jsize cs st)))
     \<le> max 0 (cap - ops_of (fst st) x)"
proof (induction client jsize cs st rule: ext_calls.induct)
  case (2 client jsize t name args cs st)
  obtain ops c where st: "st = (ops, c)" by force
  obtain r ops' c' ae where e: "ext_call client jsize t name args (ops, c) = (r, (ops', c'), ae)"
    by (metis surj_pair)
  note o = ext_call_ops[OF e, of x]
  have rest: "ext_calls client jsize ((t, name, args) # cs) st = (r, ae) # ext_calls client jsize cs (ops', c')"
    using e st by simp
  let ?n = "length (filter (\<lambda>p. snd p = Some (''ext:'' @ x)) (ext_calls client jsize cs (ops', c')))"
  have ih: "int ?n \<le> max 0 (cap - ops_of ops' x)"
    using 2(1)[OF e[folded st, symmetric] refl] 2(2) by simp
  show ?case
  proof (cases "ae = Some (''ext:'' @ x)")
    case True
    then have "et_ext t = x" "ops_of ops x < cap" using o 2(2) by fastforce+
    then show ?thesis using True ih o st rest by (simp add: max_def split: if_splits)
  next
    case False
    then show ?thesis using ih o st rest by (simp add: max_def split: if_splits)
  qed
qed simp

text \<open>In one cell, whatever the tools' results, the client is called at most 64 times on behalf of one
  extension, and at most as often as the extension's configured cap.\<close>

theorem ext_calls_capped:
  assumes "\<forall>p \<in> set cs. map_of (resolveExtensions exts) (fst (snd p)) = Some (fst p)"
    and "\<forall>p \<in> set cs. et_ext (fst p) = x \<longrightarrow> et_callsPerCell (fst p) \<le> cap" and "0 \<le> cap"
  shows "int (length (filter (\<lambda>p. snd p = Some (''ext:'' @ x)) (ext_calls client jsize cs ([], c)))) \<le> min cap 64"
proof -
  let ?n = "int (length (filter (\<lambda>p. snd p = Some (''ext:'' @ x)) (ext_calls client jsize cs ([], c))))"
  have "\<forall>p \<in> set cs. et_ext (fst p) = x \<longrightarrow> et_callsPerCell (fst p) \<le> 64"
    using assms(1) resolved_tool_caps by (fastforce simp: tool_within_caps_def EXT_MAX_CALLS_PER_CELL_def)
  then have "?n \<le> max 0 (64 - ops_of [] x)" using ext_calls_count[of cs x 64 client jsize "([], c)"] by simp
  moreover have "?n \<le> max 0 (cap - ops_of [] x)"
    using ext_calls_count[of cs x cap client jsize "([], c)"] assms(2) by simp
  ultimately show ?thesis using assms(3) by (simp add: ops_of_def)
qed

section \<open>The client bridge\<close>

lemma dash_not_digit: "CHR ''-'' \<notin> set (nat_digits 36 n)"
proof
  assume "CHR ''-'' \<in> set (nat_digits 36 n)"
  then have "is_digit 36 CHR ''-''" by (rule nat_digits_are_digits[rotated 2]) auto
  then show False by (simp add: is_digit_def digit_val_def)
qed

lemma call_id_seq:
  assumes "call_id m t = call_id n u" shows "m = n"
proof -
  have "nat_digits 36 m @ CHR ''-'' # nat_digits 36 t = nat_digits 36 n @ CHR ''-'' # nat_digits 36 u"
    using assms by (simp add: call_id_def)
  then have "nat_digits 36 m = nat_digits 36 n"
    by (simp only: append_sep_inject[OF dash_not_digit dash_not_digit])
  then have "parse_digits 36 (nat_digits 36 m) = parse_digits 36 (nat_digits 36 n)" by (rule arg_cong)
  then show ?thesis by (simp add: parse_nat_digits)
qed

inductive br_reach :: "bridge \<Rightarrow> bool" where
  fresh: "br_reach \<lparr>br_seq = 0, br_pending = [], br_settled = []\<rparr>"
| call: "br_reach b \<Longrightarrow> clientHostCall sender jsize now name args b = (r, b') \<Longrightarrow> br_reach b'"
| reply: "br_reach b \<Longrightarrow> br_reach (resolveHostCall i okay v e b)"
| expire: "br_reach b \<Longrightarrow> br_reach (call_timeout i b)"

definition br_ids :: "bridge \<Rightarrow> string list" where
  "br_ids b = map fst (br_pending b) @ map fst (br_settled b)"

definition issued :: "nat \<Rightarrow> string \<Rightarrow> bool" where
  "issued n i \<longleftrightarrow> (\<exists>m now. i = call_id m now \<and> m \<le> n)"

lemma issued_call_id: "issued n (call_id m now) \<longleftrightarrow> m \<le> n"
  by (auto simp: issued_def dest: call_id_seq)

lemma issued_mono: "issued n i \<Longrightarrow> n \<le> m \<Longrightarrow> issued m i"
  by (auto simp: issued_def)

definition br_ok :: "bridge \<Rightarrow> bool" where
  "br_ok b \<longleftrightarrow> distinct (br_ids b) \<and> (\<forall>i \<in> set (br_ids b). issued (br_seq b) i)"

lemma delete_ids: "map fst (AList.delete i m) = filter (\<lambda>k. k \<noteq> i) (map fst m)"
  by (induction m) auto

lemma settle_ids:
  "i \<in> set (map fst (br_pending b)) \<Longrightarrow> distinct (br_ids b) \<Longrightarrow>
   distinct (br_ids (settle i r b)) \<and> set (br_ids (settle i r b)) = set (br_ids b)"
  unfolding br_ids_def settle_def by (simp add: delete_ids del: set_map) blast

lemma settle_ok: "br_ok b \<Longrightarrow> map_of (br_pending b) i = Some name \<Longrightarrow> br_ok (settle i r b)"
proof -
  assume b: "br_ok b" and "map_of (br_pending b) i = Some name"
  then have "i \<in> set (map fst (br_pending b))" by (force dest: map_of_SomeD)
  moreover have "br_seq (settle i r b) = br_seq b" by (simp add: settle_def)
  ultimately show ?thesis using settle_ids[of i b r] b by (simp add: br_ok_def)
qed

lemma resolve_ok: "br_ok b \<Longrightarrow> br_ok (resolveHostCall i okay v e b)"
  by (simp add: resolveHostCall_def settle_ok split: option.split)

lemma timeout_ok: "br_ok b \<Longrightarrow> br_ok (call_timeout i b)"
  by (simp add: call_timeout_def settle_ok split: option.split)

lemma update_fresh_keys: "k \<notin> set (map fst m) \<Longrightarrow> map fst (AList.update k v m) = map fst m @ [k]"
  by (induction m) auto

lemma call_cases:
  "clientHostCall sender jsize now name args b = (r, b') \<Longrightarrow>
   b' = b \<or> b' = b\<lparr>br_seq := br_seq b + 1\<rparr> \<or>
   b' = b\<lparr>br_seq := br_seq b + 1, br_pending := AList.update (call_id (br_seq b + 1) now) name (br_pending b)\<rparr>"
  by (auto simp: clientHostCall_def Let_def split: option.splits if_splits)

lemma call_ok:
  assumes b: "br_ok b" and r: "clientHostCall sender jsize now name args b = (r, b')"
  shows "br_ok b'"
proof -
  let ?i = "call_id (br_seq b + 1) now"
  have fresh: "?i \<notin> set (br_ids b)" using b issued_call_id[of "br_seq b"] by (auto simp: br_ok_def)
  have old: "\<forall>i \<in> set (br_ids b). issued (Suc (br_seq b)) i"
    using b by (auto simp: br_ok_def intro: issued_mono)
  have ids: "map fst (AList.update ?i name (br_pending b)) = map fst (br_pending b) @ [?i]"
    using fresh by (intro update_fresh_keys) (simp add: br_ids_def)
  from call_cases[OF r] show ?thesis
  proof (elim disjE)
    assume "b' = b" then show ?thesis using b by simp
  next
    assume "b' = b\<lparr>br_seq := br_seq b + 1\<rparr>"
    then show ?thesis using b old by (simp add: br_ok_def br_ids_def)
  next
    assume "b' = b\<lparr>br_seq := br_seq b + 1, br_pending := AList.update ?i name (br_pending b)\<rparr>"
    then have "br_ids b' = map fst (br_pending b) @ [?i] @ map fst (br_settled b)" "br_seq b' = Suc (br_seq b)"
      using ids by (simp_all add: br_ids_def)
    moreover have "distinct (map fst (br_pending b) @ [?i] @ map fst (br_settled b))"
      using b fresh by (simp add: br_ok_def br_ids_def del: set_map)
    ultimately show ?thesis using old by (simp add: br_ok_def br_ids_def issued_call_id)
  qed
qed

text \<open>C36. Every host call parked on the client is settled at most once, whatever replies, duplicates and
  timeouts arrive: ids never repeat, no settled id is pending, and a reply or a timeout for an id that is
  not pending changes nothing.\<close>

theorem calls_settle_once:
  assumes "br_reach b"
  shows "distinct (map fst (br_settled b)) \<and> set (map fst (br_settled b)) \<inter> set (map fst (br_pending b)) = {}
    \<and> (i \<notin> set (map fst (br_pending b)) \<longrightarrow> resolveHostCall i okay v e b = b \<and> call_timeout i b = b)"
proof -
  have "br_ok b" using assms
  proof (induction rule: br_reach.induct)
    case fresh then show ?case by (simp add: br_ok_def br_ids_def)
  next
    case call then show ?case by (blast intro: call_ok)
  qed (simp_all add: resolve_ok timeout_ok)
  moreover have "i \<notin> set (map fst (br_pending b)) \<Longrightarrow> map_of (br_pending b) i = None"
    by (simp add: map_of_eq_None_iff)
  ultimately show ?thesis by (auto simp: br_ok_def br_ids_def resolveHostCall_def call_timeout_def)
qed

definition echo_tool :: ext_tool where
  "echo_tool = \<lparr>et_ext = ''e'', et_callsPerCell = 1, et_maxResultBytes = 65536\<rparr>"

definition echo_ext :: ext_decl where
  "echo_ext = \<lparr>ed_name = ''e'', ed_kind = None,
     ed_limits = \<lparr>el_callsPerCell = Some 1, el_maxResultBytes = None\<rparr>, ed_tools = [''f'']\<rparr>"

lemma echo_resolved: "resolveExtensions [echo_ext] = [(''e.f'', echo_tool)]"
  by (simp add: resolveExtensions_def ext_entries_def echo_ext_def echo_tool_def ext_limit_def to_int32_def
      EXT_MAX_CALLS_PER_CELL_def EXT_MAX_RESULT_BYTES_def)

theorem ext_calls_capped_witness:
  "length (filter (\<lambda>p. snd p = Some ''ext:e'')
     (ext_calls (\<lambda>c n a. (HOk JNull, c)) (\<lambda>_. 0) (replicate 3 (echo_tool, ''e.f'', [])) ([], ()))) \<le> 1"
  using ext_calls_capped[of "replicate 3 (echo_tool, ''e.f'', [])" "[echo_ext]" "''e''" 1 "\<lambda>c n a. (HOk JNull, c)" "\<lambda>_. 0" "()"]
  by (simp add: echo_resolved echo_tool_def)

definition one_parked :: bridge where
  "one_parked = snd (clientHostCall (Some (\<lambda>_. True)) (\<lambda>_. 0) 0 ''f'' [] \<lparr>br_seq = 0, br_pending = [], br_settled = []\<rparr>)"

lemma one_parked_eq: "one_parked = \<lparr>br_seq = 1, br_pending = [(call_id 1 0, ''f'')], br_settled = []\<rparr>"
  by (simp add: one_parked_def clientHostCall_def Let_def)

lemma one_expired_reach: "br_reach (call_timeout (call_id 1 0) one_parked)"
  unfolding one_parked_def by (rule br_reach.expire, rule br_reach.call[OF br_reach.fresh surjective_pairing])

lemma one_expired: "map fst (br_settled (call_timeout (call_id 1 0) one_parked)) = [call_id 1 0]"
  "br_pending (call_timeout (call_id 1 0) one_parked) = []"
  by (simp_all add: call_timeout_def settle_def one_parked_eq)

theorem calls_settle_once_witness:
  "resolveHostCall (call_id 1 0) True None [] (call_timeout (call_id 1 0) one_parked) = call_timeout (call_id 1 0) one_parked"
  using calls_settle_once[OF one_expired_reach, of "call_id 1 0" True None "[]"]
  by (simp add: one_expired del: One_nat_def)

section \<open>The mutex\<close>

text \<open>Holders come and go: a ticket is released only by the caller it was granted to, once.\<close>

inductive mx_reach :: "mutex \<Rightarrow> bool" where
  new: "mx_reach new_mutex"
| acquire: "mx_reach m \<Longrightarrow> mx_reach (snd (acquire m))"
| release: "mx_reach m \<Longrightarrow> granted m n \<Longrightarrow> n \<notin> set (mx_released m) \<Longrightarrow> mx_reach (release n m)"

definition holding :: "mutex \<Rightarrow> nat \<Rightarrow> bool" where
  "holding m n \<longleftrightarrow> granted m n \<and> n \<notin> set (mx_released m)"

lemma mx_released_upto: "mx_reach m \<Longrightarrow> mx_released m = [0..<length (mx_released m)] \<and> length (mx_released m) \<le> mx_next m"
proof (induction rule: mx_reach.induct)
  case (release m n)
  let ?k = "length (mx_released m)"
  have s: "set (mx_released m) = {0..<?k}" using release.IH by (metis set_upt)
  have "n \<notin> {0..<?k}" using release(3) unfolding s .
  moreover have "n = 0 \<or> n - 1 \<in> {0..<?k}" using release(2) unfolding granted_def List.member_iff s by blast
  ultimately have "n = ?k" by auto
  moreover have "n < mx_next m" using release(2) by (simp add: granted_def)
  ultimately show ?case using release.IH by (auto simp: release_def)
qed (auto simp: new_mutex_def acquire_def)

text \<open>The async mutex excludes and is fair: in every reachable state at most one ticket holds it, the holder is
  the oldest ticket not yet released, and while a ticket is outstanding somebody holds it.\<close>

theorem mutex_excludes_fairly:
  assumes "mx_reach m"
  shows "(holding m a \<and> holding m b \<longrightarrow> a = b)
    \<and> (holding m a \<longrightarrow> (\<forall>k < a. k \<in> set (mx_released m)))
    \<and> (length (mx_released m) < mx_next m \<longrightarrow> holding m (length (mx_released m)))"
proof -
  let ?k = "length (mx_released m)"
  have s: "set (mx_released m) = {0..<?k}" using mx_released_upto[OF assms] by (metis set_upt)
  have h: "holding m n \<longleftrightarrow> n = ?k \<and> n < mx_next m" for n
    unfolding holding_def granted_def List.member_iff s atLeastLessThan_iff by arith
  show ?thesis unfolding h s by simp
qed

theorem mutex_excludes_fairly_witness:
  "\<exists>m. mx_reach m \<and> mx_next m = 2 \<and> holding m 0 \<and> \<not> holding m 1"
proof -
  let ?m = "snd (acquire (snd (acquire new_mutex)))"
  have r: "mx_reach ?m" by (intro mx_reach.intros)
  have h: "holding ?m 0" using mutex_excludes_fairly[OF r, of 0 0] by (simp add: acquire_def new_mutex_def)
  then have "\<not> holding ?m 1" using mutex_excludes_fairly[OF r, of 0 1] by auto
  then show ?thesis using r h by (intro exI[of _ ?m]) (simp add: acquire_def new_mutex_def)
qed

section \<open>The worker registry\<close>

text \<open>A loader cache in which every isolate was created by an invocation for the DO it is bound to.\<close>

definition isolates_ok :: "(string, worker_code) omap \<Rightarrow> bool" where
  "isolates_ok warm \<longleftrightarrow> (\<forall>cid w. (cid, w) \<in> set warm \<longrightarrow> (\<exists>hash. cid = codeId (wc_vfs w) hash))"

lemma doIdShort_no_colon: "CHR '':'' \<notin> set (doIdShort d)"
proof -
  have "\<not> hex_digit CHR '':''" by (simp add: hex_digit_def is_digit_def digit_val_def)
  then have "CHR '':'' \<notin> set (take 16 (filter hex_digit d))" by (auto dest: in_set_takeD)
  then show ?thesis by (simp add: doIdShort_def Let_def)
qed

lemma codeId_short: "codeId d h = codeId d' h' \<Longrightarrow> doIdShort d = doIdShort d'"
  by (simp add: codeId_def append_sep_inject[OF doIdShort_no_colon doIdShort_no_colon])

lemma invoke_isolate:
  assumes "isolates_ok warm" "registryInvoke True True d hash src cpu warm = (Inr w, warm')"
  shows "isolates_ok warm' \<and> doIdShort (wc_vfs w) = doIdShort d"
  using assms
  by (auto simp: registryInvoke_def loader_get_def isolates_ok_def Let_def split: option.splits
      dest!: map_of_SomeD update_in_set dest: codeId_short) (metis codeId_short)+

text \<open>Two DO ids that agree on their first sixteen hexadecimal digits share an isolate and its file gateway.\<close>

lemma registry_shares_short_ids:
  "let d = ''00112233445566778899''; d' = ''0011223344556677ffff'';
       (_, warm) = registryInvoke True True d ''h'' ''src'' None []
   in d \<noteq> d' \<and> (\<exists>w. fst (registryInvoke True True d' ''h'' ''src'' None warm) = Inr w \<and> wc_vfs w = d)"
  by (simp add: registryInvoke_def loader_get_def codeId_def doIdShort_def hex_digit_def is_digit_def digit_val_def)

end
