(* ===== verification/SandboxCall.thy ===== *)
theory SandboxCall
  imports HostFetch
begin

text \<open>
  The sandbox bridge of the kernel (\<open>_doSandbox\<close> in \<open>kernel-glue.ts\<close>): the request an operation
  becomes, its capability gate, and the answer.  \<open>Number\<close> on a port that is not a number, the
  network and \<open>JSON.parse\<close> are parameters.
\<close>

section \<open>Query strings\<close>

text \<open>The form encoding of a character below 256: its UTF-8 bytes, escaped unless unreserved.\<close>

definition form_byte :: "nat \<Rightarrow> string" where
  "form_byte n = CHR ''%'' # js_upper (hex2 (of_nat n))"

definition form_char :: "char \<Rightarrow> string" where
  "form_char c =
     (let n = of_char c :: nat in
      if 48 \<le> n \<and> n \<le> 57 \<or> 65 \<le> n \<and> n \<le> 90 \<or> 97 \<le> n \<and> n \<le> 122 \<or> List.member ''*-._'' c then [c]
      else if n = 32 then ''+''
      else if n < 128 then form_byte n
      else form_byte (192 + n div 64) @ form_byte (128 + n mod 64))"

definition query_string :: "(string \<times> string) list \<Rightarrow> string" where
  "query_string ps = js_join CHR ''&'' (map (\<lambda>(k, v). concat (map form_char k) @ ''='' @ concat (map form_char v)) ps)"

section \<open>Operations\<close>

record sandbox_request =
  sq_route :: string
  sq_method :: string
  sq_body :: "json option"
  sq_query :: "(string \<times> string) list"

definition post_json :: "string \<Rightarrow> (string \<times> json) list \<Rightarrow> sandbox_request" where
  "post_json r ms = \<lparr>sq_route = r, sq_method = ''POST'', sq_body = Some (JObj ms), sq_query = []\<rparr>"

text \<open>\<open>v?.k\<close>, with \<open>None\<close> for \<open>undefined\<close>; \<open>a ?? b\<close>; \<open>g && g.k\<close>.\<close>

definition member_of :: "string \<Rightarrow> json option \<Rightarrow> json option" where
  "member_of k v = Option.bind v (json_get k)"

definition nullish_or :: "json option \<Rightarrow> json option \<Rightarrow> json option" where
  "nullish_or a b = (case a of None \<Rightarrow> b | Some v \<Rightarrow> if v = JNull then b else Some v)"

definition and_member :: "string \<Rightarrow> json option \<Rightarrow> json option" where
  "and_member k g = (case g of None \<Rightarrow> None | Some v \<Rightarrow> if js_truthy v then json_get k v else Some v)"

definition is_str :: "json option \<Rightarrow> bool" where
  "is_str v = (case v of Some (JStr _) \<Rightarrow> True | _ \<Rightarrow> False)"

definition is_object :: "json option \<Rightarrow> bool" where
  "is_object v = (case v of Some (JObj _) \<Rightarrow> True | Some (JArr _) \<Rightarrow> True | _ \<Rightarrow> False)"

definition str_or_member :: "string \<Rightarrow> json option \<Rightarrow> json option" where
  "str_or_member k a = (if is_str a then a else member_of k a)"

definition non_null :: "json option \<Rightarrow> json option" where
  "non_null v = (if v = Some JNull then None else v)"

definition get_files :: "string \<Rightarrow> json option \<Rightarrow> sandbox_request" where
  "get_files op a0 =
     \<lparr>sq_route = ''/files'', sq_method = ''GET'', sq_body = None,
      sq_query = (''op'', op) # (case non_null (str_or_member ''path'' a0) of None \<Rightarrow> [] | Some p \<Rightarrow> [(''path'', js_String p)])\<rparr>"

definition sandbox_git :: "json option \<Rightarrow> json option \<Rightarrow> sandbox_request" where
  "sandbox_git a0 a1 =
     (let g = (if is_object a0 then a0 else a1);
          op = (case and_member ''op'' g of
                  Some v \<Rightarrow> if js_truthy v then v else (if is_str a0 then the a0 else JStr ''checkout'')
                | None \<Rightarrow> (if is_str a0 then the a0 else JStr ''checkout''))
      in post_json ''/git'' ([(''op'', op)] @ opt_field ''repo'' (and_member ''repo'' g)
           @ opt_field ''branch'' (and_member ''branch'' g) @ opt_field ''dir'' (and_member ''dir'' g)))"

definition sandbox_write :: "json option \<Rightarrow> json option \<Rightarrow> sandbox_request" where
  "sandbox_write a0 a1 =
     post_json ''/files'' ([(''op'', JStr ''write'')] @ opt_field ''path'' (str_or_member ''path'' a0)
       @ [(''content'', case non_null (if is_str a1 then a1 else member_of ''content'' a0) of None \<Rightarrow> JStr [] | Some v \<Rightarrow> v)])"

text \<open>The route, method, body and query of an operation; \<open>to_number\<close> is \<open>Number\<close> as JSON.\<close>

definition sandbox_route :: "(json option \<Rightarrow> json) \<Rightarrow> string \<Rightarrow> json option \<Rightarrow> json option \<Rightarrow> sandbox_request option" where
  "sandbox_route to_number op a0 a1 =
     (if op = ''exec'' then
        Some (post_json ''/exec'' (opt_field ''cmd'' (str_or_member ''cmd'' a0)
          @ opt_field ''cwd'' (non_null (nullish_or (member_of ''cwd'' a1) (member_of ''cwd'' a0)))))
      else if op = ''git'' then Some (sandbox_git a0 a1)
      else if op = ''writeFile'' then Some (sandbox_write a0 a1)
      else if op = ''readFile'' then Some (get_files ''read'' a0)
      else if op = ''list'' then Some (get_files ''list'' a0)
      else if op = ''expose'' then
        Some (post_json ''/expose'' [(''port'', case a0 of Some (JNum n) \<Rightarrow> JNum n | _ \<Rightarrow> to_number (member_of ''port'' a0))])
      else if op = ''mount'' then Some \<lparr>sq_route = ''/mount'', sq_method = ''POST'', sq_body = None, sq_query = []\<rparr>
      else if op = ''unmount'' then Some \<lparr>sq_route = ''/unmount'', sq_method = ''POST'', sq_body = None, sq_query = []\<rparr>
      else None)"

section \<open>The call\<close>

record sandbox_config =
  sb_enabled :: bool
  sb_url :: string
  sb_key :: string
  sb_doId :: string

record sandbox_http =
  sh_url :: string
  sh_method :: string
  sh_headers :: "(string \<times> string) list"
  sh_body :: "json option"

definition strip_slash :: "string \<Rightarrow> string" where
  "strip_slash s = (if s \<noteq> [] \<and> last s = CHR ''/'' then butlast s else s)"

definition sandbox_http_of :: "sandbox_config \<Rightarrow> sandbox_request \<Rightarrow> sandbox_http" where
  "sandbox_http_of C q =
     (let qs = query_string (sq_query q); send = (sq_method q \<noteq> ''GET'' \<and> sq_body q \<noteq> None)
      in \<lparr>sh_url = strip_slash (sb_url C) @ sq_route q @ (if qs = [] then [] else ''?'' @ qs),
          sh_method = sq_method q,
          sh_headers = [(''authorization'', ''Bearer '' @ sb_key C), (''x-engram-session'', sb_doId C)]
            @ (if send then [(''content-type'', ''application/json'')] else []),
          sh_body = (if send then sq_body q else None)\<rparr>)"

text \<open>A thrown error, or the status, \<open>r.ok\<close> and the bytes; \<open>decode\<close> is \<open>TextDecoder\<close>, \<open>parse\<close> is \<open>JSON.parse\<close>.\<close>

type_synonym sandbox_reply = "(string, nat \<times> bool \<times> bytes) result"

definition sandbox_answer :: "nat \<Rightarrow> (bytes \<Rightarrow> string) \<Rightarrow> (string \<Rightarrow> json option) \<Rightarrow> sandbox_reply \<Rightarrow> host_result" where
  "sandbox_answer maxBody decode parse reply =
     (case reply of
        Inl e \<Rightarrow> HErr (''SandboxError: '' @ e)
      | Inr (code, okay, ab) \<Rightarrow>
          (let text = decode (take maxBody ab);
               value = (case parse text of Some v \<Rightarrow> v | None \<Rightarrow> JObj [(''raw'', JStr text)])
           in if okay then HOk value
              else HErr (''SandboxError: '' @ (case js_field ''error'' (Some value) of
                     Some e \<Rightarrow> js_String e | None \<Rightarrow> ''HTTP '' @ nat_str code))))"

definition doSandbox ::
  "nat \<Rightarrow> (bytes \<Rightarrow> string) \<Rightarrow> (string \<Rightarrow> json option) \<Rightarrow> (json option \<Rightarrow> json) \<Rightarrow> (sandbox_http \<Rightarrow> sandbox_reply) \<Rightarrow>
   sandbox_config \<Rightarrow> string \<Rightarrow> json list \<Rightarrow> host_result \<times> sandbox_http list" where
  "doSandbox maxBody decode parse to_number net C name args =
     (if \<not> sb_enabled C then (HErr ''SandboxUnavailable: config.sandbox not enabled'', [])
      else if sb_url C = [] \<or> sb_key C = [] then (HErr ''SandboxUnavailable: sandbox endpoint/key not configured'', [])
      else (let op = drop 8 name;
                a0 = (case args of a # _ \<Rightarrow> Some a | _ \<Rightarrow> None);
                a1 = (case args of _ # a # _ \<Rightarrow> Some a | _ \<Rightarrow> None)
            in case sandbox_route to_number op a0 a1 of
                 None \<Rightarrow> (HErr (''SandboxError: unknown op '' @ [CHR 0x27] @ op @ [CHR 0x27]), [])
               | Some q \<Rightarrow> (let h = sandbox_http_of C q in (sandbox_answer maxBody decode parse (net h), [h]))))"

section \<open>Confinement\<close>

definition SANDBOX_ROUTES :: "string list" where
  "SANDBOX_ROUTES = [''/exec'', ''/git'', ''/files'', ''/expose'', ''/mount'', ''/unmount'']"

lemma request_routes [simp]:
  "sq_route (post_json r ms) = r" "sq_route (sandbox_git a0 a1) = ''/git''" "sq_route (sandbox_write a0 a1) = ''/files''"
  "sq_route (get_files op a0) = ''/files''"
  by (simp_all add: post_json_def sandbox_git_def sandbox_write_def get_files_def Let_def)

lemma pick_route:
  "(if a then Some x else r) = Some q \<Longrightarrow> sq_route x \<in> set SANDBOX_ROUTES \<Longrightarrow>
   (r = Some q \<Longrightarrow> sq_route q \<in> set SANDBOX_ROUTES) \<Longrightarrow> sq_route q \<in> set SANDBOX_ROUTES"
  by (cases a) auto

lemma sandbox_routes:
  assumes "sandbox_route to_number op a0 a1 = Some q" shows "sq_route q \<in> set SANDBOX_ROUTES"
  using assms unfolding sandbox_route_def apply (elim pick_route)
          apply (simp_all only: request_routes sandbox_request.select_convs)
         apply (simp_all add: SANDBOX_ROUTES_def)
  done

definition url_special :: string where
  "url_special = ''/#?&= @:''"

lemma form_byte_safe: "set (form_byte n) \<inter> set url_special = {}"
proof -
  have "set (js_upper (hex2 b)) \<subseteq> js_upper_char ` set hex_chars" for b
    using hex2_digits[of b] by (auto simp: js_upper_def)
  moreover have "js_upper_char ` set hex_chars \<inter> set url_special = {}" "CHR ''%'' \<notin> set url_special" by code_simp+
  ultimately show ?thesis by (fastforce simp: form_byte_def)
qed

lemma plain_char_safe:
  "48 \<le> n \<and> n \<le> 57 \<or> 65 \<le> n \<and> n \<le> 90 \<or> 97 \<le> n \<and> n \<le> 122 \<Longrightarrow> n = (of_char c :: nat) \<Longrightarrow> c \<notin> set url_special"
  by (auto simp: url_special_def)

lemma form_char_safe: "set (form_char c) \<inter> set url_special = {}"
proof -
  have "c \<notin> set url_special" if "List.member ''*-._'' c" using that by (auto simp: url_special_def)
  moreover have "CHR ''+'' \<notin> set url_special" by (simp add: url_special_def)
  ultimately show ?thesis
    using plain_char_safe[OF _ refl, of c] form_byte_safe by (auto simp: form_char_def Let_def split: if_splits)
qed

text \<open>The sandbox bridge is confined: a cell's call sends at most one request, and only when the capability is
  on and configured; the request goes to one of six fixed routes of the configured endpoint, whatever the
  arguments are (they can only end up in the body and, escaped, in the query), and it carries the configured
  key and session and nothing of the cell's in its headers.\<close>

theorem sandbox_confined:
  assumes "doSandbox maxBody decode parse to_number net C name args = (r, sent)" and "h \<in> set sent"
  shows "length sent = 1 \<and> sb_enabled C \<and> sb_url C \<noteq> [] \<and> sb_key C \<noteq> []
    \<and> (\<exists>route qs. sh_url h = strip_slash (sb_url C) @ route @ qs
         \<and> route \<in> set SANDBOX_ROUTES
         \<and> (qs = [] \<or> hd qs = CHR ''?'' \<and> (\<forall>x \<in> set (tl qs). x \<notin> set ''/#?@:'')))
    \<and> map_of (sh_headers h) ''authorization'' = Some (''Bearer '' @ sb_key C)
    \<and> map_of (sh_headers h) ''x-engram-session'' = Some (sb_doId C)
    \<and> (\<forall>p \<in> set (sh_headers h). fst p \<in> {''authorization'', ''x-engram-session'', ''content-type''})"
proof -
  have join: "\<forall>x \<in> set (js_join CHR ''&'' ps). x = CHR ''&'' \<or> (\<exists>p \<in> set ps. x \<in> set p)" for ps
    by (induction "CHR ''&''" ps rule: js_join.induct) auto
  have qsafe: "\<forall>x \<in> set (query_string ps). x \<notin> set ''/#?@:''" for ps
  proof
    fix x assume "x \<in> set (query_string ps)"
    then have "x = CHR ''&'' \<or> x = CHR ''='' \<or> (\<exists>c. x \<in> set (form_char c))"
      using join unfolding query_string_def by fastforce
    then show "x \<notin> set ''/#?@:''" using form_char_safe by (auto simp: url_special_def)
  qed
  let ?a0 = "case args of a # _ \<Rightarrow> Some a | _ \<Rightarrow> None" and ?a1 = "case args of _ # a # _ \<Rightarrow> Some a | _ \<Rightarrow> None"
  have on: "sb_enabled C" "sb_url C \<noteq> []" "sb_key C \<noteq> []" using assms by (auto simp: doSandbox_def split: if_splits)
  then obtain q where r: "sandbox_route to_number (drop 8 name) ?a0 ?a1 = Some q" and q: "sent = [sandbox_http_of C q]"
    using assms by (cases "sandbox_route to_number (drop 8 name) ?a0 ?a1") (simp_all add: doSandbox_def Let_def)
  then have h: "h = sandbox_http_of C q" using assms(2) by simp
  let ?qs = "if query_string (sq_query q) = [] then [] else ''?'' @ query_string (sq_query q)"
  have "sh_url h = strip_slash (sb_url C) @ sq_route q @ ?qs" by (simp add: h sandbox_http_of_def Let_def)
  moreover have "?qs = [] \<or> hd ?qs = CHR ''?'' \<and> (\<forall>x \<in> set (tl ?qs). x \<notin> set ''/#?@:'')"
    using qsafe[of "sq_query q"] by simp
  ultimately have "\<exists>route qs. sh_url h = strip_slash (sb_url C) @ route @ qs \<and> route \<in> set SANDBOX_ROUTES
      \<and> (qs = [] \<or> hd qs = CHR ''?'' \<and> (\<forall>x \<in> set (tl qs). x \<notin> set ''/#?@:''))"
    using sandbox_routes[OF r] by blast
  moreover have "map_of (sh_headers h) ''authorization'' = Some (''Bearer '' @ sb_key C)"
      "map_of (sh_headers h) ''x-engram-session'' = Some (sb_doId C)"
      "\<forall>p \<in> set (sh_headers h). fst p \<in> {''authorization'', ''x-engram-session'', ''content-type''}"
    by (simp_all add: h sandbox_http_of_def Let_def)
  moreover have "length sent = 1" by (simp add: q)
  ultimately show ?thesis using on by (intro conjI) assumption+
qed

theorem sandbox_confined_witness:
  "\<exists>h. snd (doSandbox 10 (\<lambda>_. []) (\<lambda>_. None) (\<lambda>_. JNull) (\<lambda>_. Inl ''down'')
        \<lparr>sb_enabled = True, sb_url = ''https://s/'', sb_key = ''k'', sb_doId = ''d''\<rparr> ''sandbox.readFile'' [JStr ''a/b?'']) = [h]
     \<and> map_of (sh_headers h) ''authorization'' = Some ''Bearer k''"
proof -
  let ?C = "\<lparr>sb_enabled = True, sb_url = ''https://s/'', sb_key = ''k'', sb_doId = ''d''\<rparr>"
  let ?r = "doSandbox 10 (\<lambda>_. []) (\<lambda>_. None) (\<lambda>_. JNull) (\<lambda>_. Inl ''down'') ?C ''sandbox.readFile'' [JStr ''a/b?'']"
  have "snd ?r \<noteq> []" by (simp add: doSandbox_def sandbox_route_def Let_def)
  then obtain h hs where h: "snd ?r = h # hs" by (meson neq_Nil_conv)
  then have "h \<in> set (snd ?r)" by simp
  from sandbox_confined[OF surjective_pairing this] h show ?thesis by (simp add: length_Suc_conv)
qed

end
