(* ===== verification/Credentials.thy ===== *)
theory Credentials
  imports Base64
begin

text \<open>
  Authentication and authorization of the cloud entry (\<open>src/apps/cloud/src/supervisor.ts\<close>): the
  permission slugs and the effective permission set, key minting and comparison, shard and facet names,
  the validate-once cache, and the verification of WorkOS keys and AuthKit tokens up to
  \<open>resolveCredential\<close>.  The network, the digest, the import and use of RSA keys and
  \<open>JSON.parse\<close> are the fields of \<open>auth_env\<close>; time is the value of \<open>Date.now()\<close>.
\<close>

section \<open>Credentials and permissions\<close>

datatype cred_type = WorkosKey | WorkosUser | Legacy

definition cred_type_str :: "cred_type \<Rightarrow> string" where
  "cred_type_str c = (case c of WorkosKey \<Rightarrow> ''workos-key'' | WorkosUser \<Rightarrow> ''workos-user'' | Legacy \<Rightarrow> ''legacy'')"

record credential =
  cr_account :: string
  cr_permissions :: "string list"
  cr_credType :: cred_type
  cr_plan :: string

record resolved_tenant =
  rt_tenantId :: string
  rt_plan :: string
  rt_hash :: string

definition KERNEL_EVAL :: string where "KERNEL_EVAL = ''kernel:eval''"
definition KERNEL_READ :: string where "KERNEL_READ = ''kernel:read''"
definition KERNEL_RESET :: string where "KERNEL_RESET = ''kernel:reset''"
definition SESSION_LIST :: string where "SESSION_LIST = ''session:list''"
definition SESSION_SHARE :: string where "SESSION_SHARE = ''session:share''"
definition USAGE_READ :: string where "USAGE_READ = ''usage:read''"
definition ACCOUNT_ADMIN :: string where "ACCOUNT_ADMIN = ''account:admin''"

lemmas PERM_defs = KERNEL_EVAL_def KERNEL_READ_def KERNEL_RESET_def SESSION_LIST_def SESSION_SHARE_def
  USAGE_READ_def ACCOUNT_ADMIN_def

definition DEVELOPER_PROFILE :: "string list" where
  "DEVELOPER_PROFILE = [KERNEL_EVAL, KERNEL_READ, KERNEL_RESET, SESSION_LIST, SESSION_SHARE, USAGE_READ]"

definition effectivePermissions :: "credential \<Rightarrow> string list" where
  "effectivePermissions c =
     (if cr_credType c = Legacy then DEVELOPER_PROFILE
      else if cr_permissions c \<noteq> [] then cr_permissions c
      else DEVELOPER_PROFILE)"

section \<open>Keys, shards and names\<close>

definition sha256Hex_str :: "(string \<Rightarrow> bytes) \<Rightarrow> string \<Rightarrow> string" where
  "sha256Hex_str digest s = concat (map hex2 (digest s))"

definition mintRawKey :: "bytes \<Rightarrow> string" where
  "mintRawKey u8 = ''md_'' @ concat (map hex2 u8)"

text \<open>\<open>safeEqual\<close>: the differences of all character codes are accumulated.\<close>

definition safeEqual :: "string \<Rightarrow> string \<Rightarrow> bool" where
  "safeEqual a b =
     (if length a \<noteq> length b then False
      else foldl (\<lambda>d (x, y). or d (xor (of_char x) (of_char y))) (0 :: 32 word) (zip a b) = 0)"

definition fnv_step :: "32 word \<Rightarrow> char \<Rightarrow> 32 word" where
  "fnv_step h c = (xor h (of_char c)) * 0x01000193"

definition shardFor :: "string \<Rightarrow> nat \<Rightarrow> string" where
  "shardFor sessionId n = ''sup-'' @ nat_str (unat (foldl fnv_step 0x811c9dc5 sessionId) mod n)"

definition facetName :: "string \<Rightarrow> string \<Rightarrow> string" where
  "facetName tenant sessionId = ''kr:'' @ tenant @ '':'' @ sessionId"

definition SHARD_COUNT :: nat where "SHARD_COUNT = 64"
definition MAX_FACETS_PER_SUPERVISOR :: nat where "MAX_FACETS_PER_SUPERVISOR = 128"

section \<open>The validate-once cache\<close>

text \<open>A map in insertion order; \<open>None\<close> as the credential is the negative entry.\<close>

type_synonym cache = "(string, credential option \<times> int) omap"

definition WORKOS_CACHE_TTL_MS :: int where "WORKOS_CACHE_TTL_MS = 60000"
definition WORKOS_CACHE_MAX :: nat where "WORKOS_CACHE_MAX = 2048"

definition cacheGet :: "string \<Rightarrow> int \<Rightarrow> cache \<Rightarrow> credential option option \<times> cache" where
  "cacheGet k now c =
     (case map_of c k of
        None \<Rightarrow> (None, c)
      | Some (cred, exp) \<Rightarrow> if exp < now then (None, AList.delete k c) else (Some cred, c))"

definition cacheSet :: "string \<Rightarrow> credential option \<Rightarrow> int \<Rightarrow> cache \<Rightarrow> cache" where
  "cacheSet k cred now c =
     AList.update k (cred, now + WORKOS_CACHE_TTL_MS) (if WORKOS_CACHE_MAX \<le> length c then tl c else c)"

section \<open>WorkOS\<close>

record http_request =
  hq_method :: string
  hq_url :: string
  hq_headers :: "(string, string) omap"
  hq_body :: json

record http_reply =
  hr_ok :: bool
  hr_json :: "json option"

text \<open>\<open>ae_net\<close> answers \<open>None\<close> when \<open>fetch\<close> throws; \<open>ae_import\<close> and \<open>ae_verify\<close> are
  \<open>crypto.subtle\<close> (\<open>None\<close> when it throws), \<open>ae_decode\<close> is \<open>JSON.parse\<close> after \<open>TextDecoder\<close>.\<close>

record 'v auth_env =
  ae_WORKOS_API_HOST :: string
  ae_WORKOS_API_KEY :: string
  ae_WORKOS_CLIENT_ID :: string
  ae_net :: "http_request \<Rightarrow> http_reply option"
  ae_import :: "json \<Rightarrow> 'v option"
  ae_verify :: "'v \<Rightarrow> bytes \<Rightarrow> string \<Rightarrow> bool option"
  ae_digest :: "string \<Rightarrow> bytes"
  ae_decode :: "bytes \<Rightarrow> json option"

record 'v auth_state =
  as_cache :: cache
  as_keys :: "(json, 'v) omap"
  as_fetchedFor :: string
  as_fetchedAt :: int

definition workosHost :: "'v auth_env \<Rightarrow> string" where
  "workosHost E = (if ae_WORKOS_API_HOST E = [] then ''https://api.workos.com'' else ae_WORKOS_API_HOST E)"

definition string_list :: "json option \<Rightarrow> string list" where
  "string_list v = (case v of Some (JArr xs) \<Rightarrow> map js_String xs | _ \<Rightarrow> [])"

definition validate_request :: "'v auth_env \<Rightarrow> string \<Rightarrow> http_request" where
  "validate_request E key =
     \<lparr>hq_method = ''POST'', hq_url = workosHost E @ ''/api_keys/validations'',
      hq_headers = [(''authorization'', ''Bearer '' @ ae_WORKOS_API_KEY E), (''content-type'', ''application/json'')],
      hq_body = JObj [(''value'', JStr key)]\<rparr>"

definition workosValidateApiKey :: "'v auth_env \<Rightarrow> string \<Rightarrow> credential option" where
  "workosValidateApiKey E key =
     (if ae_WORKOS_API_KEY E = [] then None
      else (case ae_net E (validate_request E key) of
          None \<Rightarrow> None
        | Some res \<Rightarrow>
            if \<not> hr_ok res then None
            else (let apiKey = js_field ''api_key'' (hr_json res);
                      owner = js_field ''owner'' apiKey
                  in if js_field ''type'' owner \<noteq> Some (JStr ''organization'') then None
                     else (case js_field ''id'' owner of
                         None \<Rightarrow> None
                       | Some i \<Rightarrow> Some \<lparr>cr_account = js_String i, cr_permissions = string_list (js_field ''permissions'' apiKey),
                                      cr_credType = WorkosKey, cr_plan = ''workos''\<rparr>))))"

definition JWKS_TTL_MS :: int where "JWKS_TTL_MS = 10 * 60000"

definition b64urlToU8 :: "string \<Rightarrow> bytes option" where
  "b64urlToU8 s =
     (let t = map (\<lambda>c. if c = CHR ''-'' then CHR ''+'' else if c = CHR ''_'' then CHR ''/'' else c) s;
          p = t @ replicate ((4 - length t mod 4) mod 4) CHR ''=''
      in map_option (map of_char) (atob p))"

text \<open>The keys of a key set; an element that is \<open>null\<close> throws and stops the loop.\<close>

fun import_keys :: "'v auth_env \<Rightarrow> json list \<Rightarrow> (json, 'v) omap \<Rightarrow> bool \<times> (json, 'v) omap" where
  "import_keys E [] m = (True, m)"
| "import_keys E (jwk # ks) m =
     (if jwk = JNull then (False, m)
      else (case (js_field ''kid'' (Some jwk), js_field ''n'' (Some jwk), js_field ''e'' (Some jwk)) of
          (Some kid, Some n, Some e) \<Rightarrow>
            if json_get ''kty'' jwk \<noteq> Some (JStr ''RSA'') then import_keys E ks m
            else (case ae_import E (JObj [(''kty'', JStr ''RSA''), (''n'', n), (''e'', e), (''alg'', JStr ''RS256''),
                                         (''ext'', JBool True)]) of
                None \<Rightarrow> import_keys E ks m
              | Some key \<Rightarrow> import_keys E ks (AList.update kid key m))
        | _ \<Rightarrow> import_keys E ks m))"

definition jwks_url :: "'v auth_env \<Rightarrow> string" where
  "jwks_url E = workosHost E @ ''/sso/jwks/'' @ ae_WORKOS_CLIENT_ID E"

definition loadJwks :: "'v auth_env \<Rightarrow> int \<Rightarrow> 'v auth_state \<Rightarrow> (string, unit) result \<times> 'v auth_state" where
  "loadJwks E now s =
     (if ae_WORKOS_CLIENT_ID E = [] then (Inr (), s)
      else if as_fetchedFor s = jwks_url E \<and> now - as_fetchedAt s < JWKS_TTL_MS \<and> as_keys s \<noteq> [] then (Inr (), s)
      else (case ae_net E \<lparr>hq_method = ''GET'', hq_url = jwks_url E, hq_headers = [], hq_body = JNull\<rparr> of
          None \<Rightarrow> (Inr (), s)
        | Some res \<Rightarrow>
            if \<not> hr_ok res then (Inr (), s)
            else (case js_field ''keys'' (hr_json res) of
                Some (JArr ks) \<Rightarrow>
                  (case import_keys E ks [] of
                     (True, m) \<Rightarrow> (Inr (), s\<lparr>as_keys := m, as_fetchedFor := jwks_url E, as_fetchedAt := now\<rparr>)
                   | (False, m) \<Rightarrow> (Inl ''TypeError'', s\<lparr>as_keys := m\<rparr>))
              | _ \<Rightarrow> (Inr (), s))))"

text \<open>The key for a token's \<open>kid\<close>, refetching the set once when it is not cached.\<close>

definition jwks_key :: "'v auth_env \<Rightarrow> int \<Rightarrow> json \<Rightarrow> 'v auth_state \<Rightarrow> (string, 'v option) result \<times> 'v auth_state" where
  "jwks_key E now kid s =
     (case loadJwks E now s of
        (Inl e, s1) \<Rightarrow> (Inl e, s1)
      | (Inr _, s1) \<Rightarrow>
          (case map_of (as_keys s1) kid of
             Some k \<Rightarrow> (Inr (Some k), s1)
           | None \<Rightarrow>
               (case loadJwks E now (s1\<lparr>as_fetchedFor := []\<rparr>) of
                  (Inl e, s2) \<Rightarrow> (Inl e, s2)
                | (Inr _, s2) \<Rightarrow> (Inr (map_of (as_keys s2) kid), s2))))"

definition claims_credential :: "int \<Rightarrow> json \<Rightarrow> credential option" where
  "claims_credential now claims =
     (if (case json_get ''exp'' claims of Some (JNum e) \<Rightarrow> e * 1000 < now | _ \<Rightarrow> False) then None
      else (case (case js_field ''org_id'' (Some claims) of
                    Some x \<Rightarrow> Some x
                  | None \<Rightarrow> js_field ''organization_id'' (Some claims)) of
          None \<Rightarrow> None
        | Some org \<Rightarrow> Some \<lparr>cr_account = js_String org, cr_permissions = string_list (js_field ''permissions'' (Some claims)),
                         cr_credType = WorkosUser, cr_plan = ''workos''\<rparr>))"

text \<open>\<open>workosVerifyUserToken\<close>: the outer error is an exception that leaves the function.\<close>

definition workosVerifyUserToken ::
  "'v auth_env \<Rightarrow> int \<Rightarrow> string \<Rightarrow> 'v auth_state \<Rightarrow> (string, credential option) result \<times> 'v auth_state" where
  "workosVerifyUserToken E now token st =
     (if ae_WORKOS_CLIENT_ID E = [] then (Inr None, st)
      else (case js_split CHR ''.'' token of
          [h, p, s] \<Rightarrow>
            (case (Option.bind (b64urlToU8 h) (ae_decode E), Option.bind (b64urlToU8 p) (ae_decode E)) of
               (Some header, Some claims) \<Rightarrow>
                 if header = JNull then (Inl ''TypeError'', st)
                 else if json_get ''alg'' header \<noteq> Some (JStr ''RS256'') then (Inr None, st)
                 else (case js_field ''kid'' (Some header) of
                     None \<Rightarrow> (Inr None, st)
                   | Some kid \<Rightarrow>
                       (case jwks_key E now kid st of
                          (Inl e, st') \<Rightarrow> (Inl e, st')
                        | (Inr None, st') \<Rightarrow> (Inr None, st')
                        | (Inr (Some key), st') \<Rightarrow>
                            (case b64urlToU8 s of
                               None \<Rightarrow> (Inl ''InvalidCharacterError'', st')
                             | Some sig \<Rightarrow>
                                 if ae_verify E key sig (h @ ''.'' @ p) \<noteq> Some True then (Inr None, st')
                                 else if claims = JNull then (Inl ''TypeError'', st')
                                 else (Inr (claims_credential now claims), st'))))
             | _ \<Rightarrow> (Inr None, st))
        | _ \<Rightarrow> (Inr None, st)))"

section \<open>Resolving a credential\<close>

definition legacy_credential :: "resolved_tenant option \<Rightarrow> credential option" where
  "legacy_credential t =
     (case t of
        None \<Rightarrow> None
      | Some t \<Rightarrow>
          if rt_tenantId t = [] then None
          else Some \<lparr>cr_account = rt_tenantId t, cr_permissions = [], cr_credType = Legacy,
                     cr_plan = (if rt_plan t = [] then ''free'' else rt_plan t)\<rparr>)"

definition looksJwt :: "string \<Rightarrow> bool" where
  "looksJwt k \<longleftrightarrow> length (js_split CHR ''.'' k) = 3 \<and> prefix ''eyJ'' k"

definition validate_live ::
  "'v auth_env \<Rightarrow> int \<Rightarrow> string \<Rightarrow> 'v auth_state \<Rightarrow> (string, credential option) result \<times> 'v auth_state" where
  "validate_live E now rawKey s =
     (if looksJwt rawKey then workosVerifyUserToken E now rawKey s else (Inr (workosValidateApiKey E rawKey), s))"

definition resolveCredential ::
  "'v auth_env \<Rightarrow> int \<Rightarrow> string \<Rightarrow> (string \<Rightarrow> resolved_tenant option) \<Rightarrow> bool \<Rightarrow> 'v auth_state \<Rightarrow>
   (string, credential option) result \<times> 'v auth_state" where
  "resolveCredential E now rawKey resolveLegacy fresh s =
     (if rawKey = [] then (Inr None, s)
      else if prefix ''md_'' rawKey then (Inr (legacy_credential (resolveLegacy rawKey)), s)
      else (let ck = sha256Hex_str (ae_digest E) rawKey;
                (hit, c) = (if fresh then (None, as_cache s) else cacheGet ck now (as_cache s));
                s1 = s\<lparr>as_cache := c\<rparr>
            in case hit of
                 Some cred \<Rightarrow> (Inr cred, s1)
               | None \<Rightarrow>
                   (case validate_live E now rawKey s1 of
                      (Inl e, s2) \<Rightarrow> (Inl e, s2)
                    | (Inr cred, s2) \<Rightarrow> (Inr cred, s2\<lparr>as_cache := cacheSet ck cred now (as_cache s2)\<rparr>))))"

end
