(* ===== verification/Supervisor.thy ===== *)
theory Supervisor
  imports Credentials Complex_Main
begin

text \<open>
  The session supervisor of the cloud app (\<open>SupervisorDO\<close> in \<open>src/apps/cloud/src/supervisor.ts\<close>):
  the two SQL tables, key minting and revocation, metering, the worker loader and facets, the keep-warm
  bookkeeping with its alarm sweep, and the routes.  The kernel behind a facet is a parameter.
\<close>

section \<open>State\<close>

record tenant_row =
  tr_hash :: string
  tr_tenant :: string
  tr_created :: int
  tr_plan :: string
  tr_revoked :: bool

record session_row =
  sr_facet :: string
  sr_tenant :: string
  sr_session :: string
  sr_created :: int
  sr_last_activity :: int
  sr_eval_count :: int
  sr_ewma :: int
  sr_last_gap :: int
  sr_warm_until :: int
  sr_latency_sensitive :: bool
  sr_last_size_gz :: int

record datapoint =
  dp_tenant :: string
  dp_metric :: string
  dp_session :: string
  dp_credType :: string
  dp_value :: int

text \<open>\<open>su_loaded\<close> is the outbound gateway of the loaded kernel worker (the inner option is \<open>null\<close>),
  \<open>su_running\<close> the facets that exist, \<open>su_world\<close> the kernels behind them.\<close>

record 'k supervisor =
  su_sessions :: "session_row list"
  su_tenants :: "tenant_row list"
  su_alarm :: "int option"
  su_points :: "datapoint list"
  su_credType :: string
  su_egressTenant :: string
  su_loaded :: "string option option"
  su_running :: "string list"
  su_world :: 'k

record 'k sup_env =
  se_digest :: "string \<Rightarrow> bytes"
  se_AE :: bool
  se_gateway :: bool
  se_kernel :: "string \<Rightarrow> json \<Rightarrow> 'k \<Rightarrow> (string, json) result \<times> 'k"
  se_abort :: "string \<Rightarrow> 'k \<Rightarrow> 'k"

section \<open>Keys\<close>

definition mintKey :: "(string \<Rightarrow> bytes) \<Rightarrow> int \<Rightarrow> bytes \<Rightarrow> string \<Rightarrow> string \<Rightarrow> tenant_row list \<Rightarrow>
    (string, json) result \<times> tenant_row list" where
  "mintKey digest now rnd tenantId plan ts =
     (let raw = mintRawKey rnd; hash = sha256Hex_str digest raw; pl = (if plan = [] then ''free'' else plan)
      in if list_ex (\<lambda>r. tr_hash r = hash) ts then (Inl ''UNIQUE constraint failed: tenants.api_key_hash'', ts)
         else (Inr (JObj [(''tenantId'', JStr tenantId), (''plan'', JStr pl), (''apiKey'', JStr raw), (''apiKeyHash'', JStr hash)]),
               ts @ [\<lparr>tr_hash = hash, tr_tenant = tenantId, tr_created = now, tr_plan = pl, tr_revoked = False\<rparr>]))"

definition tenant_json :: "tenant_row \<Rightarrow> json" where
  "tenant_json r = JObj [(''api_key_hash'', JStr (tr_hash r)), (''tenant_id'', JStr (tr_tenant r)),
     (''created_at'', JNum (tr_created r)), (''plan'', JStr (tr_plan r)), (''revoked'', JNum (if tr_revoked r then 1 else 0))]"

definition listKeys :: "tenant_row list \<Rightarrow> json" where
  "listKeys ts = JArr (map tenant_json (sort_key tr_created ts))"

definition resolveLocal :: "(string \<Rightarrow> bytes) \<Rightarrow> string \<Rightarrow> tenant_row list \<Rightarrow> resolved_tenant option" where
  "resolveLocal digest rawKey ts =
     (if rawKey = [] then None
      else (case find (\<lambda>r. tr_hash r = sha256Hex_str digest rawKey) ts of
          None \<Rightarrow> None
        | Some r \<Rightarrow> if tr_revoked r then None
                    else Some \<lparr>rt_tenantId = tr_tenant r, rt_plan = tr_plan r, rt_hash = sha256Hex_str digest rawKey\<rparr>))"

definition revokeKey :: "(string \<Rightarrow> bytes) \<Rightarrow> string \<Rightarrow> string \<Rightarrow> string \<Rightarrow> tenant_row list \<Rightarrow> json \<times> tenant_row list" where
  "revokeKey digest apiKey apiKeyHash tenantId ts =
     (let hash = (if apiKey \<noteq> [] then sha256Hex_str digest apiKey else apiKeyHash)
      in if hash \<noteq> [] then
           (JObj [(''revoked'', JStr hash), (''rows'', JNum (int (length (filter (\<lambda>r. tr_hash r = hash) ts))))],
            map (\<lambda>r. if tr_hash r = hash then r\<lparr>tr_revoked := True\<rparr> else r) ts)
         else if tenantId \<noteq> [] then
           (JObj [(''tenantId'', JStr tenantId),
                  (''revoked'', JNum (int (length (filter (\<lambda>r. tr_tenant r = tenantId \<and> \<not> tr_revoked r) ts))))],
            map (\<lambda>r. if tr_tenant r = tenantId \<and> \<not> tr_revoked r then r\<lparr>tr_revoked := True\<rparr> else r) ts)
         else (JObj [(''revoked'', JNull)], ts))"

section \<open>Metering, the loader and facets\<close>

definition meter :: "'k sup_env \<Rightarrow> string \<Rightarrow> string \<Rightarrow> int \<Rightarrow> string \<Rightarrow> 'k supervisor \<Rightarrow> 'k supervisor" where
  "meter E tenant metric value sessionId s =
     (if se_AE E
      then s\<lparr>su_points := su_points s @ [\<lparr>dp_tenant = tenant, dp_metric = metric, dp_session = sessionId,
                                          dp_credType = su_credType s, dp_value = value\<rparr>]\<rparr>
      else s)"

definition egress :: "'k sup_env \<Rightarrow> string \<Rightarrow> string option" where
  "egress E tenant = (if se_gateway E then Some tenant else None)"

text \<open>The loader keeps the worker it has built under \<open>KERNEL_CODE_ID\<close> and asks for the code only once.\<close>

definition loadKernel :: "'k sup_env \<Rightarrow> 'k supervisor \<Rightarrow> 'k supervisor" where
  "loadKernel E s =
     (case su_loaded s of
        Some w \<Rightarrow> s
      | None \<Rightarrow> s\<lparr>su_loaded := Some (egress E (if su_egressTenant s = [] then ''anon'' else su_egressTenant s))\<rparr>)"

definition facet :: "'k sup_env \<Rightarrow> string \<Rightarrow> string \<Rightarrow> 'k supervisor \<Rightarrow> 'k supervisor" where
  "facet E tenant sessionId s =
     (let name = facetName tenant sessionId; s1 = s\<lparr>su_egressTenant := tenant\<rparr>
      in if List.member (su_running s1) name then s1
         else (let s2 = loadKernel E s1 in s2\<lparr>su_running := su_running s2 @ [name]\<rparr>))"

definition frame :: "'k sup_env \<Rightarrow> string \<Rightarrow> string \<Rightarrow> json \<Rightarrow> 'k supervisor \<Rightarrow> (string, json) result \<times> 'k supervisor" where
  "frame E tenant sessionId msg s =
     (let s1 = facet E tenant sessionId s;
          (r, w) = se_kernel E (facetName tenant sessionId) msg (su_world s1)
      in (r, s1\<lparr>su_world := w\<rparr>))"

definition abort :: "'k sup_env \<Rightarrow> string \<Rightarrow> 'k supervisor \<Rightarrow> 'k supervisor" where
  "abort E name s = s\<lparr>su_running := removeAll name (su_running s), su_world := se_abort E name (su_world s)\<rparr>"

section \<open>Keep-warm bookkeeping\<close>

definition FACET_IDLE_TTL_MS :: int where "FACET_IDLE_TTL_MS = 5 * 60 * 1000"
definition WARM_SWEEP_INTERVAL_MS :: int where "WARM_SWEEP_INTERVAL_MS = 30 * 1000"
definition WARM_EWMA_ALPHA :: rat where "WARM_EWMA_ALPHA = 2 / 5"
definition WARM_MIN_EVALS :: int where "WARM_MIN_EVALS = 2"
definition WARM_MAX_EWMA_MS :: int where "WARM_MAX_EWMA_MS = 90 * 1000"
definition WARM_RECENCY_K :: rat where "WARM_RECENCY_K = 5 / 2"
definition WARM_HORIZON_MS :: int where "WARM_HORIZON_MS = 4 * 60 * 1000"
definition WARM_MAX_SIZE_GZ_NONSENSITIVE :: int where "WARM_MAX_SIZE_GZ_NONSENSITIVE = 512 * 1024"

lemmas WARM_defs = FACET_IDLE_TTL_MS_def WARM_SWEEP_INTERVAL_MS_def WARM_EWMA_ALPHA_def WARM_MIN_EVALS_def
  WARM_MAX_EWMA_MS_def WARM_RECENCY_K_def WARM_HORIZON_MS_def WARM_MAX_SIZE_GZ_NONSENSITIVE_def

definition js_round :: "rat \<Rightarrow> int" where
  "js_round x = \<lfloor>x + 1 / 2\<rfloor>"

definition find_row :: "string \<Rightarrow> session_row list \<Rightarrow> session_row option" where
  "find_row name rows = find (\<lambda>r. sr_facet r = name) rows"

definition update_rows :: "string \<Rightarrow> (session_row \<Rightarrow> session_row) \<Rightarrow> 'k supervisor \<Rightarrow> 'k supervisor" where
  "update_rows name f s = s\<lparr>su_sessions := map (\<lambda>r. if sr_facet r = name then f r else r) (su_sessions s)\<rparr>"

definition armAlarm :: "int \<Rightarrow> 'k supervisor \<Rightarrow> 'k supervisor" where
  "armAlarm now s = (if su_alarm s = None then s\<lparr>su_alarm := Some (now + WARM_SWEEP_INTERVAL_MS)\<rparr> else s)"

definition new_row :: "string \<Rightarrow> string \<Rightarrow> int \<Rightarrow> session_row" where
  "new_row tenant sessionId now =
     \<lparr>sr_facet = facetName tenant sessionId, sr_tenant = tenant, sr_session = sessionId, sr_created = now,
      sr_last_activity = now, sr_eval_count = 1, sr_ewma = 0, sr_last_gap = 0, sr_warm_until = 0,
      sr_latency_sensitive = False, sr_last_size_gz = 0\<rparr>"

text \<open>The cadence after an activity at \<open>now\<close>.\<close>

definition touched :: "int \<Rightarrow> session_row \<Rightarrow> session_row" where
  "touched now r =
     (let prev = sr_last_activity r;
          gap = (if 0 < prev then max 0 (now - prev) else sr_last_gap r);
          ewma = (if 0 < prev
                  then (if 0 < sr_ewma r
                        then js_round (WARM_EWMA_ALPHA * of_int gap + (1 - WARM_EWMA_ALPHA) * of_int (sr_ewma r))
                        else gap)
                  else sr_ewma r)
      in r\<lparr>sr_last_activity := now, sr_eval_count := sr_eval_count r + 1, sr_ewma := ewma, sr_last_gap := gap\<rparr>)"

definition touch :: "int \<Rightarrow> string \<Rightarrow> string \<Rightarrow> 'k supervisor \<Rightarrow> (string, unit) result \<times> 'k supervisor" where
  "touch now tenant sessionId s =
     (let name = facetName tenant sessionId
      in case find_row name (su_sessions s) of
           None \<Rightarrow>
             if MAX_FACETS_PER_SUPERVISOR \<le> length (su_sessions s)
             then (Inl (''supervisor facet cap reached ('' @ nat_str (length (su_sessions s)) @ ''/''
                        @ nat_str MAX_FACETS_PER_SUPERVISOR @ ''); session rejected (shard is full)''), s)
             else (Inr (), armAlarm now (s\<lparr>su_sessions := su_sessions s @ [new_row tenant sessionId now]\<rparr>))
         | Some _ \<Rightarrow> (Inr (), armAlarm now (update_rows name (touched now) s)))"

definition setLatencySensitive :: "string \<Rightarrow> string \<Rightarrow> bool \<Rightarrow> 'k supervisor \<Rightarrow> 'k supervisor" where
  "setLatencySensitive tenant sessionId on =
     update_rows (facetName tenant sessionId) (\<lambda>r. r\<lparr>sr_latency_sensitive := on\<rparr>)"

definition recordSize :: "string \<Rightarrow> string \<Rightarrow> int \<Rightarrow> 'k supervisor \<Rightarrow> 'k supervisor" where
  "recordSize tenant sessionId sizeGz s =
     (if 0 < sizeGz then update_rows (facetName tenant sessionId) (\<lambda>r. r\<lparr>sr_last_size_gz := to_int32 sizeGz\<rparr>) s else s)"

definition shouldWarm :: "session_row option \<Rightarrow> int \<Rightarrow> bool" where
  "shouldWarm row now =
     (case row of
        None \<Rightarrow> False
      | Some r \<Rightarrow>
          if sr_last_activity r \<le> 0 then False
          else if sr_latency_sensitive r then True
          else (let recency = now - sr_last_activity r
                in if to_int32 (sr_eval_count r) < WARM_MIN_EVALS then False
                   else if sr_ewma r \<le> 0 then False
                   else if WARM_MAX_EWMA_MS \<le> sr_ewma r then False
                   else if WARM_RECENCY_K * of_int (sr_ewma r) < of_int recency then False
                   else \<not> WARM_MAX_SIZE_GZ_NONSENSITIVE < to_int32 (sr_last_size_gz r)))"

section \<open>The alarm sweep\<close>

definition ping_frame :: json where "ping_frame = JObj [(''t'', JStr ''ping'')]"

text \<open>The sweep's work for one row of the snapshot \<open>rows\<close> it read at the start.\<close>

definition alarm_row :: "'k sup_env \<Rightarrow> int \<Rightarrow> session_row \<Rightarrow> 'k supervisor \<Rightarrow> 'k supervisor" where
  "alarm_row E now row s =
     (if shouldWarm (Some row) now
      then (let s1 = snd (frame E (sr_tenant row) (sr_session row) ping_frame s);
                s2 = update_rows (sr_facet row) (\<lambda>r. r\<lparr>sr_warm_until := now + WARM_HORIZON_MS\<rparr>) s1
            in meter E (sr_tenant row) ''warm'' (WARM_SWEEP_INTERVAL_MS div 1000) (sr_session row) s2)
      else if FACET_IDLE_TTL_MS \<le> now - sr_last_activity row \<and> \<not> now < sr_warm_until row
      then update_rows (sr_facet row) (\<lambda>r. r\<lparr>sr_last_activity := 0, sr_warm_until := 0\<rparr>) (abort E (sr_facet row) s)
      else s)"

definition active :: "session_row list \<Rightarrow> session_row list" where
  "active rows = filter (\<lambda>r. 0 < sr_last_activity r) rows"

definition meter_facets :: "'k sup_env \<Rightarrow> 'k supervisor \<Rightarrow> 'k supervisor" where
  "meter_facets E s =
     foldl (\<lambda>s' t. meter E t ''facet'' (int (length (filter (\<lambda>r. sr_tenant r = t) (active (su_sessions s))))) '''' s')
       s (remdups (map sr_tenant (active (su_sessions s))))"

text \<open>The alarm that fires is no longer set.\<close>

definition alarm :: "'k sup_env \<Rightarrow> int \<Rightarrow> 'k supervisor \<Rightarrow> 'k supervisor" where
  "alarm E now s0 =
     (let s = s0\<lparr>su_alarm := None\<rparr>;
          s1 = foldl (\<lambda>s' row. alarm_row E now row s') s (active (su_sessions s));
          s2 = meter_facets E s1
      in if active (su_sessions s2) \<noteq> [] then s2\<lparr>su_alarm := Some (now + WARM_SWEEP_INTERVAL_MS)\<rparr> else s2)"

section \<open>Evaluation\<close>

definition eval_frame :: "string \<Rightarrow> int \<Rightarrow> json" where
  "eval_frame src cell = JObj [(''t'', JStr ''eval''), (''src'', JStr src), (''cell'', JNum cell)]"

text \<open>What \<open>_evalMetered\<close> does once the kernel has replied.\<close>

definition eval_reply :: "'k sup_env \<Rightarrow> string \<Rightarrow> string \<Rightarrow> json \<Rightarrow> 'k supervisor \<Rightarrow> 'k supervisor" where
  "eval_reply E tenant sessionId reply s =
     (let s1 = meter E tenant ''eval'' 1 sessionId s;
          ckpt = js_field ''checkpoint'' (Some reply)
      in case (js_field ''ok'' ckpt, js_field ''sizeGz'' ckpt) of
           (Some _, Some (JNum n)) \<Rightarrow> meter E tenant ''bytes'' n sessionId (recordSize tenant sessionId n s1)
         | _ \<Rightarrow> s1)"

definition evalMetered ::
  "'k sup_env \<Rightarrow> string \<Rightarrow> string \<Rightarrow> string \<Rightarrow> int \<Rightarrow> 'k supervisor \<Rightarrow> (string, json) result \<times> 'k supervisor" where
  "evalMetered E tenant sessionId src cell s =
     (case frame E tenant sessionId (eval_frame src cell) s of
        (Inl e, s1) \<Rightarrow> (Inl e, s1)
      | (Inr reply, s1) \<Rightarrow> (Inr reply, eval_reply E tenant sessionId reply s1))"

section \<open>Requests\<close>

text \<open>Query parameters and headers with lower-case names, first occurrence first; \<open>rq_body\<close> is the parsed body
  (an empty body is \<open>{}\<close>, \<open>None\<close> is not JSON).\<close>

record request =
  rq_method :: string
  rq_path :: string
  rq_query :: "(string, string) omap"
  rq_headers :: "(string, string) omap"
  rq_body :: "json option"

type_synonym http_response = "nat \<times> json"

definition header :: "request \<Rightarrow> string \<Rightarrow> string" where
  "header rq n = (case map_of (rq_headers rq) n of None \<Rightarrow> '''' | Some v \<Rightarrow> v)"

definition query :: "request \<Rightarrow> string \<Rightarrow> string" where
  "query rq n = (case map_of (rq_query rq) n of None \<Rightarrow> '''' | Some v \<Rightarrow> v)"

definition or_else :: "string \<Rightarrow> string \<Rightarrow> string" where
  "or_else a b = (if a = [] then b else a)"

definition session_of :: "request \<Rightarrow> string" where
  "session_of rq = or_else (query rq ''session'') ''default''"

definition request_perms :: "string \<Rightarrow> string list" where
  "request_perms csv = (if csv = [] then [] else filter (\<lambda>p. p \<noteq> []) (map js_trim (js_split CHR '','' csv)))"

datatype sup_error = EHttp nat string | EPermission string | EOther string

definition error_response :: "sup_error \<Rightarrow> http_response" where
  "error_response e =
     (case e of
        EPermission slug \<Rightarrow>
          (403, JObj [(''ok'', JBool False), (''error'', JObj [(''name'', JStr ''PermissionDeniedError''),
             (''message'', JStr (''permission denied: missing required permission '' @ [CHR 0x27] @ slug @ [CHR 0x27])),
             (''missing'', JStr slug)])])
      | EHttp status m \<Rightarrow> (status, JObj [(''ok'', JBool False), (''error'', JStr m)])
      | EOther m \<Rightarrow> (500, JObj [(''ok'', JBool False), (''error'', JStr m)]))"

definition requireTenant :: "string \<Rightarrow> (sup_error, unit) result" where
  "requireTenant tenant =
     (if tenant = [] then Inl (EHttp 403 ''tenant not resolved (server-set x-md-tenant required; route only reachable via the validated-key data-plane gate)'')
      else Inr ())"

definition requirePerm :: "string list \<Rightarrow> string \<Rightarrow> (sup_error, unit) result" where
  "requirePerm perms slug = (if List.member perms slug then Inr () else Inl (EPermission slug))"

text \<open>\<open>{...base, ...value}\<close>.\<close>

definition spread :: "(string \<times> json) list \<Rightarrow> json \<Rightarrow> json" where
  "spread base v =
     JObj (foldl (\<lambda>o' (k, x). AList.update k x o') base
       (case v of JObj ms \<Rightarrow> ms
        | JArr xs \<Rightarrow> zip (map nat_str [0..<length xs]) xs
        | JStr cs \<Rightarrow> zip (map nat_str [0..<length cs]) (map (\<lambda>c. JStr [c]) cs)
        | _ \<Rightarrow> []))"

definition reply_response :: "string \<Rightarrow> string \<Rightarrow> (string, json) result \<Rightarrow> (sup_error, http_response) result" where
  "reply_response tenant sessionId r =
     (case r of
        Inl e \<Rightarrow> Inl (EOther e)
      | Inr v \<Rightarrow> Inr (200, spread [(''tenant'', JStr tenant), (''sessionId'', JStr sessionId)] v))"

definition row_json :: "session_row \<Rightarrow> json" where
  "row_json r = JObj [(''facet'', JStr (sr_facet r)), (''tenant'', JStr (sr_tenant r)), (''session_id'', JStr (sr_session r)),
     (''created_at'', JNum (sr_created r)), (''last_activity'', JNum (sr_last_activity r)),
     (''eval_count'', JNum (sr_eval_count r)), (''inter_arrival_ewma_ms'', JNum (sr_ewma r)),
     (''last_inter_arrival_ms'', JNum (sr_last_gap r)), (''warm_until'', JNum (sr_warm_until r)),
     (''latency_sensitive'', JNum (if sr_latency_sensitive r then 1 else 0)), (''last_size_gz'', JNum (sr_last_size_gz r))]"

section \<open>Routes\<close>

definition frame_type :: "json \<Rightarrow> string" where
  "frame_type f = (case js_field ''t'' (Some f) of None \<Rightarrow> '''' | Some v \<Rightarrow> js_String v)"

definition frame_slug :: "string \<Rightarrow> string" where
  "frame_slug ft = (if ft = ''eval'' \<or> ft = ''create'' then KERNEL_EVAL else if ft = ''reset'' then KERNEL_RESET else KERNEL_READ)"

definition body_or_empty :: "request \<Rightarrow> json" where
  "body_or_empty rq = (case rq_body rq of None \<Rightarrow> JObj [] | Some v \<Rightarrow> v)"

definition touch_then ::
  "int \<Rightarrow> string \<Rightarrow> string \<Rightarrow> ('k supervisor \<Rightarrow> (sup_error, http_response) result \<times> 'k supervisor) \<Rightarrow>
   'k supervisor \<Rightarrow> (sup_error, http_response) result \<times> 'k supervisor" where
  "touch_then now tenant sessionId f s =
     (case touch now tenant sessionId s of (Inl e, s1) \<Rightarrow> (Inl (EOther e), s1) | (Inr _, s1) \<Rightarrow> f s1)"

definition simple_frame ::
  "'k sup_env \<Rightarrow> string \<Rightarrow> string \<Rightarrow> string \<Rightarrow> 'k supervisor \<Rightarrow> (sup_error, http_response) result \<times> 'k supervisor" where
  "simple_frame E tenant sessionId t s =
     (case frame E tenant sessionId (JObj [(''t'', JStr t)]) s of
        (Inl e, s1) \<Rightarrow> (Inl (EOther e), s1)
      | (Inr v, s1) \<Rightarrow> (Inr (200, v), s1))"

definition warm_view ::
  "int \<Rightarrow> string \<Rightarrow> string \<Rightarrow> string option \<Rightarrow> 'k supervisor \<Rightarrow> (sup_error, http_response) result \<times> 'k supervisor" where
  "warm_view now tenant sessionId ls s =
     (let s1 = (case ls of None \<Rightarrow> s | Some v \<Rightarrow> setLatencySensitive tenant sessionId (v = ''1'' \<or> v = ''true'') s);
          row = find_row (facetName tenant sessionId) (su_sessions s1)
      in (Inr (200, JObj [(''tenant'', JStr tenant), (''sessionId'', JStr sessionId),
                          (''willWarm'', JBool (shouldWarm row now)),
                          (''session'', case row of None \<Rightarrow> JNull | Some r \<Rightarrow> row_json r)]), s1))"

definition evict ::
  "'k sup_env \<Rightarrow> string \<Rightarrow> string \<Rightarrow> 'k supervisor \<Rightarrow> (sup_error, http_response) result \<times> 'k supervisor" where
  "evict E tenant sessionId s =
     (let name = facetName tenant sessionId
      in (Inr (200, JObj [(''op'', JStr ''evict''), (''tenant'', JStr tenant), (''sessionId'', JStr sessionId), (''aborted'', JBool True)]),
          update_rows name (\<lambda>r. r\<lparr>sr_last_activity := 0, sr_warm_until := 0\<rparr>) (abort E name s)))"

definition list_sessions :: "string \<Rightarrow> 'k supervisor \<Rightarrow> (sup_error, http_response) result \<times> 'k supervisor" where
  "list_sessions tenant s =
     (let rows = filter (\<lambda>r. sr_tenant r = tenant) (su_sessions s)
      in (Inr (200, JObj [(''count'', JNum (int (length rows))), (''max'', JNum (int MAX_FACETS_PER_SUPERVISOR)),
                          (''sessions'', JArr (map row_json rows))]), s))"

definition guarded ::
  "string \<Rightarrow> string list \<Rightarrow> string \<Rightarrow> ('k supervisor \<Rightarrow> (sup_error, http_response) result \<times> 'k supervisor) \<Rightarrow>
   'k supervisor \<Rightarrow> (sup_error, http_response) result \<times> 'k supervisor" where
  "guarded tenant perms slug f s =
     (case rbind (requireTenant tenant) (\<lambda>_. requirePerm perms slug) of Inl e \<Rightarrow> (Inl e, s) | Inr _ \<Rightarrow> f s)"

text \<open>The tenant-scoped routes; \<open>None\<close> when no path matches.\<close>

definition sup_route ::
  "'k sup_env \<Rightarrow> int \<Rightarrow> string \<Rightarrow> string list \<Rightarrow> request \<Rightarrow> 'k supervisor \<Rightarrow>
   ((sup_error, http_response) result \<times> 'k supervisor) option" where
  "sup_route E now tenant perms rq s =
     (let p = rq_path rq; sid = session_of rq; reply = map_prod (reply_response tenant sid) id
      in if p = ''/create'' then
           Some (guarded tenant perms KERNEL_EVAL (touch_then now tenant sid (\<lambda>s1. reply
             (frame E tenant sid (JObj [(''t'', JStr ''create''), (''config'', body_or_empty rq)]) s1))) s)
         else if p = ''/eval'' then
           Some (guarded tenant perms KERNEL_EVAL (touch_then now tenant sid (\<lambda>s1. reply
             (evalMetered E tenant sid (or_else (query rq ''src'') ''1+1'') (now mod 65536) s1))) s)
         else if p = ''/frame'' then
           Some (guarded tenant perms (frame_slug (frame_type (body_or_empty rq))) (touch_then now tenant sid (\<lambda>s1. reply
             (frame E tenant sid (body_or_empty rq) s1))) s)
         else if p = ''/gen'' then Some (guarded tenant perms KERNEL_READ (simple_frame E tenant sid ''gen'') s)
         else if p = ''/ping'' then Some (guarded tenant perms KERNEL_READ (simple_frame E tenant sid ''ping'') s)
         else if p = ''/reset'' then Some (guarded tenant perms KERNEL_RESET (simple_frame E tenant sid ''reset'') s)
         else if p = ''/warm'' then
           (let ls = map_of (rq_query rq) ''latencySensitive''
            in Some (guarded tenant perms (if ls \<noteq> None then SESSION_SHARE else KERNEL_READ) (warm_view now tenant sid ls) s))
         else if p = ''/evict'' then Some (guarded tenant perms KERNEL_RESET (evict E tenant sid) s)
         else if p = ''/sessions'' then Some (guarded tenant perms SESSION_LIST (list_sessions tenant) s)
         else None)"

definition resolved_json :: "resolved_tenant option \<Rightarrow> json" where
  "resolved_json t =
     (case t of None \<Rightarrow> JNull
      | Some t \<Rightarrow> JObj [(''tenantId'', JStr (rt_tenantId t)), (''plan'', JStr (rt_plan t)), (''hash'', JStr (rt_hash t))])"

text \<open>The control-plane routes the entry calls on the auth shard.  A key that is already in the table is an
  exception the handler does not catch.\<close>

definition control_route ::
  "'k sup_env \<Rightarrow> int \<Rightarrow> bytes \<Rightarrow> request \<Rightarrow> 'k supervisor \<Rightarrow> (string, http_response) result \<times> 'k supervisor" where
  "control_route E now rnd rq s =
     (if rq_path rq = ''/_auth/resolve'' then
        (Inr (200, resolved_json (resolveLocal (se_digest E) (or_else (query rq ''key'') (header rq ''x-api-key'')) (su_tenants s))), s)
      else if rq_path rq = ''/_admin/mint'' then
        (let t = or_else (query rq ''tenantId'') (query rq ''tenant'')
         in if t = [] then (Inr (400, JObj [(''error'', JStr ''tenantId required'')]), s)
            else (case mintKey (se_digest E) now rnd t (or_else (query rq ''plan'') ''free'') (su_tenants s) of
                (Inl e, ts) \<Rightarrow> (Inl e, s)
              | (Inr v, ts) \<Rightarrow> (Inr (200, v), s\<lparr>su_tenants := ts\<rparr>)))
      else if rq_path rq = ''/_admin/list'' then (Inr (200, JObj [(''tenants'', listKeys (su_tenants s))]), s)
      else (let (v, ts) = revokeKey (se_digest E) (query rq ''apiKey'') (query rq ''apiKeyHash'') (query rq ''tenantId'') (su_tenants s)
            in (Inr (200, v), s\<lparr>su_tenants := ts\<rparr>)))"

definition control_paths :: "string list" where
  "control_paths = [''/_auth/resolve'', ''/_admin/mint'', ''/_admin/list'', ''/_admin/revoke'']"

text \<open>\<open>fetch\<close> of the supervisor; \<open>info\<close> answers \<open>/health\<close> and every other path.\<close>

definition sup_fetch ::
  "'k sup_env \<Rightarrow> (string \<Rightarrow> json) \<Rightarrow> int \<Rightarrow> bytes \<Rightarrow> request \<Rightarrow> 'k supervisor \<Rightarrow> (string, http_response) result \<times> 'k supervisor" where
  "sup_fetch E info now rnd rq s0 =
     (let tenant = header rq ''x-md-tenant'';
          s = s0\<lparr>su_credType := header rq ''x-md-credtype''\<rparr>;
          perms = request_perms (header rq ''x-eg-perms'')
      in if List.member control_paths (rq_path rq) then control_route E now rnd rq s
         else (case sup_route E now tenant perms rq s of
             None \<Rightarrow> (Inr (200, info (rq_path rq)), s)
           | Some (Inl e, s1) \<Rightarrow> (Inr (error_response e), s1)
           | Some (Inr r, s1) \<Rightarrow> (Inr r, s1)))"

end
