(* ===== verification/CloudEntry.thy ===== *)
theory CloudEntry
  imports Supervisor
begin

text \<open>
  The Worker entry of the cloud app (\<open>src/apps/cloud/src/supervisor.ts\<close>): the outbound gateway, key
  extraction, the usage query, and the routing of a client request to the admin routes, the usage report,
  the pass-through routes or, behind the credential gate, a supervisor shard.
\<close>

section \<open>The outbound gateway\<close>

definition parse_list :: "string \<Rightarrow> string list option" where
  "parse_list v = (if v = [] then None else Some (filter (\<lambda>p. p \<noteq> []) (map (\<lambda>p. js_lower (js_trim p)) (js_split CHR '','' v))))"

datatype egress_decision = Forward | Blocked string

text \<open>\<open>host\<close> is the host name of the request's URL, empty when the URL does not parse.\<close>

definition gateway_fetch :: "string \<Rightarrow> string \<Rightarrow> string \<Rightarrow> egress_decision" where
  "gateway_fetch allowVar denyVar hostname =
     (let host = js_lower hostname; allow = parse_list allowVar; deny = parse_list denyVar
      in if host = [] then Blocked ''unresolvable-host''
         else if (case deny of None \<Rightarrow> False | Some d \<Rightarrow> List.member d host) then Blocked ''denylisted''
         else if (case allow of None \<Rightarrow> False | Some a \<Rightarrow> \<not> List.member a host) then Blocked ''not-in-gateway-allowlist''
         else Forward)"

section \<open>Key extraction\<close>

definition strip_bearer :: "string \<Rightarrow> string" where
  "strip_bearer v =
     (if js_lower (take 6 v) = ''bearer'' \<and> drop 6 v \<noteq> [] \<and> js_space (hd (drop 6 v)) then dropWhile js_space (drop 6 v) else v)"

definition getApiKey :: "request \<Rightarrow> string" where
  "getApiKey rq =
     or_else (header rq ''x-api-key'') (or_else (strip_bearer (header rq ''authorization'')) (query rq ''apiKey''))"

section \<open>Usage\<close>

record usage_config =
  uc_acct :: string
  uc_token :: string

text \<open>A metric row after \<open>String(row.tenant)\<close> and \<open>Number(...) || 0\<close>.\<close>

record metric_row =
  mr_tenant :: string
  mr_metric :: string
  mr_total :: rat
  mr_peak :: rat

record usage_tenant =
  ut_tenant :: string
  ut_evals :: int
  ut_bytes :: int
  ut_warmSeconds :: int
  ut_facetPeak :: int
  ut_activeSessions :: rat

definition usage_where :: "string \<Rightarrow> string" where
  "usage_where tenant =
     (if tenant = [] then [] else ''AND blob1 = '' @ [CHR 0x27] @ filter (\<lambda>c. c \<noteq> CHR 0x27) tenant @ [CHR 0x27])"

definition quoted :: "string \<Rightarrow> string" where
  "quoted s = [CHR 0x27] @ s @ [CHR 0x27]"

definition usage_sql :: "string \<Rightarrow> int \<Rightarrow> string" where
  "usage_sql tenant windowMinutes =
     ''SELECT blob1 AS tenant, blob2 AS metric, SUM(_sample_interval * double1) AS total, ''
     @ ''count() AS points, MAX(double1) AS peak FROM engram_kernel ''
     @ ''WHERE timestamp > NOW() - INTERVAL '' @ quoted (int_str (to_int32 windowMinutes)) @ '' MINUTE AND blob2 IN (''
     @ quoted ''eval'' @ '','' @ quoted ''bytes'' @ '','' @ quoted ''warm'' @ '','' @ quoted ''facet'' @ '') '' @ usage_where tenant
     @ '' GROUP BY tenant, metric''"

definition usage_sessions_sql :: "string \<Rightarrow> int \<Rightarrow> string" where
  "usage_sessions_sql tenant windowMinutes =
     ''SELECT blob1 AS tenant, COUNT(DISTINCT blob3) AS active_sessions FROM engram_kernel ''
     @ ''WHERE timestamp > NOW() - INTERVAL '' @ quoted (int_str (to_int32 windowMinutes)) @ '' MINUTE AND blob2 = ''
     @ quoted ''eval'' @ '' '' @ usage_where tenant @ '' GROUP BY tenant''"

definition new_usage :: "string \<Rightarrow> usage_tenant" where
  "new_usage t = \<lparr>ut_tenant = t, ut_evals = 0, ut_bytes = 0, ut_warmSeconds = 0, ut_facetPeak = 0, ut_activeSessions = 0\<rparr>"

definition usage_of :: "(string, usage_tenant) omap \<Rightarrow> string \<Rightarrow> usage_tenant" where
  "usage_of m t = (case map_of m t of None \<Rightarrow> new_usage t | Some u \<Rightarrow> u)"

definition add_metric :: "metric_row \<Rightarrow> (string, usage_tenant) omap \<Rightarrow> (string, usage_tenant) omap" where
  "add_metric r m =
     (let t = mr_tenant r; u = usage_of m t; v = js_round (mr_total r)
      in AList.update t
           (if mr_metric r = ''eval'' then u\<lparr>ut_evals := v\<rparr>
            else if mr_metric r = ''bytes'' then u\<lparr>ut_bytes := v\<rparr>
            else if mr_metric r = ''warm'' then u\<lparr>ut_warmSeconds := v\<rparr>
            else if mr_metric r = ''facet'' then u\<lparr>ut_facetPeak := js_round (mr_peak r)\<rparr>
            else u) m)"

definition add_sessions :: "string \<times> rat \<Rightarrow> (string, usage_tenant) omap \<Rightarrow> (string, usage_tenant) omap" where
  "add_sessions r m = (let (t, n) = r in AList.update t ((usage_of m t)\<lparr>ut_activeSessions := n\<rparr>) m)"

definition aggregate_usage :: "metric_row list \<Rightarrow> (string \<times> rat) list \<Rightarrow> (string, usage_tenant) omap" where
  "aggregate_usage metrics sessions = fold add_sessions sessions (fold add_metric metrics [])"

datatype usage_report = Unconfigured | Report int "usage_tenant list"

text \<open>\<open>metric_q\<close> and \<open>session_q\<close> run a query; they fail when the API answers with an error status.\<close>

definition queryUsage ::
  "usage_config \<Rightarrow> (string \<Rightarrow> (string, metric_row list) result) \<Rightarrow> (string \<Rightarrow> (string, (string \<times> rat) list) result) \<Rightarrow>
   string \<Rightarrow> int \<Rightarrow> (string, usage_report) result" where
  "queryUsage U metric_q session_q tenant windowMinutes =
     (if uc_acct U = [] \<or> uc_token U = [] then Inr Unconfigured
      else rbind (metric_q (usage_sql tenant windowMinutes)) (\<lambda>ms.
           rbind (session_q (usage_sessions_sql tenant windowMinutes)) (\<lambda>ss.
             Inr (Report (to_int32 windowMinutes) (map snd (aggregate_usage ms ss))))))"

section \<open>The entry\<close>

text \<open>The deployment: one supervisor per shard name, and the state of the isolate's credential caches.\<close>

record ('k, 'v) cloud =
  cl_shards :: "string \<Rightarrow> 'k supervisor"
  cl_auth :: "'v auth_state"

record ('k, 'v) cloud_env =
  ce_ADMIN_TOKEN :: string
  ce_auth :: "'v auth_env"
  ce_sup :: "'k sup_env"
  ce_info :: "string \<Rightarrow> json"
  ce_usage :: "string \<Rightarrow> int \<Rightarrow> (string, usage_report) result"
  ce_number :: "string \<Rightarrow> int option"

definition AUTH_SHARD :: string where "AUTH_SHARD = ''sup-auth''"

definition call_shard ::
  "('k, 'v) cloud_env \<Rightarrow> int \<Rightarrow> bytes \<Rightarrow> string \<Rightarrow> request \<Rightarrow> ('k, 'v) cloud \<Rightarrow> (string, http_response) result \<times> ('k, 'v) cloud" where
  "call_shard E now rnd shard rq w =
     (let (r, s) = sup_fetch (ce_sup E) (ce_info E) now rnd rq (cl_shards w shard)
      in (r, w\<lparr>cl_shards := (cl_shards w)(shard := s)\<rparr>))"

definition internal_request :: "string \<Rightarrow> (string, string) omap \<Rightarrow> request" where
  "internal_request path params =
     \<lparr>rq_method = ''GET'', rq_path = path, rq_query = params, rq_headers = [], rq_body = Some (JObj [])\<rparr>"

text \<open>The legacy resolver calls the auth shard and reads its JSON answer back.\<close>

definition json_tenant :: "json \<Rightarrow> resolved_tenant option" where
  "json_tenant v =
     (case (json_get ''tenantId'' v, json_get ''plan'' v, json_get ''hash'' v) of
        (Some (JStr t), Some (JStr p), Some (JStr h)) \<Rightarrow> Some \<lparr>rt_tenantId = t, rt_plan = p, rt_hash = h\<rparr>
      | _ \<Rightarrow> None)"

definition legacyResolve :: "('k, 'v) cloud_env \<Rightarrow> int \<Rightarrow> ('k, 'v) cloud \<Rightarrow> string \<Rightarrow> resolved_tenant option" where
  "legacyResolve E now w k =
     (case fst (call_shard E now [] AUTH_SHARD (internal_request ''/_auth/resolve'' [(''key'', k)]) w) of
        Inl _ \<Rightarrow> None
      | Inr (_, v) \<Rightarrow> json_tenant v)"

definition resolve_request ::
  "('k, 'v) cloud_env \<Rightarrow> int \<Rightarrow> request \<Rightarrow> ('k, 'v) cloud \<Rightarrow> (string, credential option) result \<times> ('k, 'v) cloud" where
  "resolve_request E now rq w =
     (let (r, a) = resolveCredential (ce_auth E) now (getApiKey rq) (legacyResolve E now w) False (cl_auth w)
      in (r, w\<lparr>cl_auth := a\<rparr>))"

definition err :: "string \<Rightarrow> json" where "err m = JObj [(''error'', JStr m)]"

definition denied :: "string \<Rightarrow> http_response" where
  "denied slug =
     (403, JObj [(''error'', JObj [(''name'', JStr ''PermissionDeniedError''),
        (''message'', JStr (''permission denied: missing required permission '' @ [CHR 0x27] @ slug @ [CHR 0x27])),
        (''missing'', JStr slug)])])"

text \<open>An account the server has resolved and that has the permission, or the http_response that refuses it.\<close>

definition authorize ::
  "('k, 'v) cloud_env \<Rightarrow> int \<Rightarrow> string \<Rightarrow> string \<Rightarrow> request \<Rightarrow> ('k, 'v) cloud \<Rightarrow>
   (string, http_response + credential) result \<times> ('k, 'v) cloud" where
  "authorize E now refusal slug rq w =
     (case resolve_request E now rq w of
        (Inl e, w1) \<Rightarrow> (Inl e, w1)
      | (Inr None, w1) \<Rightarrow> (Inr (Inl (401, err refusal)), w1)
      | (Inr (Some c), w1) \<Rightarrow>
          (Inr (if cr_account c = [] then Inl (401, err refusal)
                else if \<not> List.member (effectivePermissions c) slug then Inl (denied slug)
                else Inr c), w1))"

definition admin_token_ok :: "('k, 'v) cloud_env \<Rightarrow> request \<Rightarrow> bool" where
  "admin_token_ok E rq \<longleftrightarrow>
     ce_ADMIN_TOKEN E \<noteq> [] \<and> safeEqual (or_else (header rq ''x-admin-token'') (query rq ''adminToken'')) (ce_ADMIN_TOKEN E)"

definition revoke_params :: "request \<Rightarrow> (string, string) omap" where
  "revoke_params rq =
     concat (map (\<lambda>k. if query rq k = [] then [] else [(k, query rq k)]) [''apiKey'', ''apiKeyHash'', ''tenantId''])"

definition admin_action ::
  "('k, 'v) cloud_env \<Rightarrow> int \<Rightarrow> bytes \<Rightarrow> request \<Rightarrow> ('k, 'v) cloud \<Rightarrow> (string, http_response) result \<times> ('k, 'v) cloud" where
  "admin_action E now rnd rq w =
     (if rq_method rq = ''POST'' then
        (let t = or_else (query rq ''tenantId'') (query rq ''tenant'')
         in if t = [] then (Inr (400, err ''tenantId required''), w)
            else call_shard E now rnd AUTH_SHARD
                   (internal_request ''/_admin/mint'' [(''tenantId'', t), (''plan'', or_else (query rq ''plan'') ''free'')]) w)
      else if rq_method rq = ''GET'' then call_shard E now rnd AUTH_SHARD (internal_request ''/_admin/list'' []) w
      else if rq_method rq = ''DELETE'' then
        call_shard E now rnd AUTH_SHARD (internal_request ''/_admin/revoke'' (revoke_params rq)) w
      else (Inr (405, err ''method not allowed''), w))"

definition ADMIN_REFUSAL :: string where "ADMIN_REFUSAL = ''admin auth required (x-admin-token or an account:admin API key)''"

definition admin_keys ::
  "('k, 'v) cloud_env \<Rightarrow> int \<Rightarrow> bytes \<Rightarrow> request \<Rightarrow> ('k, 'v) cloud \<Rightarrow> (string, http_response) result \<times> ('k, 'v) cloud" where
  "admin_keys E now rnd rq w =
     (if admin_token_ok E rq then admin_action E now rnd rq w
      else if getApiKey rq = [] then (Inr (401, err ADMIN_REFUSAL), w)
      else (case authorize E now ADMIN_REFUSAL ACCOUNT_ADMIN rq w of
          (Inl e, w1) \<Rightarrow> (Inl e, w1)
        | (Inr (Inl resp), w1) \<Rightarrow> (Inr resp, w1)
        | (Inr (Inr c), w1) \<Rightarrow> admin_action E now rnd rq w1))"

definition usage_json :: "usage_report \<Rightarrow> json" where
  "usage_json r =
     (case r of
        Unconfigured \<Rightarrow> err ''usage query unconfigured: CF_ACCOUNT_ID / CF_API_TOKEN secrets missing''
      | Report w ts \<Rightarrow> JObj [(''windowMinutes'', JNum w), (''tenants'', JArr (map (\<lambda>u. JObj
          [(''tenant'', JStr (ut_tenant u)), (''evals'', JNum (ut_evals u)), (''bytes'', JNum (ut_bytes u)),
           (''warmSeconds'', JNum (ut_warmSeconds u)), (''facetPeak'', JNum (ut_facetPeak u)),
           (''activeSessions'', JNum \<lfloor>ut_activeSessions u\<rfloor>)]) ts))])"

definition usage_reply :: "('k, 'v) cloud_env \<Rightarrow> string \<Rightarrow> request \<Rightarrow> http_response" where
  "usage_reply E tenant rq =
     (let win = or_else (query rq ''window'') (or_else (query rq ''windowMinutes'') ''1440'');
          minutes = (case ce_number E win of None \<Rightarrow> 1440 | Some n \<Rightarrow> if n = 0 then 1440 else n)
      in case ce_usage E tenant minutes of
           Inl e \<Rightarrow> (502, err e)
         | Inr r \<Rightarrow> (200, usage_json r))"

definition usage_route ::
  "('k, 'v) cloud_env \<Rightarrow> int \<Rightarrow> request \<Rightarrow> ('k, 'v) cloud \<Rightarrow> (string, http_response) result \<times> ('k, 'v) cloud" where
  "usage_route E now rq w =
     (if admin_token_ok E rq then (Inr (usage_reply E (query rq ''tenant'') rq), w)
      else (case authorize E now ''unauthorized'' USAGE_READ rq w of
          (Inl e, w1) \<Rightarrow> (Inl e, w1)
        | (Inr (Inl resp), w1) \<Rightarrow> (Inr resp, w1)
        | (Inr (Inr c), w1) \<Rightarrow> (Inr (usage_reply E (cr_account c) rq), w1)))"

definition info_route ::
  "('k, 'v) cloud_env \<Rightarrow> int \<Rightarrow> bytes \<Rightarrow> request \<Rightarrow> ('k, 'v) cloud \<Rightarrow> (string, http_response) result \<times> ('k, 'v) cloud" where
  "info_route E now rnd rq w =
     (let hs = AList.delete ''x-eg-perms'' (AList.delete ''x-md-plan'' (AList.delete ''x-md-tenant'' (rq_headers rq)))
      in call_shard E now rnd (shardFor (session_of rq) SHARD_COUNT) (rq\<lparr>rq_headers := hs\<rparr>) w)"

text \<open>The headers the entry sets, replacing the client's.\<close>

definition gate_headers :: "credential \<Rightarrow> (string, string) omap \<Rightarrow> (string, string) omap" where
  "gate_headers c hs =
     AList.update ''x-eg-perms'' (js_join CHR '','' (effectivePermissions c))
       (AList.update ''x-md-credtype'' (cred_type_str (cr_credType c))
         (AList.update ''x-md-plan'' (or_else (cr_plan c) ''free'')
           (AList.update ''x-md-tenant'' (cr_account c) hs)))"

definition data_route ::
  "('k, 'v) cloud_env \<Rightarrow> int \<Rightarrow> bytes \<Rightarrow> request \<Rightarrow> ('k, 'v) cloud \<Rightarrow> (string, http_response) result \<times> ('k, 'v) cloud" where
  "data_route E now rnd rq w =
     (if prefix ''/_'' (rq_path rq) then (Inr (404, err ''not found''), w)
      else if getApiKey rq = [] then (Inr (401, err ''missing API key (x-api-key header or ?apiKey=)''), w)
      else (case resolve_request E now rq w of
          (Inl e, w1) \<Rightarrow> (Inl e, w1)
        | (Inr None, w1) \<Rightarrow> (Inr (401, err ''invalid or revoked API key''), w1)
        | (Inr (Some c), w1) \<Rightarrow>
            if cr_account c = [] then (Inr (401, err ''invalid or revoked API key''), w1)
            else call_shard E now rnd (shardFor (session_of rq) SHARD_COUNT)
                   (rq\<lparr>rq_headers := gate_headers c (rq_headers rq)\<rparr>) w1))"

definition entry_fetch ::
  "('k, 'v) cloud_env \<Rightarrow> int \<Rightarrow> bytes \<Rightarrow> request \<Rightarrow> ('k, 'v) cloud \<Rightarrow> (string, http_response) result \<times> ('k, 'v) cloud" where
  "entry_fetch E now rnd rq w =
     (if rq_path rq = ''/admin/keys'' then admin_keys E now rnd rq w
      else if rq_path rq = ''/usage'' then usage_route E now rq w
      else if rq_path rq = ''/health'' \<or> rq_path rq = ''/'' then info_route E now rnd rq w
      else data_route E now rnd rq w)"

end
