(* ===== verification/CredentialProps.thy ===== *)
theory CredentialProps
  imports Credentials
begin

text \<open>
  Properties of authentication: comparison, shard and facet names, the effective permissions, the bounded
  cache, and what a credential that resolves is evidence of.
\<close>

section \<open>Names and comparison\<close>

lemma xor_eq_0: "xor a b = (0 :: 32 word) \<Longrightarrow> a = b"
  by (simp add: bit_eq_iff bit_xor_iff)

lemma char_code_less: "(of_char c :: nat) < 256"
  using nat_of_char_less_256 by blast

lemma of_char_xor_eq_0: "xor (of_char a) (of_char b :: 32 word) = 0 \<longleftrightarrow> a = b"
proof
  assume "xor (of_char a) (of_char b :: 32 word) = 0"
  then have eq: "(of_char a :: 32 word) = of_char b" by (rule xor_eq_0)
  then have "(of_nat (of_char a) :: 32 word) = of_nat (of_char b)" by (simp add: of_nat_of_char)
  then have "unat (of_nat (of_char a) :: 32 word) = unat (of_nat (of_char b) :: 32 word)" by (rule arg_cong)
  moreover have "(of_char c :: nat) mod 4294967296 = of_char c" for c
    by (rule mod_less) (rule less_trans[OF char_code_less], simp)
  ultimately have "(of_char a :: nat) = of_char b" by (simp add: unat_of_nat)
  then show "a = b" by simp
qed simp

lemma foldl_or_eq_0:
  "foldl (\<lambda>d (x, y). or d (xor (of_char x) (of_char y))) d ps = (0 :: 32 word) \<longleftrightarrow>
   d = 0 \<and> (\<forall>(x, y) \<in> set ps. x = y)"
proof (induction ps arbitrary: d)
  case (Cons p ps)
  obtain x y where "p = (x, y)" by force
  then show ?case by (simp add: Cons.IH of_char_xor_eq_0 or_eq_0_iff conj_ac)
qed simp

lemma safeEqual_iff: "safeEqual a b \<longleftrightarrow> a = b"
  by (auto simp: safeEqual_def foldl_or_eq_0 list_eq_iff_zip_eq)

lemma shardFor_range: "0 < n \<Longrightarrow> \<exists>i < n. shardFor s n = ''sup-'' @ nat_str i"
  unfolding shardFor_def by (metis mod_less_divisor)

section \<open>The cache\<close>

lemma cacheSet_length: "length c \<le> WORKOS_CACHE_MAX \<Longrightarrow> length (cacheSet k cred now c) \<le> WORKOS_CACHE_MAX"
proof -
  have "length (AList.update k v m) \<le> Suc (length m)" for v and m :: cache by (induction m) auto
  then show "length c \<le> WORKOS_CACHE_MAX \<Longrightarrow> ?thesis"
    unfolding cacheSet_def
    by (smt (verit) le_trans length_tl diff_Suc_1 Suc_diff_1 WORKOS_CACHE_MAX_def not_less_eq_eq order.refl
        Suc_pred' zero_less_numeral less_le_trans)
qed

lemma cacheGet_subset: "cacheGet k now c = (r, c') \<Longrightarrow> set c' \<subseteq> set c \<and> length c' \<le> length c"
  by (auto simp: cacheGet_def AList.delete_eq split: option.splits if_splits)

lemma cacheGet_hit: "cacheGet k now c = (Some cred, c') \<Longrightarrow> \<exists>exp. (k, (cred, exp)) \<in> set c \<and> now \<le> exp"
  by (auto simp: cacheGet_def split: option.splits if_splits dest!: map_of_SomeD)

lemma loadJwks_cache [simp]: "as_cache (snd (loadJwks E now s)) = as_cache s"
  by (auto simp: loadJwks_def split: option.splits json.splits prod.splits bool.splits)

lemma jwks_key_cache [simp]: "as_cache (snd (jwks_key E now kid s)) = as_cache s"
proof (cases "loadJwks E now s")
  case (Pair r s1)
  have c: "as_cache s1 = as_cache s" using loadJwks_cache[of E now s] Pair by simp
  obtain r2 s2 where l2: "loadJwks E now (s1\<lparr>as_fetchedFor := []\<rparr>) = (r2, s2)" by force
  have "as_cache s2 = as_cache s" using loadJwks_cache[of E now "s1\<lparr>as_fetchedFor := []\<rparr>"] l2 c by simp
  then show ?thesis using Pair c l2 by (simp add: jwks_key_def split: sum.split option.split)
qed

lemma verify_cache: "workosVerifyUserToken E now t s = (r, s') \<Longrightarrow> as_cache s' = as_cache s"
proof -
  have "as_cache s' = as_cache s" if "jwks_key E now kid s = (q, s')" for kid q s'
    using jwks_key_cache[of E now kid s] that by simp
  then show "workosVerifyUserToken E now t s = (r, s') \<Longrightarrow> ?thesis"
    unfolding workosVerifyUserToken_def
    by (fastforce split: if_splits list.splits option.splits sum.splits prod.splits)
qed

lemma live_cache: "validate_live E now k s = (r, s') \<Longrightarrow> as_cache s' = as_cache s"
  by (auto simp: validate_live_def verify_cache split: if_splits)

section \<open>Where a credential comes from\<close>

lemma api_key_live: "\<not> looksJwt k \<Longrightarrow> validate_live E now k s = (Inr (workosValidateApiKey E k), s)"
  by (simp add: validate_live_def)

lemma resolve_hit_or_live:
  assumes "resolveCredential E now k legacy fresh s = (Inr (Some c), s')" and "\<not> prefix ''md_'' k"
  obtains (hit) exp where "(sha256Hex_str (ae_digest E) k, (Some c, exp)) \<in> set (as_cache s)" "now \<le> exp" "\<not> fresh"
  | (live) t t' where "validate_live E now k t = (Inr (Some c), t')"
proof -
  let ?ck = "sha256Hex_str (ae_digest E) k"
  obtain h m where g: "(if fresh then (None, as_cache s) else cacheGet ?ck now (as_cache s)) = (h, m)" by force
  obtain q t' where v: "validate_live E now k (s\<lparr>as_cache := m\<rparr>) = (q, t')" by force
  show thesis
  proof (cases h)
    case (Some cred)
    then have f: "\<not> fresh" "cacheGet ?ck now (as_cache s) = (Some cred, m)" using g by (auto split: if_splits)
    moreover have "cred = Some c" using assms g Some by (auto simp: resolveCredential_def split: if_splits)
    ultimately show thesis using cacheGet_hit hit by blast
  next
    case None
    then have "q = Inr (Some c)" using assms g v by (auto simp: resolveCredential_def split: if_splits sum.splits)
    then show thesis using v live by blast
  qed
qed

lemma claims_signed:
  assumes "workosVerifyUserToken E now token s = (Inr (Some c), s')"
  obtains h p g claims key sig where "js_split CHR ''.'' token = [h, p, g]" "b64urlToU8 g = Some sig"
    "ae_verify E key sig (h @ ''.'' @ p) = Some True" "Option.bind (b64urlToU8 p) (ae_decode E) = Some claims"
    "claims_credential now claims = Some c" "\<exists>kid t. jwks_key E now kid s = (Inr (Some key), t)"
  using assms unfolding workosVerifyUserToken_def
  by (auto split: if_splits list.splits option.splits sum.splits prod.splits; blast)

lemma claims_not_expired: "claims_credential now claims = Some c \<Longrightarrow>
  cr_credType c = WorkosUser \<and> (\<forall>e. json_get ''exp'' claims = Some (JNum e) \<longrightarrow> now \<le> e * 1000)"
  by (auto simp: claims_credential_def split: if_splits option.splits json.splits)

lemma api_key_valid:
  assumes "workosValidateApiKey E key = Some c"
  shows "\<exists>res. ae_net E (validate_request E key) = Some res \<and> hr_ok res \<and> cr_credType c = WorkosKey
    \<and> js_field ''type'' (js_field ''owner'' (js_field ''api_key'' (hr_json res))) = Some (JStr ''organization'')
    \<and> (\<exists>i. js_field ''id'' (js_field ''owner'' (js_field ''api_key'' (hr_json res))) = Some i \<and> cr_account c = js_String i)"
  using assms by (auto simp: workosValidateApiKey_def Let_def split: if_splits option.splits)

definition signed_token :: "'v auth_env \<Rightarrow> int \<Rightarrow> string \<Rightarrow> credential \<Rightarrow> bool" where
  "signed_token E now k c \<longleftrightarrow> looksJwt k \<and>
     (\<exists>h p g claims key sig. js_split CHR ''.'' k = [h, p, g] \<and> b64urlToU8 g = Some sig
       \<and> ae_verify E key sig (h @ ''.'' @ p) = Some True
       \<and> Option.bind (b64urlToU8 p) (ae_decode E) = Some claims
       \<and> claims_credential now claims = Some c)"

definition accepted_key :: "'v auth_env \<Rightarrow> string \<Rightarrow> credential \<Rightarrow> bool" where
  "accepted_key E k c \<longleftrightarrow> \<not> looksJwt k \<and> ae_WORKOS_API_KEY E \<noteq> [] \<and>
     (\<exists>res. ae_net E (validate_request E k) = Some res \<and> hr_ok res \<and> cr_credType c = WorkosKey
       \<and> js_field ''type'' (js_field ''owner'' (js_field ''api_key'' (hr_json res))) = Some (JStr ''organization''))"

lemma live_evidence:
  assumes "validate_live E now k s = (Inr (Some c), s')"
  shows "signed_token E now k c \<or> accepted_key E k c"
proof (cases "looksJwt k")
  case True
  then have "workosVerifyUserToken E now k s = (Inr (Some c), s')" using assms by (simp add: validate_live_def)
  then show ?thesis by (rule claims_signed) (use True in \<open>auto simp: signed_token_def\<close>)
next
  case False
  then have v: "workosValidateApiKey E k = Some c" using assms by (simp add: validate_live_def)
  then have "ae_WORKOS_API_KEY E \<noteq> []" by (auto simp: workosValidateApiKey_def)
  then show ?thesis using False api_key_valid[OF v] by (auto simp: accepted_key_def)
qed


section \<open>Revocation\<close>

text \<open>A history of resolutions, and what the cache holds after it.\<close>

record 'v call =
  ca_env :: "'v auth_env"
  ca_now :: int
  ca_key :: string
  ca_fresh :: bool

fun resolves :: "(string \<Rightarrow> resolved_tenant option) \<Rightarrow> 'v call list \<Rightarrow> 'v auth_state \<Rightarrow> 'v auth_state" where
  "resolves legacy [] s = s"
| "resolves legacy (c # cs) s =
     resolves legacy cs (snd (resolveCredential (ca_env c) (ca_now c) (ca_key c) legacy (ca_fresh c) s))"

definition cached_from :: "(string \<Rightarrow> bytes) \<Rightarrow> 'v call set \<Rightarrow> cache \<Rightarrow> bool" where
  "cached_from D hist m \<longleftrightarrow> (\<forall>ck c exp. (ck, (Some c, exp)) \<in> set m \<longrightarrow>
     (\<exists>a \<in> hist. ck = sha256Hex_str D (ca_key a) \<and> exp = ca_now a + WORKOS_CACHE_TTL_MS
        \<and> (\<exists>t t'. validate_live (ca_env a) (ca_now a) (ca_key a) t = (Inr (Some c), t'))))"

lemma cached_from_subset: "cached_from D hist m \<Longrightarrow> set m' \<subseteq> set m \<Longrightarrow> hist \<subseteq> hist' \<Longrightarrow> cached_from D hist' m'"
  unfolding cached_from_def by blast

lemma in_tl: "x \<in> set (tl m) \<Longrightarrow> x \<in> set m"
  by (cases m) auto

lemma cacheSet_in: "(ck, v) \<in> set (cacheSet k cred now m) \<Longrightarrow>
  (ck, v) \<in> set m \<or> (ck = k \<and> v = (cred, now + WORKOS_CACHE_TTL_MS))"
  unfolding cacheSet_def by (auto split: if_splits dest!: update_in_set dest: in_tl)

lemma resolve_cached_from:
  assumes m: "cached_from D hist (as_cache s)" and D: "ae_digest (ca_env a) = D"
  shows "cached_from D (insert a hist)
    (as_cache (snd (resolveCredential (ca_env a) (ca_now a) (ca_key a) legacy (ca_fresh a) s)))"
proof -
  let ?E = "ca_env a" and ?k = "ca_key a" and ?now = "ca_now a"
  let ?ck = "sha256Hex_str (ae_digest ?E) ?k"
  obtain h c1 where g: "(if ca_fresh a then (None, as_cache s) else cacheGet ?ck ?now (as_cache s)) = (h, c1)" by force
  have sub: "set c1 \<subseteq> set (as_cache s)" using g cacheGet_subset by (auto split: if_splits)
  have m1: "cached_from D (insert a hist) c1" by (rule cached_from_subset[OF m sub]) blast
  obtain q t' where v: "validate_live ?E ?now ?k (s\<lparr>as_cache := c1\<rparr>) = (q, t')" by force
  have t': "as_cache t' = c1" using live_cache[OF v] by simp
  have "cached_from D (insert a hist) (cacheSet ?ck cred ?now c1)" if q: "q = Inr cred" for cred
    using m1 v q D unfolding cached_from_def by (fastforce dest!: cacheSet_in)
  then show ?thesis
    using m1 g v t' cached_from_subset[OF m order.refl, of "insert a hist"]
    by (auto simp: resolveCredential_def Let_def split: sum.split option.split)
qed

lemma resolves_cached_from:
  assumes "cached_from D hist (as_cache s)" and "\<forall>a \<in> set cs. ae_digest (ca_env a) = D"
  shows "cached_from D (hist \<union> set cs) (as_cache (resolves legacy cs s))"
  using assms
proof (induction cs arbitrary: hist s)
  case (Cons a cs)
  let ?s = "snd (resolveCredential (ca_env a) (ca_now a) (ca_key a) legacy (ca_fresh a) s)"
  have "cached_from D (insert a hist) (as_cache ?s)" using Cons.prems by (intro resolve_cached_from) auto
  from Cons.IH[OF this] Cons.prems(2) show ?case by (simp add: insert_commute)
qed simp

text \<open>C34. A revoked WorkOS API key stops working within the cache's sixty seconds: after any history of
  resolutions in one isolate in which WorkOS refuses the key from time \<open>t0\<close> on, the key resolves to nothing
  from \<open>t0\<close> plus the time to live on (for a digest without a collision on the key).\<close>

theorem revocation_takes_effect:
  assumes "\<forall>a \<in> set cs. ae_digest (ca_env a) = ae_digest E"
    and "\<forall>a \<in> set cs. sha256Hex_str (ae_digest E) (ca_key a) = sha256Hex_str (ae_digest E) key \<longrightarrow> ca_key a = key"
    and "\<forall>a \<in> set cs. ca_key a = key \<longrightarrow> t0 < ca_now a \<longrightarrow> workosValidateApiKey (ca_env a) key = None"
    and "workosValidateApiKey E key = None"
    and "\<not> prefix ''md_'' key" and "\<not> looksJwt key"
    and "as_cache s0 = []" and "t0 + WORKOS_CACHE_TTL_MS < now"
  shows "fst (resolveCredential E now key legacy fresh (resolves legacy cs s0)) = Inr None"
proof -
  let ?s = "resolves legacy cs s0"
  have from_hist: "cached_from (ae_digest E) (set cs) (as_cache ?s)"
    using resolves_cached_from[of "ae_digest E" "{}" s0 cs legacy] assms(1,7) by (simp add: cached_from_def)
  obtain r s' where r: "resolveCredential E now key legacy fresh ?s = (r, s')" by force
  have "r \<noteq> Inr (Some c)" for c
  proof
    assume "r = Inr (Some c)"
    then have "resolveCredential E now key legacy fresh ?s = (Inr (Some c), s')" using r by simp
    then show False
    proof (rule resolve_hit_or_live[OF _ assms(5)])
      fix exp assume h: "(sha256Hex_str (ae_digest E) key, (Some c, exp)) \<in> set (as_cache ?s)" "now \<le> exp"
      then obtain a t t' where a: "a \<in> set cs" "sha256Hex_str (ae_digest E) key = sha256Hex_str (ae_digest E) (ca_key a)"
          "exp = ca_now a + WORKOS_CACHE_TTL_MS" "validate_live (ca_env a) (ca_now a) (ca_key a) t = (Inr (Some c), t')"
        using from_hist unfolding cached_from_def by blast
      then have "ca_key a = key" using assms(2) by auto
      then show False using a h(2) assms(3,6,8) by (auto simp: api_key_live)
    next
      fix t t' assume "validate_live E now key t = (Inr (Some c), t')"
      then show False using assms(4,6) by (simp add: api_key_live)
    qed
  qed
  moreover have "r \<noteq> Inl e" for e
    using r assms(5,6) by (auto simp: resolveCredential_def Let_def api_key_live split: if_splits option.splits prod.splits)
  ultimately show ?thesis using r by (cases r) auto
qed

section \<open>Concrete environments\<close>

text \<open>A WorkOS that accepts every key for one organization, and one that is not configured.\<close>

definition accept_all :: "nat auth_env" where
  "accept_all =
     \<lparr>ae_WORKOS_API_HOST = [], ae_WORKOS_API_KEY = ''m'', ae_WORKOS_CLIENT_ID = [],
      ae_net = (\<lambda>_. Some \<lparr>hr_ok = True, hr_json = Some (JObj [(''api_key'', JObj
        [(''owner'', JObj [(''type'', JStr ''organization''), (''id'', JStr ''org'')])])])\<rparr>),
      ae_import = (\<lambda>_. None), ae_verify = (\<lambda>_ _ _. None), ae_digest = map of_char, ae_decode = (\<lambda>_. None)\<rparr>"

definition no_auth :: "nat auth_state" where
  "no_auth = \<lparr>as_cache = [], as_keys = [], as_fetchedFor = [], as_fetchedAt = 0\<rparr>"

definition org_credential :: credential where
  "org_credential = \<lparr>cr_account = ''org'', cr_permissions = [], cr_credType = WorkosKey, cr_plan = ''workos''\<rparr>"

lemma accept_all_key: "workosValidateApiKey accept_all k = Some org_credential"
  by (simp add: workosValidateApiKey_def accept_all_def js_field_def string_list_def org_credential_def)


theorem revocation_takes_effect_witness:
  "fst (resolveCredential (accept_all\<lparr>ae_WORKOS_API_KEY := []\<rparr>) 60001 ''k'' (\<lambda>_. None) False
     (resolves (\<lambda>_. None) [\<lparr>ca_env = accept_all, ca_now = 0, ca_key = ''k'', ca_fresh = False\<rparr>] no_auth)) = Inr None"
  by (rule revocation_takes_effect[where ?t0.0 = 0])
    (simp_all add: accept_all_def no_auth_def looksJwt_def workosValidateApiKey_def WORKOS_CACHE_TTL_MS_def)

end
