(* ===== verification/SupervisorProps.thy ===== *)
theory SupervisorProps
  imports Supervisor
begin

text \<open>
  Properties of the session supervisor: the guards of every tenant-scoped route, the isolation of tenants
  from each other, the invariant of the session table and the alarm, the eviction decisions of the sweep,
  and the life of a minted key.
\<close>

section \<open>What each operation leaves alone\<close>

lemma meter_fields [simp]:
  "su_sessions (meter E t m v i s) = su_sessions s" "su_tenants (meter E t m v i s) = su_tenants s"
  "su_alarm (meter E t m v i s) = su_alarm s" "su_running (meter E t m v i s) = su_running s"
  "su_world (meter E t m v i s) = su_world s"
  by (simp_all add: meter_def)

lemma loadKernel_fields [simp]:
  "su_sessions (loadKernel E s) = su_sessions s" "su_tenants (loadKernel E s) = su_tenants s"
  "su_alarm (loadKernel E s) = su_alarm s" "su_running (loadKernel E s) = su_running s"
  "su_world (loadKernel E s) = su_world s"
  by (simp_all add: loadKernel_def split: option.split)

lemma facet_fields [simp]:
  "su_sessions (facet E t i s) = su_sessions s" "su_tenants (facet E t i s) = su_tenants s"
  "su_alarm (facet E t i s) = su_alarm s" "su_world (facet E t i s) = su_world s"
  "set (su_running (facet E t i s)) = insert (facetName t i) (set (su_running s))"
  by (auto simp: facet_def Let_def)

lemma frame_fields:
  "frame E t i msg s = (r, s') \<Longrightarrow>
   su_sessions s' = su_sessions s \<and> su_tenants s' = su_tenants s \<and> su_alarm s' = su_alarm s
   \<and> set (su_running s') = insert (facetName t i) (set (su_running s))
   \<and> se_kernel E (facetName t i) msg (su_world s) = (r, su_world s')"
  by (auto simp: frame_def Let_def split: prod.splits)

lemma update_rows_fields [simp]:
  "su_tenants (update_rows n f s) = su_tenants s" "su_alarm (update_rows n f s) = su_alarm s"
  "su_running (update_rows n f s) = su_running s" "su_world (update_rows n f s) = su_world s"
  "su_sessions (update_rows n f s) = map (\<lambda>r. if sr_facet r = n then f r else r) (su_sessions s)"
  by (simp_all add: update_rows_def)

lemma abort_fields [simp]:
  "su_sessions (abort E n s) = su_sessions s" "su_tenants (abort E n s) = su_tenants s"
  "su_alarm (abort E n s) = su_alarm s" "su_running (abort E n s) = removeAll n (su_running s)"
  "su_world (abort E n s) = se_abort E n (su_world s)"
  by (simp_all add: abort_def)

lemma armAlarm_fields [simp]:
  "su_sessions (armAlarm now s) = su_sessions s" "su_tenants (armAlarm now s) = su_tenants s"
  "su_running (armAlarm now s) = su_running s" "su_world (armAlarm now s) = su_world s"
  "su_alarm (armAlarm now s) \<noteq> None"
  by (auto simp: armAlarm_def)

section \<open>One facet at a time\<close>

text \<open>What a request of one session may do: the other facets' rows and processes stay, the key table stays,
  and the kernels change at most by the facet's own frame or its abort.\<close>

definition only_facet :: "'k sup_env \<Rightarrow> string \<Rightarrow> 'k supervisor \<Rightarrow> 'k supervisor \<Rightarrow> bool" where
  "only_facet E name s s' \<longleftrightarrow>
     su_tenants s' = su_tenants s
     \<and> filter (\<lambda>r. sr_facet r \<noteq> name) (su_sessions s') = filter (\<lambda>r. sr_facet r \<noteq> name) (su_sessions s)
     \<and> set (su_running s') - {name} = set (su_running s) - {name}
     \<and> (su_world s' = su_world s \<or> (\<exists>msg r. se_kernel E name msg (su_world s) = (r, su_world s'))
        \<or> su_world s' = se_abort E name (su_world s))"

lemma only_facet_refl [simp]: "only_facet E n s s"
  by (simp add: only_facet_def)

lemma filter_other_rows:
  "(\<And>r. sr_facet r = n \<Longrightarrow> sr_facet (f r) = n) \<Longrightarrow>
   filter (\<lambda>r. sr_facet r \<noteq> n) (map (\<lambda>r. if sr_facet r = n then f r else r) rows) = filter (\<lambda>r. sr_facet r \<noteq> n) rows"
  by (induction rows) auto

lemma only_facet_update_rows:
  "only_facet E n s t \<Longrightarrow> (\<And>r. sr_facet r = n \<Longrightarrow> sr_facet (f r) = n) \<Longrightarrow> only_facet E n s (update_rows n f t)"
  by (simp add: only_facet_def filter_other_rows)

lemma only_facet_meter: "only_facet E n s t \<Longrightarrow> only_facet E n s (meter F a b c d t)"
  by (simp add: only_facet_def)

lemma touched_facet [simp]: "sr_facet (touched now r) = sr_facet r" "sr_tenant (touched now r) = sr_tenant r"
  "sr_session (touched now r) = sr_session r"
  by (simp_all add: touched_def Let_def)

lemma touch_only_facet: "touch now t i s = (r, s') \<Longrightarrow> only_facet E (facetName t i) s s' \<and> su_world s' = su_world s"
  by (auto simp: touch_def Let_def only_facet_def new_row_def filter_other_rows split: option.splits if_splits)

lemma frame_only_facet:
  assumes "frame E t i msg s1 = (r, s')" "only_facet E (facetName t i) s s1" "su_world s1 = su_world s"
  shows "only_facet E (facetName t i) s s'"
proof -
  note f = frame_fields[OF assms(1)]
  have "\<exists>m q. se_kernel E (facetName t i) m (su_world s) = (q, su_world s')" using f assms(3) by auto
  moreover have "set (su_running s') - {facetName t i} = set (su_running s1) - {facetName t i}" using f by blast
  ultimately show ?thesis using f assms(2) by (simp add: only_facet_def)
qed

lemma eval_reply_only_facet:
  "only_facet E (facetName t i) s s1 \<Longrightarrow> only_facet E (facetName t i) s (eval_reply F t i v s1)"
  by (auto simp: eval_reply_def Let_def recordSize_def
      intro!: only_facet_meter only_facet_update_rows split: option.split json.split)

lemma evalMetered_only_facet:
  assumes "evalMetered E t i src c s1 = (r, s')" "only_facet E (facetName t i) s s1" "su_world s1 = su_world s"
  shows "only_facet E (facetName t i) s s'"
proof -
  obtain q s2 where f: "frame E t i (eval_frame src c) s1 = (q, s2)" by force
  note o = frame_only_facet[OF f assms(2,3)]
  show ?thesis using assms(1) f o eval_reply_only_facet[OF o] by (auto simp: evalMetered_def split: sum.splits)
qed

lemma touch_then_only_facet:
  assumes "touch_then now t i f s = (r, s')"
    and "\<And>s1 r s2. f s1 = (r, s2) \<Longrightarrow> only_facet E (facetName t i) s s1 \<Longrightarrow> su_world s1 = su_world s \<Longrightarrow>
           only_facet E (facetName t i) s s2"
  shows "only_facet E (facetName t i) s s'"
proof -
  obtain q s1 where "touch now t i s = (q, s1)" by force
  then show ?thesis using assms touch_only_facet[of now t i s q s1 E]
    by (cases q) (auto simp: touch_then_def)
qed

lemma guarded_only_facet:
  assumes "guarded tenant perms slug f s = (r, s')" and "\<And>r s'. f s = (r, s') \<Longrightarrow> only_facet E n s s'"
  shows "only_facet E n s s'"
  using assms by (auto simp: guarded_def split: sum.splits)

lemma simple_frame_only_facet: "simple_frame E t i c s = (r, s') \<Longrightarrow> only_facet E (facetName t i) s s'"
  using frame_only_facet[where s = s and ?s1.0 = s and t = t and i = i]
  by (fastforce simp: simple_frame_def split: sum.splits prod.splits)

lemma warm_view_only_facet: "warm_view now t i ls s = (r, s') \<Longrightarrow> only_facet E (facetName t i) s s'"
  by (auto simp: warm_view_def Let_def setLatencySensitive_def intro!: only_facet_update_rows split: option.splits)

lemma evict_only_facet: "evict E t i s = (r, s') \<Longrightarrow> only_facet E (facetName t i) s s'"
  by (auto simp: evict_def Let_def only_facet_def filter_other_rows)

lemma reply_only_facet:
  assumes "map_prod g id p = (r, s')" "\<And>q. p = (q, s') \<Longrightarrow> only_facet E n s s'"
  shows "only_facet E n s s'"
  using assms by (cases p) auto

lemma sup_route_only_facet:
  assumes "sup_route E now t perms rq s = Some (r, s')"
  shows "only_facet E (facetName t (session_of rq)) s s'"
proof -
  let ?i = "session_of rq" and ?n = "facetName t (session_of rq)"
  let ?reply = "map_prod (reply_response t ?i) id"
  have fr: "only_facet E ?n s s'"
    if "guarded t perms slug (touch_then now t ?i (\<lambda>s1. ?reply (frame E t ?i msg s1))) s = (r, s')" for slug msg
    using that by (rule guarded_only_facet, elim touch_then_only_facet reply_only_facet) (blast intro: frame_only_facet)
  have ev: "only_facet E ?n s s'"
    if "guarded t perms slug (touch_then now t ?i (\<lambda>s1. ?reply (evalMetered E t ?i src c s1))) s = (r, s')" for slug src c
    using that by (rule guarded_only_facet, elim touch_then_only_facet reply_only_facet) (blast intro: evalMetered_only_facet)
  have si: "only_facet E ?n s s'" if "guarded t perms slug (simple_frame E t ?i c) s = (r, s')" for slug c
    using that by (rule guarded_only_facet) (rule simple_frame_only_facet)
  have wa: "only_facet E ?n s s'" if "guarded t perms slug (warm_view now t ?i ls) s = (r, s')" for slug ls
    using that by (rule guarded_only_facet) (rule warm_view_only_facet)
  have evi: "only_facet E ?n s s'" if "guarded t perms slug (evict E t ?i) s = (r, s')" for slug
    using that by (rule guarded_only_facet) (rule evict_only_facet)
  have li: "only_facet E ?n s s'" if "guarded t perms slug (list_sessions t) s = (r, s')" for slug
    using that by (rule guarded_only_facet) (simp add: list_sessions_def Let_def)
  show ?thesis using assms unfolding sup_route_def Let_def
    by (auto split: if_splits dest: fr ev si wa evi li)
qed

definition tenant_of :: "request \<Rightarrow> string" where
  "tenant_of rq = header rq ''x-md-tenant''"

lemma only_facet_credType: "only_facet E n (s\<lparr>su_credType := c\<rparr>) s' \<longleftrightarrow> only_facet E n s s'"
  by (simp add: only_facet_def)

lemma request_only_facet:
  assumes "\<not> List.member control_paths (rq_path rq)" and "sup_fetch E info now rnd rq s = (r, s')"
  shows "only_facet E (facetName (tenant_of rq) (session_of rq)) s s'"
proof -
  let ?s = "s\<lparr>su_credType := header rq ''x-md-credtype''\<rparr>"
  let ?route = "sup_route E now (tenant_of rq) (request_perms (header rq ''x-eg-perms'')) rq ?s"
  show ?thesis
  proof (cases ?route)
    case None
    then show ?thesis using assms by (auto simp: sup_fetch_def Let_def tenant_of_def only_facet_def)
  next
    case (Some p)
    obtain q s1 where p: "p = (q, s1)" by force
    have "only_facet E (facetName (tenant_of rq) (session_of rq)) ?s s1"
      using Some p by (intro sup_route_only_facet) simp
    moreover have "s' = s1" using assms Some p by (auto simp: sup_fetch_def Let_def tenant_of_def split: sum.splits)
    ultimately show ?thesis by (simp only: only_facet_credType)
  qed
qed

text \<open>A request acts on no other session: whatever the route, the headers and the body, only the facet named
  by the server-set tenant and the requested session can be spawned, receive a frame, be aborted or have its
  row changed, and no row or key of anyone else changes.\<close>

theorem requests_stay_in_facet:
  assumes "\<not> List.member control_paths (rq_path rq)" and "sup_fetch E info now rnd rq s = (r, s')"
  shows "only_facet E (facetName (tenant_of rq) (session_of rq)) s s'"
  using assms by (rule request_only_facet)

section \<open>Guards\<close>

text \<open>The permission each tenant-scoped route is documented to require.\<close>

definition route_slug :: "request \<Rightarrow> string option" where
  "route_slug rq =
     (case map_of [(''/create'', KERNEL_EVAL), (''/eval'', KERNEL_EVAL), (''/gen'', KERNEL_READ), (''/ping'', KERNEL_READ),
                   (''/reset'', KERNEL_RESET), (''/evict'', KERNEL_RESET), (''/sessions'', SESSION_LIST)] (rq_path rq) of
        Some slug \<Rightarrow> Some slug
      | None \<Rightarrow>
          if rq_path rq = ''/frame'' then
            Some (if frame_type (body_or_empty rq) \<in> {''eval'', ''create''} then KERNEL_EVAL
                  else if frame_type (body_or_empty rq) = ''reset'' then KERNEL_RESET else KERNEL_READ)
          else if rq_path rq = ''/warm'' then
            Some (if map_of (rq_query rq) ''latencySensitive'' \<noteq> None then SESSION_SHARE else KERNEL_READ)
          else None)"

definition allowed :: "request \<Rightarrow> bool" where
  "allowed rq \<longleftrightarrow> (\<forall>slug. route_slug rq = Some slug \<longrightarrow>
     tenant_of rq \<noteq> [] \<and> slug \<in> set (request_perms (header rq ''x-eg-perms'')))"

lemma guarded_refuses:
  "\<not> (t \<noteq> [] \<and> slug \<in> set perms) \<Longrightarrow> \<exists>e v. guarded t perms slug f s = (Inl e, s) \<and> error_response e = (403, v)"
  by (auto simp: guarded_def requireTenant_def requirePerm_def error_response_def)

lemma sup_route_refuses:
  assumes "route_slug rq = Some slug" "\<not> (t \<noteq> [] \<and> slug \<in> set perms)"
  shows "\<exists>e v. sup_route E now t perms rq s = Some (Inl e, s) \<and> error_response e = (403, v)"
  using assms(1) guarded_refuses[OF assms(2)]
  by (auto simp: route_slug_def sup_route_def Let_def frame_slug_def split: if_splits)

lemma sup_route_iff_slug: "sup_route E now t perms rq s = None \<longleftrightarrow> route_slug rq = None"
  by (auto simp: route_slug_def sup_route_def Let_def)

lemma request_refused:
  assumes "\<not> List.member control_paths (rq_path rq)" and "\<not> allowed rq"
  shows "\<exists>v. sup_fetch E info now rnd rq s = (Inr (403, v), s\<lparr>su_credType := header rq ''x-md-credtype''\<rparr>)"
proof -
  let ?s = "s\<lparr>su_credType := header rq ''x-md-credtype''\<rparr>"
  let ?p = "request_perms (header rq ''x-eg-perms'')"
  obtain slug where slug: "route_slug rq = Some slug" "\<not> (tenant_of rq \<noteq> [] \<and> slug \<in> set ?p)"
    using assms(2) by (auto simp: allowed_def)
  obtain e v where "sup_route E now (tenant_of rq) ?p rq ?s = Some (Inl e, ?s)" "error_response e = (403, v)"
    using sup_route_refuses[OF slug] by blast
  then show ?thesis using assms(1) by (simp add: sup_fetch_def Let_def tenant_of_def)
qed

text \<open>Every tenant-scoped route is guarded: without a server-set tenant, or without the permission the
  route requires, the answer is 403 and nothing but the request's credential class is recorded: no touch, no
  facet, no frame, no eviction.\<close>

theorem routes_are_guarded:
  assumes "\<not> List.member control_paths (rq_path rq)" and "\<not> allowed rq"
  shows "\<exists>v. sup_fetch E info now rnd rq s = (Inr (403, v), s\<lparr>su_credType := header rq ''x-md-credtype''\<rparr>)"
  using assms by (rule request_refused)

section \<open>The session table and the alarm\<close>

definition ok_row :: "session_row \<Rightarrow> bool" where
  "ok_row r \<longleftrightarrow> sr_facet r = facetName (sr_tenant r) (sr_session r) \<and> 0 \<le> sr_last_activity r
     \<and> 1 \<le> sr_eval_count r \<and> 0 \<le> sr_ewma r \<and> 0 \<le> sr_last_gap r"

definition wf_rows :: "session_row list \<Rightarrow> bool" where
  "wf_rows rows \<longleftrightarrow> distinct (map sr_facet rows) \<and> length rows \<le> MAX_FACETS_PER_SUPERVISOR \<and> (\<forall>r \<in> set rows. ok_row r)"

definition wf_sup :: "'k supervisor \<Rightarrow> bool" where
  "wf_sup s \<longleftrightarrow> wf_rows (su_sessions s) \<and> (su_alarm s = None \<longrightarrow> active (su_sessions s) = [])"

text \<open>Updates that keep a row well formed and never bring an evicted session back.\<close>

definition quiet :: "(session_row \<Rightarrow> session_row) \<Rightarrow> bool" where
  "quiet f \<longleftrightarrow> (\<forall>r. sr_facet (f r) = sr_facet r \<and> sr_tenant (f r) = sr_tenant r \<and> sr_session (f r) = sr_session r
     \<and> (ok_row r \<longrightarrow> ok_row (f r)) \<and> (0 < sr_last_activity (f r) \<longrightarrow> 0 < sr_last_activity r))"

lemma wf_rows_map:
  assumes "wf_rows rows" "\<And>r. sr_facet (f r) = sr_facet r" "\<And>r. ok_row r \<Longrightarrow> ok_row (f r)"
  shows "wf_rows (map (\<lambda>r. if sr_facet r = n then f r else r) rows)"
proof -
  have eq: "map sr_facet (map (\<lambda>r. if sr_facet r = n then f r else r) rows) = map sr_facet rows"
    using assms(2) by (induction rows) auto
  show ?thesis using assms(1,3) unfolding wf_rows_def eq by auto
qed

lemma active_map_quiet:
  "quiet f \<Longrightarrow> active rows = [] \<Longrightarrow> active (map (\<lambda>r. if sr_facet r = n then f r else r) rows) = []"
  by (force simp: active_def quiet_def filter_empty_conv)

lemma update_rows_wf: "quiet f \<Longrightarrow> wf_sup s \<Longrightarrow> wf_sup (update_rows n f s)"
  by (simp add: wf_sup_def active_map_quiet wf_rows_map quiet_def)

lemma quiet_updates [simp]:
  "quiet (\<lambda>r. r\<lparr>sr_latency_sensitive := b\<rparr>)" "quiet (\<lambda>r. r\<lparr>sr_last_size_gz := n\<rparr>)"
  "quiet (\<lambda>r. r\<lparr>sr_warm_until := k\<rparr>)" "quiet (\<lambda>r. r\<lparr>sr_last_activity := 0, sr_warm_until := 0\<rparr>)"
  by (simp_all add: quiet_def ok_row_def)

lemma touched_ok: "0 < now \<Longrightarrow> ok_row r \<Longrightarrow> ok_row (touched now r)"
proof -
  have "0 \<le> js_round (WARM_EWMA_ALPHA * of_int g + (1 - WARM_EWMA_ALPHA) * of_int e)" if "0 \<le> g" "0 < e" for g e
    using that by (simp add: js_round_def WARM_EWMA_ALPHA_def)
  then show "0 < now \<Longrightarrow> ok_row r \<Longrightarrow> ok_row (touched now r)"
    by (simp add: ok_row_def touched_def Let_def)
qed

lemma find_row_None: "find_row n rows = None \<longleftrightarrow> n \<notin> set (map sr_facet rows)"
  by (auto simp: find_row_def find_None_iff)

lemma touch_wf:
  assumes "0 < now" "wf_sup s" "touch now t i s = (r, s')"
  shows "wf_sup s'"
proof -
  have new: "ok_row (new_row t i now)" using assms(1) by (simp add: ok_row_def new_row_def)
  show ?thesis
  proof (cases "find_row (facetName t i) (su_sessions s)")
    case None
    then have "facetName t i \<notin> sr_facet ` set (su_sessions s)" by (simp add: find_row_None)
    then show ?thesis using assms None new
      by (auto simp: touch_def Let_def wf_sup_def wf_rows_def new_row_def MAX_FACETS_PER_SUPERVISOR_def split: if_splits)
  next
    case (Some row)
    have "wf_rows (map (\<lambda>r. if sr_facet r = facetName t i then touched now r else r) (su_sessions s))"
      using assms(1,2) by (intro wf_rows_map) (simp_all add: wf_sup_def touched_ok)
    then show ?thesis using assms(3) Some by (auto simp: touch_def Let_def wf_sup_def)
  qed
qed

lemma frame_wf: "frame E t i msg s = (r, s') \<Longrightarrow> wf_sup s' = wf_sup s"
  using frame_fields[of E t i msg s r s'] by (simp add: wf_sup_def)

lemma meter_wf [simp]: "wf_sup (meter E t m v i s) = wf_sup s"
  by (simp add: wf_sup_def)

lemma abort_wf [simp]: "wf_sup (abort E n s) = wf_sup s"
  by (simp add: wf_sup_def)

lemma eval_reply_wf: "wf_sup s \<Longrightarrow> wf_sup (eval_reply E t i v s)"
  by (auto simp: eval_reply_def Let_def recordSize_def intro!: update_rows_wf split: option.split json.split)

lemma evalMetered_wf: "evalMetered E t i src c s = (r, s') \<Longrightarrow> wf_sup s \<Longrightarrow> wf_sup s'"
  by (auto simp: evalMetered_def frame_wf intro!: eval_reply_wf split: sum.splits prod.splits)

lemma guarded_wf:
  assumes "guarded t perms slug f s = (r, s')" "wf_sup s" "\<And>r s'. f s = (r, s') \<Longrightarrow> wf_sup s'"
  shows "wf_sup s'"
  using assms by (auto simp: guarded_def split: sum.splits)

lemma touch_then_wf:
  assumes "touch_then now t i f s = (r, s')" "0 < now" "wf_sup s" "\<And>s1 r s2. f s1 = (r, s2) \<Longrightarrow> wf_sup s1 \<Longrightarrow> wf_sup s2"
  shows "wf_sup s'"
proof -
  obtain q s1 where q: "touch now t i s = (q, s1)" by force
  show ?thesis using touch_wf[OF assms(2,3) q] assms(1,4) q by (cases q) (auto simp: touch_then_def)
qed

lemma simple_frame_wf: "simple_frame E t i c s = (r, s') \<Longrightarrow> wf_sup s \<Longrightarrow> wf_sup s'"
  by (auto simp: simple_frame_def frame_wf split: sum.splits prod.splits)

lemma warm_view_wf: "warm_view now t i ls s = (r, s') \<Longrightarrow> wf_sup s \<Longrightarrow> wf_sup s'"
  by (auto simp: warm_view_def Let_def setLatencySensitive_def intro!: update_rows_wf split: option.splits)

lemma evict_wf: "evict E t i s = (r, s') \<Longrightarrow> wf_sup s \<Longrightarrow> wf_sup s'"
  by (auto simp: evict_def Let_def intro!: update_rows_wf)

lemma reply_wf: "map_prod g id p = (r, s') \<Longrightarrow> (\<And>q. p = (q, s') \<Longrightarrow> wf_sup s') \<Longrightarrow> wf_sup s'"
  by (cases p) auto

lemma sup_route_wf:
  assumes "sup_route E now t perms rq s = Some (r, s')" "0 < now" "wf_sup s"
  shows "wf_sup s'"
proof -
  let ?i = "session_of rq"
  let ?reply = "map_prod (reply_response t ?i) id"
  have fr: "wf_sup s'"
    if "guarded t perms slug (touch_then now t ?i (\<lambda>s1. ?reply (frame E t ?i msg s1))) s = (r, s')" for slug msg
    using that assms(2,3) by (elim guarded_wf touch_then_wf reply_wf) (auto simp: frame_wf)
  have ev: "wf_sup s'"
    if "guarded t perms slug (touch_then now t ?i (\<lambda>s1. ?reply (evalMetered E t ?i src c s1))) s = (r, s')" for slug src c
    using that assms(2,3) by (elim guarded_wf touch_then_wf reply_wf) (auto intro: evalMetered_wf)
  have si: "wf_sup s'" if "guarded t perms slug (simple_frame E t ?i c) s = (r, s')" for slug c
    using that assms(3) by (rule guarded_wf) (rule simple_frame_wf[OF _ assms(3)])
  have wa: "wf_sup s'" if "guarded t perms slug (warm_view now t ?i ls) s = (r, s')" for slug ls
    using that assms(3) by (rule guarded_wf) (rule warm_view_wf[OF _ assms(3)])
  have evi: "wf_sup s'" if "guarded t perms slug (evict E t ?i) s = (r, s')" for slug
    using that assms(3) by (rule guarded_wf) (rule evict_wf[OF _ assms(3)])
  have li: "wf_sup s'" if "guarded t perms slug (list_sessions t) s = (r, s')" for slug
    using that assms(3) by (rule guarded_wf) (simp add: list_sessions_def Let_def assms(3))
  show ?thesis using assms(1) unfolding sup_route_def Let_def
    by (auto split: if_splits dest: fr ev si wa evi li)
qed

lemma control_route_wf: "control_route E now rnd rq s = (r, s') \<Longrightarrow> wf_sup s' = wf_sup s"
  by (auto simp: control_route_def Let_def wf_sup_def split: if_splits sum.splits prod.splits)

lemma sup_fetch_wf: "sup_fetch E info now rnd rq s = (r, s') \<Longrightarrow> 0 < now \<Longrightarrow> wf_sup s \<Longrightarrow> wf_sup s'"
proof -
  assume f: "sup_fetch E info now rnd rq s = (r, s')" and pos: "0 < now" "wf_sup s"
  let ?s = "s\<lparr>su_credType := header rq ''x-md-credtype''\<rparr>"
  have w: "wf_sup ?s" using pos by (simp add: wf_sup_def)
  show "wf_sup s'"
    using f w control_route_wf[of E now rnd rq ?s r s']
      sup_route_wf[of E now _ _ rq ?s _ s', OF _ pos(1) w]
    by (auto simp: sup_fetch_def Let_def split: if_splits option.splits sum.splits prod.splits)
qed

section \<open>The sweep\<close>

definition evictable :: "int \<Rightarrow> session_row \<Rightarrow> bool" where
  "evictable now row \<longleftrightarrow> \<not> shouldWarm (Some row) now \<and> FACET_IDLE_TTL_MS \<le> now - sr_last_activity row
     \<and> \<not> now < sr_warm_until row"

definition sweep_effect :: "int \<Rightarrow> session_row \<Rightarrow> session_row \<Rightarrow> session_row" where
  "sweep_effect now row r =
     (if shouldWarm (Some row) now then r\<lparr>sr_warm_until := now + WARM_HORIZON_MS\<rparr>
      else if evictable now row then r\<lparr>sr_last_activity := 0, sr_warm_until := 0\<rparr> else r)"

lemma quiet_sweep: "quiet (sweep_effect now row)"
  by (simp add: quiet_def sweep_effect_def ok_row_def)

lemma alarm_row_sessions: "su_sessions (alarm_row E now row s) =
    map (\<lambda>r. if sr_facet r = sr_facet row then sweep_effect now row r else r) (su_sessions s)"
proof -
  obtain q s1 where f: "frame E (sr_tenant row) (sr_session row) ping_frame s = (q, s1)" by force
  show ?thesis
    using f frame_fields[OF f]
    by (auto simp: alarm_row_def Let_def sweep_effect_def evictable_def intro!: map_idI[symmetric])
qed

lemma alarm_row_rows:
  assumes "wf_rows (su_sessions s)" shows "wf_rows (su_sessions (alarm_row E now row s))"
proof -
  have "quiet (sweep_effect now row)" by (rule quiet_sweep)
  then show ?thesis using assms unfolding alarm_row_sessions by (intro wf_rows_map) (simp_all add: quiet_def)
qed

lemma alarm_rows_wf: "wf_rows (su_sessions s) \<Longrightarrow> wf_rows (su_sessions (foldl (\<lambda>s' row. alarm_row E now row s') s rows))"
  by (induction rows arbitrary: s) (simp_all add: alarm_row_rows)

lemma meter_facets_fields [simp]: "su_sessions (meter_facets E s) = su_sessions s" "su_running (meter_facets E s) = su_running s"
proof -
  have "su_sessions (foldl (\<lambda>s' t. meter E t m (g t) i s') u ts) = su_sessions u
      \<and> su_running (foldl (\<lambda>s' t. meter E t m (g t) i s') u ts) = su_running u" for m g i u ts
    by (induction ts arbitrary: u) simp_all
  then show "su_sessions (meter_facets E s) = su_sessions s" "su_running (meter_facets E s) = su_running s"
    by (simp_all add: meter_facets_def)
qed

lemma alarm_wf: "wf_sup s \<Longrightarrow> wf_sup (alarm E now s)"
  using alarm_rows_wf[of "s\<lparr>su_alarm := None\<rparr>"] by (simp add: wf_sup_def alarm_def Let_def)

text \<open>Everything a shard goes through: requests and alarms at positive times.\<close>

inductive sup_reach :: "'k sup_env \<Rightarrow> (string \<Rightarrow> json) \<Rightarrow> 'k supervisor \<Rightarrow> bool" for E info where
  start: "su_sessions s = [] \<Longrightarrow> sup_reach E info s"
| request: "sup_reach E info s \<Longrightarrow> 0 < now \<Longrightarrow> sup_fetch E info now rnd rq s = (r, s') \<Longrightarrow> sup_reach E info s'"
| sweep: "sup_reach E info s \<Longrightarrow> 0 < now \<Longrightarrow> sup_reach E info (alarm E now s)"

lemma reach_wf: "sup_reach E info s \<Longrightarrow> wf_sup s"
proof (induction rule: sup_reach.induct)
  case start then show ?case by (simp add: wf_sup_def wf_rows_def active_def)
next
  case request then show ?case by (blast intro: sup_fetch_wf)
next
  case sweep then show ?case by (simp add: alarm_wf)
qed

text \<open>C10. In every state a shard reaches, the session table is well formed: one row per facet, named for its
  tenant and session, at most 128 rows, non-negative cadence values and at least one evaluation; and whenever
  a session is active the sweep is scheduled.\<close>

theorem session_table_invariant:
  assumes "sup_reach E info s"
  shows "wf_rows (su_sessions s) \<and> (active (su_sessions s) \<noteq> [] \<longrightarrow> su_alarm s \<noteq> None)"
  using reach_wf[OF assms] by (auto simp: wf_sup_def)

definition rows_of :: "string \<Rightarrow> 'k supervisor \<Rightarrow> session_row list" where
  "rows_of n s = filter (\<lambda>r. sr_facet r = n) (su_sessions s)"

lemma sweep_effect_facet [simp]: "sr_facet (sweep_effect now row r) = sr_facet r"
  by (simp add: sweep_effect_def)

lemma filter_map_own:
  "(\<And>r. sr_facet (f r) = sr_facet r) \<Longrightarrow>
   filter (\<lambda>r. sr_facet r = n) (map (\<lambda>r. if sr_facet r = k then f r else r) rows) =
   (if n = k then map f (filter (\<lambda>r. sr_facet r = n) rows) else filter (\<lambda>r. sr_facet r = n) rows)"
  by (induction rows) auto

lemma alarm_row_running:
  "ok_row row \<Longrightarrow> n \<in> set (su_running (alarm_row E now row s)) \<longleftrightarrow>
     (if n \<noteq> sr_facet row then n \<in> set (su_running s)
      else if shouldWarm (Some row) now then True
      else if evictable now row then False else n \<in> set (su_running s))"
proof -
  assume ok: "ok_row row"
  obtain q s1 where f: "frame E (sr_tenant row) (sr_session row) ping_frame s = (q, s1)" by force
  show ?thesis
    using f frame_fields[OF f] ok by (auto simp: alarm_row_def Let_def evictable_def ok_row_def)
qed

lemma alarm_row_rows_of:
  "rows_of n (alarm_row E now row s) = (if n = sr_facet row then map (sweep_effect now row) (rows_of n s) else rows_of n s)"
  unfolding rows_of_def alarm_row_sessions by (rule filter_map_own) simp

lemma sweep_others:
  assumes "n \<notin> sr_facet ` set rs" "\<forall>row \<in> set rs. ok_row row"
  shows "rows_of n (foldl (\<lambda>s' row. alarm_row E now row s') s rs) = rows_of n s
    \<and> (n \<in> set (su_running (foldl (\<lambda>s' row. alarm_row E now row s') s rs)) \<longleftrightarrow> n \<in> set (su_running s))"
  using assms by (induction rs arbitrary: s) (simp_all add: alarm_row_rows_of alarm_row_running)

lemma sweep_one:
  fixes E :: "'k sup_env" and s :: "'k supervisor" and now :: int
  assumes "distinct (map sr_facet rs)" "\<forall>row \<in> set rs. ok_row row" "row \<in> set rs"
    and s': "s' = foldl (\<lambda>s' row. alarm_row E now row s') s rs"
  shows "rows_of (sr_facet row) s' = map (sweep_effect now row) (rows_of (sr_facet row) s)
    \<and> (sr_facet row \<in> set (su_running s') \<longleftrightarrow>
        (shouldWarm (Some row) now \<or> \<not> evictable now row \<and> sr_facet row \<in> set (su_running s)))"
proof -
  obtain a b where rs: "rs = a @ row # b" using assms(3) by (auto simp: in_set_conv_decomp)
  let ?sa = "foldl (\<lambda>s' row. alarm_row E now row s') s a"
  have n: "sr_facet row \<notin> sr_facet ` set a" "sr_facet row \<notin> sr_facet ` set b" and ok: "\<forall>r \<in> set a. ok_row r" "\<forall>r \<in> set b. ok_row r" "ok_row row"
    using assms(1,2) rs by auto
  note oa = sweep_others[OF n(1) ok(1), of E now s]
  note ob = sweep_others[OF n(2) ok(2), of E now "alarm_row E now row ?sa"]
  have "s' = foldl (\<lambda>s' row. alarm_row E now row s') (alarm_row E now row ?sa) b" by (simp add: s' rs)
  then show ?thesis using oa ob alarm_row_running[OF ok(3), of "sr_facet row" E now ?sa]
    by (auto simp: alarm_row_rows_of evictable_def)
qed

lemma rows_of_wf: "wf_rows (su_sessions s) \<Longrightarrow> row \<in> set (su_sessions s) \<Longrightarrow> rows_of (sr_facet row) s = [row]"
proof -
  assume w: "wf_rows (su_sessions s)" and r: "row \<in> set (su_sessions s)"
  obtain a b where ab: "su_sessions s = a @ row # b" using r by (auto simp: in_set_conv_decomp)
  then have "sr_facet row \<notin> sr_facet ` set a" "sr_facet row \<notin> sr_facet ` set b" using w by (auto simp: wf_rows_def)
  then have "filter (\<lambda>r. sr_facet r = sr_facet row) a = []" "filter (\<lambda>r. sr_facet r = sr_facet row) b = []"
    by (metis (mono_tags, lifting) filter_False image_eqI)+
  then show ?thesis by (simp add: rows_of_def ab)
qed

lemma warm_is_recent: "shouldWarm (Some r) now \<Longrightarrow> \<not> sr_latency_sensitive r \<Longrightarrow> now - sr_last_activity r < 225000"
proof -
  assume w: "shouldWarm (Some r) now" "\<not> sr_latency_sensitive r"
  then have "of_int (now - sr_last_activity r) \<le> WARM_RECENCY_K * of_int (sr_ewma r)" "sr_ewma r < WARM_MAX_EWMA_MS"
    by (auto simp: shouldWarm_def Let_def not_less split: if_splits)
  then have "(of_int (now - sr_last_activity r) :: rat) \<le> 5 / 2 * of_int (sr_ewma r)" "sr_ewma r \<le> 89999"
    by (simp_all add: WARM_RECENCY_K_def WARM_MAX_EWMA_MS_def)
  moreover have "(of_int (sr_ewma r) :: rat) \<le> 89999" using \<open>sr_ewma r \<le> 89999\<close> by simp
  ultimately have "(of_int (now - sr_last_activity r) :: rat) < of_int 225000" by simp
  then show ?thesis by (simp only: of_int_less_iff)
qed

text \<open>C11. The sweep decides every active session as documented: one it predicts active stays resident and its
  horizon moves four minutes ahead; one that is idle for five minutes, not kept warm on request and past its
  horizon is evicted from memory; any other session keeps its process and its row.\<close>

theorem sweep_decides:
  assumes "sup_reach E info s" and "row \<in> set (su_sessions s)" and "0 < sr_last_activity row"
  shows "\<exists>row'. rows_of (sr_facet row) (alarm E now s) = [row']
    \<and> (if shouldWarm (Some row) now
       then sr_facet row \<in> set (su_running (alarm E now s)) \<and> row' = row\<lparr>sr_warm_until := now + WARM_HORIZON_MS\<rparr>
       else if FACET_IDLE_TTL_MS \<le> now - sr_last_activity row \<and> sr_warm_until row \<le> now
       then sr_facet row \<notin> set (su_running (alarm E now s)) \<and> sr_last_activity row' = 0
       else (sr_facet row \<in> set (su_running (alarm E now s)) \<longleftrightarrow> sr_facet row \<in> set (su_running s)) \<and> row' = row)
    \<and> (\<not> sr_latency_sensitive row \<and> FACET_IDLE_TTL_MS \<le> now - sr_last_activity row \<longrightarrow> \<not> shouldWarm (Some row) now)"
proof -
  have w: "wf_rows (su_sessions s)" using reach_wf[OF assms(1)] by (simp add: wf_sup_def)
  let ?s = "s\<lparr>su_alarm := None\<rparr>" and ?rs = "active (su_sessions s)"
  have rs: "distinct (map sr_facet ?rs)" "\<forall>row \<in> set ?rs. ok_row row" "row \<in> set ?rs"
    using w assms(2,3) by (auto simp: wf_rows_def active_def distinct_map_filter)
  have one: "rows_of (sr_facet row) ?s = [row]" using rows_of_wf[OF w assms(2)] by (simp add: rows_of_def)
  have al: "rows_of n (alarm E now s) = rows_of n (foldl (\<lambda>s' row. alarm_row E now row s') ?s ?rs)"
    "su_running (alarm E now s) = su_running (foldl (\<lambda>s' row. alarm_row E now row s') ?s ?rs)" for n
    by (simp_all add: alarm_def Let_def rows_of_def)
  have nw: "\<not> sr_latency_sensitive row \<and> FACET_IDLE_TTL_MS \<le> now - sr_last_activity row \<longrightarrow> \<not> shouldWarm (Some row) now"
    using warm_is_recent[of row now] by (auto simp: FACET_IDLE_TTL_MS_def)
  show ?thesis
    using sweep_one[OF rs refl, of E now ?s] one nw
    unfolding al by (auto simp: sweep_effect_def evictable_def)
qed

section \<open>Keys\<close>

lemma find_append_None: "\<not> list_ex P xs \<Longrightarrow> find P (xs @ ys) = find P ys"
  by (induction xs) auto

lemma revoke_find:
  assumes "\<And>r. tr_hash (f r) = tr_hash r"
  shows "find (\<lambda>r. tr_hash r = h) (map f ts) = map_option f (find (\<lambda>r. tr_hash r = h) ts)"
  using assms by (induction ts) auto

lemma find_hash: "find (\<lambda>r. tr_hash r = h) ts = Some r \<Longrightarrow> tr_hash r = h"
  by (auto simp: find_Some_iff)

lemma revoke_key_resolve:
  assumes "raw \<noteq> []" "sha256Hex_str digest raw \<noteq> []"
  shows "resolveLocal digest k (snd (revokeKey digest raw h t ts)) =
    (if sha256Hex_str digest k = sha256Hex_str digest raw then None else resolveLocal digest k ts)"
proof -
  let ?f = "\<lambda>r. if tr_hash r = sha256Hex_str digest raw then r\<lparr>tr_revoked := True\<rparr> else r"
  have f: "find (\<lambda>r. tr_hash r = x) (map ?f ts) = map_option ?f (find (\<lambda>r. tr_hash r = x) ts)" for x
    by (rule revoke_find) simp
  have r: "snd (revokeKey digest raw h t ts) = map ?f ts" using assms by (simp add: revokeKey_def Let_def)
  show ?thesis
  proof (cases "find (\<lambda>r. tr_hash r = sha256Hex_str digest k) ts")
    case None
    then show ?thesis unfolding r by (cases "sha256Hex_str digest k = sha256Hex_str digest raw") (auto simp: resolveLocal_def f)
  next
    case (Some row)
    then have "tr_hash row = sha256Hex_str digest k" by (rule find_hash)
    then show ?thesis unfolding r using Some by (cases "sha256Hex_str digest k = sha256Hex_str digest raw") (auto simp: resolveLocal_def f)
  qed
qed

lemma find_append_other: "tr_hash row \<noteq> h \<Longrightarrow> find (\<lambda>r. tr_hash r = h) (ts @ [row]) = find (\<lambda>r. tr_hash r = h) ts"
  by (induction ts) auto

text \<open>C35. The life of an API key: a minted key resolves to exactly its tenant and plan, every other key
  resolves as before, and revoking it ends its resolution at once and that of no other key.\<close>

theorem minted_key_lives_until_revoked:
  assumes "mintKey digest now rnd tid plan ts = (Inr v, ts')" and "sha256Hex_str digest (mintRawKey rnd) \<noteq> []"
  shows "resolveLocal digest (mintRawKey rnd) ts' =
      Some \<lparr>rt_tenantId = tid, rt_plan = (if plan = [] then ''free'' else plan), rt_hash = sha256Hex_str digest (mintRawKey rnd)\<rparr>
    \<and> (sha256Hex_str digest k \<noteq> sha256Hex_str digest (mintRawKey rnd) \<longrightarrow> resolveLocal digest k ts' = resolveLocal digest k ts)
    \<and> resolveLocal digest k (snd (revokeKey digest (mintRawKey rnd) h t ts')) =
        (if sha256Hex_str digest k = sha256Hex_str digest (mintRawKey rnd) then None else resolveLocal digest k ts)"
proof -
  let ?h = "sha256Hex_str digest (mintRawKey rnd)"
  obtain row where row: "ts' = ts @ [row]" "tr_hash row = ?h" "tr_tenant row = tid" "\<not> tr_revoked row"
      "tr_plan row = (if plan = [] then ''free'' else plan)" and new: "\<not> list_ex (\<lambda>r. tr_hash r = ?h) ts"
    using assms(1) by (auto simp: mintKey_def Let_def split: if_splits)
  have raw: "mintRawKey rnd \<noteq> []" by (simp add: mintRawKey_def)
  have one: "resolveLocal digest (mintRawKey rnd) ts' = Some \<lparr>rt_tenantId = tid, rt_plan = (if plan = [] then ''free'' else plan), rt_hash = ?h\<rparr>"
    using row raw find_append_None[OF new, of "[row]"] by (simp add: resolveLocal_def)
  have other: "sha256Hex_str digest k \<noteq> ?h \<Longrightarrow> resolveLocal digest k ts' = resolveLocal digest k ts"
    using row(1,2) find_append_other[of row "sha256Hex_str digest k" ts] by (simp add: resolveLocal_def)
  show ?thesis using one other revoke_key_resolve[OF raw assms(2), of k h t ts'] by auto
qed

section \<open>What the supervisor does not prevent\<close>

text \<open>The cap counts evicted sessions: a full table rejects a new session although nothing runs, and the table
  never shrinks.\<close>

lemma full_shard_rejects_forever:
  assumes "length (su_sessions s) = 128" and "find_row (facetName t i) (su_sessions s) = None"
  shows "touch now t i s = (Inl ''supervisor facet cap reached (128/128); session rejected (shard is full)'', s)"
    and "length (su_sessions (alarm E now' s)) = 128"
proof -
  show "touch now t i s = (Inl ''supervisor facet cap reached (128/128); session rejected (shard is full)'', s)"
    using assms by (simp add: touch_def MAX_FACETS_PER_SUPERVISOR_def nat_str_def nat_digits.simps digit_char_def char_of_eq_iff)
  have "length (su_sessions (foldl (\<lambda>s' row. alarm_row E now' row s') u rs)) = length (su_sessions u)" for rs u
    by (induction rs arbitrary: u) (simp_all add: alarm_row_sessions)
  then show "length (su_sessions (alarm E now' s)) = 128" using assms(1) by (simp add: alarm_def Let_def)
qed

text \<open>\<open>/gen\<close>, \<open>/ping\<close> and \<open>/reset\<close> spawn a facet without a row: no cap, no eviction, no alarm.\<close>

lemma unregistered_facet:
  assumes "su_sessions s = []" "su_alarm s = None" "simple_frame E t i c s = (r, s')"
  shows "facetName t i \<in> set (su_running s') \<and> su_sessions s' = [] \<and> su_alarm s' = None
    \<and> facetName t i \<in> set (su_running (alarm E now s'))"
proof -
  obtain q where "frame E t i (JObj [(''t'', JStr c)]) s = (q, s')"
    using assms(3) by (auto simp: simple_frame_def split: sum.splits prod.splits)
  note f = frame_fields[OF this]
  then show ?thesis using assms by (simp add: alarm_def Let_def active_def)
qed

text \<open>The sweep works on the rows it read at its start: a session touched while the sweep awaited another
  session's heartbeat is still aborted and marked evicted.\<close>

lemma sweep_aborts_touched_session:
  assumes "evictable now row" "ok_row row" "row \<in> set (su_sessions s)"
    and "touch now (sr_tenant row) (sr_session row) s = (Inr (), s1)"
  shows "sr_facet row \<notin> set (su_running (alarm_row E now row s1))
    \<and> (\<forall>r \<in> set (rows_of (sr_facet row) (alarm_row E now row s1)). sr_last_activity r = 0)"
  using assms by (auto simp: alarm_row_running alarm_row_rows_of sweep_effect_def evictable_def)

text \<open>Any other frame type passes \<open>/frame\<close> with the read permission, \<open>evict\<close> included, which the route
  \<open>/evict\<close> refuses without the reset permission.\<close>

lemma frame_route_reads_only: "ft \<notin> {''eval'', ''create'', ''reset''} \<Longrightarrow> frame_slug ft = KERNEL_READ"
  by (simp add: frame_slug_def)

text \<open>The loader keeps the gateway of the tenant that loaded the kernel first.\<close>

lemma loader_keeps_first_tenant:
  assumes "su_loaded s = None" "se_gateway E" "t \<noteq> []" "\<not> List.member (su_running s) (facetName t i)"
  shows "su_loaded (facet E t' i' (facet E t i s)) = Some (Some t)"
  using assms by (simp add: facet_def Let_def loadKernel_def egress_def)

text \<open>A metering row takes the credential class of the latest request of the instance, not of its own.\<close>

lemma metering_uses_latest_class:
  "se_AE E \<Longrightarrow> dp_credType (last (su_points (meter E t m v i (s\<lparr>su_credType := other\<rparr>)))) = other"
  by (simp add: meter_def)

section \<open>A concrete shard\<close>

text \<open>A kernel that logs its frames and answers \<open>{ok: true}\<close>.\<close>

definition log_env :: "(string \<times> json) list sup_env" where
  "log_env = \<lparr>se_digest = map of_char, se_AE = True, se_gateway = True,
     se_kernel = (\<lambda>n msg w. (Inr (JObj [(''ok'', JBool True)]), w @ [(n, msg)])),
     se_abort = (\<lambda>n w. w @ [(n, JNull)])\<rparr>"

definition empty_shard :: "(string \<times> json) list supervisor" where
  "empty_shard = \<lparr>su_sessions = [], su_tenants = [], su_alarm = None, su_points = [], su_credType = [],
     su_egressTenant = [], su_loaded = None, su_running = [], su_world = []\<rparr>"

definition post :: "string \<Rightarrow> string \<Rightarrow> json \<Rightarrow> request" where
  "post path perms body = \<lparr>rq_method = ''POST'', rq_path = path, rq_query = [(''session'', ''s'')],
     rq_headers = [(''x-md-tenant'', ''t''), (''x-eg-perms'', perms)], rq_body = Some body\<rparr>"

lemmas demo_defs = post_def log_env_def empty_shard_def sup_fetch_def control_paths_def control_route_def sup_route_def header_def query_def
  session_of_def or_else_def request_perms_def js_trim_def js_space_def PERM_defs frame_slug_def frame_type_def body_or_empty_def

definition frame_evict :: json where "frame_evict = JObj [(''t'', JStr ''evict'')]"

lemma kernel_read_perms: "request_perms ''kernel:read'' = [''kernel:read'']"
  by (simp add: request_perms_def js_trim_def js_space_def)

lemma post_fields:
  "header (post p ''kernel:read'' v) ''x-md-tenant'' = ''t''" "header (post p ''kernel:read'' v) ''x-eg-perms'' = ''kernel:read''"
  "header (post p ''kernel:read'' v) ''x-md-credtype'' = []" "rq_path (post p ''kernel:read'' v) = p"
  "session_of (post p ''kernel:read'' v) = ''s''" "body_or_empty (post p ''kernel:read'' v) = v"
  by (simp_all add: header_def post_def session_of_def query_def or_else_def body_or_empty_def)

lemma empty_shard_class: "empty_shard\<lparr>su_credType := []\<rparr> = empty_shard"
  by (simp add: empty_shard_def)

lemma evict_frame_route:
  "sup_route log_env 1 ''t'' [''kernel:read''] (post ''/frame'' ''kernel:read'' frame_evict) s =
      Some (touch_then 1 ''t'' ''s'' (\<lambda>s1. map_prod (reply_response ''t'' ''s'') id (frame log_env ''t'' ''s'' frame_evict s1)) s)"
proof -
  have f: "frame_type frame_evict = ''evict''" by (simp add: frame_type_def frame_evict_def js_field_def)
  show ?thesis unfolding sup_route_def Let_def
    by (simp add: f post_fields frame_slug_def KERNEL_READ_def guarded_def requireTenant_def requirePerm_def)
qed

lemma evict_frame_touch:
  "touch_then 1 ''t'' ''s'' (\<lambda>s1. map_prod (reply_response ''t'' ''s'') id (frame log_env ''t'' ''s'' frame_evict s1)) empty_shard =
     (Inr (200, JObj [(''tenant'', JStr ''t''), (''sessionId'', JStr ''s''), (''ok'', JBool True)]),
      empty_shard\<lparr>su_sessions := [new_row ''t'' ''s'' 1], su_alarm := Some 30001, su_egressTenant := ''t'',
        su_loaded := Some (Some ''t''), su_running := [''kr:t:s''], su_world := [(''kr:t:s'', frame_evict)]\<rparr>)"
  by (simp add: touch_then_def touch_def Let_def find_row_def empty_shard_def MAX_FACETS_PER_SUPERVISOR_def armAlarm_def
      frame_def facet_def log_env_def facetName_def loadKernel_def reply_response_def spread_def WARM_SWEEP_INTERVAL_MS_def egress_def)

definition one_session :: "(string \<times> json) list supervisor" where
  "one_session = snd (sup_fetch log_env (\<lambda>_. JNull) 1 [] (post ''/frame'' ''kernel:read'' frame_evict) empty_shard)"

lemma one_session_eq: "one_session =
  empty_shard\<lparr>su_sessions := [new_row ''t'' ''s'' 1], su_alarm := Some 30001, su_egressTenant := ''t'',
        su_loaded := Some (Some ''t''), su_running := [''kr:t:s''], su_world := [(''kr:t:s'', frame_evict)]\<rparr>"
  by (simp add: one_session_def sup_fetch_def control_paths_def post_fields kernel_read_perms empty_shard_class
      evict_frame_route evict_frame_touch)

lemma one_session_reach: "sup_reach log_env (\<lambda>_. JNull) one_session"
  unfolding one_session_def
  by (rule sup_reach.request[OF sup_reach.start _ surjective_pairing]) (simp_all add: empty_shard_def)

text \<open>The frame \<open>evict\<close> reaches the kernel of a caller who may only read; the route \<open>/evict\<close> refuses.\<close>

lemma read_only_evicts_by_frame:
  "su_world one_session = [(''kr:t:s'', frame_evict)]"
  "\<exists>v. fst (sup_fetch log_env (\<lambda>_. JNull) 1 [] (post ''/evict'' ''kernel:read'' frame_evict) empty_shard) = Inr (403, v)"
  by (simp_all add: one_session_eq sup_fetch_def control_paths_def Let_def post_fields kernel_read_perms sup_route_def guarded_def
      requireTenant_def requirePerm_def PERM_defs error_response_def)

theorem routes_are_guarded_witness:
  "\<exists>v. sup_fetch log_env (\<lambda>_. JNull) 1 [] (post ''/eval'' ''kernel:read'' JNull) empty_shard = (Inr (403, v), empty_shard)"
proof -
  let ?rq = "post ''/eval'' ''kernel:read'' JNull"
  have "\<not> allowed ?rq" by (simp add: allowed_def route_slug_def tenant_of_def post_fields kernel_read_perms PERM_defs)
  moreover have "\<not> List.member control_paths (rq_path ?rq)" by (simp add: control_paths_def post_fields)
  ultimately show ?thesis
    using routes_are_guarded[of ?rq log_env "\<lambda>_. JNull" 1 "[]" empty_shard] by (simp add: post_fields empty_shard_class)
qed

theorem requests_stay_in_facet_witness:
  "only_facet log_env (facetName ''t'' ''s'') empty_shard one_session"
  unfolding one_session_def
  using requests_stay_in_facet[where rq = "post ''/frame'' ''kernel:read'' frame_evict" and E = log_env and now = 1,
    OF _ surjective_pairing]
  by (simp add: control_paths_def tenant_of_def post_fields)

theorem session_table_invariant_witness: "wf_rows (su_sessions one_session) \<and> su_alarm one_session \<noteq> None"
  using session_table_invariant[OF one_session_reach] by (simp add: one_session_eq active_def new_row_def)

theorem sweep_decides_witness:
  "sr_facet (new_row ''t'' ''s'' 1) \<notin> set (su_running (alarm log_env 300001 one_session))"
  using sweep_decides[OF one_session_reach, of "new_row ''t'' ''s'' 1" 300001]
  by (auto simp: one_session_eq new_row_def shouldWarm_def WARM_defs to_int32_def)

theorem minted_key_lives_until_revoked_witness:
  "\<exists>v ts. mintKey (map of_char) 0 [] ''acme'' [] [] = (Inr v, ts)
     \<and> resolveLocal (map of_char) (mintRawKey []) ts =
         Some \<lparr>rt_tenantId = ''acme'', rt_plan = ''free'', rt_hash = sha256Hex_str (map of_char) (mintRawKey [])\<rparr>
     \<and> resolveLocal (map of_char) (mintRawKey []) (snd (revokeKey (map of_char) (mintRawKey []) [] [] ts)) = None"
proof -
  obtain v ts where m: "mintKey (map of_char) 0 [] ''acme'' [] [] = (Inr v, ts)" by (simp add: mintKey_def Let_def)
  have "hex2 (of_char CHR ''m'') \<noteq> []" using hex2_digits by (metis list.size(3) zero_neq_numeral)
  then have "sha256Hex_str (map of_char) (mintRawKey []) \<noteq> []" by (simp add: sha256Hex_str_def mintRawKey_def)
  from minted_key_lives_until_revoked[OF m this] m show ?thesis by auto
qed

end
