(* ===== verification/CloudProps.thy ===== *)
theory CloudProps
  imports CloudEntry CredentialProps SupervisorProps
begin

text \<open>
  Properties that span the cloud entry, the credentials and the supervisor shards: which sessions a client
  request can reach and with which permissions, what the routes without a credential can do, and who can
  change the key table.
\<close>

section \<open>Headers\<close>

definition clean_slug :: "string \<Rightarrow> bool" where
  "clean_slug p \<longleftrightarrow> p \<noteq> [] \<and> CHR '','' \<notin> set p \<and> js_trim p = p"

lemma trim_clean: "\<forall>p \<in> set ps. clean_slug p \<Longrightarrow> filter (\<lambda>p. p \<noteq> []) (map js_trim ps) = ps"
  by (induction ps) (auto simp: clean_slug_def)

lemma perms_roundtrip: "\<forall>p \<in> set ps. clean_slug p \<Longrightarrow> request_perms (js_join CHR '','' ps) = ps"
proof (cases "ps = []")
  case False
  assume c: "\<forall>p \<in> set ps. clean_slug p"
  then have "js_split CHR '','' (js_join CHR '','' ps) = ps" using False by (intro js_split_join) (auto simp: clean_slug_def)
  moreover have "js_join CHR '','' ps \<noteq> []" using c False by (auto simp: js_join_eq_Nil clean_slug_def)
  ultimately show ?thesis using trim_clean[OF c] by (simp add: request_perms_def)
qed (simp add: request_perms_def)

lemma profile_clean: "\<forall>p \<in> set DEVELOPER_PROFILE. clean_slug p"
  by (simp add: DEVELOPER_PROFILE_def PERM_defs clean_slug_def js_trim_def js_space_def)

lemma gate_headers_values:
  "map_of (gate_headers c hs) ''x-md-tenant'' = Some (cr_account c)"
  "map_of (gate_headers c hs) ''x-eg-perms'' = Some (js_join CHR '','' (effectivePermissions c))"
  "map_of (gate_headers c hs) ''x-md-credtype'' = Some (cred_type_str (cr_credType c))"
  by (simp_all add: gate_headers_def update_conv)

lemma effective_admin: "ACCOUNT_ADMIN \<in> set (effectivePermissions c) \<Longrightarrow> cr_credType c \<noteq> Legacy \<and> ACCOUNT_ADMIN \<in> set (cr_permissions c)"
  by (auto simp: effectivePermissions_def DEVELOPER_PROFILE_def PERM_defs split: if_splits)

section \<open>The data plane\<close>

lemma control_paths_hidden: "List.member control_paths p \<Longrightarrow> prefix ''/_'' p"
  by (auto simp: control_paths_def)

lemma resolve_request_shards: "resolve_request E now rq w = (r, w1) \<Longrightarrow> cl_shards w1 = cl_shards w"
  by (auto simp: resolve_request_def split: prod.splits)

definition gated :: "credential \<Rightarrow> request \<Rightarrow> request" where
  "gated c rq = rq\<lparr>rq_headers := gate_headers c (rq_headers rq)\<rparr>"

lemma gated_fields:
  "tenant_of (gated c rq) = cr_account c" "session_of (gated c rq) = session_of rq" "rq_path (gated c rq) = rq_path rq"
  "header (gated c rq) ''x-eg-perms'' = js_join CHR '','' (effectivePermissions c)"
  "route_slug (gated c rq) = route_slug rq"
  by (simp_all add: gated_def tenant_of_def header_def gate_headers_values session_of_def query_def route_slug_def body_or_empty_def
      cong: option.case_cong)

text \<open>What the entry lets through to a shard.\<close>

lemma data_route_cases:
  assumes "data_route E now rnd rq w = (r, w')" and "cl_shards w' \<noteq> cl_shards w"
  obtains c w1 where "resolve_request E now rq w = (Inr (Some c), w1)" "cr_account c \<noteq> []" "\<not> prefix ''/_'' (rq_path rq)"
    "call_shard E now rnd (shardFor (session_of rq) SHARD_COUNT) (gated c rq) w1 = (r, w')"
proof -
  obtain q w1 where q: "resolve_request E now rq w = (q, w1)" by force
  note s = resolve_request_shards[OF q]
  show thesis using assms q s that[of _ w1]
    by (auto simp: data_route_def gated_def split: if_splits sum.splits option.splits)
qed

text \<open>C2. The gate of the data plane: if a client's request changes any shard, the server has resolved the
  presented key to an account, only the shard of the requested session changes, and there only the facet of
  that account's session; and unless the account's effective permissions include the one the route requires,
  nothing changes but the recorded credential class and the answer is 403.  No header of the client matters.\<close>

theorem client_reaches_own_sessions_only:
  assumes "entry_fetch E now rnd rq w = (r, w')" and "cl_shards w' \<noteq> cl_shards w"
    and "rq_path rq \<notin> {''/admin/keys'', ''/usage'', ''/health'', ''/''}"
  shows "\<exists>c. fst (resolve_request E now rq w) = Inr (Some c) \<and> cr_account c \<noteq> []
    \<and> (let n = shardFor (session_of rq) SHARD_COUNT
       in (\<forall>m. m \<noteq> n \<longrightarrow> cl_shards w' m = cl_shards w m)
          \<and> only_facet (ce_sup E) (facetName (cr_account c) (session_of rq)) (cl_shards w n) (cl_shards w' n)
          \<and> (\<forall>slug. route_slug rq = Some slug \<and> (\<forall>p \<in> set (effectivePermissions c). clean_slug p)
               \<and> slug \<notin> set (effectivePermissions c) \<longrightarrow>
               (\<exists>v k. r = Inr (403, v) \<and> cl_shards w' n = (cl_shards w n)\<lparr>su_credType := k\<rparr>)))"
proof -
  have "data_route E now rnd rq w = (r, w')" using assms(1,3) by (simp add: entry_fetch_def)
  then obtain c w1 where c: "resolve_request E now rq w = (Inr (Some c), w1)" "cr_account c \<noteq> []"
      "\<not> prefix ''/_'' (rq_path rq)"
      and call: "call_shard E now rnd (shardFor (session_of rq) SHARD_COUNT) (gated c rq) w1 = (r, w')"
    using assms(2) by (rule data_route_cases)
  let ?n = "shardFor (session_of rq) SHARD_COUNT" and ?g = "gated c rq"
  have w1: "cl_shards w1 = cl_shards w" by (rule resolve_request_shards[OF c(1)])
  obtain s' where f: "sup_fetch (ce_sup E) (ce_info E) now rnd ?g (cl_shards w ?n) = (r, s')"
      and w': "cl_shards w' = (cl_shards w)(?n := s')"
    using call w1 by (auto simp: call_shard_def split: prod.splits)
  have nc: "\<not> List.member control_paths (rq_path ?g)" using c(3) control_paths_hidden by (auto simp: gated_fields)
  have only: "only_facet (ce_sup E) (facetName (cr_account c) (session_of rq)) (cl_shards w ?n) s'"
    using request_only_facet[OF nc f] by (simp add: gated_fields)
  have deny: "\<exists>v k. r = Inr (403, v) \<and> s' = (cl_shards w ?n)\<lparr>su_credType := k\<rparr>"
    if d: "route_slug rq = Some slug" "\<forall>p \<in> set (effectivePermissions c). clean_slug p" "slug \<notin> set (effectivePermissions c)" for slug
  proof -
    have "\<not> allowed ?g" using d perms_roundtrip[OF d(2)] by (simp add: allowed_def gated_fields)
    from request_refused[OF nc this, of "ce_sup E" "ce_info E" now rnd "cl_shards w ?n"] show ?thesis using f by auto
  qed
  show ?thesis using c only deny w' by (auto simp: Let_def)
qed

section \<open>Routes without a credential\<close>

lemma pass_through_fetch: "p \<in> {''/health'', ''/''} \<Longrightarrow> rq_path rq = p \<Longrightarrow>
  sup_fetch S info now rnd rq s = (Inr (200, info p), s\<lparr>su_credType := header rq ''x-md-credtype''\<rparr>)"
  by (auto simp: sup_fetch_def control_paths_def Let_def sup_route_def)

lemma same_class: "\<exists>k. s = s\<lparr>su_credType := k\<rparr>"
  by (rule exI[of _ "su_credType s"]) simp

text \<open>The pass-through routes hand out nothing: whatever headers a client sends to \<open>/health\<close> or \<open>/\<close>,
  every shard keeps its state up to the recorded credential class, and the answer is the service information.\<close>

theorem pass_through_is_inert:
  assumes "entry_fetch E now rnd rq w = (r, w')" and "rq_path rq \<in> {''/health'', ''/''}"
  shows "r = Inr (200, ce_info E (rq_path rq)) \<and> cl_auth w' = cl_auth w
    \<and> (\<forall>n. \<exists>k. cl_shards w' n = (cl_shards w n)\<lparr>su_credType := k\<rparr>)"
proof -
  have "info_route E now rnd rq w = (r, w')" using assms by (auto simp: entry_fetch_def)
  then show ?thesis using assms(2)
    by (auto simp: info_route_def call_shard_def Let_def pass_through_fetch[OF assms(2)] intro: same_class)
qed

section \<open>The key table\<close>

lemma data_route_tenants:
  assumes "data_route E now rnd rq w = (r, w')"
  shows "su_tenants (cl_shards w' n) = su_tenants (cl_shards w n)"
proof (cases "cl_shards w' = cl_shards w")
  case False
  obtain c w1 where c: "resolve_request E now rq w = (Inr (Some c), w1)" "\<not> prefix ''/_'' (rq_path rq)"
      and call: "call_shard E now rnd (shardFor (session_of rq) SHARD_COUNT) (gated c rq) w1 = (r, w')"
    using assms False by (rule data_route_cases)
  have nc: "\<not> List.member control_paths (rq_path (gated c rq))" using c(2) control_paths_hidden by (auto simp: gated_fields)
  obtain s' where f: "sup_fetch (ce_sup E) (ce_info E) now rnd (gated c rq) (cl_shards w1 (shardFor (session_of rq) SHARD_COUNT)) = (r, s')"
      and w': "cl_shards w' = (cl_shards w1)(shardFor (session_of rq) SHARD_COUNT := s')"
    using call by (auto simp: call_shard_def split: prod.splits)
  show ?thesis using request_only_facet[OF nc f] w' resolve_request_shards[OF c(1)] by (auto simp: only_facet_def)
qed simp

lemma info_route_tenants:
  assumes "info_route E now rnd rq w = (r, w')" "rq_path rq \<in> {''/health'', ''/''}"
  shows "su_tenants (cl_shards w' n) = su_tenants (cl_shards w n)"
  using assms by (auto simp: info_route_def call_shard_def Let_def sup_fetch_def control_paths_def sup_route_def)

lemma authorize_cases:
  assumes "authorize E now m slug rq w = (Inr (Inr c), w1)"
  shows "resolve_request E now rq w = (Inr (Some c), w1) \<and> cr_account c \<noteq> [] \<and> slug \<in> set (effectivePermissions c)"
  using assms by (auto simp: authorize_def split: prod.splits sum.splits option.splits if_splits)

lemma authorize_shards: "authorize E now m slug rq w = (r, w1) \<Longrightarrow> cl_shards w1 = cl_shards w"
  using resolve_request_shards[of E now rq w] by (auto simp: authorize_def split: prod.splits sum.splits option.splits)

lemma usage_route_shards: "usage_route E now rq w = (r, w') \<Longrightarrow> cl_shards w' = cl_shards w"
  using authorize_shards[of E now "''unauthorized''" USAGE_READ rq w]
  by (auto simp: usage_route_def split: if_splits prod.splits sum.splits)

lemma admin_action_shards: "admin_action E now rnd rq w = (r, w') \<Longrightarrow> n \<noteq> AUTH_SHARD \<Longrightarrow> cl_shards w' n = cl_shards w n"
  by (auto simp: admin_action_def call_shard_def Let_def split: if_splits prod.splits)

definition admin_evidence :: "('k, 'v) cloud_env \<Rightarrow> int \<Rightarrow> request \<Rightarrow> ('k, 'v) cloud \<Rightarrow> bool" where
  "admin_evidence E now rq w \<longleftrightarrow>
     (ce_ADMIN_TOKEN E \<noteq> [] \<and> or_else (header rq ''x-admin-token'') (query rq ''adminToken'') = ce_ADMIN_TOKEN E)
     \<or> (\<exists>c. fst (resolve_request E now rq w) = Inr (Some c) \<and> cr_credType c \<noteq> Legacy \<and> ACCOUNT_ADMIN \<in> set (cr_permissions c))"

lemma admin_keys_evidence:
  assumes "admin_keys E now rnd rq w = (r, w')" "cl_shards w' \<noteq> cl_shards w"
  shows "admin_evidence E now rq w \<and> (\<forall>n. n \<noteq> AUTH_SHARD \<longrightarrow> cl_shards w' n = cl_shards w n)"
proof (cases "admin_token_ok E rq")
  case True
  then show ?thesis using assms admin_action_shards[of E now rnd rq w r w']
    by (auto simp: admin_keys_def admin_evidence_def admin_token_ok_def safeEqual_iff)
next
  case False
  obtain q w1 where a: "authorize E now ADMIN_REFUSAL ACCOUNT_ADMIN rq w = (q, w1)" by force
  note s = authorize_shards[OF a]
  obtain c where c: "q = Inr (Inr c)" "admin_action E now rnd rq w1 = (r, w')"
    using assms False a s by (auto simp: admin_keys_def split: if_splits sum.splits)
  note d = authorize_cases[OF a[unfolded c(1)]]
  then have "admin_evidence E now rq w" using effective_admin[of c] by (auto simp: admin_evidence_def)
  then show ?thesis using admin_action_shards[OF c(2)] s by auto
qed

text \<open>C3. Only an administrator changes a key table: if any request to the entry changes the tenants of any
  shard, it is one to \<open>/admin/keys\<close>, the shard is the auth shard, and the client presented the operator's
  token or a WorkOS credential that itself carries \<open>account:admin\<close>.\<close>

theorem key_table_needs_admin:
  assumes "entry_fetch E now rnd rq w = (r, w')" and "su_tenants (cl_shards w' n) \<noteq> su_tenants (cl_shards w n)"
  shows "rq_path rq = ''/admin/keys'' \<and> n = AUTH_SHARD \<and> admin_evidence E now rq w"
proof (cases "rq_path rq = ''/admin/keys''")
  case True
  then have "admin_keys E now rnd rq w = (r, w')" using assms(1) by (simp add: entry_fetch_def)
  then show ?thesis using True assms(2) admin_keys_evidence by metis
next
  case False
  then show ?thesis using assms data_route_tenants[of E now rnd rq w r w' n] info_route_tenants[of E now rnd rq w r w' n]
      usage_route_shards[of E now rq w r w']
    by (auto simp: entry_fetch_def split: if_splits)
qed

section \<open>What the entry does not prevent\<close>

text \<open>A WorkOS credential with an explicitly empty list of permissions gets the whole developer profile.\<close>

lemma empty_grant_is_full_profile: "cr_permissions c = [] \<Longrightarrow> effectivePermissions c = DEVELOPER_PROFILE"
  by (simp add: effectivePermissions_def)

text \<open>Two tenants can share a facet name.\<close>

lemma facet_names_collide: "facetName ''a'' ''b:c'' = facetName ''a:b'' ''c''"
  by (simp add: facetName_def)

lemma facet_names_distinct: "CHR '':'' \<notin> set t \<Longrightarrow> CHR '':'' \<notin> set t' \<Longrightarrow> facetName t i = facetName t' i' \<longleftrightarrow> t = t' \<and> i = i'"
  by (auto simp: facetName_def append_sep_inject)

text \<open>The client's credential class survives on the pass-through routes.\<close>

lemma health_keeps_client_class:
  assumes "rq_path rq = ''/health''" "header rq ''x-md-credtype'' = k" "entry_fetch E now rnd rq w = (r, w')"
  shows "su_credType (cl_shards w' (shardFor (session_of rq) SHARD_COUNT)) = k"
  using assms by (auto simp: entry_fetch_def info_route_def call_shard_def Let_def sup_fetch_def control_paths_def sup_route_def
      header_def delete_conv session_of_def query_def)

section \<open>A concrete deployment\<close>

definition cloud_demo_env :: "((string \<times> json) list, nat) cloud_env" where
  "cloud_demo_env = \<lparr>ce_ADMIN_TOKEN = ''adm'', ce_auth = accept_all, ce_sup = log_env, ce_info = (\<lambda>_. JNull),
     ce_usage = (\<lambda>_ _. Inr Unconfigured), ce_number = (\<lambda>_. None)\<rparr>"

definition demo_cloud :: "((string \<times> json) list, nat) cloud" where
  "demo_cloud = \<lparr>cl_shards = (\<lambda>_. empty_shard), cl_auth = no_auth\<rparr>"

definition ping_request :: request where
  "ping_request = \<lparr>rq_method = ''POST'', rq_path = ''/ping'', rq_query = [],
     rq_headers = [(''x-api-key'', ''k''), (''x-md-tenant'', ''other'')], rq_body = None\<rparr>"

lemma key_resolves:
  assumes "getApiKey rq = ''k''"
  shows "\<exists>a. resolve_request cloud_demo_env 1 rq demo_cloud = (Inr (Some org_credential), demo_cloud\<lparr>cl_auth := a\<rparr>)"
proof -
  have "\<not> looksJwt ''k''" by (simp add: looksJwt_def)
  then have "\<exists>a. resolveCredential accept_all 1 ''k'' l False no_auth = (Inr (Some org_credential), a)" for l
    by (simp add: resolveCredential_def cacheGet_def no_auth_def api_key_live accept_all_key)
  then obtain a where "resolveCredential accept_all 1 ''k'' (legacyResolve cloud_demo_env 1 demo_cloud) False no_auth = (Inr (Some org_credential), a)"
    by blast
  then show ?thesis by (auto simp: resolve_request_def assms cloud_demo_env_def demo_cloud_def)
qed

lemma ping_resolves: "\<exists>a. resolve_request cloud_demo_env 1 ping_request demo_cloud = (Inr (Some org_credential), demo_cloud\<lparr>cl_auth := a\<rparr>)"
  by (rule key_resolves) (simp add: getApiKey_def ping_request_def header_def or_else_def)

lemma ping_route:
  "su_world (snd (sup_fetch log_env info 1 [] (gated org_credential ping_request) empty_shard)) = [(''kr:org:default'', ping_frame)]"
proof -
  have p: "effectivePermissions org_credential = DEVELOPER_PROFILE" by (simp add: effectivePermissions_def org_credential_def)
  have perms: "request_perms (header (gated org_credential ping_request) ''x-eg-perms'') = DEVELOPER_PROFILE"
    by (simp add: gated_fields p perms_roundtrip profile_clean)
  have t: "header (gated org_credential ping_request) ''x-md-tenant'' = ''org''"
    using gated_fields(1)[of org_credential ping_request] by (simp add: tenant_of_def org_credential_def)
  have path: "rq_path (gated org_credential ping_request) = ''/ping''" "session_of (gated org_credential ping_request) = ''default''"
    by (simp_all add: gated_fields) (simp_all add: ping_request_def session_of_def query_def or_else_def)
  show ?thesis
    by (simp add: sup_fetch_def Let_def control_paths_def perms t path sup_route_def guarded_def requireTenant_def requirePerm_def
        DEVELOPER_PROFILE_def simple_frame_def frame_def facet_def loadKernel_def empty_shard_def log_env_def facetName_def ping_frame_def)
qed

lemma ping_entry: "cl_shards (snd (entry_fetch cloud_demo_env 1 [] ping_request demo_cloud)) \<noteq> cl_shards demo_cloud"
proof -
  obtain a where a: "resolve_request cloud_demo_env 1 ping_request demo_cloud = (Inr (Some org_credential), demo_cloud\<lparr>cl_auth := a\<rparr>)"
    using ping_resolves by blast
  let ?n = "shardFor (session_of ping_request) SHARD_COUNT"
  obtain r s' where f: "sup_fetch log_env (\<lambda>_. JNull) 1 [] (gated org_credential ping_request) empty_shard = (r, s')" by force
  have "su_world s' \<noteq> su_world empty_shard" using ping_route[of "\<lambda>_. JNull"] f by (simp add: empty_shard_def)
  then have "(\<lambda>_. empty_shard)(?n := s') \<noteq> (\<lambda>_. empty_shard)" by (metis fun_upd_same)
  moreover have "cl_shards (snd (entry_fetch cloud_demo_env 1 [] ping_request demo_cloud)) = (\<lambda>_. empty_shard)(?n := s')"
    using a f by (simp add: entry_fetch_def data_route_def call_shard_def gated_def[symmetric] cloud_demo_env_def demo_cloud_def)
      (simp add: ping_request_def getApiKey_def header_def or_else_def org_credential_def)
  ultimately show ?thesis by (simp add: demo_cloud_def)
qed

theorem client_reaches_own_sessions_only_witness:
  "\<exists>c. fst (resolve_request cloud_demo_env 1 ping_request demo_cloud) = Inr (Some c) \<and> cr_account c \<noteq> []"
  using client_reaches_own_sessions_only[OF surjective_pairing ping_entry] by (auto simp: ping_request_def Let_def)

theorem pass_through_is_inert_witness:
  "fst (entry_fetch cloud_demo_env 1 [] (ping_request\<lparr>rq_path := ''/health''\<rparr>) demo_cloud) = Inr (200, JNull)"
  using pass_through_is_inert[OF surjective_pairing, of "ping_request\<lparr>rq_path := ''/health''\<rparr>" cloud_demo_env 1 "[]" demo_cloud]
  by (simp add: cloud_demo_env_def)

definition mint_request :: request where
  "mint_request = \<lparr>rq_method = ''POST'', rq_path = ''/admin/keys'', rq_query = [(''tenantId'', ''acme'')],
     rq_headers = [(''x-admin-token'', ''adm'')], rq_body = None\<rparr>"

lemma mint_changes: "su_tenants (cl_shards (snd (entry_fetch cloud_demo_env 1 [] mint_request demo_cloud)) AUTH_SHARD)
    \<noteq> su_tenants (cl_shards demo_cloud AUTH_SHARD)"
proof -
  have tok: "admin_token_ok cloud_demo_env mint_request"
    by (simp add: admin_token_ok_def safeEqual_iff cloud_demo_env_def mint_request_def header_def or_else_def)
  show ?thesis using tok
    by (simp add: entry_fetch_def admin_keys_def mint_request_def admin_action_def query_def or_else_def call_shard_def
        internal_request_def sup_fetch_def control_paths_def control_route_def Let_def header_def cloud_demo_env_def log_env_def
        demo_cloud_def empty_shard_def mintKey_def)
qed

theorem key_table_needs_admin_witness: "admin_evidence cloud_demo_env 1 mint_request demo_cloud"
  using key_table_needs_admin[OF surjective_pairing mint_changes] by simp

end
