(* ===== verification/VfsWire.thy ===== *)
theory VfsWire
  imports Base64 FsKeys
begin

text \<open>
  What the file frames of the kernel (\<open>apps/kernel/src/lib.rs\<close>) share: its own base64 codec, on
  32-bit accumulators as the Rust source has it, and its path normaliser \<open>norm_fs_path_cwd\<close>.  The
  lemmas show that the codec is the inverse of the client's, in both directions, and that the
  normaliser computes the path \<open>resolve\<close> of \<open>engram-fs\<close> computes.
\<close>

unbundle bit_operations_syntax

section \<open>Base64 of the kernel\<close>

text \<open>The \<open>u32\<close> of three bytes, and its four six-bit indices.\<close>

definition b64_group :: "8 word \<Rightarrow> 8 word \<Rightarrow> 8 word \<Rightarrow> 32 word" where
  "b64_group b0 b1 b2 = push_bit 16 (ucast b0) OR push_bit 8 (ucast b1) OR ucast b2"

definition b64_sym :: "nat \<Rightarrow> 32 word \<Rightarrow> char" where
  "b64_sym k n = b64_alphabet ! unat (drop_bit k n AND 63)"

fun b64_encode :: "bytes \<Rightarrow> string" where
  "b64_encode (b0 # b1 # b2 # r) =
     (let n = b64_group b0 b1 b2
      in b64_sym 18 n # b64_sym 12 n # b64_sym 6 n # b64_sym 0 n # b64_encode r)"
| "b64_encode [b0, b1] =
     (let n = b64_group b0 b1 0 in [b64_sym 18 n, b64_sym 12 n, b64_sym 6 n, CHR ''=''])"
| "b64_encode [b0] =
     (let n = b64_group b0 0 0 in [b64_sym 18 n, b64_sym 12 n, CHR ''='', CHR ''=''])"
| "b64_encode [] = []"

text \<open>One symbol of the decoder.\<close>

definition b64_val :: "char \<Rightarrow> nat option" where
  "b64_val ch =
     (let c = of_char ch :: nat in
      if 65 \<le> c \<and> c \<le> 90 then Some (c - 65)
      else if 97 \<le> c \<and> c \<le> 122 then Some (c - 97 + 26)
      else if 48 \<le> c \<and> c \<le> 57 then Some (c - 48 + 52)
      else if c = 43 then Some 62
      else if c = 47 then Some 63
      else None)"

text \<open>The loop over the bytes of the text: \<open>acc\<close> and \<open>nbits\<close> as in the source, the output in
  order.\<close>

fun b64_decode_loop :: "32 word \<Rightarrow> nat \<Rightarrow> string \<Rightarrow> bytes option" where
  "b64_decode_loop acc nbits [] = Some []"
| "b64_decode_loop acc nbits (c # s) =
     (if c = CHR ''='' \<or> is_ascii_ws c then b64_decode_loop acc nbits s
      else (case b64_val c of
          None \<Rightarrow> None
        | Some v \<Rightarrow>
            (let acc = push_bit 6 acc OR word_of_nat v; nbits = nbits + 6 in
             if 8 \<le> nbits
             then map_option (\<lambda>r. ucast (drop_bit (nbits - 8) acc) # r) (b64_decode_loop acc (nbits - 8) s)
             else b64_decode_loop acc nbits s)))"

definition b64_decode :: "string \<Rightarrow> bytes option" where
  "b64_decode s = b64_decode_loop 0 0 s"

section \<open>The accumulator read as a number\<close>

lemma acc_step:
  assumes "v < 64"
  shows "push_bit 6 (word_of_nat n) OR word_of_nat v = (word_of_nat (n * 64 + v) :: 32 word)"
proof -
  have t: "take_bit 6 v = v" using assms by (simp add: take_bit_nat_eq_self)
  have "push_bit 6 n AND take_bit 6 v = 0" by (rule bit_eqI) (auto simp: bit_simps)
  then have "push_bit 6 n + v = push_bit 6 n OR v" by (simp only: t disjunctive_add_eq_or)
  then have "n * 64 + v = push_bit 6 n OR v" by (simp add: push_bit_eq_mult)
  then have "(word_of_nat (n * 64 + v) :: 32 word) = of_nat (push_bit 6 n OR v)" by (simp only:)
  also have "\<dots> = push_bit 6 (word_of_nat n) OR word_of_nat v" by (simp only: of_nat_or_eq of_nat_push_bit)
  finally show ?thesis by simp
qed

lemma out_byte:
  "k + 8 \<le> 32 \<Longrightarrow> ucast (drop_bit k (word_of_nat n :: 32 word)) = (word_of_nat (n div 2 ^ k) :: 8 word)"
  by (rule bit_word_eqI) (auto simp: bit_simps drop_bit_eq_div[symmetric])

lemma enc_index:
  assumes "k + 6 \<le> 32"
  shows "unat (drop_bit k (word_of_nat n :: 32 word) AND 63) = n div 2 ^ k mod 64"
proof -
  have m: "(63 :: 32 word) = mask 6" by (simp add: mask_eq_exp_minus_1)
  have "drop_bit k (word_of_nat n :: 32 word) AND mask 6 = word_of_nat (take_bit 6 (drop_bit k n))"
    using assms by (intro bit_word_eqI) (auto simp: bit_simps)
  moreover have "take_bit 6 (drop_bit k n) < 2 ^ LENGTH(32)"
    by (rule less_le_trans[OF take_bit_nat_less_exp]) simp
  ultimately show ?thesis unfolding m
    by (simp add: unsigned_of_nat take_bit_nat_eq_self) (simp add: take_bit_eq_mod drop_bit_eq_div)
qed

lemma group_num: "b64_group b0 b1 b2 = word_of_nat (unat b0 * 65536 + unat b1 * 256 + unat b2)"
proof -
  have lt: "unat b < 2 ^ 8" for b :: "8 word" using unsigned_less[of b] by simp
  have "push_bit 8 (unat b1) AND take_bit 8 (unat b2) = 0" by (rule bit_eqI) (auto simp: bit_simps)
  then have 1: "push_bit 8 (unat b1) OR unat b2 = unat b1 * 256 + unat b2"
    using lt[of b2] by (simp add: take_bit_nat_eq_self push_bit_eq_mult flip: disjunctive_add_eq_or)
  have "unat b1 * 256 + unat b2 < 2 ^ 16" using lt[of b1] lt[of b2] by simp
  then have "take_bit 16 (unat b1 * 256 + unat b2) = unat b1 * 256 + unat b2" by (simp add: take_bit_nat_eq_self)
  moreover have "push_bit 16 (unat b0) AND take_bit 16 (unat b1 * 256 + unat b2) = 0"
    by (rule bit_eqI) (auto simp: bit_simps)
  ultimately have "push_bit 16 (unat b0) AND (unat b1 * 256 + unat b2) = 0" by (simp only:)
  from disjunctive_add_eq_or[OF this, symmetric]
  have 2: "push_bit 16 (unat b0) OR (unat b1 * 256 + unat b2)
      = unat b0 * 65536 + (unat b1 * 256 + unat b2)"
    by (simp only: push_bit_eq_mult) simp
  have c: "ucast b = (of_nat (unat b) :: 32 word)" for b :: "8 word" by simp
  have "b64_group b0 b1 b2 = of_nat (push_bit 16 (unat b0) OR (push_bit 8 (unat b1) OR unat b2))"
    unfolding b64_group_def c by (simp only: of_nat_or_eq of_nat_push_bit or.assoc)
  then show ?thesis unfolding 1 2 by (simp add: add.assoc)
qed


lemma b64_sym_group:
  "k + 6 \<le> 32 \<Longrightarrow> b64_sym k (b64_group b0 b1 b2)
     = enc6 ((unat b0 * 65536 + unat b1 * 256 + unat b2) div 2 ^ k mod 64)"
  by (simp only: b64_sym_def group_num enc_index enc6_def)

lemma sixb:
  fixes a b c :: nat
  assumes "a < 256" "b < 256" "c < 256"
  shows "(a * 16 + b div 16) mod 64 = a mod 4 * 16 + b div 16"
   "(a * 1024 + b * 4 + c div 64) mod 64 = b mod 16 * 4 + c div 64"
proof -
  have "a * 16 + b div 16 = (a mod 4 * 16 + b div 16) + (a div 4) * 64" using div_mult_mod_eq[of a 4] by linarith
  moreover have "a mod 4 * 16 + b div 16 < 64" using assms(2) by (simp add: less_mult_imp_div_less)
  ultimately show "(a * 16 + b div 16) mod 64 = a mod 4 * 16 + b div 16" by (simp only: mod_mult_self1) simp
  have "a * 1024 + b * 4 + c div 64 = (b mod 16 * 4 + c div 64) + (a * 16 + b div 16) * 64" using div_mult_mod_eq[of b 16] by (simp only: distrib_right mult.assoc)
  moreover have "b mod 16 * 4 + c div 64 < 64" using assms(3) by (simp add: less_mult_imp_div_less)
  ultimately show "(a * 1024 + b * 4 + c div 64) mod 64 = b mod 16 * 4 + c div 64" by (simp only: mod_mult_self1) simp
qed
lemma six_bits:
  fixes a b c :: nat
  assumes "a < 256" "b < 256" "c < 256"
  shows "(a * 65536 + b * 256 + c) div 262144 mod 64 = a div 4"
    and "(a * 65536 + b * 256 + c) div 4096 mod 64 = a mod 4 * 16 + b div 16"
    and "(a * 65536 + b * 256 + c) div 64 mod 64 = b mod 16 * 4 + c div 64"
    and "(a * 65536 + b * 256 + c) mod 64 = c mod 64"
proof -
  let ?n = "a * 65536 + b * 256 + c"
  have "?n = (a * 256 + b) * 256 + c" by simp
  then have 1: "?n div 256 = a * 256 + b" using assms(3) by (simp only: div_mult_self3)
  have 2: "?n div 65536 = a"
    using assms div_mult2_eq[of ?n 256 256] by (simp add: 1)
  have "?n div 262144 = a div 4" using div_mult2_eq[of ?n 65536 4] by (simp add: 2)
  then show "?n div 262144 mod 64 = a div 4" using assms(1) by simp
  have "?n div 4096 = (a * 16 * 16 + b) div 16" using div_mult2_eq[of ?n 256 16] by (simp add: 1)
  also have "\<dots> = a * 16 + b div 16" by (simp only: div_mult_self3)
  finally show "?n div 4096 mod 64 = a mod 4 * 16 + b div 16" using sixb(1)[OF assms] by simp
  have "?n = (a * 1024 + b * 4) * 64 + c" by simp
  then have "?n div 64 = a * 1024 + b * 4 + c div 64" by (simp only: div_mult_self3)
  then show "?n div 64 mod 64 = b mod 16 * 4 + c div 64" using sixb(2)[OF assms] by simp
  have "?n = c + (a * 1024 + b * 4) * 64" by simp
  then show "?n mod 64 = c mod 64" by (metis mod_mult_self1)
qed

lemma unat_byte: "unat (b :: 8 word) < 256"
  using unsigned_less[of b] by simp

section \<open>The two codecs\<close>

lemma b64_encode_eq:
  "b64_encode bs = map enc6 (sextets (map unat bs)) @ b64_pad (length bs)"
proof (induction bs rule: b64_encode.induct)
  case (1 b0 b1 b2 r)
  have "b64_pad (length (b0 # b1 # b2 # r)) = b64_pad (length r)"
    unfolding b64_pad_def by (simp add: mod_Suc)
  then show ?case using 1 six_bits[OF unat_byte[of b0] unat_byte[of b1] unat_byte[of b2]]
    by (simp add: b64_sym_group Let_def)
next
  case (2 b0 b1)
  then show ?case using six_bits[OF unat_byte[of b0] unat_byte[of b1], of 0]
    by (simp add: b64_sym_group Let_def b64_pad_def)
next
  case (3 b0)
  then show ?case using six_bits[OF unat_byte[of b0], of 0 0]
    by (simp add: b64_sym_group Let_def b64_pad_def)
qed (simp add: b64_pad_def)

lemma b64_encode_is_bytesToB64: "b64_encode bs = bytesToB64 bs"
proof -
  have "of_char (byte_char b) = unat b" for b
    using unat_byte[of b] by (simp add: byte_char_def)
  then show ?thesis by (simp add: bytesToB64_def bin_string_map btoa_def b64_encode_eq comp_def)
qed


lemma vals: "map b64_val b64_alphabet = map Some [0..<64]"
  by (simp add: b64_val_def b64_alphabet_def upt_rec)

lemma b64_val_enc6: "v < 64 \<Longrightarrow> b64_val (enc6 v) = Some v"
proof -
  assume v: "v < 64"
  have "map b64_val b64_alphabet ! v = map Some [0..<64] ! v" by (simp only: vals)
  then show ?thesis using v alphabet by (simp add: enc6_def)
qed

lemma byte_num:
  "(m * 64 + u) div 16 = m * 4 + u div (16::nat)" 
  "(m * 64 + u) div 4 = m * 16 + u div (4::nat)" 
  "word_of_nat (m * 256 + u) = (word_of_nat u :: 8 word)"
proof -
  have "m * 64 + u = (m * 4) * 16 + u" "m * 64 + u = (m * 16) * 4 + u" by simp_all
  then show "(m * 64 + u) div 16 = m * 4 + u div (16::nat)" 
  "(m * 64 + u) div 4 = m * 16 + u div (4::nat)" by (simp_all only: div_mult_self3)
  have "(256 :: 8 word) = 0" by simp
  then show "word_of_nat (m * 256 + u) = (word_of_nat u :: 8 word)" by (simp only: of_nat_add of_nat_mult of_nat_numeral mult_zero_right add_0)
qed
lemma decode_sym:
  assumes "v < 64" "k < 8"
  shows "b64_decode_loop (word_of_nat n) k (enc6 v # s) =
    (if 2 \<le> k then map_option (\<lambda>r. word_of_nat ((n * 64 + v) div 2 ^ (k - 2)) # r)
                        (b64_decode_loop (word_of_nat (n * 64 + v)) (k - 2) s)
     else b64_decode_loop (word_of_nat (n * 64 + v)) (k + 6) s)"
  using assms enc6_plain[of v] by (simp add: b64_decode_loop.simps b64_val_enc6 acc_step out_byte Let_def del: of_nat_add of_nat_mult)

lemma decode_pad: "b64_decode_loop acc k (b64_pad n) = Some []"
  by (simp add: b64_pad_def)

lemma decode_bytes:
  "word_of_nat (((n * 64 + u) * 64 + v) div 16) = (word_of_nat (u * 4 + v div 16) :: 8 word)"
  "word_of_nat (((n * 64 + u) * 64 + v) div 4) = (word_of_nat (u * 16 + v div 4) :: 8 word)"
  "word_of_nat ((n * 64 + u) * 64 + v) = (word_of_nat (u * 64 + v) :: 8 word)"
proof -
  have "(n * 64 + u) * 4 + v div 16 = n * 256 + (u * 4 + v div 16)"
    "(n * 64 + u) * 16 + v div 4 = (n * 4) * 256 + (u * 16 + v div 4)"
    "(n * 64 + u) * 64 + v = (n * 16) * 256 + (u * 64 + v)" by simp_all
  note eq = this
  then show "word_of_nat ((n * 64 + u) * 64 + v) = (word_of_nat (u * 64 + v) :: 8 word)"
    by (simp only: byte_num(3))
  show "word_of_nat (((n * 64 + u) * 64 + v) div 16) = (word_of_nat (u * 4 + v div 16) :: 8 word)"
    unfolding byte_num(1,2) eq(1) by (rule byte_num(3))
  show "word_of_nat (((n * 64 + u) * 64 + v) div 4) = (word_of_nat (u * 16 + v div 4) :: 8 word)"
    unfolding byte_num(1,2) eq(2) by (rule byte_num(3))
qed

declare b64_decode_loop.simps(2) [simp del]

lemma decode_group:
  "v1 < 64 \<Longrightarrow> v2 < 64 \<Longrightarrow> v3 < 64 \<Longrightarrow> v4 < 64 \<Longrightarrow>
   b64_decode_loop (word_of_nat n) 0 (enc6 v1 # enc6 v2 # enc6 v3 # enc6 v4 # s) =
   map_option (\<lambda>r. word_of_nat (v1 * 4 + v2 div 16) # word_of_nat (v2 * 16 + v3 div 4) # word_of_nat (v3 * 64 + v4) # r)
     (b64_decode_loop (word_of_nat ((((n * 64 + v1) * 64 + v2) * 64 + v3) * 64 + v4)) 0 s)"
  by (simp add: decode_sym decode_bytes option.map_comp comp_def
           del: of_nat_add of_nat_mult distrib_right_numeral)

lemma decode_pair:
  "v1 < 64 \<Longrightarrow> v2 < 64 \<Longrightarrow> v3 < 64 \<Longrightarrow>
   b64_decode_loop (word_of_nat n) 0 (enc6 v1 # enc6 v2 # enc6 v3 # b64_pad k) =
   Some [word_of_nat (v1 * 4 + v2 div 16), word_of_nat (v2 * 16 + v3 div 4)]"
  by (simp add: decode_sym decode_bytes decode_pad del: of_nat_add of_nat_mult distrib_right_numeral)

lemma decode_single:
  "v1 < 64 \<Longrightarrow> v2 < 64 \<Longrightarrow>
   b64_decode_loop (word_of_nat n) 0 (enc6 v1 # enc6 v2 # b64_pad k) = Some [word_of_nat (v1 * 4 + v2 div 16)]"
  by (simp add: decode_sym decode_bytes decode_pad del: of_nat_add of_nat_mult distrib_right_numeral)

text \<open>The bytes a group of three gives, as the decoder reassembles them.\<close>

lemma regroup:
  fixes a b c :: nat
  assumes "b < 256" "c < 256"
  shows "word_of_nat (a div 4 * 4 + (a mod 4 * 16 + b div 16) div 16) = (word_of_nat a :: 8 word)"
    and "word_of_nat ((a mod 4 * 16 + b div 16) * 16 + (b mod 16 * 4 + c div 64) div 4) = (word_of_nat b :: 8 word)"
    and "word_of_nat ((b mod 16 * 4 + c div 64) * 64 + c mod 64) = (word_of_nat c :: 8 word)"
proof -
  have d: "b div 16 < 16" "c div 64 < 4" using assms by (simp_all add: less_mult_imp_div_less)
  have "(a mod 4 * 16 + b div 16) div 16 = a mod 4" using d(1) by simp
  then show "word_of_nat (a div 4 * 4 + (a mod 4 * 16 + b div 16) div 16) = (word_of_nat a :: 8 word)"
    by (simp only: div_mult_mod_eq)
  have "(b mod 16 * 4 + c div 64) div 4 = b mod 16" using d(2) by simp
  moreover have "(a mod 4 * 16 + b div 16) * 16 + b mod 16 = a mod 4 * 256 + b"
    using div_mult_mod_eq[of b 16] by (simp only: distrib_right mult.assoc)
  ultimately show "word_of_nat ((a mod 4 * 16 + b div 16) * 16 + (b mod 16 * 4 + c div 64) div 4) = (word_of_nat b :: 8 word)"
    by (simp only: byte_num(3))
  have "(b mod 16 * 4 + c div 64) * 64 + c mod 64 = b mod 16 * 256 + c"
    using div_mult_mod_eq[of c 64] by (simp only: distrib_right mult.assoc)
  then show "word_of_nat ((b mod 16 * 4 + c div 64) * 64 + c mod 64) = (word_of_nat c :: 8 word)"
    by (simp only: byte_num(3))
qed

lemma decode_sextets:
  "\<forall>x \<in> set xs. x < 256 \<Longrightarrow>
   b64_decode_loop (word_of_nat n) 0 (map enc6 (sextets xs) @ b64_pad (length xs)) = Some (map word_of_nat xs)"
proof (induction xs arbitrary: n rule: sextets.induct)
  case (1 a b c r)
  have p: "b64_pad (length (a # b # c # r)) = b64_pad (length r)"
    unfolding b64_pad_def by (simp add: mod_Suc)
  have lt: "a < 256" "b < 256" "c < 256" using 1(2) by auto
  then have d: "a div 4 < 64" "a mod 4 * 16 + b div 16 < 64" "b mod 16 * 4 + c div 64 < 64" "c mod 64 < 64"
    using mod_less_divisor[of 4 a] mod_less_divisor[of 16 b]
    by (auto simp: less_mult_imp_div_less)
  have ih: "b64_decode_loop (word_of_nat k) 0 (map enc6 (sextets r) @ b64_pad (length r)) = Some (map word_of_nat r)" for k
    using 1 by simp
  show ?case unfolding p
    by (simp only: sextets.simps list.map append_Cons decode_group[OF d] regroup[OF lt(2,3)] ih option.map)
next
  case (2 a b)
  then have lt: "b < 256" "(0 :: nat) < 256" "a div 4 < 64" "a mod 4 * 16 + b div 16 < 64" "b mod 16 * 4 < 64"
    using mod_less_divisor[of 4 a] mod_less_divisor[of 16 b] by (auto simp: less_mult_imp_div_less)
  show ?case
    using regroup(1,2)[OF lt(1,2), of a]
    by (simp only: sextets.simps list.map append_Cons append_Nil decode_pair[OF lt(3-5)] div_0 add_0_right)
next
  case (3 a)
  then have lt: "(0 :: nat) < 256" "a div 4 < 64" "a mod 4 * 16 < 64"
    using mod_less_divisor[of 4 a] by (auto simp: less_mult_imp_div_less)
  show ?case
    using regroup(1)[OF lt(1,1), of a]
    by (simp only: sextets.simps list.map append_Cons append_Nil decode_single[OF lt(2,3)] div_0 add_0_right)
qed (simp add: b64_pad_def)

text \<open>The kernel's decoder inverts both encoders, and the client's decoder the kernel's encoder.\<close>

lemma b64_decode_encode: "b64_decode (b64_encode bs) = Some bs"
  using decode_sextets[of "map unat bs" 0] unat_byte
  by (simp add: b64_decode_def b64_encode_eq comp_def)

lemma b64_decode_bytesToB64: "b64_decode (bytesToB64 bs) = Some bs"
  using b64_decode_encode b64_encode_is_bytesToB64 by simp

section \<open>The kernel's path normaliser\<close>

definition strip_ws :: "string \<Rightarrow> string" where
  "strip_ws s =
     (if s = WORKSPACE_ROOT then ''''
      else if prefix (WORKSPACE_ROOT @ ''/'') s
      then ''/'' @ drop (length (WORKSPACE_ROOT @ ''/'')) s
      else s)"

fun norm_fs_loop :: "string list \<Rightarrow> string list \<Rightarrow> (string, string list) result" where
  "norm_fs_loop [] out = Inr out"
| "norm_fs_loop (seg # chain) out =
     (if seg = '''' \<or> seg = ''.'' then norm_fs_loop chain out
      else if seg = ''..'' then
        (if length out \<le> 1 then Inl ''EACCES: path escapes /workspace''
         else norm_fs_loop chain (butlast out))
      else norm_fs_loop chain (out @ [seg]))"

definition norm_fs_path_cwd :: "string \<Rightarrow> string \<Rightarrow> (string, string) result" where
  "norm_fs_path_cwd p cwd =
     (if hasNul p then Inl ''EINVAL: path contains NUL byte''
      else if hasNul cwd then Inl ''EINVAL: cwd contains NUL byte''
      else
        rbind (norm_fs_loop
            (''workspace'' #
               (if prefix ''/'' p then js_split CHR ''/'' (strip_ws p)
                else js_split CHR ''/'' (strip_ws cwd) @ js_split CHR ''/'' p)) [])
          (\<lambda>out. Inr (''/'' @ js_join CHR ''/'' (drop 1 out))))"

lemma strip_ws_eq: "strip_ws s = stripWsPrefix s"
  by (auto simp: strip_ws_def stripWsPrefix_def prefix_def)

lemma norm_fs_loop_eq:
  "norm_fs_loop segs out = Inr r \<longleftrightarrow> normalizeSegments segs 1 orig out = Inr r"
  by (induction segs arbitrary: out) auto

lemma norm_fs_loop_fails:
  "norm_fs_loop segs out = Inl e \<Longrightarrow> e = ''EACCES: path escapes /workspace''"
  by (induction segs arbitrary: out) (auto split: if_splits)

lemma norm_fs_loop_start: "norm_fs_loop (''workspace'' # segs) [] = norm_fs_loop segs [''workspace'']"
  by simp

lemma norm_fs_path_resolve:
  "norm_fs_path_cwd p cwd = Inr (''/'' @ r) \<longleftrightarrow> resolve p cwd = Inr r"
proof (cases "hasNul p \<or> hasNul cwd")
  case True
  then show ?thesis using resolve_clean[of p cwd r] by (auto simp: norm_fs_path_cwd_def)
next
  case nul: False
  show ?thesis
  proof (cases "prefix ''/'' p")
    case True
    then show ?thesis using nul
      by (simp add: norm_fs_path_cwd_def norm_fs_loop_start strip_ws_eq resolve_abs rbind_Inr_iff
          norm_fs_loop_eq[where orig = p] del: norm_fs_loop.simps)
  next
    case False
    have split: "norm_fs_path_cwd p cwd = Inr (''/'' @ r) \<longleftrightarrow>
      (\<exists>out. normalizeSegments (js_split CHR ''/'' (stripWsPrefix cwd) @ js_split CHR ''/'' p) 1 p [''workspace''] = Inr out
             \<and> r = js_join CHR ''/'' (drop 1 out))"
      using nul False by (auto simp: norm_fs_path_cwd_def norm_fs_loop_start strip_ws_eq rbind_Inr_iff
          norm_fs_loop_eq[where orig = p] simp del: norm_fs_loop.simps)
    show ?thesis
    proof (cases "normalizeSegments (js_split CHR ''/'' (stripWsPrefix cwd)) 1 cwd [''workspace'']")
      case (Inl e)
      then have "\<not> (\<exists>x. normalizeSegments (js_split CHR ''/'' (stripWsPrefix cwd)) 1 p [''workspace''] = Inr x)"
        using norm_fs_loop_eq by (metis Inl_Inr_False)
      then show ?thesis using split resolve_cwd_fails[OF False _ _ Inl] nul
        by (auto simp: normalizeSegments_append rbind_Inr_iff)
    next
      case (Inr cs)
      obtain rest where rest: "cs = ''workspace'' # rest" "list_all seg_ok rest"
        using cwd_segments nul Inr by blast
      have "normalizeSegments (js_split CHR ''/'' (stripWsPrefix cwd)) 1 p [''workspace''] = Inr cs"
        using Inr norm_fs_loop_eq by metis
      then show ?thesis
        using split nul Inr rest by (auto simp: normalizeSegments_append resolve_relative[OF False] rbind_Inr_iff)
    qed
  qed
qed

lemma norm_fs_path_slash: "norm_fs_path_cwd p cwd = Inr q \<Longrightarrow> \<exists>r. q = ''/'' @ r"
  by (auto simp: norm_fs_path_cwd_def rbind_Inr_iff split: if_splits)

text \<open>Binary bodies cross the wire unchanged, whichever side encodes: the kernel's decoder inverts
  the client's encoder, the client's decoder the kernel's, and the two encoders agree.\<close>

theorem wire_b64_roundtrip:
  "b64_decode (bytesToB64 bs) = Some bs \<and> b64ToBytes (b64_encode bs) = Inr bs \<and>
   b64ToBytes (bytesToB64 bs) = Inr bs \<and> b64_encode bs = bytesToB64 bs"
  by (simp add: b64_decode_bytesToB64 b64_encode_is_bytesToB64 b64_roundtrip)

end
