(* ===== verification/VfsFrames.thy ===== *)
theory VfsFrames
  imports VfsWire FsFakes
begin

text \<open>
  The file frames the kernel services outside the VM: \<open>vfs_write\<close>, \<open>vfs_read\<close>, \<open>vfs_stat\<close> and
  \<open>vfs_ls\<close> of \<open>apps/kernel/src/lib.rs\<close>, the server side of the client's \<open>writeFile\<close>, \<open>readFile\<close>,
  \<open>stat\<close> and \<open>ls\<close>.  The state is the session's bucket and its \<open>fs_files\<close> table; the bucket is
  reached through the operations of \<open>R2Like\<close>.  Whether an upload or a listing got through, and the
  clock, come with each call in \<open>vfs_fate\<close>.  Frames and replies are JSON values.
\<close>

section \<open>State\<close>

record fs_row =
  row_key :: string
  row_size :: nat
  row_cell :: int
  row_created :: int
  row_origin :: string

record 'r kernel_fs =
  kf_doId :: string
  kf_bucket :: "'r option"
  kf_rows :: "(string, fs_row) omap"
  kf_version :: int

record vfs_fate =
  vt_body_up :: bool
  vt_manifest_up :: bool
  vt_list_up :: bool
  vt_now :: int

section \<open>Reading a frame\<close>

definition as_str :: "json option \<Rightarrow> string option" where
  "as_str v = (case v of Some (JStr s) \<Rightarrow> Some s | _ \<Rightarrow> None)"

definition as_bool :: "json option \<Rightarrow> bool option" where
  "as_bool v = (case v of Some (JBool b) \<Rightarrow> Some b | _ \<Rightarrow> None)"

text \<open>\<open>as_f64\<close> followed by the saturating conversion to an unsigned integer.\<close>

definition as_size :: "json option \<Rightarrow> nat option" where
  "as_size v = (case v of Some (JNum n) \<Rightarrow> Some (nat n) | _ \<Rightarrow> None)"

definition unwrap_or :: "'a \<Rightarrow> 'a option \<Rightarrow> 'a" where
  "unwrap_or d v = (case v of None \<Rightarrow> d | Some x \<Rightarrow> x)"

definition frame_id :: "json \<Rightarrow> string" where
  "frame_id msg = unwrap_or '''' (as_str (json_get ''id'' msg))"

definition frame_path :: "json \<Rightarrow> (string, string) result" where
  "frame_path msg =
     norm_fs_path_cwd (unwrap_or '''' (as_str (json_get ''path'' msg)))
       (unwrap_or WORKSPACE_ROOT (as_str (json_get ''cwd'' msg)))"

definition vfs_fail :: "string \<Rightarrow> json \<Rightarrow> (string \<times> json) list \<Rightarrow> string \<Rightarrow> json" where
  "vfs_fail t msg extra e =
     JObj ([(''t'', JStr t), (''id'', JStr (frame_id msg)), (''ok'', JBool False)] @ extra @ [(''error'', JStr e)])"

definition vfs_ok :: "string \<Rightarrow> json \<Rightarrow> (string \<times> json) list \<Rightarrow> json" where
  "vfs_ok t msg extra = JObj ([(''t'', JStr t), (''id'', JStr (frame_id msg)), (''ok'', JBool True)] @ extra)"

section \<open>Keys, rows and the exported manifest\<close>

definition vfs_key :: "'r kernel_fs \<Rightarrow> string \<Rightarrow> string" where
  "vfs_key st path = ''fs/'' @ kf_doId st @ ''/'' @ dropWhile (\<lambda>c. c = CHR ''/'') path"

definition vfs_meta :: "'r kernel_fs \<Rightarrow> string \<Rightarrow> fs_row option" where
  "vfs_meta st path = map_of (kf_rows st) path"

definition r2_put_resilient ::
  "'r r2_ops \<Rightarrow> 'r kernel_fs \<Rightarrow> bool \<Rightarrow> string \<Rightarrow> bytes \<Rightarrow> 'r kernel_fs option" where
  "r2_put_resilient R st up key body =
     (case kf_bucket st of
        Some b \<Rightarrow> if up then Some (st\<lparr>kf_bucket := Some (snd (r2_put R b key body))\<rparr>) else None
      | None \<Rightarrow> None)"

definition manifest_doc :: "'r kernel_fs \<Rightarrow> int \<Rightarrow> json" where
  "manifest_doc st now =
     JObj [(''doId'', JStr (kf_doId st)), (''exportedMs'', JNum now),
       (''files'', JArr (map (\<lambda>(p, r). JObj [(''etag'', JNull), (''origin'', JStr (row_origin r)),
           (''path'', JStr p), (''sha256'', JNull), (''size'', JNum (int (row_size r)))])
          (sort_key fst (kf_rows st)))),
       (''fsVersion'', JNum (kf_version st))]"

definition manifest_path :: string where
  "manifest_path = ''/.engram/manifest.json''"

definition export_manifest ::
  "'r r2_ops \<Rightarrow> codec \<Rightarrow> vfs_fate \<Rightarrow> 'r kernel_fs \<Rightarrow> 'r kernel_fs" where
  "export_manifest R C F st =
     (case r2_put_resilient R st (vt_manifest_up F) (''fs/'' @ kf_doId st @ ''/.engram/manifest.json'')
             (cd_encode C (json_stringify (manifest_doc st (vt_now F)))) of
        Some st' \<Rightarrow> st'
      | None \<Rightarrow> st)"

definition bump_fs_version :: "'r kernel_fs \<Rightarrow> 'r kernel_fs" where
  "bump_fs_version st = st\<lparr>kf_version := kf_version st + 1\<rparr>"

section \<open>Writing\<close>

text \<open>\<open>base[at..end].copy_from_slice\<close> after the two resizes.\<close>

definition splice_at :: "bytes \<Rightarrow> nat \<Rightarrow> bytes \<Rightarrow> bytes" where
  "splice_at base at new =
     (let b1 = base @ replicate (at - length base) 0;
          b2 = b1 @ replicate (at + length new - length b1) 0
      in take at b2 @ new @ drop (at + length new) b2)"

definition current_body :: "'r r2_ops \<Rightarrow> 'r kernel_fs \<Rightarrow> string \<Rightarrow> bytes" where
  "current_body R st key =
     (case kf_bucket st of
        Some b \<Rightarrow> (case r2_get R b key 0 None of Some o' \<Rightarrow> rb_bytes o' | None \<Rightarrow> [])
      | None \<Rightarrow> [])"

definition full_object :: "'r r2_ops \<Rightarrow> 'r kernel_fs \<Rightarrow> string \<Rightarrow> json \<Rightarrow> bytes \<Rightarrow> bytes \<times> int" where
  "full_object R st path msg new =
     (let truncate = unwrap_or False (as_bool (json_get ''truncate'' msg));
          offset = as_size (json_get ''offset'' msg);
          existing = vfs_meta st path
      in if truncate \<or> offset = None \<and> existing = None then (new, int (length new))
         else
           let base = (if existing \<noteq> None then current_body R st (vfs_key st path) else [])
           in (splice_at base (unwrap_or (length base) offset) new, int (length new)))"

definition vfs_write ::
  "'r r2_ops \<Rightarrow> codec \<Rightarrow> vfs_fate \<Rightarrow> 'r kernel_fs \<Rightarrow> json \<Rightarrow> json \<times> 'r kernel_fs" where
  "vfs_write R C F st msg =
     (case frame_path msg of
        Inl _ \<Rightarrow> (vfs_fail ''vfs-write-result'' msg [] ''EINVAL: bad path'', st)
      | Inr path \<Rightarrow>
        (case b64_decode (unwrap_or '''' (as_str (json_get ''dataB64'' msg))) of
           None \<Rightarrow> (vfs_fail ''vfs-write-result'' msg [] ''EINVAL: bad base64 dataB64'', st)
         | Some new \<Rightarrow>
           (let key = vfs_key st path; (full, written) = full_object R st path msg new in
            (case r2_put_resilient R st (vt_body_up F) key full of
               None \<Rightarrow> (vfs_fail ''vfs-write-result'' msg [] ''FsError: R2 put failed'', st)
             | Some st1 \<Rightarrow>
               let row = \<lparr>row_key = key, row_size = length full, row_cell = - 1, row_created = vt_now F,
                          row_origin = ''frame''\<rparr>;
                   st2 = bump_fs_version (st1\<lparr>kf_rows := AList.update path row (kf_rows st1)\<rparr>)
               in (vfs_ok ''vfs-write-result'' msg
                     [(''bytesWritten'', JNum written), (''fsVersion'', JNum (kf_version st2))],
                   export_manifest R C F st2)))))"

section \<open>Reading\<close>

text \<open>The row of the file, or the object a container wrote directly under the same key.\<close>

definition locate :: "'r r2_ops \<Rightarrow> 'r kernel_fs \<Rightarrow> string \<Rightarrow> (string \<times> nat) option" where
  "locate R st path =
     (case vfs_meta st path of
        Some r \<Rightarrow> Some (row_key r, row_size r)
      | None \<Rightarrow>
        (case kf_bucket st of
           Some b \<Rightarrow> map_option (\<lambda>(etag, sz). (vfs_key st path, sz)) (r2_head R b (vfs_key st path))
         | None \<Rightarrow> None))"

definition vfs_read :: "'r r2_ops \<Rightarrow> 'r kernel_fs \<Rightarrow> json \<Rightarrow> (string, json) result" where
  "vfs_read R st msg =
     (case frame_path msg of
        Inl _ \<Rightarrow> Inr (vfs_fail ''vfs-read-result'' msg [] ''EINVAL: bad path'')
      | Inr path \<Rightarrow>
        (case locate R st path of
           None \<Rightarrow> Inr (vfs_fail ''vfs-read-result'' msg [(''eof'', JBool True)] ''ENOENT: no such file'')
         | Some (key, sz) \<Rightarrow>
           (let offset = (case as_size (json_get ''offset'' msg) of Some f \<Rightarrow> min f sz | None \<Rightarrow> 0);
                len = as_size (json_get ''len'' msg) in
            (case kf_bucket st of
               None \<Rightarrow> Inl ''FsError: bucket''
             | Some b \<Rightarrow>
               (case (if 0 < offset \<or> len \<noteq> None
                      then r2_get R b key (int offset) (Some (int (unwrap_or (sz - offset) len)))
                      else r2_get R b key 0 None) of
                  None \<Rightarrow> Inr (vfs_fail ''vfs-read-result'' msg [(''eof'', JBool True), (''size'', JNum (int sz))]
                             ''ENOENT: torn file (committed meta, body absent)'')
                | Some obj \<Rightarrow>
                  Inr (vfs_ok ''vfs-read-result'' msg
                    [(''dataB64'', JStr (b64_encode (rb_bytes obj))),
                     (''eof'', JBool (sz \<le> offset + length (rb_bytes obj))),
                     (''size'', JNum (int sz))]))))))"

section \<open>Status and listing\<close>

definition dir_prefix :: "string \<Rightarrow> string" where
  "dir_prefix path = (if path = ''/'' then ''/'' else path @ ''/'')"

definition stat_json :: "nat \<Rightarrow> bool \<Rightarrow> int \<Rightarrow> json" where
  "stat_json sz file mtime =
     JObj [(''size'', JNum (int sz)), (''isFile'', JBool file), (''isDir'', JBool (\<not> file)), (''mtime'', JNum mtime)]"

definition vfs_stat :: "'r r2_ops \<Rightarrow> 'r kernel_fs \<Rightarrow> json \<Rightarrow> json" where
  "vfs_stat R st msg =
     (case frame_path msg of
        Inl _ \<Rightarrow> vfs_fail ''vfs-stat-result'' msg [] ''EINVAL: bad path''
      | Inr path \<Rightarrow>
        (case vfs_meta st path of
           Some r \<Rightarrow> vfs_ok ''vfs-stat-result'' msg [(''stat'', stat_json (row_size r) True (row_created r))]
         | None \<Rightarrow>
           if path = ''/'' \<or> list_ex (\<lambda>(k, _). prefix (dir_prefix path) k) (kf_rows st)
           then vfs_ok ''vfs-stat-result'' msg [(''stat'', stat_json 0 False 0)]
           else
             (case (case kf_bucket st of Some b \<Rightarrow> r2_head R b (vfs_key st path) | None \<Rightarrow> None) of
                Some (etag, sz) \<Rightarrow> vfs_ok ''vfs-stat-result'' msg [(''stat'', stat_json sz True 0)]
              | None \<Rightarrow> vfs_fail ''vfs-stat-result'' msg [] ''ENOENT: no such file'')))"

text \<open>One row of the listing: a file child is inserted, a deeper path leaves a directory entry unless
  the name is taken.\<close>

definition ls_step :: "string \<Rightarrow> string \<times> fs_row \<Rightarrow> (string, nat \<times> bool) omap \<Rightarrow> (string, nat \<times> bool) omap" where
  "ls_step pre row seen =
     (let (full, r) = row in
      if prefix pre full \<and> full \<noteq> pre then
        let rest = drop (length pre) full in
        if CHR ''/'' \<notin> set rest then AList.update rest (row_size r, False) seen
        else
          let name = before_first CHR ''/'' rest in
          (if map_of seen name = None then AList.update name (0, True) seen else seen)
      else seen)"

definition vfs_ls :: "'r kernel_fs \<Rightarrow> json \<Rightarrow> json" where
  "vfs_ls st msg =
     (case frame_path msg of
        Inl _ \<Rightarrow> vfs_fail ''vfs-ls-result'' msg [] ''EINVAL: bad path''
      | Inr path \<Rightarrow>
        vfs_ok ''vfs-ls-result'' msg
          [(''entries'', JArr (map (\<lambda>(name, sz, isDir).
               JObj [(''name'', JStr name), (''size'', JNum (int sz)), (''isDir'', JBool isDir)])
             (sort_key fst (fold (ls_step (dir_prefix path)) (sort_key fst (kf_rows st)) []))))])"

section \<open>Reconciliation and dispatch\<close>

text \<open>The objects below the session's prefix, by normalised path; of two keys with one path the later
  listed counts.\<close>

definition live_objects :: "'r r2_ops \<Rightarrow> 'r \<Rightarrow> string \<Rightarrow> (string, nat) omap" where
  "live_objects R b pre =
     fold (\<lambda>obj live.
         case norm_fs_path_cwd (drop (length pre) (rl_key obj)) WORKSPACE_ROOT of
           Inl _ \<Rightarrow> live
         | Inr path \<Rightarrow> AList.update path (rl_size obj) live)
       (filter (\<lambda>obj. prefix pre (rl_key obj)) (r2_list R b pre)) []"

definition reconcile_row :: "'r kernel_fs \<Rightarrow> int \<Rightarrow> string \<times> nat \<Rightarrow> (string, fs_row) omap \<Rightarrow> (string, fs_row) omap" where
  "reconcile_row st now entry rows =
     (let (path, sz) = entry; key = vfs_key st path in
      AList.update path
        (case map_of rows path of
           Some r \<Rightarrow> r\<lparr>row_key := key, row_size := sz, row_origin := ''reconcile''\<rparr>
         | None \<Rightarrow> \<lparr>row_key = key, row_size = sz, row_cell = - 1, row_created = now, row_origin = ''reconcile''\<rparr>)
        rows)"

definition reconcile_fs_files ::
  "'r r2_ops \<Rightarrow> codec \<Rightarrow> vfs_fate \<Rightarrow> 'r kernel_fs \<Rightarrow> 'r kernel_fs" where
  "reconcile_fs_files R C F st =
     (case kf_bucket st of
        None \<Rightarrow> st
      | Some b \<Rightarrow>
        if \<not> vt_list_up F then st
        else
          (let live = live_objects R b (''fs/'' @ kf_doId st @ ''/'');
               gone = filter (\<lambda>p. map_of live p = None) (map fst (kf_rows st));
               rows = fold (reconcile_row st (vt_now F)) (sort_key fst live) (kf_rows st);
               rows' = fold AList.delete gone rows
           in if live = [] \<and> gone = [] then st
              else export_manifest R C F (bump_fs_version (st\<lparr>kf_rows := rows'\<rparr>))))"

definition vfs_sync ::
  "'r r2_ops \<Rightarrow> codec \<Rightarrow> vfs_fate \<Rightarrow> 'r kernel_fs \<Rightarrow> json \<Rightarrow> json \<times> 'r kernel_fs" where
  "vfs_sync R C F st msg =
     (let st' = reconcile_fs_files R C F st in
      (vfs_ok ''vfs-sync-result'' msg
         [(''files'', JArr (map (\<lambda>(p, r). JObj [(''path'', JStr p), (''size'', JNum (int (row_size r)))])
             (sort_key fst (kf_rows st'))))], st'))"

text \<open>The file arms of \<open>handle_with_ws\<close>; every other frame goes to the rest of the kernel.  A handler's
  failure becomes the reply \<open>websocket_message\<close> sends.\<close>

definition vfs_dispatch ::
  "'r r2_ops \<Rightarrow> codec \<Rightarrow> ('r kernel_fs \<Rightarrow> json \<Rightarrow> (string, json) result \<times> 'r kernel_fs) \<Rightarrow> vfs_fate
   \<Rightarrow> 'r kernel_fs \<Rightarrow> json \<Rightarrow> (string, json) result \<times> 'r kernel_fs" where
  "vfs_dispatch R C other F st msg =
     (let t = unwrap_or '''' (as_str (json_get ''t'' msg)) in
      if t = ''vfs-write'' then apfst Inr (vfs_write R C F st msg)
      else if t = ''vfs-read'' then (vfs_read R st msg, st)
      else if t = ''vfs-ls'' then (Inr (vfs_ls st msg), st)
      else if t = ''vfs-stat'' then (Inr (vfs_stat R st msg), st)
      else if t = ''vfs-sync'' then apfst Inr (vfs_sync R C F st msg)
      else other st msg)"

definition kernel_reply ::
  "'r r2_ops \<Rightarrow> codec \<Rightarrow> ('r kernel_fs \<Rightarrow> json \<Rightarrow> (string, json) result \<times> 'r kernel_fs) \<Rightarrow> vfs_fate
   \<Rightarrow> 'r kernel_fs \<Rightarrow> json \<Rightarrow> json \<times> 'r kernel_fs" where
  "kernel_reply R C other F st msg =
     (case vfs_dispatch R C other F st msg of
        (Inr reply, st') \<Rightarrow> (reply, st')
      | (Inl e, st') \<Rightarrow> (JObj [(''ok'', JBool False), (''error'', JStr e)], st'))"

end
