(* ===== verification/SdkFiles.thy ===== *)
theory SdkFiles
  imports Base64 FsStore
begin

text \<open>
  The file transfer of the client library \<open>packages/sdk/src/index.ts\<close>: \<open>streamReadFile\<close>, \<open>readFile\<close>,
  \<open>writeFile\<close>, \<open>ls\<close>, \<open>stat\<close> and \<open>syncFs\<close> of \<open>EngramSession\<close>, over any transport.  A transport is a
  function from its state and a frame to a reply or an error and the new state; the time limit of a
  request belongs to the transport.  A generator is modelled by the list of chunks it yields.  A
  thrown \<open>EngramError\<close> is a name and a message.
\<close>

section \<open>Errors\<close>

record engram_error =
  ee_class :: string
  ee_name :: string
  ee_message :: string

type_synonym 's transport = "'s \<Rightarrow> json \<Rightarrow> (engram_error, json) result \<times> 's"

definition EngramError :: "string \<Rightarrow> engram_error" where
  "EngramError msg = \<lparr>ee_class = ''EngramError'', ee_name = ''EngramError'', ee_message = msg\<rparr>"

definition ERROR_CLASSES :: "string list" where
  "ERROR_CLASSES = [''TimeoutError'', ''MemoryLimitError'', ''FetchBlockedError'', ''SizeAdmissionError'',
                    ''SandboxDisabledError'', ''QueueFullError'']"

text \<open>\<open>a || b\<close> on members that may be undefined, as the text they become.\<close>

definition or_text :: "json option \<Rightarrow> string option \<Rightarrow> string option" where
  "or_text v d = (case v of Some x \<Rightarrow> if js_truthy x then Some (js_String x) else d | None \<Rightarrow> d)"

definition toTypedError :: "json \<Rightarrow> engram_error" where
  "toTypedError info =
     (let name = or_text (json_get ''name'' info) None;
          cls = (case name of Some n \<Rightarrow> if n \<in> set ERROR_CLASSES then n else ''EngramError'' | None \<Rightarrow> ''EngramError'');
          msg = (case or_text (json_get ''message'' info) name of Some m \<Rightarrow> m | None \<Rightarrow> ''eval failed'')
      in \<lparr>ee_class = cls,
          ee_name = (if cls = ''EngramError'' then (case name of Some n \<Rightarrow> n | None \<Rightarrow> ''EngramError'') else cls),
          ee_message = msg\<rparr>)"

text \<open>\<open>reply.error || {name, message}\<close>.\<close>

definition reply_error :: "json \<Rightarrow> string \<Rightarrow> string \<Rightarrow> json" where
  "reply_error reply name msg =
     (case js_field ''error'' (Some reply) of
        Some e \<Rightarrow> e
      | None \<Rightarrow> JObj [(''name'', JStr name), (''message'', JStr msg)])"

section \<open>One file frame\<close>

text \<open>The session's part of the state: its transport and the counter of frame identifiers.\<close>

record 's sdk_files =
  sf_tx :: 's
  sf_vfsId :: nat

definition nextVfsId :: "nat \<Rightarrow> nat" where
  "nextVfsId n = (n + 1) mod 2 ^ 31"

definition requireVfsTransport :: "bool \<Rightarrow> string \<Rightarrow> (engram_error, unit) result" where
  "requireVfsTransport supportsHostCalls op =
     (if supportsHostCalls then Inr ()
      else Inl (EngramError (op @ ''() requires the WebSocket kernel transport; it is not available over the HTTP (cloud) transport'')))"

definition vfs_request ::
  "'s transport \<Rightarrow> 's sdk_files \<Rightarrow> string \<Rightarrow> string \<Rightarrow> string \<Rightarrow> (string \<times> json) list
   \<Rightarrow> (engram_error, json) result \<times> 's sdk_files" where
  "vfs_request tx st t ename emsg body =
     (let n = nextVfsId (sf_vfsId st);
          (r, s') = tx (sf_tx st) (JObj ([(''t'', JStr t), (''id'', JNum (int n))] @ body));
          st' = st\<lparr>sf_tx := s', sf_vfsId := n\<rparr>
      in case r of
           Inl e \<Rightarrow> (Inl e, st')
         | Inr reply \<Rightarrow>
             if json_get ''ok'' reply = Some (JBool False)
             then (Inl (toTypedError (reply_error reply ename emsg)), st')
             else (Inr reply, st'))"

section \<open>Reading\<close>

definition chunk_size :: "int option \<Rightarrow> nat" where
  "chunk_size opt =
     nat (max 1 (min (case opt of Some c \<Rightarrow> if c = 0 then 262144 else c | None \<Rightarrow> 262144) 1048576))"

definition start_offset :: "int option \<Rightarrow> nat" where
  "start_offset opt = nat (max 0 (case opt of Some c \<Rightarrow> c | None \<Rightarrow> 0))"

definition read_frame :: "string \<Rightarrow> string \<Rightarrow> nat \<Rightarrow> nat \<Rightarrow> (string \<times> json) list" where
  "read_frame path cwd offset len =
     [(''path'', JStr path), (''cwd'', JStr cwd), (''offset'', JNum (int offset)), (''len'', JNum (int len))]"

definition reply_bytes :: "json \<Rightarrow> (engram_error, bytes) result" where
  "reply_bytes reply =
     (case json_get ''dataB64'' reply of
        Some (JStr b) \<Rightarrow>
          if b = '''' then Inr []
          else (case b64ToBytes b of Inl e \<Rightarrow> Inl \<lparr>ee_class = e, ee_name = e, ee_message = e\<rparr> | Inr x \<Rightarrow> Inr x)
      | _ \<Rightarrow> Inr [])"

definition reply_eof :: "json \<Rightarrow> bool" where
  "reply_eof reply = (js_field ''eof'' (Some reply) \<noteq> None)"

text \<open>The loop of \<open>streamReadFile\<close>; \<open>None\<close> when it does not return.\<close>

partial_function (option) read_loop ::
  "'s transport \<Rightarrow> string \<Rightarrow> string \<Rightarrow> nat \<Rightarrow> nat \<Rightarrow> 's sdk_files
   \<Rightarrow> ((engram_error, bytes list) result \<times> 's sdk_files) option" where
  "read_loop tx path cwd len offset st =
     (case vfs_request tx st ''vfs-read'' ''VfsError'' (''vfs read failed: '' @ path) (read_frame path cwd offset len) of
        (Inl e, st') \<Rightarrow> Some (Inl e, st')
      | (Inr reply, st') \<Rightarrow>
        (case reply_bytes reply of
           Inl e \<Rightarrow> Some (Inl e, st')
         | Inr b \<Rightarrow>
           (if reply_eof reply \<or> b = [] then Some (Inr (if b = [] then [] else [b]), st')
            else Option.bind (read_loop tx path cwd len (offset + length b) st') (\<lambda>(r, st'').
              Some (rbind r (\<lambda>cs. Inr (b # cs)), st'')))))"

definition streamReadFile ::
  "'s transport \<Rightarrow> bool \<Rightarrow> string \<Rightarrow> string option \<Rightarrow> int option \<Rightarrow> int option \<Rightarrow> 's sdk_files
   \<Rightarrow> ((engram_error, bytes list) result \<times> 's sdk_files) option" where
  "streamReadFile tx ws path cwd chunkBytes offset st =
     (case requireVfsTransport ws ''readFile'' of
        Inl e \<Rightarrow> Some (Inl e, st)
      | Inr _ \<Rightarrow>
        read_loop tx path (case cwd of Some c \<Rightarrow> c | None \<Rightarrow> ''/workspace'') (chunk_size chunkBytes)
          (start_offset offset) st)"

definition sdk_readFile ::
  "'s transport \<Rightarrow> bool \<Rightarrow> string \<Rightarrow> string option \<Rightarrow> int option \<Rightarrow> 's sdk_files
   \<Rightarrow> ((engram_error, bytes) result \<times> 's sdk_files) option" where
  "sdk_readFile tx ws path cwd chunkBytes st =
     map_option (\<lambda>(r, st'). (rbind r (\<lambda>parts. Inr (concat parts)), st'))
       (streamReadFile tx ws path cwd chunkBytes None st)"

section \<open>Writing\<close>

datatype sdk_data = SdkStr string | SdkBytes bytes

datatype upload = Whole sdk_data | Parts "sdk_data list"

definition sdk_toBytes :: "codec \<Rightarrow> sdk_data \<Rightarrow> bytes" where
  "sdk_toBytes C d = (case d of SdkStr s \<Rightarrow> cd_encode C s | SdkBytes b \<Rightarrow> b)"

record write_opts =
  wo_chunkBytes :: "int option"
  wo_offset :: "int option"
  wo_truncate :: "bool option"
  wo_cwd :: "string option"

record progress =
  wp_offset :: nat
  wp_written :: nat
  wp_first :: bool

definition write_frame :: "write_opts \<Rightarrow> string \<Rightarrow> progress \<Rightarrow> bytes \<Rightarrow> (string \<times> json) list" where
  "write_frame Q path w part =
     [(''path'', JStr path),
      (''cwd'', JStr (case wo_cwd Q of Some c \<Rightarrow> c | None \<Rightarrow> ''/workspace'')),
      (''dataB64'', JStr (bytesToB64 part)),
      (''offset'', JNum (int (wp_offset w))),
      (''truncate'', JBool (if wp_first w then wo_truncate Q \<noteq> Some False else False))]"

definition send_slice ::
  "'s transport \<Rightarrow> write_opts \<Rightarrow> string \<Rightarrow> bytes \<Rightarrow> 's sdk_files \<times> progress
   \<Rightarrow> (engram_error, unit) result \<times> 's sdk_files \<times> progress" where
  "send_slice tx Q path part = (\<lambda>(st, w).
     (case vfs_request tx st ''vfs-write'' ''VfsError'' (''vfs write failed: '' @ path) (write_frame Q path w part) of
        (Inl e, st') \<Rightarrow> (Inl e, st', w)
      | (Inr _, st') \<Rightarrow>
          (Inr (), st', \<lparr>wp_offset = wp_offset w + length part, wp_written = wp_written w + length part,
                         wp_first = False\<rparr>)))"

lemma chunk_size_pos: "0 < chunk_size c"
  by (simp add: chunk_size_def)

function send_slices ::
  "'s transport \<Rightarrow> write_opts \<Rightarrow> string \<Rightarrow> bytes \<Rightarrow> 's sdk_files \<times> progress
   \<Rightarrow> (engram_error, unit) result \<times> 's sdk_files \<times> progress" where
  "send_slices tx Q path rest sw =
     (if rest = [] then (Inr (), sw)
      else
        (case send_slice tx Q path (take (chunk_size (wo_chunkBytes Q)) rest) sw of
           (Inl e, sw') \<Rightarrow> (Inl e, sw')
         | (Inr _, sw') \<Rightarrow> send_slices tx Q path (drop (chunk_size (wo_chunkBytes Q)) rest) sw'))"
  by pat_completeness auto
termination send_slices
  by (relation "measure (\<lambda>(tx, Q, path, rest, sw). length rest)") (auto simp: chunk_size_pos)

declare send_slices.simps [simp del]

definition sendChunk ::
  "'s transport \<Rightarrow> write_opts \<Rightarrow> string \<Rightarrow> bytes \<Rightarrow> 's sdk_files \<times> progress
   \<Rightarrow> (engram_error, unit) result \<times> 's sdk_files \<times> progress" where
  "sendChunk tx Q path bs sw =
     (if bs = [] then (if wp_first (snd sw) then send_slice tx Q path [] sw else (Inr (), sw))
      else send_slices tx Q path bs sw)"

fun send_parts ::
  "'s transport \<Rightarrow> codec \<Rightarrow> write_opts \<Rightarrow> string \<Rightarrow> sdk_data list \<Rightarrow> 's sdk_files \<times> progress
   \<Rightarrow> (engram_error, unit) result \<times> 's sdk_files \<times> progress" where
  "send_parts tx C Q path [] sw = (Inr (), sw)"
| "send_parts tx C Q path (d # ds) sw =
     (case sendChunk tx Q path (sdk_toBytes C d) sw of
        (Inl e, sw') \<Rightarrow> (Inl e, sw')
      | (Inr _, sw') \<Rightarrow> send_parts tx C Q path ds sw')"

definition sdk_writeFile ::
  "'s transport \<Rightarrow> codec \<Rightarrow> bool \<Rightarrow> write_opts \<Rightarrow> string \<Rightarrow> upload \<Rightarrow> 's sdk_files
   \<Rightarrow> (engram_error, nat) result \<times> 's sdk_files" where
  "sdk_writeFile tx C ws Q path data st =
     (case requireVfsTransport ws ''writeFile'' of
        Inl e \<Rightarrow> (Inl e, st)
      | Inr _ \<Rightarrow>
        (let start = (st, \<lparr>wp_offset = start_offset (wo_offset Q), wp_written = 0, wp_first = True\<rparr>);
             (r, st', w) =
               (case data of
                  Whole d \<Rightarrow> sendChunk tx Q path (sdk_toBytes C d) start
                | Parts ds \<Rightarrow>
                  (case send_parts tx C Q path ds start of
                     (Inl e, sw) \<Rightarrow> (Inl e, sw)
                   | (Inr _, sw) \<Rightarrow> if wp_first (snd sw) then sendChunk tx Q path [] sw else (Inr (), sw)))
         in (rbind r (\<lambda>_. Inr (wp_written w)), st')))"

section \<open>Listing, status and reconciliation\<close>

definition path_frame :: "string \<Rightarrow> string option \<Rightarrow> (string \<times> json) list" where
  "path_frame path cwd =
     [(''path'', JStr path), (''cwd'', JStr (case cwd of Some c \<Rightarrow> c | None \<Rightarrow> ''/workspace''))]"

definition guarded_request ::
  "'s transport \<Rightarrow> bool \<Rightarrow> string \<Rightarrow> string \<Rightarrow> string \<Rightarrow> string \<Rightarrow> (string \<times> json) list \<Rightarrow> 's sdk_files
   \<Rightarrow> (engram_error, json) result \<times> 's sdk_files" where
  "guarded_request tx ws op t ename emsg body st =
     (case requireVfsTransport ws op of
        Inl e \<Rightarrow> (Inl e, st)
      | Inr _ \<Rightarrow> vfs_request tx st t ename emsg body)"

definition reply_array :: "string \<Rightarrow> json \<Rightarrow> json list" where
  "reply_array k reply = (case json_get k reply of Some (JArr xs) \<Rightarrow> xs | _ \<Rightarrow> [])"

definition sdk_ls ::
  "'s transport \<Rightarrow> bool \<Rightarrow> string \<Rightarrow> string option \<Rightarrow> 's sdk_files \<Rightarrow> (engram_error, json list) result \<times> 's sdk_files" where
  "sdk_ls tx ws path cwd st =
     apfst (\<lambda>r. rbind r (\<lambda>reply. Inr (reply_array ''entries'' reply)))
       (guarded_request tx ws ''ls'' ''vfs-ls'' ''VfsError'' (''vfs ls failed: '' @ path) (path_frame path cwd) st)"

definition sdk_stat ::
  "'s transport \<Rightarrow> bool \<Rightarrow> string \<Rightarrow> string option \<Rightarrow> 's sdk_files \<Rightarrow> (engram_error, json option) result \<times> 's sdk_files" where
  "sdk_stat tx ws path cwd st =
     apfst (\<lambda>r. rbind r (\<lambda>reply. Inr (json_get ''stat'' reply)))
       (guarded_request tx ws ''stat'' ''vfs-stat'' ''VfsError'' (''vfs stat failed: '' @ path) (path_frame path cwd) st)"

definition syncFs ::
  "'s transport \<Rightarrow> bool \<Rightarrow> 's sdk_files \<Rightarrow> (engram_error, json list) result \<times> 's sdk_files" where
  "syncFs tx ws st =
     apfst (\<lambda>r. rbind r (\<lambda>reply. Inr (reply_array ''files'' reply)))
       (guarded_request tx ws ''syncFs'' ''vfs-sync'' ''VfsError'' ''vfs sync failed'' [] st)"

end
