(* ===== verification/SdkFilesProps.thy ===== *)
theory SdkFilesProps
  imports VfsFrames SdkFiles FsCoherence
begin

text \<open>
  The client's file transfer over the kernel's file frames.  \<open>vfs_service\<close> states what
  \<open>writeFile\<close> and \<open>readFile\<close> ask of a file service, the client's lemmas are proved in it, and the
  kernel's handlers are shown to provide it over any object store.  The properties compose the two
  sides: what is uploaded is what is downloaded, whatever the chunk sizes on either side.
\<close>

section \<open>What the client asks of a file service\<close>

locale vfs_service =
  fixes tx :: "'s transport"
    and content :: "'s \<Rightarrow> bytes option"
    and owned :: "'s \<Rightarrow> bool"
    and svc_ok :: "'s \<Rightarrow> bool"
    and path :: string
    and cwd :: string
  assumes write_law: "svc_ok s \<Longrightarrow> trunc \<or> owned s \<Longrightarrow>
      \<exists>reply s'. tx s (JObj ([(''t'', JStr ''vfs-write''), (''id'', JNum n)] @
          [(''path'', JStr path), (''cwd'', JStr cwd), (''dataB64'', JStr (bytesToB64 b)),
           (''offset'', JNum (int off)), (''truncate'', JBool trunc)])) = (Inr reply, s') \<and>
        json_get ''ok'' reply \<noteq> Some (JBool False) \<and> svc_ok s' \<and> owned s' \<and>
        content s' = Some (if trunc then b else splice_at (case content s of None \<Rightarrow> [] | Some c \<Rightarrow> c) off b)"
    and read_law: "svc_ok s \<Longrightarrow> content s = Some c \<Longrightarrow> off \<le> length c \<Longrightarrow> 0 < len \<Longrightarrow>
      \<exists>reply. tx s (JObj ([(''t'', JStr ''vfs-read''), (''id'', JNum n)] @ read_frame path cwd off len)) = (Inr reply, s) \<and>
        json_get ''ok'' reply \<noteq> Some (JBool False) \<and>
        json_get ''dataB64'' reply = Some (JStr (bytesToB64 (take len (drop off c)))) \<and>
        json_get ''eof'' reply = Some (JBool (length c \<le> off + length (take len (drop off c))))"

lemma splice_at_append: "splice_at base (length base) new = base @ new"
  by (simp add: splice_at_def)

lemma bytesToB64_empty: "bytesToB64 b = '''' \<longleftrightarrow> b = []"
proof
  assume "bytesToB64 b = ''''"
  then have "Inr b = b64ToBytes ''''" using b64_roundtrip[of b] by simp
  moreover have "b64ToBytes '''' = Inr []" by code_simp
  ultimately show "b = []" by simp
qed (simp add: bytesToB64_def btoa_def b64_pad_def)

lemma reply_bytes_b64: "json_get ''dataB64'' reply = Some (JStr (bytesToB64 b)) \<Longrightarrow> reply_bytes reply = Inr b"
  by (simp add: reply_bytes_def bytesToB64_empty b64_roundtrip)

definition upload_bytes :: "codec \<Rightarrow> upload \<Rightarrow> bytes" where
  "upload_bytes C up = (case up of Whole d \<Rightarrow> sdk_toBytes C d | Parts ds \<Rightarrow> concat (map (sdk_toBytes C) ds))"

context vfs_service
begin

lemma send_one:
  assumes "svc_ok (sf_tx st)" "(case wo_cwd Q of Some c \<Rightarrow> c | None \<Rightarrow> ''/workspace'') = cwd"
    and "trunc = (wp_first w \<and> wo_truncate Q \<noteq> Some False)" "trunc \<or> owned (sf_tx st)"
  obtains st' where
    "send_slice tx Q path b (st, w) = (Inr (), st', \<lparr>wp_offset = wp_offset w + length b,
       wp_written = wp_written w + length b, wp_first = False\<rparr>)"
    "svc_ok (sf_tx st')" "owned (sf_tx st')"
    "content (sf_tx st') = Some (if trunc then b
       else splice_at (case content (sf_tx st) of None \<Rightarrow> [] | Some c \<Rightarrow> c) (wp_offset w) b)"
proof -
  have "write_frame Q path w b = [(''path'', JStr path), (''cwd'', JStr cwd), (''dataB64'', JStr (bytesToB64 b)),
      (''offset'', JNum (int (wp_offset w))), (''truncate'', JBool trunc)]"
    using assms(2,3) by (simp add: write_frame_def)
  with write_law[OF assms(1,4), of "int (nextVfsId (sf_vfsId st))" b "wp_offset w"]
  obtain reply s' where r: "tx (sf_tx st) (JObj ([(''t'', JStr ''vfs-write''), (''id'', JNum (int (nextVfsId (sf_vfsId st))))] @
          write_frame Q path w b)) = (Inr reply, s')"
    "json_get ''ok'' reply \<noteq> Some (JBool False)" "svc_ok s'" "owned s'"
    "content s' = Some (if trunc then b
       else splice_at (case content (sf_tx st) of None \<Rightarrow> [] | Some c \<Rightarrow> c) (wp_offset w) b)"
    by auto
  show thesis
    by (rule that[of "st\<lparr>sf_tx := s', sf_vfsId := nextVfsId (sf_vfsId st)\<rparr>"])
      (use r in \<open>auto simp: send_slice_def vfs_request_def Let_def split: sum.splits prod.splits\<close>)
qed

text \<open>Once the file is the service's own and the offset is its length, slices append.\<close>

lemma send_slices_append:
  assumes "svc_ok (sf_tx st)" "owned (sf_tx st)" "content (sf_tx st) = Some c"
    and "wp_offset w = length c" "\<not> wp_first w"
    and "(case wo_cwd Q of Some c \<Rightarrow> c | None \<Rightarrow> ''/workspace'') = cwd"
  shows "\<exists>st' w'. send_slices tx Q path bs (st, w) = (Inr (), st', w') \<and> svc_ok (sf_tx st') \<and>
     owned (sf_tx st') \<and> content (sf_tx st') = Some (c @ bs) \<and> wp_offset w' = length (c @ bs) \<and>
     wp_written w' = wp_written w + length bs \<and> \<not> wp_first w'"
  using assms
proof (induction bs arbitrary: st w c rule: length_induct)
  case (1 bs)
  show ?case
  proof (cases "bs = []")
    case True
    then show ?thesis using 1 by (auto simp: send_slices.simps[of _ _ _ "[]"])
  next
    case False
    let ?k = "chunk_size (wo_chunkBytes Q)"
    obtain st' where s: "send_slice tx Q path (take ?k bs) (st, w) = (Inr (), st',
        \<lparr>wp_offset = wp_offset w + length (take ?k bs), wp_written = wp_written w + length (take ?k bs), wp_first = False\<rparr>)"
      and ok: "svc_ok (sf_tx st')" "owned (sf_tx st')" "content (sf_tx st') = Some (c @ take ?k bs)"
      using send_one[OF 1(2) 1(7), of False w "take ?k bs"] 1(3-6) by (auto simp: splice_at_append)
    have len: "length (drop ?k bs) < length bs" using False chunk_size_pos[of "wo_chunkBytes Q"] by simp
    have "\<exists>st'' w'. send_slices tx Q path (drop ?k bs) (st', \<lparr>wp_offset = wp_offset w + length (take ?k bs),
        wp_written = wp_written w + length (take ?k bs), wp_first = False\<rparr>) = (Inr (), st'', w') \<and> svc_ok (sf_tx st'') \<and>
      owned (sf_tx st'') \<and> content (sf_tx st'') = Some ((c @ take ?k bs) @ drop ?k bs) \<and>
      wp_offset w' = length ((c @ take ?k bs) @ drop ?k bs) \<and>
      wp_written w' = wp_written w + length (take ?k bs) + length (drop ?k bs) \<and> \<not> wp_first w'"
      using 1(1)[rule_format, OF len ok _ _ 1(7), of "\<lparr>wp_offset = wp_offset w + length (take ?k bs),
        wp_written = wp_written w + length (take ?k bs), wp_first = False\<rparr>"] 1(5) by simp
    then show ?thesis using False s
      by (subst send_slices.simps) (auto simp flip: append.assoc)
  qed
qed

definition appended :: "'s sdk_files \<Rightarrow> progress \<Rightarrow> bytes \<Rightarrow> bool" where
  "appended st w c \<longleftrightarrow> svc_ok (sf_tx st) \<and> owned (sf_tx st) \<and> content (sf_tx st) = Some c \<and>
     wp_offset w = length c \<and> \<not> wp_first w"

lemma sendChunk_append:
  assumes "appended st w c" "(case wo_cwd Q of Some c \<Rightarrow> c | None \<Rightarrow> ''/workspace'') = cwd"
  shows "\<exists>st' w'. sendChunk tx Q path bs (st, w) = (Inr (), st', w') \<and> appended st' w' (c @ bs) \<and>
           wp_written w' = wp_written w + length bs"
  using send_slices_append[of st c w Q bs] assms by (fastforce simp: sendChunk_def appended_def)

lemma sendChunk_first:
  assumes "svc_ok (sf_tx st)" "(case wo_cwd Q of Some c \<Rightarrow> c | None \<Rightarrow> ''/workspace'') = cwd"
    and "wo_truncate Q \<noteq> Some False" "wp_first w" "wp_offset w = 0"
  shows "\<exists>st' w'. sendChunk tx Q path bs (st, w) = (Inr (), st', w') \<and> appended st' w' bs \<and>
           wp_written w' = wp_written w + length bs"
proof -
  have one: "\<exists>st'. send_slice tx Q path b (st, w) = (Inr (), st', \<lparr>wp_offset = length b,
       wp_written = wp_written w + length b, wp_first = False\<rparr>) \<and>
      appended st' \<lparr>wp_offset = length b, wp_written = wp_written w + length b, wp_first = False\<rparr> b" for b
    using send_one[OF assms(1,2), of True w b] assms(3-5) by (fastforce simp: appended_def)
  show ?thesis
  proof (cases "bs = []")
    case True
    then show ?thesis using one[of "[]"] assms(4) by (auto simp: sendChunk_def)
  next
    case False
    let ?k = "chunk_size (wo_chunkBytes Q)"
    let ?w = "\<lparr>wp_offset = length (take ?k bs), wp_written = wp_written w + length (take ?k bs), wp_first = False\<rparr>"
    obtain st' where s: "send_slice tx Q path (take ?k bs) (st, w) = (Inr (), st', ?w)"
      and a: "appended st' ?w (take ?k bs)" using one by blast
    obtain st'' w'' where n: "send_slices tx Q path (drop ?k bs) (st', ?w) = (Inr (), st'', w'')"
      "appended st'' w'' (take ?k bs @ drop ?k bs)" "wp_written w'' = wp_written ?w + length (drop ?k bs)"
      using send_slices_append[of st' "take ?k bs" ?w Q "drop ?k bs"] a assms(2) by (auto simp: appended_def)
    have "send_slices tx Q path bs (st, w) = (Inr (), st'', w'')"
      using False s n(1) by (subst send_slices.simps) simp
    then show ?thesis using n(2,3) False by (auto simp: sendChunk_def)
  qed
qed

lemma send_parts_append:
  assumes "appended st w c" "(case wo_cwd Q of Some c \<Rightarrow> c | None \<Rightarrow> ''/workspace'') = cwd"
  shows "\<exists>st' w'. send_parts tx C Q path ds (st, w) = (Inr (), st', w') \<and>
           appended st' w' (c @ concat (map (sdk_toBytes C) ds)) \<and>
           wp_written w' = wp_written w + length (concat (map (sdk_toBytes C) ds))"
  using assms(1)
proof (induction ds arbitrary: st w c)
  case (Cons d ds)
  obtain st' w' where 1: "sendChunk tx Q path (sdk_toBytes C d) (st, w) = (Inr (), st', w')"
    "appended st' w' (c @ sdk_toBytes C d)" "wp_written w' = wp_written w + length (sdk_toBytes C d)"
    using sendChunk_append[OF Cons.prems assms(2)] by blast
  from Cons.IH[OF 1(2)] 1 show ?case by auto
qed simp

lemma writeFile_stores:
  assumes "svc_ok (sf_tx st)" "(case wo_cwd Q of Some c \<Rightarrow> c | None \<Rightarrow> ''/workspace'') = cwd"
    and "wo_truncate Q \<noteq> Some False" "start_offset (wo_offset Q) = 0"
  shows "\<exists>st'. sdk_writeFile tx C True Q path data st = (Inr (length (upload_bytes C data)), st') \<and>
           svc_ok (sf_tx st') \<and> content (sf_tx st') = Some (upload_bytes C data)"
proof -
  let ?w = "\<lparr>wp_offset = 0, wp_written = 0, wp_first = True\<rparr>"
  note first = sendChunk_first[OF assms(1-3), of ?w, simplified]
  show ?thesis
  proof (cases data)
    case (Whole d)
    then show ?thesis using first[of "sdk_toBytes C d"] assms(4)
      by (auto simp: sdk_writeFile_def requireVfsTransport_def upload_bytes_def appended_def Let_def)
  next
    case (Parts ds)
    show ?thesis
    proof (cases ds)
      case Nil
      then show ?thesis using Parts first[of "[]"] assms(4)
        by (auto simp: sdk_writeFile_def requireVfsTransport_def upload_bytes_def appended_def Let_def)
    next
      case (Cons d ds')
      obtain st' w' where 1: "sendChunk tx Q path (sdk_toBytes C d) (st, ?w) = (Inr (), st', w')"
        "appended st' w' (sdk_toBytes C d)" "wp_written w' = length (sdk_toBytes C d)"
        using first[of "sdk_toBytes C d"] by auto
      with send_parts_append[OF 1(2) assms(2), of C ds'] show ?thesis using Parts Cons assms(4)
        by (auto simp: sdk_writeFile_def requireVfsTransport_def upload_bytes_def appended_def Let_def)
    qed
  qed
qed

text \<open>The reading loop returns what lies past its offset.\<close>

lemma read_loop_returns:
  assumes "svc_ok (sf_tx st)" "content (sf_tx st) = Some c" "off \<le> length c" "0 < len"
  shows "\<exists>cs st'. read_loop tx path cwd len off st = Some (Inr cs, st') \<and> concat cs = drop off c \<and>
           sf_tx st' = sf_tx st"
  using assms
proof (induction "length c - off" arbitrary: off st rule: less_induct)
  case less
  let ?b = "take len (drop off c)"
  let ?st = "st\<lparr>sf_tx := sf_tx st, sf_vfsId := nextVfsId (sf_vfsId st)\<rparr>"
  obtain reply where r: "tx (sf_tx st) (JObj ([(''t'', JStr ''vfs-read''),
        (''id'', JNum (int (nextVfsId (sf_vfsId st))))] @ read_frame path cwd off len)) = (Inr reply, sf_tx st)"
    "json_get ''ok'' reply \<noteq> Some (JBool False)"
    "json_get ''dataB64'' reply = Some (JStr (bytesToB64 ?b))"
    "json_get ''eof'' reply = Some (JBool (length c \<le> off + length ?b))"
    using read_law[OF less.prems] by blast
  have req: "vfs_request tx st ''vfs-read'' ''VfsError'' (''vfs read failed: '' @ path) (read_frame path cwd off len)
      = (Inr reply, ?st)"
    using r(1,2) by (simp add: vfs_request_def Let_def)
  have eof: "reply_eof reply \<longleftrightarrow> length c \<le> off + length ?b"
    using r(4) by (auto simp: reply_eof_def js_field_def)
  note bytes = reply_bytes_b64[OF r(3)]
  show ?case
  proof (cases "length c \<le> off + length ?b")
    case True
    then have "?b = drop off c" by (metis add.commute append_take_drop_id le_diff_conv length_drop take_all_iff length_take min.bounded_iff)
    then show ?thesis using True eof bytes req by (subst read_loop.simps) auto
  next
    case False
    then have pos: "0 < length ?b" "off + length ?b \<le> length c" "length ?b = len" using less.prems(4) by auto
    then have b0: "?b \<noteq> []" by auto
    have "length c - (off + length ?b) < length c - off" using pos False less.prems(4) by linarith
    then have "\<exists>cs st'. read_loop tx path cwd len (off + length ?b) ?st = Some (Inr cs, st') \<and>
        concat cs = drop (off + length ?b) c \<and> sf_tx st' = sf_tx ?st"
      by (rule less.hyps) (use less.prems pos in simp_all)
    then obtain cs st' where ih: "read_loop tx path cwd len (off + length ?b) ?st = Some (Inr cs, st')"
      "concat cs = drop (off + length ?b) c" "sf_tx st' = sf_tx st"
      by auto
    have "?b @ drop (off + length ?b) c = drop off c"
      using pos(3) by (metis append_take_drop_id drop_drop add.commute)
    then show ?thesis using ih eof bytes req False b0 by (subst read_loop.simps) auto
  qed
qed

lemma readFile_returns:
  assumes "svc_ok (sf_tx st)" "content (sf_tx st) = Some c"
  shows "\<exists>st'. sdk_readFile tx True path (Some cwd) chunk st = Some (Inr c, st') \<and> sf_tx st' = sf_tx st"
  using read_loop_returns[OF assms le0 chunk_size_pos]
  by (fastforce simp: sdk_readFile_def streamReadFile_def requireVfsTransport_def start_offset_def)

end

section \<open>The kernel keeps the contract\<close>

definition kernel_tx ::
  "'r r2_ops \<Rightarrow> codec \<Rightarrow> ('r kernel_fs \<Rightarrow> json \<Rightarrow> (string, json) result \<times> 'r kernel_fs) \<Rightarrow> vfs_fate
   \<Rightarrow> 'r kernel_fs transport" where
  "kernel_tx R C other F st msg = apfst Inr (kernel_reply R C other F st msg)"

definition kernel_content :: "('r \<Rightarrow> string \<Rightarrow> (bytes \<times> string) option) \<Rightarrow> string \<Rightarrow> 'r kernel_fs \<Rightarrow> bytes option" where
  "kernel_content objs p st =
     (case kf_bucket st of None \<Rightarrow> None | Some b \<Rightarrow> map_option fst (objs b (vfs_key st p)))"

text \<open>The invariant of one path: its row, if any, names the path's own key and the body's length.\<close>

definition kernel_svc ::
  "('r \<Rightarrow> string \<Rightarrow> (bytes \<times> string) option) \<Rightarrow> ('r \<Rightarrow> bool) \<Rightarrow> string \<Rightarrow> 'r kernel_fs \<Rightarrow> bool" where
  "kernel_svc objs r_inv p st \<longleftrightarrow>
     (\<exists>b. kf_bucket st = Some b \<and> r_inv b \<and>
       (\<forall>r. vfs_meta st p = Some r \<longrightarrow> row_key r = vfs_key st p \<and>
          (\<exists>body e. objs b (vfs_key st p) = Some (body, e) \<and> row_size r = length body)))"

lemma norm_fs_no_slash:
  assumes "norm_fs_path_cwd path cwd = Inr p"
  obtains r where "p = ''/'' @ r" "dropWhile (\<lambda>c. c = CHR ''/'') p = r"
proof -
  obtain r where r: "p = ''/'' @ r" using norm_fs_path_slash assms by blast
  then have "rel_ok r" using assms norm_fs_path_resolve resolve_rel_ok by blast
  then have "\<not> prefix ''/'' r" by (rule rel_ok_no_slash)
  then have "dropWhile (\<lambda>c. c = CHR ''/'') r = r" by (cases r) auto
  then show thesis using that r by simp
qed

lemma vfs_key_simps [simp]:
  "vfs_key (st\<lparr>kf_bucket := b\<rparr>) p = vfs_key st p"
  "vfs_key (st\<lparr>kf_rows := rs\<rparr>) p = vfs_key st p"
  "vfs_key (bump_fs_version st) p = vfs_key st p"
  by (simp_all add: vfs_key_def bump_fs_version_def)

text \<open>An export leaves every other object and every row alone.\<close>

lemma export_manifest_frame:
  assumes "object_store R objs r_inv" "kf_bucket st = Some b" "r_inv b"
  obtains b' where "export_manifest R C F st = st\<lparr>kf_bucket := Some b'\<rparr>" "r_inv b'"
    "\<And>k. k \<noteq> ''fs/'' @ kf_doId st @ ''/.engram/manifest.json'' \<Longrightarrow> objs b' k = objs b k"
proof (cases "vt_manifest_up F")
  case True
  let ?b = "snd (r2_put R b (''fs/'' @ kf_doId st @ ''/.engram/manifest.json'')
     (cd_encode C (json_stringify (manifest_doc st (vt_now F)))))"
  show thesis
    by (rule that[of ?b])
      (use True assms in \<open>auto simp: export_manifest_def r2_put_resilient_def object_store.put_law[OF assms(1,3)]
         object_store.put_inv[OF assms(1,3)]\<close>)
next
  case False
  show thesis
    by (rule that[of b]) (use False assms in \<open>auto simp: export_manifest_def r2_put_resilient_def\<close>)
qed

lemma current_body_content:
  assumes "object_store R objs r_inv" "kf_bucket st = Some b" "r_inv b"
  shows "current_body R st (vfs_key st p) = (case kernel_content objs p st of None \<Rightarrow> [] | Some c \<Rightarrow> c)"
  using assms by (auto simp: current_body_def kernel_content_def object_store.get_law[OF assms(1,3)] split: option.splits)

lemma vfs_write_law:
  assumes "object_store R objs r_inv" "vt_body_up F" "kernel_svc objs r_inv p st"
    and "frame_path msg = Inr p" "p \<noteq> manifest_path"
    and "as_str (json_get ''dataB64'' msg) = Some (bytesToB64 new)"
    and "as_size (json_get ''offset'' msg) = Some off"
    and "as_bool (json_get ''truncate'' msg) = Some trunc" "trunc \<or> vfs_meta st p \<noteq> None"
  shows "\<exists>extra st'. vfs_write R C F st msg = (vfs_ok ''vfs-write-result'' msg extra, st') \<and>
     kernel_svc objs r_inv p st' \<and> vfs_meta st' p \<noteq> None \<and>
     kernel_content objs p st' = Some (if trunc then new
       else splice_at (case kernel_content objs p st of None \<Rightarrow> [] | Some c \<Rightarrow> c) off new)"
proof -
  obtain b where b: "kf_bucket st = Some b" "r_inv b" using assms(3) by (auto simp: kernel_svc_def)
  obtain full where f: "full = (if trunc then new else splice_at (case kernel_content objs p st of None \<Rightarrow> [] | Some c \<Rightarrow> c) off new)"
    by blast
  have full: "full_object R st p msg new = (full, int (length new))"
    using assms(7-9) current_body_content[OF assms(1) b] f by (auto simp: full_object_def unwrap_or_def Let_def)
  obtain rl where rl: "p = ''/'' @ rl" "dropWhile (\<lambda>c. c = CHR ''/'') p = rl"
    using assms(4) norm_fs_no_slash unfolding frame_path_def by blast
  have nk: "vfs_key st p \<noteq> ''fs/'' @ kf_doId st @ ''/.engram/manifest.json''"
    using rl assms(5) by (auto simp: vfs_key_def manifest_path_def)
  let ?b1 = "snd (r2_put R b (vfs_key st p) full)"
  let ?row = "\<lparr>row_key = vfs_key st p, row_size = length full, row_cell = - 1, row_created = vt_now F,
                row_origin = ''frame''\<rparr>"
  let ?st2 = "bump_fs_version (st\<lparr>kf_bucket := Some ?b1, kf_rows := AList.update p ?row (kf_rows st)\<rparr>)"
  have w: "vfs_write R C F st msg = (vfs_ok ''vfs-write-result'' msg
      [(''bytesWritten'', JNum (int (length new))), (''fsVersion'', JNum (kf_version ?st2))], export_manifest R C F ?st2)"
    using assms(2,4,6) b full
    by (simp add: vfs_write_def r2_put_resilient_def b64_decode_bytesToB64 unwrap_or_def Let_def)
  have i1: "r_inv ?b1" "objs ?b1 (vfs_key st p) = Some (full, fst (r2_put R b (vfs_key st p) full))"
    using object_store.put_inv[OF assms(1) b(2)] object_store.put_law[OF assms(1) b(2)] by simp_all
  obtain b2 where b2: "export_manifest R C F ?st2 = ?st2\<lparr>kf_bucket := Some b2\<rparr>" "r_inv b2"
    "objs b2 (vfs_key st p) = objs ?b1 (vfs_key st p)"
  proof (rule export_manifest_frame[OF assms(1), of ?st2 ?b1 C F])
    fix b' assume "export_manifest R C F ?st2 = ?st2\<lparr>kf_bucket := Some b'\<rparr>" "r_inv b'"
      "\<And>k. k \<noteq> ''fs/'' @ kf_doId ?st2 @ ''/.engram/manifest.json'' \<Longrightarrow> objs b' k = objs ?b1 k"
    then show thesis using that[of b'] nk by (simp add: bump_fs_version_def)
  qed (use i1 in \<open>simp_all add: bump_fs_version_def\<close>)
  have key: "vfs_key (?st2\<lparr>kf_bucket := Some b2\<rparr>) p = vfs_key st p"
    by simp
  have "vfs_meta (?st2\<lparr>kf_bucket := Some b2\<rparr>) p = Some ?row"
    by (simp add: vfs_meta_def bump_fs_version_def map_of_update)
  then have "kernel_svc objs r_inv p (?st2\<lparr>kf_bucket := Some b2\<rparr>)" "vfs_meta (?st2\<lparr>kf_bucket := Some b2\<rparr>) p \<noteq> None"
    "kernel_content objs p (?st2\<lparr>kf_bucket := Some b2\<rparr>) = Some full"
    using b2(2,3) i1 by (auto simp: kernel_svc_def kernel_content_def)
  then show ?thesis unfolding w b2(1) f[symmetric] by blast
qed

lemma vfs_read_law:
  assumes "object_store R objs r_inv" "kernel_svc objs r_inv p st"
    and "frame_path msg = Inr p" "kernel_content objs p st = Some c"
    and "as_size (json_get ''offset'' msg) = Some off" "as_size (json_get ''len'' msg) = Some len"
    and "off \<le> length c"
  shows "vfs_read R st msg = Inr (vfs_ok ''vfs-read-result'' msg
     [(''dataB64'', JStr (bytesToB64 (take len (drop off c)))),
      (''eof'', JBool (length c \<le> off + length (take len (drop off c)))),
      (''size'', JNum (int (length c)))])"
proof -
  obtain b e where b: "kf_bucket st = Some b" "r_inv b" "objs b (vfs_key st p) = Some (c, e)"
    using assms(2,4) by (auto simp: kernel_svc_def kernel_content_def)
  have loc: "locate R st p = Some (vfs_key st p, length c)"
  proof (cases "vfs_meta st p")
    case None
    then show ?thesis using b by (simp add: locate_def object_store.head_law[OF assms(1) b(2)])
  next
    case (Some r)
    then show ?thesis using b assms(2) by (auto simp: locate_def kernel_svc_def)
  qed
  have "r2_get R b (vfs_key st p) (int off) (Some (int len)) =
      Some \<lparr>rb_bytes = take len (drop off c), rb_etag = e, rb_total = length c\<rparr>"
    using b by (simp add: object_store.get_law[OF assms(1) b(2)] js_subarray_nat)
  then show ?thesis
    using assms(3,5-7) b(1) loc
    by (simp add: vfs_read_def unwrap_or_def b64_encode_is_bytesToB64 min_absorb1 Let_def)
qed

text \<open>The service the client's lemmas ask for.\<close>

lemma kernel_vfs_service:
  assumes "object_store R objs r_inv" "vt_body_up F" "norm_fs_path_cwd path cwd = Inr p" "p \<noteq> manifest_path"
  shows "vfs_service (kernel_tx R C other F) (kernel_content objs p) (\<lambda>st. vfs_meta st p \<noteq> None)
           (kernel_svc objs r_inv p) path cwd"
proof (unfold_locales, goal_cases)
  case (1 s trunc n b off)
  let ?msg = "JObj ([(''t'', JStr ''vfs-write''), (''id'', JNum n)] @
          [(''path'', JStr path), (''cwd'', JStr cwd), (''dataB64'', JStr (bytesToB64 b)),
           (''offset'', JNum (int off)), (''truncate'', JBool trunc)])"
  have "frame_path ?msg = Inr p" using assms(3) by (simp add: frame_path_def as_str_def unwrap_or_def)
  moreover have "as_str (json_get ''dataB64'' ?msg) = Some (bytesToB64 b)" "as_size (json_get ''offset'' ?msg) = Some off"
    "as_bool (json_get ''truncate'' ?msg) = Some trunc" by (simp_all add: as_str_def as_size_def as_bool_def)
  ultimately obtain extra st' where w: "vfs_write R C F s ?msg = (vfs_ok ''vfs-write-result'' ?msg extra, st')"
    "kernel_svc objs r_inv p st'" "vfs_meta st' p \<noteq> None"
    "kernel_content objs p st' = Some (if trunc then b
       else splice_at (case kernel_content objs p s of None \<Rightarrow> [] | Some c \<Rightarrow> c) off b)"
    using vfs_write_law[OF assms(1,2) 1(1) _ assms(4) _ _ _ 1(2)] by blast
  have tx: "kernel_tx R C other F s ?msg = (Inr (vfs_ok ''vfs-write-result'' ?msg extra), st')"
    using w(1) by (simp add: kernel_tx_def kernel_reply_def vfs_dispatch_def as_str_def unwrap_or_def Let_def)
  show ?case
    by (intro exI conjI, rule tx) (use w in \<open>auto simp: vfs_ok_def\<close>)
next
  case (2 s c off len n)
  let ?msg = "JObj ([(''t'', JStr ''vfs-read''), (''id'', JNum n)] @ read_frame path cwd off len)"
  have "frame_path ?msg = Inr p" using assms(3) by (simp add: frame_path_def read_frame_def as_str_def unwrap_or_def)
  moreover have "as_size (json_get ''offset'' ?msg) = Some off" "as_size (json_get ''len'' ?msg) = Some len"
    by (simp_all add: as_size_def read_frame_def)
  ultimately have r: "vfs_read R s ?msg = Inr (vfs_ok ''vfs-read-result'' ?msg
     [(''dataB64'', JStr (bytesToB64 (take len (drop off c)))),
      (''eof'', JBool (length c \<le> off + length (take len (drop off c)))), (''size'', JNum (int (length c)))])"
    using vfs_read_law[OF assms(1) 2(1) _ 2(2) _ _ 2(3)] by blast
  have tx: "kernel_tx R C other F s ?msg = (Inr (vfs_ok ''vfs-read-result'' ?msg
     [(''dataB64'', JStr (bytesToB64 (take len (drop off c)))),
      (''eof'', JBool (length c \<le> off + length (take len (drop off c)))), (''size'', JNum (int (length c)))]), s)"
    using r by (simp add: kernel_tx_def kernel_reply_def vfs_dispatch_def as_str_def unwrap_or_def Let_def)
  show ?case
    by (intro exI conjI, rule tx) (auto simp: vfs_ok_def)
qed

definition no_frames :: "'r kernel_fs \<Rightarrow> json \<Rightarrow> (string, json) result \<times> 'r kernel_fs" where
  "no_frames st msg = (Inl ''unknown frame'', st)"

interpretation kernel_files: vfs_service "kernel_tx fakeR2_ops C other (F\<lparr>vt_body_up := True\<rparr>)"
    "kernel_content FakeR2_objs ''/notes''" "\<lambda>st. vfs_meta st ''/notes'' \<noteq> None"
    "kernel_svc FakeR2_objs FakeR2_inv ''/notes''" "''notes''" "''/workspace''"
  for C other F
  by (rule kernel_vfs_service[OF fake_r2.object_store_axioms]) (simp, code_simp, code_simp)

section \<open>Properties\<close>

text \<open>C4. What is uploaded is what is downloaded: over any object store, writing a file from any
  sequence of pieces with any chunk size reports the number of bytes given, and reading it back
  with any chunk size returns, with exactly those bytes.\<close>

theorem upload_then_download:
  assumes "object_store R objs r_inv" "vt_body_up F"
    and "norm_fs_path_cwd path cwd = Inr p" "p \<noteq> manifest_path" "kernel_svc objs r_inv p st"
    and "wo_cwd Q = Some cwd" "wo_truncate Q \<noteq> Some False" "start_offset (wo_offset Q) = 0"
  shows "\<exists>sf'. sdk_writeFile (kernel_tx R C other F) C True Q path up \<lparr>sf_tx = st, sf_vfsId = n\<rparr>
             = (Inr (length (upload_bytes C up)), sf') \<and>
           (\<forall>chunk. \<exists>sf''. sdk_readFile (kernel_tx R C other F) True path (Some cwd) chunk sf'
             = Some (Inr (upload_bytes C up), sf''))"
proof -
  note svc = kernel_vfs_service[OF assms(1-4), of C other]
  obtain sf' where w: "sdk_writeFile (kernel_tx R C other F) C True Q path up \<lparr>sf_tx = st, sf_vfsId = n\<rparr>
      = (Inr (length (upload_bytes C up)), sf')"
    and k: "kernel_svc objs r_inv p (sf_tx sf')" "kernel_content objs p (sf_tx sf') = Some (upload_bytes C up)"
    using vfs_service.writeFile_stores[OF svc, of "\<lparr>sf_tx = st, sf_vfsId = n\<rparr>" Q C up] assms(5-8) by auto
  then show ?thesis using vfs_service.readFile_returns[OF svc k] by blast
qed

definition demo_kernel :: "fake_r2 kernel_fs" where
  "demo_kernel = \<lparr>kf_doId = ''d1'', kf_bucket = Some new_FakeR2, kf_rows = [], kf_version = 0\<rparr>"

definition demo_fate :: vfs_fate where
  "demo_fate = \<lparr>vt_body_up = True, vt_manifest_up = True, vt_list_up = True, vt_now = 5\<rparr>"

definition demo_write :: write_opts where
  "demo_write = \<lparr>wo_chunkBytes = Some 2, wo_offset = None, wo_truncate = None, wo_cwd = Some ''/workspace/docs''\<rparr>"

lemma demo_kernel_svc: "kernel_svc FakeR2_objs FakeR2_inv p demo_kernel"
proof -
  have "FakeR2_inv new_FakeR2" by (simp add: FakeR2_inv_def new_FakeR2_def)
  then show ?thesis by (auto simp: kernel_svc_def demo_kernel_def vfs_meta_def)
qed

theorem upload_then_download_witness:
  "\<exists>sf' sf''.
     sdk_writeFile (kernel_tx fakeR2_ops demo_codec no_frames demo_fate) demo_codec True demo_write ''../a''
       (Parts [SdkBytes [1, 2, 3], SdkBytes [], SdkStr ''x'']) \<lparr>sf_tx = demo_kernel, sf_vfsId = 0\<rparr>
       = (Inr 4, sf') \<and>
     sdk_readFile (kernel_tx fakeR2_ops demo_codec no_frames demo_fate) True ''../a'' (Some ''/workspace/docs'') (Some 3) sf'
       = Some (Inr [1, 2, 3, 120], sf'')"
proof -
  have n: "norm_fs_path_cwd ''../a'' ''/workspace/docs'' = Inr ''/a''" by code_simp
  have m: "''/a'' \<noteq> manifest_path" by (simp add: manifest_path_def)
  have u: "upload_bytes demo_codec (Parts [SdkBytes [1, 2, 3], SdkBytes [], SdkStr ''x'']) = [1, 2, 3, 120]"
    by (simp add: upload_bytes_def sdk_toBytes_def demo_codec_def)
  show ?thesis
    using upload_then_download[OF fake_r2.object_store_axioms _ n m demo_kernel_svc, of demo_fate demo_write
        demo_codec no_frames "Parts [SdkBytes [1, 2, 3], SdkBytes [], SdkStr ''x'']" 0]
    unfolding u by (auto simp: demo_fate_def demo_write_def start_offset_def)
qed

text \<open>The kernel's file frames address the objects of the file substrate: the normaliser of the
  frames yields the path the shared resolver yields, and the key of a file is the live key of that
  path.\<close>

theorem frame_key_is_live_key:
  assumes "norm_fs_path_cwd p cwd = Inr q" "q \<noteq> ''/''" "kf_doId st \<noteq> ''''"
  shows "\<exists>r. q = ''/'' @ r \<and> resolve p cwd = Inr r \<and> liveKey (kf_doId st) r = Inr (vfs_key st q)"
proof -
  obtain r where r: "q = ''/'' @ r" "dropWhile (\<lambda>c. c = CHR ''/'') q = r"
    using norm_fs_no_slash[OF assms(1)] by blast
  then have "resolve p cwd = Inr r" using norm_fs_path_resolve assms(1) by simp
  moreover from this have "normPath r = Inr r" using normPath_rel_ok resolve_rel_ok by blast
  ultimately show ?thesis using r assms(2,3) by (auto simp: liveKey_def rootPrefix_def vfs_key_def)
qed

theorem frame_key_is_live_key_witness:
  "liveKey ''d1'' ''a/b'' = Inr (vfs_key demo_kernel ''/a/b'')"
proof -
  have "norm_fs_path_cwd ''b'' ''/workspace/a'' = Inr ''/a/b''" by code_simp
  from frame_key_is_live_key[OF this, of demo_kernel] show ?thesis by (simp add: demo_kernel_def)
qed

section \<open>Where the two sides part\<close>

text \<open>The kernel reports a failed file frame as a text, the client reads \<open>name\<close> and \<open>message\<close> of an
  object: the caller gets an error, but never the kernel's reason.\<close>

lemma text_error_is_lost:
  assumes "tx (sf_tx st) (JObj ([(''t'', JStr t), (''id'', JNum (int (nextVfsId (sf_vfsId st))))] @ body))
      = (Inr (vfs_fail t' msg extra e), s')" "map_of extra ''error'' = None" "e \<noteq> ''''"
  shows "fst (vfs_request tx st t ename emsg body) = Inl (EngramError ''eval failed'')"
  using assms
  by (simp add: vfs_request_def vfs_fail_def Let_def map_add_def reply_error_def js_field_def
      toTypedError_def or_text_def EngramError_def)

lemma missing_file_stat:
  assumes "norm_fs_path_cwd path ''/workspace'' = Inr p" "vfs_meta st p = None" "p \<noteq> ''/''"
    and "\<forall>(k, r) \<in> set (kf_rows st). \<not> prefix (dir_prefix p) k"
    and "\<forall>b. kf_bucket st = Some b \<longrightarrow> r2_head R b (vfs_key st p) = None"
  shows "fst (sdk_stat (kernel_tx R C other F) True path None \<lparr>sf_tx = st, sf_vfsId = n\<rparr>)
      = Inl (EngramError ''eval failed'')"
proof -
  let ?msg = "JObj ([(''t'', JStr ''vfs-stat''), (''id'', JNum (int (nextVfsId n)))] @ path_frame path None)"
  have "frame_path ?msg = Inr p"
    using assms(1) by (simp add: frame_path_def path_frame_def as_str_def unwrap_or_def)
  moreover have "\<not> list_ex (\<lambda>(k, _). prefix (dir_prefix p) k) (kf_rows st)"
    using assms(4) by (auto simp: list_ex_iff)
  ultimately have "vfs_stat R st ?msg = vfs_fail ''vfs-stat-result'' ?msg [] ''ENOENT: no such file''"
    using assms(2,3,5) by (simp add: vfs_stat_def split: option.split)
  then have "kernel_tx R C other F st ?msg = (Inr (vfs_fail ''vfs-stat-result'' ?msg [] ''ENOENT: no such file''), st)"
    by (simp add: kernel_tx_def kernel_reply_def vfs_dispatch_def as_str_def unwrap_or_def Let_def)
  then show ?thesis
    using text_error_is_lost[of "kernel_tx R C other F" "\<lparr>sf_tx = st, sf_vfsId = n\<rparr>" "''vfs-stat''" "path_frame path None"]
    by (simp add: sdk_stat_def guarded_request_def requireVfsTransport_def)
qed

text \<open>An upload that asks for an offset and leaves \<open>truncate\<close> to its default: the first frame carries
  both, and the kernel ignores the offset of a truncating frame.\<close>

lemma truncate_ignores_offset:
  assumes "as_bool (json_get ''truncate'' msg) = Some True"
  shows "fst (full_object R st p msg new) = new"
  using assms by (simp add: full_object_def unwrap_or_def Let_def)

lemma first_frame_truncates:
  "wo_truncate Q = None \<Longrightarrow> wp_first w \<Longrightarrow>
   as_bool (json_get ''truncate'' (JObj ([(''t'', JStr ''vfs-write''), (''id'', JNum n)] @ write_frame Q path w b))) = Some True"
  by (simp add: write_frame_def as_bool_def)

text \<open>A frame that appends to a file a container wrote, which has an object but no row, starts from an
  empty body: what the container wrote is replaced by zeros.\<close>

lemma container_file_is_zeroed:
  assumes "vfs_meta st p = None" "as_bool (json_get ''truncate'' msg) = Some False"
    and "as_size (json_get ''offset'' msg) = Some off"
  shows "fst (full_object R st p msg new) = replicate off 0 @ new"
  using assms by (simp add: full_object_def unwrap_or_def splice_at_def Let_def)

text \<open>The root is refused as a file by the shared key scheme, and accepted by the frames.\<close>

lemma root_is_writable:
  "liveKey ''d1'' ''/'' = Inl (FsPathError ''cannot address the root as a file'' EISDIR) \<and>
   (\<exists>extra st'. vfs_write fakeR2_ops demo_codec demo_fate demo_kernel (JObj [(''path'', JStr ''/''),
       (''dataB64'', JStr (bytesToB64 [1])), (''offset'', JNum 0), (''truncate'', JBool True)])
     = (vfs_ok ''vfs-write-result'' (JObj [(''path'', JStr ''/''),
       (''dataB64'', JStr (bytesToB64 [1])), (''offset'', JNum 0), (''truncate'', JBool True)]) extra, st'))"
proof -
  let ?msg = "JObj [(''path'', JStr ''/''), (''dataB64'', JStr (bytesToB64 [1])), (''offset'', JNum 0), (''truncate'', JBool True)]"
  have "norm_fs_path_cwd ''/'' WORKSPACE_ROOT = Inr ''/''" by code_simp
  then have f: "frame_path ?msg = Inr ''/''" by (simp add: frame_path_def as_str_def unwrap_or_def)
  have "\<exists>extra st'. vfs_write fakeR2_ops demo_codec demo_fate demo_kernel ?msg = (vfs_ok ''vfs-write-result'' ?msg extra, st')"
    using vfs_write_law[OF fake_r2.object_store_axioms _ demo_kernel_svc f, of demo_fate "[1]" 0 True demo_codec]
    by (auto simp: demo_fate_def manifest_path_def as_str_def as_size_def as_bool_def)
  moreover have "liveKey ''d1'' ''/'' = Inl (FsPathError ''cannot address the root as a file'' EISDIR)" by code_simp
  ultimately show ?thesis by blast
qed

end
