(* ===== verification/SdkTransport.thy ===== *)
theory SdkTransport
  imports Json
begin

text \<open>
  The WebSocket transport of the client library, class \<open>WsTransport\<close> of
  \<open>packages/sdk/src/index.ts\<close>.  Sockets are numbered in the order they are made; \<open>sk_wire\<close> holds the
  requests whose frames were sent on a socket and are not answered, which the code cannot see.  The
  handlers are functions on the state; an \<open>async\<close> method is cut at its \<open>await\<close>s, the rest of it being
  the phase of the run; the continuation of a settled promise runs right after the handler that
  settled it (\<open>resume_run\<close>).  \<open>wt_sent\<close> logs each run's own frame with its attempt and the number of the
  request that carried it.  \<open>tx_step\<close> interleaves the run with the events of the sockets, the timers
  and the clock.
\<close>

section \<open>State\<close>

datatype ready = Connecting | SockOpen | Closing | SockClosed

record sock =
  sk_ready :: ready
  sk_attached :: bool
  sk_wire :: "nat list"

record wframe =
  wf_t :: string
  wf_reqId :: "string option"

datatype outcome = Resolved nat json | Rejected string

text \<open>How a socket is obtained: the \<open>WebSocket\<close> constructor, the factory \<open>openSocket\<close>, or one
  injected \<open>socket\<close> (the factory has precedence).\<close>

datatype sock_mode = Ctor | Factory | OneShot

record ws_cfg =
  wc_autoReconnect :: bool
  wc_keepAliveMs :: int
  wc_mode :: sock_mode
  wc_ready :: "(wframe \<times> bool) list"
  wc_timeoutMs :: int

text \<open>Where the run that holds the queue waits: nowhere, in the pause of a refresh, for the factory, for
  the \<open>open\<close> event, for a reply to a frame of \<open>onReady\<close> (whose failure may be swallowed), for its own
  reply, or in the pause before its retry.\<close>

datatype phase =
    Idle
  | Pausing wframe int
  | Minting wframe nat
  | Opening wframe nat nat
  | Readying wframe nat bool "(wframe \<times> bool) list" nat
  | Waiting wframe nat nat
  | Backoff wframe int

record wst =
  wt_now :: int
  wt_ws :: "nat option"
  wt_socks :: "sock list"
  wt_pending :: "nat option"
  wt_timers :: "(nat \<times> int) list"
  wt_rpcs :: nat
  wt_closed :: bool
  wt_reconnects :: nat
  wt_hasConnected :: bool
  wt_keepUntil :: int
  wt_keepTimer :: "int option"
  wt_suppress :: bool
  wt_ignoreUntil :: int
  wt_oneShotConsumed :: bool
  wt_phase :: phase
  wt_settled :: "(nat \<times> outcome) list"
  wt_run :: nat
  wt_sent :: "(nat \<times> wframe \<times> nat \<times> nat) list"
  wt_replies :: "(nat \<times> outcome) list"
  wt_callbacks :: "string list"
  wt_hostcalls :: "json list"

definition new_WsTransport :: wst where
  "new_WsTransport = \<lparr>wt_now = 0, wt_ws = None, wt_socks = [], wt_pending = None, wt_timers = [], wt_rpcs = 0,
     wt_closed = False, wt_reconnects = 0, wt_hasConnected = False, wt_keepUntil = 0, wt_keepTimer = None,
     wt_suppress = False, wt_ignoreUntil = 0, wt_oneShotConsumed = False, wt_phase = Idle, wt_settled = [],
     wt_run = 0, wt_sent = [], wt_replies = [], wt_callbacks = [], wt_hostcalls = []\<rparr>"

text \<open>The error that stands for a dropped socket, and those a caller sees.\<close>

definition WS_CLOSED :: string where "WS_CLOSED = ''__ws_closed__''"
definition CONNECT_FAILED :: string where "CONNECT_FAILED = ''ws connect failed''"
definition ONE_SHOT_GONE :: string where
  "ONE_SHOT_GONE = ''injected socket closed and cannot be reopened (use openSocket for reconnect)''"
definition BEFORE_REPLY :: string where "BEFORE_REPLY = ''connection closed before reply''"
definition TIMED_OUT :: string where "TIMED_OUT = ''request timed out''"
definition MALFORMED :: string where "MALFORMED = ''malformed kernel reply''"

section \<open>Handlers\<close>

text \<open>Settling the parked request, and clearing its timer.\<close>

definition settle_rpc :: "outcome \<Rightarrow> wst \<Rightarrow> wst" where
  "settle_rpc oc st =
     (case wt_pending st of
        None \<Rightarrow> st
      | Some k \<Rightarrow> st\<lparr>wt_pending := None, wt_timers := filter (\<lambda>(k', _). k' \<noteq> k) (wt_timers st),
                     wt_settled := wt_settled st @ [(k, oc)]\<rparr>)"

datatype msg_kind = Pong | BadFrame | HostCall | KeepAlive | Reply

definition classify_msg :: "string \<Rightarrow> json option \<Rightarrow> msg_kind" where
  "classify_msg text parsed =
     (if text = ''pong'' then Pong
      else (case parsed of
          None \<Rightarrow> BadFrame
        | Some m \<Rightarrow>
            if json_get ''t'' m = Some (JStr ''hostcall'') then HostCall
            else if json_get ''t'' m = Some (JStr ''ping'') \<and> json_get ''keepAlive'' m = Some (JBool True) then KeepAlive
            else Reply))"

text \<open>\<open>tag\<close> is the request the frame answers.\<close>

definition onMessage :: "nat \<Rightarrow> string \<Rightarrow> json option \<Rightarrow> wst \<Rightarrow> wst" where
  "onMessage tag text parsed st =
     (case classify_msg text parsed of
        Pong \<Rightarrow> st
      | BadFrame \<Rightarrow> settle_rpc (Rejected MALFORMED) st
      | HostCall \<Rightarrow> st\<lparr>wt_hostcalls := wt_hostcalls st @ [the parsed]\<rparr>
      | KeepAlive \<Rightarrow> st
      | Reply \<Rightarrow> settle_rpc (Resolved tag (the parsed)) st)"

definition onClose :: "ws_cfg \<Rightarrow> wst \<Rightarrow> wst" where
  "onClose cfg st =
     (if wt_now st < wt_ignoreUntil st then st
      else
        (let st = settle_rpc (Rejected WS_CLOSED) (st\<lparr>wt_ws := None\<rparr>) in
         if wc_keepAliveMs cfg \<noteq> 0 then st
         else st\<lparr>wt_callbacks := wt_callbacks st @ [''onClose'']\<rparr>))"

definition closing :: "ready \<Rightarrow> ready" where
  "closing r = (if r = SockClosed then SockClosed else Closing)"

definition dropSocket :: "wst \<Rightarrow> wst" where
  "dropSocket st =
     (case wt_ws st of
        None \<Rightarrow> st
      | Some i \<Rightarrow>
          st\<lparr>wt_ws := None, wt_ignoreUntil := wt_now st + 1000,
             wt_socks := (wt_socks st)[i := (wt_socks st ! i)\<lparr>sk_attached := False, sk_ready := closing (sk_ready (wt_socks st ! i))\<rparr>]\<rparr>)"

definition sock_open :: "wst \<Rightarrow> bool" where
  "sock_open st = (case wt_ws st of None \<Rightarrow> False | Some i \<Rightarrow> sk_ready (wt_socks st ! i) = SockOpen)"

definition canRetryFrame :: "wframe \<Rightarrow> bool" where
  "canRetryFrame fr \<longleftrightarrow>
     wf_t fr = ''ping'' \<or> wf_t fr = ''gen'' \<or> wf_t fr = ''create'' \<or>
     wf_t fr = ''eval'' \<and> (case wf_reqId fr of None \<Rightarrow> False | Some r \<Rightarrow> r \<noteq> [] \<and> length r \<le> 128)"

definition clearKeepAlive :: "wst \<Rightarrow> wst" where
  "clearKeepAlive st = st\<lparr>wt_keepTimer := None, wt_keepUntil := 0\<rparr>"

definition KEEPALIVE_HEARTBEAT_MS :: int where
  "KEEPALIVE_HEARTBEAT_MS = 2000"

definition armKeepAlive :: "ws_cfg \<Rightarrow> wst \<Rightarrow> wst" where
  "armKeepAlive cfg st =
     (let windowMs = max 0 (wc_keepAliveMs cfg) in
      if windowMs = 0 \<or> wt_closed st then st
      else
        (let st = st\<lparr>wt_keepUntil := max (wt_keepUntil st) (wt_now st + windowMs)\<rparr> in
         if wt_keepTimer st \<noteq> None then st
         else st\<lparr>wt_keepTimer := Some (wt_now st + min KEEPALIVE_HEARTBEAT_MS (max 100 (windowMs div 4)))\<rparr>))"

text \<open>The heartbeat frame that \<open>tick\<close> sends is answered by a frame that no request waits for.\<close>

definition tick :: "wst \<Rightarrow> wst" where
  "tick st =
     (let st = st\<lparr>wt_keepTimer := None\<rparr> in
      if wt_closed st then st
      else if wt_keepUntil st - wt_now st \<le> 0 then dropSocket (st\<lparr>wt_suppress := True\<rparr>)
      else st\<lparr>wt_keepTimer := Some (wt_now st + min KEEPALIVE_HEARTBEAT_MS (max 100 (wt_keepUntil st - wt_now st)))\<rparr>)"

section \<open>One request on the wire\<close>

text \<open>A request is parked with its timer, then sent.  \<open>send\<close> throws on no socket and on one that is still connecting; on a closing or closed socket the
  frame is dropped silently.\<close>

definition parked :: "ws_cfg \<Rightarrow> wst \<Rightarrow> wst" where
  "parked cfg st = st\<lparr>wt_rpcs := wt_rpcs st + 1, wt_pending := Some (wt_rpcs st),
     wt_timers := (wt_rpcs st, wt_now st + wc_timeoutMs cfg) # wt_timers st\<rparr>"

definition rawRequest :: "ws_cfg \<Rightarrow> wst \<Rightarrow> nat \<times> string option \<times> wst" where
  "rawRequest cfg st =
     (let k = wt_rpcs st;
          st = parked cfg st;
          failed = (k, Some WS_CLOSED, settle_rpc (Rejected WS_CLOSED) st)
      in case wt_ws st of
           None \<Rightarrow> failed
         | Some i \<Rightarrow>
           (case sk_ready (wt_socks st ! i) of
              Connecting \<Rightarrow> failed
            | SockOpen \<Rightarrow> (k, None, st\<lparr>wt_socks := (wt_socks st)[i := (wt_socks st ! i)\<lparr>sk_wire := sk_wire (wt_socks st ! i) @ [k]\<rparr>]\<rparr>)
            | _ \<Rightarrow> (k, None, st)))"

definition timeout :: "nat \<Rightarrow> wst \<Rightarrow> wst" where
  "timeout k st =
     (let st1 = dropSocket (st\<lparr>wt_pending := (if wt_pending st = Some k then None else wt_pending st),
                               wt_timers := filter (\<lambda>(k', _). k' \<noteq> k) (wt_timers st)\<rparr>)
      in st1\<lparr>wt_settled := wt_settled st1 @ [(k, Rejected TIMED_OUT)]\<rparr>)"

section \<open>The run of a request\<close>

definition reply_run :: "outcome \<Rightarrow> wst \<Rightarrow> wst" where
  "reply_run oc st = st\<lparr>wt_phase := Idle, wt_replies := wt_replies st @ [(wt_run st, oc)]\<rparr>"

text \<open>The \<open>catch\<close> of the first attempt, and the way out of the second.\<close>

definition run_fail :: "ws_cfg \<Rightarrow> wframe \<Rightarrow> nat \<Rightarrow> string \<Rightarrow> wst \<Rightarrow> wst" where
  "run_fail cfg fr att e st =
     (if att = 1 then
        (let lost = (e = WS_CLOSED \<or> e = CONNECT_FAILED) in
         if wc_autoReconnect cfg \<and> wc_mode cfg \<noteq> OneShot \<and> \<not> wt_closed st \<and> lost \<and> canRetryFrame fr then
           (let st = dropSocket st in
            st\<lparr>wt_reconnects := wt_reconnects st + 1,
               wt_phase := Backoff fr (wt_now st + min 2000 (100 * 2 ^ wt_reconnects st))\<rparr>)
         else if lost then
           reply_run (Rejected (if wc_mode cfg = OneShot then ONE_SHOT_GONE
                                else if e = WS_CLOSED then BEFORE_REPLY else CONNECT_FAILED)) st
         else reply_run (Rejected e) st)
      else reply_run (Rejected e) st)"

definition run_ok :: "ws_cfg \<Rightarrow> wframe \<Rightarrow> outcome \<Rightarrow> wst \<Rightarrow> wst" where
  "run_ok cfg fr oc st = reply_run oc (if wf_t fr \<noteq> ''ping'' then armKeepAlive cfg st else st)"

definition send_frame :: "ws_cfg \<Rightarrow> wframe \<Rightarrow> nat \<Rightarrow> wst \<Rightarrow> wst" where
  "send_frame cfg fr att st =
     (case rawRequest cfg (st\<lparr>wt_sent := wt_sent st @ [(wt_run st, fr, att, wt_rpcs st)]\<rparr>) of
        (k, None, st') \<Rightarrow> st'\<lparr>wt_phase := Waiting fr att k\<rparr>
      | (k, Some e, st') \<Rightarrow> run_fail cfg fr att e st')"

text \<open>The callbacks at the end of \<open>open\<close>.\<close>

definition connected :: "wst \<Rightarrow> wst" where
  "connected st =
     (if \<not> wt_hasConnected st then st\<lparr>wt_hasConnected := True, wt_callbacks := wt_callbacks st @ [''onConnect'']\<rparr>
      else if wt_suppress st then st\<lparr>wt_suppress := False\<rparr>
      else st\<lparr>wt_callbacks := wt_callbacks st @ [''onReconnect'']\<rparr>)"

fun ready_loop :: "ws_cfg \<Rightarrow> wframe \<Rightarrow> nat \<Rightarrow> (wframe \<times> bool) list \<Rightarrow> wst \<Rightarrow> wst" where
  "ready_loop cfg fr att [] st = send_frame cfg fr att (connected st)"
| "ready_loop cfg fr att ((f, swallow) # fs) st =
     (case rawRequest cfg st of
        (k, None, st') \<Rightarrow> st'\<lparr>wt_phase := Readying fr att swallow fs k\<rparr>
      | (k, Some e, st') \<Rightarrow> if swallow then ready_loop cfg fr att fs st' else run_fail cfg fr att e st')"

definition opened :: "ws_cfg \<Rightarrow> wframe \<Rightarrow> nat \<Rightarrow> wst \<Rightarrow> wst" where
  "opened cfg fr att st = ready_loop cfg fr att (wc_ready cfg) (st\<lparr>wt_reconnects := 0\<rparr>)"

text \<open>\<open>attachListeners\<close> on a new socket, which becomes the current one.\<close>

definition new_sock :: "ready \<Rightarrow> wst \<Rightarrow> wst" where
  "new_sock r st = st\<lparr>wt_ws := Some (length (wt_socks st)),
     wt_socks := wt_socks st @ [\<lparr>sk_ready = r, sk_attached = True, sk_wire = []\<rparr>]\<rparr>"

definition run_open :: "ws_cfg \<Rightarrow> wframe \<Rightarrow> nat \<Rightarrow> wst \<Rightarrow> wst" where
  "run_open cfg fr att st =
     (if sock_open st then send_frame cfg fr att st
      else (case wc_mode cfg of
          Factory \<Rightarrow> st\<lparr>wt_phase := Minting fr att\<rparr>
        | OneShot \<Rightarrow>
            if wt_oneShotConsumed st then run_fail cfg fr att ONE_SHOT_GONE st
            else opened cfg fr att (new_sock SockOpen (st\<lparr>wt_oneShotConsumed := True\<rparr>))
        | Ctor \<Rightarrow>
            (let st = new_sock Connecting st in
             st\<lparr>wt_phase := Opening fr att (length (wt_socks st) - 1)\<rparr>)))"

text \<open>\<open>refreshSocketBeforeUserFrame\<close> and what follows it.\<close>

definition start_run :: "ws_cfg \<Rightarrow> wframe \<Rightarrow> wst \<Rightarrow> wst" where
  "start_run cfg fr st =
     (let st = st\<lparr>wt_run := wt_run st + 1\<rparr> in
      if wf_t fr = ''ping'' \<or> wc_keepAliveMs cfg = 0 \<or> wt_closed st then run_open cfg fr 1 st
      else if wt_ws st \<noteq> None \<and> \<not> sock_open st
      then (let st = dropSocket (st\<lparr>wt_suppress := True\<rparr>) in st\<lparr>wt_phase := Pausing fr (wt_now st + 25)\<rparr>)
      else run_open cfg fr 1 st)"

text \<open>The continuation of the promise the run waits for, once it is settled.\<close>

definition resume_run :: "ws_cfg \<Rightarrow> wst \<Rightarrow> wst" where
  "resume_run cfg st =
     (case wt_phase st of
        Waiting fr att k \<Rightarrow>
          (case map_of (wt_settled st) k of
             None \<Rightarrow> st
           | Some (Rejected e) \<Rightarrow> run_fail cfg fr att e st
           | Some oc \<Rightarrow> run_ok cfg fr oc st)
      | Readying fr att swallow fs k \<Rightarrow>
          (case map_of (wt_settled st) k of
             None \<Rightarrow> st
           | Some (Rejected e) \<Rightarrow> if swallow then ready_loop cfg fr att fs st else run_fail cfg fr att e st
           | Some oc \<Rightarrow> ready_loop cfg fr att fs st)
      | _ \<Rightarrow> st)"

definition close :: "wst \<Rightarrow> wst" where
  "close st = dropSocket (clearKeepAlive (st\<lparr>wt_closed := True\<rparr>))"

section \<open>The events\<close>

text \<open>A message that counts as the reply to \<open>tag\<close> leaves the wire; it is delivered to the handler if
  the socket still has it.\<close>

definition deliver :: "ws_cfg \<Rightarrow> nat \<Rightarrow> nat \<Rightarrow> string \<Rightarrow> json option \<Rightarrow> wst \<Rightarrow> wst" where
  "deliver cfg i tag text parsed st =
     (let s = wt_socks st ! i;
          st' = st\<lparr>wt_socks := (wt_socks st)[i := s\<lparr>sk_wire := remove1 tag (sk_wire s)\<rparr>]\<rparr>
      in if sk_attached s then resume_run cfg (onMessage tag text parsed st') else st')"

definition sock_ready :: "nat \<Rightarrow> ready \<Rightarrow> wst \<Rightarrow> wst" where
  "sock_ready i r st = st\<lparr>wt_socks := (wt_socks st)[i := (wt_socks st ! i)\<lparr>sk_ready := r\<rparr>]\<rparr>"

definition close_event :: "ws_cfg \<Rightarrow> nat \<Rightarrow> wst \<Rightarrow> wst" where
  "close_event cfg i st =
     (let a = sk_attached (wt_socks st ! i); st = sock_ready i SockClosed st in
      if a then resume_run cfg (onClose cfg st) else st)"

text \<open>\<open>stale\<close> allows the close event of a socket that was replaced without being dropped while another
  one is current.\<close>

inductive tx_step :: "ws_cfg \<Rightarrow> bool \<Rightarrow> wst \<Rightarrow> wst \<Rightarrow> bool" for cfg stale where
  Start: "wt_phase st = Idle \<Longrightarrow> tx_step cfg stale st (start_run cfg fr st)"
| Resumed: "wt_phase st = Pausing fr due \<Longrightarrow> due \<le> wt_now st \<Longrightarrow> tx_step cfg stale st (run_open cfg fr 1 st)"
| Minted: "wt_phase st = Minting fr att \<Longrightarrow> tx_step cfg stale st (opened cfg fr att (new_sock SockOpen st))"
| MintFails: "wt_phase st = Minting fr att \<Longrightarrow> tx_step cfg stale st (run_fail cfg fr att e st)"
| Opens: "wt_phase st = Opening fr att i \<Longrightarrow> sk_ready (wt_socks st ! i) = Connecting \<Longrightarrow>
    tx_step cfg stale st (opened cfg fr att (sock_ready i SockOpen st))"
| OpenFails: "wt_phase st = Opening fr att i \<Longrightarrow> sk_ready (wt_socks st ! i) \<in> {Connecting, Closing} \<Longrightarrow>
    tx_step cfg stale st (run_fail cfg fr att CONNECT_FAILED (sock_ready i Closing st))"
| Answer: "i < length (wt_socks st) \<Longrightarrow> tag \<in> set (sk_wire (wt_socks st ! i)) \<Longrightarrow>
    sk_ready (wt_socks st ! i) \<in> {SockOpen, Closing} \<Longrightarrow> classify_msg text parsed \<in> {BadFrame, Reply} \<Longrightarrow>
    tx_step cfg stale st (deliver cfg i tag text parsed st)"
| OutOfBand: "i < length (wt_socks st) \<Longrightarrow> sk_attached (wt_socks st ! i) \<Longrightarrow>
    classify_msg text parsed \<in> {Pong, HostCall, KeepAlive} \<Longrightarrow>
    tx_step cfg stale st (resume_run cfg (onMessage 0 text parsed st))"
| PeerCloses: "i < length (wt_socks st) \<Longrightarrow> sk_ready (wt_socks st ! i) = SockOpen \<Longrightarrow>
    tx_step cfg stale st (sock_ready i Closing st)"
| Closed: "i < length (wt_socks st) \<Longrightarrow> sk_ready (wt_socks st ! i) \<noteq> SockClosed \<Longrightarrow>
    stale \<or> wt_ws st = Some i \<or> wt_ws st = None \<Longrightarrow> tx_step cfg stale st (close_event cfg i st)"
| TimesOut: "(k, due) \<in> set (wt_timers st) \<Longrightarrow> due \<le> wt_now st \<Longrightarrow>
    tx_step cfg stale st (resume_run cfg (timeout k st))"
| Ticks: "wt_keepTimer st = Some due \<Longrightarrow> due \<le> wt_now st \<Longrightarrow> tx_step cfg stale st (tick st)"
| Retries: "wt_phase st = Backoff fr due \<Longrightarrow> due \<le> wt_now st \<Longrightarrow> tx_step cfg stale st (run_open cfg fr 2 st)"
| Elapses: "0 \<le> d \<Longrightarrow> tx_step cfg stale st (st\<lparr>wt_now := wt_now st + d\<rparr>)"
| UserCloses: "tx_step cfg stale st (close st)"

end
