(* ===== verification/SdkTransportProps.thy ===== *)
theory SdkTransportProps
  imports SdkTransport
begin

text \<open>
  The invariant of the client's WebSocket transport, by rule induction over its step relation, and
  what follows from it: which answers resolve which requests, and how often a frame is sent.  The
  last section shows runs of the transport that lose or mix up requests.
\<close>

section \<open>Frames on the wire and settled requests\<close>


definition wire_ok :: "wst \<Rightarrow> bool" where
  "wire_ok st \<longleftrightarrow>
     (\<forall>i < length (wt_socks st). sk_attached (wt_socks st ! i) \<longrightarrow> sk_ready (wt_socks st ! i) \<noteq> SockClosed \<longrightarrow>
        wt_ws st \<noteq> Some i \<longrightarrow> sk_wire (wt_socks st ! i) = []) \<and>
     (\<forall>i. wt_ws st = Some i \<longrightarrow> i < length (wt_socks st) \<and> sk_attached (wt_socks st ! i) \<and>
        distinct (sk_wire (wt_socks st ! i)) \<and> (\<forall>k \<in> set (sk_wire (wt_socks st ! i)). wt_pending st = Some k))"

fun answers :: "nat \<Rightarrow> outcome \<Rightarrow> bool" where
  "answers k (Resolved t m) = (t = k)"
| "answers k (Rejected e) = True"

definition log_ok :: "wst \<Rightarrow> bool" where
  "log_ok st \<longleftrightarrow>
     (\<forall>k oc. (k, oc) \<in> set (wt_settled st) \<longrightarrow> k < wt_rpcs st \<and> wt_pending st \<noteq> Some k \<and> answers k oc) \<and>
     (\<forall>k. wt_pending st = Some k \<longrightarrow> k < wt_rpcs st) \<and>
     (\<forall>k d. (k, d) \<in> set (wt_timers st) \<longrightarrow> wt_pending st = Some k)"

definition wires_good :: "wst \<Rightarrow> bool" where
  "wires_good st \<longleftrightarrow> wire_ok st \<and> log_ok st"

text \<open>The state between two requests.\<close>

definition quiet_tx :: "wst \<Rightarrow> bool" where
  "quiet_tx st \<longleftrightarrow> wires_good st \<and> wt_pending st = None"

lemma quiet_wire: "quiet_tx st \<Longrightarrow> wt_ws st = Some i \<Longrightarrow> sk_wire (wt_socks st ! i) = []"
  by (cases "sk_wire (wt_socks st ! i)") (auto simp: quiet_tx_def wires_good_def wire_ok_def)

lemma wire_ok_drop: "wire_ok st \<Longrightarrow> wire_ok (dropSocket st)"
  by (auto simp: dropSocket_def wire_ok_def nth_list_update split: option.splits)

lemma good_drop: "wires_good st \<Longrightarrow> wires_good (dropSocket st)"
  by (auto simp: wires_good_def wire_ok_drop) (auto simp: dropSocket_def log_ok_def split: option.splits)

lemma drop_simps [simp]:
  "wt_pending (dropSocket st) = wt_pending st" "wt_settled (dropSocket st) = wt_settled st"
  "wt_timers (dropSocket st) = wt_timers st" "wt_rpcs (dropSocket st) = wt_rpcs st" "wt_ws (dropSocket st) = None"
  "wt_phase (dropSocket st) = wt_phase st" "wt_sent (dropSocket st) = wt_sent st" "wt_run (dropSocket st) = wt_run st"
  "wt_replies (dropSocket st) = wt_replies st" "length (wt_socks (dropSocket st)) = length (wt_socks st)"
  by (auto simp: dropSocket_def split: option.splits)

lemma parked_good:
  assumes "quiet_tx st" shows "wires_good (parked cfg st)"
proof -
  have w: "wire_ok st" "log_ok st" "wt_pending st = None" using assms by (simp_all add: quiet_tx_def wires_good_def)
  have t: "wt_timers st = []" using w(2,3) by (cases "wt_timers st") (auto simp: log_ok_def)
  have "log_ok (parked cfg st)" unfolding log_ok_def
  proof (intro conjI allI impI)
    fix k oc assume "(k, oc) \<in> set (wt_settled (parked cfg st))"
    then have "(k, oc) \<in> set (wt_settled st)" by (simp add: parked_def)
    then have "k < wt_rpcs st" "answers k oc" using w(2) by (auto simp: log_ok_def)
    then show "k < wt_rpcs (parked cfg st)" "wt_pending (parked cfg st) \<noteq> Some k" "answers k oc"
      by (simp_all add: parked_def)
  qed (use t in \<open>auto simp: parked_def\<close>)
  moreover have "wire_ok (parked cfg st)"
    using w(1) quiet_wire[OF assms] by (auto simp: wire_ok_def parked_def)
  ultimately show ?thesis by (simp add: wires_good_def)
qed

lemma settle_quiet:
  assumes "wires_good st" "wt_ws st = None \<or> (\<exists>i. wt_ws st = Some i \<and> sk_wire (wt_socks st ! i) = [])"
    and "\<And>k. wt_pending st = Some k \<Longrightarrow> answers k oc"
  shows "quiet_tx (settle_rpc oc st)"
proof (cases "wt_pending st")
  case None
  then show ?thesis using assms(1) by (simp add: settle_rpc_def quiet_tx_def)
next
  case (Some k)
  have "log_ok (settle_rpc oc st)" unfolding log_ok_def
  proof (intro conjI allI impI)
    fix k' oc' assume "(k', oc') \<in> set (wt_settled (settle_rpc oc st))"
    then have "(k', oc') \<in> set (wt_settled st) \<or> k' = k \<and> oc' = oc" using Some by (auto simp: settle_rpc_def)
    then show "k' < wt_rpcs (settle_rpc oc st)" "wt_pending (settle_rpc oc st) \<noteq> Some k'" "answers k' oc'"
      using assms(1,3) Some by (auto simp: wires_good_def log_ok_def settle_rpc_def)
  qed (use assms(1) Some in \<open>auto simp: wires_good_def log_ok_def settle_rpc_def\<close>)
  moreover have "wire_ok (settle_rpc oc st)"
    using assms(1,2) Some by (auto simp: wires_good_def wire_ok_def settle_rpc_def)
  ultimately show ?thesis using Some by (simp add: quiet_tx_def wires_good_def settle_rpc_def)
qed

lemma rawRequest_quiet:
  assumes "quiet_tx st" "rawRequest cfg st = (k, r, st')"
  shows "wires_good st' \<and> k = wt_rpcs st \<and> (r = None \<longrightarrow> wt_pending st' = Some k) \<and> (r \<noteq> None \<longrightarrow> quiet_tx st') \<and>
    wt_sent st' = wt_sent st \<and> wt_run st' = wt_run st \<and> wt_replies st' = wt_replies st"
proof -
  let ?p = "parked cfg st"
  have g: "wires_good ?p" by (rule parked_good[OF assms(1)])
  have wire: "wt_ws ?p = Some i \<Longrightarrow> sk_wire (wt_socks ?p ! i) = []" for i
    using quiet_wire[OF assms(1)] by (simp add: parked_def)
  have fail: "quiet_tx (settle_rpc (Rejected WS_CLOSED) ?p)"
    by (rule settle_quiet[OF g]) (use wire in \<open>auto simp: not_None_eq[symmetric] simp del: not_None_eq\<close>)
  have raw: "rawRequest cfg st = (case wt_ws ?p of None \<Rightarrow> (wt_rpcs st, Some WS_CLOSED, settle_rpc (Rejected WS_CLOSED) ?p)
      | Some i \<Rightarrow> (case sk_ready (wt_socks ?p ! i) of
              Connecting \<Rightarrow> (wt_rpcs st, Some WS_CLOSED, settle_rpc (Rejected WS_CLOSED) ?p)
            | SockOpen \<Rightarrow> (wt_rpcs st, None, ?p\<lparr>wt_socks := (wt_socks ?p)[i := (wt_socks ?p ! i)\<lparr>sk_wire := sk_wire (wt_socks ?p ! i) @ [wt_rpcs st]\<rparr>]\<rparr>)
            | _ \<Rightarrow> (wt_rpcs st, None, ?p)))"
    by (simp add: rawRequest_def Let_def split: option.split ready.split)
  have sent: "wires_good (?p\<lparr>wt_socks := (wt_socks ?p)[i := (wt_socks ?p ! i)\<lparr>sk_wire := sk_wire (wt_socks ?p ! i) @ [wt_rpcs st]\<rparr>]\<rparr>)"
    if "wt_ws ?p = Some i" for i
    using g wire[OF that] that by (auto simp: wires_good_def wire_ok_def log_ok_def nth_list_update parked_def)
  have f: "wt_pending ?p = Some (wt_rpcs st)" "wt_sent (settle_rpc oc ?p) = wt_sent st" "wt_run (settle_rpc oc ?p) = wt_run st"
    "wt_replies (settle_rpc oc ?p) = wt_replies st" "wt_sent ?p = wt_sent st" "wt_run ?p = wt_run st"
    "wt_replies ?p = wt_replies st" for oc by (simp_all add: parked_def settle_rpc_def)
  show ?thesis
    using assms(2) fail sent g f unfolding raw
    by (auto simp: quiet_tx_def split: option.splits ready.splits)
qed

section \<open>The run and its sends\<close>

definition of_run :: "nat \<Rightarrow> wst \<Rightarrow> (nat \<times> wframe \<times> nat \<times> nat) list" where
  "of_run r st = filter (\<lambda>e. fst e = r) (wt_sent st)"

definition once :: "wframe \<Rightarrow> wst \<Rightarrow> bool" where
  "once fr st \<longleftrightarrow> of_run (wt_run st) st = [] \<or> (\<exists>k. of_run (wt_run st) st = [(wt_run st, fr, 1, k)])"

definition may_send :: "wframe \<Rightarrow> nat \<Rightarrow> wst \<Rightarrow> bool" where
  "may_send fr att st \<longleftrightarrow> att = 1 \<and> of_run (wt_run st) st = [] \<or> att = 2 \<and> canRetryFrame fr \<and> once fr st"

text \<open>A resolved run got the answer to a frame it sent itself.\<close>

fun own_reply :: "(nat \<times> wframe \<times> nat \<times> nat) list \<Rightarrow> nat \<times> outcome \<Rightarrow> bool" where
  "own_reply sent (r, Resolved t m) \<longleftrightarrow> (\<exists>fr att. (r, fr, att, t) \<in> set sent)"
| "own_reply sent (r, Rejected e) \<longleftrightarrow> True"

lemma own_reply_mono: "own_reply s e \<Longrightarrow> own_reply (s @ s') e"
  by (cases "(s, e)" rule: own_reply.cases) auto

definition sent_ok :: "wst \<Rightarrow> bool" where
  "sent_ok st \<longleftrightarrow>
     (\<forall>e \<in> set (wt_sent st). fst e \<le> wt_run st) \<and>
     (\<forall>r. length (of_run r st) \<le> 1 \<or> length (of_run r st) = 2 \<and> (\<forall>e \<in> set (of_run r st). canRetryFrame (fst (snd e)))) \<and>
     (\<forall>e \<in> set (wt_replies st). own_reply (wt_sent st) e)"

definition phase_ok :: "wst \<Rightarrow> bool" where
  "phase_ok st \<longleftrightarrow> wires_good st \<and>
     (case wt_phase st of
        Idle \<Rightarrow> wt_pending st = None
      | Pausing fr due \<Rightarrow> wt_pending st = None \<and> may_send fr 1 st
      | Minting fr att \<Rightarrow> wt_pending st = None \<and> may_send fr att st
      | Opening fr att i \<Rightarrow> wt_pending st = None \<and> may_send fr att st
      | Readying fr att swallow fs k \<Rightarrow> wt_pending st = Some k \<and> may_send fr att st
      | Waiting fr att k \<Rightarrow> wt_pending st = Some k \<and> (att = 1 \<longrightarrow> once fr st) \<and> (wt_run st, fr, att, k) \<in> set (wt_sent st)
      | Backoff fr due \<Rightarrow> wt_pending st = None \<and> may_send fr 2 st)"

definition wst_inv :: "wst \<Rightarrow> bool" where
  "wst_inv st \<longleftrightarrow> sent_ok st \<and> phase_ok st"

text \<open>Fields the invariant does not read.\<close>

lemma good_cong:
  assumes "wires_good st" "wt_ws st' = wt_ws st" "wt_socks st' = wt_socks st" "wt_pending st' = wt_pending st"
    "wt_settled st' = wt_settled st" "wt_timers st' = wt_timers st" "wt_rpcs st' = wt_rpcs st"
  shows "wires_good st'"
  using assms by (simp add: wires_good_def wire_ok_def log_ok_def)

lemma sent_cong:
  assumes "wt_sent st' = wt_sent st" "wt_run st' = wt_run st" "wt_replies st' = wt_replies st"
  shows "sent_ok st' = sent_ok st" "once fr st' = once fr st" "may_send fr att st' = may_send fr att st"
  using assms by (simp_all add: sent_ok_def once_def may_send_def of_run_def)

lemma once_may_send: "may_send fr att st \<Longrightarrow> once fr st"
  by (auto simp: may_send_def once_def)

lemma reply_run_inv:
  assumes "quiet_tx st" "sent_ok st" "own_reply (wt_sent st) (wt_run st, oc)"
  shows "wst_inv (reply_run oc st)"
proof -
  have "wires_good (reply_run oc st)" by (rule good_cong[of st]) (use assms(1) in \<open>simp_all add: quiet_tx_def reply_run_def\<close>)
  moreover have "sent_ok (reply_run oc st)"
    using assms(2,3) by (auto simp: sent_ok_def reply_run_def of_run_def)
  ultimately show ?thesis using assms(1) by (simp add: wst_inv_def phase_ok_def quiet_tx_def reply_run_def)
qed

lemma quiet_drop: "quiet_tx st \<Longrightarrow> quiet_tx (dropSocket st)"
  by (simp add: quiet_tx_def good_drop)

lemma run_fail_inv:
  assumes "quiet_tx st" "sent_ok st" "att = 1 \<Longrightarrow> once fr st"
  shows "wst_inv (run_fail cfg fr att e st)"
proof -
  let ?st = "(dropSocket st)\<lparr>wt_reconnects := wt_reconnects st + 1,
     wt_phase := Backoff fr (wt_now (dropSocket st) + min 2000 (100 * 2 ^ wt_reconnects st))\<rparr>"
  have rej: "wst_inv (reply_run (Rejected m) st)" for m using reply_run_inv[OF assms(1,2)] by simp
  have rc: "wt_reconnects (dropSocket st) = wt_reconnects st" by (simp add: dropSocket_def split: option.split)
  have "wst_inv ?st" if "att = 1" "canRetryFrame fr"
  proof -
    have "wires_good ?st" by (rule good_cong[of "dropSocket st"]) (use quiet_drop[OF assms(1)] in \<open>simp_all add: quiet_tx_def\<close>)
    then show ?thesis
      using that assms sent_cong[of ?st st] by (simp add: wst_inv_def phase_ok_def quiet_tx_def may_send_def)
  qed
  then show ?thesis using rej rc by (auto simp: run_fail_def Let_def)
qed

lemma send_frame_inv:
  assumes "quiet_tx st" "sent_ok st" "may_send fr att st"
  shows "wst_inv (send_frame cfg fr att st)"
proof -
  let ?st = "st\<lparr>wt_sent := wt_sent st @ [(wt_run st, fr, att, wt_rpcs st)]\<rparr>"
  have q: "quiet_tx ?st" using assms(1) good_cong[of st ?st] by (simp add: quiet_tx_def)
  have own: "of_run (wt_run st) ?st = of_run (wt_run st) st @ [(wt_run st, fr, att, wt_rpcs st)]"
    "r \<noteq> wt_run st \<Longrightarrow> of_run r ?st = of_run r st" for r by (simp_all add: of_run_def)
  have s: "sent_ok ?st" 
  proof -
    have "length (of_run r ?st) \<le> 1 \<or> length (of_run r ?st) = 2 \<and> (\<forall>e \<in> set (of_run r ?st). canRetryFrame (fst (snd e)))" for r
      using assms(2,3) own by (cases "r = wt_run st") (auto simp: sent_ok_def may_send_def once_def)
    then show ?thesis using assms(2) own_reply_mono by (auto simp: sent_ok_def)
  qed
  have o: "att = 1 \<Longrightarrow> once fr ?st" using assms(3) own(1) by (auto simp: may_send_def once_def)
  obtain k r st' where raw: "rawRequest cfg ?st = (k, r, st')" by (cases "rawRequest cfg ?st")
  note R = rawRequest_quiet[OF q raw]
  show ?thesis
  proof (cases r)
    case None
    have "wires_good (st'\<lparr>wt_phase := Waiting fr att k\<rparr>)" using R good_cong[of st'] by simp
    then show ?thesis using None R s o raw sent_cong[of st' ?st] sent_cong[of "st'\<lparr>wt_phase := Waiting fr att k\<rparr>" ?st]
      by (auto simp: send_frame_def wst_inv_def phase_ok_def)
  next
    case (Some e)
    then show ?thesis using raw R s o sent_cong[of st' ?st] run_fail_inv[of st' att fr cfg e]
      by (simp add: send_frame_def)
  qed
qed

lemma connected_quiet: "quiet_tx st \<Longrightarrow> quiet_tx (connected st)"
  using good_cong[of st "connected st"] by (simp add: quiet_tx_def connected_def)

lemma connected_sent: "wt_sent (connected st) = wt_sent st" "wt_run (connected st) = wt_run st"
  "wt_replies (connected st) = wt_replies st"
  by (simp_all add: connected_def)

lemma ready_loop_inv:
  "quiet_tx st \<Longrightarrow> sent_ok st \<Longrightarrow> may_send fr att st \<Longrightarrow> wst_inv (ready_loop cfg fr att fs st)"
proof (induction cfg fr att fs st rule: ready_loop.induct)
  case (1 cfg fr att st)
  then show ?case using sent_cong[of "connected st" st] 
    by (simp add: send_frame_inv connected_quiet connected_sent)
next
  case (2 cfg fr att f swallow fs st)
  obtain k r st' where raw: "rawRequest cfg st = (k, r, st')" by (cases "rawRequest cfg st")
  note R = rawRequest_quiet[OF 2(2) raw]
  have s: "sent_ok st'" "may_send fr att st'" "once fr st'" using R 2(3,4) sent_cong[of st' st] once_may_send by auto
  show ?case
  proof (cases r)
    case None
    have "wires_good (st'\<lparr>wt_phase := Readying fr att swallow fs k\<rparr>)" using R good_cong[of st'] by simp
    then show ?thesis using None R s raw sent_cong[of "st'\<lparr>wt_phase := Readying fr att swallow fs k\<rparr>" st']
      by (auto simp: wst_inv_def phase_ok_def)
  next
    case (Some e)
    then show ?thesis using raw R s 2(1) run_fail_inv[of st' att fr cfg e] by auto
  qed
qed
section \<open>Opening and resuming\<close>

lemma new_sock_quiet:
  assumes "quiet_tx st" shows "quiet_tx (new_sock r st)"
proof -
  have "wire_ok (new_sock r st)"
    using assms quiet_wire[OF assms] by (auto simp: quiet_tx_def wires_good_def wire_ok_def new_sock_def nth_append)
  then show ?thesis using assms by (auto simp: quiet_tx_def wires_good_def log_ok_def new_sock_def)
qed

lemma new_sock_sent: "wt_sent (new_sock r st) = wt_sent st" "wt_run (new_sock r st) = wt_run st"
  "wt_replies (new_sock r st) = wt_replies st"
  by (simp_all add: new_sock_def)

lemma opened_inv: "quiet_tx st \<Longrightarrow> sent_ok st \<Longrightarrow> may_send fr att st \<Longrightarrow> wst_inv (opened cfg fr att st)"
  unfolding opened_def
  using good_cong[of st "st\<lparr>wt_reconnects := 0\<rparr>"] sent_cong[of "st\<lparr>wt_reconnects := 0\<rparr>" st]
  by (intro ready_loop_inv) (simp_all add: quiet_tx_def)

lemma new_sock_opened:
  "quiet_tx st \<Longrightarrow> sent_ok st \<Longrightarrow> may_send fr att st \<Longrightarrow> wst_inv (opened cfg fr att (new_sock r st))"
  using sent_cong[of "new_sock r st" st] by (intro opened_inv) (simp_all add: new_sock_quiet new_sock_sent)

lemma run_open_inv:
  assumes "quiet_tx st" "sent_ok st" "may_send fr att st"
  shows "wst_inv (run_open cfg fr att st)"
proof -
  have ph: "wst_inv (st'\<lparr>wt_phase := p\<rparr>)" if "quiet_tx st'" "sent_ok st'" "may_send fr att st'"
    "p = Minting fr att \<or> p = Opening fr att i" for st' p i
    using that good_cong[of st' "st'\<lparr>wt_phase := p\<rparr>"] sent_cong[of "st'\<lparr>wt_phase := p\<rparr>" st']
    by (auto simp: wst_inv_def phase_ok_def quiet_tx_def)
  have ctor: "wst_inv ((new_sock Connecting st)\<lparr>wt_phase := Opening fr att i\<rparr>)" for i
    using assms sent_cong[of "new_sock Connecting st" st] by (intro ph[of _ _ i]) (simp_all add: new_sock_quiet new_sock_sent)
  let ?one = "st\<lparr>wt_oneShotConsumed := True\<rparr>"
  have one: "quiet_tx ?one" "sent_ok ?one" "may_send fr att ?one"
    using assms good_cong[of st ?one] sent_cong[of ?one st] by (simp_all add: quiet_tx_def)
  show ?thesis
    using assms ph[OF assms] ctor new_sock_opened[OF one] once_may_send[OF assms(3)]
    by (auto simp: run_open_def send_frame_inv run_fail_inv Let_def split: sock_mode.split)
qed

lemma start_run_inv:
  assumes "wst_inv st" "wt_phase st = Idle"
  shows "wst_inv (start_run cfg fr st)"
proof -
  let ?st = "st\<lparr>wt_run := wt_run st + 1\<rparr>"
  have q: "quiet_tx ?st" using assms good_cong[of st ?st] by (simp add: wst_inv_def phase_ok_def quiet_tx_def)
  have s: "sent_ok ?st" using assms(1) by (auto simp: wst_inv_def sent_ok_def of_run_def)
  have m: "may_send fr 1 ?st"
    using assms(1) by (fastforce simp: wst_inv_def sent_ok_def may_send_def of_run_def filter_empty_conv)
  let ?p = "\<lambda>due. (dropSocket (?st\<lparr>wt_suppress := True\<rparr>))\<lparr>wt_phase := Pausing fr due\<rparr>"
  have "wst_inv (?p due)" for due
  proof -
    have "quiet_tx (dropSocket (?st\<lparr>wt_suppress := True\<rparr>))"
      using q good_cong[of ?st "?st\<lparr>wt_suppress := True\<rparr>"] by (intro quiet_drop) (simp add: quiet_tx_def)
    then have "wires_good (?p due)" "wt_pending (?p due) = None"
      using good_cong[of "dropSocket (?st\<lparr>wt_suppress := True\<rparr>)" "?p due"] by (simp_all add: quiet_tx_def)
    moreover have "sent_ok (?p due)" "may_send fr 1 (?p due)" using s m sent_cong[of "?p due" ?st] by simp_all
    ultimately show ?thesis by (simp add: wst_inv_def phase_ok_def)
  qed
  then show ?thesis using run_open_inv[OF q s m] by (simp add: start_run_def Let_def)
qed

text \<open>The state between a handler and the continuation of what it settled.\<close>

definition mid :: "wst \<Rightarrow> bool" where
  "mid st \<longleftrightarrow> wires_good st \<and> sent_ok st \<and>
     (case wt_phase st of
        Readying fr att swallow fs k \<Rightarrow>
          (wt_pending st = Some k \<or> wt_pending st = None \<and> map_of (wt_settled st) k \<noteq> None) \<and> may_send fr att st
      | Waiting fr att k \<Rightarrow>
          (wt_pending st = Some k \<or> wt_pending st = None \<and> map_of (wt_settled st) k \<noteq> None) \<and>
          (att = 1 \<longrightarrow> once fr st) \<and> (wt_run st, fr, att, k) \<in> set (wt_sent st)
      | _ \<Rightarrow> phase_ok st)"

lemma good_settled: "wires_good st \<Longrightarrow> map_of (wt_settled st) k = Some oc \<Longrightarrow> answers k oc"
  using map_of_SomeD[of "wt_settled st" k oc] by (auto simp: wires_good_def log_ok_def)

lemma pending_unsettled: "wires_good st \<Longrightarrow> wt_pending st = Some k \<Longrightarrow> map_of (wt_settled st) k = None"
  using map_of_SomeD[of "wt_settled st" k] by (cases "map_of (wt_settled st) k") (auto simp: wires_good_def log_ok_def)

lemma arm_simps:
  "wt_ws (armKeepAlive cfg st) = wt_ws st" "wt_socks (armKeepAlive cfg st) = wt_socks st"
  "wt_pending (armKeepAlive cfg st) = wt_pending st" "wt_settled (armKeepAlive cfg st) = wt_settled st"
  "wt_timers (armKeepAlive cfg st) = wt_timers st" "wt_rpcs (armKeepAlive cfg st) = wt_rpcs st"
  "wt_sent (armKeepAlive cfg st) = wt_sent st" "wt_run (armKeepAlive cfg st) = wt_run st"
  "wt_replies (armKeepAlive cfg st) = wt_replies st"
  by (simp_all add: armKeepAlive_def Let_def)

lemma run_ok_inv:
  assumes "quiet_tx st" "sent_ok st" "answers k oc" "(wt_run st, fr, att, k) \<in> set (wt_sent st)"
  shows "wst_inv (run_ok cfg fr oc st)"
proof -
  have own: "own_reply (wt_sent st) (wt_run st, oc)" using assms(3,4) by (cases oc) auto
  have "quiet_tx (armKeepAlive cfg st)" "sent_ok (armKeepAlive cfg st)"
    using assms(1,2) good_cong[of st "armKeepAlive cfg st"] sent_cong[of "armKeepAlive cfg st" st]
    by (simp_all add: quiet_tx_def arm_simps)
  then show ?thesis using own assms(1,2) by (simp add: run_ok_def reply_run_inv arm_simps)
qed

lemma resume_inv:
  assumes "mid st" shows "wst_inv (resume_run cfg st)"
proof (cases "wt_phase st")
  case (Waiting fr att k)
  have g: "wires_good st" "sent_ok st" using assms by (simp_all add: mid_def)
  show ?thesis
  proof (cases "map_of (wt_settled st) k")
    case None
    then show ?thesis using assms Waiting by (auto simp: resume_run_def mid_def wst_inv_def phase_ok_def)
  next
    case (Some oc)
    then have "quiet_tx st" using assms Waiting pending_unsettled[OF g(1)] by (auto simp: mid_def quiet_tx_def)
    then show ?thesis using Some Waiting assms g run_ok_inv[OF _ g(2) good_settled[OF g(1) Some]]
      by (auto simp: resume_run_def mid_def run_fail_inv split: outcome.split)
  qed
next
  case (Readying fr att swallow fs k)
  have g: "wires_good st" "sent_ok st" using assms by (simp_all add: mid_def)
  show ?thesis
  proof (cases "map_of (wt_settled st) k")
    case None
    then show ?thesis using assms Readying by (auto simp: resume_run_def mid_def wst_inv_def phase_ok_def)
  next
    case (Some oc)
    then have "quiet_tx st" using assms Readying pending_unsettled[OF g(1)] by (auto simp: mid_def quiet_tx_def)
    then show ?thesis using Some Readying assms g once_may_send
      by (auto simp: resume_run_def mid_def run_fail_inv ready_loop_inv split: outcome.split)
  qed
qed (use assms in \<open>simp_all add: resume_run_def mid_def wst_inv_def\<close>)

text \<open>What a handler may do to a state that satisfies the invariant.\<close>

lemma mid_after:
  assumes "wst_inv st" "wires_good st'" "wt_phase st' = wt_phase st" "wt_sent st' = wt_sent st" "wt_run st' = wt_run st"
    and "wt_replies st' = wt_replies st"
    and "wt_pending st' = wt_pending st \<or>
         wt_pending st' = None \<and> (\<forall>k. wt_pending st = Some k \<longrightarrow> map_of (wt_settled st') k \<noteq> None)"
  shows "mid st'"
  using assms sent_cong[of st' st] by (auto simp: mid_def wst_inv_def phase_ok_def split: phase.splits)

text \<open>A handler that leaves the parked request alone keeps the invariant itself.\<close>

lemma inv_after:
  assumes "wst_inv st" "wires_good st'" "wt_phase st' = wt_phase st" "wt_sent st' = wt_sent st" "wt_run st' = wt_run st"
    and "wt_replies st' = wt_replies st" "wt_pending st' = wt_pending st"
  shows "wst_inv st'"
  using assms sent_cong[of st' st] by (auto simp: wst_inv_def phase_ok_def split: phase.splits)

lemma inv_good: "wst_inv st \<Longrightarrow> wires_good st"
  by (simp add: wst_inv_def phase_ok_def)

lemma settle_simps:
  "wt_phase (settle_rpc oc st) = wt_phase st" "wt_sent (settle_rpc oc st) = wt_sent st" "wt_run (settle_rpc oc st) = wt_run st"
  "wt_replies (settle_rpc oc st) = wt_replies st"
  by (simp_all add: settle_rpc_def split: option.split)

lemma mid_settle:
  assumes "wst_inv st" "wires_good st1" "wt_phase st1 = wt_phase st" "wt_sent st1 = wt_sent st" "wt_run st1 = wt_run st"
    and "wt_replies st1 = wt_replies st" "wt_pending st1 = wt_pending st"
    and "wt_ws st1 = None \<or> (\<exists>i. wt_ws st1 = Some i \<and> sk_wire (wt_socks st1 ! i) = [])"
    and "\<And>k. wt_pending st1 = Some k \<Longrightarrow> answers k oc"
  shows "mid (settle_rpc oc st1)"
proof (rule mid_after[OF assms(1)])
  show "wires_good (settle_rpc oc st1)" using settle_quiet[OF assms(2,8,9)] by (simp add: quiet_tx_def)
  show "wt_pending (settle_rpc oc st1) = wt_pending st \<or>
    wt_pending (settle_rpc oc st1) = None \<and> (\<forall>k. wt_pending st = Some k \<longrightarrow> map_of (wt_settled (settle_rpc oc st1)) k \<noteq> None)"
    using assms(7) by (auto simp: settle_rpc_def map_of_eq_None_iff split: option.splits)
qed (use assms in \<open>simp_all add: settle_simps\<close>)

lemma sock_ready_good:
  assumes "wires_good st" "sk_ready (wt_socks st ! i) \<noteq> SockClosed" shows "wires_good (sock_ready i r st)"
  using assms by (cases "i < length (wt_socks st)")
    (auto simp: wires_good_def wire_ok_def log_ok_def sock_ready_def nth_list_update)

lemma sock_ready_simps [simp]:
  "wt_phase (sock_ready i r st) = wt_phase st" "wt_sent (sock_ready i r st) = wt_sent st"
  "wt_run (sock_ready i r st) = wt_run st" "wt_replies (sock_ready i r st) = wt_replies st"
  "wt_pending (sock_ready i r st) = wt_pending st" "wt_ws (sock_ready i r st) = wt_ws st"
  by (simp_all add: sock_ready_def)

lemma deliver_inv:
  assumes "wst_inv st" "i < length (wt_socks st)" "tag \<in> set (sk_wire (wt_socks st ! i))"
    and "sk_ready (wt_socks st ! i) \<in> {SockOpen, Closing}" "classify_msg text parsed \<in> {BadFrame, Reply}"
  shows "wst_inv (deliver cfg i tag text parsed st)"
proof -
  let ?s = "wt_socks st ! i"
  let ?st = "st\<lparr>wt_socks := (wt_socks st)[i := ?s\<lparr>sk_wire := remove1 tag (sk_wire ?s)\<rparr>]\<rparr>"
  note g = inv_good[OF assms(1)]
  show ?thesis
  proof (cases "sk_attached ?s")
    case False
    then have "wires_good ?st" using g assms(2)
      by (auto simp: wires_good_def wire_ok_def log_ok_def nth_list_update)
    then show ?thesis using False inv_after[OF assms(1), of ?st] by (simp add: deliver_def Let_def)
  next
    case True
    have cur: "wt_ws st = Some i"
      using g True assms(2-4) by (auto simp: wires_good_def wire_ok_def)
    then have w: "distinct (sk_wire ?s)" "\<forall>k \<in> set (sk_wire ?s). wt_pending st = Some k"
      using g by (auto simp: wires_good_def wire_ok_def)
    then have pend: "wt_pending st = Some tag" using assms(3) by blast
    then have "set (remove1 tag (sk_wire ?s)) = {}" using w by auto
    then have empty: "remove1 tag (sk_wire ?s) = []" by simp
    then have wires_good: "wires_good ?st" using g assms(2) cur True
      by (auto simp: wires_good_def wire_ok_def log_ok_def nth_list_update)
    have "mid (onMessage tag text parsed ?st)"
    proof -
      have "mid (settle_rpc oc ?st)" if "answers tag oc" for oc
        by (rule mid_settle[OF assms(1) wires_good]) (use that pend cur empty assms(2) in auto)
      then show ?thesis using assms(5) by (auto simp: onMessage_def)
    qed
    then show ?thesis using True resume_inv by (simp add: deliver_def Let_def)
  qed
qed

lemma onClose_mid:
  assumes "wst_inv st" "wires_good st1" "wires_good (st1\<lparr>wt_ws := None\<rparr>)" "wt_phase st1 = wt_phase st" "wt_sent st1 = wt_sent st"
    "wt_run st1 = wt_run st" "wt_replies st1 = wt_replies st" "wt_pending st1 = wt_pending st"
  shows "mid (onClose cfg st1)"
proof -
  let ?s = "settle_rpc (Rejected WS_CLOSED) (st1\<lparr>wt_ws := None\<rparr>)"
  have s: "mid ?s" by (rule mid_settle[OF assms(1,3)]) (use assms in auto)
  let ?c = "?s\<lparr>wt_callbacks := wt_callbacks ?s @ [''onClose'']\<rparr>"
  have "wires_good ?s" using s by (simp add: mid_def)
  then have "wires_good ?c" using good_cong[of ?s ?c] by simp
  then have "mid ?c" using s sent_cong[of ?c ?s] by (auto simp: mid_def phase_ok_def split: phase.splits)
  moreover have "mid st1" by (rule mid_after[OF assms(1,2)]) (use assms in auto)
  ultimately show ?thesis using s by (simp add: onClose_def Let_def)
qed

lemma close_event_inv:
  assumes "wst_inv st" "i < length (wt_socks st)" "sk_ready (wt_socks st ! i) \<noteq> SockClosed"
    and "wt_ws st = Some i \<or> wt_ws st = None"
  shows "wst_inv (close_event cfg i st)"
proof -
  let ?st = "sock_ready i SockClosed st"
  note g = inv_good[OF assms(1)]
  have g1: "wires_good ?st" by (rule sock_ready_good[OF g assms(3)])
  have "wires_good (?st\<lparr>wt_ws := None\<rparr>)"
    using g assms(2,4) by (auto simp: wires_good_def wire_ok_def log_ok_def sock_ready_def nth_list_update)
  from onClose_mid[OF assms(1) g1 this] have "mid (onClose cfg ?st)" by simp
  then show ?thesis using resume_inv inv_after[OF assms(1) g1] by (simp add: close_event_def Let_def)
qed

lemma timeout_inv:
  assumes "wst_inv st" "(k, due) \<in> set (wt_timers st)"
  shows "wst_inv (resume_run cfg (timeout k st))"
proof -
  note g = inv_good[OF assms(1)]
  have pend: "wt_pending st = Some k" using g assms(2) by (auto simp: wires_good_def log_ok_def)
  let ?d = "dropSocket (st\<lparr>wt_pending := None, wt_timers := filter (\<lambda>(k', _). k' \<noteq> k) (wt_timers st)\<rparr>)"
  let ?t = "?d\<lparr>wt_settled := wt_settled ?d @ [(k, Rejected TIMED_OUT)]\<rparr>"
  have t: "timeout k st = ?t" using pend by (simp add: timeout_def Let_def)
  have timers: "filter (\<lambda>(k', _). k' \<noteq> k) (wt_timers st) = []"
    using g pend by (auto simp: wires_good_def log_ok_def filter_empty_conv)
  have "wire_ok ?d"
    using g by (auto simp: wires_good_def wire_ok_def dropSocket_def nth_list_update split: option.split)
  then have "wire_ok ?t" by (simp add: wire_ok_def)
  moreover have "log_ok ?t" unfolding log_ok_def
  proof (intro conjI allI impI)
    fix k' oc assume "(k', oc) \<in> set (wt_settled ?t)"
    then have "(k', oc) \<in> set (wt_settled st) \<or> k' = k \<and> oc = Rejected TIMED_OUT" by auto
    then show "k' < wt_rpcs ?t" "wt_pending ?t \<noteq> Some k'" "answers k' oc"
      using g pend by (auto simp: wires_good_def log_ok_def)
  qed (use timers in auto)
  ultimately have "wires_good ?t" by (simp add: wires_good_def)
  then have "mid ?t"
    by (rule mid_after[OF assms(1)]) (use pend in \<open>auto simp: map_of_eq_None_iff\<close>)
  then show ?thesis unfolding t by (rule resume_inv)
qed

lemma dropSocket_inv:
  assumes "wst_inv st" shows "wst_inv (dropSocket st)"
  by (rule inv_after[OF assms good_drop[OF inv_good[OF assms]]]) simp_all

lemma inv_cong:
  assumes "wst_inv st" "wt_ws st' = wt_ws st" "wt_socks st' = wt_socks st" "wt_pending st' = wt_pending st"
    "wt_settled st' = wt_settled st" "wt_timers st' = wt_timers st" "wt_rpcs st' = wt_rpcs st" "wt_phase st' = wt_phase st"
    "wt_sent st' = wt_sent st" "wt_run st' = wt_run st" "wt_replies st' = wt_replies st"
  shows "wst_inv st'"
  using assms inv_after[OF assms(1) good_cong[OF inv_good[OF assms(1)]]] by simp

lemma tick_inv: "wst_inv st \<Longrightarrow> wst_inv (tick st)"
  by (auto simp: tick_def Let_def intro!: dropSocket_inv elim: inv_cong)

lemma close_inv: "wst_inv st \<Longrightarrow> wst_inv (close st)"
  by (auto simp: close_def clearKeepAlive_def intro!: dropSocket_inv elim: inv_cong)

lemma tx_step_inv:
  "tx_step cfg stale st st' \<Longrightarrow> \<not> stale \<Longrightarrow> wst_inv st \<Longrightarrow> wst_inv st'"
proof (induction rule: tx_step.induct)
  case (Start st fr)
  then show ?case by (simp add: start_run_inv)
next
  case (Resumed st fr due)
  then show ?case by (intro run_open_inv) (simp_all add: wst_inv_def phase_ok_def quiet_tx_def)
next
  case (Minted st fr att)
  then show ?case by (intro new_sock_opened) (simp_all add: wst_inv_def phase_ok_def quiet_tx_def)
next
  case (MintFails st fr att e)
  then show ?case by (intro run_fail_inv) (auto simp: wst_inv_def phase_ok_def quiet_tx_def dest: once_may_send)
next
  case (Opens st fr att i)
  then have "wires_good (sock_ready i SockOpen st)" using sock_ready_good inv_good by simp
  then show ?case using Opens sent_cong[of "sock_ready i SockOpen st" st]
    by (intro opened_inv) (simp_all add: wst_inv_def phase_ok_def quiet_tx_def)
next
  case (OpenFails st fr att i)
  then have "wires_good (sock_ready i Closing st)" using sock_ready_good inv_good by auto
  then show ?case using OpenFails sent_cong[of "sock_ready i Closing st" st]
    by (intro run_fail_inv) (auto simp: wst_inv_def phase_ok_def quiet_tx_def dest: once_may_send)
next
  case (OutOfBand i st msg pm)
  have g: "wires_good (onMessage 0 msg pm st)"
    by (rule good_cong[OF inv_good[OF OutOfBand(5)]]) (use OutOfBand(3) in \<open>auto simp: onMessage_def\<close>)
  have "mid (onMessage 0 msg pm st)"
    by (rule mid_after[OF OutOfBand(5) g]) (use OutOfBand(3) in \<open>auto simp: onMessage_def\<close>)
  then show ?case by (rule resume_inv)
next
  case (PeerCloses i st)
  then show ?case using sock_ready_good[OF inv_good, of st i Closing] by (intro inv_after[OF PeerCloses(4)]) simp_all
next
  case (Retries st fr due)
  then show ?case by (intro run_open_inv) (simp_all add: wst_inv_def phase_ok_def quiet_tx_def)
next
  case (Elapses d st)
  then show ?case by (auto elim: inv_cong)
qed (simp_all add: deliver_inv close_event_inv timeout_inv tick_inv close_inv)

lemma new_inv: "wst_inv new_WsTransport"
  by (simp add: wst_inv_def sent_ok_def phase_ok_def wires_good_def wire_ok_def log_ok_def new_WsTransport_def of_run_def)

lemma reachable_inv: "(tx_step cfg False)\<^sup>*\<^sup>* new_WsTransport st \<Longrightarrow> wst_inv st"
  by (induction rule: rtranclp_induct) (auto intro: new_inv tx_step_inv)

section \<open>Properties\<close>


text \<open>A request's frame goes out at most twice, and a second time only if running it twice is
  harmless: a probe, a configuration, or an evaluation that carries a request identifier.\<close>

theorem at_most_one_retry:
  assumes "(tx_step cfg False)\<^sup>*\<^sup>* new_WsTransport st"
  shows "length (of_run r st) \<le> 2 \<and>
    ((r, fr, att, k) \<in> set (wt_sent st) \<and> \<not> canRetryFrame fr \<longrightarrow> of_run r st = [(r, fr, att, k)])"
proof -
  have s: "length (of_run r st) \<le> 1 \<or> length (of_run r st) = 2 \<and> (\<forall>e \<in> set (of_run r st). canRetryFrame (fst (snd e)))"
    using reachable_inv[OF assms] by (simp add: wst_inv_def sent_ok_def)
  have "of_run r st = [(r, fr, att, k)]" if "(r, fr, att, k) \<in> set (wt_sent st)" "\<not> canRetryFrame fr"
  proof -
    have e: "(r, fr, att, k) \<in> set (of_run r st)" using that(1) by (simp add: of_run_def)
    then have "length (of_run r st) \<le> 1" using s that(2) by fastforce
    then show ?thesis using e by (cases "of_run r st") auto
  qed
  then show ?thesis using s by auto
qed

definition demo_cfg :: ws_cfg where
  "demo_cfg = \<lparr>wc_autoReconnect = True, wc_keepAliveMs = 0, wc_mode = Ctor, wc_ready = [], wc_timeoutMs = 60000\<rparr>"

definition demo_frame :: wframe where
  "demo_frame = \<lparr>wf_t = ''vfs-read'', wf_reqId = None\<rparr>"

definition demo1 :: wst where "demo1 = start_run demo_cfg demo_frame new_WsTransport"
definition demo2 :: wst where "demo2 = opened demo_cfg demo_frame 1 (sock_ready 0 SockOpen demo1)"
definition demo3 :: wst where "demo3 = deliver demo_cfg 0 0 ''1'' (Some (JNum 1)) demo2"

lemma demo3_reached: "(tx_step demo_cfg stale)\<^sup>*\<^sup>* new_WsTransport demo3"
proof -
  have 1: "tx_step demo_cfg stale new_WsTransport demo1"
    unfolding demo1_def by (rule tx_step.Start) (simp add: new_WsTransport_def)
  have "wt_phase demo1 = Opening demo_frame 1 0" "sk_ready (wt_socks demo1 ! 0) = Connecting" by code_simp+
  then have 2: "tx_step demo_cfg stale demo1 demo2" unfolding demo2_def by (rule tx_step.Opens)
  have p: "0 < length (wt_socks demo2)" "0 \<in> set (sk_wire (wt_socks demo2 ! 0))"
    "sk_ready (wt_socks demo2 ! 0) \<in> {SockOpen, Closing}" "classify_msg ''1'' (Some (JNum 1)) \<in> {BadFrame, Reply}"
    by code_simp+
  have 3: "tx_step demo_cfg stale demo2 demo3" unfolding demo3_def by (rule tx_step.Answer[OF p])
  note step = converse_rtranclp_into_rtranclp[where r = "tx_step demo_cfg stale"]
  show ?thesis by (rule step[OF 1 step[OF 2 step[OF 3 rtranclp.rtrancl_refl]]])
qed


theorem at_most_one_retry_witness:
  "of_run 1 demo3 = [(1, demo_frame, 1, 0)]"
proof -
  have "(1, demo_frame, 1, 0) \<in> set (wt_sent demo3)" "\<not> canRetryFrame demo_frame" by code_simp+
  with at_most_one_retry[OF demo3_reached, of 1 demo_frame 1 0] show ?thesis by simp
qed

section \<open>Where requests go wrong\<close>

text \<open>The remaining premise is needed.  The socket of the first request is closing when the second
  starts: \<open>open\<close> puts a new socket in its place and leaves its listeners.  Its close event then rejects
  the second request and forgets the new socket, whose listeners stay too; the third request, on a
  third socket, is resolved by the answer to the second.\<close>

definition stale1 :: wst where "stale1 = sock_ready 0 Closing demo3"
definition stale2 :: wst where "stale2 = start_run demo_cfg demo_frame stale1"
definition stale3 :: wst where "stale3 = opened demo_cfg demo_frame 1 (sock_ready 1 SockOpen stale2)"
definition stale4 :: wst where "stale4 = close_event demo_cfg 0 stale3"
definition stale5 :: wst where "stale5 = start_run demo_cfg demo_frame stale4"
definition stale6 :: wst where "stale6 = opened demo_cfg demo_frame 1 (sock_ready 2 SockOpen stale5)"
definition stale7 :: wst where "stale7 = deliver demo_cfg 1 1 ''2'' (Some (JNum 2)) stale6"

lemma stale_cross_talk:
  "(tx_step demo_cfg True)\<^sup>*\<^sup>* new_WsTransport stale7 \<and>
   wt_replies stale7 = [(1, Resolved 0 (JNum 1)), (2, Rejected BEFORE_REPLY), (3, Resolved 1 (JNum 2))] \<and>
   wt_sent stale7 = [(1, demo_frame, 1, 0), (2, demo_frame, 1, 1), (3, demo_frame, 1, 2)]"
proof -
  have p1: "0 < length (wt_socks demo3)" "sk_ready (wt_socks demo3 ! 0) = SockOpen" by code_simp+
  have 1: "tx_step demo_cfg True demo3 stale1" unfolding stale1_def by (rule tx_step.PeerCloses[OF p1])
  have "wt_phase stale1 = Idle" by code_simp
  then have 2: "tx_step demo_cfg True stale1 stale2" unfolding stale2_def by (rule tx_step.Start)
  have p3: "wt_phase stale2 = Opening demo_frame 1 1" "sk_ready (wt_socks stale2 ! 1) = Connecting" by code_simp+
  have 3: "tx_step demo_cfg True stale2 stale3" unfolding stale3_def by (rule tx_step.Opens[OF p3])
  have p4: "0 < length (wt_socks stale3)" "sk_ready (wt_socks stale3 ! 0) \<noteq> SockClosed" by code_simp+
  have 4: "tx_step demo_cfg True stale3 stale4" unfolding stale4_def by (rule tx_step.Closed[OF p4]) simp
  have "wt_phase stale4 = Idle" by code_simp
  then have 5: "tx_step demo_cfg True stale4 stale5" unfolding stale5_def by (rule tx_step.Start)
  have p6: "wt_phase stale5 = Opening demo_frame 1 2" "sk_ready (wt_socks stale5 ! 2) = Connecting" by code_simp+
  have 6: "tx_step demo_cfg True stale5 stale6" unfolding stale6_def by (rule tx_step.Opens[OF p6])
  have p7: "1 < length (wt_socks stale6)" "1 \<in> set (sk_wire (wt_socks stale6 ! 1))"
    "sk_ready (wt_socks stale6 ! 1) \<in> {SockOpen, Closing}" "classify_msg ''2'' (Some (JNum 2)) \<in> {BadFrame, Reply}"
    by code_simp+
  have 7: "tx_step demo_cfg True stale6 stale7" unfolding stale7_def by (rule tx_step.Answer[OF p7])
  note step = converse_rtranclp_into_rtranclp[where r = "tx_step demo_cfg True"]
  have "(tx_step demo_cfg True)\<^sup>*\<^sup>* demo3 stale7"
    by (rule step[OF 1 step[OF 2 step[OF 3 step[OF 4 step[OF 5 step[OF 6 step[OF 7 rtranclp.rtrancl_refl]]]]]]])
  moreover have "wt_replies stale7 = [(1, Resolved 0 (JNum 1)), (2, Rejected BEFORE_REPLY), (3, Resolved 1 (JNum 2))]"
    "wt_sent stale7 = [(1, demo_frame, 1, 0), (2, demo_frame, 1, 1), (3, demo_frame, 1, 2)]"
    by code_simp+
  ultimately show ?thesis using demo3_reached by (metis rtranclp_trans)
qed

text \<open>The keep-alive window ends while a request is in flight: its socket is dropped, the request stays
  parked, and nothing but its own time-out can settle_rpc it.\<close>

lemma keepalive_drops_live_request:
  assumes "\<not> wt_closed st" "wt_keepUntil st \<le> wt_now st" "wt_ws st = Some i" "i < length (wt_socks st)"
  shows "wt_ws (tick st) = None \<and> \<not> sk_attached (wt_socks (tick st) ! i) \<and> wt_pending (tick st) = wt_pending st \<and>
    wt_timers (tick st) = wt_timers st \<and> wt_phase (tick st) = wt_phase st"
  using assms by (simp add: tick_def dropSocket_def Let_def)

text \<open>For a second after any drop the close of the socket that replaced it is not noticed.\<close>

lemma close_ignored_after_drop:
  "wt_ws st \<noteq> None \<Longrightarrow> wt_now st' < wt_now st + 1000 \<Longrightarrow> wt_ignoreUntil st' = wt_ignoreUntil (dropSocket st) \<Longrightarrow>
   onClose cfg st' = st'"
  by (auto simp: onClose_def dropSocket_def)

text \<open>\<open>close\<close> leaves the request in flight parked, and a later request opens a new socket.\<close>

lemma close_keeps_pending: "wt_pending (close st) = wt_pending st \<and> wt_timers (close st) = wt_timers st"
  by (simp add: close_def clearKeepAlive_def)

lemma close_does_not_stay_closed:
  "wc_mode cfg = Ctor \<Longrightarrow> wt_ws (start_run cfg fr (close st)) = Some (length (wt_socks st))"
  by (simp add: start_run_def run_open_def sock_open_def new_sock_def close_def clearKeepAlive_def Let_def dropSocket_def split: option.split)

text \<open>The second attempt lets the internal mark of a lost socket through to the caller.\<close>

lemma mark_leaks: "run_fail cfg fr 2 WS_CLOSED st = reply_run (Rejected ''__ws_closed__'') st"
  by (simp add: run_fail_def WS_CLOSED_def)

end
