(* ===== verification/SdkSession.thy ===== *)
theory SdkSession
  imports SdkFiles
begin

text \<open>
  The session object of the client library \<open>packages/sdk/src/index.ts\<close>: \<open>HttpTransport\<close>, the sources
  it composes (bootstrap, namespaces, key/value access), evaluation with its interceptors, the reading
  of a reply, artifacts, workers and the sandbox bridge.  \<open>JSON.parse\<close>, the text of a host function
  and the request identifiers' clock are parameters.
\<close>

section \<open>The HTTP transport\<close>

record cloud_call =
  hc_method :: string
  hc_path :: string
  hc_query :: "(string, string) omap"
  hc_body :: "json option"

definition frame_t :: "json \<Rightarrow> string" where
  "frame_t frame = (case json_get ''t'' frame of Some (JStr t) \<Rightarrow> t | _ \<Rightarrow> '''')"

text \<open>\<open>String(frame.src ?? "")\<close>.\<close>

definition frame_src :: "json \<Rightarrow> string" where
  "frame_src frame = (case json_get ''src'' frame of None \<Rightarrow> '''' | Some JNull \<Rightarrow> '''' | Some v \<Rightarrow> js_String v)"

definition http_get_or_post :: "string \<Rightarrow> string \<Rightarrow> (string \<times> string) list \<Rightarrow> string \<Rightarrow> json option \<Rightarrow> cloud_call" where
  "http_get_or_post session method params path body =
     \<lparr>hc_method = method, hc_path = path,
      hc_query = foldl (\<lambda>q (k, v). AList.update k v q) [(''session'', session)] params, hc_body = body\<rparr>"

definition cloud_request :: "string \<Rightarrow> json \<Rightarrow> cloud_call" where
  "cloud_request session frame =
     (let t = frame_t frame in
      if t = ''create'' then
        http_get_or_post session ''POST'' [] ''/configure''
          (Some (case js_field ''config'' (Some frame) of Some c \<Rightarrow> c | None \<Rightarrow> JObj []))
      else if t = ''eval'' then http_get_or_post session ''GET'' [(''src'', frame_src frame)] ''/eval'' None
      else if t = ''ping'' \<or> t = ''gen'' then http_get_or_post session ''GET'' [] ''/status'' None
      else if t = ''reset'' \<or> t = ''evict'' then http_get_or_post session ''GET'' [] ''/evict'' None
      else http_get_or_post session ''POST'' [] ''/frame'' (Some frame))"

definition cloud_reply :: "(string \<Rightarrow> json option) \<Rightarrow> nat \<Rightarrow> string \<Rightarrow> (engram_error, json) result" where
  "cloud_reply parse status text =
     (if \<not> (200 \<le> status \<and> status \<le> 299)
      then Inl (EngramError (''cloud '' @ nat_str status @ '': '' @ take 300 text))
      else (case parse text of
          Some v \<Rightarrow> Inr v
        | None \<Rightarrow> Inr (JObj [(''ok'', JBool True), (''raw'', JStr text)])))"

section \<open>Composed sources\<close>

definition NL :: string where "NL = [CHR 0x0A]"
definition CTX_GLOBAL :: string where "CTX_GLOBAL = ''__engram_ctx''"
definition NS_REGISTRY :: string where "NS_REGISTRY = ''__engram_host_ns''"

definition js_lines :: "string list \<Rightarrow> string" where
  "js_lines segs = js_join CHR 0x0A segs"

text \<open>\<open>globalThis[name] ||= (fn);\<close> for each helper, in insertion order.\<close>

definition serialiseEnvGlobals :: "(string \<times> string) list \<Rightarrow> string" where
  "serialiseEnvGlobals globals =
     js_lines (map (\<lambda>(name, fn). ''globalThis['' @ json_quote name @ ''] ||= ('' @ fn @ '');'') globals)"

definition hostModuleShim :: "string \<Rightarrow> string list \<Rightarrow> string" where
  "hostModuleShim ns fnNames = js_lines
     [''(globalThis.'' @ NS_REGISTRY @ '' ||= {});'',
      ''globalThis.'' @ NS_REGISTRY @ ''['' @ json_quote ns @ ''] = '' @ json_stringify (JArr (map JStr fnNames)) @ '';'']"

text \<open>\<open>env\<close>: the helpers by name with their source, and the extra prelude.\<close>

record runtime_env =
  re_globals :: "(string \<times> string) list"
  re_prelude :: "string option"

definition env_segments :: "runtime_env option \<Rightarrow> string list" where
  "env_segments env =
     (case env of
        None \<Rightarrow> []
      | Some e \<Rightarrow>
          (let g = serialiseEnvGlobals (re_globals e) in if g \<noteq> [] then [g] else []) @
          (case re_prelude e of Some p \<Rightarrow> if p \<noteq> [] then [p] else [] | None \<Rightarrow> []))"

definition composeBootstrap ::
  "string \<Rightarrow> string option \<Rightarrow> runtime_env option \<Rightarrow> (string \<times> string list) list \<Rightarrow> string" where
  "composeBootstrap defaultPrelude boot env hostModules =
     js_lines ([defaultPrelude] @ env_segments env @ map (\<lambda>(ns, fns). hostModuleShim ns fns) hostModules @
       (case boot of Some b \<Rightarrow> if b \<noteq> [] then [b] else [] | None \<Rightarrow> []))"

text \<open>\<open>ctx.set\<close>, \<open>ctx.get\<close>, \<open>set\<close> and \<open>get\<close>.\<close>

definition slot_src :: "string \<Rightarrow> string \<Rightarrow> string" where
  "slot_src global key = ''(globalThis.'' @ global @ '' ||= {})['' @ json_quote key @ '']''"

definition store_src :: "string \<Rightarrow> string \<Rightarrow> json \<Rightarrow> string" where
  "store_src global key v = slot_src global key @ '' = '' @ json_stringify v @ ''; void 0''"

section \<open>Reading a reply\<close>

record eval_result =
  er_ok :: bool
  er_value :: "json option"
  er_valuePreview :: "string option"
  er_valueType :: "json option"
  er_mimeBundle :: "json option"
  er_outputs :: "json list"
  er_console :: "(json \<times> json) list"
  er_error :: "json option"
  er_checkpoint :: "json option"
  er_cell :: "int option"
  er_finalSet :: bool
  er_final :: "json option"

text \<open>\<open>a ?? b\<close>.\<close>

definition nullish :: "json option \<Rightarrow> json \<Rightarrow> json" where
  "nullish v d = (case v of None \<Rightarrow> d | Some JNull \<Rightarrow> d | Some x \<Rightarrow> x)"

text \<open>A log line; reading a member of \<open>null\<close> throws.\<close>

definition console_line :: "json \<Rightarrow> (json \<times> json) option" where
  "console_line l =
     (case l of
        JStr s \<Rightarrow> Some (JStr ''log'', JStr s)
      | JNull \<Rightarrow> None
      | _ \<Rightarrow> Some (case js_field ''level'' (Some l) of Some x \<Rightarrow> x | None \<Rightarrow> JStr ''log'',
                 nullish (json_get ''text'' l) (nullish (json_get ''msg'' l) (JStr (js_String l)))))"

definition reply_value :: "(string \<Rightarrow> json option) \<Rightarrow> json \<Rightarrow> json option" where
  "reply_value parse reply =
     (case (json_get ''valueType'' reply, json_get ''value'' reply) of
        (Some (JStr vt), Some (JStr v)) \<Rightarrow>
          if vt = ''object'' \<or> vt = ''array'' then Some (case parse v of Some x \<Rightarrow> x | None \<Rightarrow> JStr v) else Some (JStr v)
      | (_, v) \<Rightarrow> v)"

definition js_is_object :: "json \<Rightarrow> bool" where
  "js_is_object v \<longleftrightarrow> (case v of JObj _ \<Rightarrow> True | JArr _ \<Rightarrow> True | _ \<Rightarrow> False)"

definition normalize :: "(string \<Rightarrow> json option) \<Rightarrow> json \<Rightarrow> eval_result option" where
  "normalize parse reply =
     map_option (\<lambda>console.
       \<lparr>er_ok = (json_get ''ok'' reply \<noteq> Some (JBool False)),
        er_value = reply_value parse reply,
        er_valuePreview = (case json_get ''valuePreview'' reply of Some (JStr s) \<Rightarrow> Some s | _ \<Rightarrow> None),
        er_valueType = json_get ''valueType'' reply,
        er_mimeBundle = (case json_get ''mimeBundle'' reply of Some m \<Rightarrow> if js_is_object m then Some m else None | None \<Rightarrow> None),
        er_outputs = reply_array ''outputs'' reply,
        er_console = console,
        er_error = js_field ''error'' (Some reply),
        er_checkpoint = js_field ''checkpoint'' (Some reply),
        er_cell = (case json_get ''cell'' reply of Some (JNum n) \<Rightarrow> Some n | _ \<Rightarrow> None),
        er_finalSet = False, er_final = None\<rparr>)
     (traverse console_line (reply_array ''logs'' reply))"

section \<open>Evaluation\<close>

text \<open>The transport of an evaluation also delivers, while the request is in flight, the arguments of the
  calls to \<open>host.final\<close> that the cell makes.\<close>

type_synonym 's eval_transport = "'s \<Rightarrow> json \<Rightarrow> ((engram_error, json) result \<times> json option list) \<times> 's"

record 's sdk_session =
  ss_tx :: 's
  ss_session :: string
  ss_evalReqId :: nat
  ss_throwOnError :: bool
  ss_final :: "bool \<times> json option"
  ss_console :: "(json \<times> json) list"

definition captureFinal :: "json option \<Rightarrow> bool \<times> json option \<Rightarrow> bool \<times> json option" where
  "captureFinal arg cap = (True, arg)"

record eval_opts =
  eo_throwOnError :: "bool option"
  eo_durability :: "string option"

definition reqId :: "string \<Rightarrow> nat \<Rightarrow> nat \<Rightarrow> string" where
  "reqId session now n = session @ '':'' @ nat_digits 36 now @ '':'' @ nat_str n"

definition eval_request :: "string \<Rightarrow> string \<Rightarrow> eval_opts \<Rightarrow> json" where
  "eval_request code rid opts =
     JObj ([(''t'', JStr ''eval''), (''src'', JStr code), (''reqId'', JStr rid)] @
       (case eo_durability opts of Some d \<Rightarrow> if d \<noteq> [] then [(''durability'', JStr d)] else [] | None \<Rightarrow> []))"

definition with_final :: "bool \<times> json option \<Rightarrow> eval_result \<Rightarrow> eval_result" where
  "with_final cap r =
     (let r = r\<lparr>er_finalSet := fst cap\<rparr> in if fst cap then r\<lparr>er_final := snd cap\<rparr> else r)"

definition TYPE_ERROR :: engram_error where
  "TYPE_ERROR = \<lparr>ee_class = ''TypeError'', ee_name = ''TypeError'', ee_message = ''cannot read properties of null''\<rparr>"

definition evalCore ::
  "(string \<Rightarrow> json option) \<Rightarrow> nat \<Rightarrow> 's eval_transport \<Rightarrow> eval_opts \<Rightarrow> string \<Rightarrow> 's sdk_session
   \<Rightarrow> (engram_error, eval_result) result \<times> 's sdk_session" where
  "evalCore parse now tx opts code st =
     (let n = ss_evalReqId st + 1;
          ((r, finals), s') = tx (ss_tx st) (eval_request code (reqId (ss_session st) now n) opts);
          cap = fold captureFinal finals (False, None);
          st' = st\<lparr>ss_tx := s', ss_evalReqId := n, ss_final := cap\<rparr>
      in case r of
           Inl e \<Rightarrow> (Inl e, st')
         | Inr reply \<Rightarrow>
           (case normalize parse reply of
              None \<Rightarrow> (Inl TYPE_ERROR, st')
            | Some res \<Rightarrow>
              (let res = with_final cap res;
                   st' = st'\<lparr>ss_console := ss_console st' @ er_console res\<rparr>;
                   throws = (case eo_throwOnError opts of Some b \<Rightarrow> b | None \<Rightarrow> ss_throwOnError st)
               in if \<not> er_ok res \<and> throws
                  then (Inl (toTypedError (case er_error res of Some e \<Rightarrow> e
                          | None \<Rightarrow> JObj [(''name'', JStr ''EngramError''), (''message'', JStr ''eval failed'')])), st')
                  else (Inr res, st'))))"

text \<open>\<open>eval\<close> builds the chain from the last interceptor to the first.\<close>

type_synonym 's eval_fn = "string \<Rightarrow> 's sdk_session \<Rightarrow> (engram_error, eval_result) result \<times> 's sdk_session"
type_synonym 's interceptor = "string \<Rightarrow> 's eval_fn \<Rightarrow> 's eval_fn"

definition eval_chain :: "(string \<Rightarrow> 's eval_fn \<Rightarrow> 's sdk_session \<Rightarrow> (engram_error, eval_result) result \<times> 's sdk_session) list
   \<Rightarrow> 's eval_fn \<Rightarrow> 's eval_fn" where
  "eval_chain mws core = fold (\<lambda>mw inner. (\<lambda>c. mw c inner)) (rev mws) core"

definition sdk_use :: "'i \<Rightarrow> 'i list \<Rightarrow> 'i list" where
  "sdk_use mw mws = mws @ [mw]"

section \<open>Artifacts\<close>

text \<open>An artifact is a handle or a descriptor with its handle and chunk limit.\<close>

datatype artifact_ref = Handle string | Descriptor string "int option"

definition art_handle :: "artifact_ref \<Rightarrow> string" where
  "art_handle a = (case a of Handle h \<Rightarrow> h | Descriptor h _ \<Rightarrow> h)"

definition nonzero_or :: "int option \<Rightarrow> int \<Rightarrow> int" where
  "nonzero_or v d = (case v of Some n \<Rightarrow> if n = 0 then d else n | None \<Rightarrow> d)"

definition artifact_len :: "artifact_ref \<Rightarrow> int option \<Rightarrow> nat" where
  "artifact_len a chunkChars =
     (let fallback = (case a of Handle _ \<Rightarrow> 131072 | Descriptor _ m \<Rightarrow> nonzero_or m 131072)
      in nat (max 1 (min (nonzero_or chunkChars fallback) 131072)))"

definition artifact_frame :: "string \<Rightarrow> nat \<Rightarrow> nat \<Rightarrow> json" where
  "artifact_frame handle offset len =
     JObj [(''t'', JStr ''artifact''), (''handle'', JStr handle), (''offset'', JNum (int offset)), (''len'', JNum (int len))]"

definition reply_done :: "json \<Rightarrow> bool" where
  "reply_done reply = (js_field ''done'' (Some reply) \<noteq> None)"

partial_function (option) artifact_loop ::
  "'s transport \<Rightarrow> string \<Rightarrow> nat \<Rightarrow> nat \<Rightarrow> 's \<Rightarrow> ((engram_error, string list) result \<times> 's) option" where
  "artifact_loop tx handle len offset s =
     (case tx s (artifact_frame handle offset len) of
        (Inl e, s') \<Rightarrow> Some (Inl e, s')
      | (Inr reply, s') \<Rightarrow>
        (if json_get ''ok'' reply = Some (JBool False)
         then Some (Inl (toTypedError (reply_error reply ''ArtifactError'' ''artifact read failed'')), s')
         else (case json_get ''data'' reply of
             Some (JStr d) \<Rightarrow>
               (if reply_done reply \<or> d = '''' then Some (Inr [d], s')
                else Option.bind (artifact_loop tx handle len (offset + length d) s') (\<lambda>(r, s'').
                  Some (rbind r (\<lambda>cs. Inr (d # cs)), s'')))
           | _ \<Rightarrow> Some (Inl (EngramError ''artifact chunk missing string data''), s'))))"

definition streamArtifact ::
  "'s transport \<Rightarrow> artifact_ref \<Rightarrow> int option \<Rightarrow> 's \<Rightarrow> ((engram_error, string list) result \<times> 's) option" where
  "streamArtifact tx a chunkChars s =
     (if art_handle a = '''' then Some (Inl (EngramError ''artifact handle is required''), s)
      else artifact_loop tx (art_handle a) (artifact_len a chunkChars) 0 s)"

definition readArtifact ::
  "'s transport \<Rightarrow> artifact_ref \<Rightarrow> int option \<Rightarrow> 's \<Rightarrow> ((engram_error, string) result \<times> 's) option" where
  "readArtifact tx a chunkChars s =
     map_option (\<lambda>(r, s'). (rbind r (\<lambda>cs. Inr (concat cs)), s')) (streamArtifact tx a chunkChars s)"

section \<open>Workers\<close>

record worker_registration =
  wr_hash :: string
  wr_bytes :: int
  wr_cached :: bool

definition json_text :: "json option \<Rightarrow> string \<Rightarrow> string" where
  "json_text v d = js_String (nullish v (JStr d))"

definition registerWorker ::
  "'s transport \<Rightarrow> bool \<Rightarrow> string \<Rightarrow> 's sdk_files \<Rightarrow> (engram_error, worker_registration) result \<times> 's sdk_files" where
  "registerWorker tx ws source st =
     apfst (\<lambda>r. rbind r (\<lambda>reply. Inr
         \<lparr>wr_hash = json_text (json_get ''hash'' reply) '''',
          wr_bytes = (case json_get ''bytes'' reply of Some (JNum n) \<Rightarrow> n | _ \<Rightarrow> 0),
          wr_cached = (json_get ''cached'' reply = Some (JBool True))\<rparr>))
       (guarded_request tx ws ''registerWorker'' ''worker-register'' ''RegistryError'' ''worker register failed''
         [(''source'', JStr source)] st)"

definition wire_timeout :: "int option \<Rightarrow> int \<Rightarrow> int" where
  "wire_timeout timeoutMs dflt = min (case timeoutMs of Some n \<Rightarrow> n | None \<Rightarrow> dflt) 120000 + 5000"

definition invokeWorker ::
  "'s transport \<Rightarrow> bool \<Rightarrow> string \<Rightarrow> json option \<Rightarrow> int option \<Rightarrow> int option \<Rightarrow> 's sdk_files
   \<Rightarrow> (engram_error, json option) result \<times> 's sdk_files" where
  "invokeWorker tx ws hash input timeoutMs cpuMs st =
     apfst (\<lambda>r. rbind r (\<lambda>reply. Inr (json_get ''output'' reply)))
       (guarded_request tx ws ''invokeWorker'' ''worker-invoke'' ''WorkerRuntimeError'' (''worker invoke failed: '' @ hash)
         ([(''hash'', JStr hash)] @ opt_field ''input'' input @
          opt_field ''timeoutMs'' (map_option JNum timeoutMs) @ opt_field ''cpuMs'' (map_option JNum cpuMs)) st)"

definition listWorkers ::
  "'s transport \<Rightarrow> bool \<Rightarrow> 's sdk_files \<Rightarrow> (engram_error, json list) result \<times> 's sdk_files" where
  "listWorkers tx ws st =
     apfst (\<lambda>r. rbind r (\<lambda>reply. Inr (reply_array ''workers'' reply)))
       (guarded_request tx ws ''listWorkers'' ''worker-list'' ''RegistryError'' ''worker list failed'' [] st)"

section \<open>The sandbox bridge\<close>

text \<open>The pattern \<open>/SandboxUnavailable|config\.sandbox\s+not\s+enabled/i\<close>, on lower-cased text.\<close>

definition skip_spaces :: "string \<Rightarrow> string option" where
  "skip_spaces s = (case s of c # r \<Rightarrow> if js_space c then Some (dropWhile js_space r) else None | [] \<Rightarrow> None)"

definition not_enabled_at :: "string \<Rightarrow> bool" where
  "not_enabled_at s \<longleftrightarrow>
     prefix ''config.sandbox'' s \<and>
     (case skip_spaces (drop (length ''config.sandbox'') s) of
        None \<Rightarrow> False
      | Some r \<Rightarrow> prefix ''not'' r \<and>
          (case skip_spaces (drop 3 r) of None \<Rightarrow> False | Some q \<Rightarrow> prefix ''enabled'' q))"

definition sandbox_disabled :: "string \<Rightarrow> bool" where
  "sandbox_disabled raw \<longleftrightarrow>
     list_ex (\<lambda>s. prefix ''sandboxunavailable'' s \<or> not_enabled_at s) (suffixes (js_lower raw))"

definition sandbox_error :: "json option \<Rightarrow> json" where
  "sandbox_error raw =
     (case raw of
        Some (JStr s) \<Rightarrow> JObj [(''name'', JStr (if sandbox_disabled s then ''SandboxDisabledError'' else ''SandboxError'')), (''message'', JStr s)]
      | _ \<Rightarrow> (case js_field ''error'' (Some (JObj (opt_field ''error'' raw))) of
            Some e \<Rightarrow> e
          | None \<Rightarrow> JObj [(''name'', JStr ''SandboxError''), (''message'', JStr ''sandbox call failed'')]))"

definition sandbox_call ::
  "'s transport \<Rightarrow> bool \<Rightarrow> string \<Rightarrow> (string \<times> json) list \<Rightarrow> 's sdk_files
   \<Rightarrow> (engram_error, json option) result \<times> 's sdk_files" where
  "sandbox_call tx ws op body st =
     (let n = nextVfsId (sf_vfsId st); st = st\<lparr>sf_vfsId := n\<rparr> in
      case requireVfsTransport ws (''sandbox.'' @ op) of
        Inl e \<Rightarrow> (Inl e, st)
      | Inr _ \<Rightarrow>
        (let (r, s') = tx (sf_tx st) (JObj ([(''t'', JStr ''sandbox''), (''id'', JNum (int n)), (''op'', JStr op)] @ body));
             st' = st\<lparr>sf_tx := s'\<rparr>
         in case r of
              Inl e \<Rightarrow> (Inl e, st')
            | Inr reply \<Rightarrow>
                if json_get ''ok'' reply = Some (JBool False)
                then (Inl (toTypedError (sandbox_error (json_get ''error'' reply))), st')
                else (Inr (json_get ''value'' reply), st')))"

record exec_result =
  xr_stdout :: string
  xr_stderr :: string
  xr_exitCode :: json
  xr_success :: bool

text \<open>\<open>num\<close> is \<open>Number(v)\<close> of a value that is not a number.\<close>

definition sandbox_exec ::
  "(json \<Rightarrow> json) \<Rightarrow> 's transport \<Rightarrow> bool \<Rightarrow> string \<Rightarrow> string option \<Rightarrow> 's sdk_files
   \<Rightarrow> (engram_error, exec_result) result \<times> 's sdk_files" where
  "sandbox_exec num tx ws cmd cwd st =
     apfst (\<lambda>r. rbind r (\<lambda>value.
         let v = nullish value (JObj []) in
         Inr \<lparr>xr_stdout = json_text (json_get ''stdout'' v) '''', xr_stderr = json_text (json_get ''stderr'' v) '''',
              xr_exitCode = (case json_get ''exitCode'' v of Some (JNum n) \<Rightarrow> JNum n | x \<Rightarrow> num (nullish x (JNum 0))),
              xr_success = (json_get ''success'' v = Some (JBool True) \<or> json_get ''exitCode'' v = Some (JNum 0))\<rparr>))
       (sandbox_call tx ws ''exec'' ([(''cmd'', JStr cmd)] @ opt_field ''cwd'' (map_option JStr cwd)) st)"

definition sandbox_gitOp ::
  "'s transport \<Rightarrow> bool \<Rightarrow> string option \<Rightarrow> (string \<times> json) list \<Rightarrow> 's sdk_files
   \<Rightarrow> (engram_error, bool) result \<times> 's sdk_files" where
  "sandbox_gitOp tx ws op args st =
     apfst (\<lambda>r. rbind r (\<lambda>value. Inr (json_get ''ok'' (nullish value (JObj [])) = Some (JBool True))))
       (sandbox_call tx ws ''git'' ([(''gitOp'', JStr (case op of Some o' \<Rightarrow> o' | None \<Rightarrow> ''checkout''))] @ args) st)"

definition sandbox_writeFile ::
  "'s transport \<Rightarrow> bool \<Rightarrow> string \<Rightarrow> string \<Rightarrow> 's sdk_files \<Rightarrow> (engram_error, bool) result \<times> 's sdk_files" where
  "sandbox_writeFile tx ws path text st =
     apfst (\<lambda>r. rbind r (\<lambda>value. Inr (json_get ''ok'' (nullish value (JObj [])) = Some (JBool True))))
       (sandbox_call tx ws ''write'' [(''path'', JStr path), (''content'', JStr text)] st)"

definition sandbox_readFile ::
  "'s transport \<Rightarrow> bool \<Rightarrow> string \<Rightarrow> 's sdk_files \<Rightarrow> (engram_error, string) result \<times> 's sdk_files" where
  "sandbox_readFile tx ws path st =
     apfst (\<lambda>r. rbind r (\<lambda>value. Inr (json_text (json_get ''content'' (nullish value (JObj []))) '''')))
       (sandbox_call tx ws ''read'' [(''path'', JStr path)] st)"

definition sandbox_list ::
  "'s transport \<Rightarrow> bool \<Rightarrow> string \<Rightarrow> 's sdk_files \<Rightarrow> (engram_error, json option) result \<times> 's sdk_files" where
  "sandbox_list tx ws path st = sandbox_call tx ws ''list'' [(''path'', JStr path)] st"

definition sandbox_expose ::
  "'s transport \<Rightarrow> bool \<Rightarrow> int \<Rightarrow> 's sdk_files \<Rightarrow> (engram_error, json) result \<times> 's sdk_files" where
  "sandbox_expose tx ws port st =
     apfst (\<lambda>r. rbind r (\<lambda>value. Inr (nullish value (JObj []))))
       (sandbox_call tx ws ''expose'' [(''port'', JNum port)] st)"

section \<open>Two evaluations at once\<close>

text \<open>The captured final belongs to the session: a call resets it before its frame is queued, the VM's
  call sets it, and the continuation of a reply reads it.\<close>

datatype final_event = Called | FinalCalled "json option" | Returned

fun final_run :: "final_event list \<Rightarrow> bool \<times> json option \<Rightarrow> (bool \<times> json option) list" where
  "final_run [] cap = []"
| "final_run (Called # es) cap = final_run es (False, None)"
| "final_run (FinalCalled v # es) cap = final_run es (captureFinal v cap)"
| "final_run (Returned # es) cap = cap # final_run es cap"

end
