(* ===== verification/SdkClient.thy ===== *)
theory SdkClient
  imports SdkSession
begin

text \<open>
  What the client library does before and around a session (\<open>packages/sdk/src/index.ts\<close>): the choice
  of transport in \<open>Engram.connect\<close> and the addresses it builds, \<open>defineConfig\<close> and the presets, and the
  pool of sessions \<open>EngramClient\<close>.  A session object is the number of the \<open>connect\<close> call that made it.
\<close>

section \<open>\<open>encodeURIComponent\<close>\<close>

definition uri_plain :: "char \<Rightarrow> bool" where
  "uri_plain c =
     (let n = of_char c :: nat in
      48 \<le> n \<and> n \<le> 57 \<or> 65 \<le> n \<and> n \<le> 90 \<or> 97 \<le> n \<and> n \<le> 122 \<or> c \<in> set (''-_.!~*()'' @ [CHR 0x27]))"

text \<open>The bytes of a character in UTF-8, and a byte as two upper-case hexadecimal digits.\<close>

definition utf8_char :: "char \<Rightarrow> nat list" where
  "utf8_char c = (let n = of_char c :: nat in if n < 128 then [n] else [192 + n div 64, 128 + n mod 64])"

definition percent :: "nat \<Rightarrow> string" where
  "percent n = ''%'' @ js_upper (padStart 2 CHR ''0'' (nat_digits 16 n))"

definition encodeURIComponent :: "string \<Rightarrow> string" where
  "encodeURIComponent s = concat (map (\<lambda>c. if uri_plain c then [c] else concat (map percent (utf8_char c))) s)"

section \<open>\<open>connect\<close>\<close>

record connect_opts =
  co_url :: "string option"
  co_session :: "string option"
  co_apiKey :: "string option"
  co_socket :: bool
  co_openSocket :: bool
  co_transport :: bool

datatype connection =
    CustomTransport string
  | HttpConn string string string
  | WsInjected string
  | WsConn string

definition truthy_text :: "string option \<Rightarrow> string option" where
  "truthy_text v = (case v of Some s \<Rightarrow> if s = [] then None else Some s | None \<Rightarrow> None)"

definition strip_slashes :: "string \<Rightarrow> string" where
  "strip_slashes s = rev (dropWhile (\<lambda>c. c = CHR ''/'') (rev s))"

definition is_http_url :: "string \<Rightarrow> bool" where
  "is_http_url s \<longleftrightarrow> prefix ''http://'' (js_lower s) \<or> prefix ''https://'' (js_lower s)"

text \<open>\<open>base.replace(/^http/i, "ws")\<close>.\<close>

definition ws_base :: "string \<Rightarrow> string" where
  "ws_base s = (if prefix ''http'' (js_lower s) then ''ws'' @ drop 4 s else s)"

definition connect :: "connect_opts \<Rightarrow> (engram_error, connection) result" where
  "connect opts =
     (let injected = co_socket opts \<or> co_openSocket opts;
          url = truthy_text (co_url opts); key = truthy_text (co_apiKey opts) in
      if url = None \<and> \<not> injected \<and> \<not> co_transport opts
      then Inl (EngramError ''connect({ url }) is required (or pass { socket } / { openSocket } / { transport })'')
      else
        (let session = (case truthy_text (co_session opts) of Some s \<Rightarrow> s | None \<Rightarrow> ''default'');
             base = (case url of Some u \<Rightarrow> strip_slashes u | None \<Rightarrow> '''')
         in Inr (if co_transport opts then CustomTransport session
                 else (case (key, \<not> injected \<and> is_http_url base) of
                     (Some k, True) \<Rightarrow> HttpConn base k session
                   | _ \<Rightarrow>
                     if injected then WsInjected session
                     else WsConn (case key of
                         Some k \<Rightarrow> ws_base base @ ''/connect?session='' @ encodeURIComponent session @ ''&apiKey='' @ encodeURIComponent k
                       | None \<Rightarrow> ws_base base @ ''/ws?id='' @ encodeURIComponent session)))))"

section \<open>Configurations\<close>

text \<open>A configuration as its fields; numbers are integers.\<close>

definition bad :: "string \<Rightarrow> (engram_error, json) result" where
  "bad m = Inl (EngramError m)"

definition defineConfig :: "json \<Rightarrow> (engram_error, json) result" where
  "defineConfig config =
     (let f = (\<lambda>k. json_get k config) in
      if f ''rngSeed'' \<noteq> None \<and> \<not> (case f ''rngSeed'' of Some (JNum n) \<Rightarrow> 0 \<le> n | _ \<Rightarrow> False)
      then bad ''defineConfig: rngSeed must be a non-negative integer''
      else if f ''cellBudgetTicks'' \<noteq> None \<and> \<not> (case f ''cellBudgetTicks'' of Some (JNum n) \<Rightarrow> 0 < n | _ \<Rightarrow> False)
      then bad ''defineConfig: cellBudgetTicks must be a positive integer''
      else if f ''clock'' \<noteq> None \<and> f ''clock'' \<noteq> Some (JStr ''seeded'') \<and> f ''clock'' \<noteq> Some (JStr ''real'')
      then bad ''defineConfig: clock must be seeded | real''
      else if f ''fetch'' \<noteq> None \<and> \<not> (case f ''fetch'' of Some (JBool _) \<Rightarrow> True | Some (JArr _) \<Rightarrow> True | _ \<Rightarrow> False)
      then bad ''defineConfig: fetch must be boolean | string[]''
      else if f ''modules'' \<noteq> None \<and> \<not> (case f ''modules'' of Some (JBool _) \<Rightarrow> True | Some (JArr _) \<Rightarrow> True | _ \<Rightarrow> False)
      then bad ''defineConfig: modules must be boolean | string[]''
      else Inr config)"

definition preset_deterministic :: "int \<Rightarrow> json" where
  "preset_deterministic seed = JObj [(''clock'', JStr ''seeded''), (''rngSeed'', JNum seed), (''capture'', JBool True)]"

definition preset_realtime :: json where
  "preset_realtime = JObj [(''clock'', JStr ''real''), (''capture'', JBool True)]"

definition preset_nodeFull :: "int \<Rightarrow> json" where
  "preset_nodeFull seed = JObj [(''clock'', JStr ''seeded''), (''rngSeed'', JNum seed), (''modules'', JBool True),
     (''fetch'', JBool True), (''capture'', JBool True)]"

definition preset_sandboxed :: "string list option \<Rightarrow> json" where
  "preset_sandboxed allow = JObj [(''clock'', JStr ''seeded''), (''rngSeed'', JNum 1),
     (''fetch'', case allow of None \<Rightarrow> JBool False | Some hs \<Rightarrow> JArr (map JStr hs)), (''capture'', JBool True)]"

section \<open>The pool\<close>

text \<open>\<open>ec_inflight\<close> are the connects that have not settled and \<open>ec_live\<close> the sessions that were connected
  and not closed: what the code cannot see once it forgets them.\<close>

record engram_client =
  ec_sessions :: "(string, nat) omap"
  ec_pending :: "(string, nat) omap"
  ec_connects :: nat
  ec_inflight :: "(nat \<times> string) list"
  ec_live :: "nat list"

definition new_EngramClient :: engram_client where
  "new_EngramClient = \<lparr>ec_sessions = [], ec_pending = [], ec_connects = 0, ec_inflight = [], ec_live = []\<rparr>"

datatype session_ref = Live nat | InFlight nat

definition client_session :: "string \<Rightarrow> engram_client \<Rightarrow> session_ref \<times> engram_client" where
  "client_session sid c =
     (case map_of (ec_sessions c) sid of
        Some n \<Rightarrow> (Live n, c)
      | None \<Rightarrow>
        (case map_of (ec_pending c) sid of
           Some n \<Rightarrow> (InFlight n, c)
         | None \<Rightarrow>
           (let n = ec_connects c in
            (InFlight n, c\<lparr>ec_connects := n + 1, ec_inflight := ec_inflight c @ [(n, sid)],
                           ec_pending := AList.update sid n (ec_pending c)\<rparr>))))"

definition connect_ok :: "nat \<Rightarrow> string \<Rightarrow> engram_client \<Rightarrow> engram_client" where
  "connect_ok n sid c =
     c\<lparr>ec_sessions := AList.update sid n (ec_sessions c), ec_pending := AList.delete sid (ec_pending c),
       ec_inflight := filter (\<lambda>(m, _). m \<noteq> n) (ec_inflight c), ec_live := ec_live c @ [n]\<rparr>"

definition connect_fail :: "nat \<Rightarrow> string \<Rightarrow> engram_client \<Rightarrow> engram_client" where
  "connect_fail n sid c =
     c\<lparr>ec_pending := AList.delete sid (ec_pending c), ec_inflight := filter (\<lambda>(m, _). m \<noteq> n) (ec_inflight c)\<rparr>"

definition client_close :: "string \<Rightarrow> engram_client \<Rightarrow> engram_client" where
  "client_close sid c =
     (case map_of (ec_sessions c) sid of
        None \<Rightarrow> c
      | Some n \<Rightarrow> c\<lparr>ec_sessions := AList.delete sid (ec_sessions c), ec_live := filter (\<lambda>m. m \<noteq> n) (ec_live c)\<rparr>)"

definition closeAll :: "engram_client \<Rightarrow> engram_client" where
  "closeAll c =
     c\<lparr>ec_live := filter (\<lambda>m. m \<notin> snd ` set (ec_sessions c)) (ec_live c), ec_sessions := [], ec_pending := []\<rparr>"

inductive client_step :: "engram_client \<Rightarrow> engram_client \<Rightarrow> bool" where
  Session: "client_step c (snd (client_session sid c))"
| Connected: "(n, sid) \<in> set (ec_inflight c) \<Longrightarrow> client_step c (connect_ok n sid c)"
| Failed: "(n, sid) \<in> set (ec_inflight c) \<Longrightarrow> client_step c (connect_fail n sid c)"
| Close: "client_step c (client_close sid c)"
| CloseAll: "ec_inflight c = [] \<Longrightarrow> client_step c (closeAll c)"

end
