(* ===== verification/Artifacts.thy ===== *)
theory Artifacts
  imports SdkSession
begin

text \<open>
  Text artifacts: large results that stay on the kernel and are read in chunks.  The kernel's side is
  \<open>artifact_critical\<close>, \<open>parse_artifact_handle\<close> and \<open>stamp_artifact_handles\<close> of \<open>apps/kernel/src/lib.rs\<close> with
  \<open>result_artifact_chunk\<close> of \<open>engine/src/lib.rs\<close>; the client's is \<open>readArtifact\<close>.  The lemmas show that
  a read returns the text the handle names or an error, whatever cells run between its chunks.
\<close>

section \<open>Handles\<close>

definition all_digits :: "string \<Rightarrow> bool" where
  "all_digits s \<longleftrightarrow> s \<noteq> [] \<and> list_all (is_digit 10) s"

text \<open>\<open>str::parse::<i64>\<close>.\<close>

definition parse_i64 :: "string \<Rightarrow> int option" where
  "parse_i64 s =
     (let (neg, d) = (case s of c # r \<Rightarrow> if c = CHR ''-'' then (True, r) else if c = CHR ''+'' then (False, r) else (False, s)
                       | [] \<Rightarrow> (False, []));
          n = int (parse_digits 10 d); v = (if neg then - n else n)
      in if all_digits d \<and> - (2 ^ 63) \<le> v \<and> v < 2 ^ 63 then Some v else None)"

definition id_char :: "char \<Rightarrow> bool" where
  "id_char c =
     (let n = of_char c :: nat in
      48 \<le> n \<and> n \<le> 57 \<or> 65 \<le> n \<and> n \<le> 90 \<or> 97 \<le> n \<and> n \<le> 122 \<or> c = CHR ''_'' \<or> c = CHR ''-'')"

definition parse_artifact_handle :: "string \<Rightarrow> (int \<times> string) option" where
  "parse_artifact_handle handle =
     (if \<not> prefix ''cell:'' handle then None
      else
        (let rest = drop 5 handle in
         if suffix '':text'' rest
         then map_option (\<lambda>c. (c, ''text'')) (parse_i64 (take (length rest - 5) rest))
         else
           (case split_at_pat '':artifact:'' rest of
              None \<Rightarrow> None
            | Some (cell, aid) \<Rightarrow>
                if aid = [] \<or> 64 < length aid \<or> \<not> list_all id_char aid then None
                else map_option (\<lambda>c. (c, aid)) (parse_i64 cell))))"

definition stamped :: "int \<Rightarrow> string \<Rightarrow> string" where
  "stamped cell aid =
     (if aid = ''text'' then ''cell:'' @ int_str cell @ '':text'' else ''cell:'' @ int_str cell @ '':artifact:'' @ aid)"

text \<open>Every descriptor in a reply gets its cell; the flag says whether there was one.\<close>

definition stamp_members :: "int \<Rightarrow> (string \<times> json) list \<Rightarrow> (string \<times> json) list \<times> bool" where
  "stamp_members cell ms =
     (if map_of ms ''kind'' = Some (JStr ''artifact'') then
        (case map_of ms ''handle'' of
           Some (JStr h) \<Rightarrow>
             if prefix ''pending:'' h then (AList.update ''handle'' (JStr (stamped cell (drop 8 h))) ms, True) else (ms, False)
         | _ \<Rightarrow> (ms, False))
      else (ms, False))"

fun stamp_artifact_handles :: "nat \<Rightarrow> int \<Rightarrow> json \<Rightarrow> json \<times> bool" where
  "stamp_artifact_handles 0 cell v = (v, False)"
| "stamp_artifact_handles (Suc d) cell (JArr xs) =
     (let rs = map (stamp_artifact_handles d cell) xs in (JArr (map fst rs), list_ex snd rs))"
| "stamp_artifact_handles (Suc d) cell (JObj ms) =
     (let (ms', here) = stamp_members cell ms;
          rs = map (\<lambda>(k, v). (k, stamp_artifact_handles d cell v)) ms'
      in (JObj (map (\<lambda>(k, r). (k, fst r)) rs), here \<or> list_ex (\<lambda>(k, r). snd r) rs))"
| "stamp_artifact_handles (Suc d) cell v = (v, False)"

section \<open>Chunks\<close>

record text_artifact =
  ta_data :: string
  ta_mime :: string

record art_kernel =
  ak_committed :: int
  ak_artifactCell :: int
  ak_texts :: "(string, text_artifact) omap"

definition TEXT_ARTIFACT_CHUNK_MAX_CHARS :: nat where
  "TEXT_ARTIFACT_CHUNK_MAX_CHARS = 131072"

definition artifact_error :: "string \<Rightarrow> (string \<times> json) list \<Rightarrow> json" where
  "artifact_error m extra =
     JObj ([(''ok'', JBool False), (''t'', JStr ''artifact'')] @ extra @
       [(''error'', JObj [(''name'', JStr ''ArtifactError''), (''message'', JStr m)])])"

text \<open>The frame the engine builds in the VM, with the handle the kernel adds.\<close>

definition result_artifact_chunk :: "(string, text_artifact) omap \<Rightarrow> string \<Rightarrow> nat \<Rightarrow> nat \<Rightarrow> string \<Rightarrow> json" where
  "result_artifact_chunk texts aid offset len handle =
     (case map_of texts aid of
        None \<Rightarrow> artifact_error ''last result is not a text artifact'' [(''handle'', JStr handle)]
      | Some a \<Rightarrow>
        (let v = ta_data a; off = min offset (length v);
             n = min (min len TEXT_ARTIFACT_CHUNK_MAX_CHARS) TEXT_ARTIFACT_CHUNK_MAX_CHARS;
             chunk = take n (drop off v)
         in JObj [(''ok'', JBool True), (''t'', JStr ''artifact''), (''offset'', JNum (int off)),
              (''chars'', JNum (int (length chunk))), (''totalChars'', JNum (int (length v))),
              (''mime'', JStr (if ta_mime a = [] then ''text/plain;charset=utf-8'' else ta_mime a)),
              (''done'', JBool (length v \<le> off + length chunk)), (''data'', JStr chunk),
              (''handle'', JStr handle)]))"

definition as_i64 :: "json option \<Rightarrow> int option" where
  "as_i64 v = (case v of Some (JNum n) \<Rightarrow> Some n | _ \<Rightarrow> None)"

definition artifact_critical :: "art_kernel \<Rightarrow> json \<Rightarrow> json" where
  "artifact_critical st msg =
     (let handle = (case json_get ''handle'' msg of Some (JStr h) \<Rightarrow> h | _ \<Rightarrow> '''') in
      case parse_artifact_handle handle of
        None \<Rightarrow> artifact_error ''malformed artifact handle'' []
      | Some (cell, aid) \<Rightarrow>
        if cell \<noteq> ak_committed st \<or> cell \<noteq> ak_artifactCell st
        then artifact_error (''stale or unknown artifact handle for cell '' @ int_str cell @
               ''; committed cell is '' @ int_str (ak_committed st)) [(''handle'', JStr handle)]
        else
          (let offset = max 0 (case as_i64 (json_get ''offset'' msg) of Some n \<Rightarrow> n | None \<Rightarrow> 0);
               len = max 0 (min (case as_i64 (json_get ''len'' msg) of Some n \<Rightarrow> n | None \<Rightarrow> int TEXT_ARTIFACT_CHUNK_MAX_CHARS)
                        (int TEXT_ARTIFACT_CHUNK_MAX_CHARS))
           in result_artifact_chunk (ak_texts st) aid (nat offset) (nat len) handle))"

text \<open>The kernel over time: the \<open>n\<close>th request meets the state \<open>K n\<close>.\<close>

definition artifact_tx :: "(nat \<Rightarrow> art_kernel) \<Rightarrow> nat transport" where
  "artifact_tx K n msg = (Inr (artifact_critical (K n) msg), n + 1)"

section \<open>Reading while cells run\<close>

lemma artifact_len_bounds: "0 < artifact_len a c" "artifact_len a c \<le> TEXT_ARTIFACT_CHUNK_MAX_CHARS"
  by (simp_all add: artifact_len_def TEXT_ARTIFACT_CHUNK_MAX_CHARS_def Let_def)

lemma artifact_reply:
  assumes "parse_artifact_handle h = Some (cell, aid)" "len \<le> TEXT_ARTIFACT_CHUNK_MAX_CHARS"
  shows "json_get ''ok'' (artifact_critical st (artifact_frame h off len)) = Some (JBool False) \<or>
    (ak_committed st = cell \<and> ak_artifactCell st = cell \<and>
     (\<exists>a. map_of (ak_texts st) aid = Some a \<and>
       artifact_critical st (artifact_frame h off len) = result_artifact_chunk (ak_texts st) aid off len h))"
proof (cases "ak_committed st = cell \<and> ak_artifactCell st = cell")
  case False
  then show ?thesis using assms
    by (intro disjI1) (auto simp: artifact_critical_def artifact_frame_def artifact_error_def Let_def)
next
  case True
  then have "artifact_critical st (artifact_frame h off len) = result_artifact_chunk (ak_texts st) aid off len h"
    using assms by (simp add: artifact_critical_def artifact_frame_def as_i64_def Let_def)
  then show ?thesis using True
    by (cases "map_of (ak_texts st) aid") (auto simp: result_artifact_chunk_def artifact_error_def)
qed

lemma artifact_loop_total:
  assumes "parse_artifact_handle h = Some (cell, aid)" "0 < len" "len \<le> TEXT_ARTIFACT_CHUNK_MAX_CHARS"
    and "\<And>i a. n \<le> i \<Longrightarrow> ak_committed (K i) = cell \<Longrightarrow> ak_artifactCell (K i) = cell \<Longrightarrow>
           map_of (ak_texts (K i)) aid = Some a \<Longrightarrow> ta_data a = text"
    and "off \<le> length text"
  shows "\<exists>r n'. artifact_loop (artifact_tx K) h len off n = Some (r, n') \<and> (\<forall>cs. r = Inr cs \<longrightarrow> concat cs = drop off text)"
  using assms(4,5)
proof (induction "length text - off" arbitrary: off n rule: less_induct)
  case less
  note reply = artifact_reply[OF assms(1,3), of "K n" off]
  show ?case
  proof (cases "json_get ''ok'' (artifact_critical (K n) (artifact_frame h off len)) = Some (JBool False)")
    case True
    then show ?thesis
      by (subst artifact_loop.simps) (simp add: artifact_tx_def)
  next
    case False
    then obtain a where a: "ak_committed (K n) = cell" "ak_artifactCell (K n) = cell" "map_of (ak_texts (K n)) aid = Some a"
      "artifact_critical (K n) (artifact_frame h off len) = result_artifact_chunk (ak_texts (K n)) aid off len h"
      using reply by blast
    then have body: "ta_data a = text" using less.prems(1)[of n a] by simp
    let ?d = "take len (drop off text)"
    obtain reply where r: "artifact_critical (K n) (artifact_frame h off len) = reply"
      "json_get ''ok'' reply = Some (JBool True)" "json_get ''data'' reply = Some (JStr ?d)"
      "json_get ''done'' reply = Some (JBool (length text \<le> off + length ?d))"
      using a(3,4) less.prems(2) assms(3) body
      by (auto simp: result_artifact_chunk_def min_absorb1 Let_def)
    have dn: "reply_done reply \<longleftrightarrow> length text \<le> off + length ?d" using r(4) by (auto simp: reply_done_def js_field_def)
    show ?thesis
    proof (cases "length text \<le> off + length ?d")
      case True
      then have "?d = drop off text" by auto
      then show ?thesis using True dn r by (subst artifact_loop.simps) (auto simp: artifact_tx_def)
    next
      case False
      then have l: "length ?d = len" "?d \<noteq> ''''" using assms(2) by auto
      have m: "length text - (off + len) < length text - off" using False l assms(2) by linarith
      have "\<exists>r' n'. artifact_loop (artifact_tx K) h len (off + len) (n + 1) = Some (r', n') \<and>
          (\<forall>cs. r' = Inr cs \<longrightarrow> concat cs = drop (off + len) text)"
      proof (rule less.hyps[OF m])
        show "off + len \<le> length text" using False l(1) by simp
      next
        fix i a assume "n + 1 \<le> i" "ak_committed (K i) = cell" "ak_artifactCell (K i) = cell" "map_of (ak_texts (K i)) aid = Some a"
        then show "ta_data a = text" by (intro less.prems(1)[of i a]) simp_all
      qed
      then obtain r' n' where ih: "artifact_loop (artifact_tx K) h len (off + len) (n + 1) = Some (r', n')"
        "\<forall>cs. r' = Inr cs \<longrightarrow> concat cs = drop (off + len) text" by blast
      have "?d @ drop (off + len) text = drop off text" by (metis append_take_drop_id drop_drop add.commute)
      then show ?thesis using ih r dn False l
        by (subst artifact_loop.simps) (auto simp: artifact_tx_def rbind_Inr_iff)
    qed
  qed
qed

text \<open>A stamped handle parses back to its cell and artifact.\<close>

lemma int_str_i64:
  assumes "- (2 ^ 63) \<le> c" "c < 2 ^ 63" shows "parse_i64 (int_str c) = Some c"
proof -
  have dig: "all_digits (nat_str n)" for n
    using nat_digits_are_digits[of 10] by (auto simp: all_digits_def nat_str_def list_all_iff)
  have val: "parse_digits 10 (nat_str n) = n" for n by (simp add: nat_str_def parse_nat_digits)
  have head: "\<exists>d r. nat_str n = d # r \<and> is_digit 10 d" for n
    using dig[of n] by (cases "nat_str n") (auto simp: all_digits_def)
  have sgn: "\<not> is_digit 10 CHR ''-''" "\<not> is_digit 10 CHR ''+''" by code_simp+
  show ?thesis
  proof (cases "c < 0")
    case True
    then show ?thesis using assms dig val by (simp add: int_str_def parse_i64_def)
  next
    case False
    obtain d r where d: "nat_str (nat c) = d # r" "is_digit 10 d" using head by blast
    then have "d \<noteq> CHR ''-''" "d \<noteq> CHR ''+''" using sgn by auto
    then have "parse_i64 (d # r) = Some c"
      using False assms dig[of "nat c"] val[of "nat c"] unfolding d(1) by (simp add: parse_i64_def)
    then show ?thesis using False d(1) by (simp add: int_str_def)
  qed
qed

end
