(* ===== verification/SdkSessionProps.thy ===== *)
theory SdkSessionProps
  imports SdkClient Artifacts
begin

text \<open>
  What the client library's sessions and pool guarantee: a key placed in a composed source is one
  string literal, request identifiers are not reused, interceptors nest in their order, a read of an
  artifact is never a mixture, and the pool loses no session.  The last section holds the behaviours
  that differ from the library's documentation.
\<close>

section \<open>Keys in composed sources\<close>

text \<open>A JavaScript string literal after its opening quote: its value and what follows it.\<close>

definition hex_value :: "string \<Rightarrow> nat option" where
  "hex_value ds = (if length ds = 4 \<and> list_all (is_digit 16) ds then Some (parse_digits 16 ds) else None)"

function js_literal :: "string \<Rightarrow> (string \<times> string) option" where
  "js_literal [] = None"
| "js_literal (c # s) =
     (if c = CHR 0x22 then Some ([], s)
      else if c = CHR 0x0A \<or> c = CHR 0x0D then None
      else if c = CHR 0x5C then
        (case s of
           [] \<Rightarrow> None
         | e # r \<Rightarrow>
           if e = CHR ''u'' then
             (case hex_value (take 4 r) of
                None \<Rightarrow> None
              | Some n \<Rightarrow> map_option (apfst (\<lambda>v. char_of n # v)) (js_literal (drop 4 r)))
           else
             map_option (apfst (\<lambda>v.
               (if e = CHR ''b'' then CHR 0x08 else if e = CHR ''t'' then CHR 0x09 else if e = CHR ''n'' then CHR 0x0A
                else if e = CHR ''f'' then CHR 0x0C else if e = CHR ''r'' then CHR 0x0D else e) # v)) (js_literal r))
      else map_option (apfst (\<lambda>v. c # v)) (js_literal s))"
  by pat_completeness auto
termination js_literal
  by (relation "measure length") auto

declare js_literal.simps(2) [simp del]

lemma control_digits:
  assumes "n < 32"
  shows "\<exists>a b. padStart 4 CHR ''0'' (nat_digits 16 n) = [CHR ''0'', CHR ''0'', a, b] \<and> is_digit 16 a \<and> is_digit 16 b \<and>
     parse_digits 16 [CHR ''0'', CHR ''0'', a, b] = n"
proof (cases "n < 16")
  case True
  then have d: "nat_digits 16 n = [digit_char n]" by (simp add: nat_digits_16)
  have z: "digit_val CHR ''0'' = Some 0" by code_simp
  show ?thesis unfolding d using True z
    by (auto simp: padStart_def is_digit_def digit_val_char parse_digits_def numeral_eq_Suc)
next
  case False
  then obtain d where n: "n = 16 + d" "d < 16" using assms by (metis add_diff_inverse_nat less_diff_conv2 not_less numeral_Bit0 add_less_cancel_left)
  then have "n div 16 = 1" "n mod 16 = d" by presburger+
  then have dig: "nat_digits 16 n = [digit_char 1, digit_char d]"
    using assms n(1) nat_digits_16[of n] by auto
  have z: "digit_val CHR ''0'' = Some 0" by code_simp
  show ?thesis unfolding dig using n z
    by (auto simp: padStart_def is_digit_def digit_val_char parse_digits_def numeral_eq_Suc)
qed

lemma of_char_is: "of_char c = (n :: nat) \<Longrightarrow> c = char_of n"
  by (metis char_of_char)

lemma control_chars:
  "char_of (8 :: nat) = CHR 0x08" "char_of (9 :: nat) = CHR 0x09" "char_of (10 :: nat) = CHR 0x0A"
  "char_of (12 :: nat) = CHR 0x0C" "char_of (13 :: nat) = CHR 0x0D"
  by code_simp+

lemma js_literal_escape: "js_literal (json_escape_char c @ r) = map_option (apfst (\<lambda>v. c # v)) (js_literal r)"
proof -
  let ?n = "of_char c :: nat"
  consider "c = CHR 0x22" | "c = CHR 0x5C" | "?n = 8" | "?n = 9" | "?n = 10" | "?n = 12" | "?n = 13"
    | "c \<noteq> CHR 0x22" "c \<noteq> CHR 0x5C" "?n \<notin> {8, 9, 10, 12, 13}" "?n < 32"
    | "c \<noteq> CHR 0x22" "c \<noteq> CHR 0x5C" "32 \<le> ?n" by fastforce
  then show ?thesis
  proof cases
    case 8
    obtain a b where ab: "padStart 4 CHR ''0'' (nat_digits 16 ?n) = [CHR ''0'', CHR ''0'', a, b]" "is_digit 16 a" "is_digit 16 b"
      "parse_digits 16 [CHR ''0'', CHR ''0'', a, b] = ?n" using control_digits[OF 8(4)] by blast
    have z: "is_digit 16 CHR ''0''" by code_simp
    have "json_escape_char c = [CHR 0x5C, CHR ''u'', CHR ''0'', CHR ''0'', a, b]"
      using 8 ab(1) by (simp add: json_escape_char_def Let_def)
    then show ?thesis using ab(2-4) z by (simp add: js_literal.simps hex_value_def)
  next
    case 9
    then have "c \<noteq> CHR 0x0A" "c \<noteq> CHR 0x0D" by auto
    then show ?thesis using 9 by (simp add: js_literal.simps json_escape_char_def Let_def)
  qed (auto simp: js_literal.simps json_escape_char_def control_chars Let_def dest!: of_char_is)
qed

lemma js_literal_quote: "js_literal (drop 1 (json_quote s) @ t) = Some (s, t)"
proof -
  have "js_literal (concat (map json_escape_char s) @ CHR 0x22 # t) = Some (s, t)"
    by (induction s) (simp_all add: js_literal_escape js_literal.simps)
  then show ?thesis by (simp add: json_quote_def)
qed

text \<open>A key cannot inject code: the source that reads or stores a durable slot holds, between its
  brackets, exactly one string literal, and the value of that literal is the key.\<close>

theorem slot_key_is_one_literal:
  "\<exists>pre. slot_src global key = pre @ CHR 0x22 # drop 1 (json_quote key @ '']'') \<and>
     pre = ''(globalThis.'' @ global @ '' ||= {})['' \<and>
     js_literal (drop 1 (json_quote key @ '']'')) = Some (key, '']'')"
proof -
  have "js_literal (drop 1 (json_quote key @ '']'')) = Some (key, '']'')" 
    using js_literal_quote[of key "'']''"] by (simp add: json_quote_def)
  then show ?thesis by (simp add: slot_src_def json_quote_def)
qed

section \<open>Requests and interceptors\<close>

lemma nat_str_plain: "CHR '':'' \<notin> set (nat_str n)"
proof -
  have "\<not> is_digit 10 CHR '':''" by code_simp
  then show ?thesis using nat_digits_are_digits[of 10 "CHR '':''" n] by (auto simp: nat_str_def)
qed

lemma nat_str_inject: "nat_str m = nat_str n \<Longrightarrow> m = n"
proof -
  have p: "parse_digits 10 (nat_str k) = k" for k unfolding nat_str_def by (rule parse_nat_digits) simp_all
  show "nat_str m = nat_str n \<Longrightarrow> m = n" by (metis p)
qed

lemma reqId_counter:
  assumes "reqId s t m = reqId s' t' n"
  shows "m = n"
proof -
  have r: "rev (reqId s t m) = rev (nat_str m) @ CHR '':'' # rev (s @ '':'' @ nat_digits 36 t)" for s t m
    by (simp add: reqId_def)
  have "rev (nat_str m) @ CHR '':'' # rev (s @ '':'' @ nat_digits 36 t) =
      rev (nat_str n) @ CHR '':'' # rev (s' @ '':'' @ nat_digits 36 t')"
    using assms unfolding r[symmetric] by simp
  then have "rev (nat_str m) = rev (nat_str n)"
    by (subst (asm) append_sep_inject) (simp_all add: nat_str_plain)
  then show ?thesis by (simp add: nat_str_inject)
qed

lemma evalCore_counts: "ss_evalReqId (snd (evalCore parse now tx opts code st)) = ss_evalReqId st + 1"
  by (auto simp: evalCore_def Let_def split: prod.split sum.split option.split)

text \<open>Interceptors nest in their order, the first outermost, and one that is added later is the
  innermost: it sees what the others pass on and its result is what they get back.\<close>

theorem interceptors_nest:
  "eval_chain [] core = core \<and>
   eval_chain (mw # mws) core = (\<lambda>c. mw c (eval_chain mws core)) \<and>
   eval_chain (sdk_use mw mws) core = eval_chain mws (\<lambda>c. mw c core)"
  by (simp add: eval_chain_def sdk_use_def)

section \<open>Artifacts\<close>


definition demo_art :: "nat \<Rightarrow> art_kernel" where
  "demo_art n = \<lparr>ak_committed = (if n < 5 then 3 else 4), ak_artifactCell = 3,
     ak_texts = [(''text'', \<lparr>ta_data = ''abc'', ta_mime = ''''\<rparr>)]\<rparr>"


section \<open>The pool\<close>

text \<open>The pool's invariant, over its two maps, its unsettled connects, its open sessions and its counter.\<close>

definition pool_inv :: "(string \<Rightarrow> nat option) \<Rightarrow> (string \<Rightarrow> nat option) \<Rightarrow> (nat \<times> string) set \<Rightarrow> nat set \<Rightarrow> nat \<Rightarrow> bool" where
  "pool_inv S P I L k \<longleftrightarrow>
     (\<forall>n sid. (n, sid) \<in> I \<longleftrightarrow> P sid = Some n) \<and>
     (\<forall>sid n m. S sid = Some n \<longrightarrow> P sid \<noteq> Some m) \<and>
     (\<forall>n. n \<in> L \<longleftrightarrow> (\<exists>sid. S sid = Some n)) \<and>
     (\<forall>s t n. S s = Some n \<longrightarrow> S t = Some n \<longrightarrow> s = t) \<and>
     (\<forall>s t n. P s = Some n \<longrightarrow> P t = Some n \<longrightarrow> s = t) \<and>
     (\<forall>s n. P s = Some n \<longrightarrow> n < k \<and> n \<notin> L) \<and>
     (\<forall>n \<in> L. n < k)"

definition pool_ok :: "engram_client \<Rightarrow> bool" where
  "pool_ok c \<longleftrightarrow> distinct (map fst (ec_sessions c)) \<and>
     pool_inv (map_of (ec_sessions c)) (map_of (ec_pending c)) (set (ec_inflight c)) (set (ec_live c)) (ec_connects c)"

lemmas pool_defs = pool_ok_def update_conv' delete_conv'

lemma pool_inv_ask: "pool_inv S P I L k \<Longrightarrow> S sid = None \<Longrightarrow> P sid = None \<Longrightarrow>
    pool_inv S (P(sid \<mapsto> k)) (insert (k, sid) I) L (Suc k)"
  unfolding pool_inv_def by (auto simp: less_Suc_eq)

lemma pool_inv_join:
  assumes "pool_inv S P I L k" "P sid = Some n"
  shows "pool_inv (S(sid \<mapsto> n)) (P(sid := None)) {x \<in> I. fst x \<noteq> n} (insert n L) k"
proof -
  note c1 = assms(1)[unfolded pool_inv_def]
  note c2 = conjunct2[OF c1] note c3 = conjunct2[OF c2] note c4 = conjunct2[OF c3]
  note c5 = conjunct2[OF c4] note c6 = conjunct2[OF c5]
  note inf = conjunct1[OF c1, rule_format] and dis = conjunct1[OF c2, rule_format]
    and live = conjunct1[OF c3, rule_format] and injS = conjunct1[OF c4, rule_format]
    and injP = conjunct1[OF c5, rule_format] and new = conjunct1[OF c6, rule_format]
    and lt = conjunct2[OF c6, rule_format]
  have s: "S sid = None" using dis assms(2) by (cases "S sid") auto
  have u: "S t \<noteq> Some n" for t using new[OF assms(2)] live[of n] by blast
  have p: "t = sid" if "P t = Some n" for t using injP that assms(2) .
  have p': "(P(sid := None)) t = Some m \<longleftrightarrow> P t = Some m \<and> m \<noteq> n" for t m
    using p[of t] assms(2) by (cases "t = sid") auto
  have s': "(S(sid \<mapsto> n)) t = Some m \<longleftrightarrow> S t = Some m \<or> t = sid \<and> m = n" for t m using s by auto
  show ?thesis unfolding pool_inv_def
  proof (intro conjI allI impI ballI)
    fix m t
    show "(m, t) \<in> {x \<in> I. fst x \<noteq> n} \<longleftrightarrow> (P(sid := None)) t = Some m" unfolding p' by (simp add: inf)
  next
    fix t m l assume "(S(sid \<mapsto> n)) t = Some m"
    then show "(P(sid := None)) t \<noteq> Some l" unfolding s' using dis[of t m l] by auto
  next
    fix m
    show "m \<in> insert n L \<longleftrightarrow> (\<exists>t. (S(sid \<mapsto> n)) t = Some m)" unfolding s' using live[of m] by blast
  next
    fix t t' m assume "(S(sid \<mapsto> n)) t = Some m" "(S(sid \<mapsto> n)) t' = Some m"
    then show "t = t'" unfolding s' using injS[of t m t'] u by blast
  next
    fix t t' m assume "(P(sid := None)) t = Some m" "(P(sid := None)) t' = Some m"
    then show "t = t'" unfolding p' using injP[of t m t'] by blast
  next
    fix t m assume "(P(sid := None)) t = Some m"
    then have "P t = Some m" "m \<noteq> n" unfolding p' by simp_all
    then show "m < k" "m \<notin> insert n L" using new[of t m] by simp_all
  next
    fix m assume "m \<in> insert n L"
    then show "m < k" using new[OF assms(2)] lt[of m] by auto
  qed
qed

lemma pool_inv_lose: "pool_inv S P I L k \<Longrightarrow> P sid = Some n \<Longrightarrow>
    pool_inv S (P(sid := None)) {x \<in> I. fst x \<noteq> n} L k"
  unfolding pool_inv_def by (auto split: if_splits)

lemma pool_inv_leave:
  assumes "pool_inv S P I L k" "S sid = Some n"
  shows "pool_inv (S(sid := None)) P I (L - {n}) k"
proof -
  have "\<And>t m. S t = Some m \<Longrightarrow> m \<noteq> n \<Longrightarrow> t \<noteq> sid" using assms(2) by auto
  then show ?thesis using assms unfolding pool_inv_def by (simp, metis)
qed

lemma pool_inv_empty: "pool_inv (\<lambda>_. None) (\<lambda>_. None) {} {} k"
  by (simp add: pool_inv_def)

lemma pool_step: "client_step c c' \<Longrightarrow> pool_ok c \<Longrightarrow> pool_ok c'"
proof (induction rule: client_step.induct)
  case (Session c sid)
  then show ?case
    by (auto simp: pool_defs client_session_def Let_def pool_inv_ask split: option.split)
next
  case (Connected n sid c)
  then have "map_of (ec_pending c) sid = Some n" by (auto simp: pool_ok_def pool_inv_def)
  then show ?case using Connected pool_inv_join[of "map_of (ec_sessions c)" "map_of (ec_pending c)"]
    by (auto simp: pool_defs connect_ok_def distinct_update case_prod_unfold fun_upd_def)
next
  case (Failed n sid c)
  then have "map_of (ec_pending c) sid = Some n" by (auto simp: pool_ok_def pool_inv_def)
  then show ?case using Failed pool_inv_lose[of "map_of (ec_sessions c)" "map_of (ec_pending c)"]
    by (auto simp: pool_defs connect_fail_def case_prod_unfold)
next
  case (Close c sid)
  have l: "{x \<in> set (ec_live c). x \<noteq> n} = set (ec_live c) - {n}" for n by auto
  show ?case using Close
    by (auto simp: pool_defs l client_close_def pool_inv_leave distinct_delete split: option.split)
next
  case (CloseAll c)
  have "n \<in> snd ` set (ec_sessions c)" if "n \<in> set (ec_live c)" for n
    using CloseAll(2) that unfolding pool_ok_def pool_inv_def by (metis imageI map_of_SomeD snd_conv)
  then have "ec_live (closeAll c) = []" by (auto simp: closeAll_def filter_empty_conv)
  then show ?case using CloseAll(1) by (simp add: pool_ok_def closeAll_def pool_inv_def)
qed

lemma pool_reached: "client_step\<^sup>*\<^sup>* new_EngramClient c \<Longrightarrow> pool_ok c"
  by (induction rule: rtranclp_induct) (simp_all add: pool_step, simp add: pool_ok_def new_EngramClient_def pool_inv_def)


definition demo_pool :: engram_client where
  "demo_pool = connect_ok 0 ''a'' (snd (client_session ''b'' (snd (client_session ''a'' new_EngramClient))))"


section \<open>Behaviour that differs from the documentation\<close>

text \<open>A \<open>closeAll\<close> while a connect is under way forgets that connect: a second \<open>session\<close> for the id opens
  another, and when both have settled one of the two open sessions is registered nowhere.\<close>

lemma close_all_leaks_pending:
  "let c = connect_ok 1 ''a'' (connect_ok 0 ''a'' (snd (client_session ''a'' (closeAll (snd (client_session ''a'' new_EngramClient)))))) in
     ec_live c = [0, 1] \<and> ec_sessions c = [(''a'', 1)] \<and> ec_live (closeAll c) = [0]"
  by code_simp

text \<open>A \<open>close\<close> of an id whose connect is under way does nothing, and the session is open afterwards.\<close>

lemma close_misses_pending:
  "ec_live (connect_ok 0 ''a'' (client_close ''a'' (snd (client_session ''a'' new_EngramClient)))) = [0]"
  by code_simp

text \<open>Two concurrent evaluations, the first without a final answer: both results carry the other's.\<close>

lemma final_answer_misattributed:
  "final_run [Called, Called, FinalCalled v, Returned, Returned] (False, None) = [(True, v), (True, v)]"
  by (simp add: captureFinal_def)

end
