(* ===== verification/SdkConnect.thy ===== *)
theory SdkConnect
  imports SdkClient
begin

text \<open>
  How the client library sets a session up (\<open>packages/sdk/src/index.ts\<close>): what \<open>Engram.connect\<close> makes
  of its options, the frames \<open>onReady\<close> sends on every new socket, \<open>_applyConfig\<close> of the other
  transports, the host functions it registers, the merging of options in \<open>EngramClient.session\<close>, and
  the lifecycle methods of \<open>EngramSession\<close>.
\<close>

section \<open>Options\<close>

text \<open>The options of \<open>connect\<close> that become frames: the kernel key, the configuration (its members in
  order), \<open>env.modules\<close>, the composed bootstrap, the initial context, and the host functions by name.\<close>

record session_plan =
  cs_kernelKey :: "string option"
  cs_config :: "(string, json) omap"
  cs_modules :: "json option"
  cs_bootstrap :: string
  cs_ctx :: "(string \<times> json) list"
  cs_host :: "string list"
  cs_hostModules :: "(string \<times> string list) list"

text \<open>\<open>env.modules\<close> counts when the configuration has no \<open>modules\<close>.\<close>

definition merged_config :: "session_plan \<Rightarrow> (string, json) omap" where
  "merged_config S =
     (case cs_modules S of
        Some m \<Rightarrow> if map_of (cs_config S) ''modules'' = None then AList.update ''modules'' m (cs_config S) else cs_config S
      | None \<Rightarrow> cs_config S)"

definition ctxSeed :: "(string \<times> json) list \<Rightarrow> string option" where
  "ctxSeed ctx =
     (if ctx = [] then None
      else Some (''{ const __c = (globalThis.'' @ CTX_GLOBAL @ '' ||= {}), __s = '' @ json_stringify (JObj ctx) @
        ''; for (const __k in __s) if (!(__k in __c)) __c[__k] = __s[__k]; }''))"

definition fullBootstrap :: "session_plan \<Rightarrow> string" where
  "fullBootstrap S =
     (case ctxSeed (cs_ctx S) of
        None \<Rightarrow> cs_bootstrap S
      | Some seed \<Rightarrow> if cs_bootstrap S \<noteq> [] then cs_bootstrap S @ NL @ seed else seed)"

definition create_frame :: "(string, json) omap \<Rightarrow> json" where
  "create_frame config = JObj [(''t'', JStr ''create''), (''config'', JObj config)]"

definition src_frame :: "string \<Rightarrow> json" where
  "src_frame src = JObj [(''t'', JStr ''eval''), (''src'', JStr src)]"

text \<open>The frames \<open>onReady\<close> sends on each new socket, and whether a failure of the frame is swallowed.\<close>

definition onReady :: "session_plan \<Rightarrow> (json \<times> bool) list" where
  "onReady S =
     (case truthy_text (cs_kernelKey S) of
        Some k \<Rightarrow> [(JObj [(''t'', JStr ''auth''), (''token'', JStr k)], True)]
      | None \<Rightarrow> []) @
     (if merged_config S \<noteq> [] then [(create_frame (merged_config S), False)] else []) @
     (if fullBootstrap S \<noteq> [] then [(src_frame (fullBootstrap S), False)] else [])"

text \<open>The names \<open>applyHost\<close> binds, in order, after the two reserved names of the constructor.\<close>

definition bound_hosts :: "session_plan \<Rightarrow> string list" where
  "bound_hosts S = [''__engram_final'', ''final''] @ cs_host S @
     concat (map (\<lambda>(ns, fns). map (\<lambda>f. ns @ ''.'' @ f) fns) (cs_hostModules S))"

section \<open>The other transports\<close>

text \<open>Requests in sequence; the first failure is thrown and ends it.\<close>

fun request_all :: "'s transport \<Rightarrow> json list \<Rightarrow> 's \<Rightarrow> (engram_error, unit) result \<times> 's" where
  "request_all tx [] s = (Inr (), s)"
| "request_all tx (f # fs) s =
     (case tx s f of
        (Inl e, s') \<Rightarrow> (Inl e, s')
      | (Inr _, s') \<Rightarrow> request_all tx fs s')"

definition sdk_applyConfig :: "'s transport \<Rightarrow> (string, json) omap \<Rightarrow> string option \<Rightarrow> 's \<Rightarrow> (engram_error, unit) result \<times> 's" where
  "sdk_applyConfig tx config boot s =
     request_all tx
       ((if config \<noteq> [] then [create_frame config] else []) @
        (case truthy_text boot of Some b \<Rightarrow> [src_frame b] | None \<Rightarrow> [])) s"

section \<open>The lifecycle of a session\<close>

text \<open>What a session keeps of its plan: the registered names and its bootstrap; \<open>li_socket_boot\<close> is
  the bootstrap the transport's \<open>onReady\<close> closed over.\<close>

record lifecycle =
  li_hosts :: "string list"
  li_bootstrap :: "string option"
  li_socket_boot :: string

definition bindHost :: "string \<Rightarrow> lifecycle \<Rightarrow> lifecycle" where
  "bindHost name L = L\<lparr>li_hosts := (if name \<in> set (li_hosts L) then li_hosts L else li_hosts L @ [name])\<rparr>"

text \<open>The shim is sent as a frame at once and appended to the session's bootstrap.\<close>

definition defineHostModule :: "string \<Rightarrow> string list \<Rightarrow> lifecycle \<Rightarrow> json \<times> lifecycle" where
  "defineHostModule ns fns L =
     (let L = fold (\<lambda>f. bindHost (ns @ ''.'' @ f)) fns L;
          shim = hostModuleShim ns fns
      in (src_frame shim,
          L\<lparr>li_bootstrap := Some (case truthy_text (li_bootstrap L) of Some b \<Rightarrow> b @ NL @ shim | None \<Rightarrow> shim)\<rparr>))"

definition bare_frame :: "string \<Rightarrow> json" where
  "bare_frame t = JObj [(''t'', JStr t)]"

definition sdk_reset :: "'s transport \<Rightarrow> 's \<Rightarrow> (engram_error, unit) result \<times> 's" where
  "sdk_reset tx s = request_all tx [bare_frame ''reset''] s"

definition sdk_status :: "'s transport \<Rightarrow> 's \<Rightarrow> (engram_error, json) result \<times> 's" where
  "sdk_status tx s = tx s (bare_frame ''gen'')"

definition sdk_flush :: "'s transport \<Rightarrow> 's \<Rightarrow> (engram_error, json) result \<times> 's" where
  "sdk_flush tx s = tx s (bare_frame ''flush'')"

definition sdk_evict :: "'s transport \<Rightarrow> 's \<Rightarrow> (engram_error, unit) result \<times> 's" where
  "sdk_evict tx s = request_all tx [bare_frame ''evict''] s"

definition hibernateThenResume ::
  "'s transport \<Rightarrow> 's \<Rightarrow> (engram_error, json option \<times> json option) result \<times> 's" where
  "hibernateThenResume tx s =
     (case sdk_evict tx s of
        (Inl e, s') \<Rightarrow> (Inl e, s')
      | (Inr _, s') \<Rightarrow>
          apfst (\<lambda>r. rbind r (\<lambda>reply. Inr (json_get ''restoreSource'' reply, json_get ''generation'' reply)))
            (tx s' (src_frame ''1'')))"

text \<open>\<open>ctx.set\<close> and \<open>ctx.get\<close> go to the transport directly; \<open>set\<close> and \<open>get\<close> through \<open>eval\<close>.\<close>

definition ctx_set :: "'s transport \<Rightarrow> string \<Rightarrow> json \<Rightarrow> 's \<Rightarrow> (engram_error, unit) result \<times> 's" where
  "ctx_set tx key v s = request_all tx [src_frame (store_src CTX_GLOBAL key v)] s"

definition ctx_get ::
  "(string \<Rightarrow> json option) \<Rightarrow> 's transport \<Rightarrow> string \<Rightarrow> 's \<Rightarrow> (engram_error, json option) result \<times> 's" where
  "ctx_get parse tx key s =
     apfst (\<lambda>r. rbind r (\<lambda>reply. case normalize parse reply of
         None \<Rightarrow> Inl TYPE_ERROR
       | Some res \<Rightarrow> Inr (case er_value res of Some JNull \<Rightarrow> None | v \<Rightarrow> v)))
       (tx s (src_frame (slot_src CTX_GLOBAL key)))"

definition kv_set :: "'s eval_fn \<Rightarrow> string \<Rightarrow> json \<Rightarrow> 's sdk_session \<Rightarrow> (engram_error, unit) result \<times> 's sdk_session" where
  "kv_set ev key v st = apfst (\<lambda>r. rbind r (\<lambda>_. Inr ())) (ev (store_src ''__kv'' key v) st)"

definition kv_get :: "'s eval_fn \<Rightarrow> string \<Rightarrow> 's sdk_session \<Rightarrow> (engram_error, json option) result \<times> 's sdk_session" where
  "kv_get ev key st =
     apfst (\<lambda>r. rbind r (\<lambda>res. Inr (case er_value res of Some JNull \<Rightarrow> None | v \<Rightarrow> v))) (ev (slot_src ''__kv'' key) st)"

section \<open>The options of a pooled session\<close>

text \<open>\<open>{...a, ...b}\<close>.\<close>

definition spread_into :: "(string, 'a) omap \<Rightarrow> (string, 'a) omap \<Rightarrow> (string, 'a) omap" where
  "spread_into a b = foldl (\<lambda>m (k, v). AList.update k v m) a b"

text \<open>The merged members of one session: the pool's defaults, overridden by the call's; the maps are
  merged one level deep, \<open>session\<close> is the id.\<close>

record pool_opts =
  po_scalars :: "(string, json) omap"
  po_config :: "(string, json) omap option"
  po_env :: "(string, json) omap option"
  po_host :: "(string, nat) omap option"
  po_hostModules :: "(string, string list) omap option"

definition merge_opt :: "(string, 'a) omap option \<Rightarrow> (string, 'a) omap option \<Rightarrow> (string, 'a) omap option" where
  "merge_opt a b =
     (if a \<noteq> None \<or> b \<noteq> None
      then Some (spread_into (case a of Some x \<Rightarrow> x | None \<Rightarrow> []) (case b of Some x \<Rightarrow> x | None \<Rightarrow> []))
      else None)"

definition connectOpts :: "string \<Rightarrow> pool_opts \<Rightarrow> pool_opts \<Rightarrow> pool_opts" where
  "connectOpts sid d ov =
     \<lparr>po_scalars = AList.update ''session'' (JStr sid) (spread_into (po_scalars d) (po_scalars ov)),
      po_config = Some (spread_into (case po_config d of Some x \<Rightarrow> x | None \<Rightarrow> []) (case po_config ov of Some x \<Rightarrow> x | None \<Rightarrow> [])),
      po_env = merge_opt (po_env d) (po_env ov),
      po_host = merge_opt (po_host d) (po_host ov),
      po_hostModules = merge_opt (po_hostModules d) (po_hostModules ov)\<rparr>"

section \<open>Views of the pool\<close>

definition pool_ids :: "engram_client \<Rightarrow> string list" where
  "pool_ids c = map fst (ec_sessions c)"

definition pool_get :: "string \<Rightarrow> engram_client \<Rightarrow> nat option" where
  "pool_get sid c = map_of (ec_sessions c) sid"

text \<open>\<open>statusAll\<close> with the outcome of each session's probe, a failed one as the empty object.\<close>

definition statusAll :: "(nat \<Rightarrow> (engram_error, json) result) \<Rightarrow> engram_client \<Rightarrow> (string, json) omap" where
  "statusAll probe c =
     map (\<lambda>(sid, n). (sid, case probe n of Inr v \<Rightarrow> v | Inl _ \<Rightarrow> JObj [])) (ec_sessions c)"

section \<open>Merging\<close>

lemma spread_into_lookup: "map_of (spread_into a b) = map_of a ++ map_of (rev b)"
  by (induction b arbitrary: a) (auto simp: spread_into_def map_add_def map_of_update fun_eq_iff split: option.splits)

end
