(* ===== verification/CloudClient.thy ===== *)
theory CloudClient
  imports SdkConnect CloudProps
begin

text \<open>
  The client library over the cloud: the requests \<open>HttpTransport\<close> makes (\<open>packages/sdk/src/index.ts\<close>)
  meet the entry and the supervisor (\<open>apps/cloud/src/supervisor.ts\<close>).  An evaluation reaches the
  kernel of the account's own session; the last section holds what is lost on this path.
\<close>

section \<open>A call as a request\<close>

text \<open>\<open>call\<close> adds the key as a header; \<open>init.headers\<close> of a POST is the content type.\<close>

definition cloud_http :: "string \<Rightarrow> cloud_call \<Rightarrow> request" where
  "cloud_http key c =
     \<lparr>rq_method = hc_method c, rq_path = hc_path c, rq_query = hc_query c,
      rq_headers = (if hc_method c = ''POST'' then [(''content-type'', ''application/json'')] else []) @ [(''x-api-key'', key)],
      rq_body = (case hc_body c of None \<Rightarrow> Some (JObj []) | Some b \<Rightarrow> Some b)\<rparr>"

lemmas cloud_defs = cloud_http_def cloud_request_def http_get_or_post_def frame_t_def frame_src_def

lemma eval_call: "cloud_request session (eval_request code rid opts) =
    \<lparr>hc_method = ''GET'', hc_path = ''/eval'', hc_query = [(''session'', session), (''src'', code)], hc_body = None\<rparr>"
  by (simp add: cloud_defs eval_request_def)

text \<open>C37. An evaluation over HTTP reaches its session: once the entry has resolved the key to an account that
  holds the permission to evaluate, the reply is the metered evaluation of exactly the source given, in the
  facet of that account and session, on the shard of that session, and no other shard changes.\<close>

theorem cloud_eval_reaches_session:
  assumes "session \<noteq> []" "code \<noteq> []" "key \<noteq> []"
    and rq: "rq = cloud_http key (cloud_request session (eval_request code rid opts))"
    and c: "resolve_request E now rq w = (Inr (Some c), w1)" "cr_account c \<noteq> []"
    and p: "\<forall>p \<in> set (effectivePermissions c). clean_slug p" "KERNEL_EVAL \<in> set (effectivePermissions c)"
    and run: "touch_then now (cr_account c) session
        (\<lambda>s1. map_prod (reply_response (cr_account c) session) id
                 (evalMetered (ce_sup E) (cr_account c) session code (now mod 65536) s1))
        ((cl_shards w (shardFor session SHARD_COUNT))\<lparr>su_credType := cred_type_str (cr_credType c)\<rparr>) = (r, s')"
  shows "entry_fetch E now rnd rq w =
    (Inr (case r of Inl e \<Rightarrow> error_response e | Inr resp \<Rightarrow> resp),
     w1\<lparr>cl_shards := (cl_shards w)(shardFor session SHARD_COUNT := s')\<rparr>)"
proof -
  let ?n = "shardFor session SHARD_COUNT"
  have f: "rq_path rq = ''/eval''" "session_of rq = session" "query rq ''src'' = code" "getApiKey rq \<noteq> []"
    using assms(1-3) unfolding rq eval_call
    by (simp_all add: cloud_http_def session_of_def query_def getApiKey_def header_def or_else_def)
  note g = gated_fields[of c rq]
  have q: "query (gated c rq) ''src'' = code" using f by (simp add: gated_def query_def cong: option.case_cong)
  have perms: "request_perms (js_join CHR '','' (effectivePermissions c)) = effectivePermissions c"
    by (rule perms_roundtrip[OF p(1)])
  have route: "sup_route (ce_sup E) now (cr_account c) (effectivePermissions c) (gated c rq) s =
      Some (touch_then now (cr_account c) session (\<lambda>s1. map_prod (reply_response (cr_account c) session) id
         (evalMetered (ce_sup E) (cr_account c) session code (now mod 65536) s1)) s)" for s
    using c(2) p(2) assms(2) f
    by (simp add: sup_route_def g q guarded_def requireTenant_def requirePerm_def or_else_def Let_def)
  have cred: "header (gated c rq) ''x-md-credtype'' = cred_type_str (cr_credType c)"
    "header (gated c rq) ''x-md-tenant'' = cr_account c"
    by (simp_all add: gated_def header_def gate_headers_values)
  have sup: "sup_fetch (ce_sup E) (ce_info E) now rnd (gated c rq) (cl_shards w ?n) =
      (Inr (case r of Inl e \<Rightarrow> error_response e | Inr resp \<Rightarrow> resp), s')"
    using run f(1) g(3) by (auto simp: sup_fetch_def g(4) perms cred route control_paths_def Let_def split: sum.splits)
  have "data_route E now rnd rq w = call_shard E now rnd ?n (gated c rq) w1"
    using c f by (simp add: data_route_def gated_def)
  also have "\<dots> = (Inr (case r of Inl e \<Rightarrow> error_response e | Inr resp \<Rightarrow> resp), w1\<lparr>cl_shards := (cl_shards w)(?n := s')\<rparr>)"
    using sup resolve_request_shards[OF c(1)] by (simp add: call_shard_def)
  finally show ?thesis using f(1) by (simp add: entry_fetch_def)
qed

definition demo_eval :: request where
  "demo_eval = cloud_http ''k'' (cloud_request ''s'' (eval_request ''x'' ''r'' \<lparr>eo_throwOnError = None, eo_durability = None\<rparr>))"

theorem cloud_eval_reaches_session_witness:
  "\<exists>r s' w1. touch_then 1 ''org'' ''s'' (\<lambda>s1. map_prod (reply_response ''org'' ''s'') id
        (evalMetered log_env ''org'' ''s'' ''x'' 1 s1)) (empty_shard\<lparr>su_credType := cred_type_str (cr_credType org_credential)\<rparr>) = (r, s') \<and>
     cl_shards (snd (entry_fetch cloud_demo_env 1 [] demo_eval demo_cloud)) (shardFor ''s'' SHARD_COUNT) = s'"
proof -
  have "getApiKey demo_eval = ''k''"
    by (simp add: demo_eval_def eval_call cloud_http_def getApiKey_def header_def or_else_def)
  then obtain a where a: "resolve_request cloud_demo_env 1 demo_eval demo_cloud = (Inr (Some org_credential), demo_cloud\<lparr>cl_auth := a\<rparr>)"
    using key_resolves by blast
  have p: "effectivePermissions org_credential = DEVELOPER_PROFILE" by (simp add: effectivePermissions_def org_credential_def)
  obtain r s' where run: "touch_then 1 ''org'' ''s'' (\<lambda>s1. map_prod (reply_response ''org'' ''s'') id
      (evalMetered log_env ''org'' ''s'' ''x'' 1 s1)) (empty_shard\<lparr>su_credType := cred_type_str (cr_credType org_credential)\<rparr>) = (r, s')"
    by force
  have "entry_fetch cloud_demo_env 1 [] demo_eval demo_cloud =
    (Inr (case r of Inl e \<Rightarrow> error_response e | Inr resp \<Rightarrow> resp),
     demo_cloud\<lparr>cl_auth := a, cl_shards := (cl_shards demo_cloud)(shardFor ''s'' SHARD_COUNT := s')\<rparr>)"
    by (rule cloud_eval_reaches_session[OF _ _ _ demo_eval_def a])
      (use run p profile_clean in \<open>simp_all add: cloud_demo_env_def demo_cloud_def org_credential_def DEVELOPER_PROFILE_def\<close>)
  then show ?thesis using run by simp
qed

section \<open>What is lost on this path\<close>

text \<open>The request identifier and the durability asked for never leave the client.\<close>

lemma http_drops_reqId: "cloud_request session (eval_request code rid opts) = cloud_request session (eval_request code rid' opts')"
  by (simp add: eval_call)

text \<open>An empty cell evaluates \<open>1+1\<close>.\<close>

lemma http_empty_cell:
  "or_else (query (cloud_http key (cloud_request session (eval_request '''' rid opts))) ''src'') ''1+1'' = ''1+1''"
  by (simp add: eval_call cloud_http_def query_def or_else_def)

text \<open>A configuration goes to a path that no route serves: the answer is the service information with status
  200, and no kernel is configured; the same holds for a status probe.\<close>

lemma http_config_is_dropped:
  assumes "rq = cloud_http key (cloud_request session f)" "frame_t f \<in> {''create'', ''ping'', ''gen''}"
  shows "sup_fetch S info now rnd (gated c rq) s =
    (Inr (200, info (rq_path rq)), s\<lparr>su_credType := cred_type_str (cr_credType c)\<rparr>)"
proof -
  have "rq_path rq \<in> {''/configure'', ''/status''}" using assms
    by (auto simp: cloud_http_def cloud_request_def http_get_or_post_def Let_def)
  then show ?thesis
    by (auto simp: sup_fetch_def sup_route_def control_paths_def gated_def gate_headers_values header_def Let_def)
qed

text \<open>A reset becomes an eviction, which keeps the snapshot.\<close>

lemma http_reset_is_evict: "cloud_request session (bare_frame ''reset'') = cloud_request session (bare_frame ''evict'')"
  by (simp add: cloud_defs bare_frame_def)

end
