(* ===== verification/CliScan.thy ===== *)
theory CliScan
  imports Json
begin

text \<open>
  The completeness test of the command line's REPL, \<open>packages/cli/src/repl.ts\<close>: \<open>scanBalance\<close>,
  \<open>stripTrailingComment\<close>, \<open>endsWithDanglingOperator\<close> and \<open>isComplete\<close>.  The loop of \<open>scanBalance\<close> is a
  function on the text that is left, its local variables a record; \<open>i++\<close> drops a character.
\<close>

section \<open>The scanner\<close>

text \<open>\<open>sc_templates\<close> is \<open>templateInExpr\<close> cut to its first \<open>templates\<close> entries, the innermost first.\<close>

record scan =
  sc_round :: int
  sc_curly :: int
  sc_square :: int
  sc_inS :: bool
  sc_inD :: bool
  sc_inLine :: bool
  sc_inBlock :: bool
  sc_templates :: "bool list"
  sc_prevSig :: "char option"
  sc_inRegex :: bool
  sc_inCharClass :: bool

definition scan_start :: scan where
  "scan_start = \<lparr>sc_round = 0, sc_curly = 0, sc_square = 0, sc_inS = False, sc_inD = False, sc_inLine = False,
     sc_inBlock = False, sc_templates = [], sc_prevSig = None, sc_inRegex = False, sc_inCharClass = False\<rparr>"

definition is_letter :: "char \<Rightarrow> bool" where
  "is_letter c = (let n = of_char c :: nat in 65 \<le> n \<and> n \<le> 90 \<or> 97 \<le> n \<and> n \<le> 122)"

text \<open>The characters \<open>[A-Za-z0-9_$)\]}]\<close>, after which a slash divides.\<close>

definition ends_value :: "char \<Rightarrow> bool" where
  "ends_value c = (is_letter c \<or> is_digit 10 c \<or> c \<in> {CHR ''_'', CHR ''$'', CHR '')'', CHR '']'', CHR ''}''})"

definition isRegexAllowed :: "scan \<Rightarrow> bool" where
  "isRegexAllowed st = (case sc_prevSig st of None \<Rightarrow> True | Some c \<Rightarrow> \<not> ends_value c)"

definition BACKSLASH :: char where "BACKSLASH = CHR 0x5C"
definition SQUOTE :: char where "SQUOTE = CHR 0x27"
definition DQUOTE :: char where "DQUOTE = CHR 0x22"
definition BACKTICK :: char where "BACKTICK = CHR 0x60"
definition NEWLINE :: char where "NEWLINE = CHR 0x0A"

text \<open>Inside a string: the state and what is left.\<close>

definition scan_quoted :: "char \<Rightarrow> (scan \<Rightarrow> scan) \<Rightarrow> char \<Rightarrow> string \<Rightarrow> scan \<Rightarrow> scan \<times> string" where
  "scan_quoted q off c s st =
     (if c = BACKSLASH then (st, drop 1 s) else if c = q then (off st, s) else (st, s))"

definition scan_regex :: "char \<Rightarrow> string \<Rightarrow> scan \<Rightarrow> scan \<times> string" where
  "scan_regex c s st =
     (if c = BACKSLASH then (st, drop 1 s)
      else if sc_inCharClass st then ((if c = CHR '']'' then st\<lparr>sc_inCharClass := False\<rparr> else st), s)
      else if c = CHR ''['' then (st\<lparr>sc_inCharClass := True\<rparr>, s)
      else if c = CHR ''/'' then (st\<lparr>sc_inRegex := False, sc_prevSig := Some CHR ''/''\<rparr>, dropWhile is_letter s)
      else (st, s))"

text \<open>The text of a template, outside \<open>${...}\<close>.\<close>

definition scan_template :: "char \<Rightarrow> string \<Rightarrow> scan \<Rightarrow> scan \<times> string" where
  "scan_template c s st =
     (if c = BACKSLASH then (st, drop 1 s)
      else if c = BACKTICK then (st\<lparr>sc_templates := tl (sc_templates st), sc_prevSig := Some BACKTICK\<rparr>, s)
      else if c = CHR ''$'' \<and> prefix ''{'' s
      then (st\<lparr>sc_templates := True # tl (sc_templates st), sc_curly := sc_curly st + 1, sc_prevSig := Some CHR ''{''\<rparr>, drop 1 s)
      else (st, s))"

definition scan_bracket :: "char \<Rightarrow> scan \<Rightarrow> scan" where
  "scan_bracket c st =
     (if c = CHR ''('' then st\<lparr>sc_round := sc_round st + 1\<rparr>
      else if c = CHR '')'' then st\<lparr>sc_round := sc_round st - 1\<rparr>
      else if c = CHR ''['' then st\<lparr>sc_square := sc_square st + 1\<rparr>
      else if c = CHR '']'' then st\<lparr>sc_square := sc_square st - 1\<rparr>
      else if c = CHR ''{'' then st\<lparr>sc_curly := sc_curly st + 1\<rparr>
      else if c = CHR ''}'' then
        (if sc_templates st \<noteq> [] \<and> hd (sc_templates st) \<and> 0 < sc_curly st
         then st\<lparr>sc_curly := sc_curly st - 1, sc_templates := False # tl (sc_templates st)\<rparr>
         else st\<lparr>sc_curly := sc_curly st - 1\<rparr>)
      else st)"

definition scan_code :: "char \<Rightarrow> string \<Rightarrow> scan \<Rightarrow> scan \<times> string" where
  "scan_code c s st =
     (if c = CHR ''/'' \<and> prefix ''/'' s then (st\<lparr>sc_inLine := True\<rparr>, drop 1 s)
      else if c = CHR ''/'' \<and> prefix ''*'' s then (st\<lparr>sc_inBlock := True\<rparr>, drop 1 s)
      else if c = SQUOTE then (st\<lparr>sc_inS := True\<rparr>, s)
      else if c = DQUOTE then (st\<lparr>sc_inD := True\<rparr>, s)
      else if c = BACKTICK then (st\<lparr>sc_templates := False # sc_templates st\<rparr>, s)
      else if c = CHR ''/'' \<and> isRegexAllowed st then (st\<lparr>sc_inRegex := True, sc_inCharClass := False\<rparr>, s)
      else (let st = scan_bracket c st in ((if js_space c then st else st\<lparr>sc_prevSig := Some c\<rparr>), s)))"

definition scan_char :: "char \<Rightarrow> string \<Rightarrow> scan \<Rightarrow> scan \<times> string" where
  "scan_char c s st =
     (if sc_inLine st then ((if c = NEWLINE then st\<lparr>sc_inLine := False\<rparr> else st), s)
      else if sc_inBlock st then
        (if c = CHR ''*'' \<and> prefix ''/'' s then (st\<lparr>sc_inBlock := False\<rparr>, drop 1 s) else (st, s))
      else if sc_inS st then scan_quoted SQUOTE (\<lambda>st. st\<lparr>sc_inS := False\<rparr>) c s st
      else if sc_inD st then scan_quoted DQUOTE (\<lambda>st. st\<lparr>sc_inD := False\<rparr>) c s st
      else if sc_inRegex st then scan_regex c s st
      else if sc_templates st \<noteq> [] \<and> \<not> hd (sc_templates st) then scan_template c s st
      else scan_code c s st)"

lemma scan_parts_shrink:
  "length (snd (scan_quoted q off c s st)) \<le> length s" "length (snd (scan_regex c s st)) \<le> length s"
  "length (snd (scan_template c s st)) \<le> length s" "length (snd (scan_code c s st)) \<le> length s"
  by (simp_all add: scan_quoted_def scan_regex_def scan_template_def scan_code_def Let_def length_dropWhile_le
      split del: if_split split: if_split)

lemma scan_char_shrinks: "length (snd (scan_char c s st)) \<le> length s"
  unfolding scan_char_def using scan_parts_shrink by (simp split: if_split)

function scan_loop :: "scan \<Rightarrow> string \<Rightarrow> scan" where
  "scan_loop st [] = st"
| "scan_loop st (c # s) = scan_loop (fst (scan_char c s st)) (snd (scan_char c s st))"
  by pat_completeness auto
termination scan_loop
  by (relation "measure (\<lambda>(st, s). length s)") (auto simp: scan_char_shrinks less_Suc_eq_le case_prod_unfold)

section \<open>The tail\<close>

definition js_trimEnd :: "string \<Rightarrow> string" where
  "js_trimEnd s = rev (dropWhile js_space (rev s))"

text \<open>The last line, and what is before it.\<close>

definition last_line :: "string \<Rightarrow> string" where
  "last_line src = rev (takeWhile (\<lambda>c. c \<noteq> NEWLINE) (rev src))"

definition before_last_line :: "string \<Rightarrow> string" where
  "before_last_line src = rev (dropWhile (\<lambda>c. c \<noteq> NEWLINE) (rev src))"

fun index_slashes :: "string \<Rightarrow> nat option" where
  "index_slashes [] = None"
| "index_slashes (c # s) =
     (if c = CHR ''/'' \<and> prefix ''/'' s then Some 0 else map_option Suc (index_slashes s))"

definition stripTrailingComment :: "string \<Rightarrow> string" where
  "stripTrailingComment src =
     (case index_slashes (last_line src) of
        None \<Rightarrow> src
      | Some i \<Rightarrow>
          (let pre = take i (last_line src) in
           if even (count_list pre SQUOTE) \<and> even (count_list pre DQUOTE)
           then before_last_line src @ pre else src))"

definition ends_with_any :: "string list \<Rightarrow> string \<Rightarrow> bool" where
  "ends_with_any ends code = list_ex (\<lambda>e. suffix e code) ends"

text \<open>\<open>(&&|\|\||\?\?|[-+*/%&|^<>=]=?|=)$\<close>.\<close>

definition binary_ends :: "string list" where
  "binary_ends = [''&&'', ''||'', ''??''] @ concat (map (\<lambda>c. [[c], [c, CHR ''='']]) ''-+*/%&|^<>='') @ [''='']"

definition endsWithDanglingOperator :: "string \<Rightarrow> bool" where
  "endsWithDanglingOperator code =
     (if suffix ''=>'' code then True
      else if ends_with_any [''?.'', ''.'', '','', ''?'', '':''] code \<and> \<not> suffix '';'' code then True
      else if ends_with_any [''++'', ''--''] code then False
      else ends_with_any binary_ends code \<and> \<not> suffix ''=>'' code)"

record balance =
  ba_complete :: bool
  ba_openLiteral :: bool

definition open_literal :: "scan \<Rightarrow> bool" where
  "open_literal st = (sc_inS st \<or> sc_inD st \<or> sc_inBlock st \<or> sc_templates st \<noteq> [] \<or> sc_inRegex st)"

definition balanced :: "scan \<Rightarrow> bool" where
  "balanced st = (sc_round st \<le> 0 \<and> sc_curly st \<le> 0 \<and> sc_square st \<le> 0 \<and> \<not> open_literal st \<and> \<not> sc_inLine st)"

definition scanBalance :: "string \<Rightarrow> balance" where
  "scanBalance src =
     (let st = scan_loop scan_start src in
      if \<not> balanced st then \<lparr>ba_complete = False, ba_openLiteral = open_literal st\<rparr>
      else
        (let code = js_trimEnd (stripTrailingComment src) in
         if code = [] then \<lparr>ba_complete = True, ba_openLiteral = False\<rparr>
         else if endsWithDanglingOperator code then \<lparr>ba_complete = False, ba_openLiteral = False\<rparr>
         else \<lparr>ba_complete = True, ba_openLiteral = False\<rparr>))"

definition isComplete :: "string \<Rightarrow> bool" where
  "isComplete src = ba_complete (scanBalance src)"

end
