(* ===== verification/CliRender.thy ===== *)
theory CliRender
  imports SdkSession
begin

text \<open>
  What the command line's REPL prints, \<open>packages/cli/src/repl.ts\<close>: \<open>makeColors\<close>, \<open>formatResult\<close> and the
  rendering of MIME outputs, with the files it saves.  The file system, the reading of artifacts, the
  decoding of base64 by \<open>Buffer\<close> and the length of a text in UTF-8 are operations of \<open>cli_io\<close> over
  its state.  A thrown error is its message.  The inline images of iTerm are left out.
\<close>

section \<open>Colours\<close>

definition ESC :: char where "ESC = CHR 0x1B"

definition paint :: "string \<Rightarrow> string \<Rightarrow> bool \<Rightarrow> string \<Rightarrow> string" where
  "paint open close enabled s =
     (if enabled then ESC # ''['' @ open @ ''m'' @ s @ [ESC] @ ''['' @ close @ ''m'' else s)"

definition yellow :: "bool \<Rightarrow> string \<Rightarrow> string" where "yellow = paint ''33'' ''39''"
definition green :: "bool \<Rightarrow> string \<Rightarrow> string" where "green = paint ''32'' ''39''"
definition red :: "bool \<Rightarrow> string \<Rightarrow> string" where "red = paint ''31'' ''39''"
definition cyan :: "bool \<Rightarrow> string \<Rightarrow> string" where "cyan = paint ''36'' ''39''"
definition dim :: "bool \<Rightarrow> string \<Rightarrow> string" where "dim = paint ''2'' ''22''"
definition bold :: "bool \<Rightarrow> string \<Rightarrow> string" where "bold = paint ''1'' ''22''"

section \<open>A value\<close>

definition json_or :: "json option \<Rightarrow> string" where
  "json_or v = (case v of None \<Rightarrow> ''undefined'' | Some x \<Rightarrow> js_String x)"

text \<open>\<open>String(r.valuePreview ?? r.value)\<close>.\<close>

definition preview_or_value :: "eval_result \<Rightarrow> string" where
  "preview_or_value r = (case er_valuePreview r of Some p \<Rightarrow> p | None \<Rightarrow> json_or (er_value r))"

definition error_text :: "string \<Rightarrow> json option \<Rightarrow> string \<Rightarrow> string" where
  "error_text k e d =
     (case js_field k e of Some v \<Rightarrow> js_String v | None \<Rightarrow> d)"

definition error_stack :: "json option \<Rightarrow> string" where
  "error_stack e = (case js_field ''stack'' e of Some (JStr s) \<Rightarrow> js_join CHR 0x0A (tl (js_split CHR 0x0A s)) | _ \<Rightarrow> '''')"

definition formatResult :: "bool \<Rightarrow> eval_result \<Rightarrow> string" where
  "formatResult c r =
     (if \<not> er_ok r then
        (let head = red c (error_text ''name'' (er_error r) ''Error'' @ '': '' @ error_text ''message'' (er_error r) '''');
             stack = error_stack (er_error r)
         in if js_trim stack \<noteq> [] then head @ NL @ dim c stack else head)
      else
        (let vt = (case er_valueType r of Some (JStr t) \<Rightarrow> t | _ \<Rightarrow> '''') in
         if vt = ''undefined'' then dim c ''undefined''
         else if vt = ''null'' then dim c ''null''
         else if vt = ''number'' \<or> vt = ''bigint'' then yellow c (preview_or_value r)
         else if vt = ''boolean'' then yellow c (preview_or_value r)
         else if vt = ''string'' then
           green c (json_quote (case er_value r of Some (JStr s) \<Rightarrow> s
                                | _ \<Rightarrow> (case er_valuePreview r of Some p \<Rightarrow> p | None \<Rightarrow> '''')))
         else if vt = ''error'' then red c (preview_or_value r)
         else (case er_valuePreview r of
             Some p \<Rightarrow> p
           | None \<Rightarrow> (case er_value r of Some v \<Rightarrow> json_stringify v | None \<Rightarrow> dim c ''undefined''))))"

fun text_join :: "string \<Rightarrow> string list \<Rightarrow> string" where
  "text_join sep [] = []"
| "text_join sep [x] = x"
| "text_join sep (x # y # r) = x @ sep @ text_join sep (y # r)"

text \<open>\<open>JSON.stringify(v, null, 2)\<close> at an indentation.\<close>

fun json_pretty :: "nat \<Rightarrow> json \<Rightarrow> string" where
  "json_pretty k (JArr xs) =
     (if xs = [] then ''[]''
      else ''['' @ NL @ text_join ('','' @ NL) (map (\<lambda>x. replicate (k + 2) CHR '' '' @ json_pretty (k + 2) x) xs) @
           NL @ replicate k CHR '' '' @ '']'')"
| "json_pretty k (JObj ms) =
     (if ms = [] then ''{}''
      else ''{'' @ NL @ text_join ('','' @ NL)
             (map (\<lambda>(n, x). replicate (k + 2) CHR '' '' @ json_quote n @ '': '' @ json_pretty (k + 2) x) ms) @
           NL @ replicate k CHR '' '' @ ''}'')"
| "json_pretty k v = json_stringify v"

section \<open>MIME outputs\<close>

record 'f cli_io =
  io_mkdir :: "string \<Rightarrow> 'f \<Rightarrow> (string, unit) result \<times> 'f"
  io_write :: "string \<Rightarrow> string \<Rightarrow> 'f \<Rightarrow> (string, unit) result \<times> 'f"
  io_artifact :: "json \<Rightarrow> 'f \<Rightarrow> (string, string) result \<times> 'f"
  io_fromBase64 :: "string \<Rightarrow> string"
  io_byteLength :: "string \<Rightarrow> nat"
  io_join :: "string \<Rightarrow> string \<Rightarrow> string"
  io_artifactDir :: string

definition SAVEABLE_TEXT_MIME :: "(string \<times> string) list" where
  "SAVEABLE_TEXT_MIME = [(''image/svg+xml'', ''svg''), (''text/html'', ''html'')]"

definition SAVEABLE_BASE64_MIME :: "(string \<times> string) list" where
  "SAVEABLE_BASE64_MIME = [(''image/png'', ''png''), (''image/jpeg'', ''jpg''), (''image/jpg'', ''jpg''),
     (''image/gif'', ''gif''), (''image/webp'', ''webp''), (''application/pdf'', ''pdf'')]"

definition INLINE_TEXT_MIME :: "string list" where
  "INLINE_TEXT_MIME = [''text/markdown'', ''text/plain'', ''application/json'']"

text \<open>The characters a file name keeps, and the replacement of each run of others by a dash.\<close>

definition segment_char :: "char \<Rightarrow> bool" where
  "segment_char c =
     (let n = of_char c :: nat in
      48 \<le> n \<and> n \<le> 57 \<or> 65 \<le> n \<and> n \<le> 90 \<or> 97 \<le> n \<and> n \<le> 122 \<or> c \<in> {CHR ''.'', CHR ''_'', CHR ''-''})"

function dash_runs :: "string \<Rightarrow> string" where
  "dash_runs [] = []"
| "dash_runs (c # s) =
     (if segment_char c then c # dash_runs s
      else CHR ''-'' # dash_runs (dropWhile (\<lambda>c. \<not> segment_char c) s))"
  by pat_completeness auto
termination dash_runs
  by (relation "measure length") (auto simp: length_dropWhile_le le_imp_less_Suc)

definition trim_dashes :: "string \<Rightarrow> string" where
  "trim_dashes s = rev (dropWhile (\<lambda>c. c = CHR ''-'') (rev (dropWhile (\<lambda>c. c = CHR ''-'') s)))"

definition safeSegment :: "string \<Rightarrow> string" where
  "safeSegment s = (let t = take 80 (trim_dashes (dash_runs s)) in if t = [] then ''session'' else t)"

definition isArtifactValue :: "json \<Rightarrow> bool" where
  "isArtifactValue v =
     (json_get ''kind'' v = Some (JStr ''artifact'') \<and> (case json_get ''handle'' v of Some (JStr _) \<Rightarrow> True | _ \<Rightarrow> False))"

definition bestMime :: "(string, json) omap \<Rightarrow> string option" where
  "bestMime bundle =
     (case find (\<lambda>m. map_of bundle m \<noteq> None) (map fst SAVEABLE_BASE64_MIME @ map fst SAVEABLE_TEXT_MIME @ INLINE_TEXT_MIME) of
        Some m \<Rightarrow> Some m
      | None \<Rightarrow> (case bundle of [] \<Rightarrow> None | (k, _) # _ \<Rightarrow> Some k))"

definition mimePayload :: "'f cli_io \<Rightarrow> json \<Rightarrow> 'f \<Rightarrow> (string, json) result \<times> 'f" where
  "mimePayload I v f =
     (if isArtifactValue v then apfst (\<lambda>r. rbind r (\<lambda>s. Inr (JStr s))) (io_artifact I v f) else (Inr v, f))"

text \<open>\<open>s.replace(/^data:[^,]+,/, "").replace(/\s+/g, "")\<close>, then \<open>Buffer.from\<close>.\<close>

definition data_url_body :: "string \<Rightarrow> string" where
  "data_url_body s =
     (if prefix ''data:'' s then
        (let r = drop 5 s; h = takeWhile (\<lambda>c. c \<noteq> CHR '','') r in
         if h \<noteq> [] \<and> length h < length r then drop (length h + 1) r else s)
      else s)"

definition bufferFromBase64 :: "'f cli_io \<Rightarrow> string \<Rightarrow> string" where
  "bufferFromBase64 I s = io_fromBase64 I (filter (\<lambda>c. \<not> js_space c) (data_url_body s))"

definition artifact_file :: "string \<Rightarrow> int option \<Rightarrow> nat \<Rightarrow> string \<Rightarrow> string" where
  "artifact_file sessionId cell idx ext =
     safeSegment sessionId @ ''-cell'' @ (case cell of Some n \<Rightarrow> int_str n | None \<Rightarrow> ''x'') @ ''-out'' @ nat_str idx @ ''.'' @ ext"

definition mime_ext :: "string \<Rightarrow> string" where
  "mime_ext mime =
     (case map_of SAVEABLE_BASE64_MIME mime of
        Some e \<Rightarrow> e
      | None \<Rightarrow> (case map_of SAVEABLE_TEXT_MIME mime of Some e \<Rightarrow> e | None \<Rightarrow> ''bin''))"

definition saveMimePayload ::
  "'f cli_io \<Rightarrow> string \<Rightarrow> int option \<Rightarrow> nat \<Rightarrow> string \<Rightarrow> json \<Rightarrow> 'f \<Rightarrow> (string, string \<times> nat) result \<times> 'f" where
  "saveMimePayload I sessionId cell idx mime v f =
     (let file = io_join I (io_artifactDir I) (artifact_file sessionId cell idx (mime_ext mime));
          save = (\<lambda>body f. apfst (\<lambda>r. rbind r (\<lambda>_. Inr (file, if map_of SAVEABLE_BASE64_MIME mime \<noteq> None then length body else io_byteLength I body)))
                            (io_write I file body f))
      in case io_mkdir I (io_artifactDir I) f of
           (Inl e, f1) \<Rightarrow> (Inl e, f1)
         | (Inr _, f1) \<Rightarrow>
           (case mimePayload I v f1 of
              (Inl e, f2) \<Rightarrow> (Inl e, f2)
            | (Inr (JStr p), f2) \<Rightarrow>
                if map_of SAVEABLE_BASE64_MIME mime \<noteq> None then
                  (let buf = bufferFromBase64 I p in
                   if buf = [] then (Inl (''empty '' @ mime @ '' payload; refusing to save '' @ file), f2) else save buf f2)
                else save p f2
            | (Inr payload, f2) \<Rightarrow>
                apfst (\<lambda>r. rbind r (\<lambda>_. Inr (file, io_byteLength I (json_pretty 0 payload)))) (io_write I file (json_pretty 0 payload) f2)))"

definition shortText :: "string \<Rightarrow> string" where
  "shortText s = (if length s \<le> 4000 then s
     else take 4000 s @ NL @ ''... '' @ nat_str (length s - 4000) @ '' more chars'')"

definition payload_text :: "json \<Rightarrow> string" where
  "payload_text v = (case v of JStr s \<Rightarrow> s | _ \<Rightarrow> json_pretty 0 v)"

definition renderInlineMime ::
  "'f cli_io \<Rightarrow> bool \<Rightarrow> (string, json) omap \<Rightarrow> 'f \<Rightarrow> (string, string option) result \<times> 'f" where
  "renderInlineMime I c bundle f =
     (case map_of bundle ''application/json'' of
        Some v \<Rightarrow> apfst (\<lambda>r. rbind r (\<lambda>x. Inr (Some (payload_text x)))) (mimePayload I v f)
      | None \<Rightarrow>
        (case find (\<lambda>m. map_of bundle m \<noteq> None) [''text/markdown'', ''text/plain''] of
           Some m \<Rightarrow> apfst (\<lambda>r. rbind r (\<lambda>x. Inr (Some (shortText (payload_text x))))) (mimePayload I (the (map_of bundle m)) f)
         | None \<Rightarrow>
           (Inr (case bestMime bundle of None \<Rightarrow> None | Some m \<Rightarrow> if m = [] then None else Some (dim c (''['' @ m @ '']''))), f)))"

text \<open>The line for a saved payload, or for a failure to save it, which is caught.\<close>

definition saved_line :: "bool \<Rightarrow> string \<Rightarrow> (string, string \<times> nat) result \<Rightarrow> string" where
  "saved_line c mime r =
     (case r of
        Inr (file, n) \<Rightarrow> cyan c (''['' @ mime @ '']'') @ dim c ('' saved '' @ nat_str n @ '' bytes -> '' @ file)
      | Inl e \<Rightarrow> red c (''['' @ mime @ ''] save failed: '' @ e))"

definition renderMimeBundle ::
  "'f cli_io \<Rightarrow> bool \<Rightarrow> string \<Rightarrow> string \<Rightarrow> (string, json) omap \<Rightarrow> int option \<Rightarrow> nat \<Rightarrow> 'f \<Rightarrow> (string, string list) result \<times> 'f" where
  "renderMimeBundle I c sessionId output_type bundle cell idx f =
     (case find (\<lambda>m. map_of bundle m \<noteq> None) (map fst SAVEABLE_BASE64_MIME) of
        Some m \<Rightarrow> (let (r, f') = saveMimePayload I sessionId cell idx m (the (map_of bundle m)) f in (Inr [saved_line c m r], f'))
      | None \<Rightarrow>
        (case find (\<lambda>m. map_of bundle m \<noteq> None) (map fst SAVEABLE_TEXT_MIME) of
           Some m \<Rightarrow>
             (let (r, f1) = saveMimePayload I sessionId cell idx m (the (map_of bundle m)) f in
              case map_of bundle ''text/plain'' of
                None \<Rightarrow> (Inr [saved_line c m r], f1)
              | Some v \<Rightarrow>
                  apfst (\<lambda>q. rbind q (\<lambda>fb. Inr (saved_line c m r # (case fb of Some t \<Rightarrow> if t \<noteq> [] then [t] else [] | None \<Rightarrow> []))))
                    (renderInlineMime I c [(''text/plain'', v)] f1))
         | None \<Rightarrow>
             apfst (\<lambda>q. rbind q (\<lambda>t. Inr (case t of
                 Some s \<Rightarrow> [(if output_type = ''display_data'' then dim c ''[display] '' else []) @ s]
               | None \<Rightarrow> [])))
               (renderInlineMime I c bundle f)))"

text \<open>The loop over the outputs: the lines so far, and the number of bundles rendered.\<close>

fun render_outputs ::
  "'f cli_io \<Rightarrow> bool \<Rightarrow> bool \<Rightarrow> string \<Rightarrow> int option \<Rightarrow> json list \<Rightarrow> string list \<Rightarrow> nat \<Rightarrow> 'f \<Rightarrow> (string, string list) result \<times> 'f" where
  "render_outputs I c incl sessionId cell [] sofar n f = (Inr sofar, f)"
| "render_outputs I c incl sessionId cell (out # outs) sofar n f =
     (let ty = (case json_get ''output_type'' out of Some (JStr t) \<Rightarrow> t | _ \<Rightarrow> '''');
          txt' = (case js_field ''text'' (Some out) of Some v \<Rightarrow> Some (js_String v) | None \<Rightarrow> None)
      in if ty = ''clear_output'' then render_outputs I c incl sessionId cell outs [] n f
         else if ty = ''stream'' then
           render_outputs I c incl sessionId cell outs (sofar @ (case txt' of Some t \<Rightarrow> [t] | None \<Rightarrow> [])) n f
         else if ty = ''error'' then
           render_outputs I c incl sessionId cell outs (sofar @ (case txt' of Some t \<Rightarrow> [red c t] | None \<Rightarrow> [])) n f
         else if ty = ''execute_result'' \<and> \<not> incl then render_outputs I c incl sessionId cell outs sofar n f
         else (case js_field ''data'' (Some out) of
             Some (JObj bundle) \<Rightarrow>
               (case renderMimeBundle I c sessionId ty bundle cell n f of
                  (Inl e, f') \<Rightarrow> (Inl e, f')
                | (Inr sofar', f') \<Rightarrow> render_outputs I c incl sessionId cell outs (sofar @ sofar') (n + 1) f')
           | _ \<Rightarrow> render_outputs I c incl sessionId cell outs sofar n f))"

definition renderMimeOutputs ::
  "'f cli_io \<Rightarrow> bool \<Rightarrow> string \<Rightarrow> eval_result \<Rightarrow> 'f \<Rightarrow> (string, string list) result \<times> 'f" where
  "renderMimeOutputs I c sessionId r f = render_outputs I c False sessionId (er_cell r) (er_outputs r) [] 0 f"

section \<open>Printing a result\<close>

definition value_undefined :: "eval_result \<Rightarrow> bool" where
  "value_undefined r = (er_valueType r = Some (JStr ''undefined''))"

text \<open>The console lines of a result; level and text as the text they become.\<close>

definition console_text :: "(string \<Rightarrow> string) \<Rightarrow> json \<times> json \<Rightarrow> string" where
  "console_text pre l = pre (js_String (fst l)) @ js_String (snd l)"

definition printEvalResult :: "'f cli_io \<Rightarrow> bool \<Rightarrow> string \<Rightarrow> eval_result \<Rightarrow> 'f \<Rightarrow> (string, string list) result \<times> 'f" where
  "printEvalResult I c sessionId r f =
     (case renderMimeOutputs I c sessionId r f of
        (Inl e, f') \<Rightarrow> (Inl e, f')
      | (Inr rich, f') \<Rightarrow>
        (Inr (map (console_text (\<lambda>l. ''  ['' @ l @ ''] '')) (er_console r) @ map (\<lambda>l. ''  '' @ l) rich @
           (if \<not> er_ok r then
              [''  ERROR '' @ (case er_error r of Some e \<Rightarrow> json_or (json_get ''name'' e) | None \<Rightarrow> ''undefined'') @ '': '' @
               (case er_error r of Some e \<Rightarrow> json_or (json_get ''message'' e) | None \<Rightarrow> ''undefined'')]
            else if rich \<noteq> [] \<and> value_undefined r then []
            else [''  => '' @ (case er_valuePreview r of Some p \<Rightarrow> p
                 | None \<Rightarrow> (case er_value r of Some v \<Rightarrow> json_stringify v | None \<Rightarrow> ''undefined''))])), f'))"

definition value_and_latency :: "bool \<Rightarrow> string option \<Rightarrow> nat \<Rightarrow> string list" where
  "value_and_latency c formatted ms =
     (case formatted of
        None \<Rightarrow> [dim c (nat_str ms @ ''ms'')]
      | Some t \<Rightarrow>
          if CHR 0x0A \<in> set t then [t, dim c (CHR 0xB7 # '' '' @ nat_str ms @ ''ms'')]
          else [t @ dim c ('' '' @ [CHR 0xB7] @ '' '' @ nat_str ms @ ''ms'')])"

end
