(* ===== verification/CliRepl.thy ===== *)
theory CliRepl
  imports CliScan CliRender SdkClient
begin

text \<open>
  The interactive REPL of the command line, \<open>runRepl\<close> of \<open>packages/cli/src/repl.ts\<close>, as a function of the
  events of readline and of the settled requests.  An \<open>async\<close> handler is cut at its \<open>await\<close>s: what waits
  is a task, and the event that settles a task carries the answer.  \<open>pause\<close> of readline does not hold
  back lines it has already read, so lines may arrive while a task waits.  Of readline the model has its
  history and \<open>question\<close>.  A dash outside the 8-bit characters is written as two hyphens.  What is
  written without the end of a line is a line of its own, and prompts and the spinner are left out.
\<close>

section \<open>History\<close>

definition HISTORY_CAP :: nat where "HISTORY_CAP = 1000"

text \<open>\<open>text.split("\n").filter(Boolean).slice(-CAP).reverse()\<close>; no file is the empty history.\<close>

definition loadHistory :: "string option \<Rightarrow> string list" where
  "loadHistory file =
     (case file of
        None \<Rightarrow> []
      | Some t \<Rightarrow> take HISTORY_CAP (rev (filter (\<lambda>l. l \<noteq> []) (js_split NEWLINE t))))"

definition appendHistory :: "string \<Rightarrow> string option \<Rightarrow> string option" where
  "appendHistory entry file =
     (let clean = js_trim (map (\<lambda>c. if c = NEWLINE then CHR '' '' else c) entry) in
      if clean = [] then file else Some ((case file of None \<Rightarrow> [] | Some t \<Rightarrow> t) @ clean @ [NEWLINE]))"

definition saveHistory :: "string list \<Rightarrow> string" where
  "saveHistory history =
     (let out = js_join NEWLINE (rev (take HISTORY_CAP history)) in out @ (if out \<noteq> [] then [NEWLINE] else []))"

text \<open>readline keeps the newest first, skips blank lines and repetitions of the newest, and caps the list.\<close>

definition rl_remember :: "string \<Rightarrow> string list \<Rightarrow> string list" where
  "rl_remember line h =
     (if js_trim line = [] \<or> (case h of x # _ \<Rightarrow> x = line | [] \<Rightarrow> False) then h else take HISTORY_CAP (line # h))"

section \<open>State\<close>

text \<open>What waits: a cell typed at the prompt, a cell read by \<open>.load\<close>, a cell of the editor, the probe of
  \<open>.help caps\<close>, the answer to \<open>.reset\<close>, the reset itself, and a status request (\<open>True\<close> for \<open>.session\<close>).\<close>

datatype repl_task =
    CellTask | LoadTask | EditorTask | CapsTask | AskTask | ResetTask | StatusTask bool

datatype repl_sent = SentEval string | SentStatus | SentReset

record 'f cli_cfg =
  cc_color :: bool
  cc_session :: string
  cc_endpoint :: string
  cc_io :: "'f cli_io"
  cc_read :: "string \<Rightarrow> (string, string) result"

record 'f repl =
  rp_buffer :: string
  rp_editor :: bool
  rp_sigint :: bool
  rp_wantExit :: bool
  rp_rlHistory :: "string list"
  rp_history :: "string list"
  rp_file :: "string option"
  rp_out :: "string list"
  rp_tasks :: "repl_task list"
  rp_sent :: "repl_sent list"
  rp_cells :: "string list"
  rp_exited :: bool
  rp_crashed :: bool
  rp_fs :: 'f

definition say :: "string list \<Rightarrow> 'f repl \<Rightarrow> 'f repl" where
  "say lines st = st\<lparr>rp_out := rp_out st @ lines\<rparr>"

definition begin_task :: "repl_task \<Rightarrow> repl_sent list \<Rightarrow> 'f repl \<Rightarrow> 'f repl" where
  "begin_task t sent st = st\<lparr>rp_tasks := rp_tasks st @ [t], rp_sent := rp_sent st @ sent\<rparr>"

definition freshPrompt :: "'f repl \<Rightarrow> 'f repl" where
  "freshPrompt st = st\<lparr>rp_buffer := [], rp_editor := False\<rparr>"

text \<open>\<open>evalCell\<close> up to its request.\<close>

definition evalCell :: "repl_task \<Rightarrow> string \<Rightarrow> 'f repl \<Rightarrow> 'f repl" where
  "evalCell t src st =
     begin_task t [SentEval src] (st\<lparr>rp_file := appendHistory src (rp_file st), rp_cells := rp_cells st @ [src]\<rparr>)"

text \<open>\<open>evalCell\<close> after its request: what it prints, or the error of a rendering, which it throws.\<close>

definition cell_output ::
  "'f cli_cfg \<Rightarrow> (string, eval_result) result \<Rightarrow> nat \<Rightarrow> 'f repl \<Rightarrow> (string, unit) result \<times> 'f repl" where
  "cell_output C r ms st =
     (let c = cc_color C in
      case r of
        Inl m \<Rightarrow> (Inr (), say [red c (''transport error: '' @ m)] st)
      | Inr res \<Rightarrow>
        (let st1 = say (map (console_text (\<lambda>l. dim c (l @ '': ''))) (er_console res)) st in
         case renderMimeOutputs (cc_io C) c (cc_session C) res (rp_fs st1) of
           (Inl e, f) \<Rightarrow> (Inl e, st1\<lparr>rp_fs := f\<rparr>)
         | (Inr rich, f) \<Rightarrow>
           (Inr (), say (rich @ value_and_latency c
                           (if rich \<noteq> [] \<and> value_undefined res then None else Some (formatResult c res)) ms)
                      (st1\<lparr>rp_fs := f\<rparr>))))"

section \<open>Leaving\<close>

definition DEFAULT_ENDPOINT :: string where "DEFAULT_ENDPOINT = ''wss://engram.umgbhalla.xyz''"

definition gracefulExit :: "'f cli_cfg \<Rightarrow> 'f repl \<Rightarrow> 'f repl" where
  "gracefulExit C st =
     (if rp_exited st then st
      else
        say [dim (cc_color C) (NL @ ''bye. session is durable -- resume with:''),
             cyan (cc_color C) (''  engram repl --session '' @ cc_session C @
               (if cc_endpoint C = DEFAULT_ENDPOINT then [] else '' --endpoint '' @ cc_endpoint C))]
          (st\<lparr>rp_exited := True, rp_file := Some (saveHistory (rp_history st))\<rparr>))"

text \<open>The \<open>close\<close> event of readline.\<close>

definition rl_closed :: "'f cli_cfg \<Rightarrow> 'f repl \<Rightarrow> 'f repl" where
  "rl_closed C st0 =
     (let st = st0\<lparr>rp_history := rp_rlHistory st0\<rparr> in
      if rp_editor st \<and> \<not> rp_wantExit st then
        (let src = rp_buffer st; st = st\<lparr>rp_editor := False, rp_buffer := []\<rparr> in
         if js_trim src \<noteq> [] then evalCell EditorTask src st else freshPrompt st)
      else gracefulExit C st)"

section \<open>Dot commands\<close>

definition js_words :: "string \<Rightarrow> string list" where
  "js_words s = js_split CHR '' '' (foldr (\<lambda>c r. if js_space c then (case r of d # _ \<Rightarrow> if js_space d then r else CHR '' '' # r | [] \<Rightarrow> [CHR '' '']) else c # r) s [])"

definition caps_probe :: string where
  "caps_probe = ''(typeof help==='' @ [SQUOTE] @ ''function'' @ [SQUOTE] @ '') ? help() : JSON.stringify(globalThis.__nodeCompat ? '' @
     ''{builtins:__nodeCompat.capabilities.available, excluded:__nodeCompat.excluded, '' @
     ''modules:__nodeCompat.modules, network:__nodeCompat.network, esm:__nodeCompat.esm, '' @
     ''examples:__nodeCompat.examples} : '' @ [SQUOTE] @ ''no manifest'' @ [SQUOTE] @ '', null, 2)''"

definition help_lines :: "bool \<Rightarrow> string list" where
  "help_lines c =
     [dim c ''.help'' @ ''            show this help'',
      dim c ''.help caps'' @ ''       VM capabilities: builtins, stdlib modules, network, esm, examples'',
      dim c ''.caps'' @ ''            alias for .help caps'',
      dim c ''.exit'' @ ''            close session and exit'',
      dim c ''.clear'' @ ''           clear the screen'',
      dim c ''.reset'' @ ''           reset the REMOTE session (drops namespace)'',
      dim c ''.editor'' @ ''          multi-line editor (Ctrl-D submit, Ctrl-C cancel)'',
      dim c ''.load <file>'' @ ''     eval a local file as one cell'',
      dim c ''.save <file>'' @ ''     write REPL history to a file'',
      dim c ''.session'' @ ''         print session id / endpoint / generation / inMemory'',
      dim c ''.gen'' @ ''             print generation + inMemory'']"

text \<open>The state after the command, and whether its handler still waits.\<close>

definition handleDot :: "'f cli_cfg \<Rightarrow> string \<Rightarrow> 'f repl \<Rightarrow> 'f repl \<times> bool" where
  "handleDot C line st =
     (let ws = js_words (js_trim line); cmd = hd ws; arg = js_join CHR '' '' (tl ws); c = cc_color C in
      if cmd = ''.caps'' \<or> cmd = ''.help'' \<and> (arg = ''caps'' \<or> arg = ''env'' \<or> arg = ''modules'') then
        (begin_task CapsTask [SentEval caps_probe] st, True)
      else if cmd = ''.help'' then (say (help_lines c) st, False)
      else if cmd = ''.exit'' then (rl_closed C (st\<lparr>rp_wantExit := True\<rparr>), False)
      else if cmd = ''.clear'' then (say (if c then [ESC # ''[2J'' @ [ESC] @ ''[H''] else []) st, False)
      else if cmd = ''.reset'' then (begin_task AskTask [] (say [dim c ''reset the remote session? (y/N) ''] st), True)
      else if cmd = ''.editor'' then
        (say [dim c ''// entering editor mode (Ctrl-D to submit, Ctrl-C to cancel)''] (st\<lparr>rp_editor := True, rp_buffer := []\<rparr>), False)
      else if cmd = ''.load'' then
        (if arg = [] then (say [red c ''.load needs a file path''] st, False)
         else (case cc_read C arg of
             Inl e \<Rightarrow> (say [red c (''.load failed: '' @ e)] st, False)
           | Inr code \<Rightarrow> (evalCell LoadTask code st, True)))
      else if cmd = ''.save'' then
        (if arg = [] then (say [red c ''.save needs a file path''] st, False)
         else (case io_write (cc_io C) arg (js_join NEWLINE (rev (rp_rlHistory st)) @ [NEWLINE]) (rp_fs st) of
             (Inl e, f) \<Rightarrow> (say [red c (''.save failed: '' @ e)] (st\<lparr>rp_fs := f\<rparr>), False)
           | (Inr _, f) \<Rightarrow> (say [dim c (''history saved to '' @ arg)] (st\<lparr>rp_fs := f\<rparr>), False)))
      else if cmd = ''.session'' then (begin_task (StatusTask True) [SentStatus] st, True)
      else if cmd = ''.gen'' then (begin_task (StatusTask False) [SentStatus] st, True)
      else (say [red c (''unknown command: '' @ cmd @ ''  (try .help)'')] st, False))"

text \<open>What follows \<open>await handleDot(line)\<close> in the handler of a line.\<close>

definition after_dot :: "'f repl \<Rightarrow> 'f repl" where
  "after_dot st = (if rp_wantExit st then st else freshPrompt st)"

section \<open>Events\<close>

text \<open>\<open>/^y(es)?$/i\<close>.\<close>

definition is_yes :: "string \<Rightarrow> bool" where
  "is_yes a = (js_lower a = ''y'' \<or> js_lower a = ''yes'')"

definition candidate_of :: "string \<Rightarrow> string \<Rightarrow> string" where
  "candidate_of buffer line = (if buffer \<noteq> [] then buffer @ NL @ line else line)"

definition on_line :: "'f cli_cfg \<Rightarrow> string \<Rightarrow> 'f repl \<Rightarrow> 'f repl" where
  "on_line C line st0 =
     (let st = st0\<lparr>rp_sigint := False\<rparr> in
      if rp_editor st then st\<lparr>rp_buffer := rp_buffer st @ line @ NL\<rparr>
      else if rp_buffer st = [] \<and> prefix ''.'' (js_trim line) then
        (let (st1, waits) = handleDot C line st in if waits then st1 else after_dot st1)
      else
        (let candidate = candidate_of (rp_buffer st) line in
         if js_trim candidate = [] then st
         else if ba_complete (scanBalance candidate) then evalCell CellTask candidate st
         else st\<lparr>rp_buffer := candidate\<rparr>))"

text \<open>A line goes to the pending question, when there is one, and to the handler otherwise.\<close>

definition answer_question :: "'f cli_cfg \<Rightarrow> string \<Rightarrow> 'f repl \<Rightarrow> 'f repl" where
  "answer_question C answer st0 =
     (let st = st0\<lparr>rp_tasks := remove1 AskTask (rp_tasks st0)\<rparr> in
      if is_yes (js_trim answer) then begin_task ResetTask [SentReset] st
      else after_dot (say [dim (cc_color C) ''cancelled.''] st))"

definition typed :: "'f cli_cfg \<Rightarrow> string \<Rightarrow> 'f repl \<Rightarrow> 'f repl" where
  "typed C line st0 =
     (let st = st0\<lparr>rp_rlHistory := rl_remember line (rp_rlHistory st0)\<rparr> in
      if List.member (rp_tasks st) AskTask then answer_question C line st else on_line C line st)"

definition EXIT_HINT :: string where
  "EXIT_HINT = ''(To exit, press Ctrl+C again or Ctrl+D or type .exit)''"

definition on_sigint :: "'f cli_cfg \<Rightarrow> 'f repl \<Rightarrow> 'f repl" where
  "on_sigint C st =
     (if rp_editor st then freshPrompt (say [dim (cc_color C) (NL @ ''// editor cancelled'')] (st\<lparr>rp_editor := False, rp_buffer := []\<rparr>))
      else if rp_buffer st \<noteq> [] then freshPrompt (say [[]] (st\<lparr>rp_buffer := []\<rparr>))
      else if rp_sigint st then rl_closed C (st\<lparr>rp_wantExit := True\<rparr>)
      else say [[], dim (cc_color C) EXIT_HINT] (st\<lparr>rp_sigint := True\<rparr>))"

definition sigintHandler :: "'f cli_cfg \<Rightarrow> 'f repl \<Rightarrow> 'f repl" where
  "sigintHandler C st =
     (if rp_editor st \<or> rp_buffer st \<noteq> [] then st
      else if rp_sigint st then gracefulExit C (st\<lparr>rp_wantExit := True\<rparr>)
      else say [[], dim (cc_color C) EXIT_HINT] (st\<lparr>rp_sigint := True\<rparr>))"

text \<open>The answers a task waits for.\<close>

datatype repl_answer =
    EvalAnswer "(string, eval_result) result" nat
  | StatusAnswer "(string option \<times> string option) option"
  | ResetAnswer "string option"

definition caps_text :: "bool \<Rightarrow> (string, eval_result) result \<Rightarrow> string" where
  "caps_text c r =
     (case r of
        Inr res \<Rightarrow>
          if er_ok res then (case er_value res of Some (JStr s) \<Rightarrow> s
            | _ \<Rightarrow> (case er_valuePreview res of Some p \<Rightarrow> p | None \<Rightarrow> []))
          else red c ''could not read capabilities from the kernel''
      | Inl _ \<Rightarrow> red c ''could not read capabilities from the kernel'')"

definition or_q :: "string option \<Rightarrow> string" where
  "or_q v = (case v of Some s \<Rightarrow> s | None \<Rightarrow> ''?'')"

definition status_line :: "'f cli_cfg \<Rightarrow> bool \<Rightarrow> (string option \<times> string option) option \<Rightarrow> string" where
  "status_line C full s =
     (let (g, m) = (case s of Some p \<Rightarrow> p | None \<Rightarrow> (None, None));
          tail = ''generation='' @ or_q g @ ''  inMemory='' @ or_q m
      in dim (cc_color C) (if full then ''id='' @ cc_session C @ ''  endpoint='' @ cc_endpoint C @ ''  '' @ tail else tail))"

text \<open>The rest of a handler once its task is settled.  An error thrown while a cell is rendered is caught by
  \<open>.load\<close> and by nothing else, which ends the process.\<close>

definition settled :: "'f cli_cfg \<Rightarrow> repl_task \<Rightarrow> repl_answer \<Rightarrow> 'f repl \<Rightarrow> 'f repl" where
  "settled C t a st =
     (case (t, a) of
        (CellTask, EvalAnswer r ms) \<Rightarrow>
          (case cell_output C r ms st of (Inr _, st') \<Rightarrow> freshPrompt st' | (Inl e, st') \<Rightarrow> st'\<lparr>rp_crashed := True\<rparr>)
      | (EditorTask, EvalAnswer r ms) \<Rightarrow>
          (case cell_output C r ms st of (Inr _, st') \<Rightarrow> freshPrompt st' | (Inl e, st') \<Rightarrow> st'\<lparr>rp_crashed := True\<rparr>)
      | (LoadTask, EvalAnswer r ms) \<Rightarrow>
          (case cell_output C r ms st of
             (Inr _, st') \<Rightarrow> after_dot st'
           | (Inl e, st') \<Rightarrow> after_dot (say [red (cc_color C) (''.load failed: '' @ e)] st'))
      | (CapsTask, EvalAnswer r ms) \<Rightarrow> after_dot (say [caps_text (cc_color C) r] st)
      | (StatusTask full, StatusAnswer s) \<Rightarrow> after_dot (say [status_line C full s] st)
      | (ResetTask, ResetAnswer e) \<Rightarrow>
          after_dot (say ((case e of Some m \<Rightarrow> [red (cc_color C) (''reset failed: '' @ m)] | None \<Rightarrow> []) @
                          [dim (cc_color C) ''session reset.'']) st)
      | _ \<Rightarrow> st)"

datatype repl_event = Typed string | Settled repl_task repl_answer | CtrlC | ProcessInterrupt | CtrlD

definition repl_step :: "'f cli_cfg \<Rightarrow> repl_event \<Rightarrow> 'f repl \<Rightarrow> 'f repl" where
  "repl_step C e st =
     (if rp_exited st \<or> rp_crashed st then st
      else (case e of
          Typed l \<Rightarrow> typed C l st
        | Settled t a \<Rightarrow>
            if t \<in> set (rp_tasks st) \<and> t \<noteq> AskTask then settled C t a (st\<lparr>rp_tasks := remove1 t (rp_tasks st)\<rparr>) else st
        | CtrlC \<Rightarrow> on_sigint C st
        | ProcessInterrupt \<Rightarrow> sigintHandler C st
        | CtrlD \<Rightarrow> rl_closed C st))"

definition repl_start :: "string option \<Rightarrow> 'f \<Rightarrow> 'f repl" where
  "repl_start file f =
     \<lparr>rp_buffer = [], rp_editor = False, rp_sigint = False, rp_wantExit = False, rp_rlHistory = loadHistory file,
      rp_history = loadHistory file, rp_file = file, rp_out = [], rp_tasks = [], rp_sent = [], rp_cells = [],
      rp_exited = False, rp_crashed = False, rp_fs = f\<rparr>"

text \<open>\<open>runRepl\<close> up to its first prompt: nothing but two lines when the kernel does not answer.\<close>

definition endpoint_host :: "string \<Rightarrow> string" where
  "endpoint_host e =
     takeWhile (\<lambda>c. c \<noteq> CHR ''/'')
       (if prefix ''ws://'' e then drop 5 e else if prefix ''wss://'' e then drop 6 e else e)"

definition runRepl ::
  "'f cli_cfg \<Rightarrow> (string, string option \<times> bool) result \<Rightarrow> string option \<Rightarrow> 'f \<Rightarrow> string list + 'f repl" where
  "runRepl C status file f =
     (let c = cc_color C in
      case status of
        Inl m \<Rightarrow> Inl [red c ''cannot reach the kernel'' @ dim c ('' -- '' @ m), dim c (''  endpoint '' @ cc_endpoint C)]
      | Inr (gen, warm) \<Rightarrow>
          Inr (say [bold c ''Engram'' @ dim c ('' '' @ [CHR 0xB7] @ '' durable kernel '' @ [CHR 0xB7] @ '' '' @ endpoint_host (cc_endpoint C)),
                    dim c (''session '' @ cc_session C @ '' '' @ [CHR 0xB7] @ '' gen '' @ or_q gen @ '' '' @ [CHR 0xB7] @ '' '' @
                      (if warm then ''warm'' else ''cold'') @ '' '' @ [CHR 0xB7] @ '' .help'')] (repl_start file f)))"

text \<open>Tab completion of dot commands.\<close>

definition DOT_COMMANDS :: "string list" where
  "DOT_COMMANDS = [''.help'', ''.caps'', ''.exit'', ''.clear'', ''.reset'', ''.editor'', ''.load'', ''.save'', ''.session'', ''.gen'']"

definition completer :: "string \<Rightarrow> string list" where
  "completer line =
     (if prefix ''.'' line then
        (let hits = filter (prefix line) DOT_COMMANDS in if hits \<noteq> [] then hits else DOT_COMMANDS)
      else [])"

section \<open>Piped input\<close>

text \<open>The loop of \<open>cmdRepl\<close> over the lines of standard input (\<open>packages/cli/src/engram.ts\<close>): one request
  at a time, each complete candidate a cell; the rest is one more cell.\<close>

fun pipe_loop :: "string \<Rightarrow> string list \<Rightarrow> string list \<times> string" where
  "pipe_loop buf [] = ([], buf)"
| "pipe_loop buf (line # ls') =
     (let candidate = candidate_of buf line in
      if js_trim candidate = [] then pipe_loop buf ls'
      else if isComplete candidate then apfst (\<lambda>cs. candidate # cs) (pipe_loop [] ls')
      else pipe_loop candidate ls')"

definition pipe_cells :: "string list \<Rightarrow> string list" where
  "pipe_cells lines =
     (let (cs, buf) = pipe_loop [] lines in cs @ (if js_trim buf \<noteq> [] then [buf] else []))"

end
