(* ===== verification/CliMain.thy ===== *)
theory CliMain
  imports CliRepl SdkConnect
begin

text \<open>
  The command line itself, \<open>packages/cli/src/engram.ts\<close>: its arguments, the file of known sessions, and
  the commands \<open>repl\<close>, \<open>sessions\<close> and \<open>trace\<close>.  The digest, \<open>Number\<close>, the connection and the time as a
  text are parameters; a file that cannot be written is left as it is.
\<close>

section \<open>Arguments\<close>

text \<open>A flag's value is the next argument unless that is a flag too; a flag named \<open>_\<close> is left out.\<close>

datatype arg_value = ArgText string | ArgSet

record cli_args =
  ca_rest :: "string list"
  ca_flags :: "(string, arg_value) omap"

fun parse_loop :: "string list \<Rightarrow> cli_args \<Rightarrow> cli_args" where
  "parse_loop [] A = A"
| "parse_loop [a] A =
     (if prefix ''--'' a then A\<lparr>ca_flags := AList.update (drop 2 a) ArgSet (ca_flags A)\<rparr>
      else A\<lparr>ca_rest := ca_rest A @ [a]\<rparr>)"
| "parse_loop (a # b # r) A =
     (if prefix ''--'' a then
        (if prefix ''--'' b then parse_loop (b # r) (A\<lparr>ca_flags := AList.update (drop 2 a) ArgSet (ca_flags A)\<rparr>)
         else parse_loop r (A\<lparr>ca_flags := AList.update (drop 2 a) (ArgText b) (ca_flags A)\<rparr>))
      else parse_loop (b # r) (A\<lparr>ca_rest := ca_rest A @ [a]\<rparr>))"

definition parseArgs :: "string list \<Rightarrow> cli_args" where
  "parseArgs argv = parse_loop argv \<lparr>ca_rest = [], ca_flags = []\<rparr>"

definition flag :: "cli_args \<Rightarrow> string \<Rightarrow> arg_value option" where
  "flag A k = map_of (ca_flags A) k"

definition arg_str :: "arg_value option \<Rightarrow> string option" where
  "arg_str v = (case v of Some (ArgText s) \<Rightarrow> Some s | _ \<Rightarrow> None)"

text \<open>\<open>num(v, fallback)\<close>; \<open>number\<close> is \<open>Number\<close> where that is finite.\<close>

definition arg_num :: "(string \<Rightarrow> int option) \<Rightarrow> arg_value option \<Rightarrow> int \<Rightarrow> int" where
  "arg_num number v fallback =
     (case truthy_text (arg_str v) of
        None \<Rightarrow> fallback
      | Some s \<Rightarrow> (case number s of Some n \<Rightarrow> if 0 \<le> n then n else fallback | None \<Rightarrow> fallback))"

definition first_text :: "string option list \<Rightarrow> string option" where
  "first_text vs = (case find (\<lambda>v. truthy_text v \<noteq> None) vs of Some v \<Rightarrow> v | None \<Rightarrow> None)"

section \<open>The file of known sessions\<close>

record session_meta =
  sm_endpoint :: "string option"
  sm_kind :: "string option"
  sm_lastSeen :: "int option"

type_synonym cli_store = "(string, session_meta) omap"

text \<open>\<open>recordSession\<close> with an endpoint and a kind.\<close>

definition recordSession :: "int \<Rightarrow> string \<Rightarrow> string \<Rightarrow> string \<Rightarrow> cli_store \<Rightarrow> cli_store" where
  "recordSession now sid endpoint kind s =
     AList.update sid \<lparr>sm_endpoint = Some endpoint, sm_kind = Some kind, sm_lastSeen = Some now\<rparr> s"

definition stableTtyId :: "(string \<Rightarrow> string) \<Rightarrow> string \<Rightarrow> string \<Rightarrow> string \<Rightarrow> string" where
  "stableTtyId sha1hex host user term = ''repl-'' @ take 12 (sha1hex (host @ '':'' @ user @ '':'' @ term))"

section \<open>\<open>repl\<close>\<close>

text \<open>The configuration the REPL connects with: a keep-alive window makes cells buffered unless the file
  says otherwise.\<close>

definition repl_config :: "int \<Rightarrow> (string, json) omap \<Rightarrow> (string, json) omap" where
  "repl_config keepAliveMs config =
     (if 0 < keepAliveMs \<and> map_of config ''durability'' = None then
        (let c = AList.update ''durability'' (JStr ''warmBuffered'') config in
         AList.update ''warmFlushIdleMs'' (nullish (map_of c ''warmFlushIdleMs'') (JNum keepAliveMs)) c)
      else config)"

record cli_env =
  en_endpoint :: "string option"
  en_kernelKey :: "string option"
  en_apiKey :: "string option"
  en_keepAliveMs :: "string option"
  en_ttyId :: string
  en_number :: "string \<Rightarrow> int option"
  en_isTTY :: bool

definition default_endpoint :: "cli_env \<Rightarrow> string" where
  "default_endpoint N = (case truthy_text (en_endpoint N) of Some e \<Rightarrow> e | None \<Rightarrow> DEFAULT_ENDPOINT)"

definition api_key :: "cli_env \<Rightarrow> string option" where
  "api_key N = first_text [en_kernelKey N, en_apiKey N]"

text \<open>What \<open>cmdRepl\<close> connects with, and how it runs: one cell, the cells of a pipe, or interactively.\<close>

datatype repl_mode = ExecMode string | PipeMode | InteractiveMode

record repl_plan =
  pl_endpoint :: string
  pl_session :: string
  pl_config :: "(string, json) omap"
  pl_key :: "string option"
  pl_keepAliveMs :: int
  pl_trace :: bool
  pl_noisy :: bool
  pl_mode :: repl_mode

definition cmdRepl :: "cli_env \<Rightarrow> (string, json) omap \<Rightarrow> cli_args \<Rightarrow> repl_plan" where
  "cmdRepl N config A =
     (let keep = arg_num (en_number N) (case flag A ''keepalive-ms'' of Some v \<Rightarrow> Some v
                   | None \<Rightarrow> map_option ArgText (en_keepAliveMs N)) (15 * 60000)
      in \<lparr>pl_endpoint = (case truthy_text (arg_str (flag A ''endpoint'')) of Some e \<Rightarrow> e | None \<Rightarrow> default_endpoint N),
          pl_session = (case truthy_text (arg_str (flag A ''session'')) of Some s \<Rightarrow> s | None \<Rightarrow> en_ttyId N),
          pl_config = repl_config keep config,
          pl_key = api_key N,
          pl_keepAliveMs = keep,
          pl_trace = (case flag A ''trace'' of None \<Rightarrow> False | Some (ArgText t) \<Rightarrow> t \<noteq> [] | Some ArgSet \<Rightarrow> True),
          pl_noisy = (keep = 0),
          pl_mode = (case flag A ''exec'' of
              Some ArgSet \<Rightarrow> ExecMode ''true''
            | Some (ArgText t) \<Rightarrow> if t \<noteq> [] then ExecMode t
                else if \<not> en_isTTY N \<and> (flag A ''interactive'' = None \<or> flag A ''interactive'' = Some (ArgText [])) then PipeMode
                else InteractiveMode
            | None \<Rightarrow> if \<not> en_isTTY N \<and> (flag A ''interactive'' = None \<or> flag A ''interactive'' = Some (ArgText [])) then PipeMode
                else InteractiveMode)\<rparr>)"

text \<open>The cells a run submits when it is not interactive.\<close>

definition batch_cells :: "repl_mode \<Rightarrow> string list \<Rightarrow> string list" where
  "batch_cells m lines = (case m of ExecMode src \<Rightarrow> [src] | PipeMode \<Rightarrow> pipe_cells lines | InteractiveMode \<Rightarrow> [])"

section \<open>\<open>sessions\<close> and \<open>trace\<close>\<close>

text \<open>A session opened for one command, closed afterwards: its status or its reset.\<close>

datatype remote = RStatus string string | RReset string string

record cli_result =
  out_lines :: "string list"
  out_remote :: "remote list"
  out_store :: cli_store

definition known_endpoint :: "cli_env \<Rightarrow> cli_args \<Rightarrow> cli_store \<Rightarrow> string \<Rightarrow> string" where
  "known_endpoint N A s sid =
     (case first_text [arg_str (flag A ''endpoint''), Option.bind (map_of s sid) sm_endpoint] of
        Some e \<Rightarrow> e | None \<Rightarrow> default_endpoint N)"

definition show_text :: "string option \<Rightarrow> string" where
  "show_text v = (case v of Some s \<Rightarrow> s | None \<Rightarrow> ''undefined'')"

definition TAB :: string where "TAB = [CHR 0x09]"

text \<open>\<open>answer\<close> is the reply to the remote operation, or its error.\<close>

definition cmdSessions ::
  "cli_env \<Rightarrow> (int \<Rightarrow> string) \<Rightarrow> (remote \<Rightarrow> (string, json) result) \<Rightarrow> cli_args \<Rightarrow> cli_store \<Rightarrow> (string, cli_result) result" where
  "cmdSessions N show_time answer A s =
     (let sub = (case ca_rest A of x # _ \<Rightarrow> if x \<noteq> [] then x else ''list'' | [] \<Rightarrow> ''list'');
          sid = (case ca_rest A of _ # y # _ \<Rightarrow> y | _ \<Rightarrow> []); e = known_endpoint N A s sid
      in if sub = ''list'' then
           Inr \<lparr>out_lines = (if s = [] then [''(no sessions recorded by this CLI)'']
                  else map (\<lambda>(i, m). i @ TAB @ show_text (sm_kind m) @ TAB @
                         show_time (case sm_lastSeen m of Some t \<Rightarrow> t | None \<Rightarrow> 0) @ TAB @ show_text (sm_endpoint m)) s),
                out_remote = [], out_store = s\<rparr>
         else if sub = ''inspect'' then
           (if sid = [] then Inl ''usage: engram sessions inspect <id>''
            else rbind (answer (RStatus e sid)) (\<lambda>v. Inr
              \<lparr>out_lines = [json_pretty 0 v], out_remote = [RStatus e sid], out_store = s\<rparr>))
         else if sub = ''rm'' then
           (if sid = [] then Inl ''usage: engram sessions rm <id>''
            else rbind (answer (RReset e sid)) (\<lambda>_. Inr
              \<lparr>out_lines = [''reset + removed '' @ sid], out_remote = [RReset e sid], out_store = AList.delete sid s\<rparr>))
         else Inl (''unknown sessions subcommand: '' @ sub))"

definition cmdTrace ::
  "cli_env \<Rightarrow> (remote \<Rightarrow> (string, json) result) \<Rightarrow> cli_args \<Rightarrow> cli_store \<Rightarrow> (string, cli_result) result" where
  "cmdTrace N answer A s =
     (let sid = (case first_text [(case ca_rest A of x # _ \<Rightarrow> Some x | [] \<Rightarrow> None), arg_str (flag A ''session'')] of
                   Some x \<Rightarrow> x | None \<Rightarrow> []);
          e = known_endpoint N A s sid
      in rbind (answer (RStatus e sid)) (\<lambda>gen. Inr
           \<lparr>out_lines = [json_pretty 0 (JObj ([(''id'', JStr sid)] @ opt_field ''generation'' (json_get ''generation'' gen) @
              opt_field ''committedCell'' (json_get ''committedCell'' gen) @ opt_field ''inMemory'' (json_get ''inMemory'' gen)))],
            out_remote = [RStatus e sid], out_store = s\<rparr>))"

section \<open>\<open>main\<close>\<close>

datatype command = RunRepl cli_args | RunSessions cli_args | RunTrace cli_args | Usage nat

definition main :: "bool \<Rightarrow> string list \<Rightarrow> command" where
  "main isTTY argv =
     (let args = parseArgs (tl argv) in
      case argv of
        [] \<Rightarrow> if isTTY then RunRepl (parseArgs argv) else Usage 0
      | cmd # _ \<Rightarrow>
          if cmd = ''repl'' then RunRepl args
          else if cmd = ''sessions'' then RunSessions args
          else if cmd = ''trace'' then RunTrace args
          else if prefix ''--'' cmd \<and> isTTY then RunRepl (parseArgs argv)
          else Usage (if cmd = [] then 0 else 1))"

end
