(* ===== verification/CliProps.thy ===== *)
theory CliProps
  imports CliMain
begin

text \<open>
  What the command line guarantees: no typed or piped line is lost between cells, completeness of plain
  code is a count of brackets, the history survives its file, and a saved output stays in its directory.
  The last section holds the behaviours that differ from what the program means to do.
\<close>

section \<open>Blank text\<close>

definition blank_text :: "string \<Rightarrow> bool" where
  "blank_text s \<longleftrightarrow> js_trim s = []"

lemma blank_iff: "blank_text s \<longleftrightarrow> (\<forall>c \<in> set s. js_space c)"
proof -
  have "dropWhile js_space (rev (dropWhile js_space s)) = [] \<longleftrightarrow> dropWhile js_space s = []"
    using hd_dropWhile[of js_space s] by (cases "dropWhile js_space s") (auto simp: dropWhile_eq_Nil_conv dest: set_dropWhileD)
  then show ?thesis by (simp add: blank_text_def js_trim_def dropWhile_eq_Nil_conv)
qed

section \<open>Lines and cells\<close>

text \<open>A group of lines that begins with a line that is not blank, and its text.\<close>

definition group_ok :: "string list \<Rightarrow> bool" where
  "group_ok g \<longleftrightarrow> (case g of [] \<Rightarrow> False | l # _ \<Rightarrow> \<not> blank_text l)"

lemma js_lines_Cons: "g \<noteq> [] \<Longrightarrow> js_lines (l # g) = l @ NL @ js_lines g"
  by (simp add: js_lines_def NL_def js_join_Cons)

lemma js_lines_snoc: "g \<noteq> [] \<Longrightarrow> js_lines (g @ [l]) = js_lines g @ NL @ l"
proof (induction g)
  case (Cons a g)
  then show ?case by (cases g) (simp_all add: js_lines_Cons, simp_all add: js_lines_def)
qed simp

lemma group_not_blank: "group_ok g \<Longrightarrow> \<not> blank_text (js_lines g)"
proof (cases g)
  case (Cons l r)
  assume "group_ok g"
  then have "\<not> blank_text l" by (simp add: Cons group_ok_def)
  then show ?thesis using Cons by (cases r) (auto simp: blank_iff js_lines_Cons, auto simp: js_lines_def)
qed (simp add: group_ok_def)

lemma group_nonempty: "group_ok g \<Longrightarrow> js_lines g \<noteq> []"
  using group_not_blank[of g] by (auto simp: blank_iff)

lemma candidate_empty: "candidate_of [] l = l"
  by (simp add: candidate_of_def)

lemma candidate_group: "group_ok g \<Longrightarrow> candidate_of (js_lines g) l = js_lines (g @ [l])"
proof -
  assume g: "group_ok g"
  then have "g \<noteq> []" by (auto simp: group_ok_def)
  then show ?thesis using g by (simp add: candidate_of_def group_nonempty js_lines_snoc)
qed

lemma group_snoc: "group_ok g \<Longrightarrow> group_ok (g @ [l])"
  by (cases g) (simp_all add: group_ok_def)

lemma pipe_loop_groups:
  assumes "g = [] \<or> group_ok g"
  shows "\<exists>gs h. pipe_loop (js_lines g) lines = (map js_lines gs, js_lines h) \<and> (h = [] \<or> group_ok h) \<and>
     list_all group_ok gs \<and> list_all isComplete (map js_lines gs) \<and>
     filter (\<lambda>l. \<not> blank_text l) (g @ lines) = filter (\<lambda>l. \<not> blank_text l) (concat gs @ h)"
  using assms
proof (induction lines arbitrary: g)
  case Nil
  then show ?case by (intro exI[of _ "[]"] exI[of _ g]) simp
next
  case (Cons l ls')
  let ?nb = "filter (\<lambda>l. \<not> blank_text l)"
  show ?case
  proof (cases "g = [] \<and> blank_text l")
    case True
    have "js_lines [] = ''''" by (simp add: js_lines_def)
    then show ?thesis using Cons.IH[of "[]"] True by (simp add: candidate_empty flip: blank_text_def)
  next
    case False
    define g' where "g' = g @ [l]"
    have g': "group_ok g'" "candidate_of (js_lines g) l = js_lines g'" "?nb (g @ l # ls') = ?nb (g' @ ls')"
      using False Cons.prems by (auto simp: g'_def group_snoc candidate_group)
        (simp_all add: group_ok_def candidate_empty js_lines_def)
    note nb = group_not_blank[OF g'(1)]
    show ?thesis
    proof (cases "isComplete (js_lines g')")
      case True
      obtain gs h where ih: "pipe_loop (js_lines []) ls' = (map js_lines gs, js_lines h)" "h = [] \<or> group_ok h"
        "list_all group_ok gs" "list_all isComplete (map js_lines gs)" "?nb ls' = ?nb (concat gs @ h)"
        using Cons.IH[of "[]"] by auto
      have "js_lines [] = ''''" by (simp add: js_lines_def)
      then have "pipe_loop (js_lines g) (l # ls') = (map js_lines (g' # gs), js_lines h)"
        using True nb ih(1) by (simp add: g'(2) flip: blank_text_def)
      moreover have "?nb (g @ l # ls') = ?nb (concat (g' # gs) @ h)" using ih(5) g'(3) by simp
      ultimately show ?thesis using ih True g'(1)
        by (intro exI[of _ "g' # gs"] exI[of _ h]) simp
    next
      case False
      then have "pipe_loop (js_lines g) (l # ls') = pipe_loop (js_lines g') ls'"
        using nb by (simp add: g'(2) flip: blank_text_def)
      then show ?thesis using Cons.IH[of g'] g' by simp
    qed
  qed
qed

text \<open>C38. Piped input is cut into cells without losing a line: the cells are the texts of consecutive groups
  of lines, each beginning with a line that is not blank; together the groups hold every line that is not
  blank_text, in order; and every cell but the last is lexically complete.\<close>

theorem piped_lines_are_kept:
  "\<exists>groups. pipe_cells lines = map js_lines groups \<and> list_all group_ok groups \<and>
     filter (\<lambda>l. \<not> blank_text l) (concat groups) = filter (\<lambda>l. \<not> blank_text l) lines \<and>
     list_all isComplete (butlast (pipe_cells lines))"
proof -
  have e: "js_lines [] = ''''" by (simp add: js_lines_def)
  obtain gs h where p: "pipe_loop '''' lines = (map js_lines gs, js_lines h)" "h = [] \<or> group_ok h" "list_all group_ok gs"
    "list_all isComplete (map js_lines gs)" "filter (\<lambda>l. \<not> blank_text l) lines = filter (\<lambda>l. \<not> blank_text l) (concat gs @ h)"
    using pipe_loop_groups[of "[]" lines] e by auto
  show ?thesis
  proof (cases "h = []")
    case True
    then have "pipe_cells lines = map js_lines gs" using p(1) e by (simp add: pipe_cells_def js_trim_def)
    moreover have "list_all isComplete (butlast (map js_lines gs))"
      using p(4) by (simp add: list_all_iff) (metis imageE in_set_butlastD list.set_map)
    ultimately show ?thesis using p True by (intro exI[of _ gs]) simp
  next
    case False
    then have "js_trim (js_lines h) \<noteq> []" using p(2) group_not_blank[of h] by (simp add: blank_text_def)
    then have "pipe_cells lines = map js_lines (gs @ [h])" using p(1) by (simp add: pipe_cells_def)
    then show ?thesis using p False by (intro exI[of _ "gs @ [h]"]) simp
  qed
qed

section \<open>The interactive REPL\<close>

text \<open>The editor mode is never on between two events.\<close>

lemma after_dot_editor: "rp_wantExit st \<or> \<not> rp_editor (after_dot st)"
  by (simp add: after_dot_def freshPrompt_def)

definition prompt_inv :: "'f repl \<Rightarrow> bool" where
  "prompt_inv st \<longleftrightarrow> \<not> rp_editor st \<and> (rp_wantExit st \<longrightarrow> rp_exited st)"

lemma prompt_simps:
  "prompt_inv (say x st) = prompt_inv st" "prompt_inv (begin_task t s st) = prompt_inv st"
  "prompt_inv (evalCell t src st) = prompt_inv st" "prompt_inv (st\<lparr>rp_fs := f\<rparr>) = prompt_inv st"
  "prompt_inv (st\<lparr>rp_tasks := ts\<rparr>) = prompt_inv st" "prompt_inv (st\<lparr>rp_sigint := b\<rparr>) = prompt_inv st"
  "prompt_inv (st\<lparr>rp_buffer := t'\<rparr>) = prompt_inv st" "prompt_inv (st\<lparr>rp_rlHistory := h\<rparr>) = prompt_inv st"
  "prompt_inv (st\<lparr>rp_crashed := b'\<rparr>) = prompt_inv st"
  by (simp_all add: prompt_inv_def say_def begin_task_def evalCell_def)

lemma exit_inv: "\<not> rp_editor st \<Longrightarrow> prompt_inv (gracefulExit C st)"
  by (simp add: prompt_inv_def gracefulExit_def say_def)

lemma fresh_inv: "\<not> rp_wantExit st \<Longrightarrow> prompt_inv (freshPrompt st)"
  by (simp add: prompt_inv_def freshPrompt_def)

lemma inv_fresh: "prompt_inv st \<Longrightarrow> prompt_inv (freshPrompt st)" "prompt_inv st \<Longrightarrow> prompt_inv (after_dot st)"
  by (simp_all add: prompt_inv_def freshPrompt_def after_dot_def)

lemma closed_inv: "\<not> rp_editor st \<Longrightarrow> prompt_inv (rl_closed C st)"
  by (simp add: rl_closed_def exit_inv Let_def)

lemma output_inv: "prompt_inv (snd (cell_output C r ms st)) = prompt_inv st"
  by (auto simp: cell_output_def prompt_inv_def say_def Let_def split: sum.split prod.split)

lemma cell_output_inv: "cell_output C r ms st = (q, st') \<Longrightarrow> prompt_inv st' = prompt_inv st"
  using output_inv[of C r ms st] by simp

lemma dot_inv:
  assumes "prompt_inv st" "\<not> rp_exited st" "handleDot C line st = (st', waits)"
  shows "prompt_inv (if waits then st' else after_dot st')"
proof -
  have e: "\<not> rp_editor st" "\<not> rp_wantExit st" using assms(1,2) by (simp_all add: prompt_inv_def)
  then have ed: "prompt_inv (after_dot (say x (st\<lparr>rp_editor := True, rp_buffer := []\<rparr>)))" for x
    by (simp add: prompt_inv_def after_dot_def freshPrompt_def say_def)
  show ?thesis using assms(3,1) e
    by (auto simp: handleDot_def Let_def prompt_simps inv_fresh closed_inv ed
        split: if_splits sum.splits prod.splits) 
qed

lemma line_inv: "prompt_inv st \<Longrightarrow> \<not> rp_exited st \<Longrightarrow> prompt_inv (on_line C line st)"
  using dot_inv[of "st\<lparr>rp_sigint := False\<rparr>" C line]
  by (auto simp: on_line_def Let_def prompt_simps split: prod.split)

lemma typed_inv: "prompt_inv st \<Longrightarrow> \<not> rp_exited st \<Longrightarrow> prompt_inv (typed C line st)"
  by (simp add: typed_def answer_question_def Let_def prompt_simps inv_fresh line_inv)

lemma sigint_inv: "prompt_inv st \<Longrightarrow> \<not> rp_exited st \<Longrightarrow> prompt_inv (on_sigint C st)"
  by (auto simp: on_sigint_def prompt_simps closed_inv inv_fresh) (simp_all add: prompt_inv_def closed_inv[unfolded prompt_inv_def])

lemma settled_inv: "prompt_inv st \<Longrightarrow> prompt_inv (settled C t a st)"
  by (auto simp: settled_def prompt_simps inv_fresh cell_output_inv split: repl_task.split repl_answer.split prod.split sum.split)

lemma repl_step_inv: "prompt_inv st \<Longrightarrow> prompt_inv (repl_step C e st)"
  by (auto simp: repl_step_def prompt_simps typed_inv sigint_inv settled_inv closed_inv prompt_inv_def[of st] sigintHandler_def exit_inv
      split: repl_event.split)

text \<open>\<open>.editor\<close> turns the mode on, and the prompt that follows every command turns it off again.\<close>

theorem editor_never_entered: "\<not> rp_editor (fold (repl_step C) es (repl_start file (f :: 'f)))"
proof -
  have "prompt_inv (fold (repl_step C) es st)" if "prompt_inv st" for st
    using that by (induction es arbitrary: st) (simp_all add: repl_step_inv)
  moreover have "prompt_inv (repl_start file f)" by (simp add: prompt_inv_def repl_start_def)
  ultimately show ?thesis by (simp add: prompt_inv_def)
qed

text \<open>Typing a line and waiting until the cell it completed, if any, is answered.\<close>

definition talk :: "'f cli_cfg \<Rightarrow> (string \<Rightarrow> eval_result \<times> nat) \<Rightarrow> string \<Rightarrow> 'f repl \<Rightarrow> 'f repl" where
  "talk C ans l st =
     (let st' = repl_step C (Typed l) st in
      if CellTask \<in> set (rp_tasks st')
      then repl_step C (Settled CellTask (EvalAnswer (Inr (fst (ans (last (rp_cells st'))))) (snd (ans (last (rp_cells st')))))) st'
      else st')"

definition at_prompt :: "'f repl \<Rightarrow> bool" where
  "at_prompt st \<longleftrightarrow> \<not> rp_editor st \<and> rp_tasks st = [] \<and> \<not> rp_exited st \<and> \<not> rp_crashed st"

lemma output_plain:
  "er_outputs r = [] \<Longrightarrow> \<exists>out. cell_output C (Inr r) ms st = (Inr (), st\<lparr>rp_out := out\<rparr>)"
  by (auto simp: cell_output_def renderMimeOutputs_def say_def Let_def)

lemma talk_step:
  assumes "at_prompt st" "\<not> prefix ''.'' (js_trim l)" "\<And>c. er_outputs (fst (ans c)) = []"
  defines "c \<equiv> candidate_of (rp_buffer st) l"
  shows "at_prompt (talk C ans l st) \<and>
    (rp_cells (talk C ans l st), rp_buffer (talk C ans l st)) =
      (if blank_text c then (rp_cells st, rp_buffer st)
       else if isComplete c then (rp_cells st @ [c], []) else (rp_cells st, c))"
proof -
  have t: "repl_step C (Typed l) st = on_line C l (st\<lparr>rp_rlHistory := rl_remember l (rp_rlHistory st)\<rparr>)"
    using assms(1) by (simp add: repl_step_def typed_def at_prompt_def Let_def)
  show ?thesis
  proof (cases "\<not> blank_text c \<and> isComplete c")
    case True
    define st1 where "st1 = repl_step C (Typed l) st"
    have st1: "rp_tasks st1 = [CellTask]" "rp_cells st1 = rp_cells st @ [c]" "\<not> rp_exited st1" "\<not> rp_crashed st1"
      using True assms(1,2)
      by (simp_all add: st1_def t on_line_def at_prompt_def c_def blank_text_def isComplete_def evalCell_def begin_task_def Let_def)
    obtain out where o: "cell_output C (Inr (fst (ans c))) (snd (ans c)) (st1\<lparr>rp_tasks := []\<rparr>) =
        (Inr (), st1\<lparr>rp_tasks := [], rp_out := out\<rparr>)"
      using output_plain[OF assms(3)[of c], of C "snd (ans c)" "st1\<lparr>rp_tasks := []\<rparr>"] by auto
    have "talk C ans l st = freshPrompt (st1\<lparr>rp_tasks := [], rp_out := out\<rparr>)"
      unfolding talk_def st1_def[symmetric] Let_def using st1 o by (simp add: repl_step_def settled_def)
    then show ?thesis using True st1 by (simp add: freshPrompt_def at_prompt_def)
  next
    case False
    then show ?thesis using assms(1,2)
      by (auto simp: talk_def t on_line_def at_prompt_def c_def blank_text_def isComplete_def Let_def)
  qed
qed

lemma talk_fold:
  assumes "at_prompt st" "\<forall>l \<in> set lines. \<not> prefix ''.'' (js_trim l)" "\<And>c. er_outputs (fst (ans c)) = []"
  shows "at_prompt (fold (talk C ans) lines st) \<and>
    rp_cells (fold (talk C ans) lines st) = rp_cells st @ fst (pipe_loop (rp_buffer st) lines) \<and>
    rp_buffer (fold (talk C ans) lines st) = snd (pipe_loop (rp_buffer st) lines)"
  using assms(1,2)
proof (induction lines arbitrary: st)
  case (Cons l ls')
  let ?st = "talk C ans l st"
  have d: "\<not> prefix ''.'' (js_trim l)" using Cons.prems by simp
  note step = talk_step[OF Cons.prems(1) d assms(3), of C]
  show ?case using Cons.IH[of ?st] step Cons.prems(2)
    by (auto simp: blank_text_def Let_def split: if_splits)
qed simp


section \<open>Completeness of plain code\<close>

definition plain_char :: "char \<Rightarrow> bool" where
  "plain_char c \<longleftrightarrow> c \<notin> {SQUOTE, DQUOTE, BACKTICK, CHR ''/''}"

definition in_code :: "scan \<Rightarrow> bool" where
  "in_code st \<longleftrightarrow> \<not> sc_inS st \<and> \<not> sc_inD st \<and> \<not> sc_inLine st \<and> \<not> sc_inBlock st \<and> sc_templates st = [] \<and> \<not> sc_inRegex st"

definition net :: "char \<Rightarrow> char \<Rightarrow> string \<Rightarrow> int" where
  "net a b s = int (count_list s a) - int (count_list s b)"

lemma scan_plain:
  assumes "in_code st" "\<forall>c \<in> set s. plain_char c"
  shows "in_code (scan_loop st s) \<and> sc_round (scan_loop st s) = sc_round st + net CHR ''('' CHR '')'' s \<and>
    sc_square (scan_loop st s) = sc_square st + net CHR ''['' CHR '']'' s \<and>
    sc_curly (scan_loop st s) = sc_curly st + net CHR ''{'' CHR ''}'' s"
  using assms
proof (induction s arbitrary: st)
  case (Cons c s)
  have p: "plain_char c" using Cons.prems by simp
  define st' where "st' = fst (scan_char c s st)"
  have r: "snd (scan_char c s st) = s"
    using Cons.prems(1) p by (simp add: scan_char_def scan_code_def plain_char_def in_code_def Let_def)
  have "in_code st'" "sc_round st' = sc_round st + net CHR ''('' CHR '')'' [c]"
    "sc_square st' = sc_square st + net CHR ''['' CHR '']'' [c]" "sc_curly st' = sc_curly st + net CHR ''{'' CHR ''}'' [c]"
    using Cons.prems(1) p
    by (simp_all add: st'_def scan_char_def scan_code_def scan_bracket_def plain_char_def in_code_def net_def Let_def)
  then show ?case using Cons.IH[of st'] Cons.prems(2) r by (simp add: net_def flip: st'_def)
qed (simp add: net_def)

lemma no_slashes: "CHR ''/'' \<notin> set s \<Longrightarrow> index_slashes s = None"
  by (induction s) auto

text \<open>C40. Of code without quotes, slashes and templates, a cell is complete exactly when no kind of bracket
  is opened more often than it is closed and its last character does not leave an operator dangling.\<close>

theorem plain_cell_complete:
  assumes "\<forall>c \<in> set src. plain_char c"
  shows "isComplete src \<longleftrightarrow>
    count_list src CHR ''('' \<le> count_list src CHR '')'' \<and> count_list src CHR ''['' \<le> count_list src CHR '']'' \<and>
    count_list src CHR ''{'' \<le> count_list src CHR ''}'' \<and>
    \<not> endsWithDanglingOperator (js_trimEnd src)"
proof -
  have "set (last_line src) \<subseteq> set src"
    unfolding last_line_def set_rev using set_takeWhileD[of _ _ "rev src"] by (metis set_rev subsetI)
  moreover have "CHR ''/'' \<notin> set src" using assms unfolding plain_char_def by blast
  ultimately have "CHR ''/'' \<notin> set (last_line src)" by blast
  then have t: "stripTrailingComment src = src" unfolding stripTrailingComment_def by (subst no_slashes) simp_all
  have s: "in_code scan_start" by (simp add: in_code_def scan_start_def)
  define st where "st = scan_loop scan_start src"
  have z: "sc_round scan_start = 0" "sc_square scan_start = 0" "sc_curly scan_start = 0" by (simp_all add: scan_start_def)
  have st: "in_code st" "sc_round st = net CHR ''('' CHR '')'' src" "sc_square st = net CHR ''['' CHR '']'' src"
    "sc_curly st = net CHR ''{'' CHR ''}'' src"
    using scan_plain[OF s assms] unfolding z st_def by simp_all
  have b: "balanced st \<longleftrightarrow> sc_round st \<le> 0 \<and> sc_square st \<le> 0 \<and> sc_curly st \<le> 0"
    using st(1) unfolding balanced_def open_literal_def in_code_def by blast
  have d: "\<not> endsWithDanglingOperator []" by code_simp
  show ?thesis unfolding isComplete_def scanBalance_def t st_def[symmetric] Let_def b unfolding st net_def
    by (cases "js_trimEnd src = []") (simp_all add: d, blast+)
qed

lemma plain_cell_complete_witness:
  "isComplete ''f(a[1], {})'' \<longleftrightarrow>
    count_list ''f(a[1], {})'' CHR ''('' \<le> count_list ''f(a[1], {})'' CHR '')'' \<and>
    count_list ''f(a[1], {})'' CHR ''['' \<le> count_list ''f(a[1], {})'' CHR '']'' \<and>
    count_list ''f(a[1], {})'' CHR ''{'' \<le> count_list ''f(a[1], {})'' CHR ''}'' \<and>
    \<not> endsWithDanglingOperator (js_trimEnd ''f(a[1], {})'')"
proof -
  have "list_all plain_char ''f(a[1], {})''" by code_simp
  then show ?thesis by (intro plain_cell_complete) (simp only: list_all_iff)
qed

text \<open>A cell that answers nothing, and a file system that takes every write.\<close>

definition undefined_result :: eval_result where
  "undefined_result = \<lparr>er_ok = True, er_value = None, er_valuePreview = None, er_valueType = None, er_mimeBundle = None,
     er_outputs = [], er_console = [], er_error = None, er_checkpoint = None, er_cell = None, er_finalSet = False, er_final = None\<rparr>"

definition plain_io :: "unit cli_io" where
  "plain_io = \<lparr>io_mkdir = (\<lambda>_ f. (Inr (), f)), io_write = (\<lambda>_ _ f. (Inr (), f)), io_artifact = (\<lambda>_ f. (Inl ''gone'', f)),
     io_fromBase64 = (\<lambda>s. s), io_byteLength = length, io_join = (\<lambda>d n. d @ ''/'' @ n), io_artifactDir = ''out''\<rparr>"

definition plain_cfg :: "unit cli_cfg" where
  "plain_cfg = \<lparr>cc_color = False, cc_session = ''s'', cc_endpoint = DEFAULT_ENDPOINT, cc_io = plain_io, cc_read = Inr\<rparr>"


section \<open>History\<close>

lemma lines_reread:
  "h \<noteq> [] \<Longrightarrow> \<forall>l \<in> set h. NEWLINE \<notin> set l \<Longrightarrow> js_split NEWLINE (js_join NEWLINE h @ [NEWLINE]) = h @ [[]]"
  using js_split_append_sep_gen[of NEWLINE "js_join NEWLINE h" "[]"] by (simp add: js_split_join)

text \<open>The history file is read back as the history it was written from, cut to the cap.\<close>

theorem history_roundtrip:
  assumes "\<forall>l \<in> set h. l \<noteq> [] \<and> NEWLINE \<notin> set l"
  shows "loadHistory (Some (saveHistory h)) = take HISTORY_CAP h"
proof (cases "h = []")
  case True
  then show ?thesis by (simp add: loadHistory_def saveHistory_def Let_def)
next
  case False
  let ?k = "rev (take HISTORY_CAP h)"
  have k: "?k \<noteq> []" "\<forall>l \<in> set ?k. l \<noteq> [] \<and> NEWLINE \<notin> set l"
    using False assms set_take_subset[of HISTORY_CAP h] by (auto simp: HISTORY_CAP_def)
  then have "js_join NEWLINE ?k \<noteq> []" by (auto simp: js_join_eq_Nil)
  moreover have "filter (\<lambda>l. l \<noteq> []) ?k = ?k" using k(2) by (simp only: filter_id_conv) blast
  ultimately show ?thesis using k lines_reread[of ?k]
    by (simp add: loadHistory_def saveHistory_def Let_def)
qed

lemma history_roundtrip_witness: "loadHistory (Some (saveHistory [''x = 1'', ''y''])) = take HISTORY_CAP [''x = 1'', ''y'']"
proof -
  have "list_all (\<lambda>l. l \<noteq> [] \<and> NEWLINE \<notin> set l) [''x = 1'', ''y'']" by code_simp
  then show ?thesis by (intro history_roundtrip) (simp only: list_all_iff)
qed

section \<open>Saved outputs\<close>

lemma dash_runs_chars: "list_all segment_char (dash_runs s)"
proof -
  have "segment_char CHR ''-''" by code_simp
  then show ?thesis by (induction s rule: dash_runs.induct) simp_all
qed

lemma safeSegment_chars: "list_all segment_char (safeSegment s)"
proof -
  have "list_all segment_char ''session''" by code_simp
  moreover have "set (trim_dashes t) \<subseteq> set t" for t
    by (auto simp: trim_dashes_def dest!: set_dropWhileD)
  then have "list_all segment_char (take 80 (trim_dashes (dash_runs s)))"
    using dash_runs_chars[of s] unfolding list_all_iff by (meson in_set_takeD subsetD)
  ultimately show ?thesis by (simp add: safeSegment_def Let_def)
qed

lemma digit_segment: "is_digit 10 c \<Longrightarrow> segment_char c"
  by (simp add: is_digit_def digit_val_def segment_char_def Let_def split: if_splits)

lemma nat_str_chars: "list_all segment_char (nat_str n)"
  using nat_digits_are_digits[of 10 _ n] digit_segment by (auto simp: nat_str_def list_all_iff)

lemma int_str_chars: "list_all segment_char (int_str i)"
proof -
  have "segment_char CHR ''-''" by code_simp
  then show ?thesis by (simp add: int_str_def nat_str_chars)
qed

lemma mime_ext_chars: "list_all segment_char (mime_ext m)"
proof -
  have e: "list_all (list_all segment_char) (map snd T) \<Longrightarrow> map_of T m = Some e \<Longrightarrow> list_all segment_char e" for T e
    by (auto simp: list_all_iff dest!: map_of_SomeD)
  have "list_all (list_all segment_char) (map snd SAVEABLE_BASE64_MIME)"
    "list_all (list_all segment_char) (map snd SAVEABLE_TEXT_MIME)" "list_all segment_char ''bin''" by code_simp+
  then show ?thesis unfolding mime_ext_def using e by (simp split: option.split)
qed

text \<open>Whatever the session, the cell and the type of an output are called, the name of the file it is
  saved under has only letters, digits, dots, underscores and dashes, so that it stays in its directory.\<close>

theorem artifact_file_confined:
  "list_all segment_char (artifact_file sessionId cell idx (mime_ext mime)) \<and>
   CHR ''/'' \<notin> set (artifact_file sessionId cell idx (mime_ext mime)) \<and>
   artifact_file sessionId cell idx (mime_ext mime) \<notin> {[], ''.'', ''..''}"
proof -
  have p: "list_all segment_char (''-cell'' @ ''-out'' @ ''.'' @ ''x'')" by code_simp
  have "list_all segment_char (artifact_file sessionId cell idx (mime_ext mime))"
    using p safeSegment_chars int_str_chars nat_str_chars mime_ext_chars
    by (auto simp: artifact_file_def split: option.split)
  moreover have "\<not> segment_char CHR ''/''" by code_simp
  moreover have "10 \<le> length (artifact_file sessionId cell idx (mime_ext mime))"
    by (simp add: artifact_file_def)
  ultimately show ?thesis by (auto simp: list_all_iff)
qed

section \<open>Where the program differs from what it means to do\<close>

text \<open>A complete cell that ends in a regular expression waits for more input: the slash that closes the
  literal is taken for a division.\<close>

lemma regex_cell_waits: "\<not> isComplete ''x = /ab/''"
  by code_simp

text \<open>So does a cell that ends in a comment, which the strip of the trailing comment was written for.\<close>

lemma comment_cell_waits: "\<not> isComplete ''1 // two'' \<and> isComplete ''1''"
  by code_simp

text \<open>So do a division after a string or a step, and an object in a template.\<close>

lemma division_cell_waits:
  "\<not> isComplete (DQUOTE # ''6'' @ DQUOTE # '' / 2'') \<and> \<not> isComplete ''i++ / 2'' \<and> isComplete ''i / 2''"
  by code_simp

lemma template_object_waits: "\<not> isComplete (BACKTICK # ''${ {a:1}.a }'' @ [BACKTICK])"
  by code_simp

text \<open>Two sessions save their outputs under one name.\<close>

lemma artifact_names_collide:
  "artifact_file ''a/b'' (Some 1) 0 ''png'' = artifact_file ''a-b'' (Some 1) 0 ''png''"
  by code_simp

text \<open>A line that arrives while a cell is evaluated is dropped with the buffer when the cell is answered.\<close>

lemma typeahead_is_lost:
  "(let st = fold (repl_step plain_cfg)
               [Typed ''f()'', Typed ''g = {'', Settled CellTask (EvalAnswer (Inr undefined_result) 0), Typed ''}'']
               (repl_start None ())
    in rp_cells st = [''f()'', ''}''] \<and> pipe_cells [''f()'', ''g = {'', ''}''] = [''f()'', ''g = {'' @ NL @ ''}''])"
  by code_simp

text \<open>An artifact that cannot be read ends the process when the cell was typed, not when it was loaded.\<close>

definition json_artifact :: json where
  "json_artifact = JObj [(''kind'', JStr ''artifact''), (''handle'', JStr ''h'')]"

definition artifact_result :: eval_result where
  "artifact_result = undefined_result\<lparr>er_outputs :=
     [JObj [(''output_type'', JStr ''display_data''), (''data'', JObj [(''application/json'', json_artifact)])]]\<rparr>"

lemma unreadable_artifact_ends_repl:
  "rp_crashed (settled plain_cfg CellTask (EvalAnswer (Inr artifact_result) 0) (repl_start None ())) \<and>
   rp_out (settled plain_cfg LoadTask (EvalAnswer (Inr artifact_result) 0) (repl_start None ())) = [''.load failed: gone'']"
  by code_simp

text \<open>A second interrupt of the process writes the history of its start over the entries of the session.\<close>

lemma interrupt_loses_history:
  "(let st = fold (repl_step plain_cfg)
               [Typed ''x = 1'', Settled CellTask (EvalAnswer (Inr undefined_result) 0), ProcessInterrupt, ProcessInterrupt]
               (repl_start None ())
    in rp_exited st \<and> rp_rlHistory st = [''x = 1''] \<and> rp_file st = Some [])"
  by code_simp

text \<open>The cell of \<open>--exec\<close> is not run when it begins with two hyphens: it is read as a flag of its own, and
  what runs is \<open>true\<close>.\<close>

lemma exec_drops_decrement: "pl_mode (cmdRepl N config (parseArgs [''--exec'', ''--x''])) = ExecMode ''true''"
proof -
  have "flag (parseArgs [''--exec'', ''--x'']) ''exec'' = Some ArgSet" by code_simp
  then show ?thesis by (simp add: cmdRepl_def Let_def)
qed

end
