(* ===== verification/HostSockets.thy ===== *)
theory HostSockets
  imports HostFetch
begin

text \<open>
  The provider of raw sockets, \<open>apps/kernel/src/host-sockets.mjs\<close>: the address parser, its own egress
  guard, and the registry of open sockets behind \<open>makeSocketHost\<close>, with the glue's \<open>_socketCall\<close> and
  \<open>_socketOpen\<close> in front of it.  The platform's \<open>connect\<close> and \<open>startTls\<close> and its URL parser are parameters.
  A socket is the sequence of reads it still has to give, the chunks written to it, and whether it still
  takes writes.  The kernel services one host call at a time, so an operation is one step.
\<close>

section \<open>Addresses\<close>

text \<open>\<open>o.a || o.b\<close> on host names; a name that is not a text is left out.\<close>

definition name_of :: "json option \<Rightarrow> string \<Rightarrow> string option" where
  "name_of v k = (case js_field k v of Some (JStr s) \<Rightarrow> Some s | _ \<Rightarrow> None)"

definition or_member :: "json option \<Rightarrow> string list \<Rightarrow> string option" where
  "or_member v ks = (case List.map_filter (name_of v) ks of x # _ \<Rightarrow> Some x | [] \<Rightarrow> None)"

definition present :: "json option \<Rightarrow> json option" where
  "present v = (if v = Some JNull then None else v)"

text \<open>\<open>parseInt(s, 10)\<close>; \<open>None\<close> is \<open>NaN\<close>.\<close>

definition js_parseInt :: "string \<Rightarrow> int option" where
  "js_parseInt s =
     (let t = dropWhile js_space s;
          (sign, u) = (case t of c # r \<Rightarrow> if c = CHR ''-'' then (-1, r) else if c = CHR ''+'' then (1, r) else (1, t) | [] \<Rightarrow> (1, t));
          d = takeWhile (is_digit 10) u
      in if d = [] then None else Some (sign * int (parse_digits 10 d)))"

text \<open>\<open>s.replace(/^\[|\]$/g, "")\<close>.\<close>

definition strip_brackets :: "string \<Rightarrow> string" where
  "strip_brackets s =
     (let t = (if prefix ''['' s then tl s else s) in if suffix '']'' t then butlast t else t)"

text \<open>\<open>/^[a-zA-Z][a-zA-Z0-9+.-]*:\/\//\<close>.\<close>

definition ascii_letter :: "char \<Rightarrow> bool" where
  "ascii_letter c = (let n = of_char c :: nat in 65 \<le> n \<and> n \<le> 90 \<or> 97 \<le> n \<and> n \<le> 122)"

definition has_scheme :: "string \<Rightarrow> bool" where
  "has_scheme s =
     (case s of
        [] \<Rightarrow> False
      | c # r \<Rightarrow> ascii_letter c \<and>
          prefix ''://'' (dropWhile (\<lambda>c. ascii_letter c \<or> is_digit 10 c \<or> c \<in> {CHR ''+'', CHR ''.'', CHR ''-''}) r))"

definition url_port :: "url \<Rightarrow> string" where
  "url_port u = drop (Suc (length (u_hostname u))) (u_host u)"

text \<open>\<open>/^(\[[^\]]+\]|[^:]+):(\d+)$/\<close>: the two groups.\<close>

definition only_digits :: "string \<Rightarrow> bool" where
  "only_digits s = (s \<noteq> [] \<and> list_all (is_digit 10) s)"

definition host_port :: "string \<Rightarrow> (string \<times> string) option" where
  "host_port s =
     (let inner = takeWhile (\<lambda>c. c \<noteq> CHR '']'') (tl s); rest = drop (length inner + 2) s; (h, p) = (before_last CHR '':'' s, after_last CHR '':'' s)
      in if prefix ''['' s \<and> CHR '']'' \<in> set (tl s) \<and> inner \<noteq> [] \<and> prefix '':'' rest \<and> only_digits (tl rest)
         then Some (''['' @ inner @ '']'', tl rest)
         else if CHR '':'' \<in> set s \<and> h \<noteq> [] \<and> CHR '':'' \<notin> set h \<and> only_digits p then Some (h, p)
         else None)"

text \<open>A port that is no number is no port: both are refused alike.\<close>

definition scheme_port :: "string \<Rightarrow> int option" where
  "scheme_port protocol =
     (if protocol \<in> {''https:'', ''wss:''} then Some 443 else if protocol \<in> {''http:'', ''ws:''} then Some 80 else None)"

definition url_part ::
  "(string \<Rightarrow> string option \<Rightarrow> url option) \<Rightarrow> string \<Rightarrow> string \<times> json option \<Rightarrow> string \<times> json option" where
  "url_part parse s = (\<lambda>(hostname, port).
     (case (if has_scheme s then parse s None else None) of
        None \<Rightarrow> (hostname, port)
      | Some u \<Rightarrow>
          (if hostname = [] then u_hostname u else hostname,
           if port \<noteq> None then port
           else if url_port u \<noteq> [] then map_option JNum (js_parseInt (url_port u))
           else map_option JNum (scheme_port (u_protocol u)))))"

definition text_part :: "string \<Rightarrow> string \<times> json option \<Rightarrow> string \<times> json option" where
  "text_part s = (\<lambda>(hostname, port).
     (if hostname \<noteq> [] \<and> port \<noteq> None then (hostname, port)
      else (case host_port s of
          Some (h, p) \<Rightarrow> (if hostname = [] then strip_brackets h else hostname,
                         if port = None then map_option JNum (js_parseInt p) else port)
        | None \<Rightarrow> (if hostname = [] then strip_brackets s else hostname, port))))"

definition parseAddr ::
  "(string \<Rightarrow> string option \<Rightarrow> url option) \<Rightarrow> json option \<Rightarrow> json option \<Rightarrow> string \<times> json option" where
  "parseAddr parse addr opts =
     (let hostname = (case or_member opts [''host'', ''hostname''] of Some h \<Rightarrow> h | None \<Rightarrow> []);
          port = present (Option.bind opts (json_get ''port''));
          (hostname, port) =
            (case addr of
               Some (JStr s) \<Rightarrow> if s = [] then (hostname, port) else text_part s (url_part parse s (hostname, port))
             | Some (JObj ms) \<Rightarrow>
                 (if hostname \<noteq> [] then hostname
                  else case or_member addr [''hostname'', ''host''] of Some h \<Rightarrow> h | None \<Rightarrow> [],
                  if port \<noteq> None then port else present (map_of ms ''port''))
             | _ \<Rightarrow> (hostname, port))
      in (hostname, case port of Some (JStr t) \<Rightarrow> map_option JNum (js_parseInt t) | _ \<Rightarrow> port))"

section \<open>The provider's egress guard\<close>

definition dotted_quad :: "string \<Rightarrow> nat list option" where
  "dotted_quad h =
     (let ps = js_split CHR ''.'' h in
      if length ps = 4 \<and> list_all (\<lambda>p. only_digits p \<and> length p \<le> 3) ps then Some (map (parse_digits 10) ps) else None)"

definition v4_reason :: "nat list \<Rightarrow> string option" where
  "v4_reason q =
     (let a = q ! 0; b = q ! 1 in
      if a = 127 then Some ''loopback''
      else if a = 0 then Some ''this-host (0.0.0.0)''
      else if a = 10 then Some ''RFC1918 private''
      else if a = 172 \<and> 16 \<le> b \<and> b \<le> 31 then Some ''RFC1918 private''
      else if a = 192 \<and> b = 168 then Some ''RFC1918 private''
      else if a = 169 \<and> b = 254 then Some ''link-local (cloud metadata)''
      else if a = 100 \<and> 64 \<le> b \<and> b \<le> 127 then Some ''CGNAT (RFC6598)''
      else None)"

definition ssrfReason :: "string \<Rightarrow> string option" where
  "ssrfReason hostname =
     (let h = strip_brackets (js_lower (js_trim hostname)) in
      if h = [] then Some ''empty host''
      else if h = ''localhost'' \<or> suffix ''.localhost'' h then Some ''loopback''
      else if suffix ''.internal'' h \<or> suffix ''.local'' h then Some ''internal/link-local name''
      else case dotted_quad h of
        Some q \<Rightarrow> v4_reason q
      | None \<Rightarrow>
          if CHR '':'' \<in> set h then
            (if h = ''::1'' \<or> h = ''::'' then Some ''loopback''
             else if prefix ''fe80'' h then Some ''link-local''
             else if prefix ''fc'' h \<or> prefix ''fd'' h then Some ''ULA private''
             else case List.map_filter dotted_quad (rev (suffixes h)) of
               q # _ \<Rightarrow> v4_reason q
             | [] \<Rightarrow> None)
          else None)"

section \<open>State\<close>

record wire =
  wi_in :: "(string, bytes) result list"
  wi_out :: "bytes list"
  wi_fail :: "string option"

text \<open>A reader or writer is taken from the socket once; \<open>startTls\<close> releases it without forgetting it.\<close>

datatype lock = NoLock | Held | Released

record sock_state =
  sk_wire :: wire
  sk_reader :: lock
  sk_writer :: lock
  sk_closed :: bool
  sk_hostname :: string
  sk_port :: json
  sk_secure :: "json option"
  sk_half :: "json option"
  sk_pending :: "bytes option"

record sock_host =
  sh_map :: "(nat, sock_state) omap"
  sh_next :: nat
  sh_destroyed :: "nat list"

record sock_net =
  sn_connect :: "string \<Rightarrow> json \<Rightarrow> json option \<Rightarrow> bool option \<Rightarrow> (string, wire) result"
  sn_startTls :: "wire \<Rightarrow> (string, wire) result"
  sn_parse :: "string \<Rightarrow> string option \<Rightarrow> url option"
  sn_released :: string

definition SOCKET_MAX_CONCURRENT :: nat where "SOCKET_MAX_CONCURRENT = 6"

definition SOCKET_READ_CHUNK_BYTES :: nat where "SOCKET_READ_CHUNK_BYTES = 1024 * 1024"

definition makeSocketHost :: sock_host where
  "makeSocketHost = \<lparr>sh_map = [], sh_next = 1, sh_destroyed = []\<rparr>"

text \<open>What the provider answers: an error with its code, or a value.\<close>

type_synonym sock_reply = "(string \<times> string, json) result"

definition liveCount :: "sock_host \<Rightarrow> nat" where
  "liveCount S = length (filter (\<lambda>(i, st). \<not> sk_closed st) (sh_map S))"

definition getState :: "sock_host \<Rightarrow> json \<Rightarrow> (nat \<times> sock_state) option" where
  "getState S h =
     (case h of JNum n \<Rightarrow> if 0 \<le> n then map_option (\<lambda>st. (nat n, st)) (map_of (sh_map S) (nat n)) else None | _ \<Rightarrow> None)"

definition put_state :: "nat \<Rightarrow> sock_state \<Rightarrow> sock_host \<Rightarrow> sock_host" where
  "put_state i st S = S\<lparr>sh_map := AList.update i st (sh_map S)\<rparr>"

definition register :: "sock_state \<Rightarrow> sock_host \<Rightarrow> nat \<times> sock_host" where
  "register st S = (sh_next S, (put_state (sh_next S) st S)\<lparr>sh_next := sh_next S + 1\<rparr>)"

definition destroy :: "nat \<Rightarrow> sock_host \<Rightarrow> sock_host" where
  "destroy i S = S\<lparr>sh_map := AList.delete i (sh_map S), sh_destroyed := sh_destroyed S @ [i]\<rparr>"

section \<open>Operations\<close>

definition not_found :: "json \<Rightarrow> string" where
  "not_found h = ''ECONNRESET: socket handle '' @ js_String h @ '' not found (severed by hibernation?)''"

definition json_or_undefined :: "json option \<Rightarrow> string" where
  "json_or_undefined v = (case v of None \<Rightarrow> ''undefined'' | Some j \<Rightarrow> json_stringify j)"

definition socket_open :: "sock_net \<Rightarrow> json option \<Rightarrow> json option \<Rightarrow> sock_host \<Rightarrow> sock_reply \<times> sock_host" where
  "socket_open N addr opts S =
     (if SOCKET_MAX_CONCURRENT \<le> liveCount S then
        (Inl (''SocketLimitError: cloudflare:sockets allows at most '' @ nat_str SOCKET_MAX_CONCURRENT @
              '' concurrent connections per invocation; close one before opening another'', ''EMFILE''), S)
      else
        (case parseAddr (sn_parse N) addr opts of
           (hostname, port) \<Rightarrow>
             (case (if hostname = [] then None else port) of
                None \<Rightarrow> (Inl (''SocketAddrError: could not resolve host:port from '' @ json_or_undefined addr, ''EINVAL''), S)
              | Some p \<Rightarrow>
                (case ssrfReason hostname of
                   Some why \<Rightarrow> (Inl (''SSRFBlockedError: refusing to connect to '' @ hostname @ '' ('' @ why @ '')'', ''EACCES''), S)
                 | None \<Rightarrow>
                   (case sn_connect N hostname p (js_field ''secureTransport'' opts)
                          (map_option js_truthy (present (Option.bind opts (json_get ''allowHalfOpen'')))) of
                      Inl e \<Rightarrow> (Inl (''SocketOpenError: '' @ e, ''ECONNREFUSED''), S)
                    | Inr w \<Rightarrow>
                      (let (i, S') = register \<lparr>sk_wire = w, sk_reader = NoLock, sk_writer = NoLock, sk_closed = False,
                               sk_hostname = hostname, sk_port = p,
                               sk_secure = Option.bind opts (json_get ''secureTransport''),
                               sk_half = Option.bind opts (json_get ''allowHalfOpen''), sk_pending = None\<rparr> S
                       in (Inr (JObj [(''handleId'', JNum (int i))]), S')))))))"

definition write_failed :: "string \<Rightarrow> string \<Rightarrow> sock_reply" where
  "write_failed e code = Inr (JObj [(''ok'', JBool False), (''error'', JStr e), (''code'', JStr code)])"

text \<open>\<open>lazyWriter\<close> and \<open>lazyReader\<close>.\<close>

definition take_lock :: "lock \<Rightarrow> lock" where
  "take_lock l = (case l of NoLock \<Rightarrow> Held | _ \<Rightarrow> l)"

definition sock_write :: "sock_net \<Rightarrow> json \<Rightarrow> json option \<Rightarrow> sock_host \<Rightarrow> sock_reply \<times> sock_host" where
  "sock_write N h dataB64 S =
     (case getState S h of
        None \<Rightarrow> (write_failed (not_found h) ''ECONNRESET'', S)
      | Some (i, st) \<Rightarrow>
        (if sk_closed st then (write_failed (not_found h) ''ECONNRESET'', S)
         else case (case present dataB64 of None \<Rightarrow> Inr [] | Some d \<Rightarrow> b64ToBytes (js_String d)) of
           Inl _ \<Rightarrow> (write_failed ''SocketWriteError: bad base64 write payload'' ''EINVAL'', S)
         | Inr bytes \<Rightarrow>
           (let w = sk_wire st; st1 = st\<lparr>sk_writer := take_lock (sk_writer st)\<rparr> in
            if sk_writer st = Released then (write_failed (''SocketWriteError: '' @ sn_released N) ''ECONNRESET'', S)
            else (case wi_fail w of
                Some e \<Rightarrow> (write_failed (''SocketWriteError: '' @ e) ''ECONNRESET'', put_state i st1 S)
              | None \<Rightarrow> (Inr (JObj [(''ok'', JBool True)]),
                         put_state i (st1\<lparr>sk_wire := w\<lparr>wi_out := wi_out w @ [bytes]\<rparr>\<rparr>) S)))))"

definition cut_chunk :: "bytes \<Rightarrow> bytes \<times> bytes option" where
  "cut_chunk chunk =
     (if SOCKET_READ_CHUNK_BYTES < length chunk
      then (take SOCKET_READ_CHUNK_BYTES chunk, Some (drop SOCKET_READ_CHUNK_BYTES chunk)) else (chunk, None))"

definition read_data :: "bytes \<Rightarrow> sock_reply" where
  "read_data chunk = Inr (JObj [(''dataB64'', JStr (bytesToB64 chunk)), (''done'', JBool False)])"

definition read_failed :: "string \<Rightarrow> sock_reply" where
  "read_failed e = Inr (JObj [(''done'', JBool True), (''error'', JStr e), (''code'', JStr ''ECONNRESET'')])"

definition sock_read :: "sock_net \<Rightarrow> json \<Rightarrow> sock_host \<Rightarrow> sock_reply \<times> sock_host" where
  "sock_read N h S =
     (case getState S h of
        None \<Rightarrow> (read_failed (not_found h), S)
      | Some (i, st0) \<Rightarrow>
        (if sk_closed st0 then (read_failed (not_found h), S)
         else
          (let st = st0\<lparr>sk_reader := take_lock (sk_reader st0)\<rparr>; w = sk_wire st in
           case (case sk_pending st of Some p \<Rightarrow> if p = [] then None else Some p | None \<Rightarrow> None) of
             Some p \<Rightarrow>
               (case cut_chunk p of (chunk, left) \<Rightarrow> (read_data chunk, put_state i (st\<lparr>sk_pending := left\<rparr>) S))
           | None \<Rightarrow>
               (if sk_reader st = Released then (read_failed (''SocketReadError: '' @ sn_released N), destroy i S)
                else (case wi_in w of
                    [] \<Rightarrow> (Inr (JObj [(''done'', JBool True)]), destroy i S)
                  | Inl e # r \<Rightarrow> (read_failed (''SocketReadError: '' @ e), destroy i S)
                  | Inr chunk # r \<Rightarrow>
                      (case cut_chunk chunk of (c, left) \<Rightarrow>
                        (read_data c,
                         put_state i (st\<lparr>sk_wire := w\<lparr>wi_in := r\<rparr>,
                            sk_pending := (case left of None \<Rightarrow> sk_pending st | Some l \<Rightarrow> Some l)\<rparr>) S)))))))"

definition release_lock :: "lock \<Rightarrow> lock" where
  "release_lock l = (case l of NoLock \<Rightarrow> NoLock | _ \<Rightarrow> Released)"

definition sock_startTls :: "sock_net \<Rightarrow> json \<Rightarrow> sock_host \<Rightarrow> sock_reply \<times> sock_host" where
  "sock_startTls N h S =
     (case getState S h of
        None \<Rightarrow> (Inl (not_found h, ''ECONNRESET''), S)
      | Some (i, st0) \<Rightarrow>
        (if sk_closed st0 then (Inl (not_found h, ''ECONNRESET''), S)
         else if sk_secure st0 \<noteq> Some (JStr ''starttls'') then
           (Inl (''SocketTlsError: startTls requires the socket to be opened with secureTransport:'' @ [CHR 0x27] @ ''starttls'' @ [CHR 0x27], ''EINVAL''), S)
         else
          (let st = st0\<lparr>sk_reader := release_lock (sk_reader st0), sk_writer := release_lock (sk_writer st0)\<rparr> in
           case sn_startTls N (sk_wire st) of
             Inl e \<Rightarrow> (Inl (''SocketTlsError: '' @ e, ''ECONNRESET''), put_state i st S)
           | Inr w \<Rightarrow>
               (let (j, S') = register (st\<lparr>sk_wire := w, sk_reader := NoLock, sk_writer := NoLock, sk_closed := False,
                                           sk_secure := Some (JStr ''on''), sk_pending := None\<rparr>)
                                (S\<lparr>sh_map := AList.delete i (sh_map S)\<rparr>)
                in (Inr (JObj [(''handleId'', JNum (int j))]), S')))))"

definition sock_close :: "json \<Rightarrow> sock_host \<Rightarrow> sock_reply \<times> sock_host" where
  "sock_close h S =
     (case getState S h of
        None \<Rightarrow> (Inr (JObj [(''ok'', JBool True)]), S)
      | Some (i, st) \<Rightarrow> (Inr (JObj [(''ok'', JBool True)]), destroy i S))"

definition sock_listen :: sock_reply where
  "sock_listen = Inl (''EPERM: inbound/listen sockets are not supported on the Engram kernel (outbound only)'', ''EPERM'')"

section \<open>Behind the glue\<close>

definition socketCall :: "sock_reply \<Rightarrow> host_result" where
  "socketCall r =
     HOk (case r of
        Inr v \<Rightarrow> v
      | Inl (e, code) \<Rightarrow> JObj [(''error'', JStr (if e = [] then ''socket error'' else e)), (''code'', JStr code)])"

text \<open>The destination as the glue reads it.\<close>

definition glue_addr :: "json option \<Rightarrow> sock_addr" where
  "glue_addr addr =
     (case addr of
        Some (JStr s) \<Rightarrow> AddrStr s
      | Some (JObj ms) \<Rightarrow> AddrObj (name_of addr ''host'') (name_of addr ''hostname'')
      | _ \<Rightarrow> AddrOther)"

definition glue_opts :: "json option \<Rightarrow> (string option \<times> string option) option" where
  "glue_opts opts = map_option (\<lambda>_. (name_of opts ''host'', name_of opts ''hostname'')) opts"

definition glue_socketOpen ::
  "host_env \<Rightarrow> host_state \<Rightarrow> sock_net \<Rightarrow> json option \<Rightarrow> json option \<Rightarrow> sock_host \<Rightarrow> host_result \<times> sock_host" where
  "glue_socketOpen E s N addr opts S =
     (case socketOpen E s (glue_addr addr) (glue_opts opts) of
        Inl (e, code) \<Rightarrow> (HOk (JObj [(''error'', JStr e), (''code'', JStr code)]), S)
      | Inr _ \<Rightarrow> apfst socketCall (socket_open N addr opts S))"

text \<open>The five effects, by their names.\<close>

datatype sock_op =
    SockOpen "json option" "json option" | SockWrite json "json option" | SockRead json | SockStartTls json | SockClose json

definition sock_step :: "host_env \<Rightarrow> host_state \<Rightarrow> sock_net \<Rightarrow> sock_op \<Rightarrow> sock_host \<Rightarrow> host_result \<times> sock_host" where
  "sock_step E s N c S =
     (case c of
        SockOpen addr opts \<Rightarrow> glue_socketOpen E s N addr opts S
      | SockWrite h d \<Rightarrow> apfst socketCall (sock_write N h d S)
      | SockRead h \<Rightarrow> apfst socketCall (sock_read N h S)
      | SockStartTls h \<Rightarrow> apfst socketCall (sock_startTls N h S)
      | SockClose h \<Rightarrow> apfst socketCall (sock_close h S))"

end
