(* ===== verification/NetShim.thy ===== *)
theory NetShim
  imports HostSockets
begin

text \<open>
  The \<open>net\<close> and \<open>tls\<close> modules inside the VM, \<open>apps/kernel/stdlib-src/shims/net.js\<close> and \<open>tls.js\<close>, with the
  parts of the engine's streams they rest on (\<open>push\<close> and \<open>flow\<close> of the bootstrap in \<open>engine/src/lib.rs\<close>).
  All sockets of a VM share one chain of host calls; its head is the call the host is working on.  An
  emitted event runs the program's listeners, which are a parameter: given the state and the event, the
  operations they perform.  Listeners do not throw, and the program listens to \<open>error\<close>.  Listeners that the
  modules themselves register run before the program's.  Promise reactions and microtasks run before the host
  answers the next call, as the job queue demands.
\<close>

section \<open>Addresses and errors\<close>

definition isIPv4 :: "string \<Rightarrow> bool" where
  "isIPv4 s =
     (let p = js_split CHR ''.'' s in
      length p = 4 \<and>
      list_all (\<lambda>x. 1 \<le> length x \<and> length x \<le> 3 \<and> list_all (is_digit 10) x \<and>
        \<not> (1 < length x \<and> hd x = CHR ''0'') \<and> parse_digits 10 x \<le> 255) p)"

text \<open>The groups of one half of an IPv6 text, or nothing when one is not well formed; \<open>last_half\<close> says whether an
  IPv4 text may end it.\<close>

fun ipv6_groups :: "bool \<Rightarrow> string list \<Rightarrow> nat option" where
  "ipv6_groups last_half [] = Some 0"
| "ipv6_groups last_half (g # gs) =
     (if g = [] then None
      else if CHR ''.'' \<in> set g then
        (if \<not> last_half \<or> gs \<noteq> [] then None else if \<not> isIPv4 g then None else Some 2)
      else if length g \<le> 4 \<and> list_all (is_digit 16) g then map_option Suc (ipv6_groups last_half gs) else None)"

definition half_groups :: "bool \<Rightarrow> string \<Rightarrow> nat option" where
  "half_groups last_half h = (if h = [] then Some 0 else ipv6_groups last_half (js_split CHR '':'' h))"

definition isIPv6 :: "string \<Rightarrow> bool" where
  "isIPv6 s0 =
     (let s = takeWhile (\<lambda>c. c \<noteq> CHR ''%'') s0 in
      CHR '':'' \<in> set s0 \<and>
      (case split_at_pat ''::'' s of
         None \<Rightarrow> half_groups True s = Some 8
       | Some (a, b) \<Rightarrow>
           split_at_pat ''::'' (CHR '':'' # b) = None \<and>
           (case (half_groups False a, half_groups True b) of (Some m, Some n) \<Rightarrow> m + n < 8 | _ \<Rightarrow> False)))"

definition isIP :: "string \<Rightarrow> nat" where
  "isIP s = (if isIPv4 s then 4 else if isIPv6 s then 6 else 0)"

datatype net_error = NetError (ne_name: string) (ne_code: string) (ne_message: string)

definition notSupported :: net_error where
  "notSupported = NetError ''NotSupportedError'' ''EPERM'' ''inbound TCP is not available on this substrate (no listen); outbound only''"

text \<open>A test of the message for one of several words, whatever their case.\<close>

definition mentions :: "string list \<Rightarrow> string \<Rightarrow> bool" where
  "mentions ws s = list_ex (\<lambda>w. list_ex (prefix w) (suffixes (js_lower s))) ws"

definition mapHostErr :: "string \<Rightarrow> string \<Rightarrow> net_error" where
  "mapHostErr msg0 syscall =
     (let msg = (if msg0 = [] then ''socket error'' else msg0) in
      if mentions [''too many'', ''limit'', ''emfile'', ''concurren''] msg then
        NetError ''Error'' ''EMFILE'' (''socket connect failed: '' @ msg @
          '' (cloudflare:sockets allows max 6 concurrent outbound connections per invocation)'')
      else if mentions [''handle'', ''not found'', ''unknown'', ''stale'', ''no such'', ''closed'', ''reset''] msg then
        NetError ''Error'' ''ECONNRESET'' (''socket '' @ syscall @ '' failed: '' @ msg @
          '' (handle is stale - live sockets do not survive hibernation/cold-restore)'')
      else if syscall = ''connect'' then NetError ''Error'' ''ECONNREFUSED'' (''connect failed: '' @ msg)
      else NetError ''Error'' ''ECONNRESET'' (''socket '' @ syscall @ '' failed: '' @ msg))"

section \<open>Arguments\<close>

text \<open>The values before an optional callback.\<close>

definition object_value :: "json \<Rightarrow> bool" where
  "object_value v = (case v of JObj _ \<Rightarrow> True | JArr _ \<Rightarrow> True | _ \<Rightarrow> False)"

definition normalizeConnectArgs :: "json list \<Rightarrow> json" where
  "normalizeConnectArgs args =
     (case args of
        [o1] \<Rightarrow> if object_value o1 then o1 else JObj [(''port'', o1)]
      | p # JStr h # _ \<Rightarrow> JObj [(''port'', p), (''host'', JStr h)]
      | p # _ \<Rightarrow> JObj [(''port'', p)]
      | [] \<Rightarrow> JObj [])"

definition assign :: "json \<Rightarrow> json \<Rightarrow> json" where
  "assign a b = (case (a, b) of (JObj xs, JObj ys) \<Rightarrow> JObj (fold (\<lambda>(k, v). AList.update k v) ys xs) | _ \<Rightarrow> a)"

definition normalizeTlsArgs :: "json list \<Rightarrow> json" where
  "normalizeTlsArgs args =
     (case args of
        [] \<Rightarrow> JObj []
      | a # rest \<Rightarrow>
          if object_value a then assign (JObj []) a
          else
           (let o1 = JObj [(''port'', a)] in
            case rest of
              JStr h # r2 \<Rightarrow>
                (let o2 = assign o1 (JObj [(''host'', JStr h)]) in
                 case r2 of x # _ \<Rightarrow> if object_value x then assign o2 x else o2 | [] \<Rightarrow> o2)
            | x # _ \<Rightarrow> if object_value x then assign o1 x else o1
            | [] \<Rightarrow> o1))"

text \<open>\<open>parseInt(port, 10)\<close>, when it is a port number.\<close>

definition port_number :: "json option \<Rightarrow> int option" where
  "port_number v =
     (case (case v of Some (JNum n) \<Rightarrow> Some n | Some (JStr s) \<Rightarrow> js_parseInt s | _ \<Rightarrow> None) of
        Some n \<Rightarrow> if 0 \<le> n \<and> n \<le> 65535 then Some n else None
      | None \<Rightarrow> None)"

section \<open>State\<close>

datatype net_event =
    EvConnect | EvReady | EvSecure | EvData bytes | EvEnd | EvError net_error | EvClose "bool option" | EvWritten "net_error option"

text \<open>A socket.  The last three fields are histories for the properties: what the program wrote, what the host
  read, and the handles the host gave.\<close>

record net_sock =
  ns_handle :: "json option"
  ns_secure :: json
  ns_half :: bool
  ns_preQ :: "(bytes \<times> bool) list"
  ns_writeQ :: "(bytes \<times> bool) list"
  ns_loop :: bool
  ns_wantClose :: bool
  ns_closed :: bool
  ns_counted :: bool
  ns_connecting :: bool
  ns_pending :: bool
  ns_destroyed :: bool
  ns_encrypted :: bool
  ns_bytesRead :: nat
  ns_bytesWritten :: nat
  ns_remote :: "(json \<times> int \<times> string) option"
  ns_endAfterFlush :: bool
  ns_remoteEnded :: bool
  ns_timeout :: json
  ns_buffer :: "bytes list"
  ns_flowing :: "bool option"
  ns_ended :: bool
  ns_endEmitted :: bool
  ns_listeners :: nat
  ns_peer :: "(bool \<times> json option) option"
  ns_marks :: "json list"
  ns_upgrades :: nat
  ns_written :: "bytes list"
  ns_got :: "bytes list"
  ns_handles :: "json list"

definition Socket :: "json \<Rightarrow> net_sock" where
  "Socket options =
     \<lparr>ns_handle = None,
      ns_secure = (case js_field ''_secureTransport'' (Some options) of Some v \<Rightarrow> v | None \<Rightarrow> JStr ''off''),
      ns_half = (js_field ''allowHalfOpen'' (Some options) \<noteq> None), ns_preQ = [], ns_writeQ = [], ns_loop = False,
      ns_wantClose = False, ns_closed = False, ns_counted = False, ns_connecting = False, ns_pending = True,
      ns_destroyed = False, ns_encrypted = False, ns_bytesRead = 0, ns_bytesWritten = 0, ns_remote = None,
      ns_endAfterFlush = False, ns_remoteEnded = False, ns_timeout = JNum 0, ns_buffer = [], ns_flowing = None,
      ns_ended = False, ns_endEmitted = False, ns_listeners = 0, ns_peer = None, ns_marks = [], ns_upgrades = 0,
      ns_written = [], ns_got = [], ns_handles = []\<rparr>"

text \<open>The host calls, with who waits for them; \<open>CForget\<close> is a close nobody waits for.\<close>

datatype net_call =
    COpen nat json int json
  | CWrite nat json bytes bool
  | CRead nat json
  | CClose nat json
  | CForget nat json
  | CTls nat json

definition request_of :: "net_call \<Rightarrow> sock_op" where
  "request_of c =
     (case c of
        COpen s h p opts \<Rightarrow> SockOpen (Some (JStr (js_String h @ '':'' @ int_str p))) (Some opts)
      | CWrite s i u cb \<Rightarrow> SockWrite i (Some (JStr (bytesToB64 u)))
      | CRead s i \<Rightarrow> SockRead i
      | CClose s i \<Rightarrow> SockClose i
      | CForget s i \<Rightarrow> SockClose i
      | CTls s i \<Rightarrow> SockStartTls i)"

datatype net_task =
    TFail nat net_error | TTurn nat json | TQuiet nat | TClosed nat "net_error option" | TFlow nat
  | TError nat net_error | TReject nat net_error

record net_vm =
  nv_socks :: "nat \<Rightarrow> net_sock"
  nv_count :: nat
  nv_open :: nat
  nv_calls :: "net_call list"
  nv_issued :: "net_call list"
  nv_tasks :: "net_task list"
  nv_log :: "(nat \<times> net_event) list"

definition MAX_SOCKETS :: nat where "MAX_SOCKETS = 6"

definition net_start :: net_vm where
  "net_start = \<lparr>nv_socks = (\<lambda>_. Socket (JObj [])), nv_count = 0, nv_open = 0, nv_calls = [], nv_issued = [],
     nv_tasks = [], nv_log = []\<rparr>"

definition upd :: "nat \<Rightarrow> (net_sock \<Rightarrow> net_sock) \<Rightarrow> net_vm \<Rightarrow> net_vm" where
  "upd s f V = V\<lparr>nv_socks := (nv_socks V)(s := f (nv_socks V s))\<rparr>"

definition hostCall :: "net_call \<Rightarrow> net_vm \<Rightarrow> net_vm" where
  "hostCall c V = V\<lparr>nv_calls := nv_calls V @ [c], nv_issued := nv_issued V @ [c]\<rparr>"

definition later :: "net_task \<Rightarrow> net_vm \<Rightarrow> net_vm" where
  "later t V = V\<lparr>nv_tasks := nv_tasks V @ [t]\<rparr>"

definition logged :: "nat \<Rightarrow> net_event \<Rightarrow> net_vm \<Rightarrow> net_vm" where
  "logged s e V = V\<lparr>nv_log := nv_log V @ [(s, e)]\<rparr>"

definition readyState :: "net_sock \<Rightarrow> string" where
  "readyState x =
     (if ns_connecting x then ''opening'' else if ns_handle x \<noteq> None \<and> \<not> ns_closed x then ''open'' else ''closed'')"

section \<open>What the program calls\<close>

text \<open>None of these emits an event; those they cause come from tasks and answers.\<close>

definition uncount :: "nat \<Rightarrow> net_vm \<Rightarrow> net_vm" where
  "uncount s V =
     (if ns_counted (nv_socks V s) then (upd s (\<lambda>x. x\<lparr>ns_counted := False\<rparr>) V)\<lparr>nv_open := nv_open V - 1\<rparr> else V)"

definition doClose :: "nat \<Rightarrow> net_vm \<Rightarrow> net_vm" where
  "doClose s V =
     (let x = nv_socks V s in
      if ns_closed x then V
      else
       (let V1 = uncount s (upd s (\<lambda>x. x\<lparr>ns_loop := False, ns_closed := True\<rparr>) V) in
        case ns_handle x of
          Some i \<Rightarrow> hostCall (CClose s i) V1
        | None \<Rightarrow> if ns_destroyed x then V1 else later (TQuiet s) (upd s (\<lambda>x. x\<lparr>ns_destroyed := True\<rparr>) V1)))"

definition startLoop :: "nat \<Rightarrow> net_vm \<Rightarrow> net_vm" where
  "startLoop s V =
     (let x = nv_socks V s in
      if ns_loop x \<or> ns_destroyed x \<or> ns_closed x then V
      else (case ns_handle x of
          None \<Rightarrow> V
        | Some i \<Rightarrow> later (TTurn s i) (upd s (\<lambda>x. x\<lparr>ns_loop := True\<rparr>) V)))"

definition sock_destroy :: "nat \<Rightarrow> net_error option \<Rightarrow> net_vm \<Rightarrow> net_vm" where
  "sock_destroy s err V =
     (let x = nv_socks V s in
      if ns_destroyed x then V
      else
       (let V1 = uncount s (upd s (\<lambda>x. x\<lparr>ns_destroyed := True, ns_connecting := False, ns_loop := False, ns_closed := True\<rparr>) V) in
        later (TClosed s err) (case ns_handle x of Some i \<Rightarrow> hostCall (CForget s i) V1 | None \<Rightarrow> V1)))"

definition resetAndDestroy :: "nat \<Rightarrow> net_vm \<Rightarrow> net_vm" where
  "resetAndDestroy s = sock_destroy s (Some (NetError ''Error'' ''ECONNRESET'' ''socket reset''))"

definition sock_connect :: "nat \<Rightarrow> json \<Rightarrow> net_vm \<Rightarrow> (net_error, unit) result \<times> net_vm" where
  "sock_connect s options V =
     (let x = nv_socks V s; member = (\<lambda>k. json_get k options);
          host = (case js_field ''host'' (Some options) of Some v \<Rightarrow> v | None \<Rightarrow> JStr ''localhost'') in
      if ns_connecting x \<or> ns_handle x \<noteq> None then (Inl (NetError ''Error'' ''EISCONN'' ''socket is already connecting/connected''), V)
      else if js_field ''path'' (Some options) \<noteq> None then
        (Inr (), later (TFail s (NetError ''Error'' ''ENOTSUP'' ''unix-domain sockets (options.path) are not supported on this substrate'')) V)
      else (case port_number (member ''port'') of
          None \<Rightarrow> (Inl (NetError ''RangeError'' ''ERR_SOCKET_BAD_PORT''
                    ([CHR 0x22] @ ''port'' @ [CHR 0x22] @ '' must be 0-65535, got '' @ (case member ''port'' of Some p \<Rightarrow> js_String p | None \<Rightarrow> ''undefined''))), V)
        | Some port \<Rightarrow>
            (let V1 = (case member ''allowHalfOpen'' of Some b \<Rightarrow> upd s (\<lambda>x. x\<lparr>ns_half := js_truthy b\<rparr>) V | None \<Rightarrow> V) in
             if MAX_SOCKETS \<le> nv_open V1 then
               (Inr (), later (TFail s (NetError ''Error'' ''EMFILE'' (''connect '' @ js_String host @ '':'' @ int_str port @ '' refused: max '' @
                  nat_str MAX_SOCKETS @ '' concurrent outbound sockets per invocation (cloudflare:sockets cap) - close one first''))) V1)
             else
               (Inr (), hostCall (COpen s host port (JObj [(''secureTransport'', ns_secure x),
                    (''allowHalfOpen'', JBool (ns_half (nv_socks V1 s))), (''port'', JNum port), (''host'', host)]))
                 ((upd s (\<lambda>x. x\<lparr>ns_connecting := True, ns_pending := True, ns_counted := True\<rparr>) V1)\<lparr>nv_open := nv_open V1 + 1\<rparr>)))))"

definition sock_put :: "nat \<Rightarrow> bytes \<Rightarrow> bool \<Rightarrow> net_vm \<Rightarrow> net_vm" where
  "sock_put s u cb V =
     upd s (\<lambda>x. if ns_handle x = None
              then x\<lparr>ns_bytesWritten := ns_bytesWritten x + length u, ns_preQ := ns_preQ x @ [(u, cb)], ns_written := ns_written x @ [u]\<rparr>
              else x\<lparr>ns_bytesWritten := ns_bytesWritten x + length u, ns_writeQ := ns_writeQ x @ [(u, cb)], ns_written := ns_written x @ [u]\<rparr>) V"

text \<open>The callback of a refused write runs at once; what the program does in it comes as its next operations.\<close>

definition sock_write_vm :: "nat \<Rightarrow> bytes \<Rightarrow> bool \<Rightarrow> net_vm \<Rightarrow> (net_error, unit) result \<times> net_vm" where
  "sock_write_vm s u cb V =
     (let x = nv_socks V s in
      if ns_destroyed x \<or> ns_closed x then
        (let e = NetError ''Error'' ''ERR_STREAM_DESTROYED'' ''Cannot call write after a stream was destroyed'' in
         if cb then (Inr (), logged s (EvWritten (Some e)) V) else (Inl e, V))
      else if ns_handle x = None then (Inr (), sock_put s u cb V)
      else (Inr (), startLoop s (sock_put s u cb V)))"

definition sock_end :: "nat \<Rightarrow> bytes option \<Rightarrow> net_vm \<Rightarrow> net_vm" where
  "sock_end s final V =
     (let x = nv_socks V s in
      case (if ns_destroyed x \<or> ns_closed x then None else final) of
        Some u \<Rightarrow>
          if ns_handle x = None then upd s (\<lambda>x. x\<lparr>ns_endAfterFlush := True\<rparr>) (sock_put s u False V)
          else startLoop s (upd s (\<lambda>x. x\<lparr>ns_wantClose := True\<rparr>) (sock_put s u False V))
      | None \<Rightarrow>
          if ns_connecting x then upd s (\<lambda>x. x\<lparr>ns_endAfterFlush := True\<rparr>) V
          else if ns_loop x then upd s (\<lambda>x. x\<lparr>ns_wantClose := True\<rparr>) V
          else doClose s V)"

text \<open>The readable side: listening for data and resuming let the buffer flow, pausing holds it.\<close>

definition sock_onData :: "nat \<Rightarrow> net_vm \<Rightarrow> net_vm" where
  "sock_onData s V = later (TFlow s) (upd s (\<lambda>x. x\<lparr>ns_listeners := Suc (ns_listeners x), ns_flowing := Some True\<rparr>) V)"

definition sock_resume :: "nat \<Rightarrow> net_vm \<Rightarrow> net_vm" where
  "sock_resume s V = later (TFlow s) (upd s (\<lambda>x. x\<lparr>ns_flowing := Some True\<rparr>) V)"

definition sock_pause :: "nat \<Rightarrow> net_vm \<Rightarrow> net_vm" where
  "sock_pause s = upd s (\<lambda>x. x\<lparr>ns_flowing := Some False\<rparr>)"

section \<open>TLS\<close>

definition markSecure :: "json \<Rightarrow> net_sock \<Rightarrow> net_sock" where
  "markSecure options x =
     x\<lparr>ns_encrypted := True,
       ns_peer := Some (True, (case js_field ''servername'' (Some options) of Some v \<Rightarrow> Some v | None \<Rightarrow> json_get ''host'' options))\<rparr>"

text \<open>\<open>_startTls\<close>, as \<open>tls.connect\<close> calls it: what it rejects is caught there.\<close>

definition doUpgrade :: "nat \<Rightarrow> net_vm \<Rightarrow> net_vm" where
  "doUpgrade s V =
     (let x = nv_socks V s in
      case ns_handle x of
        None \<Rightarrow> later (TReject s (NetError ''Error'' ''ENOTCONN'' ''cannot startTls: socket is not connected'')) V
      | Some i \<Rightarrow>
          if ns_encrypted x then later (TReject s (NetError ''Error'' ''ERR_TLS_ALREADY'' ''socket is already TLS'')) V
          else hostCall (CTls s i) V)"

definition tls_upgrade :: "nat \<Rightarrow> json \<Rightarrow> net_vm \<Rightarrow> net_vm" where
  "tls_upgrade s options V =
     (let V1 = upd s (\<lambda>x. (markSecure options x)\<lparr>ns_encrypted := False\<rparr>) V;
          x = nv_socks V1 s;
          V2 = (if ns_handle x \<noteq> None then doUpgrade s V1
                else if ns_connecting x then upd s (\<lambda>x. x\<lparr>ns_upgrades := Suc (ns_upgrades x)\<rparr>) V1
                else later (TError s (NetError ''Error'' ''ENOTCONN'' ''tls.connect({socket}): socket is not connected'')) V1)
      in upd s (\<lambda>x. x\<lparr>ns_marks := ns_marks x @ [options]\<rparr>) V2)"

definition new_socket :: "net_sock \<Rightarrow> net_vm \<Rightarrow> net_vm" where
  "new_socket x V = (upd (nv_count V) (\<lambda>_. x) V)\<lparr>nv_count := Suc (nv_count V)\<rparr>"

definition TLSSocket :: "json \<Rightarrow> net_sock" where
  "TLSSocket options =
     (markSecure options (Socket (JObj ([(''_secureTransport'', JStr ''on'')] @ opt_field ''allowHalfOpen'' (json_get ''allowHalfOpen'' options)))))
       \<lparr>ns_encrypted := False, ns_marks := [options]\<rparr>"

text \<open>\<open>net.connect\<close>, and \<open>tls.connect\<close> without a socket.\<close>

definition createConnection :: "json \<Rightarrow> net_vm \<Rightarrow> (net_error, unit) result \<times> net_vm" where
  "createConnection options V = sock_connect (nv_count V) options (new_socket (Socket options) V)"

definition tls_connect :: "json \<Rightarrow> net_vm \<Rightarrow> (net_error, unit) result \<times> net_vm" where
  "tls_connect options V =
     sock_connect (nv_count V)
       (JObj (opt_field ''port'' (json_get ''port'' options) @
         [(''host'', case js_field ''host'' (Some options) of Some h \<Rightarrow> h | None \<Rightarrow> JStr ''localhost'')] @
         opt_field ''allowHalfOpen'' (json_get ''allowHalfOpen'' options)))
       (new_socket (TLSSocket options) V)"

section \<open>Operations of the program\<close>

datatype net_op =
    OpSocket json | OpTlsSocket json | OpCreate json | OpTlsConnect json
  | OpConnect nat json | OpWrite nat bytes bool | OpEnd nat "bytes option" | OpDestroy nat "net_error option" | OpReset nat
  | OpUpgrade nat json | OpData nat | OpPause nat | OpResume nat | OpTimeout nat json | OpListen nat

definition on_socket :: "nat \<Rightarrow> net_vm \<Rightarrow> net_vm \<Rightarrow> (net_error, unit) result \<times> net_vm" where
  "on_socket s V V' = (Inr (), if s < nv_count V then V' else V)"

text \<open>An operation on a socket that does not exist yet is none.\<close>

fun do_op :: "net_op \<Rightarrow> net_vm \<Rightarrow> (net_error, unit) result \<times> net_vm" where
  "do_op (OpSocket o1) V = (Inr (), new_socket (Socket o1) V)"
| "do_op (OpTlsSocket o1) V = (Inr (), new_socket (TLSSocket o1) V)"
| "do_op (OpCreate o1) V = createConnection o1 V"
| "do_op (OpTlsConnect o1) V = tls_connect o1 V"
| "do_op (OpConnect s o1) V = (if s < nv_count V then sock_connect s o1 V else (Inr (), V))"
| "do_op (OpWrite s u cb) V = (if s < nv_count V then sock_write_vm s u cb V else (Inr (), V))"
| "do_op (OpEnd s u) V = on_socket s V (sock_end s u V)"
| "do_op (OpDestroy s e) V = on_socket s V (sock_destroy s e V)"
| "do_op (OpReset s) V = on_socket s V (resetAndDestroy s V)"
| "do_op (OpUpgrade s o1) V = on_socket s V (tls_upgrade s o1 V)"
| "do_op (OpData s) V = on_socket s V (sock_onData s V)"
| "do_op (OpPause s) V = on_socket s V (sock_pause s V)"
| "do_op (OpResume s) V = on_socket s V (sock_resume s V)"
| "do_op (OpTimeout s ms) V = on_socket s V (upd s (\<lambda>x. x\<lparr>ns_timeout := ms\<rparr>) V)"
| "do_op (OpListen s) V = (Inl notSupported, V)"

section \<open>Events\<close>

type_synonym program = "net_vm \<Rightarrow> nat \<Rightarrow> net_event \<Rightarrow> net_op list"

definition own_listeners :: "nat \<Rightarrow> net_event \<Rightarrow> net_vm \<Rightarrow> net_vm" where
  "own_listeners s e V =
     (case e of
        EvConnect \<Rightarrow> (doUpgrade s ^^ ns_upgrades (nv_socks V s)) (upd s (\<lambda>x. x\<lparr>ns_upgrades := 0\<rparr>) V)
      | EvSecure \<Rightarrow> upd s (\<lambda>x. (fold markSecure (ns_marks x) x)\<lparr>ns_marks := []\<rparr>) V
      | _ \<Rightarrow> V)"

definition do_ops :: "net_op list \<Rightarrow> net_vm \<Rightarrow> net_vm" where
  "do_ops = fold (\<lambda>c V. snd (do_op c V))"

definition emit :: "program \<Rightarrow> nat \<Rightarrow> net_event \<Rightarrow> net_vm \<Rightarrow> net_vm" where
  "emit P s e V = (let V1 = own_listeners s e (logged s e V) in do_ops (P V1 s e) V1)"

definition push :: "nat \<Rightarrow> bytes \<Rightarrow> net_vm \<Rightarrow> net_vm" where
  "push s b V =
     (let V1 = upd s (\<lambda>x. x\<lparr>ns_buffer := ns_buffer x @ [b]\<rparr>) V in
      if ns_flowing (nv_socks V s) = Some True then later (TFlow s) V1 else V1)"

definition push_end :: "nat \<Rightarrow> net_vm \<Rightarrow> net_vm" where
  "push_end s V = later (TFlow s) (upd s (\<lambda>x. x\<lparr>ns_ended := True\<rparr>) V)"

text \<open>\<open>flow\<close>: no operation adds to the buffer, so its length bounds the loop.\<close>

fun flow_loop :: "program \<Rightarrow> nat \<Rightarrow> nat \<Rightarrow> net_vm \<Rightarrow> net_vm" where
  "flow_loop P s 0 V = V"
| "flow_loop P s (Suc n) V =
     (case ns_buffer (nv_socks V s) of
        b # r \<Rightarrow>
          if ns_flowing (nv_socks V s) = Some True
          then flow_loop P s n (emit P s (EvData b) (upd s (\<lambda>x. x\<lparr>ns_buffer := r\<rparr>) V))
          else V
      | [] \<Rightarrow> V)"

definition flow :: "program \<Rightarrow> nat \<Rightarrow> net_vm \<Rightarrow> net_vm" where
  "flow P s V =
     (let V1 = flow_loop P s (length (ns_buffer (nv_socks V s))) V; x = nv_socks V1 s in
      if ns_ended x \<and> ns_buffer x = [] \<and> \<not> ns_endEmitted x
      then emit P s (EvClose None) (emit P s EvEnd (upd s (\<lambda>x. x\<lparr>ns_endEmitted := True\<rparr>) V1))
      else V1)"

section \<open>The command loop\<close>

definition turn :: "nat \<Rightarrow> json \<Rightarrow> net_vm \<Rightarrow> net_vm" where
  "turn s i V =
     (let x = nv_socks V s in
      if ns_destroyed x \<or> ns_closed x \<or> ns_handle x \<noteq> Some i then upd s (\<lambda>x. x\<lparr>ns_loop := False\<rparr>) V
      else (case ns_writeQ x of
          (u, cb) # q \<Rightarrow> hostCall (CWrite s i u cb) (upd s (\<lambda>x. x\<lparr>ns_writeQ := q\<rparr>) V)
        | [] \<Rightarrow> if ns_wantClose x then doClose s (upd s (\<lambda>x. x\<lparr>ns_loop := False\<rparr>) V) else hostCall (CRead s i) V))"

definition fail :: "program \<Rightarrow> nat \<Rightarrow> net_error \<Rightarrow> net_vm \<Rightarrow> net_vm" where
  "fail P s e V =
     (let V1 = upd s (\<lambda>x. x\<lparr>ns_connecting := False, ns_closed := True\<rparr>) V in
      if ns_destroyed (nv_socks V s) then V1
      else emit P s (EvClose (Some True)) (emit P s (EvError e) (upd s (\<lambda>x. x\<lparr>ns_destroyed := True\<rparr>) V1)))"

definition teardown :: "program \<Rightarrow> nat \<Rightarrow> net_error \<Rightarrow> net_vm \<Rightarrow> net_vm" where
  "teardown P s e V =
     (let x = nv_socks V s in
      if ns_destroyed x then V
      else
       (let V1 = upd s (\<lambda>x. x\<lparr>ns_handle := None\<rparr>) (uncount s (upd s (\<lambda>x. x\<lparr>ns_loop := False, ns_closed := True\<rparr>) V));
            V2 = (case ns_handle x of Some i \<Rightarrow> hostCall (CForget s i) V1 | None \<Rightarrow> V1);
            V3 = push_end s (upd s (\<lambda>x. x\<lparr>ns_destroyed := True\<rparr>) V2)
        in emit P s (EvClose (Some True)) (emit P s (EvError e) V3)))"

definition sock_deliver :: "program \<Rightarrow> nat \<Rightarrow> bytes \<Rightarrow> net_vm \<Rightarrow> net_vm" where
  "sock_deliver P s b V =
     (let x = nv_socks V s in
      if ns_flowing x \<noteq> Some False \<and> 0 < ns_listeners x
      then emit P s (EvData b) (upd s (\<lambda>x. x\<lparr>ns_flowing := Some True\<rparr>) V) else push s b V)"

section \<open>Answers of the host\<close>

text \<open>The handle an answer gives, or the text of its error; a rejected call gives its message.\<close>

definition handle_of :: "string \<Rightarrow> (string, json) result \<Rightarrow> (string, json) result" where
  "handle_of missing r =
     (case r of
        Inl e \<Rightarrow> Inl e
      | Inr v \<Rightarrow>
          (case js_field ''error'' (Some v) of
             Some e \<Rightarrow> Inl (js_String e)
           | None \<Rightarrow> (case json_get ''handleId'' v of
               None \<Rightarrow> Inl missing | Some h \<Rightarrow> if h = JNull then Inl missing else Inr h)))"

definition answer_error :: "(string, json) result \<Rightarrow> string option" where
  "answer_error r = (case r of Inl e \<Rightarrow> Some e | Inr v \<Rightarrow> map_option js_String (js_field ''error'' (Some v)))"

definition on_open :: "program \<Rightarrow> nat \<Rightarrow> json \<Rightarrow> int \<Rightarrow> (string, json) result \<Rightarrow> net_vm \<Rightarrow> net_vm" where
  "on_open P s host port r V =
     (case handle_of ''open failed'' r of
        Inl e \<Rightarrow> fail P s (mapHostErr e ''connect'') (uncount s V)
      | Inr h \<Rightarrow>
          (let V = upd s (\<lambda>x. x\<lparr>ns_handles := ns_handles x @ [h]\<rparr>) V in
           if ns_destroyed (nv_socks V s) then hostCall (CForget s h) (uncount s V)
           else
            (let V1 = upd s (\<lambda>x. x\<lparr>ns_handle := Some h, ns_connecting := False, ns_pending := False,
                   ns_remote := Some (host, port, if (case host of JStr t \<Rightarrow> isIPv6 t | _ \<Rightarrow> False) then ''IPv6'' else ''IPv4''),
                   ns_encrypted := (ns_encrypted x \<or> ns_secure x = JStr ''on''),
                   ns_writeQ := ns_writeQ x @ ns_preQ x, ns_preQ := []\<rparr>) V;
                 V2 = emit P s EvReady (emit P s EvConnect V1);
                 V3 = (if ns_encrypted (nv_socks V2 s) then emit P s EvSecure V2 else V2);
                 V4 = (if ns_endAfterFlush (nv_socks V3 s) then upd s (\<lambda>x. x\<lparr>ns_wantClose := True\<rparr>) V3 else V3)
             in startLoop s V4)))"

text \<open>A loop goes on only while its socket lives and has the handle it was started with.\<close>

definition still_on :: "nat \<Rightarrow> json \<Rightarrow> net_vm \<Rightarrow> bool" where
  "still_on s i V = (ns_handle (nv_socks V s) = Some i \<and> \<not> ns_destroyed (nv_socks V s))"

definition on_write :: "program \<Rightarrow> nat \<Rightarrow> json \<Rightarrow> bool \<Rightarrow> (string, json) result \<Rightarrow> net_vm \<Rightarrow> net_vm" where
  "on_write P s i cb r V =
     (if \<not> still_on s i V then upd s (\<lambda>x. x\<lparr>ns_loop := False\<rparr>) V
      else (case answer_error r of
          Some e \<Rightarrow>
            (let werr = mapHostErr e ''write'' in
             turn s i (emit P s (EvError werr) (if cb then emit P s (EvWritten (Some werr)) V else V)))
        | None \<Rightarrow> turn s i (if cb then emit P s (EvWritten None) V else V)))"

text \<open>Data that does not decode throws in the reaction, which nothing catches: the loop ends there.\<close>

definition on_read :: "program \<Rightarrow> nat \<Rightarrow> json \<Rightarrow> (string, json) result \<Rightarrow> net_vm \<Rightarrow> net_vm" where
  "on_read P s i r V =
     (if \<not> still_on s i V then upd s (\<lambda>x. x\<lparr>ns_loop := False\<rparr>) V
      else (case (answer_error r, r) of
          (None, Inr v) \<Rightarrow>
            (case (case js_field ''dataB64'' (Some v) of
                     None \<Rightarrow> Inr V
                   | Some d \<Rightarrow>
                      (case b64ToBytes (js_String d) of
                         Inl e \<Rightarrow> Inl e
                       | Inr b \<Rightarrow> Inr (sock_deliver P s b (upd s (\<lambda>x. x\<lparr>ns_bytesRead := ns_bytesRead x + length b, ns_got := ns_got x @ [b]\<rparr>) V)))) of
               Inl e \<Rightarrow> V
             | Inr V1 \<Rightarrow>
                 if js_field ''done'' (Some v) \<noteq> None then
                   (let V2 = upd s (\<lambda>x. x\<lparr>ns_remoteEnded := True\<rparr>) (push_end s (upd s (\<lambda>x. x\<lparr>ns_loop := False\<rparr>) V1)) in
                    if ns_half (nv_socks V2 s) then V2 else doClose s V2)
                 else turn s i V1)
        | (Some e, _) \<Rightarrow> teardown P s (mapHostErr e ''read'') (upd s (\<lambda>x. x\<lparr>ns_loop := False\<rparr>) V)
        | _ \<Rightarrow> V))"

definition on_closed :: "program \<Rightarrow> nat \<Rightarrow> net_vm \<Rightarrow> net_vm" where
  "on_closed P s V =
     (if ns_destroyed (nv_socks V s) then V else emit P s (EvClose (Some False)) (upd s (\<lambda>x. x\<lparr>ns_destroyed := True\<rparr>) V))"

definition on_tls :: "program \<Rightarrow> nat \<Rightarrow> (string, json) result \<Rightarrow> net_vm \<Rightarrow> net_vm" where
  "on_tls P s r V =
     (case handle_of ''startTls failed'' r of
        Inr h \<Rightarrow>
          emit P s EvSecure (startLoop s (upd s (\<lambda>x. x\<lparr>ns_handle := Some h, ns_loop := False, ns_encrypted := True,
             ns_handles := ns_handles x @ [h]\<rparr>) V))
      | Inl e \<Rightarrow>
          (let err = (case r of Inr _ \<Rightarrow> mapHostErr e ''startTls'' | Inl _ \<Rightarrow> NetError ''Error'' ''ECONNRESET'' (''TLS upgrade failed: '' @ e))
           in sock_destroy s None (emit P s (EvError err) V)))"

section \<open>Steps\<close>

fun settle_call :: "program \<Rightarrow> net_call \<Rightarrow> (string, json) result \<Rightarrow> net_vm \<Rightarrow> net_vm" where
  "settle_call P (COpen s h p o1) r V = on_open P s h p r V"
| "settle_call P (CWrite s i u cb) r V = on_write P s i cb r V"
| "settle_call P (CRead s i) r V = on_read P s i r V"
| "settle_call P (CClose s i) r V = on_closed P s V"
| "settle_call P (CForget s i) r V = V"
| "settle_call P (CTls s i) r V = on_tls P s r V"

fun run_task :: "program \<Rightarrow> net_task \<Rightarrow> net_vm \<Rightarrow> net_vm" where
  "run_task P (TFail s e) V = fail P s e V"
| "run_task P (TTurn s i) V = turn s i V"
| "run_task P (TQuiet s) V = emit P s (EvClose (Some False)) V"
| "run_task P (TClosed s err) V = emit P s (EvClose (Some (err \<noteq> None))) (case err of Some e \<Rightarrow> emit P s (EvError e) V | None \<Rightarrow> V)"
| "run_task P (TFlow s) V = flow P s V"
| "run_task P (TError s e) V = emit P s (EvError e) V"
| "run_task P (TReject s e) V = sock_destroy s None (emit P s (EvError e) V)"

text \<open>The program acts, a task runs, or, when none is left, the host answers the call it works on.\<close>

datatype net_move = Act net_op | Task | Answer "(string, json) result"

fun net_step :: "program \<Rightarrow> net_move \<Rightarrow> net_vm \<Rightarrow> net_vm" where
  "net_step P (Act c) V = snd (do_op c V)"
| "net_step P Task V = (case nv_tasks V of [] \<Rightarrow> V | t # ts \<Rightarrow> run_task P t (V\<lparr>nv_tasks := ts\<rparr>))"
| "net_step P (Answer r) V =
     (if nv_tasks V \<noteq> [] then V
      else (case nv_calls V of [] \<Rightarrow> V | c # cs \<Rightarrow> settle_call P c r (V\<lparr>nv_calls := cs\<rparr>)))"

definition net_run :: "program \<Rightarrow> net_move list \<Rightarrow> net_vm \<Rightarrow> net_vm" where
  "net_run P = fold (net_step P)"

end
