(* ===== verification/HostSocketsProps.thy ===== *)
theory HostSocketsProps
  imports HostSockets
begin

text \<open>
  What the socket provider keeps: the cap on open sockets and the freshness of handles over every run, the
  delivery of the peer's bytes in bounded chunks, and the agreement of the checked and the connected host
  on addresses with one name.  The last section holds the behaviours that differ from what is documented.
\<close>

section \<open>The registry\<close>

definition live :: "sock_host \<Rightarrow> nat set" where
  "live S = fst ` set (sh_map S)"

definition sock_inv :: "sock_host \<Rightarrow> bool" where
  "sock_inv S \<longleftrightarrow> distinct (map fst (sh_map S)) \<and> (\<forall>(i, st) \<in> set (sh_map S). i < sh_next S \<and> \<not> sk_closed st) \<and>
     length (sh_map S) \<le> SOCKET_MAX_CONCURRENT"

text \<open>A step that keeps the invariant and brings back no handle.\<close>

definition sock_good :: "sock_host \<Rightarrow> sock_host \<Rightarrow> bool" where
  "sock_good S S' \<longleftrightarrow> sock_inv S' \<and> sh_next S \<le> sh_next S' \<and> live S' \<inter> {..<sh_next S} \<subseteq> live S"

lemma good_refl: "sock_inv S \<Longrightarrow> sock_good S S"
  by (simp add: sock_good_def)

lemma good_trans: "sock_good S T \<Longrightarrow> sock_good T U \<Longrightarrow> sock_good S U"
  by (fastforce simp: sock_good_def)

lemma getState_Some: "getState S h = Some (i, st) \<Longrightarrow> (i, st) \<in> set (sh_map S)"
  by (auto simp: getState_def split: json.splits if_splits dest: map_of_SomeD)

lemma put_good:
  assumes "sock_inv S" "getState S h = Some (i, st0)" "\<not> sk_closed st"
  shows "sock_good S (put_state i st S)"
proof -
  have m: "(i, st0) \<in> set (sh_map S)" by (rule getState_Some) (rule assms(2))
  then have i: "i \<in> fst ` set (sh_map S)" "i < sh_next S" using assms(1) by (force, auto simp: sock_inv_def)
  have "length (AList.update i st (sh_map S)) = length (sh_map S)" using i(1) by (simp add: length_update)
  moreover have "distinct (map fst (AList.update i st (sh_map S)))" using assms(1) by (simp add: sock_inv_def distinct_update)
  moreover have "\<forall>(j, s) \<in> set (AList.update i st (sh_map S)). j < sh_next S \<and> \<not> sk_closed s"
    using assms(1,3) i(2) by (auto simp: sock_inv_def dest!: update_in_set)
  moreover have "fst ` set (AList.update i st (sh_map S)) \<subseteq> fst ` set (sh_map S)"
    using i(1) by (auto dest!: update_in_set intro: rev_image_eqI)
  ultimately show ?thesis using assms(1) by (auto simp: sock_good_def sock_inv_def live_def put_state_def)
qed

lemma delete_inv:
  assumes "sock_inv S"
  shows "sock_inv (S\<lparr>sh_map := AList.delete i (sh_map S)\<rparr>)" "live (S\<lparr>sh_map := AList.delete i (sh_map S)\<rparr>) \<subseteq> live S"
proof -
  have s: "set (AList.delete i (sh_map S)) \<subseteq> set (sh_map S)" by (auto simp: AList.delete_eq)
  have "length (AList.delete i (sh_map S)) \<le> length (sh_map S)" by (rule length_delete_le)
  then show "sock_inv (S\<lparr>sh_map := AList.delete i (sh_map S)\<rparr>)" using assms s
    by (auto simp: sock_inv_def distinct_delete)
  show "live (S\<lparr>sh_map := AList.delete i (sh_map S)\<rparr>) \<subseteq> live S" using s by (auto simp: live_def)
qed

lemma destroy_good: "sock_inv S \<Longrightarrow> sock_good S (destroy i S)"
  using delete_inv[of S i] by (auto simp: sock_good_def sock_inv_def live_def destroy_def)

lemma live_count: "sock_inv S \<Longrightarrow> liveCount S = length (sh_map S)"
  by (auto simp: liveCount_def sock_inv_def intro!: arg_cong[where f = length] filter_True)

lemma register_good:
  assumes "sock_inv S" "length (sh_map S) < SOCKET_MAX_CONCURRENT" "\<not> sk_closed st" "register st S = (j, S')"
  shows "sock_good S S'"
proof -
  have f: "sh_next S \<notin> fst ` set (sh_map S)" using assms(1) by (auto simp: sock_inv_def)
  then have "length (AList.update (sh_next S) st (sh_map S)) = Suc (length (sh_map S))" by (simp add: length_update)
  moreover have "distinct (map fst (AList.update (sh_next S) st (sh_map S)))"
    using assms(1) by (simp add: sock_inv_def distinct_update)
  moreover have "\<forall>(j, s) \<in> set (AList.update (sh_next S) st (sh_map S)). j < Suc (sh_next S) \<and> \<not> sk_closed s"
    using assms(1,3) by (auto simp: sock_inv_def dest!: update_in_set)
  moreover have "fst ` set (AList.update (sh_next S) st (sh_map S)) \<inter> {..<sh_next S} \<subseteq> fst ` set (sh_map S)"
    by (auto dest!: update_in_set intro: rev_image_eqI)
  moreover have "S' = S\<lparr>sh_map := AList.update (sh_next S) st (sh_map S), sh_next := Suc (sh_next S)\<rparr>"
    using assms(4) by (auto simp: put_state_def register_def)
  ultimately show ?thesis using assms(2) by (simp add: sock_good_def sock_inv_def live_def)
qed

lemma open_good: "sock_inv S \<Longrightarrow> sock_good S (snd (socket_open N addr opts S))"
  by (auto simp: socket_open_def live_count not_le good_refl Let_def intro!: register_good[of S]
      split: prod.splits option.splits sum.splits if_splits)

lemma sock_write_good: "sock_inv S \<Longrightarrow> sock_good S (snd (sock_write N h d S))"
  by (auto simp: sock_write_def good_refl Let_def intro!: put_good split: option.splits sum.splits if_splits)

lemma read_good: "sock_inv S \<Longrightarrow> sock_good S (snd (sock_read N h S))"
  by (auto simp: sock_read_def good_refl destroy_good Let_def intro!: put_good
      split: option.splits sum.splits list.splits prod.splits if_splits)

lemma startTls_good: "sock_inv S \<Longrightarrow> sock_good S (snd (sock_startTls N h S))"
proof -
  assume S: "sock_inv S"
  have up: "sock_good S S'" if g: "getState S h = Some (i, st0)"
    and r: "register st (S\<lparr>sh_map := AList.delete i (sh_map S)\<rparr>) = (j, S')" "\<not> sk_closed st" for i st0 st j S'
  proof -
    let ?D = "S\<lparr>sh_map := AList.delete i (sh_map S)\<rparr>"
    have "(i, st0) \<in> set (sh_map S)" by (rule getState_Some) (rule g)
    then have "length (AList.delete i (sh_map S)) < length (sh_map S)"
      by (auto simp: AList.delete_eq intro!: length_filter_less)
    then have "length (sh_map ?D) < SOCKET_MAX_CONCURRENT" using S by (simp add: sock_inv_def)
    then have "sock_good ?D S'" using register_good[OF delete_inv(1)[OF S] _ r(2,1)] by simp
    then show ?thesis using delete_inv(2)[OF S, of i] by (auto simp: sock_good_def)
  qed
  show ?thesis using S
    by (auto simp: sock_startTls_def good_refl Let_def intro: put_good up split: option.splits sum.splits prod.splits if_splits)
qed

lemma close_good: "sock_inv S \<Longrightarrow> sock_good S (snd (sock_close h S))"
  by (auto simp: sock_close_def good_refl destroy_good split: option.splits)

lemma sock_step_good: "sock_inv S \<Longrightarrow> sock_good S (snd (sock_step E s N c S))"
  by (cases c) (auto simp: sock_step_def glue_socketOpen_def good_refl open_good sock_write_good read_good startTls_good close_good
      split: sum.split)

definition sock_run :: "host_env \<Rightarrow> host_state \<Rightarrow> sock_net \<Rightarrow> sock_op list \<Rightarrow> sock_host \<Rightarrow> sock_host" where
  "sock_run E s N cs S = fold (\<lambda>c S. snd (sock_step E s N c S)) cs S"

lemma run_good: "sock_inv S \<Longrightarrow> sock_good S (sock_run E s N cs S)"
proof (induction cs arbitrary: S)
  case (Cons c cs)
  note g = sock_step_good[OF Cons.prems, of E s N c]
  then show ?case using Cons.IH[of "snd (sock_step E s N c S)"] good_trans[OF g]
    by (simp add: sock_run_def sock_good_def[of S "snd (sock_step E s N c S)"])
qed (simp add: sock_run_def good_refl)

text \<open>C26. Whatever the cells ask for and the network does, at most six sockets are registered, each under a
  handle that was given out once: a handle that is gone never comes back.\<close>

theorem sockets_stay_within_cap:
  fixes E s N earlier later
  defines "S \<equiv> sock_run E s N earlier makeSocketHost"
  defines "S' \<equiv> sock_run E s N later S"
  shows "length (sh_map S') \<le> SOCKET_MAX_CONCURRENT \<and> liveCount S' = length (sh_map S') \<and>
    distinct (map fst (sh_map S')) \<and> live S' \<inter> {..<sh_next S} \<subseteq> live S"
proof -
  have "sock_inv makeSocketHost" by (simp add: sock_inv_def makeSocketHost_def)
  then have "sock_inv S" using run_good unfolding S_def sock_good_def by blast
  then have "sock_good S S'" unfolding S'_def by (rule run_good)
  then show ?thesis using live_count[of S'] by (simp add: sock_good_def sock_inv_def)
qed

section \<open>Delivery\<close>

text \<open>Reading a handle until it answers without data: the chunks, and that last answer.\<close>

fun drain_socket :: "sock_net \<Rightarrow> nat \<Rightarrow> json \<Rightarrow> sock_host \<Rightarrow> bytes list \<times> json option \<times> sock_host" where
  "drain_socket N 0 h S = ([], None, S)"
| "drain_socket N (Suc n) h S =
     (case sock_read N h S of
        (Inl _, S') \<Rightarrow> ([], None, S')
      | (Inr v, S') \<Rightarrow>
          (case json_get ''dataB64'' v of
             Some (JStr d) \<Rightarrow>
               apfst (\<lambda>cs. (case b64ToBytes d of Inr b \<Rightarrow> b | Inl _ \<Rightarrow> []) # cs) (drain_socket N n h S')
           | _ \<Rightarrow> ([], Some v, S')))"

definition pending_bytes :: "sock_state \<Rightarrow> bytes" where
  "pending_bytes st = (case sk_pending st of Some p \<Rightarrow> p | None \<Rightarrow> [])"

definition readable :: "sock_host \<Rightarrow> json \<Rightarrow> nat \<Rightarrow> sock_state \<Rightarrow> bool" where
  "readable S h i st \<longleftrightarrow> getState S h = Some (i, st) \<and> \<not> sk_closed st \<and> sk_reader st \<noteq> Released"

lemma chunk_pos: "0 < SOCKET_READ_CHUNK_BYTES"
  by (simp add: SOCKET_READ_CHUNK_BYTES_def)

lemma cut_parts:
  "fst (cut_chunk c) = take SOCKET_READ_CHUNK_BYTES c"
  "(case snd (cut_chunk c) of Some p \<Rightarrow> p | None \<Rightarrow> []) = drop SOCKET_READ_CHUNK_BYTES c"
  by (auto simp: cut_chunk_def)

lemma take_lock_Released: "take_lock l = Released \<longleftrightarrow> l = Released"
  by (cases l) (simp_all add: take_lock_def)

lemma put_readable: "readable S h i st0 \<Longrightarrow> \<not> sk_closed st \<Longrightarrow> sk_reader st \<noteq> Released \<Longrightarrow> readable (put_state i st S) h i st"
  by (auto simp: readable_def getState_def put_state_def update_conv' split: json.splits if_splits)

text \<open>The next piece of what a readable handle still has to give.\<close>

lemma read_next:
  assumes r: "readable S h i st" and w: "wi_in (sk_wire st) = map Inr cs" and ne: "pending_bytes st = [] \<longrightarrow> cs \<noteq> []"
  obtains st' S' cs' where
    "sock_read N h S = (read_data (take SOCKET_READ_CHUNK_BYTES (if pending_bytes st = [] then hd cs else pending_bytes st)), S')"
    "readable S' h i st'" "wi_in (sk_wire st') = map Inr cs'"
    "cs' = (if pending_bytes st = [] then tl cs else cs)"
    "pending_bytes st' = drop SOCKET_READ_CHUNK_BYTES (if pending_bytes st = [] then hd cs else pending_bytes st)"
proof (cases "pending_bytes st = []")
  case True
  then obtain c cs1 where c: "cs = c # cs1" using ne by (cases cs) auto
  obtain x l where x: "cut_chunk c = (x, l)" by (cases "cut_chunk c")
  let ?st = "st\<lparr>sk_reader := take_lock (sk_reader st), sk_wire := (sk_wire st)\<lparr>wi_in := map Inr cs1\<rparr>,
    sk_pending := (case l of None \<Rightarrow> sk_pending st | Some p \<Rightarrow> Some p)\<rparr>"
  have p: "(case sk_pending st of Some p \<Rightarrow> if p = [] then None else Some p | None \<Rightarrow> None) = (None :: bytes option)"
    using True by (simp add: pending_bytes_def split: option.splits)
  have "sock_read N h S = (read_data (take SOCKET_READ_CHUNK_BYTES c), put_state i ?st S)"
    unfolding cut_parts(1)[symmetric] using r w c p x by (cases l) (simp_all add: sock_read_def readable_def Let_def take_lock_Released)
  moreover have "readable (put_state i ?st S) h i ?st"
    using r by (intro put_readable[OF r]) (simp_all add: readable_def take_lock_Released)
  moreover have "pending_bytes ?st = drop SOCKET_READ_CHUNK_BYTES c"
    using cut_parts(2)[of c] True x by (cases l) (simp_all add: pending_bytes_def)
  ultimately show ?thesis by (intro that[of "put_state i ?st S" ?st cs1]) (simp_all add: True c)
next
  case False
  then obtain p where p: "sk_pending st = Some p" "p \<noteq> []" "pending_bytes st = p"
    by (auto simp: pending_bytes_def split: option.splits)
  obtain x l where x: "cut_chunk p = (x, l)" by (cases "cut_chunk p")
  let ?st = "st\<lparr>sk_reader := take_lock (sk_reader st), sk_pending := l\<rparr>"
  have "sock_read N h S = (read_data (take SOCKET_READ_CHUNK_BYTES p), put_state i ?st S)"
    unfolding cut_parts(1)[symmetric] using r p x by (simp add: sock_read_def readable_def Let_def)
  moreover have "readable (put_state i ?st S) h i ?st"
    using r by (intro put_readable[OF r]) (simp_all add: readable_def take_lock_Released)
  moreover have "pending_bytes ?st = drop SOCKET_READ_CHUNK_BYTES p"
    using cut_parts(2)[of p] x by (simp add: pending_bytes_def)
  ultimately show ?thesis by (intro that[of "put_state i ?st S" ?st cs]) (simp_all add: p w)
qed

lemma read_last:
  assumes "readable S h i st" "wi_in (sk_wire st) = []" "pending_bytes st = []"
  shows "sock_read N h S = (Inr (JObj [(''done'', JBool True)]), destroy i S)"
proof -
  have "(case sk_pending st of Some p \<Rightarrow> if p = [] then None else Some p | None \<Rightarrow> None) = (None :: bytes option)"
    using assms(3) by (simp add: pending_bytes_def split: option.splits)
  then show ?thesis using assms(1,2) by (simp add: sock_read_def readable_def Let_def take_lock_Released)
qed

lemma destroyed: "i \<notin> live (destroy i S)"
  by (auto simp: live_def destroy_def AList.delete_eq)

text \<open>C27. A handle whose peer sends without failing is read to the end: the chunks are the bytes of the
  peer in order, none above the chunk size, the last answer is that the stream is done, and the handle is
  gone.\<close>

theorem socket_delivers:
  assumes "readable S h i st" "wi_in (sk_wire st) = map Inr cs"
  shows "\<exists>n chunks S'. drain_socket N n h S = (chunks, Some (JObj [(''done'', JBool True)]), S') \<and>
    concat chunks = pending_bytes st @ concat cs \<and> list_all (\<lambda>c. length c \<le> SOCKET_READ_CHUNK_BYTES) chunks \<and> i \<notin> live S'"
  using assms
proof (induction "length (pending_bytes st) + sum_list (map (\<lambda>c. Suc (length c)) cs)" arbitrary: S st cs rule: less_induct)
  case less
  show ?case
  proof (cases "pending_bytes st = [] \<and> cs = []")
    case True
    then have "drain_socket N (Suc 0) h S = ([], Some (JObj [(''done'', JBool True)]), destroy i S)"
      using read_last[OF less(2), of N] less(3) by simp
    then show ?thesis using True destroyed[of i S] by fastforce
  next
    case False
    let ?b = "if pending_bytes st = [] then hd cs else pending_bytes st"
    obtain st' S' cs' where n: "sock_read N h S = (read_data (take SOCKET_READ_CHUNK_BYTES ?b), S')"
      "readable S' h i st'" "wi_in (sk_wire st') = map Inr cs'" "cs' = (if pending_bytes st = [] then tl cs else cs)"
      "pending_bytes st' = drop SOCKET_READ_CHUNK_BYTES ?b"
      using read_next[OF less(2,3), of N] False by metis
    have d: "pending_bytes st @ concat cs = ?b @ concat cs'" using False n(4) by (cases cs) auto
    have "length (pending_bytes st') + sum_list (map (\<lambda>c. Suc (length c)) cs') <
        length (pending_bytes st) + sum_list (map (\<lambda>c. Suc (length c)) cs)"
      using False n(4,5) chunk_pos by (cases cs) auto
    then obtain m chunks T where ih: "drain_socket N m h S' = (chunks, Some (JObj [(''done'', JBool True)]), T)"
      "concat chunks = pending_bytes st' @ concat cs'" "list_all (\<lambda>c. length c \<le> SOCKET_READ_CHUNK_BYTES) chunks" "i \<notin> live T"
      using less(1)[OF _ n(2,3)] by blast
    have "drain_socket N (Suc m) h S = (take SOCKET_READ_CHUNK_BYTES ?b # chunks, Some (JObj [(''done'', JBool True)]), T)"
      using n(1) ih(1) by (simp add: read_data_def b64_roundtrip)
    moreover have "concat (take SOCKET_READ_CHUNK_BYTES ?b # chunks) = pending_bytes st @ concat cs"
      using ih(2) n(5) d by (simp only: concat.simps append_assoc[symmetric] append_take_drop_id)
    ultimately show ?thesis using ih(3,4) by (intro exI[of _ "Suc m"] exI[of _ "take SOCKET_READ_CHUNK_BYTES ?b # chunks"]) auto
  qed
qed

section \<open>The checked and the connected host\<close>

text \<open>An address that names its host once: a name in the options, an object with one of its two names, a
  URL, or \<open>host\<close> or \<open>host:port\<close>.\<close>

definition host_text :: "string \<Rightarrow> bool" where
  "host_text s = (CHR ''['' \<notin> set s \<and> CHR '']'' \<notin> set s \<and>
     (case js_split CHR '':'' s of [h] \<Rightarrow> True | [h, p] \<Rightarrow> h \<noteq> [] \<and> only_digits p | _ \<Rightarrow> False))"

definition one_name :: "json option \<Rightarrow> json option \<Rightarrow> bool" where
  "one_name addr opts =
     (or_member opts [''host'', ''hostname''] \<noteq> None \<or>
      (case addr of
         Some (JObj ms) \<Rightarrow> name_of addr ''host'' = None \<or> name_of addr ''hostname'' = None
       | Some (JStr s) \<Rightarrow> has_scheme s \<or> host_text s
       | _ \<Rightarrow> True))"

lemma name_nonempty: "name_of v k \<noteq> Some []"
  by (auto simp: name_of_def js_field_def split: option.splits json.splits if_splits)

lemma or_member_two:
  "or_member v [a, b] = js_or (name_of v a) (name_of v b)"
  using name_nonempty[of v a] name_nonempty[of v b]
  by (auto simp: or_member_def js_or_def List.map_filter_def)

lemma split_at_pat_Some: "split_at_pat p s = Some (a, b) \<Longrightarrow> s = a @ p @ b"
proof (induction s arbitrary: a)
  case (Cons x s)
  then show ?case by (auto simp: prefix_def split: if_splits)
qed (simp split: if_splits)

lemma split_at_pat_found: "p \<noteq> [] \<Longrightarrow> split_at_pat p (a @ p @ b) \<noteq> None"
proof (induction a)
  case Nil
  then show ?case by (cases p) auto
qed auto

lemma split_at_pat_drop: "p \<noteq> [] \<Longrightarrow> prefix p (dropWhile P r) \<Longrightarrow> split_at_pat p (c # r) \<noteq> None"
proof -
  assume p: "p \<noteq> []" "prefix p (dropWhile P r)"
  then obtain b where "dropWhile P r = p @ b" by (rule_tac prefixE)
  then have "c # r = (c # takeWhile P r) @ p @ b" using takeWhile_dropWhile_id[of P r] by simp
  then show ?thesis using split_at_pat_found[OF p(1), of "c # takeWhile P r" b] by (simp only: not_False_eq_True)
qed

lemma scheme_found: "has_scheme s \<Longrightarrow> split_at_pat ''://'' s \<noteq> None"
  unfolding has_scheme_def by (cases s, simp, simp only: list.case) (intro split_at_pat_drop, simp, elim conjE)

lemma strip_plain: "CHR ''['' \<notin> set s \<Longrightarrow> CHR '']'' \<notin> set s \<Longrightarrow> strip_brackets s = s"
  by (auto simp: strip_brackets_def suffix_def prefix_def)

lemma host_text_cases:
  assumes "host_text s"
  shows "split_at_pat ''://'' s = None \<and> \<not> prefix ''['' s \<and>
    (case host_port s of Some (h, p) \<Rightarrow> strip_brackets h | None \<Rightarrow> strip_brackets s) = hd (js_split CHR '':'' s)"
proof -
  have b: "CHR ''['' \<notin> set s" "CHR '']'' \<notin> set s" using assms by (simp_all add: host_text_def)
  then have np: "\<not> prefix ''['' s" by (auto simp: prefix_def)
  consider h where "js_split CHR '':'' s = [h]" | h p where "js_split CHR '':'' s = [h, p]" "h \<noteq> []" "only_digits p"
    using assms by (auto simp: host_text_def split: list.splits)
  then show ?thesis
  proof cases
    case 1
    then have s: "s = h" using js_join_split[of "CHR '':''" s] by simp
    have "CHR '':'' \<notin> set s" using js_split_no_sep[of h "CHR '':''" s] 1 s by simp
    moreover from this have "split_at_pat ''://'' s = None"
      using split_at_pat_Some[of "''://''" s] by (cases "split_at_pat ''://'' s") fastforce+
    ultimately show ?thesis using 1 s b np by (simp add: host_port_def strip_plain Let_def)
  next
    case 2
    have s: "s = h @ CHR '':'' # p" using 2(1) js_join_split[of "CHR '':''" s] by simp
    have c: "CHR '':'' \<notin> set h" "CHR '':'' \<notin> set p" using js_split_no_sep[of _ "CHR '':''" s] 2(1) by simp_all
    have t: "takeWhile (\<lambda>x. x \<noteq> CHR '':'') (rev p @ CHR '':'' # rev h) = rev p"
      using c(2) by (subst takeWhile_append2) auto
    have al: "after_last CHR '':'' s = p" by (simp add: after_last_def s t)
    then have "before_last CHR '':'' s = h" by (simp add: before_last_def s)
    then have "host_port s = Some (h, p)" using al np 2 c by (simp add: host_port_def s Let_def)
    moreover have "strip_brackets h = h" using b by (intro strip_plain) (simp_all add: s)
    moreover have "split_at_pat ''://'' s = None"
    proof (rule ccontr)
      assume "split_at_pat ''://'' s \<noteq> None"
      then obtain x y where "s = x @ CHR '':'' # ''//'' @ y" using split_at_pat_Some[of "''://''" s] by fastforce
      then have "js_split CHR '':'' s = js_split CHR '':'' x @ js_split CHR '':'' (''//'' @ y)"
        using js_split_append_sep_gen[of "CHR '':''" x "''//'' @ y"] by simp
      moreover obtain z zs where z: "js_split CHR '':'' (''//'' @ y) = (CHR ''/'' # z) # zs"
        by (cases "js_split CHR '':'' y") auto
      ultimately have "[h, p] = js_split CHR '':'' x @ (CHR ''/'' # z) # zs" using 2(1) by simp
      then have "p = CHR ''/'' # z" using js_split_nonempty[of "CHR '':''" x]
        by (cases "js_split CHR '':'' x") (auto simp: Cons_eq_append_conv)
      moreover have "\<not> is_digit 10 CHR ''/''" by code_simp
      ultimately show False using 2(3) by (simp add: only_digits_def)
    qed
    ultimately show ?thesis using 2(1) np by simp
  qed
qed

lemma text_part_named: "hostname \<noteq> [] \<Longrightarrow> fst (text_part s (hostname, port)) = hostname"
  by (simp add: text_part_def split: option.splits)

lemma url_part_named: "hostname \<noteq> [] \<Longrightarrow> fst (url_part parse s (hostname, port)) = hostname"
  by (simp add: url_part_def split: option.splits)

lemma fst_text_part: "fst x \<noteq> [] \<Longrightarrow> fst (text_part s x) = fst x"
  using text_part_named[of "fst x" s "snd x"] by simp

lemma parse_named: "or_member opts [''host'', ''hostname''] = Some h \<Longrightarrow> fst (parseAddr parse addr opts) = h"
proof -
  assume a: "or_member opts [''host'', ''hostname''] = Some h"
  then have h: "h \<noteq> []" using name_nonempty[of opts "''host''"] name_nonempty[of opts "''hostname''"]
    by (auto simp: or_member_two js_or_def split: if_splits)
  then have "fst (text_part s (url_part parse s (h, port))) = h" for s port
    using url_part_named[OF h] by (simp add: fst_text_part)
  then show ?thesis using a h
    by (auto simp: parseAddr_def Let_def case_prod_unfold split: option.split json.split)
qed

text \<open>What the parser makes of an address without a name in the options.\<close>

lemma parse_text:
  assumes "or_member opts [''host'', ''hostname''] = None" "s \<noteq> []"
  shows "fst (parseAddr parse (Some (JStr s)) opts) =
    fst (text_part s (url_part parse s ([], present (Option.bind opts (json_get ''port'')))))"
  using assms by (simp add: parseAddr_def Let_def case_prod_unfold)

lemma same_host:
  assumes "one_name addr opts" "socketHostOf parse (glue_addr addr) (glue_opts opts) \<noteq> []"
  shows "fst (parseAddr parse addr opts) = socketHostOf parse (glue_addr addr) (glue_opts opts)"
proof (cases "or_member opts [''host'', ''hostname'']")
  case (Some h)
  have "name_of None k = None" for k by (simp add: name_of_def js_field_def)
  then have "opts \<noteq> None" using Some by (cases opts) (simp_all add: or_member_two js_or_def)
  then show ?thesis using Some parse_named[OF Some, of parse addr]
    by (auto simp: socketHostOf_def glue_opts_def or_member_two)
next
  case None
  then have o: "(case glue_opts opts of None \<Rightarrow> None | Some (h, hn) \<Rightarrow> js_or h hn) = None"
    by (auto simp: glue_opts_def or_member_two split: option.split)
  note glue = socketHostOf_def[of parse "glue_addr addr" "glue_opts opts", unfolded o]
  show ?thesis
  proof (cases addr)
    case None
    then show ?thesis using assms(2) glue by (simp add: glue_addr_def)
  next
    case (Some j)
    show ?thesis
    proof (cases j)
      case (JStr s)
      have g: "glue_addr addr = AddrStr s" by (simp add: Some JStr glue_addr_def)
      have s: "s \<noteq> []" using assms(2) unfolding g glue[unfolded g] by auto
      note p = parse_text[OF None s, of parse]
      show ?thesis
      proof (cases "has_scheme s")
        case True
        then obtain u where u: "parse s None = Some u" "u_hostname u \<noteq> []"
          "socketHostOf parse (glue_addr addr) (glue_opts opts) = u_hostname u"
          using assms(2) scheme_found[OF True] unfolding g glue[unfolded g] by (auto split: option.splits)
        then have "fst (url_part parse s ([], port)) = u_hostname u" for port using True by (simp add: url_part_def)
        then show ?thesis using u p by (simp add: Some JStr fst_text_part)
      next
        case False
        then have t: "host_text s" using assms(1) None by (simp add: one_name_def Some JStr)
        have "url_part parse s ([], port) = ([], port)" for port using False by (simp add: url_part_def)
        moreover have "fst (text_part s ([], port)) = hd (js_split CHR '':'' s)" for port
          using host_text_cases[OF t] by (auto simp: text_part_def split: option.splits)
        ultimately show ?thesis using p host_text_cases[OF t] by (simp add: Some[unfolded JStr] glue[unfolded g, unfolded Some JStr] g[unfolded Some JStr])
      qed
    next
      case (JObj ms)
      have "name_of addr ''host'' = None \<or> name_of addr ''hostname'' = None"
        using assms(1) None by (simp add: one_name_def Some JObj)
      then have "or_member addr [''hostname'', ''host''] = js_or (name_of addr ''host'') (name_of addr ''hostname'')"
        using name_nonempty[of addr] by (auto simp: or_member_two js_or_def)
      moreover have "fst (parseAddr parse addr opts) =
          (case or_member addr [''hostname'', ''host''] of Some h \<Rightarrow> h | None \<Rightarrow> [])"
        using None by (simp add: parseAddr_def Some JObj Let_def case_prod_unfold)
      ultimately show ?thesis unfolding glue by (simp add: Some JObj glue_addr_def)
    qed (use assms(2) glue Some in \<open>simp_all add: glue_addr_def\<close>)
  qed
qed


section \<open>Witnesses and differences\<close>

text \<open>A network where every connection is taken and the peer sends what it is given.\<close>

definition peer :: "(string, bytes) result list \<Rightarrow> sock_net" where
  "peer rs = \<lparr>sn_connect = (\<lambda>_ _ _ _. Inr \<lparr>wi_in = rs, wi_out = [], wi_fail = None\<rparr>),
     sn_startTls = (\<lambda>w. Inr w), sn_parse = (\<lambda>_ _. None), sn_released = ''released''\<rparr>"

definition no_net :: network where
  "no_net = \<lparr>nw_fetch = (\<lambda>_ _ _. Inl ''offline''), nw_parse = (\<lambda>_ _. None)\<rparr>"

definition plain_env :: host_env where
  "plain_env = \<lparr>he_net = no_net, he_encode = (\<lambda>_. []), he_decode = (\<lambda>_. []), he_digest = (\<lambda>b. b), he_maxBody = 0\<rparr>"

definition only_host :: "string \<Rightarrow> host_state" where
  "only_host h = \<lparr>hs_allow = AllowHosts [h], hs_fenceDoId = None, hs_fenceCell = None, hs_curFetchSeq = None, hs_streams = []\<rparr>"

definition smtp :: "json option" where
  "smtp = Some (JStr ''mail.example.com:25'')"

definition smtp_open :: "host_result \<times> sock_host" where
  "smtp_open = glue_socketOpen plain_env (only_host ''mail.example.com'') (peer [Inr [1, 2], Inr [3]]) smtp None makeSocketHost"

definition opened_state :: "string \<Rightarrow> (string, bytes) result list \<Rightarrow> sock_state" where
  "opened_state h rs = \<lparr>sk_wire = \<lparr>wi_in = rs, wi_out = [], wi_fail = None\<rparr>, sk_reader = NoLock, sk_writer = NoLock, sk_closed = False,
     sk_hostname = h, sk_port = JNum 25, sk_secure = None, sk_half = None, sk_pending = None\<rparr>"

lemma smtp_opens: "sh_map (snd smtp_open) = [(1, opened_state ''mail.example.com'' [Inr [1, 2], Inr [3]])]"
  by code_simp


lemma socket_delivers_witness:
  "\<exists>n chunks S'. drain_socket (peer []) n (JNum 1) (snd smtp_open) = (chunks, Some (JObj [(''done'', JBool True)]), S') \<and>
    concat chunks = [1, 2, 3] \<and> list_all (\<lambda>c. length c \<le> SOCKET_READ_CHUNK_BYTES) chunks \<and> 1 \<notin> live S'"
proof -
  let ?st = "opened_state ''mail.example.com'' [Inr [1, 2], Inr [3]]"
  have "readable (snd smtp_open) (JNum 1) 1 ?st" by (simp add: readable_def getState_def smtp_opens opened_state_def)
  moreover have "wi_in (sk_wire ?st) = map Inr [[1, 2], [3]]" by (simp add: opened_state_def)
  ultimately show ?thesis using socket_delivers[of "snd smtp_open" "JNum 1" 1 ?st "[[1, 2], [3]]" "peer []"]
    by (simp add: pending_bytes_def opened_state_def)
qed

text \<open>An object with two names passes the allowlist with the one and is connected to the other: the glue reads
  \<open>host\<close> first, the provider \<open>hostname\<close>.\<close>

lemma two_names_bypass_allowlist:
  "map (sk_hostname \<circ> snd) (sh_map (snd (glue_socketOpen plain_env (only_host ''mail.example.com'') (peer [])
     (Some (JObj [(''host'', JStr ''mail.example.com''), (''hostname'', JStr ''evil.example.net''), (''port'', JNum 25)])) None makeSocketHost))) =
   [''evil.example.net'']"
  by code_simp

text \<open>The provider's guard knows only dotted decimal addresses, unlike the guard it says it mirrors: behind an
  allowed \<open>host\<close> it lets the loopback address through in other spellings.\<close>

lemma provider_guard_is_weaker:
  "ssrfReason ''0177.0.0.1'' = None \<and> ssrfReason ''::ffff:7f00:1'' = None \<and> isBlockedSsrfHost ''0177.0.0.1''"
proof (intro conjI)
  show "ssrfReason ''0177.0.0.1'' = None" "ssrfReason ''::ffff:7f00:1'' = None" by code_simp+
  have "nat_str 0 = ''0''" "nat_str 1 = ''1''" "nat_digits 8 127 = ''177''"
    by (simp_all add: nat_str_def nat_digits.simps digit_char_def char_of_eq_iff)
  then have "v4_literal [127, 0, 0, 1] [''0177'', ''0'', ''0'', ''1'']" by (simp add: v4_literal_def num_texts_def)
  from normalizeV4_literal[OF this] have "normalizeV4 ''0177.0.0.1'' = Some (127, 0, 0, 1)"
    by (simp add: v4_pack_def v4_octets_def)
  moreover have "set ''0177.0.0.1'' \<subseteq> set v4_chars" "last ''0177.0.0.1'' \<in> set hex_chars" by code_simp+
  ultimately show "isBlockedSsrfHost ''0177.0.0.1''" using guard_on_literal[of "''0177.0.0.1''"] by (simp add: isPrivateV4_def)
qed

text \<open>A socket opened half-open is destroyed, its writer with it, when the peer has sent everything.\<close>

lemma half_open_is_closed:
  assumes "readable S h i st" "wi_in (sk_wire st) = []" "pending_bytes st = []" "distinct (map fst (sh_map S))"
  shows "fst (sock_write N h d (snd (sock_read N h S))) = write_failed (not_found h) ''ECONNRESET''"
proof -
  have "getState (destroy i S) h = None"
    using assms(1) by (auto simp: readable_def getState_def destroy_def delete_conv' split: json.splits if_splits)
  then show ?thesis using read_last[OF assms(1-3), of N] by (simp add: sock_write_def)
qed

text \<open>An upgrade that fails leaves a handle whose next read destroys it, and one that succeeds forgets the
  bytes that were read but not yet delivered.\<close>

lemma failed_upgrade_kills_socket:
  assumes "readable S h i st" "sk_secure st = Some (JStr ''starttls'')" "sk_reader st = Held" "pending_bytes st = []"
    and "sn_startTls N (sk_wire st) = Inl e"
  shows "sock_read N h (snd (sock_startTls N h S)) =
    (read_failed (''SocketReadError: '' @ sn_released N), destroy i (snd (sock_startTls N h S)))"
proof -
  let ?st = "st\<lparr>sk_reader := Released, sk_writer := release_lock (sk_writer st)\<rparr>"
  have t: "snd (sock_startTls N h S) = put_state i ?st S"
    using assms by (simp add: sock_startTls_def readable_def Let_def release_lock_def)
  have "getState (put_state i ?st S) h = Some (i, ?st)"
    using assms(1) by (auto simp: readable_def getState_def put_state_def update_conv' split: json.splits if_splits)
  moreover have "(case sk_pending st of Some p \<Rightarrow> if p = [] then None else Some p | None \<Rightarrow> None) = (None :: bytes option)"
    using assms(4) by (simp add: pending_bytes_def split: option.splits)
  ultimately show ?thesis using assms(1) unfolding t by (simp add: sock_read_def readable_def Let_def take_lock_def)
qed

lemma upgrade_forgets_pending:
  assumes "sock_startTls N h S = (Inr v, S')" "getState S' (JNum (int (sh_next S))) = Some (i, st)"
  shows "pending_bytes st = []"
  using assms
  by (auto simp: sock_startTls_def register_def put_state_def getState_def update_conv' pending_bytes_def Let_def
      split: option.splits if_splits sum.splits prod.splits)

end
