(* ===== verification/NetShimProps.thy ===== *)
theory NetShimProps
  imports NetShim HostSocketsProps
begin

text \<open>
  What the \<open>net\<close> and \<open>tls\<close> modules keep over every run of programs, tasks and answers: what is written goes to
  the host once and in order, what the host reads comes out once and in order, and a closed socket has given
  back its handles.  Then the way of a peer's bytes through the provider, the glue and the module to the
  program; and at the end the behaviours that differ from the comments.
\<close>

named_theorems net_view

section \<open>Views of one socket\<close>

definition call_sock :: "net_call \<Rightarrow> nat" where
  "call_sock c = (case c of COpen s _ _ _ \<Rightarrow> s | CWrite s _ _ _ \<Rightarrow> s | CRead s _ \<Rightarrow> s | CClose s _ \<Rightarrow> s | CForget s _ \<Rightarrow> s | CTls s _ \<Rightarrow> s)"

definition task_sock :: "net_task \<Rightarrow> nat" where
  "task_sock t = (case t of TFail s _ \<Rightarrow> s | TTurn s _ \<Rightarrow> s | TQuiet s \<Rightarrow> s | TClosed s _ \<Rightarrow> s | TFlow s \<Rightarrow> s | TError s _ \<Rightarrow> s | TReject s _ \<Rightarrow> s)"

definition write_of :: "nat \<Rightarrow> net_call \<Rightarrow> bytes list" where
  "write_of s c = (case c of CWrite t i u cb \<Rightarrow> if t = s then [u] else [] | _ \<Rightarrow> [])"

definition sent :: "nat \<Rightarrow> net_vm \<Rightarrow> bytes list" where
  "sent s V = concat (map (write_of s) (nv_issued V))"

definition data_in :: "nat \<Rightarrow> nat \<times> net_event \<Rightarrow> bytes" where
  "data_in s x = (case x of (t, e) \<Rightarrow> (case e of EvData b \<Rightarrow> if t = s then b else [] | _ \<Rightarrow> []))"

definition emitted :: "nat \<Rightarrow> net_vm \<Rightarrow> bytes" where
  "emitted s V = concat (map (data_in s) (nv_log V))"

definition upgraded :: "nat \<Rightarrow> net_vm \<Rightarrow> bool" where
  "upgraded s V = (\<exists>i. CTls s i \<in> set (nv_issued V))"

definition released :: "nat \<Rightarrow> net_vm \<Rightarrow> json \<Rightarrow> bool" where
  "released s V h = (CClose s h \<in> set (nv_issued V) \<or> CForget s h \<in> set (nv_issued V))"

definition opens_call :: "nat \<Rightarrow> net_call \<Rightarrow> bool" where
  "opens_call s c = (case c of COpen t _ _ _ \<Rightarrow> t = s | _ \<Rightarrow> False)"

definition opens_due :: "nat \<Rightarrow> net_vm \<Rightarrow> nat" where
  "opens_due s V = length (filter (opens_call s) (nv_calls V))"

definition flow_due :: "nat \<Rightarrow> net_vm \<Rightarrow> bool" where
  "flow_due s V = (TFlow s \<in> set (nv_tasks V))"

definition fail_due :: "nat \<Rightarrow> net_vm \<Rightarrow> bool" where
  "fail_due s V = (\<exists>e. TFail s e \<in> set (nv_tasks V))"

lemmas view_defs = sent_def emitted_def upgraded_def released_def opens_due_def flow_due_def fail_due_def

lemma socks_upd [net_view]: "nv_socks (upd s f V) t = (if t = s then f (nv_socks V s) else nv_socks V t)"
  by (simp add: upd_def)

lemma socks_frame [net_view]:
  "nv_socks (hostCall c V) = nv_socks V" "nv_socks (later k V) = nv_socks V" "nv_socks (logged s e V) = nv_socks V"
  "nv_socks (V\<lparr>nv_open := n\<rparr>) = nv_socks V"
  by (simp_all add: hostCall_def later_def logged_def)

lemma count_frame [net_view]:
  "nv_count (upd s f V) = nv_count V" "nv_count (hostCall c V) = nv_count V" "nv_count (later k V) = nv_count V"
  "nv_count (logged s e V) = nv_count V" "nv_count (V\<lparr>nv_open := n\<rparr>) = nv_count V"
  by (simp_all add: upd_def hostCall_def later_def logged_def)

lemma view_upd [net_view]:
  "sent t (upd s f V) = sent t V" "emitted t (upd s f V) = emitted t V" "upgraded t (upd s f V) = upgraded t V"
  "released t (upd s f V) = released t V" "opens_due t (upd s f V) = opens_due t V" "flow_due t (upd s f V) = flow_due t V"
  "fail_due t (upd s f V) = fail_due t V"
  by (auto simp: view_defs upd_def fun_eq_iff)

lemma view_open [net_view]:
  "sent t (V\<lparr>nv_open := n\<rparr>) = sent t V" "emitted t (V\<lparr>nv_open := n\<rparr>) = emitted t V" "upgraded t (V\<lparr>nv_open := n\<rparr>) = upgraded t V"
  "released t (V\<lparr>nv_open := n\<rparr>) = released t V" "opens_due t (V\<lparr>nv_open := n\<rparr>) = opens_due t V"
  "flow_due t (V\<lparr>nv_open := n\<rparr>) = flow_due t V" "fail_due t (V\<lparr>nv_open := n\<rparr>) = fail_due t V"
  by (auto simp: view_defs fun_eq_iff)

lemma view_call [net_view]:
  "sent t (hostCall c V) = sent t V @ write_of t c" "emitted t (hostCall c V) = emitted t V"
  "upgraded t (hostCall c V) \<longleftrightarrow> upgraded t V \<or> (\<exists>i. c = CTls t i)"
  "released t (hostCall c V) h \<longleftrightarrow> released t V h \<or> c = CClose t h \<or> c = CForget t h"
  "opens_due t (hostCall c V) = opens_due t V + (if opens_call t c then 1 else 0)"
  "flow_due t (hostCall c V) = flow_due t V" "fail_due t (hostCall c V) = fail_due t V"
  by (auto simp: view_defs hostCall_def)

lemma view_later [net_view]:
  "sent t (later k V) = sent t V" "emitted t (later k V) = emitted t V" "upgraded t (later k V) = upgraded t V"
  "released t (later k V) = released t V" "opens_due t (later k V) = opens_due t V"
  "flow_due t (later k V) \<longleftrightarrow> flow_due t V \<or> k = TFlow t" "fail_due t (later k V) \<longleftrightarrow> fail_due t V \<or> (\<exists>e. k = TFail t e)"
  by (auto simp: view_defs later_def fun_eq_iff)

lemma view_logged [net_view]:
  "sent t (logged s e V) = sent t V" "emitted t (logged s e V) = emitted t V @ data_in t (s, e)" "upgraded t (logged s e V) = upgraded t V"
  "released t (logged s e V) = released t V" "opens_due t (logged s e V) = opens_due t V" "flow_due t (logged s e V) = flow_due t V"
  "fail_due t (logged s e V) = fail_due t V"
  by (auto simp: view_defs logged_def fun_eq_iff)

section \<open>The invariant\<close>

definition w_ok :: "nat \<Rightarrow> net_vm \<Rightarrow> bool" where
  "w_ok s V \<longleftrightarrow>
     (let x = nv_socks V s in
      sent s V @ map fst (ns_writeQ x) @ map fst (ns_preQ x) = ns_written x \<and>
      (ns_handle x \<noteq> None \<longrightarrow> ns_preQ x = []) \<and>
      (upgraded s V \<longrightarrow> ns_preQ x = [] \<and> (ns_handle x \<noteq> None \<or> ns_destroyed x)))"

definition r_ok :: "nat \<Rightarrow> net_vm \<Rightarrow> bool" where
  "r_ok s V \<longleftrightarrow>
     (let x = nv_socks V s in
      emitted s V @ concat (ns_buffer x) = concat (ns_got x) \<and> (0 < ns_listeners x \<longrightarrow> ns_flowing x \<noteq> None))"

definition f_ok :: "nat \<Rightarrow> net_vm \<Rightarrow> bool" where
  "f_ok s V \<longleftrightarrow> (let x = nv_socks V s in ns_flowing x = Some True \<longrightarrow> ns_buffer x \<noteq> [] \<longrightarrow> flow_due s V)"

definition o_ok :: "nat \<Rightarrow> net_vm \<Rightarrow> bool" where
  "o_ok s V \<longleftrightarrow>
     (let x = nv_socks V s in
      (fail_due s V \<longrightarrow> ns_handle x = None \<or> upgraded s V) \<and>
      (0 < opens_due s V \<longrightarrow> (ns_handle x = None \<or> upgraded s V) \<and> (ns_connecting x \<or> ns_destroyed x)) \<and>
      (\<not> ns_destroyed x \<longrightarrow> opens_due s V \<le> 1) \<and>
      (ns_closed x \<longrightarrow> ns_handle x = None \<longrightarrow> ns_destroyed x))"

definition h_ok :: "nat \<Rightarrow> net_vm \<Rightarrow> bool" where
  "h_ok s V \<longleftrightarrow>
     (let x = nv_socks V s in
      upgraded s V \<or> (\<forall>h \<in> set (ns_handles x). ns_handle x = Some h \<and> \<not> ns_closed x \<or> released s V h))"

definition sock_ok :: "nat \<Rightarrow> net_vm \<Rightarrow> bool" where
  "sock_ok s V \<longleftrightarrow> w_ok s V \<and> r_ok s V \<and> o_ok s V \<and> h_ok s V"

lemmas ok_defs = w_ok_def r_ok_def o_ok_def h_ok_def f_ok_def

definition subjects :: "net_vm \<Rightarrow> nat set" where
  "subjects V = call_sock ` set (nv_issued V) \<union> task_sock ` set (nv_tasks V) \<union> fst ` set (nv_log V)"

text \<open>While a socket flows its buffer need not be due.\<close>

definition net_inv :: "nat set \<Rightarrow> net_vm \<Rightarrow> bool" where
  "net_inv E V \<longleftrightarrow> subjects V \<subseteq> {..<nv_count V} \<and> set (nv_calls V) \<subseteq> set (nv_issued V) \<and>
     (\<forall>s. sock_ok s V \<and> (s \<notin> E \<longrightarrow> f_ok s V))"

lemma subjects_frame [net_view]:
  "subjects (upd s f V) = subjects V" "subjects (V\<lparr>nv_open := n\<rparr>) = subjects V"
  "subjects (hostCall c V) = insert (call_sock c) (subjects V)" "subjects (later k V) = insert (task_sock k) (subjects V)"
  "subjects (logged s e V) = insert s (subjects V)"
  by (auto simp: subjects_def upd_def hostCall_def later_def logged_def)

text \<open>Calls are issued and not invented, and only a socket that exists is worked on.\<close>

definition framed :: "nat \<Rightarrow> net_vm \<Rightarrow> net_vm \<Rightarrow> bool" where
  "framed s V V' \<longleftrightarrow> subjects V' \<subseteq> insert s (subjects V) \<and> nv_count V' = nv_count V \<and>
     (set (nv_calls V) \<subseteq> set (nv_issued V) \<longrightarrow> set (nv_calls V') \<subseteq> set (nv_issued V')) \<and>
     (\<forall>t. (sock_ok t V \<longrightarrow> sock_ok t V') \<and> (f_ok t V \<longrightarrow> f_ok t V'))"

lemma framed_inv: "framed s V V' \<Longrightarrow> net_inv E V \<Longrightarrow> s < nv_count V \<Longrightarrow> net_inv E V'"
  by (auto simp: framed_def net_inv_def)

lemma queue_frame [net_view]:
  "nv_calls (upd s f V) = nv_calls V" "nv_issued (upd s f V) = nv_issued V"
  "nv_calls (V\<lparr>nv_open := n\<rparr>) = nv_calls V" "nv_issued (V\<lparr>nv_open := n\<rparr>) = nv_issued V"
  "nv_calls (hostCall c V) = nv_calls V @ [c]" "nv_issued (hostCall c V) = nv_issued V @ [c]"
  "nv_calls (later k V) = nv_calls V" "nv_issued (later k V) = nv_issued V"
  "nv_calls (logged s e V) = nv_calls V" "nv_issued (logged s e V) = nv_issued V"
  by (simp_all add: upd_def hostCall_def later_def logged_def)

lemma framedI:
  assumes "subjects V' \<subseteq> insert s (subjects V)" "nv_count V' = nv_count V"
    and "set (nv_calls V) \<subseteq> set (nv_issued V) \<Longrightarrow> set (nv_calls V') \<subseteq> set (nv_issued V')"
    and "\<And>t. w_ok t V \<Longrightarrow> w_ok t V'" "\<And>t. r_ok t V \<Longrightarrow> r_ok t V'" "\<And>t. o_ok t V \<Longrightarrow> o_ok t V'" "\<And>t. h_ok t V \<Longrightarrow> h_ok t V'" "\<And>t. f_ok t V \<Longrightarrow> f_ok t V'"
  shows "framed s V V'"
  using assms by (simp add: framed_def sock_ok_def)

lemmas effect_defs = call_sock_def task_sock_def write_of_def opens_call_def data_in_def

lemma uncount_view [net_view]:
  "sock_ok t (uncount s V) = sock_ok t V" "f_ok t (uncount s V) = f_ok t V" "subjects (uncount s V) = subjects V" "nv_count (uncount s V) = nv_count V"
  "nv_calls (uncount s V) = nv_calls V" "nv_issued (uncount s V) = nv_issued V"
  by (auto simp: uncount_def sock_ok_def ok_defs Let_def net_view)

lemma uncount_fields [net_view]:
  "ns_handle (nv_socks (uncount s V) t) = ns_handle (nv_socks V t)" "ns_destroyed (nv_socks (uncount s V) t) = ns_destroyed (nv_socks V t)"
  "ns_closed (nv_socks (uncount s V) t) = ns_closed (nv_socks V t)" "ns_connecting (nv_socks (uncount s V) t) = ns_connecting (nv_socks V t)"
  "ns_writeQ (nv_socks (uncount s V) t) = ns_writeQ (nv_socks V t)" "ns_preQ (nv_socks (uncount s V) t) = ns_preQ (nv_socks V t)"
  "ns_written (nv_socks (uncount s V) t) = ns_written (nv_socks V t)" "ns_buffer (nv_socks (uncount s V) t) = ns_buffer (nv_socks V t)"
  "ns_got (nv_socks (uncount s V) t) = ns_got (nv_socks V t)" "ns_flowing (nv_socks (uncount s V) t) = ns_flowing (nv_socks V t)"
  "ns_listeners (nv_socks (uncount s V) t) = ns_listeners (nv_socks V t)" "ns_handles (nv_socks (uncount s V) t) = ns_handles (nv_socks V t)"
  by (auto simp: uncount_def net_view)

lemma uncount_views [net_view]:
  "sent t (uncount s V) = sent t V" "emitted t (uncount s V) = emitted t V" "upgraded t (uncount s V) = upgraded t V"
  "released t (uncount s V) = released t V" "opens_due t (uncount s V) = opens_due t V" "flow_due t (uncount s V) = flow_due t V"
  "fail_due t (uncount s V) = fail_due t V"
  by (auto simp: uncount_def net_view)

lemma close_framed: "framed s V (doClose s V)"
  by (rule framedI) (auto simp: doClose_def Let_def net_view effect_defs ok_defs split: option.splits)

lemma loop_framed: "framed s V (startLoop s V)"
  by (rule framedI) (auto simp: startLoop_def Let_def net_view effect_defs ok_defs split: option.splits)

lemma destroy_framed: "framed s V (sock_destroy s e V)"
  by (rule framedI) (auto simp: sock_destroy_def Let_def net_view effect_defs ok_defs split: option.splits)

lemma framed_refl [intro]: "framed s V V"
  by (auto simp: framed_def)

lemma framed_trans: "framed s U V \<Longrightarrow> framed s V W \<Longrightarrow> framed s U W"
  unfolding framed_def by (elim conjE, intro conjI) (blast, simp, blast, blast)

text \<open>An update that leaves alone what the invariant speaks of.\<close>

definition core :: "net_sock \<Rightarrow> (json option \<times> bool \<times> bool \<times> bool) \<times> ((bytes \<times> bool) list \<times> (bytes \<times> bool) list \<times> bytes list) \<times>
    (bytes list \<times> bytes list \<times> bool option \<times> nat) \<times> json list" where
  "core x = ((ns_handle x, ns_closed x, ns_destroyed x, ns_connecting x), (ns_writeQ x, ns_preQ x, ns_written x),
     (ns_buffer x, ns_got x, ns_flowing x, ns_listeners x), ns_handles x)"

lemma core_ok:
  assumes "core (nv_socks V' t) = core (nv_socks V t)" "sent t V' = sent t V" "emitted t V' = emitted t V" "upgraded t V' = upgraded t V"
    "released t V' = released t V" "opens_due t V' = opens_due t V" "flow_due t V' = flow_due t V" "fail_due t V' = fail_due t V"
  shows "w_ok t V' = w_ok t V" "r_ok t V' = r_ok t V" "o_ok t V' = o_ok t V" "h_ok t V' = h_ok t V" "f_ok t V' = f_ok t V"
  using assms by (simp_all add: core_def ok_defs Let_def)

lemma upd_framed:
  assumes "core (f (nv_socks V s)) = core (nv_socks V s)"
  shows "framed s V (upd s f V)"
proof -
  have c: "core (nv_socks (upd s f V) t) = core (nv_socks V t)" for t using assms by (simp add: net_view)
  note ok = core_ok[OF c view_upd(1-3) _ view_upd(5-7)]
  have r: "released t (upd s f V) = released t V" for t by (simp add: fun_eq_iff net_view)
  show ?thesis by (rule framedI) (simp_all only: ok[OF r] subjects_frame queue_frame count_frame subset_insertI)
qed

lemma later_framed: "\<forall>e. k \<noteq> TFail s e \<Longrightarrow> task_sock k = s \<Longrightarrow> framed s V (later k V)"
  by (rule framedI) (cases k; auto simp: net_view ok_defs Let_def effect_defs)+

lemma put_framed:
  assumes "\<not> ns_destroyed (nv_socks V s)"
  shows "framed s V (sock_put s u cb V)"
  by (rule framedI) (use assms in \<open>auto simp: sock_put_def net_view ok_defs Let_def\<close>)

lemma write_framed: "framed s V (snd (sock_write_vm s u cb V))"
proof -
  have "framed s V (logged s (EvWritten e) V)" for e
    by (rule framedI) (auto simp: net_view ok_defs Let_def effect_defs)
  then show ?thesis
    using put_framed[of V s u cb] framed_trans[OF put_framed loop_framed, of V s u cb]
    by (auto simp: sock_write_vm_def Let_def)
qed

lemma end_framed: "framed s V (sock_end s d V)"
proof -
  have u: "framed s W (upd s (\<lambda>x. x\<lparr>ns_endAfterFlush := True\<rparr>) W)" "framed s W (upd s (\<lambda>x. x\<lparr>ns_wantClose := True\<rparr>) W)" for W
    by (rule upd_framed, simp add: core_def)+
  have p: "framed s V (upd s f (sock_put s e False V))"
    if "\<not> ns_destroyed (nv_socks V s)" "\<And>W. framed s W (upd s f W)" for e f
    using framed_trans[OF put_framed[OF that(1)] that(2)] .
  show ?thesis
    using u close_framed[of s V] p[OF _ u(1)] framed_trans[OF p[OF _ u(2)] loop_framed]
    by (auto simp: sock_end_def Let_def split: option.splits)
qed

lemma fail_task_framed:
  assumes "ns_handle (nv_socks V s) = None"
  shows "framed s V (later (TFail s e) V)"
  by (rule framedI) (use assms in \<open>auto simp: net_view ok_defs Let_def effect_defs\<close>)

lemma open_framed:
  assumes "ns_handle (nv_socks V s) = None" "\<not> ns_connecting (nv_socks V s)"
  shows "framed s V (hostCall (COpen s h p opts)
    ((upd s (\<lambda>x. x\<lparr>ns_connecting := True, ns_pending := True, ns_counted := True\<rparr>) V)\<lparr>nv_open := n\<rparr>))"
  by (rule framedI) (use assms in \<open>auto simp: net_view ok_defs Let_def effect_defs\<close>)

lemma connect_framed: "framed s V (snd (sock_connect s opts V))"
proof -
  let ?half = "\<lambda>b. upd s (\<lambda>x. x\<lparr>ns_half := b\<rparr>) V"
  have h: "framed s V (?half b)" for b by (rule upd_framed) (simp add: core_def)
  have f: "ns_handle (nv_socks V s) = None \<Longrightarrow> framed s V (later (TFail s e) (?half b))" for e b
    by (rule framed_trans[OF h fail_task_framed]) (simp add: net_view)
  have o: "ns_handle (nv_socks V s) = None \<Longrightarrow> \<not> ns_connecting (nv_socks V s) \<Longrightarrow> framed s V (hostCall (COpen s hs p opts)
     ((upd s (\<lambda>x. x\<lparr>ns_connecting := True, ns_pending := True, ns_counted := True\<rparr>) (?half b))\<lparr>nv_open := n\<rparr>))" for hs p opts b n
    by (rule framed_trans[OF h open_framed]) (simp_all add: net_view)
  show ?thesis
    using f o fail_task_framed[of V s] open_framed[of V s]
    by (auto simp: sock_connect_def Let_def split: option.splits)
qed

lemma flow_ops_framed: "framed s V (sock_onData s V)" "framed s V (sock_resume s V)" "framed s V (sock_pause s V)"
  by (rule framedI; auto simp: sock_onData_def sock_resume_def sock_pause_def net_view ok_defs Let_def effect_defs)+

lemma upgrade_call_framed: "framed s V (doUpgrade s V)"
  by (rule framedI) (auto simp: doUpgrade_def Let_def net_view ok_defs effect_defs split: option.splits)

lemma tls_framed: "framed s V (tls_upgrade s opts V)"
proof -
  have m: "framed s W (upd s (\<lambda>x. (markSecure opts x)\<lparr>ns_encrypted := False\<rparr>) W)"
    "framed s W (upd s (\<lambda>x. x\<lparr>ns_marks := ns_marks x @ [opts]\<rparr>) W)" "framed s W (upd s (\<lambda>x. x\<lparr>ns_upgrades := Suc (ns_upgrades x)\<rparr>) W)" for W
    by (rule upd_framed, simp add: core_def markSecure_def)+
  have "framed s W (later (TError s e) W)" for W e by (rule later_framed) (simp_all add: task_sock_def)
  then show ?thesis
    unfolding tls_upgrade_def Let_def
    by (intro framed_trans[OF _ m(2)]) (auto intro: framed_trans[OF m(1)] upgrade_call_framed m(3))
qed

section \<open>Operations and events\<close>

lemma sock_ok_unseen:
  assumes "net_inv E V" "s \<notin> subjects V"
  shows "sent s V = []" "emitted s V = []" "\<not> upgraded s V" "opens_due s V = 0" "\<not> flow_due s V" "\<not> fail_due s V"
proof -
  have i: "call_sock c \<noteq> s" if "c \<in> set (nv_issued V)" for c using assms(2) that by (auto simp: subjects_def)
  have k: "task_sock k \<noteq> s" if "k \<in> set (nv_tasks V)" for k using assms(2) that by (auto simp: subjects_def)
  have l: "fst x \<noteq> s" if "x \<in> set (nv_log V)" for x using assms(2) that by (auto simp: subjects_def)
  have "write_of s c = []" if "call_sock c \<noteq> s" for c using that by (auto simp: write_of_def call_sock_def split: net_call.splits)
  then show "sent s V = []" using i by (simp add: sent_def)
  have "data_in s x = []" if "fst x \<noteq> s" for x using that by (auto simp: data_in_def split: net_event.splits prod.splits)
  then show "emitted s V = []" using l by (simp add: emitted_def)
  show "\<not> upgraded s V" using i by (fastforce simp: upgraded_def call_sock_def)
  have "\<not> opens_call s c" if "call_sock c \<noteq> s" for c using that by (auto simp: opens_call_def call_sock_def split: net_call.splits)
  then show "opens_due s V = 0" using i assms(1) by (auto simp: opens_due_def net_inv_def filter_empty_conv)
  show "\<not> flow_due s V" "\<not> fail_due s V" using k by (fastforce simp: flow_due_def fail_due_def task_sock_def)+
qed

definition fresh :: "net_sock \<Rightarrow> bool" where
  "fresh x \<longleftrightarrow> core x = core (Socket (JObj []))"

lemma fresh_sockets: "fresh (Socket opts)" "fresh (TLSSocket opts)"
  by (simp_all add: fresh_def core_def Socket_def TLSSocket_def markSecure_def)

lemma new_socket_inv:
  assumes i: "net_inv E V" and f: "fresh x"
  shows "net_inv E (new_socket x V)"
proof -
  let ?s = "nv_count V" let ?V = "new_socket x V"
  have s: "?s \<notin> subjects V" using i by (auto simp: net_inv_def)
  have v: "sent t ?V = sent t V" "emitted t ?V = emitted t V" "upgraded t ?V = upgraded t V" "released t ?V = released t V"
    "opens_due t ?V = opens_due t V" "flow_due t ?V = flow_due t V" "fail_due t ?V = fail_due t V" for t
    by (auto simp: view_defs new_socket_def upd_def fun_eq_iff)
  have nx: "nv_socks ?V ?s = x" by (simp add: new_socket_def upd_def)
  have "sock_ok ?s ?V \<and> f_ok ?s ?V"
    using sock_ok_unseen[OF i s] f
    by (simp add: sock_ok_def ok_defs Let_def v nx fresh_def core_def Socket_def)
  moreover have "sock_ok t ?V \<and> (t \<notin> E \<longrightarrow> f_ok t ?V)" if "t \<noteq> ?s" for t
  proof -
    have "core (nv_socks ?V t) = core (nv_socks V t)" using that by (simp add: new_socket_def upd_def)
    then show ?thesis using i core_ok[OF _ v] by (simp add: sock_ok_def net_inv_def)
  qed
  moreover have "subjects ?V = subjects V" by (auto simp: subjects_def new_socket_def upd_def)
  moreover have "nv_count ?V = Suc ?s" "nv_calls ?V = nv_calls V" "nv_issued ?V = nv_issued V"
    by (simp_all add: new_socket_def upd_def)
  moreover have "subjects V \<subseteq> {..<Suc ?s}" "set (nv_calls V) \<subseteq> set (nv_issued V)"
    using i by (auto simp: net_inv_def less_Suc_eq)
  ultimately show ?thesis unfolding net_inv_def by (intro conjI allI) metis+
qed

lemma op_inv: "net_inv E V \<Longrightarrow> net_inv E (snd (do_op c V))"
proof (induction c V rule: do_op.induct)
  case (3 o1 V)
  then show ?case
    using framed_inv[OF connect_framed new_socket_inv[OF _ fresh_sockets(1)]] by (simp add: createConnection_def new_socket_def upd_def)
next
  case (4 o1 V)
  then show ?case
    using framed_inv[OF connect_framed new_socket_inv[OF _ fresh_sockets(2)]] by (simp add: tls_connect_def new_socket_def upd_def)
next
  case (14 s ms V)
  have "framed s V (upd s (\<lambda>x. x\<lparr>ns_timeout := ms\<rparr>) V)" by (rule upd_framed) (simp add: core_def)
  with 14 show ?case by (auto simp: on_socket_def intro: framed_inv)
qed (auto simp: on_socket_def resetAndDestroy_def intro: new_socket_inv fresh_sockets
      framed_inv[OF connect_framed] framed_inv[OF write_framed] framed_inv[OF end_framed] framed_inv[OF destroy_framed]
      framed_inv[OF tls_framed] framed_inv[OF flow_ops_framed(1)] framed_inv[OF flow_ops_framed(2)] framed_inv[OF flow_ops_framed(3)])

lemma ops_inv: "net_inv E V \<Longrightarrow> net_inv E (do_ops cs V)"
  unfolding do_ops_def by (induction cs arbitrary: V) (simp_all add: op_inv)

lemma op_count: "nv_count V \<le> nv_count (snd (do_op c V))"
  by (induction c V rule: do_op.induct)
    (auto simp: on_socket_def createConnection_def tls_connect_def new_socket_def upd_def resetAndDestroy_def
      connect_framed[unfolded framed_def] write_framed[unfolded framed_def] end_framed[unfolded framed_def]
      destroy_framed[unfolded framed_def] tls_framed[unfolded framed_def] flow_ops_framed[unfolded framed_def])

lemma ops_count: "nv_count V \<le> nv_count (do_ops cs V)"
  unfolding do_ops_def by (induction cs arbitrary: V) (auto intro: order_trans[OF op_count])

lemma op_buffer: "s < nv_count V \<Longrightarrow> ns_buffer (nv_socks (snd (do_op c V)) s) = ns_buffer (nv_socks V s)"
  by (induction c V rule: do_op.induct)
    (auto simp: on_socket_def createConnection_def tls_connect_def new_socket_def resetAndDestroy_def sock_connect_def
      sock_write_vm_def sock_put_def sock_end_def sock_destroy_def doClose_def startLoop_def tls_upgrade_def doUpgrade_def
      sock_onData_def sock_resume_def sock_pause_def markSecure_def Let_def net_view upd_def split: option.splits)

lemma ops_buffer: "s < nv_count V \<Longrightarrow> ns_buffer (nv_socks (do_ops cs V) s) = ns_buffer (nv_socks V s)"
  unfolding do_ops_def by (induction cs arbitrary: V) (simp_all add: op_buffer order.strict_trans2[OF _ op_count])

lemma upgrades_framed: "framed s V ((doUpgrade s ^^ n) V)"
  by (induction n) (auto intro: framed_trans upgrade_call_framed)

lemma marks_core: "core (fold markSecure ms x) = core x"
  by (induction ms arbitrary: x) (simp_all add: core_def markSecure_def)

lemma own_framed: "framed s V (own_listeners s e V)"
proof -
  have "framed s V (upd s (\<lambda>x. x\<lparr>ns_upgrades := 0\<rparr>) V)" by (rule upd_framed) (simp add: core_def)
  moreover have "framed s V (upd s (\<lambda>x. (fold markSecure (ns_marks x) x)\<lparr>ns_marks := []\<rparr>) V)"
    using marks_core by (intro upd_framed) (simp add: core_def)
  ultimately show ?thesis
    by (auto simp: own_listeners_def Let_def intro: framed_trans upgrades_framed split: net_event.splits)
qed

lemma own_buffer: "ns_buffer (nv_socks (own_listeners s e V) s) = ns_buffer (nv_socks V s)"
proof -
  have "ns_buffer (nv_socks ((doUpgrade s ^^ n) W) s) = ns_buffer (nv_socks W s)" for n W
    by (induction n) (auto simp: doUpgrade_def Let_def net_view split: option.splits)
  then show ?thesis using marks_core by (auto simp: own_listeners_def net_view core_def split: net_event.splits)
qed

lemma emit_inv:
  assumes "net_inv E (logged s e V)" "s < nv_count V"
  shows "net_inv E (emit P s e V)" "nv_count V \<le> nv_count (emit P s e V)"
    "ns_buffer (nv_socks (emit P s e V) s) = ns_buffer (nv_socks V s)"
proof -
  let ?V = "own_listeners s e (logged s e V)"
  have c: "nv_count ?V = nv_count V" using own_framed[of s "logged s e V" e] by (simp add: framed_def net_view)
  show "net_inv E (emit P s e V)"
    using ops_inv[OF framed_inv[OF own_framed assms(1)]] assms(2) by (simp add: emit_def Let_def net_view)
  show "nv_count V \<le> nv_count (emit P s e V)" using ops_count[of ?V] c by (simp add: emit_def Let_def)
  show "ns_buffer (nv_socks (emit P s e V) s) = ns_buffer (nv_socks V s)"
    using ops_buffer[of s ?V] own_buffer c assms(2) by (simp add: emit_def Let_def net_view)
qed

definition plain :: "net_event \<Rightarrow> bool" where
  "plain e \<longleftrightarrow> (\<forall>b. e \<noteq> EvData b)"

lemma plain_simps [simp]:
  "plain EvConnect" "plain EvReady" "plain EvSecure" "plain EvEnd" "plain (EvError x)" "plain (EvClose c)" "plain (EvWritten w)"
  by (simp_all add: plain_def)

lemma logged_framed: "plain e \<Longrightarrow> framed s V (logged s e V)"
proof -
  assume "plain e"
  then have d: "data_in t (s, e) = []" for t by (auto simp: plain_def data_in_def split: net_event.splits)
  have c: "core (nv_socks (logged s e V) t) = core (nv_socks V t)" for t by (simp add: net_view)
  have v: "emitted t (logged s e V) = emitted t V" "released t (logged s e V) = released t V" for t
    by (simp_all add: fun_eq_iff net_view d)
  note ok = core_ok[OF c view_logged(1) v(1) view_logged(3) v(2) view_logged(5-7)]
  show ?thesis by (rule framedI) (simp_all only: ok subjects_frame queue_frame count_frame subset_refl)
qed

text \<open>A good state: the invariant holds and the socket exists.\<close>

definition net_good :: "nat set \<Rightarrow> nat \<Rightarrow> net_vm \<Rightarrow> bool" where
  "net_good E s V \<longleftrightarrow> net_inv E V \<and> s < nv_count V"

lemma good_framed: "framed s V V' \<Longrightarrow> net_good E s V \<Longrightarrow> net_good E s V'"
proof -
  assume f: "framed s V V'" and g: "net_good E s V"
  from f have "nv_count V' = nv_count V" by (simp add: framed_def)
  then show ?thesis using framed_inv[OF f] g by (simp add: net_good_def)
qed

lemma good_emit: "plain e \<Longrightarrow> net_good E s V \<Longrightarrow> net_good E s (emit P s e V)"
proof -
  assume p: "plain e" and g: "net_good E s V"
  have "net_inv E (logged s e V)" using framed_inv[OF logged_framed[OF p]] g by (simp add: net_good_def)
  then show ?thesis using emit_inv(1,2)[of E s e V P] g by (simp add: net_good_def)
qed

section \<open>The loop, the tasks and the answers\<close>

lemma turn_framed: "framed s V (turn s i V)"
proof -
  have stop: "framed s W (upd s (\<lambda>x. x\<lparr>ns_loop := False\<rparr>) W)" for W by (rule upd_framed) (simp add: core_def)
  have w: "framed s V (hostCall (CWrite s i u cb) (upd s (\<lambda>x. x\<lparr>ns_writeQ := q\<rparr>) V))"
    if "ns_writeQ (nv_socks V s) = (u, cb) # q" for u cb q
    by (rule framedI) (use that in \<open>auto simp: net_view ok_defs Let_def effect_defs\<close>)
  have "framed s V (hostCall (CRead s i) V)" by (rule framedI) (auto simp: net_view ok_defs Let_def effect_defs)
  then show ?thesis using stop framed_trans[OF stop close_framed] w by (auto simp: turn_def Let_def split: list.splits)
qed

lemma fail_good:
  assumes g: "net_good E s V" and h: "ns_handle (nv_socks V s) = None \<or> upgraded s V"
  shows "net_good E s (fail P s e V)"
proof (cases "ns_destroyed (nv_socks V s)")
  case True
  have "framed s V (upd s (\<lambda>x. x\<lparr>ns_connecting := False, ns_closed := True\<rparr>) V)"
    by (rule framedI) (use h True in \<open>auto simp: net_view ok_defs Let_def\<close>)
  then show ?thesis using g True by (simp add: fail_def good_framed)
next
  case False
  have "framed s V (upd s (\<lambda>x. x\<lparr>ns_destroyed := True\<rparr>) (upd s (\<lambda>x. x\<lparr>ns_connecting := False, ns_closed := True\<rparr>) V))"
    by (rule framedI) (use h in \<open>auto simp: net_view ok_defs Let_def\<close>)
  then show ?thesis using g False by (simp add: fail_def Let_def good_framed good_emit)
qed

lemma push_end_framed: "framed s V (push_end s V)"
  by (rule framedI) (auto simp: push_end_def net_view ok_defs Let_def effect_defs)

lemma teardown_good: "net_good E s V \<Longrightarrow> net_good E s (teardown P s e V)"
proof (cases "ns_destroyed (nv_socks V s)")
  case False
  let ?V1 = "upd s (\<lambda>x. x\<lparr>ns_handle := None\<rparr>) (uncount s (upd s (\<lambda>x. x\<lparr>ns_loop := False, ns_closed := True\<rparr>) V))"
  let ?V2 = "upd s (\<lambda>x. x\<lparr>ns_destroyed := True\<rparr>)
    (case ns_handle (nv_socks V s) of Some i \<Rightarrow> hostCall (CForget s i) ?V1 | None \<Rightarrow> ?V1)"
  have "framed s V ?V2"
    by (rule framedI) (auto simp: net_view ok_defs Let_def effect_defs split: option.splits)
  then have "net_good E s V \<Longrightarrow> net_good E s (push_end s ?V2)" by (blast intro: good_framed push_end_framed)
  then show "net_good E s V \<Longrightarrow> ?thesis" using False by (simp add: teardown_def Let_def good_emit)
qed (simp add: teardown_def)

lemma flow_loop_good:
  assumes "net_inv {s} V" "s < nv_count V" "length (ns_buffer (nv_socks V s)) \<le> n"
  shows "net_good {} s (flow_loop P s n V)"
  using assms
proof (induction n arbitrary: V)
  case 0
  then have "f_ok s V" by (simp add: f_ok_def)
  then show ?case using 0 by (auto simp: net_good_def net_inv_def)
next
  case (Suc n)
  show ?case
  proof (cases "ns_buffer (nv_socks V s) \<noteq> [] \<and> ns_flowing (nv_socks V s) = Some True")
    case True
    then obtain b r where b: "ns_buffer (nv_socks V s) = b # r" by (cases "ns_buffer (nv_socks V s)") auto
    let ?U = "upd s (\<lambda>x. x\<lparr>ns_buffer := r\<rparr>) V"
    have "\<And>t. w_ok t V \<Longrightarrow> w_ok t (logged s (EvData b) ?U)" "\<And>t. r_ok t V \<Longrightarrow> r_ok t (logged s (EvData b) ?U)"
      "\<And>t. o_ok t V \<Longrightarrow> o_ok t (logged s (EvData b) ?U)" "\<And>t. h_ok t V \<Longrightarrow> h_ok t (logged s (EvData b) ?U)"
      "\<And>t. t \<noteq> s \<Longrightarrow> f_ok t V \<Longrightarrow> f_ok t (logged s (EvData b) ?U)"
      using b by (auto simp: net_view ok_defs Let_def effect_defs)
    then have "net_inv {s} (logged s (EvData b) ?U)" using Suc.prems(1,2) by (simp add: net_inv_def sock_ok_def net_view)
    note e = emit_inv[OF this, of P]
    have "s < nv_count (emit P s (EvData b) ?U)" using e(2) Suc.prems(2) by (simp add: net_view)
    then have "net_good {} s (flow_loop P s n (emit P s (EvData b) ?U))"
      using e(1,3) Suc.prems(2,3) b by (intro Suc.IH) (simp_all add: net_view)
    then show ?thesis using b True by simp
  next
    case False
    then have "f_ok s V" by (auto simp: f_ok_def)
    then show ?thesis using False Suc.prems by (auto simp: net_good_def net_inv_def split: list.splits)
  qed
qed

lemma flow_good:
  assumes "net_inv {s} V" "s < nv_count V"
  shows "net_good {} s (flow P s V)"
proof -
  let ?V = "flow_loop P s (length (ns_buffer (nv_socks V s))) V"
  have g: "net_good {} s ?V" using assms by (rule flow_loop_good) simp
  have "framed s ?V (upd s (\<lambda>x. x\<lparr>ns_endEmitted := True\<rparr>) ?V)" by (rule upd_framed) (simp add: core_def)
  then show ?thesis using g by (simp add: flow_def Let_def good_framed good_emit)
qed

lemma deliver_good:
  assumes g: "net_good {} s V" and f: "\<not> flow_due s V"
  shows "net_good {} s (sock_deliver P s b (upd s (\<lambda>x. x\<lparr>ns_bytesRead := n x, ns_got := ns_got x @ [b]\<rparr>) V))"
proof -
  let ?U = "upd s (\<lambda>x. x\<lparr>ns_bytesRead := n x, ns_got := ns_got x @ [b]\<rparr>) V"
  have push: "framed s V (push s b ?U)"
    by (rule framedI) (auto simp: push_def Let_def net_view ok_defs effect_defs)
  have direct: "net_good {} s (emit P s (EvData b) (upd s (\<lambda>x. x\<lparr>ns_flowing := Some True\<rparr>) ?U))"
    if c: "ns_flowing (nv_socks V s) \<noteq> Some False" "0 < ns_listeners (nv_socks V s)"
  proof -
    let ?W = "upd s (\<lambda>x. x\<lparr>ns_flowing := Some True\<rparr>) ?U"
    have ok: "r_ok s V" "f_ok s V" using g by (auto simp: net_good_def net_inv_def sock_ok_def)
    then have "ns_flowing (nv_socks V s) = Some True" using c by (auto simp: r_ok_def Let_def)
    then have "ns_buffer (nv_socks V s) = []" using ok(2) f by (auto simp: f_ok_def Let_def)
    then have "framed s V (logged s (EvData b) ?W)"
      by (intro framedI) (auto simp: net_view ok_defs Let_def effect_defs)
    then have "net_inv {} (logged s (EvData b) ?W)" using g framed_inv by (auto simp: net_good_def)
    from emit_inv(1,2)[OF this, of P] show ?thesis using g by (simp add: net_good_def net_view)
  qed
  show ?thesis using direct good_framed[OF push g] by (auto simp: sock_deliver_def Let_def net_view)
qed

lemma write_answer_good: "net_good E s V \<Longrightarrow> net_good E s (on_write P s i cb r V)"
proof -
  have "framed s V (upd s (\<lambda>x. x\<lparr>ns_loop := False\<rparr>) V)" by (rule upd_framed) (simp add: core_def)
  then show "net_good E s V \<Longrightarrow> ?thesis"
    by (auto simp: on_write_def Let_def intro!: good_framed[OF turn_framed] good_emit split: option.splits intro: good_framed)
qed

lemma read_answer_good:
  assumes g: "net_good {} s V" and f: "\<not> flow_due s V"
  shows "net_good {} s (on_read P s i r V)"
proof -
  have loop: "net_good {} s (upd s (\<lambda>x. x\<lparr>ns_loop := False\<rparr>) W)" "net_good {} s (upd s (\<lambda>x. x\<lparr>ns_remoteEnded := True\<rparr>) W)" if "net_good {} s W" for W
    by (rule good_framed[OF upd_framed that], simp add: core_def)+
  have fin: "net_good {} s (let V2 = upd s (\<lambda>x. x\<lparr>ns_remoteEnded := True\<rparr>) (push_end s (upd s (\<lambda>x. x\<lparr>ns_loop := False\<rparr>) W)) in
      if ns_half (nv_socks V2 s) then V2 else doClose s V2)" if "net_good {} s W" for W
    using that by (simp add: Let_def loop good_framed[OF push_end_framed] good_framed[OF close_framed])
  show ?thesis
    using g loop(1) teardown_good
    by (simp add: on_read_def split: sum.splits option.splits) (auto intro!: fin good_framed[OF turn_framed] deliver_good[OF g f])
qed

lemma close_answer_good: "net_good E s V \<Longrightarrow> net_good E s (on_closed P s V)"
proof -
  have "framed s V (upd s (\<lambda>x. x\<lparr>ns_destroyed := True\<rparr>) V)"
    by (rule framedI) (auto simp: net_view ok_defs Let_def)
  then show "net_good E s V \<Longrightarrow> ?thesis" by (simp add: on_closed_def good_framed good_emit)
qed

lemma tls_answer_good:
  assumes g: "net_good E s V" and u: "upgraded s V"
  shows "net_good E s (on_tls P s r V)"
proof -
  have "framed s V (upd s (\<lambda>x. x\<lparr>ns_handle := Some h, ns_loop := False, ns_encrypted := True, ns_handles := ns_handles x @ [h]\<rparr>) V)" for h
    by (rule framedI) (use u in \<open>auto simp: net_view ok_defs Let_def\<close>)
  then show ?thesis
    using g by (auto simp: on_tls_def Let_def intro!: good_emit good_framed[OF loop_framed] good_framed[OF destroy_framed]
        split: sum.splits intro: good_framed)
qed

lemma open_answer_good:
  assumes g: "net_good E s V" and h: "ns_handle (nv_socks V s) = None \<or> upgraded s V"
    and o1: "\<not> ns_destroyed (nv_socks V s) \<longrightarrow> opens_due s V = 0" and f: "\<not> fail_due s V"
  shows "net_good E s (on_open P s host port r V)"
proof (cases "handle_of ''open failed'' r")
  case (Inl e)
  have "net_good E s (uncount s V)" using g by (simp add: net_good_def net_inv_def net_view)
  then show ?thesis using Inl h by (simp add: on_open_def fail_good net_view)
next
  case (Inr i)
  let ?U = "upd s (\<lambda>x. x\<lparr>ns_handles := ns_handles x @ [i]\<rparr>) V"
  show ?thesis
  proof (cases "ns_destroyed (nv_socks V s)")
    case True
    have "framed s V (hostCall (CForget s i) (uncount s ?U))"
      by (rule framedI) (auto simp: net_view ok_defs Let_def effect_defs)
    then show ?thesis using Inr True g by (simp add: on_open_def net_view good_framed)
  next
    case False
    let ?W = "\<lambda>rem enc. upd s (\<lambda>x. x\<lparr>ns_handle := Some i, ns_connecting := False, ns_pending := False, ns_remote := rem,
      ns_encrypted := enc x, ns_writeQ := ns_writeQ x @ ns_preQ x, ns_preQ := []\<rparr>) ?U"
    have c: "upgraded s V \<or> ns_handle (nv_socks V s) = None \<and> \<not> ns_closed (nv_socks V s)"
      using g h False by (auto simp: net_good_def net_inv_def sock_ok_def o_ok_def Let_def)
    have "framed s V (?W rem enc)" for rem enc
      by (rule framedI) (use False o1 f c in \<open>auto simp: net_view ok_defs Let_def\<close>)
    then have w: "net_good E s (?W rem enc)" for rem enc using g by (rule good_framed)
    have wc: "net_good E s (upd s (\<lambda>x. x\<lparr>ns_wantClose := True\<rparr>) T)" if "net_good E s T" for T
      by (rule good_framed[OF upd_framed that]) (simp add: core_def)
    show ?thesis
      using Inr False by (simp add: on_open_def net_view Let_def good_framed[OF loop_framed] good_emit w wc)
  qed
qed

section \<open>Every run\<close>

lemma core_frame:
  assumes "nv_socks V' = nv_socks V" "nv_issued V' = nv_issued V" "nv_log V' = nv_log V"
    "opens_due t V' \<le> opens_due t V" "fail_due t V' \<longrightarrow> fail_due t V"
  shows "sock_ok t V \<Longrightarrow> sock_ok t V'"
proof -
  have "sent t V' = sent t V" "emitted t V' = emitted t V" "upgraded t V' = upgraded t V" "released t V' = released t V"
    using assms(2,3) by (simp_all add: view_defs fun_eq_iff)
  then show "sock_ok t V \<Longrightarrow> sock_ok t V'" using assms by (auto simp: sock_ok_def ok_defs Let_def)
qed

lemma task_popped:
  assumes i: "net_inv {} V" and t: "nv_tasks V = t # ts"
  shows "net_inv {u. t = TFlow u} (V\<lparr>nv_tasks := ts\<rparr>)" "task_sock t < nv_count V"
proof -
  let ?V = "V\<lparr>nv_tasks := ts\<rparr>"
  have "opens_due u ?V = opens_due u V" "fail_due u ?V \<longrightarrow> fail_due u V" for u
    using t by (auto simp: opens_due_def fail_due_def)
  then have "sock_ok u V \<Longrightarrow> sock_ok u ?V" for u by (intro core_frame[of ?V V]) simp_all
  moreover have "f_ok u V \<Longrightarrow> t \<noteq> TFlow u \<Longrightarrow> f_ok u ?V" for u
    using t by (auto simp: f_ok_def Let_def flow_due_def)
  moreover have "subjects ?V \<subseteq> subjects V" using t by (auto simp: subjects_def)
  ultimately show "net_inv {u. t = TFlow u} ?V" using i by (auto simp: net_inv_def)
  show "task_sock t < nv_count V" using i t by (auto simp: net_inv_def subjects_def)
qed

lemma call_popped:
  assumes i: "net_inv {} V" and c: "nv_calls V = c # cs"
  shows "net_inv {} (V\<lparr>nv_calls := cs\<rparr>)" "call_sock c < nv_count V" "c \<in> set (nv_issued V)"
proof -
  let ?V = "V\<lparr>nv_calls := cs\<rparr>"
  have "opens_due u ?V \<le> opens_due u V" for u using c by (simp add: opens_due_def)
  then have "sock_ok u V \<Longrightarrow> sock_ok u ?V" for u by (intro core_frame[of ?V V]) (simp_all add: fail_due_def)
  moreover have "f_ok u V \<Longrightarrow> f_ok u ?V" for u by (simp add: f_ok_def flow_due_def)
  moreover have "subjects ?V = subjects V" by (simp add: subjects_def)
  ultimately show "net_inv {} ?V" using i c by (auto simp: net_inv_def)
  show "c \<in> set (nv_issued V)" using i c by (auto simp: net_inv_def)
  then show "call_sock c < nv_count V" using i by (auto simp: net_inv_def subjects_def)
qed

lemma task_inv:
  assumes i: "net_inv {} V" and t: "nv_tasks V = t # ts"
  shows "net_inv {} (run_task P t (V\<lparr>nv_tasks := ts\<rparr>))"
proof -
  let ?V = "V\<lparr>nv_tasks := ts\<rparr>"
  note p = task_popped[OF i t]
  have g: "net_good {} (task_sock t) ?V" if "\<And>u. t \<noteq> TFlow u" using p that by (auto simp: net_good_def)
  show ?thesis
  proof (cases t)
    case (TFail s e)
    have "o_ok s V" using i by (simp add: net_inv_def sock_ok_def)
    then have "ns_handle (nv_socks ?V s) = None \<or> upgraded s ?V"
      using t TFail by (auto simp: o_ok_def Let_def fail_due_def upgraded_def)
    then have "net_good {} s (fail P s e ?V)" using fail_good g TFail by (simp add: task_sock_def)
    then show ?thesis using TFail by (simp add: net_good_def)
  next
    case (TFlow s)
    have "net_inv {s} ?V" using p(1) TFlow by (simp add: singleton_conv2)
    then show ?thesis using flow_good[of s ?V P] p(2) TFlow by (simp add: net_good_def task_sock_def)
  next
    case (TTurn s i)
    then show ?thesis using good_framed[OF turn_framed g] by (auto simp: net_good_def task_sock_def)
  next
    case (TReject s e)
    then have "net_good {} s (sock_destroy s None (emit P s (EvError e) ?V))"
      using g by (intro good_framed[OF destroy_framed] good_emit) (auto simp: task_sock_def)
    then show ?thesis using TReject by (simp add: net_good_def)
  next
    case (TClosed s err)
    have "net_good {} s (emit P s (EvClose (Some (err \<noteq> None))) (case err of Some e \<Rightarrow> emit P s (EvError e) ?V | None \<Rightarrow> ?V))"
      using g TClosed by (intro good_emit) (auto simp: task_sock_def good_emit split: option.splits)
    then show ?thesis using TClosed by (simp add: net_good_def)
  next
    case (TQuiet s)
    then show ?thesis using good_emit[OF plain_simps(6), of "{}" s ?V P] g by (simp add: net_good_def task_sock_def)
  next
    case (TError s e)
    then show ?thesis using good_emit[OF plain_simps(5), of "{}" s ?V P] g by (simp add: net_good_def task_sock_def)
  qed
qed

lemma answer_inv:
  assumes i: "net_inv {} V" and c: "nv_calls V = c # cs" and t: "nv_tasks V = []"
  shows "net_inv {} (settle_call P c r (V\<lparr>nv_calls := cs\<rparr>))"
proof -
  let ?V = "V\<lparr>nv_calls := cs\<rparr>"
  note p = call_popped[OF i c]
  have g: "net_good {} (call_sock c) ?V" using p by (simp add: net_good_def)
  have f: "\<not> flow_due s ?V" "\<not> fail_due s ?V" for s using t by (simp_all add: flow_due_def fail_due_def)
  show ?thesis
  proof (cases c)
    case (COpen s h port opts)
    have o1: "o_ok s V" using i by (simp add: net_inv_def sock_ok_def)
    have "opens_due s V = Suc (opens_due s ?V)" using c COpen by (simp add: opens_due_def opens_call_def)
    then have "net_good {} s (on_open P s h port r ?V)"
      using o1 g f COpen by (intro open_answer_good) (auto simp: o_ok_def Let_def call_sock_def upgraded_def)
    then show ?thesis using COpen by (simp add: net_good_def)
  next
    case (CTls s h)
    then have "upgraded s ?V" using p(3) by (auto simp: upgraded_def)
    then show ?thesis using tls_answer_good[of "{}" s ?V P r] g CTls by (simp add: net_good_def call_sock_def)
  qed (use g read_answer_good[OF _ f(1)] write_answer_good[of "{}" _ ?V P] close_answer_good[of "{}" _ ?V P]
      in \<open>auto simp: net_good_def call_sock_def\<close>)
qed

lemma net_step_inv: "net_inv {} V \<Longrightarrow> net_inv {} (net_step P m V)"
  by (cases m) (auto simp: op_inv task_inv answer_inv split: list.splits)

lemma net_start_inv: "net_inv {} net_start"
  by (auto simp: net_inv_def net_start_def subjects_def sock_ok_def ok_defs view_defs Let_def Socket_def js_field_def)

lemma run_inv: "net_inv {} (net_run P ms net_start)"
proof -
  have "net_inv {} V \<Longrightarrow> net_inv {} (fold (net_step P) ms V)" for V
    by (induction ms arbitrary: V) (simp_all add: net_step_inv)
  then show ?thesis using net_start_inv by (simp add: net_run_def)
qed

section \<open>Properties\<close>

text \<open>Whatever a program does with its sockets, whatever its listeners do in turn, and however tasks and
  answers of the host follow each other: the chunks the program wrote to a socket are those handed to the host
  for it, in order and each once, and then those still queued; and the bytes the host answered for it are those
  the program was given, in order and each once, and then those still buffered.\<close>

theorem net_bytes_in_order:
  fixes P ms s
  defines "V \<equiv> net_run P ms net_start"
  shows "ns_written (nv_socks V s) = sent s V @ map fst (ns_writeQ (nv_socks V s)) @ map fst (ns_preQ (nv_socks V s)) \<and>
    concat (ns_got (nv_socks V s)) = emitted s V @ concat (ns_buffer (nv_socks V s))"
proof -
  have "sock_ok s V" using run_inv[of P ms] by (simp add: V_def net_inv_def)
  then show ?thesis by (simp add: sock_ok_def w_ok_def r_ok_def Let_def)
qed

text \<open>A closed socket that was not upgraded has given back to the host every handle the host ever gave it,
  those of connections that came up after it was destroyed too: a close has been issued for each.\<close>

theorem closed_sockets_give_back:
  fixes P ms s
  defines "V \<equiv> net_run P ms net_start"
  assumes "ns_closed (nv_socks V s)" "\<not> upgraded s V"
  shows "\<forall>h \<in> set (ns_handles (nv_socks V s)). released s V h"
proof -
  have "sock_ok s V" using run_inv[of P ms] by (simp add: V_def net_inv_def)
  then show ?thesis using assms(2,3) by (auto simp: sock_ok_def h_ok_def Let_def)
qed

definition mail_options :: json where
  "mail_options = JObj [(''port'', JNum 25), (''host'', JStr ''mx.example.org'')]"

definition mail_run :: "net_move list" where
  "mail_run = [Act (OpCreate mail_options), Act (OpWrite 0 [72, 73] False), Act (OpDestroy 0 None),
     Task, Answer (Inr (JObj [(''handleId'', JNum 7)]))]"

lemma closed_sockets_give_back_witness:
  "ns_handles (nv_socks (net_run (\<lambda>_ _ _. []) mail_run net_start) 0) = [JNum 7] \<and>
   released 0 (net_run (\<lambda>_ _ _. []) mail_run net_start) (JNum 7)"
proof -
  have h: "ns_handles (nv_socks (net_run (\<lambda>_ _ _. []) mail_run net_start) 0) = [JNum 7]" by code_simp
  have "ns_closed (nv_socks (net_run (\<lambda>_ _ _. []) mail_run net_start) 0)" by code_simp
  moreover have "\<not> list_ex (\<lambda>c. case c of CTls t i \<Rightarrow> t = 0 | _ \<Rightarrow> False) (nv_issued (net_run (\<lambda>_ _ _. []) mail_run net_start))"
    by code_simp
  then have "\<not> upgraded 0 (net_run (\<lambda>_ _ _. []) mail_run net_start)" by (force simp: upgraded_def list_ex_iff)
  ultimately show ?thesis using closed_sockets_give_back[of "\<lambda>_ _ _. []" mail_run 0] h by simp
qed

end
