(* ===== verification/NetDelivery.thy ===== *)
theory NetDelivery
  imports NetShimProps
begin

text \<open>
  The way of a peer's bytes to the program: the VM's \<open>net\<close> module, the glue and the provider of sockets together,
  each host call of the one served by the others.  Then what the three do together that their comments do not
  say, and which addresses the module's \<open>isIPv4\<close> takes.
\<close>

section \<open>Serving the host calls\<close>

text \<open>The tasks first, then the call at the head of the chain.\<close>

definition serve ::
  "host_env \<Rightarrow> host_state \<Rightarrow> sock_net \<Rightarrow> program \<Rightarrow> net_vm \<times> sock_host \<Rightarrow> net_vm \<times> sock_host" where
  "serve E st N P VS =
     (case VS of (V, S) \<Rightarrow>
        if nv_tasks V \<noteq> [] then (net_step P Task V, S)
        else (case nv_calls V of
            [] \<Rightarrow> (V, S)
          | c # cs \<Rightarrow>
             (case sock_step E st N (request_of c) S of
                (HOk v, S1) \<Rightarrow> (net_step P (Answer (Inr v)) V, S1)
              | (HErr e, S1) \<Rightarrow> (net_step P (Answer (Inl e)) V, S1))))"

text \<open>A connected socket whose program listens for data, with a read at the host and nothing else to do.\<close>

definition listening :: "nat \<Rightarrow> json \<Rightarrow> net_vm \<Rightarrow> bool" where
  "listening s h V \<longleftrightarrow>
     nv_tasks V = [] \<and> nv_calls V = [CRead s h] \<and>
     (let x = nv_socks V s in
      ns_handle x = Some h \<and> \<not> ns_destroyed x \<and> \<not> ns_closed x \<and> ns_writeQ x = [] \<and> \<not> ns_wantClose x \<and> \<not> ns_half x \<and>
      ns_flowing x = Some True \<and> 0 < ns_listeners x \<and> ns_buffer x = [] \<and> \<not> ns_ended x \<and> \<not> ns_endEmitted x)"

definition quiet_program :: "program \<Rightarrow> bool" where
  "quiet_program P \<longleftrightarrow> (\<forall>V s e. P V s e = [])"

lemma quiet_emit: "quiet_program P \<Longrightarrow> emit P s e V = own_listeners s e (logged s e V)"
  by (simp add: emit_def quiet_program_def do_ops_def Let_def)

lemma own_none: "e \<noteq> EvConnect \<Longrightarrow> e \<noteq> EvSecure \<Longrightarrow> own_listeners s e V = V"
  by (cases e) (simp_all add: own_listeners_def)

lemma b64_empty: "bytesToB64 b = [] \<longleftrightarrow> b = []"
proof -
  have e: "bytesToB64 [] = []" by code_simp
  then have "b64ToBytes [] = Inr []" using b64_roundtrip[of "[]"] by simp
  then show ?thesis using e b64_roundtrip[of b] by auto
qed

lemma chunk_answer:
  "js_field ''error'' (Some (JObj [(''dataB64'', JStr d), (''done'', JBool False)])) = None"
  "js_field ''done'' (Some (JObj [(''dataB64'', JStr d), (''done'', JBool False)])) = None"
  "js_field ''dataB64'' (Some (JObj [(''dataB64'', JStr d), (''done'', JBool False)])) = (if d = [] then None else Some (JStr d))"
  by (simp_all add: js_field_def)

lemma read_chunk_step:
  assumes q: "quiet_program P" and l: "listening s h V"
  shows "\<exists>V1. net_step P (Answer (Inr (JObj [(''dataB64'', JStr (bytesToB64 c)), (''done'', JBool False)]))) V = V1 \<and>
    listening s h V1 \<and> nv_log V1 = nv_log V @ (if c = [] then [] else [(s, EvData c)])"
  using l by (simp add: listening_def Let_def on_read_def still_on_def answer_error_def chunk_answer b64_empty b64_roundtrip
      sock_deliver_def quiet_emit[OF q] own_none turn_def net_view)
    (simp add: logged_def hostCall_def upd_def)

text \<open>The last answers: the end of the data, the events it makes, and the close.\<close>

lemma read_end_steps:
  assumes q: "quiet_program P" and l: "listening s h V"
    and S: "sock_read N h S = (Inr (JObj [(''done'', JBool True)]), S1)" "getState S1 h = None"
  shows "\<exists>V1. (serve E st N P ^^ 3) (V, S) = (V1, S1) \<and> nv_calls V1 = [] \<and> nv_tasks V1 = [] \<and>
    nv_log V1 = nv_log V @ [(s, EvEnd), (s, EvClose None), (s, EvClose (Some False))]"
proof -
  have d: "js_field ''error'' (Some (JObj [(''done'', JBool True)])) = None" "js_field ''dataB64'' (Some (JObj [(''done'', JBool True)])) = None"
    "js_field ''done'' (Some (JObj [(''done'', JBool True)])) = Some (JBool True)" by (simp_all add: js_field_def)
  let ?f = "\<lambda>x. x\<lparr>ns_loop := False\<rparr>"
  define U where "U = hostCall (CClose s h) (uncount s (upd s (\<lambda>x. x\<lparr>ns_loop := False, ns_closed := True\<rparr>)
    (upd s (\<lambda>x. x\<lparr>ns_remoteEnded := True\<rparr>) (push_end s (upd s ?f (V\<lparr>nv_calls := []\<rparr>))))))"
  have tasks: "nv_tasks (uncount s W) = nv_tasks W" "nv_log (uncount s W) = nv_log W" for W
    by (simp_all add: uncount_def upd_def)
  have 1: "serve E st N P (V, S) = (U, S1)"
    using l S(1) by (simp add: serve_def listening_def Let_def request_of_def sock_step_def socketCall_def on_read_def still_on_def
        answer_error_def d doClose_def push_end_def net_view U_def)
  have u: "nv_tasks U = [TFlow s]" "nv_calls U = [CClose s h]" "nv_log U = nv_log V" "ns_buffer (nv_socks U s) = []"
    "ns_ended (nv_socks U s)" "\<not> ns_endEmitted (nv_socks U s)" "\<not> ns_destroyed (nv_socks U s)"
    using l by (auto simp: U_def tasks hostCall_def push_end_def later_def listening_def Let_def upd_def uncount_def)
  define W where "W = logged s (EvClose None) (logged s EvEnd (upd s (\<lambda>x. x\<lparr>ns_endEmitted := True\<rparr>) (U\<lparr>nv_tasks := []\<rparr>)))"
  have 2: "serve E st N P (U, S1) = (W, S1)"
    using u by (simp add: serve_def flow_def Let_def quiet_emit[OF q] own_none W_def)
  have w: "nv_tasks W = []" "nv_calls W = [CClose s h]" "nv_log W = nv_log V @ [(s, EvEnd), (s, EvClose None)]"
    "\<not> ns_destroyed (nv_socks W s)" using u by (simp_all add: W_def logged_def upd_def)
  let ?X = "logged s (EvClose (Some False)) (upd s (\<lambda>x. x\<lparr>ns_destroyed := True\<rparr>) (W\<lparr>nv_calls := []\<rparr>))"
  have 3: "serve E st N P (W, S1) = (?X, S1)"
    using w S(2) by (simp add: serve_def request_of_def sock_step_def sock_close_def socketCall_def on_closed_def quiet_emit[OF q] own_none)
  have "(serve E st N P ^^ 3) (V, S) = (?X, S1)" by (simp add: numeral_3_eq_3 1 2 3)
  then show ?thesis using w by (intro exI[of _ ?X]) (simp add: logged_def upd_def)
qed

lemma serve_chunk:
  assumes "quiet_program P" "listening s h V" "sock_read N h S = (read_data c, S1)"
  shows "\<exists>V1. serve E st N P (V, S) = (V1, S1) \<and> listening s h V1 \<and>
    nv_log V1 = nv_log V @ (if c = [] then [] else [(s, EvData c)])"
proof -
  have "serve E st N P (V, S) =
      (net_step P (Answer (Inr (JObj [(''dataB64'', JStr (bytesToB64 c)), (''done'', JBool False)]))) V, S1)"
    using assms(2,3) by (simp add: serve_def listening_def request_of_def sock_step_def socketCall_def read_data_def)
  then show ?thesis using read_chunk_step[OF assms(1,2), of c] by simp
qed

lemma serve_more: "(serve E st N P ^^ m) VS = WT \<Longrightarrow> (serve E st N P ^^ n) WT = XU \<Longrightarrow> (serve E st N P ^^ (m + n)) VS = XU"
  by (simp add: add.commute[of m] funpow_add)

lemma gone_state: "readable S h i x \<Longrightarrow> getState (destroy i S) h = None"
  by (auto simp: readable_def getState_def destroy_def delete_conv' split: json.splits if_splits)

section \<open>Delivery\<close>

text \<open>Serving the calls of a program that listens on a connected socket comes to an end; by then the program
  has been given, in one event for each chunk the provider cut, every byte its peer sent and nothing else,
  then the end, and the socket's handle is gone from the provider.  The stream and the socket each
  announce the close: it comes twice.\<close>

theorem peer_reaches_program:
  assumes "quiet_program P" "listening s h V" "readable S h i x" "wi_in (sk_wire x) = map Inr cs"
  shows "\<exists>n chunks V' S'. (serve E st N P ^^ n) (V, S) = (V', S') \<and> nv_calls V' = [] \<and> nv_tasks V' = [] \<and>
    nv_log V' = nv_log V @ map (\<lambda>c. (s, EvData c)) chunks @ [(s, EvEnd), (s, EvClose None), (s, EvClose (Some False))] \<and>
    concat chunks = pending_bytes x @ concat cs \<and> list_all (\<lambda>c. length c \<le> SOCKET_READ_CHUNK_BYTES) chunks \<and> i \<notin> live S'"
  using assms
proof (induction "length (pending_bytes x) + sum_list (map (\<lambda>c. Suc (length c)) cs)" arbitrary: V S x cs rule: less_induct)
  case less
  show ?case
  proof (cases "pending_bytes x = [] \<and> cs = []")
    case True
    then have r: "sock_read N h S = (Inr (JObj [(''done'', JBool True)]), destroy i S)"
      using read_last[OF less(4), of N] less(5) by simp
    obtain V1 where "(serve E st N P ^^ 3) (V, S) = (V1, destroy i S)" "nv_calls V1 = []" "nv_tasks V1 = []"
      "nv_log V1 = nv_log V @ [(s, EvEnd), (s, EvClose None), (s, EvClose (Some False))]"
      using read_end_steps[OF less(2,3) r gone_state[OF less(4)]] by blast
    then show ?thesis using True destroyed[of i S]
      by (intro exI[of _ 3] exI[of _ "[] :: bytes list"] exI[of _ V1] exI[of _ "destroy i S"]) simp
  next
    case False
    let ?b = "if pending_bytes x = [] then hd cs else pending_bytes x"
    let ?c = "take SOCKET_READ_CHUNK_BYTES ?b"
    obtain x' S1 cs' where n: "sock_read N h S = (read_data ?c, S1)" "readable S1 h i x'" "wi_in (sk_wire x') = map Inr cs'"
      "cs' = (if pending_bytes x = [] then tl cs else cs)" "pending_bytes x' = drop SOCKET_READ_CHUNK_BYTES ?b"
      using read_next[OF less(4,5), of N] False by metis
    obtain V1 where v: "serve E st N P (V, S) = (V1, S1)" "listening s h V1"
      "nv_log V1 = nv_log V @ (if ?c = [] then [] else [(s, EvData ?c)])"
      using serve_chunk[OF less(2,3) n(1), of E st] by blast
    have d: "pending_bytes x @ concat cs = ?b @ concat cs'" using False n(4) by (cases cs) auto
    have "length (pending_bytes x') + sum_list (map (\<lambda>c. Suc (length c)) cs') <
        length (pending_bytes x) + sum_list (map (\<lambda>c. Suc (length c)) cs)"
      using False n(4,5) chunk_pos by (cases cs) auto
    then obtain m chunks V' T where ih: "(serve E st N P ^^ m) (V1, S1) = (V', T)" "nv_calls V' = []" "nv_tasks V' = []"
      "nv_log V' = nv_log V1 @ map (\<lambda>c. (s, EvData c)) chunks @ [(s, EvEnd), (s, EvClose None), (s, EvClose (Some False))]"
      "concat chunks = pending_bytes x' @ concat cs'" "list_all (\<lambda>c. length c \<le> SOCKET_READ_CHUNK_BYTES) chunks" "i \<notin> live T"
      using less(1)[OF _ less(2) v(2) n(2,3)] by blast
    let ?chunks = "(if ?c = [] then [] else [?c]) @ chunks"
    have "(serve E st N P ^^ (1 + m)) (V, S) = (V', T)" using v(1) ih(1) by (intro serve_more) simp_all
    moreover have "concat ?chunks = ?c @ concat chunks" by simp
    then have "concat ?chunks = pending_bytes x @ concat cs"
      using ih(5) n(5) d by (simp only: append_assoc[symmetric] append_take_drop_id)
    moreover have "list_all (\<lambda>c. length c \<le> SOCKET_READ_CHUNK_BYTES) ?chunks" using ih(6) by simp
    moreover have "nv_log V' = nv_log V @ map (\<lambda>c. (s, EvData c)) ?chunks @ [(s, EvEnd), (s, EvClose None), (s, EvClose (Some False))]"
      using ih(4) v(3) by simp
    ultimately show ?thesis using ih(2,3,7) by blast
  qed
qed

text \<open>The witness starts with nothing: a program connects to a peer that sends two chunks, and listens.\<close>

definition mail_start :: "net_vm \<times> sock_host" where
  "mail_start =
     (let N = peer [Inr [1, 2], Inr [3]] in
      (serve plain_env (only_host ''mail.example.com'') N (\<lambda>_ _ _. []) ^^ 3)
        (do_ops [OpCreate (JObj [(''port'', JNum 25), (''host'', JStr ''mail.example.com'')]), OpData 0] net_start, makeSocketHost))"

lemma peer_reaches_program_witness:
  "\<exists>n chunks V' S'. (serve plain_env (only_host ''mail.example.com'') (peer []) (\<lambda>_ _ _. []) ^^ n) mail_start = (V', S') \<and>
     nv_log V' = [(0, EvConnect), (0, EvReady)] @ map (\<lambda>c. (0, EvData c)) chunks @
       [(0, EvEnd), (0, EvClose None), (0, EvClose (Some False))] \<and> concat chunks = [1, 2, 3] \<and> 1 \<notin> live S'"
proof -
  let ?x = "the (map_of (sh_map (snd mail_start)) 1)"
  have l: "nv_log (fst mail_start) = [(0, EvConnect), (0, EvReady)]" by code_simp
  have "listening 0 (JNum 1) (fst mail_start)" by code_simp
  moreover have "readable (snd mail_start) (JNum 1) 1 ?x" by code_simp
  moreover have "wi_in (sk_wire ?x) = map Inr [[1, 2], [3]]" "pending_bytes ?x = []" by code_simp+
  moreover have "quiet_program (\<lambda>_ _ _. [])" by (simp add: quiet_program_def)
  ultimately show ?thesis
    using peer_reaches_program[of "\<lambda>_ _ _. []" 0 "JNum 1" "fst mail_start" "snd mail_start" 1 ?x "[[1, 2], [3]]"
        plain_env "only_host ''mail.example.com''" "peer []"] l
    by (simp only: prod.collapse) fastforce
qed

section \<open>Behaviours that differ from the comments\<close>

text \<open>The command loop starts after the listeners of \<open>connect\<close> have run, so \<open>end\<close> called from one of them closes
  the socket at once: what was written before is never sent, though writes are said to be flushed first.\<close>

definition end_on_connect :: program where
  "end_on_connect V s e = (if e = EvConnect then [OpEnd s None] else [])"

lemma end_in_connect_drops_writes:
  "let V = net_run end_on_connect [Act (OpCreate mail_options), Act (OpWrite 0 [72, 73] False),
       Answer (Inr (JObj [(''handleId'', JNum 1)])), Answer (Inr (JObj [(''ok'', JBool True)]))] net_start
   in ns_written (nv_socks V 0) = [[72, 73]] \<and> sent 0 V = [] \<and> ns_destroyed (nv_socks V 0) \<and> nv_calls V = [] \<and> nv_tasks V = []"
  by code_simp

text \<open>A socket destroyed while its upgrade is at the host keeps the handle of the upgraded connection open.\<close>

definition upgrade_on_connect :: program where
  "upgrade_on_connect V s e = (if e = EvConnect then [OpUpgrade s (JObj [])] else [])"

definition starttls_options :: json where
  "starttls_options = JObj [(''port'', JNum 587), (''host'', JStr ''mail.example.com''), (''_secureTransport'', JStr ''starttls'')]"

lemma upgrade_in_flight_leaks:
  "let V = net_run upgrade_on_connect [Act (OpCreate starttls_options), Answer (Inr (JObj [(''handleId'', JNum 1)])),
       Act (OpDestroy 0 None), Task, Task, Answer (Inr (JObj [(''handleId'', JNum 2)])), Task,
       Answer (Inr (JObj [(''ok'', JBool True)]))] net_start
   in ns_destroyed (nv_socks V 0) \<and> ns_handles (nv_socks V 0) = [JNum 1, JNum 2] \<and> nv_calls V = [] \<and> nv_tasks V = [] \<and>
      \<not> released 0 V (JNum 2)"
  by code_simp

text \<open>After an upgrade the loop of the old handle clears the flag of the new one; \<open>end\<close> then takes it for idle and
  closes at once, over a queue that is not empty.\<close>

definition two_writes_when_secure :: program where
  "two_writes_when_secure V s e = (if e = EvSecure then [OpWrite s [1] False, OpWrite s [2] False] else [])"

lemma stale_loop_drops_writes:
  "let ok = Inr (JObj [(''ok'', JBool True)]);
       V = net_run two_writes_when_secure
         [Act (OpCreate starttls_options), Answer (Inr (JObj [(''handleId'', JNum 1)])), Task, Act (OpUpgrade 0 (JObj [])),
          Answer (Inr (JObj [(''dataB64'', JStr ''MjIw''), (''done'', JBool False)])),
          Answer (Inr (JObj [(''handleId'', JNum 2)])), Task,
          Answer (Inr (JObj [(''done'', JBool True), (''error'', JStr ''ECONNRESET'')])), Act (OpEnd 0 None), Answer ok, Answer ok] net_start
   in ns_written (nv_socks V 0) = [[1], [2]] \<and> sent 0 V = [[1]] \<and> ns_destroyed (nv_socks V 0) \<and> nv_calls V = []"
  by code_simp

text \<open>The option that the provider asks for does not reach it: the module reads \<open>_secureTransport\<close>, so a socket of
  \<open>net.connect\<close> with \<open>secureTransport: 'starttls'\<close> is opened as a plain one and its upgrade is refused.\<close>

lemma secureTransport_ignored:
  "ns_secure (Socket (JObj [(''port'', JNum 587), (''secureTransport'', JStr ''starttls'')])) = JStr ''off''"
  by code_simp

lemma plain_upgrade_refused:
  assumes "getState S h = Some (i, x)" "sk_secure x = Some (JStr ''off'')"
  shows "\<exists>e. sock_startTls N h S = (Inl e, S)"
  using assms by (simp add: sock_startTls_def)

text \<open>\<open>tls.connect\<close> on a socket that is already secure clears the flag before \<open>_startTls\<close> looks at it: the upgrade
  is sent to the host, whose refusal destroys the socket.  The check for it cannot be reached.\<close>

lemma second_upgrade_is_sent:
  "ns_handle (nv_socks V s) = Some i \<Longrightarrow> nv_issued (tls_upgrade s opts V) = nv_issued V @ [CTls s i]"
  by (simp add: tls_upgrade_def doUpgrade_def Let_def markSecure_def net_view)

text \<open>While the read of one socket is at the host, which lasts until its peer sends, whatever any socket asks of the
  host waits behind it, writes and closes too.\<close>

lemma op_calls: "\<exists>cs. nv_calls (snd (do_op c V)) = nv_calls V @ cs"
  by (induction c V rule: do_op.induct)
    (auto simp: on_socket_def createConnection_def tls_connect_def new_socket_def resetAndDestroy_def sock_connect_def
      sock_write_vm_def sock_put_def sock_end_def sock_destroy_def doClose_def startLoop_def tls_upgrade_def doUpgrade_def
      sock_onData_def sock_resume_def sock_pause_def Let_def net_view split: option.splits)

lemma idle_read_blocks_all:
  assumes "nv_calls V = CRead s h # cs"
  shows "\<exists>cs'. nv_calls (do_ops ops V) = CRead s h # cs @ cs'"
proof -
  have "\<exists>cs'. nv_calls (do_ops ops V) = nv_calls V @ cs'"
    unfolding do_ops_def
  proof (induction ops arbitrary: V)
    case (Cons c ops)
    obtain ds where "nv_calls (snd (do_op c V)) = nv_calls V @ ds" using op_calls by blast
    then show ?case using Cons[of "snd (do_op c V)"] by auto
  qed simp
  then show ?thesis using assms by auto
qed

text \<open>The error code is read off the message, host name and all, although the provider sends a code.\<close>

lemma host_name_decides_code:
  "ne_code (mapHostErr ''FetchBlockedError: limits.example.org not allowed'' ''connect'') = ''EMFILE''"
  "ne_code (mapHostErr ''FetchBlockedError: handles.example.org not allowed'' ''connect'') = ''ECONNRESET''"
  "ne_code (mapHostErr ''FetchBlockedError: www.example.org not allowed'' ''connect'') = ''ECONNREFUSED''"
  by code_simp+

end
