(* ===== verification/UiRender.thy ===== *)
theory UiRender
  imports CliRender SdkClient
begin

text \<open>
  The pages of the browser console, \<open>apps/ui/src/main.ts\<close>: how a reply becomes HTML, the configuration read
  from the form, the checks of the end-to-end run and their verdict; and \<open>kernelUrl\<close> of \<open>kernel.ts\<close>.  What the
  DOM does with the HTML is not modelled.  A reply is its JSON value; reading an artifact is a parameter.  Five
  ornaments of the fixed markup lie outside eight bits and are written as control characters.
\<close>

section \<open>Escaping\<close>

definition esc_char :: "char \<Rightarrow> string" where
  "esc_char c =
     (if c = CHR ''&'' then ''&amp;'' else if c = CHR ''<'' then ''&lt;'' else if c = CHR ''>'' then ''&gt;'' else [c])"

definition esc :: "string \<Rightarrow> string" where
  "esc s = concat (map esc_char s)"

definition escAttr :: "string \<Rightarrow> string" where
  "escAttr s = concat (map (\<lambda>c. if c = CHR 0x27 then ''&#39;'' else [c]) (esc s))"

text \<open>Markup with its attributes in double quotes.\<close>

definition Q :: string where "Q = [CHR 0x22]"

definition tag_class :: "string \<Rightarrow> string \<Rightarrow> string" where
  "tag_class t c = ''<'' @ t @ '' class='' @ Q @ c @ Q @ ''>''"

definition lead :: "char \<Rightarrow> string" where
  "lead c = tag_class ''span'' ''lead'' @ [c, CHR '' ''] @ ''</span>''"

definition ANGLE :: char where "ANGLE = CHR 0x9B"
definition CROSS :: char where "CROSS = CHR 0x96"
definition ARROW :: char where "ARROW = CHR 0x92"
definition STAR :: char where "STAR = CHR 0x85"
definition DASH :: char where "DASH = CHR 0x93"

definition block :: "string \<Rightarrow> string \<Rightarrow> string" where
  "block c body = tag_class ''div'' c @ body @ ''</div>''"

section \<open>Results\<close>

definition text_or :: "json option \<Rightarrow> string \<Rightarrow> string" where
  "text_or v d = (case v of Some x \<Rightarrow> if js_truthy x then js_String x else d | None \<Rightarrow> d)"

definition given :: "json option \<Rightarrow> json option" where
  "given v = (if v = Some JNull then None else v)"

definition array :: "json option \<Rightarrow> json list" where
  "array v = (case v of Some (JArr xs) \<Rightarrow> xs | _ \<Rightarrow> [])"

text \<open>A line is a text or an object.\<close>

definition log_text :: "json \<Rightarrow> string" where
  "log_text l =
     (case l of
        JStr s \<Rightarrow> s
      | _ \<Rightarrow> (case given (json_get ''text'' l) of
               Some t \<Rightarrow> js_String t
             | None \<Rightarrow> (case given (json_get ''msg'' l) of Some m \<Rightarrow> js_String m | None \<Rightarrow> [])))"

definition log_lines :: "json \<Rightarrow> string" where
  "log_lines r = concat (map (\<lambda>l. block ''log'' (lead ANGLE @ esc (log_text l))) (array (json_get ''logs'' r)))"

definition failed :: "json \<Rightarrow> json option" where
  "failed r = (if json_get ''ok'' r = Some (JBool False) then js_field ''error'' (Some r) else None)"

definition error_lines :: "json \<Rightarrow> string" where
  "error_lines e =
     block ''err'' (lead CROSS @ esc (text_or (json_get ''name'' e) ''Error'') @ '': '' @ esc (text_or (json_get ''message'' e) [])) @
     (case js_field ''stack'' (Some e) of Some k \<Rightarrow> block ''err-stack'' (esc (js_String k)) | None \<Rightarrow> [])"

definition final_line :: "json \<Rightarrow> string" where
  "final_line r =
     (case js_field ''final'' (Some r) of
        None \<Rightarrow> []
      | Some f \<Rightarrow>
          (case js_field ''kind'' (Some f) of
             None \<Rightarrow> []
           | Some k \<Rightarrow> block ''final'' ([STAR] @ '' FINAL ['' @ esc (js_String k) @ '']: '' @
               esc (case json_get ''value'' f of Some v \<Rightarrow> js_String v | None \<Rightarrow> ''undefined''))))"

definition value_line :: "json \<Rightarrow> string" where
  "value_line r =
     (let v = (case given (json_get ''valuePreview'' r) of Some p \<Rightarrow> Some p | None \<Rightarrow> json_get ''value'' r) in
      case given v of
        Some x \<Rightarrow>
          if x \<noteq> JStr [] then block ''val'' (lead ARROW @ esc (case x of JStr s \<Rightarrow> s | _ \<Rightarrow> json_stringify x))
          else if array (json_get ''logs'' r) = [] then block ''log'' (lead ARROW @ ''<i>undefined</i>'') else []
      | None \<Rightarrow> if array (json_get ''logs'' r) = [] then block ''log'' (lead ARROW @ ''<i>undefined</i>'') else [])"

definition renderResult :: "json \<Rightarrow> string" where
  "renderResult r =
     log_lines r @ (case failed r of Some e \<Rightarrow> error_lines e | None \<Rightarrow> value_line r) @ final_line r"

section \<open>MIME outputs\<close>

text \<open>Bold text: two stars, no star, two stars.\<close>

definition not_star :: "char \<Rightarrow> bool" where "not_star c = (c \<noteq> CHR ''*'')"

function md_bold :: "string \<Rightarrow> string" where
  "md_bold s =
     (if s = [] then []
      else (let b = takeWhile not_star (drop 2 s); u = dropWhile not_star (drop 2 s) in
            if prefix ''**'' s \<and> b \<noteq> [] \<and> prefix ''**'' u then ''<strong>'' @ b @ ''</strong>'' @ md_bold (drop 2 u)
            else hd s # md_bold (tl s)))"
  by auto
termination
proof (relation "measure length")
  show "wf (measure length)" by simp
next
  fix s :: string and b u
  assume "s \<noteq> []" "u = dropWhile not_star (drop 2 s)"
  then show "(drop 2 u, s) \<in> measure length"
    using length_dropWhile_le[of not_star "drop 2 s"] by (cases s) auto
next
  fix s :: string
  assume "s \<noteq> []" then show "(tl s, s) \<in> measure length" by (cases s) auto
qed

declare md_bold.simps [simp del]

definition heading :: "string \<Rightarrow> string \<Rightarrow> string" where
  "heading t s = ''<'' @ t @ ''>'' @ s @ ''</'' @ t @ ''>''"

definition md_line :: "string \<Rightarrow> string" where
  "md_line l =
     (if prefix ''### '' l then heading ''h4'' (drop 4 l) else if prefix ''## '' l then heading ''h3'' (drop 3 l)
      else if prefix ''# '' l then heading ''h2'' (drop 2 l) else l)"

text \<open>A carriage return ends a line for the patterns too.\<close>

fun md_lines :: "string \<Rightarrow> string \<Rightarrow> string" where
  "md_lines line [] = md_line (rev line)"
| "md_lines line (c # s) =
     (if c = CHR 0x0A \<or> c = CHR 0x0D then md_line (rev line) @ [c] @ md_lines [] s else md_lines (c # line) s)"

definition renderMarkdownText :: "string \<Rightarrow> string" where
  "renderMarkdownText text =
     concat (map (\<lambda>c. if c = CHR 0x0A then ''<br>'' else [c]) (md_bold (md_lines [] (esc text))))"

definition mimeText :: "(json \<Rightarrow> (string, string) result) \<Rightarrow> json \<Rightarrow> (string, string) result" where
  "mimeText art v = (if isArtifactValue v then art v else case v of JStr s \<Rightarrow> Inr s | _ \<Rightarrow> Inr (json_pretty 0 v))"

definition frame_html :: "string \<Rightarrow> string \<Rightarrow> string" where
  "frame_html c s = ''<iframe class='' @ Q @ c @ Q @ '' sandbox='' @ Q @ Q @ '' srcdoc='' @ Q @ escAttr s @ Q @ ''></iframe>''"

definition image_html :: "string \<Rightarrow> string \<Rightarrow> string" where
  "image_html mime s = ''<img class='' @ Q @ ''mime-image'' @ Q @ '' alt='' @ Q @ Q @ '' src='' @ Q @ ''data:'' @ mime @ '';base64,'' @ escAttr s @ Q @ ''>''"

definition pre_html :: "string \<Rightarrow> string \<Rightarrow> string" where
  "pre_html c s = tag_class ''pre'' c @ esc s @ ''</pre>''"

definition ui_renderMimeBundle :: "(json \<Rightarrow> (string, string) result) \<Rightarrow> json \<Rightarrow> (string, string) result" where
  "ui_renderMimeBundle art bundle =
     (let m = (\<lambda>k. json_get k bundle); text = (\<lambda>f v. rbind (mimeText art v) (\<lambda>t. Inr (f t)));
          jpeg = (case js_field ''image/jpeg'' (Some bundle) of Some v \<Rightarrow> Some v | None \<Rightarrow> m ''image/jpg'') in
      case m ''text/html'' of Some v \<Rightarrow> text (frame_html ''mime-html'') v | None \<Rightarrow>
      (case m ''image/svg+xml'' of Some v \<Rightarrow> text (frame_html ''mime-svg'') v | None \<Rightarrow>
      (case m ''image/png'' of Some v \<Rightarrow> text (image_html ''image/png'') v | None \<Rightarrow>
      (case jpeg of Some v \<Rightarrow> text (image_html ''image/jpeg'') v | None \<Rightarrow>
      (case m ''text/markdown'' of Some v \<Rightarrow> text (\<lambda>t. block ''mime-markdown'' (renderMarkdownText t)) v | None \<Rightarrow>
      (case m ''application/json'' of Some v \<Rightarrow> Inr (pre_html ''mime-json'' (json_pretty 0 v)) | None \<Rightarrow>
      (case m ''text/plain'' of Some v \<Rightarrow> text (pre_html ''mime-plain'') v | None \<Rightarrow>
      (case bundle of
         JObj ((k, v) # _) \<Rightarrow> if k = [] then Inr [] else Inr (pre_html ''mime-plain'' (k @ [CHR 0x5C, CHR ''n''] @ json_pretty 0 v))
       | _ \<Rightarrow> Inr []))))))))"

definition renderMimeOutput :: "(json \<Rightarrow> (string, string) result) \<Rightarrow> json \<Rightarrow> (string, string) result" where
  "renderMimeOutput art out =
     (let ty = json_get ''output_type'' out in
      if ty = Some (JStr ''clear_output'') then Inr []
      else if ty = Some (JStr ''stream'') then Inr (block ''log'' (lead ANGLE @ esc (text_or (json_get ''text'' out) [])))
      else if ty = Some (JStr ''error'') then Inr (block ''err'' (lead CROSS @ esc (text_or (json_get ''text'' out) ''error'')))
      else (case js_field ''data'' (Some out) of
          None \<Rightarrow> Inr []
        | Some d \<Rightarrow> rbind (ui_renderMimeBundle art d) (\<lambda>h.
            Inr (block (if ty = Some (JStr ''execute_result'') then ''mime-result'' else ''mime-display'') h))))"

fun render_all :: "(json \<Rightarrow> (string, string) result) \<Rightarrow> json list \<Rightarrow> (string, string) result" where
  "render_all art [] = Inr []"
| "render_all art (x # xs) = rbind (renderMimeOutput art x) (\<lambda>h. rbind (render_all art xs) (\<lambda>hs. Inr (h @ hs)))"

definition renderRichResult :: "(json \<Rightarrow> (string, string) result) \<Rightarrow> json \<Rightarrow> (string, string) result" where
  "renderRichResult art r =
     (if array (json_get ''outputs'' r) = [] then Inr (renderResult r)
      else rbind (render_all art (array (json_get ''outputs'' r))) (\<lambda>hs.
        Inr (log_lines r @ (case failed r of Some e \<Rightarrow> error_lines e | None \<Rightarrow> []) @ hs @ final_line r)))"

text \<open>What \<open>run\<close> shows when evaluating or rendering throws.\<close>

definition error_html :: "string \<Rightarrow> string" where
  "error_html msg = block ''err'' (lead CROSS @ esc msg)"

section \<open>The meta line and the form\<close>

definition or_zero :: "json option \<Rightarrow> string \<Rightarrow> string" where
  "or_zero v d = (case given v of Some x \<Rightarrow> js_String x | None \<Rightarrow> d)"

definition chip :: "string \<Rightarrow> string \<Rightarrow> string" where
  "chip c s = tag_class ''span'' c @ s @ ''</span>''"

text \<open>\<open>kb\<close> writes a size in kilobytes with one decimal.\<close>

definition renderMeta :: "(json \<Rightarrow> string) \<Rightarrow> json \<Rightarrow> int \<Rightarrow> string" where
  "renderMeta kb r ms =
     chip ''chip'' (''cell '' @ or_zero (json_get ''cell'' r) ''0'') @
     chip ''chip'' (''gen '' @ or_zero (json_get ''generation'' r) [DASH]) @
     chip ''chip'' (int_str ms @ ''ms'') @
     (if json_get ''inMemoryBefore'' r = Some (JBool False)
      then chip ''chip cold'' (''cold '' @ [CHR 0xB7] @ '' '' @ esc (text_or (json_get ''restoreSource'' r) ''snapshot''))
      else chip ''chip warm'' ''warm'') @
     (case js_field ''sizeGz'' (js_field ''checkpoint'' (Some r)) of
        Some n \<Rightarrow> chip ''chip'' (''snap '' @ kb n @ ''KB gz'') | None \<Rightarrow> [])"

definition list_option :: "string \<Rightarrow> json" where
  "list_option raw =
     (let t = js_trim raw in
      if t = ''true'' then JBool True
      else if t \<noteq> [] \<and> t \<noteq> ''false'' then JArr (map JStr (filter (\<lambda>x. x \<noteq> []) (map js_trim (js_split CHR '','' t))))
      else JBool False)"

text \<open>\<open>Number(seed) || 0\<close> is a parameter.\<close>

definition buildConfig :: "(string \<Rightarrow> int) \<Rightarrow> string \<Rightarrow> string \<Rightarrow> string \<Rightarrow> string \<Rightarrow> json" where
  "buildConfig num clock seed modules fetch =
     JObj [(''clock'', JStr (if clock = ''real'' then ''real'' else ''seeded'')), (''rngSeed'', JNum (num seed)),
       (''modules'', list_option modules), (''fetch'', list_option fetch)]"

section \<open>The end-to-end run\<close>

definition e2eLine :: "string \<Rightarrow> string \<Rightarrow> string" where
  "e2eLine cls s = tag_class ''div'' cls @ esc s @ ''</div>''"

definition detail_text :: "string \<Rightarrow> string" where
  "detail_text d = (if d = [] then [] else '' :: '' @ d)"

definition pass :: "string \<Rightarrow> string \<Rightarrow> string" where
  "pass name detail = e2eLine ''val'' (''PASS '' @ name @ detail_text detail)"

definition fail_line :: "string \<Rightarrow> string \<Rightarrow> string" where
  "fail_line name detail = e2eLine ''err'' (''FAIL '' @ name @ detail_text detail)"

definition shown :: "json option \<Rightarrow> string" where
  "shown v = (case v of Some x \<Rightarrow> js_String x | None \<Rightarrow> ''undefined'')"

definition succeeded :: "json \<Rightarrow> bool" where
  "succeeded r = (json_get ''ok'' r \<noteq> Some (JBool False))"

definition value_is :: "json \<Rightarrow> json \<Rightarrow> bool" where
  "value_is r v = (succeeded r \<and> json_get ''value'' r = Some v)"

definition has_text :: "string \<Rightarrow> string \<Rightarrow> bool" where
  "has_text p s = list_ex (prefix p) (suffixes s)"

text \<open>The seven checks on the seven replies: the outcome, the name, the detail of a pass and of a failure.\<close>

record e2e_replies =
  re_setup :: json
  re_cold :: json
  re_restored :: json
  re_closure :: json
  re_ts :: json
  re_enum :: json
  re_recover :: json

definition error_name :: "json \<Rightarrow> json option" where
  "error_name r = Option.bind (json_get ''error'' r) (json_get ''name'')"

definition value_detail :: "json \<Rightarrow> string" where
  "value_detail r = ''value='' @ shown (json_get ''value'' r)"

definition e2e_checks :: "e2e_replies \<Rightarrow> (bool \<times> string \<times> string \<times> string) list" where
  "e2e_checks x =
     (let full = json_stringify; cut = (\<lambda>r. take 400 (json_stringify r)) in
      [(value_is (re_setup x) (JNum 42), ''typescript eval writes durable state'', value_detail (re_setup x), full (re_setup x)),
       (succeeded (re_cold x) \<and> json_get ''inMemory'' (re_cold x) = Some (JBool False), ''hibernate drops in-memory kernel'',
          ''inMemory='' @ shown (json_get ''inMemory'' (re_cold x)), full (re_cold x)),
       (value_is (re_restored x) (JNum 42) \<and> has_text ''restore'' (text_or (json_get ''restoreSource'' (re_restored x)) []),
          ''cold restore keeps heap state'',
          value_detail (re_restored x) @ '' source='' @ shown (json_get ''restoreSource'' (re_restored x)), full (re_restored x)),
       (value_is (re_closure x) (JNum 43), ''closure survives restore'', value_detail (re_closure x), full (re_closure x)),
       (value_is (re_ts x) (JStr ''hi 43''), ''typescript generics + annotations'',
          ''value='' @ (case json_get ''value'' (re_ts x) of Some v \<Rightarrow> json_stringify v | None \<Rightarrow> ''undefined''), cut (re_ts x)),
       (\<not> succeeded (re_enum x) \<and> error_name (re_enum x) = Some (JStr ''TypeScriptError''), ''un-erasable TS rejected cleanly'',
          text_or (error_name (re_enum x)) [], cut (re_enum x)),
       (value_is (re_recover x) (JNum 44), ''session recovers after TS error'', value_detail (re_recover x), full (re_recover x))])"

definition e2e_lines :: "e2e_replies \<Rightarrow> string list" where
  "e2e_lines x = map (\<lambda>(ok, name, good_detail, bad_detail). if ok then pass name good_detail else fail_line name bad_detail) (e2e_checks x)"

definition e2e_ok :: "string list \<Rightarrow> bool" where
  "e2e_ok lines = list_all (\<lambda>s. \<not> has_text ''>FAIL '' s) lines"

section \<open>The address of a kernel\<close>

definition ui_word_char :: "char \<Rightarrow> bool" where
  "ui_word_char c =
     (let n = of_char c :: nat in 48 \<le> n \<and> n \<le> 57 \<or> 65 \<le> n \<and> n \<le> 90 \<or> n = 95 \<or> 97 \<le> n \<and> n \<le> 122)"

definition word_ends :: "string \<Rightarrow> bool" where
  "word_ends s = (case s of [] \<Rightarrow> True | c # _ \<Rightarrow> \<not> ui_word_char c)"

text \<open>\<open>/-v1\d?\b/\<close>: the boundary comes after the digit one, or after one more digit.\<close>

definition names_version :: "string \<Rightarrow> bool" where
  "names_version s =
     list_ex (\<lambda>t. prefix ''-v1'' t \<and>
       (word_ends (drop 3 t) \<or> (case drop 3 t of d # w \<Rightarrow> is_digit 10 d \<and> word_ends w | [] \<Rightarrow> False))) (suffixes s)"

definition ui_strip_slashes :: "string \<Rightarrow> string" where
  "ui_strip_slashes s = rev (dropWhile (\<lambda>c. c = CHR ''/'') (rev s))"

definition kernelUrl :: "string \<Rightarrow> string \<Rightarrow> string \<Rightarrow> string" where
  "kernelUrl endpoint sessionId apiKey =
     (let ep = ui_strip_slashes endpoint; key = js_trim apiKey;
          base = ep @ (if names_version ep \<or> has_text ''connect'' ep then ''/connect?session='' else ''/ws?id='') @
            encodeURIComponent sessionId
      in if key = [] then base else base @ ''&apiKey='' @ encodeURIComponent key)"

end
