(* ===== verification/UiProps.thy ===== *)
theory UiProps
  imports UiRender
begin

text \<open>
  What the console's HTML can contain: the text of a reply adds no tag, and an escaped text is shown as it is;
  the verdict of the end-to-end run is that of its checks.  The last section shows the one way out, a quote in
  a MIME payload.
\<close>

section \<open>Tags\<close>

fun tags :: "string \<Rightarrow> string list" where
  "tags [] = []"
| "tags (c # s) = (if c = CHR ''<'' then takeWhile (\<lambda>c. c \<noteq> CHR ''>'') s # tags s else tags s)"

fun closed_tags :: "string \<Rightarrow> bool" where
  "closed_tags [] = True"
| "closed_tags (c # s) = ((c = CHR ''<'' \<longrightarrow> CHR ''>'' \<in> set s) \<and> closed_tags s)"

lemma tags_append: "closed_tags a \<Longrightarrow> tags (a @ b) = tags a @ tags b"
  by (induction a) (auto simp: takeWhile_append)

lemma closed_append: "closed_tags a \<Longrightarrow> closed_tags b \<Longrightarrow> closed_tags (a @ b)"
  by (induction a) auto

lemma no_tags: "CHR ''<'' \<notin> set s \<Longrightarrow> tags s = [] \<and> closed_tags s"
  by (induction s) auto

text \<open>A piece of HTML whose tags are closed and all among the given ones.\<close>

definition within :: "(string \<Rightarrow> bool) \<Rightarrow> string \<Rightarrow> bool" where
  "within P s \<longleftrightarrow> closed_tags s \<and> (\<forall>t \<in> set (tags s). P t)"

lemma within_append [intro]: "within P a \<Longrightarrow> within P b \<Longrightarrow> within P (a @ b)"
  by (auto simp: within_def tags_append closed_append)

lemma within_Nil [simp, intro]: "within P []"
  by (simp add: within_def)

lemma within_concat: "\<forall>x \<in> set xs. within P x \<Longrightarrow> within P (concat xs)"
  by (induction xs) auto

lemma within_plain: "CHR ''<'' \<notin> set s \<Longrightarrow> within P s"
  using no_tags[of s] by (simp add: within_def)

lemma within_mono: "within P s \<Longrightarrow> (\<And>t. P t \<Longrightarrow> R t) \<Longrightarrow> within R s"
  by (auto simp: within_def)

section \<open>Escaped text\<close>

lemma esc_char_safe: "CHR ''<'' \<notin> set (esc_char c) \<and> CHR ''>'' \<notin> set (esc_char c)"
  by (auto simp: esc_char_def)

lemma esc_safe: "CHR ''<'' \<notin> set (esc s)" "CHR ''>'' \<notin> set (esc s)"
  using esc_char_safe by (auto simp: esc_def)

lemma attr_safe: "CHR ''<'' \<notin> set (escAttr s)" "CHR ''>'' \<notin> set (escAttr s)"
  using esc_safe[of s] by (auto simp: escAttr_def split: if_splits)

lemma within_esc [simp, intro]: "within P (esc s)"
  by (rule within_plain) (rule esc_safe)

text \<open>The browser's reading of the three entities.\<close>

fun shown_text :: "string \<Rightarrow> string" where
  "shown_text [] = []"
| "shown_text (c # s) =
     (if c = CHR ''&'' then
        (if prefix ''amp;'' s then CHR ''&'' # shown_text (drop 4 s)
         else if prefix ''lt;'' s then CHR ''<'' # shown_text (drop 3 s)
         else if prefix ''gt;'' s then CHR ''>'' # shown_text (drop 3 s) else c # shown_text s)
      else c # shown_text s)"

text \<open>Every text is shown as it is.\<close>

theorem escaped_text_is_shown: "shown_text (esc s) = s"
proof (induction s)
  case (Cons c s)
  have "shown_text (esc_char c @ r) = c # shown_text r" for r by (simp add: esc_char_def)
  then show ?case using Cons by (simp add: esc_def)
qed (simp add: esc_def)

section \<open>The markup of a reply\<close>

definition class_tag :: "string \<Rightarrow> string \<Rightarrow> string" where
  "class_tag t c = t @ '' class='' @ Q @ c @ Q"

text \<open>The tags of the console itself.\<close>

definition own_tags :: "string list" where
  "own_tags =
     [class_tag ''span'' ''lead'', ''/span'', ''/div'', ''i'', ''/i'', ''/pre'', ''br'', ''strong'', ''/strong'',
      ''h2'', ''/h2'', ''h3'', ''/h3'', ''h4'', ''/h4'', ''/iframe''] @
     map (class_tag ''div'') [''log'', ''err'', ''err-stack'', ''val'', ''final'', ''mime-result'', ''mime-display'', ''mime-markdown''] @
     map (class_tag ''pre'') [''mime-json'', ''mime-plain'']"

definition frame_tag :: "string \<Rightarrow> string \<Rightarrow> string" where
  "frame_tag c s = ''iframe class='' @ Q @ c @ Q @ '' sandbox='' @ Q @ Q @ '' srcdoc='' @ Q @ escAttr s @ Q"

definition image_tag :: "string \<Rightarrow> string \<Rightarrow> string" where
  "image_tag mime s = ''img class='' @ Q @ ''mime-image'' @ Q @ '' alt='' @ Q @ Q @ '' src='' @ Q @ ''data:'' @ mime @ '';base64,'' @ escAttr s @ Q"

definition known_tag :: "string \<Rightarrow> bool" where
  "known_tag t \<longleftrightarrow> t \<in> set own_tags \<or> (\<exists>c s. c \<in> {''mime-html'', ''mime-svg''} \<and> t = frame_tag c s) \<or>
     (\<exists>m s. m \<in> {''image/png'', ''image/jpeg''} \<and> t = image_tag m s)"

lemma tag_within:
  assumes "CHR ''>'' \<notin> set t" "CHR ''<'' \<notin> set t" "P t"
  shows "within P (CHR ''<'' # t @ [CHR ''>''])"
proof -
  have "takeWhile (\<lambda>c. c \<noteq> CHR ''>'') (t @ [CHR ''>'']) = t" using assms(1) by (induction t) auto
  moreover have "tags (t @ [CHR ''>'']) = [] \<and> closed_tags (t @ [CHR ''>''])" using assms(2) by (intro no_tags) simp
  ultimately show ?thesis using assms(3) by (simp add: within_def)
qed

lemma own_within:
  assumes "t \<in> set own_tags"
  shows "within known_tag (CHR ''<'' # t @ [CHR ''>''])"
proof -
  have "list_all (\<lambda>t. CHR ''>'' \<notin> set t \<and> CHR ''<'' \<notin> set t) own_tags" by code_simp
  then show ?thesis using assms by (intro tag_within) (auto simp: list_all_iff known_tag_def)
qed

lemma own_texts [simp, intro]:
  "within known_tag ''</span>''" "within known_tag ''</div>''" "within known_tag ''<i>''" "within known_tag ''</i>''"
  "within known_tag ''</pre>''" "within known_tag ''<br>''" "within known_tag ''<strong>''" "within known_tag ''</strong>''"
  "within known_tag ''<i>undefined</i>''" "within known_tag ''></iframe>''"
proof -
  have o1: "t \<in> set own_tags" if "t \<in> {''/span'', ''/div'', ''i'', ''/i'', ''/pre'', ''br'', ''strong'', ''/strong'', ''/iframe''}" for t
    using that by (auto simp: own_tags_def)
  show "within known_tag ''</span>''" "within known_tag ''</div>''" "within known_tag ''<i>''" "within known_tag ''</i>''"
    "within known_tag ''</pre>''" "within known_tag ''<br>''" "within known_tag ''<strong>''" "within known_tag ''</strong>''"
    using own_within[OF o1] by fastforce+
  then have "within known_tag (''<i>'' @ ''undefined'' @ ''</i>'')" by (intro within_append) (auto intro: within_plain)
  then show "within known_tag ''<i>undefined</i>''" by simp
  have "within known_tag ''</iframe>''" using own_within[OF o1, of "''/iframe''"] by simp
  then have "within known_tag ([CHR ''>''] @ ''</iframe>'')" by (rule within_append[OF within_plain, rotated]) simp
  then show "within known_tag ''></iframe>''" by simp
qed

lemma class_within:
  assumes "class_tag t c \<in> set own_tags"
  shows "within known_tag (tag_class t c)"
  using own_within[OF assms] by (simp add: tag_class_def class_tag_def)

lemma blocks_within [intro]:
  assumes "c \<in> {''log'', ''err'', ''err-stack'', ''val'', ''final'', ''mime-result'', ''mime-display'', ''mime-markdown''}" "within known_tag s"
  shows "within known_tag (block c s)"
proof -
  have "class_tag ''div'' c \<in> set own_tags" using assms(1) by (auto simp: own_tags_def)
  then show ?thesis unfolding block_def using assms(2) by (intro within_append class_within) auto
qed

lemma lead_within [intro]: "c \<noteq> CHR ''<'' \<Longrightarrow> within known_tag (lead c)"
proof -
  assume c: "c \<noteq> CHR ''<''"
  have "class_tag ''span'' ''lead'' \<in> set own_tags" by (simp add: own_tags_def)
  then show ?thesis using c unfolding lead_def by (intro within_append class_within) (auto intro: within_plain)
qed

lemma leads_within [simp, intro]:
  "within known_tag (lead ANGLE)" "within known_tag (lead CROSS)" "within known_tag (lead ARROW)"
  by (auto simp: ANGLE_def CROSS_def ARROW_def)

lemma pre_within: "c \<in> {''mime-json'', ''mime-plain''} \<Longrightarrow> within known_tag (pre_html c s)"
proof -
  assume "c \<in> {''mime-json'', ''mime-plain''}"
  then have "class_tag ''pre'' c \<in> set own_tags" by (auto simp: own_tags_def)
  then show ?thesis unfolding pre_html_def by (intro within_append class_within) auto
qed

lemma logs_within: "within known_tag (log_lines r)"
  unfolding log_lines_def by (rule within_concat) auto

lemma errors_within: "within known_tag (error_lines e)"
proof -
  have "within known_tag '': ''" by (rule within_plain) simp
  then have "within known_tag (block ''err'' (lead CROSS @ esc a @ '': '' @ esc b))" for a b
    by (intro blocks_within within_append) simp_all
  then show ?thesis unfolding error_lines_def by (intro within_append) (auto split: option.splits)
qed

lemma final_within: "within known_tag (final_line r)"
proof -
  have "within known_tag ([STAR] @ '' FINAL [''  @ esc k @ '']: '' @ esc v)" for k v
    by (intro within_append) (auto intro: within_plain simp: STAR_def)
  then show ?thesis unfolding final_line_def by (auto split: option.splits)
qed

lemma value_within: "within known_tag (value_line r)"
  unfolding value_line_def Let_def by (auto split: option.splits)

lemma result_within: "within known_tag (renderResult r)"
  unfolding renderResult_def by (intro within_append) (auto intro: logs_within errors_within value_within final_within split: option.splits)

section \<open>Markdown\<close>

text \<open>Text with whole tags in it; no tag has a star or a line end.\<close>

definition md_tags :: "string list" where
  "md_tags = [''h2'', ''/h2'', ''h3'', ''/h3'', ''h4'', ''/h4'', ''strong'', ''/strong'']"

inductive marked :: "string \<Rightarrow> bool" where
  Nil: "marked []"
| Char: "c \<noteq> CHR ''<'' \<Longrightarrow> marked s \<Longrightarrow> marked (c # s)"
| Tag: "t \<in> set md_tags \<Longrightarrow> marked s \<Longrightarrow> marked (CHR ''<'' # t @ CHR ''>'' # s)"

lemma marked_plain: "CHR ''<'' \<notin> set s \<Longrightarrow> marked s"
  by (induction s) (auto intro: marked.intros)

lemma marked_append: "marked a \<Longrightarrow> marked b \<Longrightarrow> marked (a @ b)"
  by (induction rule: marked.induct) (auto intro: marked.intros)

lemma marked_in_tag: "t \<in> set md_tags \<Longrightarrow> marked s \<Longrightarrow> marked ((CHR ''<'' # t @ ''>'') @ s)"
  using marked.Tag by simp

lemma md_tag_chars: "t \<in> set md_tags \<Longrightarrow> CHR ''*'' \<notin> set t \<and> CHR 0x0A \<notin> set t \<and> t \<in> set own_tags"
  by (auto simp: md_tags_def own_tags_def)

lemma star_after:
  "CHR ''*'' \<notin> set p \<Longrightarrow> p @ s = a @ CHR ''*'' # b \<Longrightarrow> \<exists>a'. a = p @ a' \<and> s = a' @ CHR ''*'' # b"
proof (induction p arbitrary: a)
  case (Cons c p)
  then show ?case by (cases a) auto
qed simp

lemma marked_split: "marked s \<Longrightarrow> s = a @ CHR ''*'' # b \<Longrightarrow> marked a \<and> marked b"
proof (induction arbitrary: a rule: marked.induct)
  case (Char c s)
  then show ?case by (cases a) (auto intro: marked.intros)
next
  case (Tag t s)
  have "CHR ''*'' \<notin> set (CHR ''<'' # t @ ''>'')" using md_tag_chars[OF Tag(1)] by simp
  moreover have "(CHR ''<'' # t @ ''>'') @ s = a @ CHR ''*'' # b" using Tag(4) by simp
  ultimately obtain a' where "a = (CHR ''<'' # t @ ''>'') @ a'" "s = a' @ CHR ''*'' # b"
    using star_after[of "CHR ''<'' # t @ ''>''" s a b] by blast
  then show ?case using Tag(1,3) by (auto intro: marked.intros)
qed simp

lemma marked_split2: "marked (a @ ''**'' @ b) \<Longrightarrow> marked a \<and> marked b"
  using marked_split[of "a @ ''**'' @ b" a "CHR ''*'' # b"] marked_split[of "CHR ''*'' # b" "[]" b] by simp

lemma bold_skip: "CHR ''*'' \<notin> set t \<Longrightarrow> md_bold (t @ s) = t @ md_bold s"
proof (induction t)
  case (Cons c t)
  then have "\<not> prefix ''**'' ((c # t) @ s)" by (auto simp: prefix_def)
  then show ?case using Cons by (subst md_bold.simps) simp
qed simp

lemma bold_match:
  assumes "prefix ''**'' s" "prefix ''**'' (dropWhile not_star (drop 2 s))"
  shows "s = ''**'' @ takeWhile not_star (drop 2 s) @ ''**'' @ drop 2 (dropWhile not_star (drop 2 s))"
proof -
  obtain r where r: "s = ''**'' @ r" using assms(1) by (rule prefixE)
  obtain u where u: "dropWhile not_star r = ''**'' @ u" using assms(2) r by (auto elim: prefixE)
  have "r = takeWhile not_star r @ ''**'' @ u" using takeWhile_dropWhile_id[of not_star r] u by simp
  then show ?thesis using r u by simp
qed

lemma bold_marked: "marked s \<Longrightarrow> marked (md_bold s)"
proof (induction s rule: length_induct)
  case (1 s)
  let ?b = "takeWhile not_star (drop 2 s)" and ?u = "dropWhile not_star (drop 2 s)"
  show ?case
  proof (cases "s \<noteq> [] \<and> prefix ''**'' s \<and> ?b \<noteq> [] \<and> prefix ''**'' ?u")
    case True
    have s: "s = ''**'' @ ?b @ ''**'' @ drop 2 ?u" using True by (intro bold_match) auto
    then have "marked (?b @ ''**'' @ drop 2 ?u)"
      using "1.prems" marked_split2[of "[]" "?b @ ''**'' @ drop 2 ?u"] by (metis append_Nil)
    then have m: "marked ?b" "marked (drop 2 ?u)" using marked_split2[of ?b "drop 2 ?u"] by simp_all
    have "length (drop 2 ?u) < length s" by (subst (2) s) simp
    then have "marked (md_bold (drop 2 ?u))" using "1.IH" m(2) by blast
    then have "marked ((CHR ''<'' # ''strong'' @ ''>'') @ ?b @ (CHR ''<'' # ''/strong'' @ ''>'') @ md_bold (drop 2 ?u))"
      by (intro marked_in_tag marked_append m(1)) (auto simp: md_tags_def)
    then show ?thesis using True by (subst md_bold.simps) (simp add: Let_def)
  next
    case False
    from "1.prems" show ?thesis
    proof cases
      case Nil
      then show ?thesis by (simp add: md_bold.simps marked.Nil)
    next
      case (Char c r)
      have "md_bold s = c # md_bold r" using False Char(1) by (subst md_bold.simps) (auto simp: Let_def)
      then show ?thesis using "1.IH" Char by (simp add: marked.Char)
    next
      case (Tag t r)
      have "md_bold s = (CHR ''<'' # t @ ''>'') @ md_bold r"
        using bold_skip[of "CHR ''<'' # t @ ''>''" r] md_tag_chars[OF Tag(2)] Tag(1) by simp
      moreover have "marked (md_bold r)" using "1.IH" Tag(1,3) by simp
      ultimately show ?thesis using Tag(2) by (simp add: marked.Tag)
    qed
  qed
qed

lemma heading_marked: "t \<in> {''h2'', ''h3'', ''h4''} \<Longrightarrow> marked s \<Longrightarrow> marked (heading t s)"
proof -
  assume t: "t \<in> {''h2'', ''h3'', ''h4''}" and s: "marked s"
  have "t \<in> set md_tags" "CHR ''/'' # t \<in> set md_tags" using t by (auto simp: md_tags_def)
  then have "marked ((CHR ''<'' # t @ ''>'') @ s @ (CHR ''<'' # (CHR ''/'' # t) @ ''>'') @ [])"
    by (intro marked_in_tag marked_append s marked.Nil)
  then show ?thesis by (simp add: heading_def)
qed

lemma line_marked: "CHR ''<'' \<notin> set l \<Longrightarrow> marked (md_line l)"
  unfolding md_line_def by (auto intro!: heading_marked intro: marked_plain dest: in_set_dropD)

lemma lines_marked: "CHR ''<'' \<notin> set l \<Longrightarrow> CHR ''<'' \<notin> set s \<Longrightarrow> marked (md_lines l s)"
proof (induction l s rule: md_lines.induct)
  case (2 l c s)
  then have "marked (md_line (rev l) @ [c] @ md_lines [] s)" if "c = CHR 0x0A \<or> c = CHR 0x0D"
    using that by (intro marked_append line_marked) (auto intro: marked_plain)
  then show ?case using 2 by auto
qed (simp add: line_marked)

lemma breaks_within: "marked s \<Longrightarrow> within known_tag (concat (map (\<lambda>c. if c = CHR 0x0A then ''<br>'' else [c]) s))"
proof (induction rule: marked.induct)
  case (Char c s)
  have "within known_tag ((if c = CHR 0x0A then ''<br>'' else [c]) @ concat (map (\<lambda>c. if c = CHR 0x0A then ''<br>'' else [c]) s))"
    by (rule within_append[OF _ Char(3)]) (use Char(1) in \<open>auto intro: within_plain\<close>)
  then show ?case by simp
next
  case (Tag t s)
  let ?f = "\<lambda>c. if c = CHR 0x0A then ''<br>'' else [c]"
  have "concat (map ?f u) = u" if "CHR 0x0A \<notin> set u" for u using that by (induction u) auto
  then have "concat (map ?f t) = t" using md_tag_chars[OF Tag(1)] by blast
  then have "concat (map ?f (CHR ''<'' # t @ CHR ''>'' # s)) = (CHR ''<'' # t @ [CHR ''>'']) @ concat (map ?f s)" by simp
  moreover have "within known_tag (CHR ''<'' # t @ [CHR ''>''])" using md_tag_chars[OF Tag(1)] own_within by simp
  ultimately show ?case using Tag(3) by (simp only: within_append)
qed simp

lemma markdown_within: "within known_tag (renderMarkdownText s)"
  unfolding renderMarkdownText_def by (intro breaks_within bold_marked lines_marked) (simp_all add: esc_safe)

section \<open>Outputs\<close>

lemma frame_within: "c \<in> {''mime-html'', ''mime-svg''} \<Longrightarrow> within known_tag (frame_html c s)"
proof -
  assume c: "c \<in> {''mime-html'', ''mime-svg''}"
  have "within known_tag (CHR ''<'' # frame_tag c s @ [CHR ''>''])"
    by (rule tag_within) (use c attr_safe in \<open>auto simp: frame_tag_def Q_def known_tag_def\<close>)
  moreover have "within known_tag ''</iframe>''" using own_within[of "''/iframe''"] by (simp add: own_tags_def)
  ultimately have "within known_tag ((CHR ''<'' # frame_tag c s @ [CHR ''>'']) @ ''</iframe>'')" by (rule within_append)
  then show ?thesis by (simp add: frame_html_def frame_tag_def)
qed

lemma image_within: "m \<in> {''image/png'', ''image/jpeg''} \<Longrightarrow> within known_tag (image_html m s)"
proof -
  assume m: "m \<in> {''image/png'', ''image/jpeg''}"
  have "within known_tag (CHR ''<'' # image_tag m s @ [CHR ''>''])"
    by (rule tag_within) (use m attr_safe in \<open>auto simp: image_tag_def Q_def known_tag_def\<close>)
  then show ?thesis by (simp add: image_html_def image_tag_def)
qed

lemma bundle_within: "ui_renderMimeBundle art b = Inr h \<Longrightarrow> within known_tag h"
proof -
  have md: "within known_tag (block ''mime-markdown'' (renderMarkdownText t))" for t
    by (intro blocks_within markdown_within) simp
  have bind: "within known_tag h" if "rbind x (\<lambda>t. Inr (f t)) = Inr h" "\<And>t. within known_tag (f t)" for x f
    using that by (cases x) auto
  show "ui_renderMimeBundle art b = Inr h \<Longrightarrow> ?thesis"
    unfolding ui_renderMimeBundle_def Let_def
    by (auto split: option.splits json.splits list.splits if_splits
        intro: bind md frame_within image_within pre_within)
qed

lemma data_within:
  assumes "rbind (ui_renderMimeBundle art d) (\<lambda>h. Inr (block c h)) = Inr h" "c = ''mime-result'' \<or> c = ''mime-display''"
  shows "within known_tag h"
proof (cases "ui_renderMimeBundle art d")
  case (Inr b)
  then have "h = block c b" using assms(1) by simp
  then show ?thesis using bundle_within[OF Inr] assms(2) by (metis blocks_within insertCI)
qed (use assms in simp)

lemma output_within:
  assumes "renderMimeOutput art out = Inr h"
  shows "within known_tag h"
proof -
  have l: "within known_tag (block ''log'' (lead ANGLE @ esc x))" "within known_tag (block ''err'' (lead CROSS @ esc x))" for x
    by (intro blocks_within within_append; simp)+
  have if_eq: "(if b then x else y) = Inr h \<longleftrightarrow> (b \<and> x = Inr h \<or> \<not> b \<and> y = Inr h)" for b and x y :: "(string, string) result"
    by simp
  have c: "(if b then ''mime-result'' else ''mime-display'') = ''mime-result'' \<or> (if b then ''mime-result'' else ''mime-display'') = ''mime-display''" for b
    by (cases b) (simp_all only: if_True if_False simp_thms)
  from assms consider "h = []" | x where "h = block ''log'' (lead ANGLE @ esc x)" | x where "h = block ''err'' (lead CROSS @ esc x)"
    | d b where "rbind (ui_renderMimeBundle art d) (\<lambda>h. Inr (block (if b then ''mime-result'' else ''mime-display'') h)) = Inr h"
    unfolding renderMimeOutput_def Let_def if_eq
    by (cases "js_field ''data'' (Some out)") (simp only: option.case sum.inject, blast)+
  then show ?thesis by cases (use l data_within[OF _ c] in blast)+
qed

lemma outputs_within: "render_all art xs = Inr h \<Longrightarrow> within known_tag h"
proof (induction xs arbitrary: h)
  case (Cons x xs)
  then show ?case
    by (cases "renderMimeOutput art x"; cases "render_all art xs") (auto dest: output_within)
qed simp

text \<open>Whatever a reply holds in its logs, values, errors and outputs, and whatever the artifacts it names hold, the
  page shows it with the console's own tags and, for HTML, SVG and images, one frame or image with the escaped payload between the
  quotes of its last attribute: no text of a reply becomes a tag.  What is inside the frame or image tag is the
  subject of the last section.\<close>

theorem replies_add_no_tags:
  assumes "renderRichResult art r = Inr h" "t \<in> set (tags h)"
  shows "t \<in> set own_tags \<or> (\<exists>c s. c \<in> {''mime-html'', ''mime-svg''} \<and> t = frame_tag c s) \<or>
    (\<exists>m s. m \<in> {''image/png'', ''image/jpeg''} \<and> t = image_tag m s)"
proof -
  have "within known_tag h"
  proof (cases "array (json_get ''outputs'' r) = []")
    case True
    then show ?thesis using assms(1) result_within[of r] by (simp add: renderRichResult_def)
  next
    case False
    obtain hs where hs: "render_all art (array (json_get ''outputs'' r)) = Inr hs"
      "h = log_lines r @ (case failed r of Some e \<Rightarrow> error_lines e | None \<Rightarrow> []) @ hs @ final_line r"
      using assms(1) False by (cases "render_all art (array (json_get ''outputs'' r))") (auto simp: renderRichResult_def)
    show ?thesis unfolding hs(2)
      by (intro within_append) (auto intro: logs_within errors_within final_within outputs_within[OF hs(1)] split: option.splits)
  qed
  then show ?thesis using assms(2) by (auto simp: within_def known_tag_def)
qed

definition script_reply :: json where
  "script_reply = JObj [(''logs'', JArr [JStr ''<script>alert(1)</script>'']),
     (''outputs'', JArr [JObj [(''output_type'', JStr ''display_data''),
        (''data'', JObj [(''text/markdown'', JStr ''**<img src=x>**'')])]])]"

lemma replies_add_no_tags_witness:
  "\<exists>h. renderRichResult (\<lambda>_. Inl ''lost'') script_reply = Inr h \<and> ''strong'' \<in> set (tags h) \<and> ''script'' \<notin> set (tags h)"
proof -
  define h where "h = block ''log'' (lead ANGLE @ esc ''<script>alert(1)</script>'') @
    block ''mime-display'' (block ''mime-markdown'' (renderMarkdownText ''**<img src=x>**''))"
  have r: "renderRichResult (\<lambda>_. Inl ''lost'') script_reply = Inr h"
    by (simp add: h_def renderRichResult_def script_reply_def array_def log_lines_def log_text_def failed_def
        final_line_def js_field_def renderMimeOutput_def ui_renderMimeBundle_def mimeText_def isArtifactValue_def)
  have "''strong'' \<in> set (tags h)" unfolding h_def by code_simp
  moreover have "''script'' \<notin> set (tags h)"
    using replies_add_no_tags[OF r, of "''script''"]
    by (auto simp: own_tags_def class_tag_def frame_tag_def image_tag_def)
  ultimately show ?thesis using r by blast
qed

section \<open>The verdict\<close>

lemma has_text_simps:
  "has_text (a # p) [] = False" "has_text (a # p) (c # s) = (prefix (a # p) (c # s) \<or> has_text (a # p) s)"
  by (auto simp: has_text_def list_ex_iff)

lemma has_text_skip: "a \<notin> set u \<Longrightarrow> has_text (a # p) (u @ s) = has_text (a # p) s"
  by (induction u) (auto simp: has_text_simps)

lemma line_verdict:
  assumes "CHR ''>'' \<notin> set c" "length w = 5"
  shows "has_text ''>FAIL '' (e2eLine c (w @ s)) \<longleftrightarrow> esc w = ''FAIL '' \<or> prefix ''FAIL '' (esc (w @ s) @ ''</div>'')"
proof -
  have "has_text ''>FAIL '' ((''<div class='' @ Q @ c @ Q) @ CHR ''>'' # (esc (w @ s) @ ''</div'') @ ''>'')
      = (prefix ''>FAIL '' (CHR ''>'' # (esc (w @ s) @ ''</div'') @ ''>'') \<or> has_text ''>FAIL '' ((esc (w @ s) @ ''</div'') @ ''>''))"
    using assms(1) by (subst has_text_skip) (auto simp: Q_def has_text_simps)
  also have "has_text ''>FAIL '' ((esc (w @ s) @ ''</div'') @ ''>'') = False"
    using esc_safe by (subst has_text_skip) (auto simp: has_text_simps)
  finally show ?thesis by (auto simp: e2eLine_def tag_class_def esc_def)
qed

lemma pass_verdict: "\<not> has_text ''>FAIL '' (pass name d)"
  using line_verdict[of "''val''" "''PASS ''" "name @ detail_text d"] by (simp add: pass_def esc_def esc_char_def)

lemma fail_verdict: "has_text ''>FAIL '' (fail_line name d)"
  using line_verdict[of "''err''" "''FAIL ''" "name @ detail_text d"] by (simp add: fail_line_def esc_def esc_char_def)

text \<open>The run reports success exactly when each of the seven checks holds, whatever texts the replies carry into
  the page it searches.\<close>

theorem verdict_is_that_of_checks: "e2e_ok (e2e_lines x) \<longleftrightarrow> list_all fst (e2e_checks x)"
  unfolding e2e_ok_def e2e_lines_def list.pred_map
  by (rule list.pred_cong) (auto simp: pass_verdict fail_verdict split: prod.splits)

section \<open>A quote in a payload\<close>

text \<open>The names of a tag's attributes, as a browser reads them: a double quote opens and closes a value.\<close>

datatype place = TagName | Between | AttrName string | Value

fun attr_names :: "place \<Rightarrow> string \<Rightarrow> string list" where
  "attr_names _ [] = []"
| "attr_names TagName (c # s) = attr_names (if c = CHR '' '' then Between else TagName) s"
| "attr_names Between (c # s) = (if c = CHR '' '' then attr_names Between s else attr_names (AttrName [c]) s)"
| "attr_names (AttrName n) (c # s) =
     (if c = CHR 0x22 then rev (tl n) # attr_names Value s else attr_names (AttrName (c # n)) s)"
| "attr_names Value (c # s) = attr_names (if c = CHR 0x22 then Between else Value) s"

definition quote_reply :: json where
  "quote_reply = JObj [(''outputs'', JArr [JObj [(''output_type'', JStr ''display_data''),
     (''data'', JObj [(''text/html'', JStr (Q @ '' onload='' @ Q @ ''alert(1)''))])]])]"

text \<open>\<open>escAttr\<close> escapes the single quote and the attributes are in double quotes: a payload with a quote ends
  \<open>srcdoc\<close> and gives the frame an event handler, which runs in the page and not in the sandboxed frame.\<close>

lemma quote_adds_handler:
  defines "tag \<equiv> ''iframe class='' @ Q @ ''mime-html'' @ Q @ '' sandbox='' @ Q @ Q @ '' srcdoc='' @ Q @ Q @ '' onload='' @ Q @ ''alert(1)'' @ Q"
  shows "\<exists>h. renderRichResult (\<lambda>_. Inl ''lost'') quote_reply = Inr h \<and> tag \<in> set (tags h)"
    and "attr_names TagName tag = [''class'', ''sandbox'', ''srcdoc'', ''onload'']"
proof -
  define h where "h = block ''mime-display'' (frame_html ''mime-html'' (Q @ '' onload='' @ Q @ ''alert(1)''))"
  have "renderRichResult (\<lambda>_. Inl ''lost'') quote_reply = Inr h"
    by (simp add: h_def renderRichResult_def quote_reply_def array_def log_lines_def failed_def
        final_line_def js_field_def renderMimeOutput_def ui_renderMimeBundle_def mimeText_def isArtifactValue_def)
  moreover have h: "h = tag_class ''div'' ''mime-display'' @ ''<'' @ tag @ ''></iframe></div>''"
    by (simp add: h_def tag_def block_def frame_html_def escAttr_def esc_def esc_char_def Q_def)
  have "tags h = [''div class='' @ Q @ ''mime-display'' @ Q, tag, ''/iframe'', ''/div'']"
    unfolding h by (simp add: tag_def tag_class_def Q_def)
  ultimately show "\<exists>h. renderRichResult (\<lambda>_. Inl ''lost'') quote_reply = Inr h \<and> tag \<in> set (tags h)"
    by auto
  show "attr_names TagName tag = [''class'', ''sandbox'', ''srcdoc'', ''onload'']"
    by (simp add: tag_def Q_def)
qed

text \<open>A bundle of an unknown type is shown with a backslash and an n between its type and its data.\<close>

lemma unknown_bundle_shows_backslash:
  "ui_renderMimeBundle art (JObj [(''a'', JBool True)]) =
     Inr (tag_class ''pre'' ''mime-plain'' @ ''a'' @ [CHR 0x5C] @ ''ntrue</pre>'')"
  by (simp add: ui_renderMimeBundle_def js_field_def pre_html_def esc_def esc_char_def)

end
