(* ===== verification/UiKernel.thy ===== *)
theory UiKernel
  imports UiRender SdkTransport Artifacts
begin

text \<open>
  The browser console's client, class \<open>Kernel\<close> of \<open>apps/ui/src/kernel.ts\<close>.  An \<open>async\<close> method is cut at its
  \<open>await\<close>s; what is left of it is a run, waiting for a socket to open or for the answer to a request.  What settles a
  promise continues its run at once, and the end of a call starts the next one of the queue.  \<open>us_wire\<close> holds the
  requests a socket carried and that are not answered, which the code cannot see: a message that is no host call
  answers the oldest.  \<open>uk_own\<close> logs the request that carried the frame of a call.  Sockets follow the standard: a
  message is delivered while the socket is open, \<open>send\<close> throws while it connects and drops once it closes.
\<close>

section \<open>State\<close>

record ui_sock =
  us_url :: string
  us_ready :: ready
  us_opened :: bool
  us_wire :: "nat list"
  us_sent :: "json list"

text \<open>\<open>Thrown\<close> is an error of the browser itself.\<close>

datatype rejection = Err string | Thrown

datatype ui_outcome = Answered "nat option" json | Opened | Failed rejection

datatype ui_goal = JustOpen | SendFrame json

datatype ui_stage = AwaitOpen nat | AwaitAuth nat | AwaitCreate nat | AwaitOwn nat

record ui_coords =
  uc_endpoint :: string
  uc_session :: string
  uc_apiKey :: string

record ui_kernel =
  uk_coords :: ui_coords
  uk_config :: "json option"
  uk_hosts :: "string list"
  uk_ws :: "nat option"
  uk_socks :: "ui_sock list"
  uk_pending :: "nat option"
  uk_armed :: "nat list"
  uk_rpcs :: nat
  uk_answers :: "(nat \<times> ui_outcome) list"
  uk_runs :: "(nat \<times> ui_goal \<times> ui_stage) list"
  uk_calls :: nat
  uk_queue :: "(nat \<times> json) list"
  uk_busy :: "nat option"
  uk_settled :: "(nat \<times> ui_outcome) list"
  uk_own :: "(nat \<times> nat) list"
  uk_hostcalls :: "(json option \<times> string \<times> json option) list"
  uk_states :: "string list"
  uk_authErrors :: "(int \<times> string) list"
  uk_lastCloseCode :: int

definition new_Kernel :: "ui_coords \<Rightarrow> ui_kernel" where
  "new_Kernel c = \<lparr>uk_coords = c, uk_config = None, uk_hosts = [], uk_ws = None, uk_socks = [], uk_pending = None,
     uk_armed = [], uk_rpcs = 0, uk_answers = [], uk_runs = [], uk_calls = 0, uk_queue = [], uk_busy = None,
     uk_settled = [], uk_own = [], uk_hostcalls = [], uk_states = [], uk_authErrors = [], uk_lastCloseCode = 0\<rparr>"

definition setConfig :: "json \<Rightarrow> ui_kernel \<Rightarrow> ui_kernel" where
  "setConfig c st = st\<lparr>uk_config := Some c\<rparr>"

definition setHost :: "string \<Rightarrow> ui_kernel \<Rightarrow> ui_kernel" where
  "setHost name st = st\<lparr>uk_hosts := name # uk_hosts st\<rparr>"

definition kernel_url :: "ui_kernel \<Rightarrow> string" where
  "kernel_url st = kernelUrl (uc_endpoint (uk_coords st)) (uc_session (uk_coords st)) (uc_apiKey (uk_coords st))"

section \<open>Sending\<close>

definition at_sock :: "nat \<Rightarrow> (ui_sock \<Rightarrow> ui_sock) \<Rightarrow> ui_kernel \<Rightarrow> ui_kernel" where
  "at_sock s f st = st\<lparr>uk_socks := (uk_socks st)[s := f (uk_socks st ! s)]\<rparr>"

text \<open>\<open>send\<close> on a socket that does not connect; \<open>tag\<close> is the request, if it is one.\<close>

definition put_frame :: "nat list \<Rightarrow> json \<Rightarrow> ui_sock \<Rightarrow> ui_sock" where
  "put_frame tag m k =
     (if us_ready k = SockOpen then k\<lparr>us_wire := us_wire k @ tag, us_sent := us_sent k @ [m]\<rparr> else k)"

definition sendRaw :: "json \<Rightarrow> ui_kernel \<Rightarrow> ui_kernel" where
  "sendRaw m st =
     (case uk_ws st of
        None \<Rightarrow> st
      | Some s \<Rightarrow> if us_ready (uk_socks st ! s) = Connecting then st else at_sock s (put_frame [] m) st)"

text \<open>The request, or the error.\<close>

definition kernel_raw :: "json \<Rightarrow> ui_kernel \<Rightarrow> (rejection + nat) \<times> ui_kernel" where
  "kernel_raw m st =
     (case uk_ws st of
        None \<Rightarrow> (Inl (Err ''ws not open''), st)
      | Some s \<Rightarrow>
          (let r = uk_rpcs st; st = st\<lparr>uk_rpcs := r + 1\<rparr> in
           if us_ready (uk_socks st ! s) = Connecting then (Inl Thrown, st\<lparr>uk_pending := None\<rparr>)
           else (Inr r, at_sock s (put_frame [r] m) (st\<lparr>uk_pending := Some r, uk_armed := uk_armed st @ [r]\<rparr>))))"

section \<open>Opening\<close>

text \<open>What follows the opening: a run ends with an outcome or waits again.\<close>

definition ui_opened :: "nat \<Rightarrow> ui_goal \<Rightarrow> ui_kernel \<Rightarrow> (ui_outcome + ui_stage) \<times> ui_kernel" where
  "ui_opened c g st =
     (case g of
        JustOpen \<Rightarrow> (Inl Opened, st)
      | SendFrame m \<Rightarrow>
          (case kernel_raw m st of
             (Inl e, st') \<Rightarrow> (Inl (Failed e), st')
           | (Inr r, st') \<Rightarrow> (Inr (AwaitOwn r), st'\<lparr>uk_own := uk_own st' @ [(c, r)]\<rparr>)))"

definition after_auth :: "nat \<Rightarrow> ui_goal \<Rightarrow> ui_kernel \<Rightarrow> (ui_outcome + ui_stage) \<times> ui_kernel" where
  "after_auth c g st =
     (case uk_config st of
        None \<Rightarrow> ui_opened c g st
      | Some cfg \<Rightarrow>
          (case kernel_raw (JObj [(''t'', JStr ''create''), (''config'', cfg)]) st of
             (Inl e, st') \<Rightarrow> (Inl (Failed e), st')
           | (Inr r, st') \<Rightarrow> (Inr (AwaitCreate r), st')))"

definition after_connect :: "nat \<Rightarrow> ui_goal \<Rightarrow> ui_kernel \<Rightarrow> (ui_outcome + ui_stage) \<times> ui_kernel" where
  "after_connect c g st =
     (let key = js_trim (uc_apiKey (uk_coords st)) in
      if key = [] then after_auth c g st
      else (case kernel_raw (JObj [(''t'', JStr ''auth''), (''token'', JStr key)]) st of
          (Inl e, st') \<Rightarrow> after_auth c g st'
        | (Inr r, st') \<Rightarrow> (Inr (AwaitAuth r), st')))"

text \<open>\<open>valid\<close> are the addresses the \<open>WebSocket\<close> constructor takes.\<close>

definition kernel_open :: "(string \<Rightarrow> bool) \<Rightarrow> nat \<Rightarrow> ui_goal \<Rightarrow> ui_kernel \<Rightarrow> (ui_outcome + ui_stage) \<times> ui_kernel" where
  "kernel_open valid c g st =
     (if (case uk_ws st of Some s \<Rightarrow> us_ready (uk_socks st ! s) = SockOpen | None \<Rightarrow> False) then ui_opened c g st
      else
        (let st = st\<lparr>uk_states := uk_states st @ [''connecting'']\<rparr>; url = kernel_url st; n = length (uk_socks st) in
         if \<not> valid url then (Inl (Failed Thrown), st)
         else (Inr (AwaitOpen n), st\<lparr>uk_ws := Some n, uk_socks := uk_socks st @
                [\<lparr>us_url = url, us_ready = Connecting, us_opened = False, us_wire = [], us_sent = []\<rparr>]\<rparr>)))"

section \<open>The queue\<close>

definition finish :: "nat \<Rightarrow> ui_outcome \<Rightarrow> ui_kernel \<Rightarrow> ui_kernel" where
  "finish c oc st = st\<lparr>uk_settled := uk_settled st @ [(c, oc)]\<rparr>"

definition suspend :: "nat \<Rightarrow> ui_goal \<Rightarrow> ui_stage \<Rightarrow> ui_kernel \<Rightarrow> ui_kernel" where
  "suspend c g a st = st\<lparr>uk_runs := uk_runs st @ [(c, g, a)]\<rparr>"

fun start_jobs :: "(string \<Rightarrow> bool) \<Rightarrow> (nat \<times> json) list \<Rightarrow> ui_kernel \<Rightarrow> ui_kernel" where
  "start_jobs valid [] st = st\<lparr>uk_busy := None, uk_queue := []\<rparr>"
| "start_jobs valid ((c, m) # q) st =
     (case kernel_open valid c (SendFrame m) (st\<lparr>uk_busy := Some c, uk_queue := q\<rparr>) of
        (Inl oc, st') \<Rightarrow> start_jobs valid q (finish c oc st')
      | (Inr a, st') \<Rightarrow> suspend c (SendFrame m) a st')"

definition conclude :: "(string \<Rightarrow> bool) \<Rightarrow> nat \<Rightarrow> ui_goal \<Rightarrow> (ui_outcome + ui_stage) \<times> ui_kernel \<Rightarrow> ui_kernel" where
  "conclude valid c g x =
     (case x of
        (Inr a, st) \<Rightarrow> suspend c g a st
      | (Inl oc, st) \<Rightarrow> if uk_busy st = Some c then start_jobs valid (uk_queue st) (finish c oc st) else finish c oc st)"

definition kernel_send :: "(string \<Rightarrow> bool) \<Rightarrow> json \<Rightarrow> ui_kernel \<Rightarrow> ui_kernel" where
  "kernel_send valid m st =
     (let c = uk_calls st; st = st\<lparr>uk_calls := c + 1\<rparr> in
      if uk_busy st = None then start_jobs valid [(c, m)] st else st\<lparr>uk_queue := uk_queue st @ [(c, m)]\<rparr>)"

definition open_call :: "(string \<Rightarrow> bool) \<Rightarrow> ui_kernel \<Rightarrow> ui_kernel" where
  "open_call valid st =
     (let c = uk_calls st; st = st\<lparr>uk_calls := c + 1\<rparr> in conclude valid c JustOpen (kernel_open valid c JustOpen st))"

section \<open>Events\<close>

fun rpc_of :: "ui_stage \<Rightarrow> nat option" where
  "rpc_of (AwaitOpen s) = None"
| "rpc_of (AwaitAuth r) = Some r"
| "rpc_of (AwaitCreate r) = Some r"
| "rpc_of (AwaitOwn r) = Some r"

definition continue_run :: "(string \<Rightarrow> bool) \<Rightarrow> nat \<times> ui_goal \<times> ui_stage \<Rightarrow> ui_outcome \<Rightarrow> ui_kernel \<Rightarrow> ui_kernel" where
  "continue_run valid run oc st =
     (case run of (c, g, a) \<Rightarrow>
      let st = st\<lparr>uk_runs := remove1 run (uk_runs st)\<rparr> in
      conclude valid c g
        (case a of
           AwaitOpen s \<Rightarrow> (case oc of Failed e \<Rightarrow> (Inl oc, st) | _ \<Rightarrow> after_connect c g st)
         | AwaitAuth r \<Rightarrow> after_auth c g st
         | AwaitCreate r \<Rightarrow> (case oc of Failed e \<Rightarrow> (Inl oc, st) | _ \<Rightarrow> ui_opened c g st)
         | AwaitOwn r \<Rightarrow> (Inl oc, st)))"

text \<open>The promise of a request settles once; its run goes on.\<close>

definition settle_request :: "(string \<Rightarrow> bool) \<Rightarrow> nat \<Rightarrow> ui_outcome \<Rightarrow> ui_kernel \<Rightarrow> ui_kernel" where
  "settle_request valid r oc st =
     (if r \<in> fst ` set (uk_answers st) then st
      else
        (let st = st\<lparr>uk_answers := uk_answers st @ [(r, oc)]\<rparr> in
         case find (\<lambda>(c, g, a). rpc_of a = Some r) (uk_runs st) of
           None \<Rightarrow> st
         | Some run \<Rightarrow> continue_run valid run oc st))"

text \<open>Taking the pending request: its timer is cleared.\<close>

definition settle_pending :: "(string \<Rightarrow> bool) \<Rightarrow> ui_outcome \<Rightarrow> ui_kernel \<Rightarrow> ui_kernel" where
  "settle_pending valid oc st =
     (case uk_pending st of
        None \<Rightarrow> st
      | Some r \<Rightarrow> settle_request valid r oc (st\<lparr>uk_pending := None, uk_armed := remove1 r (uk_armed st)\<rparr>))"

definition ui_host_result :: "json option \<Rightarrow> (string, json option) result \<Rightarrow> json" where
  "ui_host_result i res =
     JObj ([(''t'', JStr ''hostcall-result'')] @ (case i of Some x \<Rightarrow> [(''id'', x)] | None \<Rightarrow> []) @
       (case res of
          Inr v \<Rightarrow> [(''ok'', JBool True)] @ (case v of Some x \<Rightarrow> [(''value'', x)] | None \<Rightarrow> [])
        | Inl e \<Rightarrow> [(''ok'', JBool False), (''error'', JStr e)]))"

definition host_name :: "json \<Rightarrow> string" where
  "host_name m = (case json_get ''name'' m of Some v \<Rightarrow> js_String v | None \<Rightarrow> ''undefined'')"

text \<open>\<open>s\<close> is the socket the message came on; \<open>None\<close> is a text that does not parse.\<close>

definition kernel_onMessage :: "(string \<Rightarrow> bool) \<Rightarrow> nat \<Rightarrow> json option \<Rightarrow> ui_kernel \<Rightarrow> ui_kernel" where
  "kernel_onMessage valid s parsed st =
     (let answers = (case us_wire (uk_socks st ! s) of [] \<Rightarrow> None | t # _ \<Rightarrow> Some t);
          st' = at_sock s (\<lambda>k. k\<lparr>us_wire := tl (us_wire k)\<rparr>) st in
      case parsed of
        None \<Rightarrow> settle_pending valid (Failed (Err ''malformed kernel reply'')) st'
      | Some m \<Rightarrow>
          if json_get ''t'' m = Some (JStr ''hostcall'') then
            (if host_name m \<in> set (uk_hosts st)
             then st\<lparr>uk_hostcalls := uk_hostcalls st @ [(json_get ''id'' m, host_name m, json_get ''args'' m)]\<rparr>
             else sendRaw (ui_host_result (json_get ''id'' m) (Inl (''no host fn '' @ host_name m))) st)
          else settle_pending valid (Answered answers m) st')"

definition is_auth_code :: "int \<Rightarrow> bool" where
  "is_auth_code code = (code \<in> {1008, 4001, 4401, 401})"

definition kernel_onClose :: "(string \<Rightarrow> bool) \<Rightarrow> int \<Rightarrow> string \<Rightarrow> ui_kernel \<Rightarrow> ui_kernel" where
  "kernel_onClose valid code reason st =
     (let st = st\<lparr>uk_lastCloseCode := code, uk_states := uk_states st @ [''disconnected''],
                 uk_authErrors := uk_authErrors st @ (if is_auth_code code then [(code, reason)] else [])\<rparr>;
          why = (if reason \<noteq> [] then reason else if code = 1008 then ''auth rejected'' else ''ws closed before reply'')
      in settle_pending valid (Failed (Err why)) st)"

definition kernel_close :: "ui_kernel \<Rightarrow> ui_kernel" where
  "kernel_close st =
     (case uk_ws st of
        None \<Rightarrow> st
      | Some s \<Rightarrow> (at_sock s (\<lambda>k. k\<lparr>us_ready := closing (us_ready k)\<rparr>) st)\<lparr>uk_ws := None\<rparr>)"

definition on_timer :: "(string \<Rightarrow> bool) \<Rightarrow> nat \<Rightarrow> ui_kernel \<Rightarrow> ui_kernel" where
  "on_timer valid r st =
     settle_request valid r (Failed (Err ''rpc timeout''))
       (st\<lparr>uk_armed := remove1 r (uk_armed st), uk_pending := (if uk_pending st = Some r then None else uk_pending st)\<rparr>)"

text \<open>The moves: the page's calls, the events of a socket, the timers and the results of host functions.  A socket that
  ends before it opened reports an error first.\<close>

datatype ui_move =
    Call json
  | OpenCall
  | CloseCall
  | Configure json
  | AddHost string
  | EditForm ui_coords
  | SocketOpens nat
  | Message nat "json option"
  | PeerCloses nat
  | SocketEnds nat int string
  | Expires nat
  | HostDone nat "(string, json option) result"

definition resume_open :: "(string \<Rightarrow> bool) \<Rightarrow> nat \<Rightarrow> ui_outcome \<Rightarrow> ui_kernel \<Rightarrow> ui_kernel" where
  "resume_open valid s oc st =
     (case find (\<lambda>(c, g, a). a = AwaitOpen s) (uk_runs st) of
        None \<Rightarrow> st
      | Some run \<Rightarrow> continue_run valid run oc st)"

definition sock_is :: "nat \<Rightarrow> (ui_sock \<Rightarrow> bool) \<Rightarrow> ui_kernel \<Rightarrow> bool" where
  "sock_is s P st = (s < length (uk_socks st) \<and> P (uk_socks st ! s))"

fun ui_step :: "(string \<Rightarrow> bool) \<Rightarrow> ui_move \<Rightarrow> ui_kernel \<Rightarrow> ui_kernel" where
  "ui_step valid (Call m) st = kernel_send valid m st"
| "ui_step valid OpenCall st = open_call valid st"
| "ui_step valid CloseCall st = kernel_close st"
| "ui_step valid (Configure c) st = setConfig c st"
| "ui_step valid (AddHost n) st = setHost n st"
| "ui_step valid (EditForm c) st = st\<lparr>uk_coords := c\<rparr>"
| "ui_step valid (SocketOpens s) st =
     (if sock_is s (\<lambda>k. us_ready k = Connecting) st
      then resume_open valid s Opened (at_sock s (\<lambda>k. k\<lparr>us_ready := SockOpen, us_opened := True\<rparr>) st) else st)"
| "ui_step valid (Message s p) st = (if sock_is s (\<lambda>k. us_ready k = SockOpen) st then kernel_onMessage valid s p st else st)"
| "ui_step valid (PeerCloses s) st =
     (if sock_is s (\<lambda>k. us_ready k = SockOpen) st then at_sock s (\<lambda>k. k\<lparr>us_ready := Closing\<rparr>) st else st)"
| "ui_step valid (SocketEnds s code reason) st =
     (if sock_is s (\<lambda>k. us_ready k \<noteq> SockClosed) st then
        (let fresh = \<not> us_opened (uk_socks st ! s); st = at_sock s (\<lambda>k. k\<lparr>us_ready := SockClosed\<rparr>) st in
         kernel_onClose valid code reason
           (if fresh then resume_open valid s (Failed (Err ''ws error'')) st else st))
      else st)"
| "ui_step valid (Expires r) st = (if r \<in> set (uk_armed st) then on_timer valid r st else st)"
| "ui_step valid (HostDone n res) st =
     (if n < length (uk_hostcalls st)
      then sendRaw (ui_host_result (fst (uk_hostcalls st ! n)) res)
             (st\<lparr>uk_hostcalls := take n (uk_hostcalls st) @ drop (n + 1) (uk_hostcalls st)\<rparr>)
      else st)"

fun ui_run :: "(string \<Rightarrow> bool) \<Rightarrow> ui_move list \<Rightarrow> ui_kernel \<Rightarrow> ui_kernel" where
  "ui_run valid [] st = st"
| "ui_run valid (m # ms) st = ui_run valid ms (ui_step valid m st)"

section \<open>Calls\<close>

definition ui_eval_frame :: "string \<Rightarrow> json" where
  "ui_eval_frame src = JObj [(''t'', JStr ''eval''), (''src'', JStr src)]"

definition gen_frame :: json where "gen_frame = JObj [(''t'', JStr ''gen'')]"
definition evict_frame :: json where "evict_frame = JObj [(''t'', JStr ''evict'')]"
definition reset_frame :: json where "reset_frame = JObj [(''t'', JStr ''reset'')]"

text \<open>The chunks of an artifact, each answered by \<open>tx\<close>; the kernel takes a negative length for zero.\<close>

definition ui_artifact_len :: "int option \<Rightarrow> nat" where
  "ui_artifact_len chunk = (case chunk of Some n \<Rightarrow> if n = 0 then 131072 else nat n | None \<Rightarrow> 131072)"

definition artifact_data :: "json \<Rightarrow> string" where
  "artifact_data r = (case json_get ''data'' r of Some (JStr d) \<Rightarrow> d | _ \<Rightarrow> [])"

partial_function (option) ui_artifact_loop ::
  "'s transport \<Rightarrow> string \<Rightarrow> nat \<Rightarrow> nat \<Rightarrow> string \<Rightarrow> 's \<Rightarrow> ((engram_error, string) result \<times> 's) option" where
  "ui_artifact_loop tx h len off out s =
     (case tx s (artifact_frame h off len) of
        (Inl e, s') \<Rightarrow> Some (Inl e, s')
      | (Inr r, s') \<Rightarrow>
          if json_get ''ok'' r = Some (JBool False)
          then Some (Inl (EngramError (text_or (Option.bind (json_get ''error'' r) (json_get ''message'')) ''artifact read failed'')), s')
          else
            (let d = artifact_data r in
             if js_field ''done'' (Some r) \<noteq> None \<or> d = [] then Some (Inr (out @ d), s')
             else ui_artifact_loop tx h len (off + length d) (out @ d) s'))"

definition ui_readArtifact ::
  "'s transport \<Rightarrow> string \<Rightarrow> int option \<Rightarrow> 's \<Rightarrow> ((engram_error, string) result \<times> 's) option" where
  "ui_readArtifact tx h chunk s = ui_artifact_loop tx h (ui_artifact_len chunk) 0 [] s"

end
