(* ===== verification/UiKernelProps.thy ===== *)
theory UiKernelProps
  imports UiKernel "HOL-Library.Multiset"
begin

text \<open>
  The console's client over every run of calls, socket events and timers: each call settles once or still waits for
  something that ends, and, on a page that neither opens outside the queue nor closes nor lets a request expire,
  each call is answered with the reply to its own frame.  The last section drops these provisos one by one.
\<close>

section \<open>Every call is accounted for\<close>

text \<open>What a stage waits for: a socket or a request.\<close>

fun key :: "ui_stage \<Rightarrow> nat + nat" where
  "key (AwaitOpen s) = Inl s"
| "key (AwaitAuth r) = Inr r"
| "key (AwaitCreate r) = Inr r"
| "key (AwaitOwn r) = Inr r"

lemma key_rpc: "key a = Inr r \<longleftrightarrow> rpc_of a = Some r" "key a = Inl s \<longleftrightarrow> a = AwaitOpen s"
  by (cases a; simp)+

definition stage_ok :: "ui_kernel \<Rightarrow> ui_stage \<Rightarrow> bool" where
  "stage_ok st a =
     (case key a of
        Inl s \<Rightarrow> s < length (uk_socks st) \<and> \<not> us_opened (uk_socks st ! s) \<and> us_ready (uk_socks st ! s) \<in> {Connecting, Closing}
      | Inr r \<Rightarrow> r \<in> set (uk_armed st) \<and> r \<notin> fst ` set (uk_answers st))"

definition run_key :: "nat \<times> ui_goal \<times> ui_stage \<Rightarrow> nat + nat" where
  "run_key x = key (snd (snd x))"

definition waits_ok :: "ui_kernel \<Rightarrow> bool" where
  "waits_ok st \<longleftrightarrow>
     (\<forall>x \<in> set (uk_runs st). stage_ok st (snd (snd x))) \<and> distinct (map run_key (uk_runs st)) \<and>
     distinct (uk_armed st) \<and> set (uk_armed st) \<subseteq> {..<uk_rpcs st} \<and> fst ` set (uk_answers st) \<subseteq> {..<uk_rpcs st} \<and>
     (\<forall>r. uk_pending st = Some r \<longrightarrow> r \<in> set (uk_armed st))"

definition client_calls :: "ui_kernel \<Rightarrow> nat multiset" where
  "client_calls st = mset (map fst (uk_settled st)) + mset (map fst (uk_queue st)) + mset (map fst (uk_runs st))"

text \<open>\<open>F\<close> are the calls whose run is being continued.\<close>

definition client_core :: "nat list \<Rightarrow> ui_kernel \<Rightarrow> bool" where
  "client_core F st \<longleftrightarrow> client_calls st + mset F = mset [0..<uk_calls st] \<and> waits_ok st"

lemma stage_ok_simps [simp]:
  "stage_ok (st\<lparr>uk_rpcs := a1\<rparr>) a = stage_ok st a" "stage_ok (st\<lparr>uk_pending := a2\<rparr>) a = stage_ok st a"
  "stage_ok (st\<lparr>uk_ws := a3\<rparr>) a = stage_ok st a" "stage_ok (st\<lparr>uk_states := a4\<rparr>) a = stage_ok st a"
  "stage_ok (st\<lparr>uk_own := a5\<rparr>) a = stage_ok st a" "stage_ok (st\<lparr>uk_settled := a6\<rparr>) a = stage_ok st a"
  "stage_ok (st\<lparr>uk_queue := a7\<rparr>) a = stage_ok st a" "stage_ok (st\<lparr>uk_runs := a8\<rparr>) a = stage_ok st a"
  "stage_ok (st\<lparr>uk_busy := a9\<rparr>) a = stage_ok st a" "stage_ok (st\<lparr>uk_calls := a10\<rparr>) a = stage_ok st a"
  "stage_ok (st\<lparr>uk_coords := a11\<rparr>) a = stage_ok st a" "stage_ok (st\<lparr>uk_config := a12\<rparr>) a = stage_ok st a"
  "stage_ok (st\<lparr>uk_hosts := a13\<rparr>) a = stage_ok st a" "stage_ok (st\<lparr>uk_hostcalls := a14\<rparr>) a = stage_ok st a"
  "stage_ok (st\<lparr>uk_authErrors := a15\<rparr>) a = stage_ok st a" "stage_ok (st\<lparr>uk_lastCloseCode := a16\<rparr>) a = stage_ok st a"
  by (simp_all add: stage_ok_def split: sum.splits)

lemma client_calls_simps [simp]:
  "client_calls (st\<lparr>uk_rpcs := a1\<rparr>) = client_calls st" "client_calls (st\<lparr>uk_pending := a2\<rparr>) = client_calls st"
  "client_calls (st\<lparr>uk_ws := a3\<rparr>) = client_calls st" "client_calls (st\<lparr>uk_states := a4\<rparr>) = client_calls st"
  "client_calls (st\<lparr>uk_own := a5\<rparr>) = client_calls st" "client_calls (st\<lparr>uk_armed := a6\<rparr>) = client_calls st"
  "client_calls (st\<lparr>uk_answers := a7\<rparr>) = client_calls st" "client_calls (st\<lparr>uk_socks := a8\<rparr>) = client_calls st"
  "client_calls (st\<lparr>uk_busy := a9\<rparr>) = client_calls st" "client_calls (st\<lparr>uk_calls := a10\<rparr>) = client_calls st"
  "client_calls (st\<lparr>uk_coords := a11\<rparr>) = client_calls st" "client_calls (st\<lparr>uk_config := a12\<rparr>) = client_calls st"
  "client_calls (st\<lparr>uk_hosts := a13\<rparr>) = client_calls st" "client_calls (st\<lparr>uk_hostcalls := a14\<rparr>) = client_calls st"
  "client_calls (st\<lparr>uk_authErrors := a15\<rparr>) = client_calls st" "client_calls (st\<lparr>uk_lastCloseCode := a16\<rparr>) = client_calls st"
  by (simp_all add: client_calls_def)

text \<open>A socket changes and keeps its state of readiness.\<close>

lemma stage_ok_at_sock:
  assumes "\<And>k. us_opened (f k) = us_opened k" "\<And>k. us_ready (f k) = us_ready k"
  shows "stage_ok (at_sock s f st) a = stage_ok st a"
proof -
  have "us_opened ((uk_socks st)[s := f (uk_socks st ! s)] ! i) = us_opened (uk_socks st ! i) \<and>
      us_ready ((uk_socks st)[s := f (uk_socks st ! s)] ! i) = us_ready (uk_socks st ! i)" for i
    using assms by (cases "s < length (uk_socks st)"; cases "i = s") (simp_all add: list_update_beyond)
  then show ?thesis by (simp add: stage_ok_def at_sock_def split: sum.splits)
qed

lemma stage_ok_put [simp]: "stage_ok (at_sock s (put_frame t m) st) a = stage_ok st a"
  by (rule stage_ok_at_sock) (simp_all add: put_frame_def)

lemma stage_ok_pop [simp]: "stage_ok (at_sock s (\<lambda>k. k\<lparr>us_wire := tl (us_wire k)\<rparr>) st) a = stage_ok st a"
  by (rule stage_ok_at_sock) simp_all

lemma stage_ok_mono:
  "stage_ok st a \<Longrightarrow> uk_socks st' = uk_socks st \<Longrightarrow> set (uk_armed st) \<subseteq> set (uk_armed st') \<Longrightarrow> uk_answers st' = uk_answers st
     \<Longrightarrow> stage_ok st' a"
  by (auto simp: stage_ok_def split: sum.splits)

lemma at_sock_fields [simp]:
  "uk_runs (at_sock s f st) = uk_runs st" "uk_queue (at_sock s f st) = uk_queue st" "uk_busy (at_sock s f st) = uk_busy st"
  "uk_settled (at_sock s f st) = uk_settled st" "uk_calls (at_sock s f st) = uk_calls st" "uk_answers (at_sock s f st) = uk_answers st"
  "uk_armed (at_sock s f st) = uk_armed st" "uk_rpcs (at_sock s f st) = uk_rpcs st" "uk_pending (at_sock s f st) = uk_pending st"
  "uk_ws (at_sock s f st) = uk_ws st" "uk_own (at_sock s f st) = uk_own st" "client_calls (at_sock s f st) = client_calls st"
  "uk_config (at_sock s f st) = uk_config st" "length (uk_socks (at_sock s f st)) = length (uk_socks st)"
  by (simp_all add: at_sock_def)

lemma raw_fails: "client_core F st \<Longrightarrow> kernel_raw m st = (Inl e, st') \<Longrightarrow> client_core F st'"
  by (auto simp: kernel_raw_def Let_def client_core_def waits_ok_def split: option.splits if_splits) (auto simp: less_Suc_eq)

text \<open>What opening and sending leave alone.\<close>

definition kept :: "ui_kernel \<Rightarrow> ui_kernel \<Rightarrow> bool" where
  "kept st st' \<longleftrightarrow> uk_runs st' = uk_runs st \<and> uk_queue st' = uk_queue st \<and> uk_busy st' = uk_busy st \<and>
     uk_settled st' = uk_settled st \<and> uk_calls st' = uk_calls st \<and> uk_answers st' = uk_answers st"

lemma kept_trans: "kept a b \<Longrightarrow> kept b c \<Longrightarrow> kept a c"
  by (simp add: kept_def)

lemma raw_kept: "kernel_raw m st = (x, st') \<Longrightarrow> kept st st'"
  by (auto simp: kernel_raw_def Let_def kept_def at_sock_def split: option.splits if_splits)

lemma opened_kept: "ui_opened c g st = (x, st') \<Longrightarrow> kept st st'"
  by (auto simp: ui_opened_def kept_def dest!: raw_kept split: ui_goal.splits prod.splits sum.splits)

lemma auth_kept: "after_auth c g st = (x, st') \<Longrightarrow> kept st st'"
  by (auto simp: after_auth_def dest: raw_kept opened_kept split: option.splits prod.splits sum.splits)

lemma connect_kept: "after_connect c g st = (x, st') \<Longrightarrow> kept st st'"
  by (auto simp: after_connect_def Let_def dest: raw_kept auth_kept intro: kept_trans split: if_splits prod.splits sum.splits)

lemma open_kept: "kernel_open v c g st = (x, st') \<Longrightarrow> kept st st'"
  by (auto simp: kernel_open_def Let_def dest: opened_kept split: option.splits if_splits) (simp_all add: kept_def)

lemma waits_okI:
  assumes "\<And>x. x \<in> set (uk_runs st) \<Longrightarrow> stage_ok st (snd (snd x))" "distinct (map run_key (uk_runs st))"
    "distinct (uk_armed st)" "set (uk_armed st) \<subseteq> {..<uk_rpcs st}" "fst ` set (uk_answers st) \<subseteq> {..<uk_rpcs st}"
    "\<And>r. uk_pending st = Some r \<Longrightarrow> r \<in> set (uk_armed st)"
  shows "waits_ok st"
  using assms unfolding waits_ok_def by blast

lemma waits_okD:
  assumes "waits_ok st"
  shows "\<And>x. x \<in> set (uk_runs st) \<Longrightarrow> stage_ok st (snd (snd x))" "distinct (map run_key (uk_runs st))"
    "distinct (uk_armed st)" "set (uk_armed st) \<subseteq> {..<uk_rpcs st}" "fst ` set (uk_answers st) \<subseteq> {..<uk_rpcs st}"
    "\<And>r. uk_pending st = Some r \<Longrightarrow> r \<in> set (uk_armed st)"
  using assms unfolding waits_ok_def by blast+

lemma waiting_request:
  "waits_ok st \<Longrightarrow> Inr r \<in> run_key ` set (uk_runs st) \<Longrightarrow> r \<in> set (uk_armed st) \<and> r \<notin> fst ` set (uk_answers st)"
proof -
  assume w: "waits_ok st" and r: "Inr r \<in> run_key ` set (uk_runs st)"
  obtain x where x: "x \<in> set (uk_runs st)" "key (snd (snd x)) = Inr r" using r by (auto simp: run_key_def)
  then show ?thesis using waits_okD(1)[OF w x(1)] by (simp add: stage_ok_def)
qed

lemma waiting_socket:
  "waits_ok st \<Longrightarrow> Inl s \<in> run_key ` set (uk_runs st) \<Longrightarrow>
     s < length (uk_socks st) \<and> \<not> us_opened (uk_socks st ! s) \<and> us_ready (uk_socks st ! s) \<in> {Connecting, Closing}"
  by (auto dest!: waits_okD(1) simp: stage_ok_def run_key_def split: sum.splits)

text \<open>A request that is sent, and the run that waits for it.\<close>

lemma raw_waits_key:
  assumes "client_core (c # F) st" "kernel_raw m st = (Inr r, st')" "key a = Inr r"
  shows "client_core F (suspend c g a st')"
proof -
  obtain s where s: "r = uk_rpcs st"
    "st' = at_sock s (put_frame [r] m) (st\<lparr>uk_rpcs := r + 1, uk_pending := Some r, uk_armed := uk_armed st @ [r]\<rparr>)"
    using assms(2) by (auto simp: kernel_raw_def Let_def split: option.splits if_splits)
  have w: "waits_ok st" using assms(1) by (simp add: client_core_def)
  have fresh: "r \<notin> fst ` set (uk_answers st)" "r \<notin> set (uk_armed st)" using waits_okD(4,5)[OF w] s(1) by auto
  have new: "Inr r \<notin> run_key ` set (uk_runs st)" using waiting_request[OF w] fresh(2) by blast
  have old: "stage_ok (suspend c g a st') (snd (snd x))" if "x \<in> set (uk_runs st)" for x
    unfolding suspend_def s(2) stage_ok_simps stage_ok_put by (rule stage_ok_mono[OF waits_okD(1)[OF w that]]) auto
  have this_ok: "stage_ok (suspend c g a st') a"
    using assms(3) fresh(1) by (simp add: suspend_def s(2) stage_ok_def)
  have "waits_ok (suspend c g a st')"
  proof (rule waits_okI)
    fix x assume "x \<in> set (uk_runs (suspend c g a st'))"
    then have "x \<in> set (uk_runs st) \<or> x = (c, g, a)" by (auto simp: suspend_def s(2))
    then show "stage_ok (suspend c g a st') (snd (snd x))" using old[of x] this_ok by (elim disjE) simp_all
  next
    show "distinct (map run_key (uk_runs (suspend c g a st')))"
      using waits_okD(2)[OF w] new assms(3) by (simp add: suspend_def s(2) run_key_def)
  qed (use waits_okD(3-6)[OF w] fresh s(1) in \<open>auto simp: suspend_def s(2)\<close>)
  moreover have "client_calls (suspend c g a st') + mset F = mset [0..<uk_calls st']"
    using assms(1) by (simp add: client_core_def suspend_def s(2) client_calls_def ac_simps)
  ultimately show ?thesis by (simp add: client_core_def suspend_def)
qed

lemma raw_waits:
  assumes "client_core [c] st" "kernel_raw m st = (Inr r, st')"
  shows "client_core [] (suspend c g (AwaitAuth r) st')" "client_core [] (suspend c g (AwaitCreate r) st')" "client_core [] (suspend c g (AwaitOwn r) st')"
  using raw_waits_key[OF assms] by simp_all

lemma own_log: "client_core F (suspend c g a (st\<lparr>uk_own := o'\<rparr>)) = client_core F (suspend c g a st)"
  by (simp add: client_core_def waits_ok_def suspend_def client_calls_def)

text \<open>The result of a continued run.\<close>

definition result_ok :: "nat \<Rightarrow> ui_goal \<Rightarrow> (ui_outcome + ui_stage) \<times> ui_kernel \<Rightarrow> bool" where
  "result_ok c g x = (case x of (Inl oc, st) \<Rightarrow> client_core [c] st | (Inr a, st) \<Rightarrow> client_core [] (suspend c g a st))"

lemma opened_ok: "client_core [c] st \<Longrightarrow> result_ok c g (ui_opened c g st)"
  by (auto simp: ui_opened_def result_ok_def own_log dest: raw_fails raw_waits split: ui_goal.splits prod.splits sum.splits)

lemma auth_ok: "client_core [c] st \<Longrightarrow> result_ok c g (after_auth c g st)"
  unfolding after_auth_def using opened_ok[of c st g]
  by (auto simp: result_ok_def dest: raw_fails raw_waits split: option.splits prod.splits sum.splits)

lemma after_connect_ok: "client_core [c] st \<Longrightarrow> result_ok c g (after_connect c g st)"
proof -
  assume a: "client_core [c] st"
  have "result_ok c g (after_auth c g st')" if "kernel_raw m st = (Inl e, st')" for m e st'
    using auth_ok raw_fails[OF a that] by blast
  then show ?thesis unfolding after_connect_def Let_def using auth_ok[OF a] raw_waits(1)[OF a]
    by (auto simp: result_ok_def[of c g "(Inr _, _)"] split: prod.splits sum.splits)
qed

lemma open_ok:
  assumes "client_core [c] st"
  shows "result_ok c g (kernel_open valid c g st)"
proof -
  have w: "waits_ok st" using assms by (simp add: client_core_def)
  let ?n = "length (uk_socks st)"
  define fresh where "fresh = (\<lambda>s u. st\<lparr>uk_states := s, uk_ws := Some ?n,
     uk_socks := uk_socks st @ [\<lparr>us_url = u, us_ready = Connecting, us_opened = False, us_wire = [], us_sent = []\<rparr>]\<rparr>)"
  have o: "stage_ok (suspend c g (AwaitOpen ?n) (fresh s u)) a" if "stage_ok st a" for a s u
    using that by (auto simp: stage_ok_def suspend_def nth_append fresh_def split: sum.splits)
  have n: "stage_ok (suspend c g (AwaitOpen ?n) (fresh s u)) (AwaitOpen ?n)" for s u by (simp add: stage_ok_def suspend_def fresh_def)
  have new: "Inl ?n \<notin> run_key ` set (uk_runs st)" using waiting_socket[OF w] by blast
  have "waits_ok (suspend c g (AwaitOpen ?n) (fresh s u))" for s u
  proof (rule waits_okI)
    fix x assume "x \<in> set (uk_runs (suspend c g (AwaitOpen ?n) (fresh s u)))"
    then have "x \<in> set (uk_runs st) \<or> x = (c, g, AwaitOpen ?n)" by (auto simp: suspend_def fresh_def)
    then show "stage_ok (suspend c g (AwaitOpen ?n) (fresh s u)) (snd (snd x))"
      using o[OF waits_okD(1)[OF w, of x]] n by (elim disjE) simp_all
  next
    show "distinct (map run_key (uk_runs (suspend c g (AwaitOpen ?n) (fresh s u))))"
      using waits_okD(2)[OF w] new by (simp add: suspend_def run_key_def fresh_def)
  qed (use waits_okD(3-6)[OF w] in \<open>auto simp: suspend_def fresh_def\<close>)
  moreover have "client_calls (suspend c g (AwaitOpen ?n) (fresh s u)) = mset [0..<uk_calls st]" for s u
    using assms by (simp add: client_core_def suspend_def client_calls_def ac_simps fresh_def)
  ultimately have "client_core [] (suspend c g (AwaitOpen ?n) (fresh s u))" for s u by (simp add: client_core_def suspend_def fresh_def)
  moreover have "client_core [c] (st\<lparr>uk_states := s\<rparr>)" for s using assms by (simp add: client_core_def waits_ok_def)
  ultimately show ?thesis using opened_ok[OF assms]
    by (auto simp: kernel_open_def Let_def result_ok_def fresh_def)
qed

section \<open>The queue\<close>

definition sends :: "ui_kernel \<Rightarrow> nat set" where
  "sends st = {c. \<exists>m a. (c, SendFrame m, a) \<in> set (uk_runs st)}"

definition goal_call :: "nat \<Rightarrow> ui_goal \<Rightarrow> nat set" where
  "goal_call c g = (case g of JustOpen \<Rightarrow> {} | SendFrame m \<Rightarrow> {c})"

definition busy_ok :: "nat set \<Rightarrow> ui_kernel \<Rightarrow> bool" where
  "busy_ok F st \<longleftrightarrow> (uk_busy st = None \<longrightarrow> uk_queue st = []) \<and> sends st \<union> F = set_option (uk_busy st)"

definition client_inv :: "ui_kernel \<Rightarrow> bool" where
  "client_inv st \<longleftrightarrow> client_core [] st \<and> busy_ok {} st"

lemma sends_suspend: "sends (suspend c g a st) = sends st \<union> goal_call c g"
  by (auto simp: sends_def suspend_def goal_call_def split: ui_goal.splits)

lemma busy_suspend: "busy_ok (goal_call c g) st \<Longrightarrow> busy_ok {} (suspend c g a st)"
  by (simp add: busy_ok_def sends_suspend) (simp add: suspend_def)

lemma waits_fields: "waits_ok st \<Longrightarrow> uk_runs st' = uk_runs st \<Longrightarrow> uk_socks st' = uk_socks st \<Longrightarrow> uk_armed st' = uk_armed st \<Longrightarrow>
    uk_rpcs st' = uk_rpcs st \<Longrightarrow> uk_answers st' = uk_answers st \<Longrightarrow> uk_pending st' = uk_pending st \<Longrightarrow> waits_ok st'"
proof -
  assume "uk_socks st' = uk_socks st" "uk_armed st' = uk_armed st" "uk_answers st' = uk_answers st"
  then have "stage_ok st' = stage_ok st" by (intro ext) (simp only: stage_ok_def)
  then show "waits_ok st \<Longrightarrow> uk_runs st' = uk_runs st \<Longrightarrow> uk_socks st' = uk_socks st \<Longrightarrow> uk_armed st' = uk_armed st \<Longrightarrow>
    uk_rpcs st' = uk_rpcs st \<Longrightarrow> uk_answers st' = uk_answers st \<Longrightarrow> uk_pending st' = uk_pending st \<Longrightarrow> waits_ok st'"
    by (simp add: waits_ok_def)
qed

lemma jobs_ok:
  assumes "waits_ok st" "sends st = {}" "client_calls (st\<lparr>uk_queue := []\<rparr>) + mset (map fst q) = mset [0..<uk_calls st]"
  shows "client_inv (start_jobs valid q st)"
  using assms
proof (induction q arbitrary: st)
  case Nil
  then show ?case
    by (auto simp: client_inv_def client_core_def busy_ok_def sends_def client_calls_def intro: waits_fields[of st])
next
  case (Cons x q)
  obtain c m where x: "x = (c, m)" by (cases x)
  define st0 where "st0 = st\<lparr>uk_busy := Some c, uk_queue := q\<rparr>"
  have "client_core [c] st0" unfolding client_core_def
  proof
    show "client_calls st0 + mset [c] = mset [0..<uk_calls st0]"
      using Cons.prems(3) by (simp add: client_calls_def st0_def x ac_simps)
    show "waits_ok st0" by (rule waits_fields[OF Cons.prems(1)]) (simp_all add: st0_def)
  qed
  then have r: "result_ok c (SendFrame m) (kernel_open valid c (SendFrame m) st0)" by (rule open_ok)
  obtain y st' where k: "kernel_open valid c (SendFrame m) st0 = (y, st')" by (metis surj_pair)
  have kept: "kept st0 st'" by (rule open_kept[OF k])
  have s0: "sends st' = {}" using kept Cons.prems(2) by (simp add: sends_def kept_def st0_def)
  show ?case
  proof (cases y)
    case (Inl oc)
    then have c: "client_core [c] st'" using r k by (simp add: result_ok_def)
    have "client_inv (start_jobs valid q (finish c oc st'))"
    proof (rule Cons.IH)
      show "waits_ok (finish c oc st')" using c by (auto simp: client_core_def finish_def intro: waits_fields)
      show "sends (finish c oc st') = {}" using s0 by (simp add: sends_def finish_def)
      show "client_calls (finish c oc st'\<lparr>uk_queue := []\<rparr>) + mset (map fst q) = mset [0..<uk_calls (finish c oc st')]"
        using c kept by (simp add: client_core_def client_calls_def finish_def kept_def st0_def ac_simps)
    qed
    then show ?thesis using x k Inl by (simp add: st0_def)
  next
    case (Inr a)
    have "busy_ok (goal_call c (SendFrame m)) st'"
      using s0 kept by (simp add: busy_ok_def kept_def st0_def goal_call_def)
    then show ?thesis using x k Inr r busy_suspend by (simp add: st0_def client_inv_def result_ok_def)
  qed
qed

lemma conclude_ok:
  assumes "result_ok c g x" "busy_ok (goal_call c g) (snd x)" "c \<notin> fst ` set (uk_runs (snd x))"
  shows "client_inv (conclude valid c g x)"
proof (cases x)
  case (Pair y st)
  show ?thesis
  proof (cases y)
    case (Inr a)
    then show ?thesis using assms(1,2) busy_suspend Pair by (simp add: conclude_def client_inv_def result_ok_def)
  next
    case (Inl oc)
    then have c: "client_core [c] st" using assms(1) Pair by (simp add: result_ok_def)
    have s: "c \<notin> sends st" using assms(3) Pair by (force simp: sends_def)
    have w: "waits_ok (finish c oc st)" using c by (auto simp: client_core_def finish_def intro: waits_fields)
    show ?thesis
    proof (cases "uk_busy st = Some c")
      case True
      then have "sends st = {}" using assms(2) s Pair by (auto simp: busy_ok_def)
      then have "client_inv (start_jobs valid (uk_queue st) (finish c oc st))"
        using c w by (intro jobs_ok) (simp_all add: sends_def finish_def client_core_def client_calls_def ac_simps)
      then show ?thesis using True Inl Pair by (simp add: conclude_def)
    next
      case False
      then have "g = JustOpen" using assms(2) Pair by (auto simp: busy_ok_def goal_call_def split: ui_goal.splits)
      then have "busy_ok {} (finish c oc st)" using assms(2) Pair by (simp add: busy_ok_def goal_call_def finish_def sends_def)
      moreover have "client_core [] (finish c oc st)" using c w by (simp add: client_core_def finish_def client_calls_def ac_simps)
      ultimately show ?thesis using False Inl Pair by (simp add: conclude_def client_inv_def)
    qed
  qed
qed

section \<open>Continuing a run\<close>

text \<open>All waits hold but that on \<open>k\<close>, which has just ended.\<close>

definition ended :: "nat + nat \<Rightarrow> ui_kernel \<Rightarrow> bool" where
  "ended k st \<longleftrightarrow> busy_ok {} st \<and> client_calls st = mset [0..<uk_calls st] \<and>
     (\<forall>x \<in> set (uk_runs st). run_key x \<noteq> k \<longrightarrow> stage_ok st (snd (snd x))) \<and> distinct (map run_key (uk_runs st)) \<and>
     distinct (uk_armed st) \<and> set (uk_armed st) \<subseteq> {..<uk_rpcs st} \<and> fst ` set (uk_answers st) \<subseteq> {..<uk_rpcs st} \<and>
     (\<forall>r. uk_pending st = Some r \<longrightarrow> r \<in> set (uk_armed st))"

lemma ended_none: "ended k st \<Longrightarrow> k \<notin> run_key ` set (uk_runs st) \<Longrightarrow> client_inv st"
  unfolding ended_def client_inv_def client_core_def waits_ok_def by (metis add_0_right image_eqI mset.simps(1))

lemma continue_ok:
  assumes "ended k st" "x \<in> set (uk_runs st)" "run_key x = k"
  shows "client_inv (continue_run valid x oc st)"
proof -
  obtain c g a where x: "x = (c, g, a)" by (cases x)
  define st0 where "st0 = st\<lparr>uk_runs := remove1 x (uk_runs st)\<rparr>"
  have d: "distinct (map run_key (uk_runs st))" and calls: "client_calls st = mset [0..<uk_calls st]" and b: "busy_ok {} st"
    using assms(1) by (simp_all add: ended_def)
  have dr: "distinct (uk_runs st)" using d by (simp add: distinct_map)
  have sub: "set (uk_runs st0) = set (uk_runs st) - {x}" using dr by (simp add: st0_def)
  have minus: "client_calls st0 + {#c#} = client_calls st"
  proof -
    have "mset (uk_runs st) = add_mset x (mset (uk_runs st0))" using assms(2) by (simp add: st0_def)
    moreover have "uk_settled st0 = uk_settled st" "uk_queue st0 = uk_queue st" by (simp_all add: st0_def)
    ultimately show ?thesis by (simp add: client_calls_def x)
  qed
  have w0: "waits_ok st0"
  proof (rule waits_okI)
    fix y assume "y \<in> set (uk_runs st0)"
    then have "y \<in> set (uk_runs st)" "run_key y \<noteq> k" using d assms(2,3) sub by (auto simp: distinct_map inj_on_def)
    then have "stage_ok st (snd (snd y))" using assms(1) unfolding ended_def by blast
    then show "stage_ok st0 (snd (snd y))" by (simp add: st0_def)
  next
    show "distinct (map run_key (uk_runs st0))" using d dr sub by (simp add: distinct_map st0_def inj_on_diff)
  qed (use assms(1) in \<open>auto simp: ended_def st0_def\<close>)
  have "uk_calls st0 = uk_calls st" by (simp add: st0_def)
  then have client_core: "client_core [c] st0" using calls minus w0 by (simp add: client_core_def)
  have "count (client_calls st) c \<le> 1" unfolding calls using distinct_count_atmost_1[of "[0..<uk_calls st]"] by (auto split: if_splits)
  then have "c \<notin># client_calls st0" unfolding minus[symmetric] by (simp add: not_in_iff)
  then have c0: "c \<notin> fst ` set (uk_runs st0)" by (auto simp: client_calls_def)
  have "sends st0 \<union> goal_call c g = sends st"
    using assms(2) sub by (auto simp: sends_def goal_call_def x split: ui_goal.splits)
  then have b0: "busy_ok (goal_call c g) st0" using b by (simp add: busy_ok_def) (simp add: st0_def)
  have all_ok: "client_inv (conclude valid c g y)" if "result_ok c g y" "kept st0 (snd y)" for y
    using that b0 c0 by (intro conclude_ok) (auto simp: kept_def busy_ok_def sends_def)
  have "client_inv (conclude valid c g (after_connect c g st0))"
    by (rule all_ok[OF after_connect_ok[OF client_core] connect_kept[OF surjective_pairing]])
  moreover have "client_inv (conclude valid c g (after_auth c g st0))"
    by (rule all_ok[OF auth_ok[OF client_core] auth_kept[OF surjective_pairing]])
  moreover have "client_inv (conclude valid c g (ui_opened c g st0))"
    by (rule all_ok[OF opened_ok[OF client_core] opened_kept[OF surjective_pairing]])
  moreover have "client_inv (conclude valid c g (Inl oc, st0))"
    by (rule all_ok) (simp_all add: result_ok_def client_core kept_def)
  ultimately show ?thesis unfolding continue_run_def Let_def x prod.case st0_def[unfolded x, symmetric]
    by (auto split: ui_stage.splits ui_outcome.splits)
qed

lemma found: "find P xs = Some x \<Longrightarrow> x \<in> set xs \<and> P x"
  by (induction xs) (auto split: if_splits)

text \<open>A request that is settled, with its timer and its place cleared.\<close>

lemma settle_request_ok:
  assumes "ended (Inr r) st" "r < uk_rpcs st" "r \<in> fst ` set (uk_answers st) \<longrightarrow> Inr r \<notin> run_key ` set (uk_runs st)"
  shows "client_inv (settle_request valid r oc st)"
proof (cases "r \<in> fst ` set (uk_answers st)")
  case True
  then show ?thesis using assms ended_none by (simp add: settle_request_def)
next
  case False
  define st0 where "st0 = st\<lparr>uk_answers := uk_answers st @ [(r, oc)]\<rparr>"
  have "stage_ok st0 (snd (snd y))" if "y \<in> set (uk_runs st)" "run_key y \<noteq> Inr r" for y
  proof -
    have "stage_ok st (snd (snd y))" using assms(1) that unfolding ended_def by blast
    then show ?thesis using that(2) by (auto simp: stage_ok_def st0_def run_key_def split: sum.splits)
  qed
  then have e: "ended (Inr r) st0" using assms(1,2) by (simp add: ended_def busy_ok_def sends_def st0_def)
  show ?thesis
  proof (cases "find (\<lambda>(c, g, a). rpc_of a = Some r) (uk_runs st)")
    case None
    then have "Inr r \<notin> run_key ` set (uk_runs st0)" by (force simp: find_None_iff run_key_def st0_def key_rpc dest!: sym[of "Inr r"])
    then show ?thesis using False None ended_none[OF e] by (simp add: settle_request_def st0_def)
  next
    case (Some x)
    then have "x \<in> set (uk_runs st0)" "run_key x = Inr r" using found[OF Some] by (auto simp: run_key_def st0_def key_rpc)
    then show ?thesis using False Some continue_ok[OF e] by (simp add: settle_request_def st0_def)
  qed
qed

section \<open>The moves\<close>

lemma inv_fields:
  assumes "client_inv st" "uk_runs st' = uk_runs st" "uk_socks st' = uk_socks st" "uk_armed st' = uk_armed st"
    "uk_rpcs st' = uk_rpcs st" "uk_answers st' = uk_answers st" "uk_pending st' = uk_pending st" "uk_busy st' = uk_busy st"
    "uk_queue st' = uk_queue st" "uk_settled st' = uk_settled st" "uk_calls st' = uk_calls st"
  shows "client_inv st'"
proof -
  have w: "waits_ok st" using assms(1) by (simp add: client_inv_def client_core_def)
  have "waits_ok st'" by (rule waits_fields[OF w]) (rule assms)+
  moreover have "client_calls st' = client_calls st" unfolding client_calls_def assms(2,9,10) by (rule refl)
  moreover have "sends st' = sends st" unfolding sends_def assms(2) by (rule refl)
  ultimately show ?thesis using assms(1,8-11) by (simp add: client_inv_def client_core_def busy_ok_def)
qed

lemma inv_stages:
  assumes "client_inv st" "\<And>a. stage_ok st a \<Longrightarrow> stage_ok (at_sock s f st) a"
  shows "client_inv (at_sock s f st)"
proof -
  have w: "waits_ok st" using assms(1) by (simp add: client_inv_def client_core_def)
  have "waits_ok (at_sock s f st)" by (rule waits_okI) (use waits_okD[OF w] assms(2) in auto)
  then show ?thesis using assms(1) by (simp add: client_inv_def client_core_def busy_ok_def sends_def)
qed

lemma ended_sock:
  assumes "client_inv st"
  shows "ended (Inl s) (at_sock s f st)"
proof -
  have w: "waits_ok st" using assms by (simp add: client_inv_def client_core_def)
  have "stage_ok (at_sock s f st) (snd (snd x))" if "x \<in> set (uk_runs st)" "run_key x \<noteq> Inl s" for x
    using waits_okD(1)[OF w that(1)] that(2) by (auto simp: stage_ok_def run_key_def at_sock_def split: sum.splits)
  then show ?thesis using assms waits_okD[OF w] by (auto simp: ended_def client_inv_def client_core_def busy_ok_def sends_def)
qed

lemma pending_ok:
  assumes "client_inv st"
  shows "client_inv (settle_pending valid oc st)"
proof (cases "uk_pending st")
  case (Some r)
  have w: "waits_ok st" using assms by (simp add: client_inv_def client_core_def)
  let ?st = "st\<lparr>uk_pending := None, uk_armed := remove1 r (uk_armed st)\<rparr>"
  have "stage_ok ?st (snd (snd x))" if "x \<in> set (uk_runs st)" "run_key x \<noteq> Inr r" for x
    using waits_okD(1)[OF w that(1)] that(2) waits_okD(3)[OF w] by (auto simp: stage_ok_def run_key_def split: sum.splits)
  moreover have "set (remove1 r (uk_armed st)) \<subseteq> {..<uk_rpcs st}" using waits_okD(4)[OF w] by (auto dest: notin_set_remove1)
  ultimately have "ended (Inr r) ?st"
    using assms waits_okD[OF w] by (simp add: ended_def client_inv_def client_core_def busy_ok_def sends_def)
  moreover have "r < uk_rpcs st" using waits_okD(4,6)[OF w] Some by auto
  moreover have "r \<in> fst ` set (uk_answers st) \<longrightarrow> Inr r \<notin> run_key ` set (uk_runs st)" using waiting_request[OF w] by blast
  ultimately show ?thesis using Some settle_request_ok by (simp add: settle_pending_def)
qed (simp add: settle_pending_def assms)

lemma timer_ok:
  assumes "client_inv st" "r \<in> set (uk_armed st)"
  shows "client_inv (on_timer valid r st)"
proof -
  have w: "waits_ok st" using assms by (simp add: client_inv_def client_core_def)
  let ?st = "st\<lparr>uk_armed := remove1 r (uk_armed st), uk_pending := (if uk_pending st = Some r then None else uk_pending st)\<rparr>"
  have "stage_ok ?st (snd (snd x))" if "x \<in> set (uk_runs st)" "run_key x \<noteq> Inr r" for x
    using waits_okD(1)[OF w that(1)] that(2) waits_okD(3)[OF w] by (auto simp: stage_ok_def run_key_def split: sum.splits)
  moreover have "set (remove1 r (uk_armed st)) \<subseteq> {..<uk_rpcs st}" using waits_okD(4)[OF w] by (auto dest: notin_set_remove1)
  moreover have "\<forall>r'. uk_pending ?st = Some r' \<longrightarrow> r' \<in> set (uk_armed ?st)" using waits_okD(3,6)[OF w] by auto
  ultimately have "ended (Inr r) ?st"
    using assms waits_okD(2,3,5)[OF w] by (simp add: ended_def client_inv_def client_core_def busy_ok_def sends_def)
  moreover have "r < uk_rpcs st" using waits_okD(4)[OF w] assms(2) by auto
  moreover have "r \<in> fst ` set (uk_answers st) \<longrightarrow> Inr r \<notin> run_key ` set (uk_runs st)" using waiting_request[OF w] by blast
  ultimately show ?thesis using settle_request_ok by (simp add: on_timer_def)
qed

lemma raw_frame_ok: "client_inv st \<Longrightarrow> client_inv (sendRaw m st)"
  by (auto simp: sendRaw_def intro: inv_stages split: option.splits)

lemma close_event_ok: "client_inv st \<Longrightarrow> client_inv (kernel_onClose valid code reason st)"
  unfolding kernel_onClose_def Let_def by (rule pending_ok, erule inv_fields) simp_all

lemma message_ok: "client_inv st \<Longrightarrow> client_inv (kernel_onMessage valid s p st)"
  unfolding kernel_onMessage_def Let_def
  by (auto intro!: pending_ok raw_frame_ok split: option.splits intro: inv_stages inv_fields)

lemma resume_ok:
  assumes "ended (Inl s) st"
  shows "client_inv (resume_open valid s oc st)"
proof (cases "find (\<lambda>(c, g, a). a = AwaitOpen s) (uk_runs st)")
  case None
  then have "Inl s \<notin> run_key ` set (uk_runs st)" by (force simp: find_None_iff run_key_def key_rpc dest!: sym[of "Inl s"])
  then show ?thesis using None ended_none[OF assms] by (simp add: resume_open_def)
next
  case (Some x)
  then have "x \<in> set (uk_runs st)" "run_key x = Inl s" using found[OF Some] by (auto simp: run_key_def key_rpc)
  then show ?thesis using Some continue_ok[OF assms] by (simp add: resume_open_def)
qed

lemma no_opening:
  assumes "client_inv st" "us_opened (uk_socks st ! s) \<or> us_ready (uk_socks st ! s) = SockOpen"
  shows "client_inv (at_sock s f st)"
proof -
  have "Inl s \<notin> run_key ` set (uk_runs st)"
    using waiting_socket[of st s] assms by (auto simp: client_inv_def client_core_def)
  then show ?thesis by (intro ended_none[OF ended_sock[OF assms(1)]]) simp
qed

lemma close_ok: "client_inv st \<Longrightarrow> client_inv (kernel_close st)"
proof (cases "uk_ws st")
  case (Some s)
  let ?f = "\<lambda>k. k\<lparr>us_ready := closing (us_ready k)\<rparr>"
  assume "client_inv st"
  moreover have "stage_ok (at_sock s ?f st) a" if "stage_ok st a" for a
    using that by (cases "s < length (uk_socks st)")
      (auto simp: stage_ok_def at_sock_def nth_list_update closing_def list_update_beyond split: sum.splits)
  ultimately have "client_inv (at_sock s ?f st)" by (rule inv_stages)
  then show ?thesis using Some by (simp add: kernel_close_def) (erule inv_fields; simp)
qed (simp add: kernel_close_def)

lemma waits_ignore:
  "waits_ok (st\<lparr>uk_calls := n\<rparr>) = waits_ok st" "waits_ok (st\<lparr>uk_calls := n, uk_queue := q\<rparr>) = waits_ok st"
  by (simp_all add: waits_ok_def)

lemma new_call:
  assumes "client_inv st"
  shows "waits_ok st" "client_calls st + {#uk_calls st#} = mset [0..<uk_calls st + 1]" "busy_ok {} st"
  using assms by (simp_all add: client_inv_def client_core_def)

lemma send_ok:
  assumes "client_inv st"
  shows "client_inv (kernel_send valid m st)"
proof (cases "uk_busy st = None")
  case True
  let ?st = "st\<lparr>uk_calls := uk_calls st + 1\<rparr>"
  have q: "sends ?st = {}" "uk_queue st = []" using True new_call(3)[OF assms] by (simp_all add: busy_ok_def sends_def)
  then have "client_calls (?st\<lparr>uk_queue := []\<rparr>) = client_calls st" by (simp add: client_calls_def)
  then have "client_inv (start_jobs valid [(uk_calls st, m)] ?st)"
    using new_call[OF assms] q by (intro jobs_ok) (simp_all add: waits_ignore)
  then show ?thesis using True by (simp add: kernel_send_def Let_def del: start_jobs.simps)
next
  case False
  let ?st = "st\<lparr>uk_calls := uk_calls st + 1, uk_queue := uk_queue st @ [(uk_calls st, m)]\<rparr>"
  have "client_calls ?st = client_calls st + {#uk_calls st#}" by (simp add: client_calls_def)
  moreover have "busy_ok {} ?st" using new_call(3)[OF assms] False by (simp add: busy_ok_def sends_def)
  ultimately have "client_inv ?st" using new_call(1,2)[OF assms] by (simp add: client_inv_def client_core_def waits_ignore)
  then show ?thesis using False by (auto simp: kernel_send_def Let_def)
qed

lemma open_call_ok:
  assumes "client_inv st"
  shows "client_inv (open_call valid st)"
proof -
  let ?c = "uk_calls st"
  let ?st = "st\<lparr>uk_calls := ?c + 1\<rparr>"
  have "client_core [?c] ?st" using new_call(1,2)[OF assms] by (simp add: client_core_def waits_ignore)
  then have r: "result_ok ?c JustOpen (kernel_open valid ?c JustOpen ?st)" by (rule open_ok)
  have k: "kept ?st (snd (kernel_open valid ?c JustOpen ?st))" by (rule open_kept) (rule surjective_pairing)
  have "?c \<notin># client_calls st" using assms by (simp add: client_inv_def client_core_def)
  then have "?c \<notin> fst ` set (uk_runs st)" by (auto simp: client_calls_def)
  then have "client_inv (conclude valid ?c JustOpen (kernel_open valid ?c JustOpen ?st))"
    using r k new_call(3)[OF assms] by (intro conclude_ok) (simp_all add: kept_def busy_ok_def sends_def goal_call_def)
  then show ?thesis by (simp add: open_call_def Let_def)
qed

lemma step_ok: "client_inv st \<Longrightarrow> client_inv (ui_step valid m st)"
proof (induction valid m st rule: ui_step.induct)
  case (10 valid s code reason st)
  then show ?case using no_opening[OF 10, of s] resume_ok[OF ended_sock[OF 10]] by (auto simp: Let_def intro!: close_event_ok)
qed (auto intro: send_ok open_call_ok close_ok resume_ok ended_sock message_ok no_opening timer_ok raw_frame_ok
  intro!: raw_frame_ok simp: setConfig_def setHost_def sock_is_def elim: inv_fields)

lemma client_run_ok: "client_inv st \<Longrightarrow> client_inv (ui_run valid ms st)"
  by (induction valid ms st rule: ui_run.induct) (simp_all add: step_ok)

lemma start_ok: "client_inv (new_Kernel c)"
  by (simp add: client_inv_def client_core_def busy_ok_def sends_def client_calls_def waits_ok_def new_Kernel_def)

text \<open>Whatever the page, the sockets and the timers do: every call is settled once, or is in the queue behind a running
  one, or waits for a socket that has neither opened nor ended, or for a request whose timer is armed.\<close>

theorem no_call_is_lost:
  "let st = ui_run valid ms (new_Kernel coords) in
     mset (map fst (uk_settled st) @ map fst (uk_queue st) @ map fst (uk_runs st)) = mset [0..<uk_calls st] \<and>
     list_all (\<lambda>(c, g, a).
       case a of
         AwaitOpen s \<Rightarrow> s < length (uk_socks st) \<and> us_ready (uk_socks st ! s) \<notin> {SockOpen, SockClosed}
       | AwaitAuth r \<Rightarrow> r \<in> set (uk_armed st) | AwaitCreate r \<Rightarrow> r \<in> set (uk_armed st) | AwaitOwn r \<Rightarrow> r \<in> set (uk_armed st))
       (uk_runs st) \<and>
     (uk_queue st = [] \<or> list_ex (\<lambda>(c, g, a). g \<noteq> JustOpen) (uk_runs st))"
proof -
  let ?st = "ui_run valid ms (new_Kernel coords)"
  have i: "client_inv ?st" by (rule client_run_ok[OF start_ok])
  then have w: "waits_ok ?st" by (simp add: client_inv_def client_core_def)
  have "case a of
         AwaitOpen s \<Rightarrow> s < length (uk_socks ?st) \<and> us_ready (uk_socks ?st ! s) \<notin> {SockOpen, SockClosed}
       | AwaitAuth r \<Rightarrow> r \<in> set (uk_armed ?st) | AwaitCreate r \<Rightarrow> r \<in> set (uk_armed ?st) | AwaitOwn r \<Rightarrow> r \<in> set (uk_armed ?st)"
    if "(c, g, a) \<in> set (uk_runs ?st)" for c g a
    using waits_okD(1)[OF w that] by (cases a) (auto simp: stage_ok_def)
  moreover have "uk_queue ?st = [] \<or> (\<exists>c m a. (c, SendFrame m, a) \<in> set (uk_runs ?st))"
    using i by (cases "uk_busy ?st") (auto simp: client_inv_def busy_ok_def sends_def)
  moreover have "mset (map fst (uk_settled ?st) @ map fst (uk_queue ?st) @ map fst (uk_runs ?st)) = mset [0..<uk_calls ?st]"
    using i by (simp add: client_inv_def client_core_def client_calls_def ac_simps)
  ultimately show ?thesis unfolding Let_def list_all_iff list_ex_iff by fastforce
qed

section \<open>Answers to one's own frame\<close>

text \<open>The page's moves without an open outside the queue, a close, a closing peer or an expired request.\<close>

fun plain_move :: "ui_move \<Rightarrow> bool" where
  "plain_move OpenCall = False"
| "plain_move CloseCall = False"
| "plain_move (PeerCloses s) = False"
| "plain_move (Expires r) = False"
| "plain_move _ = True"

text \<open>Answers so far are those to the requests themselves, and to the calls' own frames, in the order of the calls.\<close>

definition logs_ok :: "ui_kernel \<Rightarrow> bool" where
  "logs_ok st \<longleftrightarrow>
     (\<forall>r t v. (r, Answered t v) \<in> set (uk_answers st) \<longrightarrow> t = Some r) \<and> fst ` set (uk_answers st) \<subseteq> {..<uk_rpcs st} \<and>
     (\<forall>c t v. (c, Answered t v) \<in> set (uk_settled st) \<longrightarrow> (\<exists>r. t = Some r \<and> (c, r) \<in> set (uk_own st)))"

definition socks_ok :: "ui_kernel \<Rightarrow> bool" where
  "socks_ok st \<longleftrightarrow>
     (\<forall>s < length (uk_socks st). uk_ws st \<noteq> Some s \<longrightarrow> us_ready (uk_socks st ! s) = SockClosed) \<and>
     (\<forall>s. uk_ws st = Some s \<longrightarrow> s < length (uk_socks st) \<and> us_ready (uk_socks st ! s) \<noteq> Closing)"

definition wire_is :: "nat list \<Rightarrow> ui_kernel \<Rightarrow> bool" where
  "wire_is w st \<longleftrightarrow> (\<forall>s. uk_ws st = Some s \<longrightarrow> us_ready (uk_socks st ! s) = SockOpen \<longrightarrow> us_wire (uk_socks st ! s) = w)"

text \<open>No run, and nothing on the wire.\<close>

definition calm :: "ui_kernel \<Rightarrow> bool" where
  "calm st \<longleftrightarrow> uk_runs st = [] \<and> uk_pending st = None \<and> logs_ok st \<and> socks_ok st \<and> wire_is [] st \<and>
     (\<forall>s. uk_ws st = Some s \<longrightarrow> us_ready (uk_socks st ! s) \<noteq> Connecting)"

text \<open>A run of the call \<open>c\<close> that waits for the socket, or for the request that is pending and alone on the wire.\<close>

definition waiting :: "nat \<Rightarrow> ui_stage \<Rightarrow> nat list \<Rightarrow> ui_kernel \<Rightarrow> bool" where
  "waiting c a w st \<longleftrightarrow> logs_ok st \<and> socks_ok st \<and>
     (\<forall>s. uk_ws st = Some s \<longrightarrow> us_ready (uk_socks st ! s) = Connecting \<longrightarrow> a = AwaitOpen s) \<and>
     (case rpc_of a of
        None \<Rightarrow> \<exists>s. a = AwaitOpen s \<and> uk_ws st = Some s \<and> uk_pending st = None \<and> us_ready (uk_socks st ! s) = Connecting \<and>
          \<not> us_opened (uk_socks st ! s) \<and> us_wire (uk_socks st ! s) = []
      | Some r \<Rightarrow> uk_pending st = Some r \<and> wire_is w st \<and> r \<notin> fst ` set (uk_answers st) \<and> r < uk_rpcs st \<and>
          (a = AwaitOwn r \<longrightarrow> (c, r) \<in> set (uk_own st)))"

definition pend :: "ui_stage \<Rightarrow> nat list" where
  "pend a = (case rpc_of a of None \<Rightarrow> [] | Some r \<Rightarrow> [r])"

definition one_run :: "nat \<Rightarrow> ui_stage \<Rightarrow> nat list \<Rightarrow> ui_kernel \<Rightarrow> bool" where
  "one_run c a w st \<longleftrightarrow> waiting c a w st \<and> uk_busy st = Some c \<and> (\<exists>m. uk_runs st = [(c, SendFrame m, a)])"

definition in_order :: "nat list \<Rightarrow> ui_kernel \<Rightarrow> bool" where
  "in_order F st \<longleftrightarrow> map fst (uk_settled st) @ F @ map fst (uk_queue st) = [0..<uk_calls st]"

definition own_inv :: "ui_kernel \<Rightarrow> bool" where
  "own_inv st \<longleftrightarrow> (calm st \<and> uk_busy st = None \<and> uk_queue st = [] \<and> in_order [] st) \<or>
     (\<exists>c a. one_run c a (pend a) st \<and> in_order [c] st)"

text \<open>What the invariant reads.\<close>

definition same_net :: "ui_kernel \<Rightarrow> ui_kernel \<Rightarrow> bool" where
  "same_net st st' \<longleftrightarrow> uk_socks st' = uk_socks st \<and> uk_ws st' = uk_ws st \<and> uk_rpcs st' = uk_rpcs st \<and>
     uk_answers st' = uk_answers st \<and> uk_pending st' = uk_pending st \<and> uk_settled st' = uk_settled st \<and> uk_own st' = uk_own st"

lemma same_net_iff:
  assumes "same_net st st'"
  shows "logs_ok st' = logs_ok st" "socks_ok st' = socks_ok st" "wire_is w st' = wire_is w st" "waiting c a w st' = waiting c a w st"
    "uk_runs st' = uk_runs st \<Longrightarrow> calm st' = calm st"
proof -
  show l: "logs_ok st' = logs_ok st" "socks_ok st' = socks_ok st" "wire_is w st' = wire_is w st" for w
    using assms by (simp_all add: same_net_def logs_ok_def socks_ok_def wire_is_def)
  show "waiting c a w st' = waiting c a w st" unfolding waiting_def l using assms by (simp add: same_net_def split: option.splits)
  show "uk_runs st' = uk_runs st \<Longrightarrow> calm st' = calm st" unfolding calm_def l using assms by (simp add: same_net_def)
qed

lemma own_fields:
  assumes "own_inv st" "same_net st st'" "uk_runs st' = uk_runs st" "uk_busy st' = uk_busy st" "uk_queue st' = uk_queue st"
    "uk_calls st' = uk_calls st"
  shows "own_inv st'"
proof -
  have "in_order F st' = in_order F st" for F using assms by (simp add: in_order_def same_net_def)
  then show ?thesis using assms by (simp add: own_inv_def one_run_def same_net_iff[OF assms(2)])
qed

text \<open>Sending from a calm state.\<close>

lemma raw_calm:
  assumes "calm st" "kernel_raw m st = (x, st')"
  shows "case x of Inl e \<Rightarrow> calm st' | Inr r \<Rightarrow> waiting c (AwaitAuth r) [r] st' \<and> waiting c (AwaitCreate r) [r] st' \<and>
    waiting c (AwaitOwn r) [r] (st'\<lparr>uk_own := uk_own st' @ [(c, r)]\<rparr>)"
proof (cases "uk_ws st")
  case None
  then show ?thesis using assms by (auto simp: kernel_raw_def)
next
  case (Some s)
  have s: "s < length (uk_socks st)" "us_ready (uk_socks st ! s) \<noteq> Connecting"
    using assms(1) Some by (simp_all add: calm_def socks_ok_def)
  let ?r = "uk_rpcs st"
  have x: "x = Inr ?r" and st': "st' = at_sock s (put_frame [?r] m) (st\<lparr>uk_rpcs := ?r + 1, uk_pending := Some ?r, uk_armed := uk_armed st @ [?r]\<rparr>)"
    using assms(2) Some s(2) by (simp_all add: kernel_raw_def Let_def)
  have ready: "us_ready (uk_socks st' ! i) = us_ready (uk_socks st ! i)" for i
    using s(1) by (cases "i = s") (simp_all add: st' at_sock_def put_frame_def)
  have "logs_ok st'" using assms(1) by (auto simp: calm_def logs_ok_def st' less_Suc_eq)
  moreover have "logs_ok (st'\<lparr>uk_own := uk_own st' @ [(c, ?r)]\<rparr>)" using assms(1) by (fastforce simp: calm_def logs_ok_def st' less_Suc_eq)
  moreover have "socks_ok st'" using assms(1) ready by (simp add: calm_def socks_ok_def) (simp add: st')
  moreover have "wire_is [?r] st'" using assms(1) s(1) Some by (auto simp: wire_is_def calm_def st' at_sock_def put_frame_def)
  moreover have "?r \<notin> fst ` set (uk_answers st')" using assms(1) by (auto simp: calm_def logs_ok_def st')
  moreover have "us_ready (uk_socks st' ! i) \<noteq> Connecting" if "uk_ws st' = Some i" for i
    using that s(2) Some ready by (simp add: st')
  moreover have "uk_pending st' = Some ?r" "?r < uk_rpcs st'" by (simp_all add: st')
  ultimately show ?thesis by (auto simp: x waiting_def socks_ok_def wire_is_def)
qed

text \<open>The result of a continued run.\<close>

definition own_result :: "nat \<Rightarrow> (ui_outcome + ui_stage) \<times> ui_kernel \<Rightarrow> bool" where
  "own_result c x =
     (case x of
        (Inl oc, st) \<Rightarrow> calm st \<and> (\<forall>t v. oc = Answered t v \<longrightarrow> (\<exists>r. t = Some r \<and> (c, r) \<in> set (uk_own st)))
      | (Inr a, st) \<Rightarrow> waiting c a (pend a) st)"

lemma opened_calm: "calm st \<Longrightarrow> own_result c (ui_opened c g st)"
  using raw_calm[of st _ _ _ c]
  by (fastforce simp: ui_opened_def own_result_def pend_def split: ui_goal.splits prod.splits sum.splits)

lemma auth_calm: "calm st \<Longrightarrow> own_result c (after_auth c g st)"
  unfolding after_auth_def using raw_calm[of st _ _ _ c] opened_calm[of st c g]
  by (fastforce simp: own_result_def[of c "(Inl _, _)"] own_result_def[of c "(Inr _, _)"] pend_def split: option.splits prod.splits sum.splits)

lemma connect_calm: "calm st \<Longrightarrow> own_result c (after_connect c g st)"
  unfolding after_connect_def Let_def using raw_calm[of st _ _ _ c] auth_calm[of _ c g]
  by (fastforce simp: own_result_def[of c "(Inl _, _)"] own_result_def[of c "(Inr _, _)"] pend_def split: option.splits prod.splits sum.splits)

lemma open_calm:
  assumes "calm st"
  shows "own_result c (kernel_open valid c g st)"
proof (cases "case uk_ws st of Some s \<Rightarrow> us_ready (uk_socks st ! s) = SockOpen | None \<Rightarrow> False")
  case True
  then show ?thesis using opened_calm[OF assms] by (simp add: kernel_open_def)
next
  case False
  let ?n = "length (uk_socks st)"
  have closed: "us_ready (uk_socks st ! s) = SockClosed" if "s < ?n" for s
    using assms False that by (cases "us_ready (uk_socks st ! s)") (auto simp: calm_def socks_ok_def split: option.splits)
  let ?new = "\<lambda>l u. st\<lparr>uk_states := l, uk_ws := Some ?n, uk_socks := uk_socks st @ [\<lparr>us_url = u, us_ready = Connecting, us_opened = False, us_wire = [], us_sent = []\<rparr>]\<rparr>"
  have "socks_ok (?new l u)" for l u using closed by (auto simp: socks_ok_def nth_append less_Suc_eq)
  moreover have "logs_ok (?new l u)" for l u using assms by (simp add: calm_def logs_ok_def)
  ultimately have "waiting c (AwaitOpen ?n) [] (?new l u)" for l u using assms by (simp add: waiting_def calm_def)
  moreover have "calm (st\<lparr>uk_states := l\<rparr>)" for l
    using assms by (subst same_net_iff(5)[of st]) (simp_all add: same_net_def)
  ultimately show ?thesis using False by (simp add: kernel_open_def Let_def own_result_def pend_def)
qed

lemma finish_calm:
  assumes "calm st" "\<And>t v. oc = Answered t v \<Longrightarrow> \<exists>r. t = Some r \<and> (c, r) \<in> set (uk_own st)"
  shows "calm (finish c oc st)"
proof -
  have "logs_ok st" using assms(1) by (simp add: calm_def)
  moreover have "\<exists>r. t = Some r \<and> (d, r) \<in> set (uk_own st)" if "(d, Answered t v) \<in> set (uk_settled st @ [(c, oc)])" for d t v
  proof (cases "(d, Answered t v) \<in> set (uk_settled st)")
    case True
    then show ?thesis using \<open>logs_ok st\<close> unfolding logs_ok_def by blast
  next
    case False
    then show ?thesis using that assms(2)[of t v] by auto
  qed
  ultimately have "logs_ok (finish c oc st)" by (simp add: logs_ok_def finish_def)
  then show ?thesis using assms(1) by (simp add: calm_def finish_def socks_ok_def wire_is_def)
qed

lemma waiting_one:
  assumes "waiting c a w st" "uk_busy st = Some c" "uk_runs st = []"
  shows "one_run c a w (suspend c (SendFrame m) a st)"
  using assms same_net_iff(4)[of st "suspend c (SendFrame m) a st"] by (simp add: one_run_def) (simp add: suspend_def same_net_def)

lemma jobs_calm:
  assumes "calm st" "map fst (uk_settled st) @ map fst q = [0..<uk_calls st]"
  shows "own_inv (start_jobs valid q st)"
  using assms
proof (induction q arbitrary: st)
  case Nil
  have "calm (st\<lparr>uk_busy := None, uk_queue := []\<rparr>)"
    using Nil.prems(1) by (subst same_net_iff(5)[of st]) (simp_all add: same_net_def)
  then show ?case using Nil.prems(2) by (simp add: own_inv_def in_order_def)
next
  case (Cons x q)
  obtain c m where x: "x = (c, m)" by (cases x)
  define st0 where "st0 = st\<lparr>uk_busy := Some c, uk_queue := q\<rparr>"
  have c0: "calm st0" using Cons.prems(1) by (subst same_net_iff(5)[of st]) (simp_all add: same_net_def st0_def)
  obtain y st' where k: "kernel_open valid c (SendFrame m) st0 = (y, st')" by (metis surj_pair)
  have kept: "kept st0 st'" by (rule open_kept[OF k])
  have r: "own_result c (y, st')" using open_calm[OF c0, of c valid "SendFrame m"] k by simp
  show ?case
  proof (cases y)
    case (Inl oc)
    have "calm (finish c oc st')" using r Inl by (intro finish_calm) (simp_all add: own_result_def)
    moreover have "map fst (uk_settled (finish c oc st')) @ map fst q = [0..<uk_calls (finish c oc st')]"
      using Cons.prems(2) kept by (simp add: finish_def kept_def st0_def x)
    ultimately have "own_inv (start_jobs valid q (finish c oc st'))" by (rule Cons.IH)
    then show ?thesis using x k Inl by (simp add: st0_def)
  next
    case (Inr a)
    have "one_run c a (pend a) (suspend c (SendFrame m) a st')"
      using r Inr kept Cons.prems(1) by (intro waiting_one) (simp_all add: own_result_def kept_def st0_def calm_def)
    moreover have "in_order [c] (suspend c (SendFrame m) a st')"
      using Cons.prems(2) kept by (simp add: in_order_def suspend_def kept_def st0_def x)
    ultimately have "own_inv (suspend c (SendFrame m) a st')" unfolding own_inv_def by blast
    then show ?thesis using x k Inr by (simp add: st0_def)
  qed
qed

lemma conclude_calm:
  assumes "own_result c x" "uk_busy (snd x) = Some c" "in_order [c] (snd x)" "uk_runs (snd x) = []"
  shows "own_inv (conclude valid c (SendFrame m) x)"
proof (cases x)
  case (Pair y st)
  show ?thesis
  proof (cases y)
    case (Inl oc)
    have "calm (finish c oc st)" using assms(1) Inl Pair by (intro finish_calm) (simp_all add: own_result_def)
    then have "own_inv (start_jobs valid (uk_queue st) (finish c oc st))"
      using assms(3) Pair by (intro jobs_calm) (simp_all add: in_order_def finish_def)
    then show ?thesis using Inl Pair assms(2) by (simp add: conclude_def)
  next
    case (Inr a)
    have "one_run c a (pend a) (suspend c (SendFrame m) a st)"
      using assms Inr Pair by (intro waiting_one) (simp_all add: own_result_def)
    moreover have "in_order [c] (suspend c (SendFrame m) a st)" using assms(3) Pair by (simp add: in_order_def suspend_def)
    ultimately show ?thesis using Inr Pair unfolding own_inv_def by (auto simp: conclude_def)
  qed
qed

lemma continue_calm:
  assumes "calm (st\<lparr>uk_runs := []\<rparr>)" "uk_runs st = [(c, SendFrame m, a)]" "uk_busy st = Some c" "in_order [c] st"
    and "\<And>r t v. a = AwaitOwn r \<Longrightarrow> oc = Answered t v \<Longrightarrow> t = Some r \<and> (c, r) \<in> set (uk_own st)"
  shows "own_inv (continue_run valid (c, SendFrame m, a) oc st)"
proof -
  let ?st = "st\<lparr>uk_runs := []\<rparr>"
  have all_ok: "own_inv (conclude valid c (SendFrame m) y)" if "own_result c y" "kept ?st (snd y)" for y
    using that assms(3,4) by (intro conclude_calm) (simp_all add: kept_def in_order_def)
  have "own_inv (conclude valid c (SendFrame m) (after_connect c (SendFrame m) ?st))"
    by (rule all_ok[OF connect_calm[OF assms(1)] connect_kept[OF surjective_pairing]])
  moreover have "own_inv (conclude valid c (SendFrame m) (after_auth c (SendFrame m) ?st))"
    by (rule all_ok[OF auth_calm[OF assms(1)] auth_kept[OF surjective_pairing]])
  moreover have "own_inv (conclude valid c (SendFrame m) (ui_opened c (SendFrame m) ?st))"
    by (rule all_ok[OF opened_calm[OF assms(1)] opened_kept[OF surjective_pairing]])
  moreover have "own_inv (conclude valid c (SendFrame m) (Inl oc, ?st))" if "(\<exists>e. oc = Failed e) \<or> (\<exists>r. a = AwaitOwn r)"
    by (rule all_ok) (use assms(1,5) that in \<open>auto simp: own_result_def kept_def\<close>)
  moreover have "remove1 (c, SendFrame m, a) (uk_runs st) = []" using assms(2) by simp
  ultimately show ?thesis unfolding continue_run_def Let_def prod.case by (auto split: ui_stage.splits ui_outcome.splits)
qed

text \<open>The pending request is answered, or its socket has ended.\<close>

lemma settle_own:
  assumes "one_run c a [] st" "in_order [c] st" "rpc_of a = Some r" "oc = Answered (Some r) v \<or> oc = Failed e"
  shows "own_inv (settle_pending valid oc st)"
proof -
  have w: "waiting c a [] st" and b: "uk_busy st = Some c" using assms(1) by (simp_all add: one_run_def)
  obtain m where m: "uk_runs st = [(c, SendFrame m, a)]" using assms(1) by (auto simp: one_run_def)
  have r: "uk_pending st = Some r" "r \<notin> fst ` set (uk_answers st)" "wire_is [] st" "logs_ok st" "socks_ok st" "r < uk_rpcs st"
    "\<And>s. uk_ws st = Some s \<Longrightarrow> us_ready (uk_socks st ! s) \<noteq> Connecting" "a = AwaitOwn r \<Longrightarrow> (c, r) \<in> set (uk_own st)"
    using w assms(3) by (auto simp: waiting_def)
  let ?st = "st\<lparr>uk_pending := None, uk_armed := remove1 r (uk_armed st), uk_answers := uk_answers st @ [(r, oc)]\<rparr>"
  have "logs_ok (?st\<lparr>uk_runs := []\<rparr>)" using r(4,6) assms(4) by (auto simp: logs_ok_def)
  then have "calm (?st\<lparr>uk_runs := []\<rparr>)" using r by (simp add: calm_def socks_ok_def wire_is_def)
  then have "own_inv (continue_run valid (c, SendFrame m, a) oc ?st)"
    using m b assms(2,3,4) r(8) by (intro continue_calm) (auto simp: in_order_def)
  then show ?thesis using r(1,2) m assms(3) by (simp add: settle_pending_def settle_request_def)
qed

lemma own_frame: "own_inv st \<Longrightarrow> own_inv (sendRaw m st)"
proof (cases "uk_ws st")
  case (Some s)
  let ?st = "at_sock s (put_frame [] m) st"
  assume i: "own_inv st"
  have eq: "us_ready (uk_socks ?st ! i) = us_ready (uk_socks st ! i) \<and> us_opened (uk_socks ?st ! i) = us_opened (uk_socks st ! i) \<and>
      us_wire (uk_socks ?st ! i) = us_wire (uk_socks st ! i)" for i
    by (cases "s < length (uk_socks st)"; cases "i = s") (simp_all add: at_sock_def put_frame_def list_update_beyond)
  have "logs_ok ?st = logs_ok st" "socks_ok ?st = socks_ok st" "wire_is w ?st = wire_is w st" for w
    using eq by (simp_all add: logs_ok_def socks_ok_def wire_is_def)
  then have "waiting c a w ?st = waiting c a w st" "calm ?st = calm st" for c a w
    using eq by (simp_all add: waiting_def calm_def split: option.splits)
  then have "own_inv ?st" using i by (simp add: own_inv_def one_run_def in_order_def)
  then show ?thesis using Some i by (simp add: sendRaw_def)
qed (simp add: sendRaw_def)

lemma own_send:
  assumes "own_inv st"
  shows "own_inv (kernel_send valid m st)"
proof (cases "uk_busy st")
  case None
  then have c: "calm st" "uk_queue st = []" "in_order [] st" using assms by (auto simp: own_inv_def one_run_def)
  have "calm (st\<lparr>uk_calls := uk_calls st + 1\<rparr>)" using c(1) by (subst same_net_iff(5)[of st]) (simp_all add: same_net_def)
  then have "own_inv (start_jobs valid [(uk_calls st, m)] (st\<lparr>uk_calls := uk_calls st + 1\<rparr>))"
    using c by (intro jobs_calm) (simp_all add: in_order_def)
  then show ?thesis using None by (simp add: kernel_send_def Let_def del: start_jobs.simps)
next
  case (Some c0)
  let ?st = "st\<lparr>uk_calls := uk_calls st + 1, uk_queue := uk_queue st @ [(uk_calls st, m)]\<rparr>"
  obtain c a where one: "one_run c a (pend a) st" "in_order [c] st" using assms Some by (auto simp: own_inv_def)
  have "waiting c a (pend a) ?st = waiting c a (pend a) st" by (rule same_net_iff(4)) (simp add: same_net_def)
  then have "one_run c a (pend a) ?st" using one(1) by (simp add: one_run_def)
  moreover have "in_order [c] ?st" using one(2) by (simp add: in_order_def)
  ultimately show ?thesis using Some unfolding own_inv_def kernel_send_def Let_def by auto
qed

text \<open>A closed socket: what starts next makes a new one.\<close>

lemma jobs_pending:
  assumes "uk_pending st = None" "case uk_ws st of Some s \<Rightarrow> us_ready (uk_socks st ! s) \<noteq> SockOpen | None \<Rightarrow> True"
  shows "uk_pending (start_jobs valid q st) = None"
  using assms by (induction valid q st rule: start_jobs.induct)
    (auto simp: kernel_open_def Let_def finish_def suspend_def split: option.splits if_splits)

lemma own_opens:
  assumes "own_inv st" "sock_is s (\<lambda>k. us_ready k = Connecting) st"
  shows "own_inv (resume_open valid s Opened (at_sock s (\<lambda>k. k\<lparr>us_ready := SockOpen, us_opened := True\<rparr>) st))"
proof -
  have s: "s < length (uk_socks st)" "us_ready (uk_socks st ! s) = Connecting" using assms(2) by (simp_all add: sock_is_def)
  have "uk_ws st = Some s" if "socks_ok st"
    using that s by (cases "uk_ws st = Some s") (auto simp: socks_ok_def)
  moreover have "socks_ok st" using assms(1) by (auto simp: own_inv_def calm_def one_run_def waiting_def)
  ultimately have ws: "uk_ws st = Some s" "socks_ok st" by simp_all
  then obtain c a where one: "one_run c a (pend a) st" "in_order [c] st"
    using assms(1) s(2) by (auto simp: own_inv_def calm_def)
  then have a: "a = AwaitOpen s" using ws s(2) by (simp add: one_run_def waiting_def)
  obtain m where m: "uk_runs st = [(c, SendFrame m, AwaitOpen s)]" "uk_busy st = Some c" using one(1) a by (auto simp: one_run_def)
  let ?st = "at_sock s (\<lambda>k. k\<lparr>us_ready := SockOpen, us_opened := True\<rparr>) st"
  have "logs_ok ?st" using one(1) by (simp add: one_run_def waiting_def logs_ok_def)
  moreover have "socks_ok ?st" using ws s by (auto simp: socks_ok_def at_sock_def nth_list_update)
  moreover have "wire_is [] ?st" "uk_pending st = None"
    using one(1) a ws s by (simp_all add: one_run_def waiting_def wire_is_def at_sock_def)
  ultimately have "calm (?st\<lparr>uk_runs := []\<rparr>)"
    using ws s by (simp add: calm_def logs_ok_def socks_ok_def wire_is_def) (simp add: at_sock_def)
  then have "own_inv (continue_run valid (c, SendFrame m, AwaitOpen s) Opened ?st)"
    using m one(2) by (intro continue_calm) (simp_all add: in_order_def)
  then show ?thesis using m by (simp add: resume_open_def)
qed

lemma own_message:
  assumes "own_inv st" "sock_is s (\<lambda>k. us_ready k = SockOpen) st"
  shows "own_inv (kernel_onMessage valid s p st)"
proof -
  have s: "s < length (uk_socks st)" "us_ready (uk_socks st ! s) = SockOpen" using assms(2) by (simp_all add: sock_is_def)
  have so: "socks_ok st" using assms(1) by (auto simp: own_inv_def calm_def one_run_def waiting_def)
  have ws: "uk_ws st = Some s" using so s by (cases "uk_ws st = Some s") (auto simp: socks_ok_def)
  let ?st = "at_sock s (\<lambda>k. k\<lparr>us_wire := tl (us_wire k)\<rparr>) st"
  let ?tag = "case us_wire (uk_socks st ! s) of [] \<Rightarrow> None | t # _ \<Rightarrow> Some t"
  have ready: "us_ready (uk_socks ?st ! i) = us_ready (uk_socks st ! i)" for i
    using s(1) by (cases "i = s") (simp_all add: at_sock_def)
  have so': "socks_ok ?st" using so ready by (simp add: socks_ok_def)
  have settled_ok: "own_inv (settle_pending valid oc ?st)" if "oc = Failed e \<or> oc = Answered ?tag v" for oc e v
    using assms(1)[unfolded own_inv_def]
  proof (elim disjE exE conjE)
    assume c: "calm st" "uk_busy st = None" "uk_queue st = []" "in_order [] st"
    then have "calm ?st" using so' ready ws s by (simp add: calm_def logs_ok_def wire_is_def at_sock_def)
    then have "own_inv ?st" using c by (simp add: own_inv_def in_order_def)
    then show ?thesis using c(1) by (simp add: settle_pending_def calm_def)
  next
    fix c a assume one: "one_run c a (pend a) st" "in_order [c] st"
    then obtain r where r: "rpc_of a = Some r" "us_wire (uk_socks st ! s) = [r]"
      using ws s by (cases "rpc_of a") (auto simp: one_run_def waiting_def wire_is_def pend_def)
    have "pend a = [r]" using r(1) by (simp add: pend_def)
    then have "one_run c a [] ?st"
      using one(1) r ws s so' ready by (simp add: one_run_def waiting_def logs_ok_def wire_is_def at_sock_def)
    then show ?thesis using that one(2) r by (intro settle_own[of c a ?st r oc v e]) (auto simp: in_order_def)
  qed
  have h: "own_inv (st\<lparr>uk_hostcalls := hs\<rparr>)" for hs by (rule own_fields[OF assms(1)]) (simp_all add: same_net_def)
  show ?thesis unfolding kernel_onMessage_def Let_def
    using settled_ok h own_frame[OF assms(1)] by (auto split: option.splits)
qed

lemma own_end:
  assumes "own_inv st" "sock_is s (\<lambda>k. us_ready k \<noteq> SockClosed) st"
  shows "own_inv (ui_step valid (SocketEnds s code reason) st)"
proof -
  have s: "s < length (uk_socks st)" "us_ready (uk_socks st ! s) \<noteq> SockClosed" using assms(2) by (simp_all add: sock_is_def)
  have so: "socks_ok st" using assms(1) by (auto simp: own_inv_def calm_def one_run_def waiting_def)
  have ws: "uk_ws st = Some s" using so s by (cases "uk_ws st = Some s") (auto simp: socks_ok_def)
  let ?st = "at_sock s (\<lambda>k. k\<lparr>us_ready := SockClosed\<rparr>) st"
  let ?fresh = "\<not> us_opened (uk_socks st ! s)"
  have so': "socks_ok ?st" using so s(1) by (auto simp: socks_ok_def at_sock_def nth_list_update)
  have closed: "us_ready (uk_socks ?st ! s) = SockClosed" using s(1) by (simp add: at_sock_def)
  have shut: "wire_is w ?st" for w using ws closed by (simp add: wire_is_def)
  let ?log = "\<lambda>st. st\<lparr>uk_lastCloseCode := code, uk_states := uk_states st @ [''disconnected''],
      uk_authErrors := uk_authErrors st @ (if is_auth_code code then [(code, reason)] else [])\<rparr>"
  have log: "same_net st (?log st)" for st by (simp add: same_net_def)
  have idle: "own_inv (kernel_onClose valid code reason st')" if "own_inv st'" "uk_pending st' = None" for st'
    using own_fields[OF that(1) log] that(2) by (simp add: kernel_onClose_def Let_def settle_pending_def)
  have "own_inv (kernel_onClose valid code reason (if ?fresh then resume_open valid s (Failed (Err ''ws error'')) ?st else ?st))"
    using assms(1)[unfolded own_inv_def]
  proof (elim disjE exE conjE)
    assume c: "calm st" "uk_busy st = None" "uk_queue st = []" "in_order [] st"
    then have "calm ?st" using so' shut ws closed by (simp add: calm_def logs_ok_def)
    then have "own_inv ?st" "uk_pending ?st = None" "uk_runs ?st = []" using c by (simp_all add: own_inv_def in_order_def calm_def)
    then show ?thesis using idle by (simp add: resume_open_def)
  next
    fix c a assume one: "one_run c a (pend a) st" "in_order [c] st"
    obtain m where m: "uk_runs st = [(c, SendFrame m, a)]" "uk_busy st = Some c" using one(1) by (auto simp: one_run_def)
    show ?thesis
    proof (cases "rpc_of a")
      case None
      then have a: "a = AwaitOpen s" "?fresh" "uk_pending st = None" using one(1) ws by (auto simp: one_run_def waiting_def)
      have l: "logs_ok ?st" using one(1) by (simp add: one_run_def waiting_def logs_ok_def)
      have "calm (?st\<lparr>uk_runs := []\<rparr>)"
        using l so' shut[of "[]"] a(3) ws closed by (simp add: calm_def logs_ok_def socks_ok_def wire_is_def)
      then have "own_inv (continue_run valid (c, SendFrame m, a) (Failed (Err ''ws error'')) ?st)"
        using m one(2) by (intro continue_calm) (simp_all add: in_order_def)
      moreover have "uk_pending (continue_run valid (c, SendFrame m, a) (Failed (Err ''ws error'')) ?st) = None"
        using a m ws closed by (simp add: continue_run_def conclude_def Let_def jobs_pending finish_def)
      ultimately show ?thesis using idle a m by (simp add: resume_open_def)
    next
      case (Some r)
      then have "a \<noteq> AwaitOpen s" by auto
      then have same: "(if ?fresh then resume_open valid s oc ?st else ?st) = ?st" for oc using m by (simp add: resume_open_def)
      have "one_run c a [] (?log ?st)"
      proof -
        have "waiting c a [] ?st" using one(1) Some so' shut ws closed by (simp add: one_run_def waiting_def logs_ok_def)
        then have "waiting c a [] (?log ?st)" using same_net_iff(4)[OF log] by blast
        then show ?thesis using m by (simp add: one_run_def)
      qed
      then have "own_inv (settle_pending valid (Failed (Err e)) (?log ?st))" for e
        using one(2) Some by (intro settle_own[of c a _ r]) (simp_all add: in_order_def)
      then show ?thesis unfolding same kernel_onClose_def Let_def by blast
    qed
  qed
  then show ?thesis using assms(2) by (simp add: Let_def)
qed

lemma own_step: "own_inv st \<Longrightarrow> plain_move m \<Longrightarrow> own_inv (ui_step valid m st)"
proof (cases m)
  case (SocketEnds s code reason)
  assume "own_inv st"
  then show ?thesis using own_end[of st s valid code reason] SocketEnds by (cases "sock_is s (\<lambda>k. us_ready k \<noteq> SockClosed) st") auto
next
  case (HostDone n res)
  assume i: "own_inv st"
  have "own_inv (st\<lparr>uk_hostcalls := hs\<rparr>)" for hs by (rule own_fields[OF i]) (simp_all add: same_net_def)
  then show ?thesis using i HostDone own_frame by simp
next
  case (EditForm x)
  assume i: "own_inv st"
  show ?thesis using EditForm own_fields[OF i] by (simp add: same_net_def)
next
  case (Configure x)
  assume i: "own_inv st"
  show ?thesis using Configure own_fields[OF i] by (simp add: same_net_def setConfig_def)
next
  case (AddHost x)
  assume i: "own_inv st"
  show ?thesis using AddHost own_fields[OF i] by (simp add: same_net_def setHost_def)
qed (auto intro: own_send own_opens own_message)

lemma own_run: "own_inv st \<Longrightarrow> list_all plain_move ms \<Longrightarrow> own_inv (ui_run valid ms st)"
  by (induction valid ms st rule: ui_run.induct) (simp_all add: own_step)

lemma own_start: "own_inv (new_Kernel c)"
  by (simp add: own_inv_def calm_def logs_ok_def socks_ok_def wire_is_def in_order_def new_Kernel_def)

text \<open>The calls end in their order, and each answer is that to the frame of the call: to the request \<open>uk_own\<close> logs for it.\<close>

theorem replies_answer_own_calls:
  assumes "list_all plain_move ms" "st = ui_run valid ms (new_Kernel coords)"
  shows "(\<exists>n. map fst (uk_settled st) = [0..<n]) \<and>
    ((c, Answered t v) \<in> set (uk_settled st) \<longrightarrow> (\<exists>r. t = Some r \<and> (c, r) \<in> set (uk_own st)))"
proof -
  have i: "own_inv st" unfolding assms(2) by (rule own_run[OF own_start assms(1)])
  then have logs: "logs_ok st" by (auto simp: own_inv_def calm_def one_run_def waiting_def)
  obtain F where F: "map fst (uk_settled st) @ F = [0..<uk_calls st]" using i by (auto simp: own_inv_def in_order_def)
  have le: "length (uk_settled st) \<le> uk_calls st" using arg_cong[OF F, of length] by simp
  have "map fst (uk_settled st) = take (length (uk_settled st)) (map fst (uk_settled st) @ F)" by simp
  also have "\<dots> = [0..<length (uk_settled st)]" unfolding F using le by simp
  finally have order: "map fst (uk_settled st) = [0..<length (uk_settled st)]" .
  have "\<exists>r. t = Some r \<and> (c, r) \<in> set (uk_own st)" if "(c, Answered t v) \<in> set (uk_settled st)"
    using that logs[unfolded logs_ok_def] by blast
  then show ?thesis using order by blast
qed

definition form :: "string \<Rightarrow> string \<Rightarrow> ui_coords" where
  "form session k = \<lparr>uc_endpoint = ''ws://k'', uc_session = session, uc_apiKey = k\<rparr>"

definition ok_reply :: "string \<Rightarrow> json" where
  "ok_reply s = JObj [(''ok'', JBool True), (''value'', JStr s)]"

lemma replies_answer_own_calls_witness:
  "\<exists>st. st = ui_run (\<lambda>_. True) [Call (ui_eval_frame ''a''), SocketOpens 0, Call (ui_eval_frame ''b''),
        Message 0 (Some (ok_reply ''A'')), Message 0 (Some (ok_reply ''B''))] (new_Kernel (form ''s'' [])) \<and>
     uk_settled st = [(0, Answered (Some 0) (ok_reply ''A'')), (1, Answered (Some 1) (ok_reply ''B''))] \<and>
     (\<exists>r. Some 1 = Some r \<and> (1, r) \<in> set (uk_own st))"
proof -
  let ?ms = "[Call (ui_eval_frame ''a''), SocketOpens 0, Call (ui_eval_frame ''b''),
        Message 0 (Some (ok_reply ''A'')), Message 0 (Some (ok_reply ''B''))]"
  define st where "st = ui_run (\<lambda>_. True) ?ms (new_Kernel (form ''s'' []))"
  have s: "uk_settled st = [(0, Answered (Some 0) (ok_reply ''A'')), (1, Answered (Some 1) (ok_reply ''B''))]"
    unfolding st_def by code_simp
  have "list_all plain_move ?ms" by simp
  from replies_answer_own_calls[OF this st_def, of 1 "Some 1" "ok_reply ''B''"] s
  have "\<exists>r. Some 1 = Some r \<and> (1, r) \<in> set (uk_own st)" by simp
  then show ?thesis using s st_def by blast
qed

section \<open>Artifacts\<close>

text \<open>Where the client library reads a text, the console reads the same, whatever the transport.\<close>

lemma console_loop_reads:
  "artifact_loop tx h len off s = Some (Inr cs, s') \<Longrightarrow> ui_artifact_loop tx h len off out s = Some (Inr (out @ concat cs), s')"
proof (induction cs arbitrary: off s out)
  case Nil
  then show ?case
    by (subst (asm) artifact_loop.simps)
      (auto simp: rbind_Inr_iff split: prod.splits sum.splits if_splits option.splits json.splits bind_splits)
next
  case (Cons d cs)
  obtain r t where r: "tx s (artifact_frame h off len) = (Inr r, t)" "json_get ''ok'' r \<noteq> Some (JBool False)"
    "json_get ''data'' r = Some (JStr d)"
    "if reply_done r \<or> d = [] then cs = [] \<and> t = s' else artifact_loop tx h len (off + length d) t = Some (Inr cs, s')"
    using Cons.prems by (subst (asm) artifact_loop.simps)
      (auto simp: rbind_Inr_iff split: prod.splits sum.splits if_splits option.splits json.splits bind_splits)
  show ?case
  proof (cases "reply_done r \<or> d = []")
    case True
    then show ?thesis using r by (subst ui_artifact_loop.simps) (auto simp: artifact_data_def reply_done_def)
  next
    case False
    then have "ui_artifact_loop tx h len (off + length d) (out @ d) t = Some (Inr ((out @ d) @ concat cs), s')"
      using r(4) Cons.IH by simp
    then show ?thesis using r(1-3) False by (subst ui_artifact_loop.simps) (simp add: artifact_data_def reply_done_def)
  qed
qed

lemma console_reads_artifact:
  assumes "streamArtifact tx (Descriptor h None) None s = Some (Inr cs, s')"
  shows "ui_readArtifact tx h None s = Some (Inr (concat cs), s')"
proof -
  have "artifact_len (Descriptor h None) None = ui_artifact_len None"
    by (simp add: artifact_len_def ui_artifact_len_def nonzero_or_def)
  then have "artifact_loop tx h (ui_artifact_len None) 0 s = Some (Inr cs, s')"
    using assms by (auto simp: streamArtifact_def art_handle_def split: if_splits)
  then show ?thesis using console_loop_reads[where out = "[]"] by (simp add: ui_readArtifact_def)
qed

section \<open>Without the provisos\<close>

text \<open>A request that expires leaves its socket open: the reply that comes late answers the next call.\<close>

lemma late_reply_answers_next:
  "uk_settled (ui_run (\<lambda>_. True) [Call (ui_eval_frame ''a''), SocketOpens 0, Expires 0, Call (ui_eval_frame ''b''),
       Message 0 (Some (ok_reply ''A''))] (new_Kernel (form ''s'' []))) =
     [(0, Failed (Err ''rpc timeout'')), (1, Answered (Some 0) (ok_reply ''A''))]"
  by code_simp

text \<open>The page opens the client when it loads, outside the queue: a cell run meanwhile gets the reply to \<open>create\<close>,
  and its own reply is dropped.\<close>

lemma unqueued_open_steals_reply:
  "uk_settled (ui_run (\<lambda>_. True) [Configure (JObj []), OpenCall, SocketOpens 0, Call (ui_eval_frame ''a''),
       Message 0 (Some (ok_reply ''created'')), Message 0 (Some (ok_reply ''A''))] (new_Kernel (form ''s'' []))) =
     [(1, Answered (Some 0) (ok_reply ''created''))]"
  by code_simp

text \<open>A cell run before that socket opens makes a second one, and the first open fails on it.\<close>

lemma unqueued_open_fails:
  "uk_settled (ui_run (\<lambda>_. True) [Configure (JObj []), OpenCall, Call (ui_eval_frame ''a''), SocketOpens 0]
       (new_Kernel (form ''s'' []))) = [(0, Failed Thrown)]"
  by code_simp

text \<open>When the kernel rejects the key, the failed \<open>auth\<close> is swallowed and \<open>create\<close> is dropped by the closed socket: the
  call waits for the timer.\<close>

lemma rejected_key_waits:
  "let st = ui_run (\<lambda>_. True) [Configure (JObj []), Call (ui_eval_frame ''a''), SocketOpens 0, SocketEnds 0 1008 []]
       (new_Kernel (form ''s'' ''k'')) in
     uk_settled st = [] \<and> map (\<lambda>(c, g, a). a) (uk_runs st) = [AwaitCreate 1] \<and> uk_armed st = [1] \<and>
     map (\<lambda>k. (us_ready k, length (us_sent k))) (uk_socks st) = [(SockClosed, 1)]"
  by code_simp

text \<open>The close of a socket the page has left rejects the request on the new one.\<close>

lemma old_close_rejects_new_request:
  "let st = ui_run (\<lambda>_. True) [Call (ui_eval_frame ''a''), SocketOpens 0, Message 0 (Some (ok_reply ''A'')), CloseCall,
       Call (ui_eval_frame ''b''), SocketOpens 1, SocketEnds 0 1005 []] (new_Kernel (form ''s'' [])) in
     uk_settled st = [(0, Answered (Some 0) (ok_reply ''A'')), (1, Failed (Err ''ws closed before reply''))] \<and>
     map us_ready (uk_socks st) = [SockClosed, SockOpen] \<and> uk_ws st = Some 1"
  by code_simp

text \<open>The end-to-end run puts the old session back into the form and does not close: cells still go to the test
  session.\<close>

lemma form_does_not_move_session:
  "let st = ui_run (\<lambda>_. True) [Call (ui_eval_frame ''a''), SocketOpens 0, Message 0 (Some (ok_reply ''A'')),
       EditForm (form ''mine'' []), Call (ui_eval_frame ''b'')] (new_Kernel (form ''ui-e2e'' [])) in
     map (\<lambda>k. (us_url k, us_sent k)) (uk_socks st) = [(''ws://k/ws?id=ui-e2e'', [ui_eval_frame ''a'', ui_eval_frame ''b''])] \<and>
     kernel_url st = ''ws://k/ws?id=mine''"
  by code_simp

end
