(* ===== verification/ZstdCodec.thy ===== *)
theory ZstdCodec
  imports SnapshotProps
begin

text \<open>
  The zstd codec of the snapshots: \<open>zstdCompress\<close> and \<open>zstdDecompress\<close> of \<open>kernel-glue.ts\<close> over the exports of
  \<open>apps/kernel/codec/src/lib.rs\<close>, which work on buffers of the codec's own linear memory.  The zstd
  library and the placement of new buffers are parameters; the heap records its live buffers and whether
  a free did not match one.
\<close>

section \<open>The codec's heap\<close>

record zheap =
  zh_mem :: "nat \<Rightarrow> 8 word"
  zh_live :: "(nat \<times> nat) list"
  zh_bad :: bool

text \<open>The library: the frame of a text, the text of a frame, the size its header gives (0 when unknown) and
  the bound on the size of a frame.\<close>

record zstd_lib =
  zs_compress :: "int \<Rightarrow> bytes \<Rightarrow> bytes option"
  zs_decompress :: "bytes \<Rightarrow> bytes option"
  zs_content_size :: "bytes \<Rightarrow> nat"
  zs_bound :: "nat \<Rightarrow> nat"
  zs_place :: "(nat \<times> nat) list \<Rightarrow> nat \<Rightarrow> nat"

definition mem_read :: "nat \<Rightarrow> nat \<Rightarrow> zheap \<Rightarrow> bytes" where
  "mem_read p n h = map (\<lambda>i. zh_mem h (p + i)) [0..<n]"

definition mem_set :: "nat \<Rightarrow> bytes \<Rightarrow> zheap \<Rightarrow> zheap" where
  "mem_set p bs h = h\<lparr>zh_mem := (\<lambda>a. if p \<le> a \<and> a < p + length bs then bs ! (a - p) else zh_mem h a)\<rparr>"

definition cz_alloc :: "zstd_lib \<Rightarrow> nat \<Rightarrow> zheap \<Rightarrow> nat \<times> zheap" where
  "cz_alloc Z len h =
     (if len = 0 then (0, h)
      else (let p = zs_place Z (zh_live h) len in (p, h\<lparr>zh_live := (p, len) # zh_live h\<rparr>)))"

definition cz_free :: "nat \<Rightarrow> nat \<Rightarrow> zheap \<Rightarrow> zheap" where
  "cz_free p len h =
     (if p \<noteq> 0 \<and> len \<noteq> 0 then
        (if (p, len) \<in> set (zh_live h) then h\<lparr>zh_live := remove1 (p, len) (zh_live h)\<rparr> else h\<lparr>zh_bad := True\<rparr>)
      else h)"

text \<open>Both codec calls answer the number of bytes written, 0 on an error.\<close>

definition write_out :: "nat \<Rightarrow> nat \<Rightarrow> bytes option \<Rightarrow> zheap \<Rightarrow> nat \<times> zheap" where
  "write_out dst cap r h =
     (case r of None \<Rightarrow> (0, h) | Some out \<Rightarrow> if length out \<le> cap then (length out, mem_set dst out h) else (0, h))"

definition cz_compress :: "zstd_lib \<Rightarrow> nat \<Rightarrow> nat \<Rightarrow> nat \<Rightarrow> nat \<Rightarrow> int \<Rightarrow> zheap \<Rightarrow> nat \<times> zheap" where
  "cz_compress Z dst cap src srcLen level h = write_out dst cap (zs_compress Z level (mem_read src srcLen h)) h"

definition cz_decompress :: "zstd_lib \<Rightarrow> nat \<Rightarrow> nat \<Rightarrow> nat \<Rightarrow> nat \<Rightarrow> zheap \<Rightarrow> nat \<times> zheap" where
  "cz_decompress Z dst cap src srcLen h = write_out dst cap (zs_decompress Z (mem_read src srcLen h)) h"

definition cz_frame_size :: "zstd_lib \<Rightarrow> nat \<Rightarrow> nat \<Rightarrow> zheap \<Rightarrow> nat" where
  "cz_frame_size Z src srcLen h = zs_content_size Z (mem_read src srcLen h)"

section \<open>The glue\<close>

definition ZSTD_LEVEL :: int where "ZSTD_LEVEL = 9"

definition copy_in :: "zstd_lib \<Rightarrow> bytes \<Rightarrow> zheap \<Rightarrow> nat \<times> zheap" where
  "copy_in Z u8 h =
     (let (sp, h1) = cz_alloc Z (max (length u8) 1) h in (sp, if u8 \<noteq> [] then mem_set sp u8 h1 else h1))"

definition zstdCompress :: "zstd_lib \<Rightarrow> bytes \<Rightarrow> zheap \<Rightarrow> (string, bytes) result \<times> zheap" where
  "zstdCompress Z u8 h =
     (let srcLen = length u8;
          (sp, h1) = copy_in Z u8 h;
          cap = zs_bound Z srcLen;
          (dp, h2) = cz_alloc Z cap h1;
          (n, h3) = cz_compress Z dp cap sp srcLen ZSTD_LEVEL h2
      in (if n = 0 \<and> srcLen \<noteq> 0 then Inl (''ZstdCodecError: cz_compress failed ('' @ nat_str srcLen @ ''B)'')
          else Inr (mem_read dp n h3),
          cz_free dp cap (cz_free sp (max srcLen 1) h3)))"

definition zstdDecompress :: "zstd_lib \<Rightarrow> bytes \<Rightarrow> nat \<Rightarrow> zheap \<Rightarrow> (string, bytes) result \<times> zheap" where
  "zstdDecompress Z u8 rawLenHint h =
     (let srcLen = length u8;
          (sp, h1) = copy_in Z u8 h;
          dstLen = (if 0 < rawLenHint then rawLenHint else cz_frame_size Z sp srcLen h1)
      in if dstLen = 0 then (Inr [], cz_free sp (max srcLen 1) (cz_free sp (max srcLen 1) h1))
         else
          (let (dp, h2) = cz_alloc Z dstLen h1;
               (n, h3) = cz_decompress Z dp dstLen sp srcLen h2
           in (if n = 0 then Inl ''ZstdCodecError: cz_decompress failed'' else Inr (mem_read dp n h3),
               cz_free sp (max srcLen 1) (cz_free dp dstLen h3))))"

section \<open>Memory safety\<close>

text \<open>Blocks do not overlap.\<close>

definition apart :: "nat \<times> nat \<Rightarrow> nat \<times> nat \<Rightarrow> bool" where
  "apart a b \<longleftrightarrow> fst a + snd a \<le> fst b \<or> fst b + snd b \<le> fst a"

text \<open>What the glue relies on: new buffers lie outside the live ones and not at null; a frame fits its bound,
  is not empty, and decompresses to its text, whose length its header gives.\<close>

definition place_ok :: "zstd_lib \<Rightarrow> bool" where
  "place_ok Z \<longleftrightarrow> (\<forall>bs len. 0 < len \<longrightarrow> zs_place Z bs len \<noteq> 0 \<and> list_all (apart (zs_place Z bs len, len)) bs)"

definition frame_ok :: "zstd_lib \<Rightarrow> bool" where
  "frame_ok Z \<longleftrightarrow> (\<forall>t. \<exists>f. zs_compress Z ZSTD_LEVEL t = Some f \<and> f \<noteq> [] \<and> length f \<le> zs_bound Z (length t) \<and>
      zs_decompress Z f = Some t \<and> zs_content_size Z f = length t)"

text \<open>A heap that differs only outside its live buffers.\<close>

definition same_live :: "zheap \<Rightarrow> zheap \<Rightarrow> bool" where
  "same_live h h' \<longleftrightarrow> zh_live h' = zh_live h \<and> zh_bad h' = zh_bad h \<and>
     (\<forall>(q, m) \<in> set (zh_live h). mem_read q m h' = mem_read q m h)"

lemma read_set [simp]: "mem_read p (length bs) (mem_set p bs h) = bs"
  by (auto simp: mem_read_def mem_set_def intro: nth_equalityI)

lemma read_apart: "apart (p, n) (q, m) \<Longrightarrow> length bs \<le> n \<Longrightarrow> mem_read q m (mem_set p bs h) = mem_read q m h"
  by (auto simp: mem_read_def mem_set_def apart_def)

lemma alloc_new:
  assumes "place_ok Z" "0 < len" "cz_alloc Z len h = (p, h')"
  shows "p \<noteq> 0 \<and> h' = h\<lparr>zh_live := (p, len) # zh_live h\<rparr> \<and> list_all (apart (p, len)) (zh_live h)"
  using assms by (auto simp: cz_alloc_def place_ok_def Let_def)

lemma free_two:
  assumes "zh_live g = (p, m) # (q, n) # bs" "p \<noteq> 0" "0 < m" "q \<noteq> 0" "0 < n"
  shows "zh_live (cz_free p m (cz_free q n g)) = bs \<and> zh_bad (cz_free p m (cz_free q n g)) = zh_bad g \<and>
    zh_live (cz_free q n (cz_free p m g)) = bs \<and> zh_bad (cz_free q n (cz_free p m g)) = zh_bad g"
  using assms by (cases "(p, m) = (q, n)") (auto simp: cz_free_def)

lemma copied:
  assumes P: "place_ok Z" and c: "copy_in Z u8 h = (sp, h1)"
  shows "sp \<noteq> 0 \<and> zh_live h1 = (sp, max (length u8) 1) # zh_live h \<and> zh_bad h1 = zh_bad h \<and>
    mem_read sp (length u8) h1 = u8 \<and> (\<forall>(q, m) \<in> set (zh_live h). mem_read q m h1 = mem_read q m h)"
proof -
  obtain p h0 where a: "cz_alloc Z (max (length u8) 1) h = (p, h0)" by (cases "cz_alloc Z (max (length u8) 1) h")
  note n = alloc_new[OF P _ a]
  have s: "sp = p" "h1 = (if u8 \<noteq> [] then mem_set p u8 h0 else h0)" using c a by (simp_all add: copy_in_def)
  have r: "mem_read q m h0 = mem_read q m h" for q m using n by (simp add: mem_read_def)
  have "mem_read q m h1 = mem_read q m h" if "(q, m) \<in> set (zh_live h)" for q m
    using read_apart[of p "max (length u8) 1" q m u8 h0] n that r by (auto simp: s list_all_iff)
  moreover have "mem_read sp (length u8) h1 = u8" by (cases "u8 = []") (simp add: mem_read_def, simp add: s)
  ultimately show ?thesis using n by (auto simp: s mem_set_def)
qed

text \<open>The rest of both functions: a second buffer is filled, read and freed, then the first.\<close>

lemma filled_and_freed:
  assumes P: "place_ok Z" and "copy_in Z u8 h = (sp, h1)" "0 < cap" "cz_alloc Z cap h1 = (dp, h2)" "length out \<le> cap"
  shows "same_live h (cz_free dp cap (cz_free sp (max (length u8) 1) (mem_set dp out h2)))"
    and "same_live h (cz_free sp (max (length u8) 1) (cz_free dp cap (mem_set dp out h2)))"
proof -
  note c = copied[OF P assms(2)] and n = alloc_new[OF P assms(3,4)]
  let ?h = "mem_set dp out h2" and ?l = "max (length u8) 1"
  have live: "zh_live ?h = (dp, cap) # (sp, ?l) # zh_live h" using c n by (simp add: mem_set_def)
  have r: "mem_read q m ?h = mem_read q m h" if "(q, m) \<in> set (zh_live h)" for q m
    using read_apart[of dp cap q m out h2] n c that assms(5) by (auto simp: list_all_iff mem_read_def)
  have m: "mem_read q k (cz_free a b g) = mem_read q k g" for q k a b g by (simp add: cz_free_def mem_read_def)
  have bad: "zh_bad ?h = zh_bad h" using c n by (simp add: mem_set_def)
  show "same_live h (cz_free dp cap (cz_free sp ?l ?h))" "same_live h (cz_free sp ?l (cz_free dp cap ?h))"
    using free_two[OF live] r bad c n assms(3) by (auto simp: same_live_def m)
qed

lemma compressed:
  assumes P: "place_ok Z" and F: "frame_ok Z"
  obtains f where "fst (zstdCompress Z u8 h) = Inr f" "same_live h (snd (zstdCompress Z u8 h))"
    "zs_decompress Z f = Some u8" "zs_content_size Z f = length u8"
proof -
  obtain f where f: "zs_compress Z ZSTD_LEVEL u8 = Some f" "f \<noteq> []" "length f \<le> zs_bound Z (length u8)"
    "zs_decompress Z f = Some u8" "zs_content_size Z f = length u8" using F unfolding frame_ok_def by blast
  obtain sp h1 where c: "copy_in Z u8 h = (sp, h1)" by (cases "copy_in Z u8 h")
  obtain dp h2 where d: "cz_alloc Z (zs_bound Z (length u8)) h1 = (dp, h2)" by (cases "cz_alloc Z (zs_bound Z (length u8)) h1")
  have b: "0 < zs_bound Z (length u8)" using f(2,3) by (cases f) auto
  have r: "mem_read sp (length u8) h2 = u8" using copied[OF P c] alloc_new[OF P b d] by (simp add: mem_read_def)
  have "cz_compress Z dp (zs_bound Z (length u8)) sp (length u8) ZSTD_LEVEL h2 = (length f, mem_set dp f h2)"
    using f(1,3) r by (simp add: cz_compress_def write_out_def)
  then have "zstdCompress Z u8 h = (Inr f, cz_free dp (zs_bound Z (length u8)) (cz_free sp (max (length u8) 1) (mem_set dp f h2)))"
    using c d f(2) by (simp add: zstdCompress_def Let_def)
  then show ?thesis using that[of f] f filled_and_freed(1)[OF P c b d f(3)] by simp
qed

lemma decompressed:
  assumes P: "place_ok Z" and t: "zs_decompress Z f = Some t" "t \<noteq> []"
    and hint: "(if 0 < hint then hint else zs_content_size Z f) = length t"
  shows "fst (zstdDecompress Z f hint h) = Inr t \<and> same_live h (snd (zstdDecompress Z f hint h))"
proof -
  obtain sp h1 where c: "copy_in Z f h = (sp, h1)" by (cases "copy_in Z f h")
  have s: "(if 0 < hint then hint else cz_frame_size Z sp (length f) h1) = length t"
    using hint copied[OF P c] by (auto simp: cz_frame_size_def split: if_splits)
  have b: "0 < length t" using t(2) by simp
  obtain dp h2 where d: "cz_alloc Z (length t) h1 = (dp, h2)" by (cases "cz_alloc Z (length t) h1")
  have r: "mem_read sp (length f) h2 = f" using copied[OF P c] alloc_new[OF P b d] by (simp add: mem_read_def)
  have "cz_decompress Z dp (length t) sp (length f) h2 = (length t, mem_set dp t h2)"
    using t(1) r by (simp add: cz_decompress_def write_out_def)
  then have "zstdDecompress Z f hint h = (Inr t, cz_free sp (max (length f) 1) (cz_free dp (length t) (mem_set dp t h2)))"
    unfolding zstdDecompress_def c Let_def using d t(2) s by (simp only: prod.case) simp
  then show ?thesis using filled_and_freed(2)[OF P c b d, of t] by simp
qed

lemma same_live_trans: "same_live a b \<Longrightarrow> same_live b c \<Longrightarrow> same_live a c"
  by (fastforce simp: same_live_def)


text \<open>The codec of the snapshots, over a heap.\<close>

definition glue_codec :: "zstd_lib \<Rightarrow> (bytes \<Rightarrow> (string, bytes) result) \<Rightarrow> zheap \<Rightarrow> zcodec" where
  "glue_codec Z gunzip h =
     \<lparr>zc_compress = (\<lambda>b. case fst (zstdCompress Z b h) of Inr f \<Rightarrow> f | Inl _ \<Rightarrow> []),
      zc_unzstd = (\<lambda>hint f. fst (zstdDecompress Z f hint h)), zc_gunzip = gunzip\<rparr>"

text \<open>What the snapshots need of their codec holds of this one.\<close>

lemma glue_codec_faithful:
  assumes "place_ok Z" "frame_ok Z"
  shows "codec_faithful (glue_codec Z gunzip h)"
  unfolding codec_faithful_def
proof (intro allI impI)
  fix b :: bytes and n
  assume n: "n = 0 \<or> n = length b"
  obtain f where f: "fst (zstdCompress Z b h) = Inr f" "zs_decompress Z f = Some b" "zs_content_size Z f = length b"
    using compressed[OF assms] by metis
  have "fst (zstdDecompress Z f n h) = Inr b"
  proof (cases "b = []")
    case True
    obtain sp h1 where c: "copy_in Z f h = (sp, h1)" by (cases "copy_in Z f h")
    have "cz_frame_size Z sp (length f) h1 = 0" using copied[OF assms(1) c] f(3) True by (simp add: cz_frame_size_def)
    then show ?thesis using c n True by (simp add: zstdDecompress_def Let_def)
  next
    case False
    then show ?thesis using n f by (intro conjunct1[OF decompressed] assms(1)) auto
  qed
  then show "zc_unzstd (glue_codec Z gunzip h) n (zc_compress (glue_codec Z gunzip h) b) = Inr b"
    using f(1) by (simp add: glue_codec_def)
qed

text \<open>A frame whose text is empty and whose length is not given: its buffer is freed in the early return and
  again in the \<open>finally\<close>.\<close>

lemma empty_frame_freed_twice:
  assumes P: "place_ok Z" and e: "zs_content_size Z f = 0" "zh_live h = []"
  shows "fst (zstdDecompress Z f 0 h) = Inr [] \<and> zh_bad (snd (zstdDecompress Z f 0 h))"
proof -
  obtain sp h1 where c: "copy_in Z f h = (sp, h1)" by (cases "copy_in Z f h")
  have "cz_frame_size Z sp (length f) h1 = 0" using copied[OF P c] e(1) by (simp add: cz_frame_size_def)
  then show ?thesis using c copied[OF P c] e(2) by (simp add: zstdDecompress_def cz_free_def)
qed

text \<open>A library that stores: a frame is its text behind one byte, and a buffer goes behind all live ones.\<close>

definition store_lib :: zstd_lib where
  "store_lib = \<lparr>zs_compress = (\<lambda>_ t. Some (1 # t)), zs_decompress = (\<lambda>f. if f = [] then None else Some (tl f)),
     zs_content_size = (\<lambda>f. length f - 1), zs_bound = Suc, zs_place = (\<lambda>bs _. Suc (sum_list (map (\<lambda>(p, n). p + n) bs)))\<rparr>"

lemma store_ok: "place_ok store_lib" "frame_ok store_lib"
proof -
  have "(p, n) \<in> set bs \<Longrightarrow> p + n \<le> sum_list (map (\<lambda>(p, n). p + n) bs)" for p n and bs :: "(nat \<times> nat) list"
    using member_le_sum_list[of "p + n" "map (\<lambda>(p, n). p + n) bs"] by force
  then show "place_ok store_lib" by (fastforce simp: place_ok_def store_lib_def list_all_iff apart_def)
  show "frame_ok store_lib" by (simp add: frame_ok_def store_lib_def)
qed


end
