(* ===== verification/KernelSetup.thy ===== *)
theory KernelSetup
  imports CellLoop
begin

text \<open>
  Setting a kernel up (\<open>kernel-glue.ts\<close>): the scripts that \<open>createFresh\<close> and the restores evaluate in the VM
  (the preloaded modules, \<open>_applyFsProvider\<close>, \<open>_seedStdlibMeta\<close>, \<open>_seedExtMeta\<close>), the probe after a
  restore, what the Durable Object installs before a cell, and the clock of sessions with \<open>clock: real\<close>.
  A script is evaluated by the engine of \<open>CellLoop\<close>; \<open>JSON.parse\<close> is a parameter.
\<close>

section \<open>Scripts\<close>

text \<open>Evaluating a script: the status, or nothing when it does not fit the scratch buffer.\<close>

definition run_script :: "'e kernel_env \<Rightarrow> int \<Rightarrow> string \<Rightarrow> 'e \<Rightarrow> status option \<times> 'e" where
  "run_script K budget src e =
     (let E = ke_engine K; b = ke_encode K src in
      case writeScratch E (length b) e of
        None \<Rightarrow> (None, eg_reserve E (length b) e)
      | Some e' \<Rightarrow> apfst Some (eg_begin E e' b budget 0))"

definition fs_provider_src :: "string option \<Rightarrow> string" where
  "fs_provider_src provider =
     ''globalThis.__fsProvider='' @ json_quote (case provider of Some p \<Rightarrow> if p = [] then ''vfs'' else p | None \<Rightarrow> ''vfs'') @ '';0''"

definition json_texts :: "string list \<Rightarrow> json" where
  "json_texts xs = JArr (map JStr xs)"

text \<open>\<open>meta\<close> is the catalog's part of \<open>__STDLIB_META\<close>, when there is one.\<close>

definition stdlib_meta_src :: "(stdlib_catalog \<times> json) option \<Rightarrow> string option" where
  "stdlib_meta_src meta =
     map_option (\<lambda>(C, versions).
       ''globalThis.__stdlibMeta=('' @ json_stringify (JObj [(''all'', json_texts (sc_names C)),
          (''default'', json_texts (sc_defaults C)), (''optIn'', json_texts (sc_optIn C)), (''versions'', versions)]) @ '');0'') meta"

text \<open>The manifest the VM sees of an extension; reading a member of \<open>null\<close> throws, which skips the script.\<close>

definition or_value :: "json option \<Rightarrow> json \<Rightarrow> json" where
  "or_value v d = (case v of Some x \<Rightarrow> if js_truthy x then x else d | None \<Rightarrow> d)"

definition null_default :: "json option \<Rightarrow> json" where
  "null_default v = (case v of Some x \<Rightarrow> x | None \<Rightarrow> JNull)"

definition elements :: "json option \<Rightarrow> json list" where
  "elements v = (case v of Some (JArr xs) \<Rightarrow> xs | _ \<Rightarrow> [])"

definition tool_meta :: "json \<Rightarrow> json option" where
  "tool_meta t =
     (if t = JNull then None
      else Some (JObj (opt_field ''fn'' (json_get ''fn'' t) @
        [(''description'', or_value (json_get ''description'' t) (JStr [])), (''params'', null_default (json_get ''params'' t)),
         (''example'', null_default (json_get ''example'' t))])))"

definition ext_meta :: "json \<Rightarrow> json option" where
  "ext_meta e =
     (if e = JNull then None
      else map_option (\<lambda>ts. JObj (opt_field ''name'' (json_get ''name'' e) @
             [(''version'', or_value (json_get ''version'' e) (JStr ''0.0.0'')), (''tools'', JArr ts)]))
           (traverse tool_meta (elements (json_get ''tools'' e))))"

definition ext_names :: "json list \<Rightarrow> json list" where
  "ext_names exts = List.map_filter (\<lambda>e. case json_get ''name'' e of Some (JStr s) \<Rightarrow> if s = [] then None else Some (JStr s) | _ \<Rightarrow> None) exts"

definition ext_seed_code :: string where
  "ext_seed_code =
     ''globalThis.__extMeta=M;'' @
     ''var nameSet={};for(var i=0;i<NS.length;i++)nameSet[NS[i]]=true;'' @
     ''if(!globalThis.__hostBase)globalThis.__hostBase=globalThis.host;'' @
     ''var base=globalThis.__hostBase;'' @
     ''function mkNs(name){var o={};var tools=null;for(var k=0;k<M.length;k++)if(M[k].name===name)tools=M[k].tools;'' @
     ''if(tools)for(var j=0;j<tools.length;j++){(function(fn){o[fn]=function(){var a=Array.prototype.slice.call(arguments);return base[name+'' @
     [CHR 0x27] @ ''.'' @ [CHR 0x27] @ ''+fn].apply(base,a);};})(tools[j].fn);}return o;}'' @
     ''var nsCache={};'' @
     ''globalThis.host=new Proxy(base,{get:function(t,prop){'' @
     ''if(typeof prop==='' @ [CHR 0x27] @ ''string'' @ [CHR 0x27] @ ''&&nameSet[prop]){if(!nsCache[prop])nsCache[prop]=mkNs(prop);return nsCache[prop];}'' @
     ''return base[prop];}});'' @
     ''globalThis.extensions=function(){return globalThis.__extMeta;};'' @
     ''})();0''"

definition ext_meta_src :: "json list \<Rightarrow> string option" where
  "ext_meta_src exts =
     map_option (\<lambda>ms. ''(function(){var M='' @ json_stringify (JArr ms) @ '';var NS='' @
         json_stringify (JArr (ext_names exts)) @ '';'' @ ext_seed_code)
       (traverse ext_meta exts)"

text \<open>One preloaded module: evaluated in global scope, then registered for \<open>require\<close>.\<close>

definition stdlib_src :: "string \<Rightarrow> string \<Rightarrow> string" where
  "stdlib_src name iife =
     ''(0,eval)('' @ json_quote iife @ '');'' @
     ''(function(){var __n='' @ json_quote name @ '';globalThis.__stdmods=globalThis.__stdmods||{};'' @
     ''var g=globalThis[__n];if(g===undefined){var alt=__n.replace(/-/g,'' @ [CHR 0x27, CHR 0x27] @ '');g=globalThis[alt];}'' @
     ''if(g!==undefined&&globalThis.__stdmods[__n]===undefined)globalThis.__stdmods[__n]=g;})();0''"

section \<open>Creating and restoring\<close>

record setup_config =
  su_modules :: modules_config
  su_provider :: "string option"
  su_meta :: "(stdlib_catalog \<times> json) option"
  su_extensions :: "json list"

text \<open>The scripts that both creating and restoring a kernel evaluate, with their budgets.\<close>

definition seed_scripts :: "setup_config \<Rightarrow> (int \<times> string) list" where
  "seed_scripts c =
     [(100000, fs_provider_src (su_provider c))] @
     (case stdlib_meta_src (su_meta c) of Some s \<Rightarrow> [(200000, s)] | None \<Rightarrow> []) @
     (case ext_meta_src (su_extensions c) of Some s \<Rightarrow> [(300000, s)] | None \<Rightarrow> [])"

definition seed_vm :: "'e kernel_env \<Rightarrow> setup_config \<Rightarrow> 'e \<Rightarrow> 'e" where
  "seed_vm K c e = fold (\<lambda>(budget, s) e. snd (run_script K budget s e)) (seed_scripts c) e"

text \<open>\<open>_injectStdlib\<close> after its admission: a module counts as loaded when its script ends with a result
  that is not a failure.\<close>

fun inject_modules ::
  "'e kernel_env \<Rightarrow> (string \<Rightarrow> json option) \<Rightarrow> (string, string) omap \<Rightarrow> string list \<Rightarrow> 'e \<Rightarrow> string list \<times> 'e" where
  "inject_modules K parse bundle [] e = ([], e)"
| "inject_modules K parse bundle (n # ns) e =
     (case map_of bundle n of
        None \<Rightarrow> inject_modules K parse bundle ns e
      | Some iife \<Rightarrow>
          (let (st, e1) = run_script K 5000000 (stdlib_src n iife) e;
               loaded = (st = Some StatusDone \<and>
                  (case parse (eg_result (ke_engine K) e1) of
                     None \<Rightarrow> False | Some JNull \<Rightarrow> False | Some r \<Rightarrow> json_get ''ok'' r \<noteq> Some (JBool False)))
           in apfst (\<lambda>ms. if loaded then n # ms else ms) (inject_modules K parse bundle ns e1)))"

text \<open>\<open>new_engine\<close> makes an instance from the generator's seed and creates its runtime from both seeds.\<close>

definition createFresh ::
  "'e kernel_env \<Rightarrow> (string \<Rightarrow> json option) \<Rightarrow> (int \<Rightarrow> int \<Rightarrow> 'e) \<Rightarrow> stdlib_catalog \<Rightarrow> kernel \<Rightarrow> setup_config \<Rightarrow>
   (string, string list \<times> 'e) result" where
  "createFresh K parse new_engine C k c =
     (let e = new_engine (k_clockSeed k) (k_rngSeed k) in
      rbind (injectStdlib C (su_modules c)) (\<lambda>ms.
        let (loaded, e1) = inject_modules K parse (sc_bundle C) ms e in Inr (loaded, seed_vm K c e1)))"

definition stdlibInfo :: "stdlib_catalog \<Rightarrow> string list \<Rightarrow> string" where
  "stdlibInfo C loaded =
     json_stringify (JObj [(''loaded'', json_texts loaded), (''available'', json_texts (sc_names C)),
       (''optIn'', json_texts (sc_optIn C)), (''defaults'', json_texts (sc_defaults C))])"

text \<open>The probe after a chain of deltas has been restored: a garbage collection, then the canary.\<close>

definition canary_src :: string where
  "canary_src = ''(function(){try{var c=globalThis.__engram_canary; if(!c) return 1; return (c.s==='' @ [CHR 0x22] @ ''engram-canary'' @ [CHR 0x22] @
     ''&&typeof c.f==='' @ [CHR 0x22] @ ''function'' @ [CHR 0x22] @ ''&&c.f()===43)?1:0;}catch(e){return 0;}})()''"

definition sanityProbe :: "'e kernel_env \<Rightarrow> (string \<Rightarrow> json option) \<Rightarrow> ('e \<Rightarrow> 'e option) \<Rightarrow> 'e \<Rightarrow> bool \<times> 'e" where
  "sanityProbe K parse run_gc e =
     (case run_gc e of
        None \<Rightarrow> (False, e)
      | Some e0 \<Rightarrow>
          (case run_script K 1000000 canary_src e0 of
             (Some StatusDone, e1) \<Rightarrow>
               (case parse (eg_result (ke_engine K) e1) of
                  Some r \<Rightarrow> (js_field ''ok'' (Some r) \<noteq> None \<and> json_get ''value'' r = Some (JNum 1), e1)
                | None \<Rightarrow> (False, e1))
           | (_, e1) \<Rightarrow> (False, e1)))"

text \<open>The end of \<open>restoreW4\<close>, on an instance that holds the image: the scripts, then the probe.\<close>

definition finish_restore ::
  "'e kernel_env \<Rightarrow> (string \<Rightarrow> json option) \<Rightarrow> ('e \<Rightarrow> 'e option) \<Rightarrow> setup_config \<Rightarrow> 'e \<Rightarrow> (string, 'e) result" where
  "finish_restore K parse run_gc c e =
     (case sanityProbe K parse run_gc (seed_vm K c e) of
        (True, e1) \<Rightarrow> Inr e1
      | (False, e1) \<Rightarrow> Inl ''RestoreSanityError: post-blit canary/GC probe failed (possible image corruption)'')"

section \<open>What the Durable Object installs before a cell\<close>

record 's host_ctx =
  hx_sender :: "('s \<times> int) option"
  hx_fence :: "(string \<times> int) option"
  hx_url :: "string option"
  hx_key :: "string option"
  hx_doId :: string
  hx_sandbox :: bool

definition setHostSender :: "'s option \<Rightarrow> int \<Rightarrow> 's host_ctx \<Rightarrow> 's host_ctx" where
  "setHostSender send timeoutMs x = x\<lparr>hx_sender := map_option (\<lambda>s. (s, if 0 < timeoutMs then timeoutMs else 60000)) send\<rparr>"

definition setFenceContext :: "string \<Rightarrow> int \<Rightarrow> 's host_ctx \<Rightarrow> 's host_ctx" where
  "setFenceContext doId cell x = x\<lparr>hx_fence := Some (doId, cell)\<rparr>"

definition some_text :: "string option \<Rightarrow> string option" where
  "some_text v = (case v of Some s \<Rightarrow> if s = [] then None else Some s | None \<Rightarrow> None)"

definition setSandboxConfig :: "string option \<Rightarrow> string option \<Rightarrow> string option \<Rightarrow> bool \<Rightarrow> 's host_ctx \<Rightarrow> 's host_ctx" where
  "setSandboxConfig url key doId enabled x =
     x\<lparr>hx_url := some_text url, hx_key := some_text key, hx_doId := (case doId of Some d \<Rightarrow> d | None \<Rightarrow> []), hx_sandbox := enabled\<rparr>"

section \<open>The clock\<close>

text \<open>The engine's clock, the number of times it was read, and the glue's \<open>clockSeed\<close>.  \<open>__now\<close> answers the
  epoch base plus the clock, and advances it.  An engine without \<open>set_clock\<close> has none to call.\<close>

record vm_clock =
  vc_clock :: int
  vc_calls :: int
  vc_seed :: int

definition create_clock :: "int \<Rightarrow> vm_clock" where
  "create_clock seed = \<lparr>vc_clock = seed, vc_calls = 0, vc_seed = seed\<rparr>"

definition vm_now :: "vm_clock \<Rightarrow> int \<times> vm_clock" where
  "vm_now c = (CLOCK_EPOCH_BASE_MS + vc_clock c, c\<lparr>vc_clock := vc_clock c + 1, vc_calls := vc_calls c + 1\<rparr>)"

definition reanchor :: "bool \<Rightarrow> int \<Rightarrow> vm_clock \<Rightarrow> vm_clock" where
  "reanchor has_set_clock realNow c =
     (let target = realNow - CLOCK_EPOCH_BASE_MS;
          curClock = vc_seed c + vc_calls c;
          next = (if curClock < target then target else curClock)
      in if 0 \<le> next \<and> has_set_clock then c\<lparr>vc_clock := next, vc_seed := next - vc_calls c\<rparr> else c)"

text \<open>A restored instance has the clock of the snapshot, its counter as a 32-bit integer, and a seed from the
  time of the restore (\<open>_applyConfig\<close>).\<close>

definition restore_clock :: "int \<Rightarrow> vm_clock \<Rightarrow> vm_clock" where
  "restore_clock realNow c = c\<lparr>vc_calls := to_int32 (vc_calls c), vc_seed := max 0 (realNow - CLOCK_EPOCH_BASE_MS)\<rparr>"

end
