(* ===== verification/Wasi.thy ===== *)
theory Wasi
  imports Json
begin

text \<open>
  The system interface the engine runs on, \<open>makeWasi\<close> of \<open>kernel-glue.ts\<close>: a linear memory, a seeded generator
  of random bytes, a frozen clock, and output that is counted and, for the error stream, shown.  Numbers
  cross the boundary as signed integers.  The text decoder is a parameter; a thrown error is its message.
\<close>

section \<open>State\<close>

record wasi =
  wa_mem :: "8 word list"
  wa_seed :: "32 word"
  wa_stderr :: "string list"

type_synonym wasi_result = "(string, int) result \<times> wasi"

definition OUT_OF_BOUNDS :: string where "OUT_OF_BOUNDS = ''RangeError: Offset is outside the bounds of the DataView''"

text \<open>The little-endian accessors of \<open>DataView\<close>, and \<open>u8().slice\<close>.\<close>

definition le_bytes :: "nat \<Rightarrow> nat \<Rightarrow> 8 word list" where
  "le_bytes k n = map (\<lambda>i. of_nat (n div 256 ^ i)) [0..<k]"

definition poke :: "nat \<Rightarrow> 8 word list \<Rightarrow> 8 word list \<Rightarrow> 8 word list" where
  "poke off bs m = take off m @ bs @ drop (off + length bs) m"

definition set_le :: "nat \<Rightarrow> int \<Rightarrow> nat \<Rightarrow> wasi \<Rightarrow> (string, unit) result \<times> wasi" where
  "set_le k off n w =
     (if off < 0 \<or> int (length (wa_mem w)) < off + int k then (Inl OUT_OF_BOUNDS, w)
      else (Inr (), w\<lparr>wa_mem := poke (nat off) (le_bytes k n) (wa_mem w)\<rparr>))"

definition get_u32 :: "int \<Rightarrow> wasi \<Rightarrow> (string, nat) result" where
  "get_u32 off w =
     (if off < 0 \<or> int (length (wa_mem w)) < off + 4 then Inl OUT_OF_BOUNDS
      else Inr (sum_list (map (\<lambda>i. unat (wa_mem w ! (nat off + i)) * 256 ^ i) [0..<4])))"

section \<open>The generator\<close>

definition rng_start :: "32 word \<Rightarrow> 32 word" where
  "rng_start rngSeed = (if rngSeed = 0 then 0x9e3779b9 else rngSeed)"

definition rng_step :: "32 word \<Rightarrow> 32 word" where
  "rng_step s = s + 0x6d2b79f5"

text \<open>The number the generator makes of its state, before the division by \<open>2 ^ 32\<close>.\<close>

definition rng_output :: "32 word \<Rightarrow> 32 word" where
  "rng_output s =
     (let t = xor s (drop_bit 15 s) * or 1 s;
          t = xor (t + xor t (drop_bit 7 t) * or 61 t) t
      in xor t (drop_bit 14 t))"

text \<open>\<open>(rnd() * 256) & 0xff\<close>: the quotient by \<open>2 ^ 24\<close>, cut.\<close>

definition rng_byte :: "32 word \<Rightarrow> 8 word" where
  "rng_byte s = ucast (drop_bit 24 (rng_output s))"

fun draw :: "nat \<Rightarrow> 32 word \<Rightarrow> 8 word list \<times> 32 word" where
  "draw 0 s = ([], s)"
| "draw (Suc n) s = (let s' = rng_step s; (bs, s'') = draw n s' in (rng_byte s' # bs, s''))"

text \<open>\<open>a[ptr + i] = b\<close> outside the memory has no effect.\<close>

definition put_bytes :: "int \<Rightarrow> 8 word list \<Rightarrow> 8 word list \<Rightarrow> 8 word list" where
  "put_bytes ptr bs m =
     map (\<lambda>j. if ptr \<le> int j \<and> int j < ptr + int (length bs) then bs ! nat (int j - ptr) else m ! j) [0..<length m]"

definition random_get :: "int \<Rightarrow> int \<Rightarrow> wasi \<Rightarrow> wasi_result" where
  "random_get ptr len w =
     (let (bs, s) = draw (nat len) (wa_seed w)
      in (Inr 0, w\<lparr>wa_mem := put_bytes ptr bs (wa_mem w), wa_seed := s\<rparr>))"

section \<open>The other imports\<close>

text \<open>The vectors of a write: its byte count, and the bytes of the vectors that are not empty.\<close>

fun read_iovs :: "nat \<Rightarrow> int \<Rightarrow> wasi \<Rightarrow> (string, nat \<times> 8 word list list) result" where
  "read_iovs 0 p w = Inr (0, [])"
| "read_iovs (Suc n) p w =
     rbind (get_u32 p w) (\<lambda>ptr. rbind (get_u32 (p + 4) w) (\<lambda>len. rbind (read_iovs n (p + 8) w) (\<lambda>(count, chunks).
       Inr (len + count, (if 0 < len then [take len (drop ptr (wa_mem w))] else []) @ chunks))))"

definition fd_write :: "(8 word list \<Rightarrow> string) \<Rightarrow> int \<Rightarrow> int \<Rightarrow> int \<Rightarrow> int \<Rightarrow> wasi \<Rightarrow> wasi_result" where
  "fd_write decode fd iovs iovsLen nwritten w =
     (case read_iovs (nat iovsLen) iovs w of
        Inl e \<Rightarrow> (Inl e, w)
      | Inr (count, chunks) \<Rightarrow>
          (let shown = concat (map decode (if fd = 2 then chunks else []));
               w1 = (if js_trim shown \<noteq> [] then w\<lparr>wa_stderr := wa_stderr w @ [shown]\<rparr> else w)
           in apfst (\<lambda>r. rbind r (\<lambda>_. Inr 0)) (set_le 4 nwritten count w1)))"

definition set_two :: "int \<Rightarrow> int \<Rightarrow> wasi \<Rightarrow> wasi_result" where
  "set_two a b w =
     (case set_le 4 a 0 w of
        (Inl e, w1) \<Rightarrow> (Inl e, w1)
      | (Inr _, w1) \<Rightarrow> apfst (\<lambda>r. rbind r (\<lambda>_. Inr 0)) (set_le 4 b 0 w1))"

datatype wasi_call =
    ArgsGet | ArgsSizesGet int int | EnvironGet | EnvironSizesGet int int | ClockResGet int | ClockTimeGet int
  | FdWrite int int int int | FdRead int | FdClose | FdSeek | FdFdstatGet | FdFdstatSetFlags | FdPrestatGet
  | FdPrestatDirName | PathOpen | RandomGet int int | PollOneoff | SchedYield | ProcExit int

definition wasi_import :: "(8 word list \<Rightarrow> string) \<Rightarrow> wasi_call \<Rightarrow> wasi \<Rightarrow> wasi_result" where
  "wasi_import decode c w =
     (case c of
        ArgsSizesGet a b \<Rightarrow> set_two a b w
      | EnvironSizesGet a b \<Rightarrow> set_two a b w
      | ClockResGet out \<Rightarrow> apfst (\<lambda>r. rbind r (\<lambda>_. Inr 0)) (set_le 8 out 1000 w)
      | ClockTimeGet out \<Rightarrow> apfst (\<lambda>r. rbind r (\<lambda>_. Inr 0)) (set_le 8 out 0 w)
      | FdWrite fd iovs n nwritten \<Rightarrow> fd_write decode fd iovs n nwritten w
      | FdRead nread \<Rightarrow> apfst (\<lambda>r. rbind r (\<lambda>_. Inr 0)) (set_le 4 nread 0 w)
      | FdPrestatGet \<Rightarrow> (Inr 8, w)
      | FdPrestatDirName \<Rightarrow> (Inr 8, w)
      | PathOpen \<Rightarrow> (Inr 8, w)
      | RandomGet ptr len \<Rightarrow> random_get ptr len w
      | ProcExit code \<Rightarrow> (Inl (''engine proc_exit('' @ int_str code @ '')''), w)
      | _ \<Rightarrow> (Inr 0, w))"

definition makeWasi :: "32 word \<Rightarrow> 8 word list \<Rightarrow> wasi" where
  "makeWasi rngSeed mem = \<lparr>wa_mem = mem, wa_seed = rng_start rngSeed, wa_stderr = []\<rparr>"

end
