(* ===== verification/KernelProps.thy ===== *)
theory KernelProps
  imports KernelSetup Wasi
begin

text \<open>
  What setting a kernel up guarantees: the VM's clock never runs backwards and is anchored to the wall clock,
  the manifest it is given shows nothing of an extension but its tools, and its random bytes are one stream
  of full period.  The last section holds the behaviours that differ from what is documented.
\<close>

section \<open>The clock\<close>

text \<open>The glue's seed and the engine's counter give the engine's clock.\<close>

definition anchored :: "vm_clock \<Rightarrow> bool" where
  "anchored c \<longleftrightarrow> vc_clock c = vc_seed c + vc_calls c \<and> 0 \<le> vc_clock c"

lemma anchored_intros:
  "0 \<le> s \<Longrightarrow> anchored (create_clock s)"
  "anchored c \<Longrightarrow> anchored (snd (vm_now c))"
  "anchored c \<Longrightarrow> anchored (reanchor has now c)"
  by (auto simp: anchored_def create_clock_def vm_now_def reanchor_def Let_def)

lemma reanchor_clock: "anchored c \<Longrightarrow> vc_clock (reanchor True now c) = max (vc_clock c) (now - CLOCK_EPOCH_BASE_MS)"
  by (auto simp: anchored_def reanchor_def Let_def)

text \<open>A session: cells begin at real times, and read the clock.\<close>

datatype clock_event = CellAt int | ReadClock

fun clock_run :: "bool \<Rightarrow> clock_event list \<Rightarrow> vm_clock \<Rightarrow> int list" where
  "clock_run has [] c = []"
| "clock_run has (CellAt now # es) c = clock_run has es (reanchor has now c)"
| "clock_run has (ReadClock # es) c = fst (vm_now c) # clock_run has es (snd (vm_now c))"

lemma reanchor_later: "anchored c \<Longrightarrow> vc_clock c \<le> vc_clock (reanchor has now c)"
  by (auto simp: anchored_def reanchor_def Let_def)

lemma clock_run_later:
  "anchored c \<Longrightarrow> sorted_wrt (<) (clock_run has es c) \<and> (\<forall>t \<in> set (clock_run has es c). CLOCK_EPOCH_BASE_MS + vc_clock c \<le> t)"
proof (induction has es c rule: clock_run.induct)
  case (2 has now es c)
  then show ?case using anchored_intros(3)[of c has now] reanchor_later[of c has now] by fastforce
next
  case (3 has es c)
  then show ?case using anchored_intros(2)[of c] by (fastforce simp: vm_now_def)
qed simp

text \<open>C14. Whenever cells begin and however often they read it, the VM's clock never runs backwards, even when
  the wall clock does; and a cell's first reading is not before the wall clock at its start.\<close>

theorem vm_time_never_runs_back:
  assumes "anchored c"
  shows "sorted_wrt (<) (clock_run has es c) \<and>
    now \<le> hd (clock_run True (CellAt now # ReadClock # es) c)"
  using clock_run_later[OF assms] reanchor_clock[OF assms, of now] by (simp add: vm_now_def)

lemma vm_time_never_runs_back_witness:
  "sorted_wrt (<) (clock_run True [ReadClock, CellAt 1700000009000, ReadClock, CellAt 5, ReadClock] (create_clock 7)) \<and>
   1700000009000 \<le> hd (clock_run True (CellAt 1700000009000 # ReadClock # []) (create_clock 7))"
  using vm_time_never_runs_back[OF anchored_intros(1), of 7 True
      "[ReadClock, CellAt 1700000009000, ReadClock, CellAt 5, ReadClock]" 1700000009000]
    vm_time_never_runs_back[OF anchored_intros(1), of 7 True "[]" 1700000009000] by simp

section \<open>The manifest\<close>

text \<open>What is left of a declaration when only the members the manifest shows are kept.\<close>

definition keep :: "string list \<Rightarrow> json \<Rightarrow> json" where
  "keep ks v = (case v of JObj ms \<Rightarrow> JObj (filter (\<lambda>(k, _). List.member ks k) ms) | _ \<Rightarrow> v)"

definition public_tool :: "json \<Rightarrow> json" where
  "public_tool = keep [''fn'', ''description'', ''params'', ''example'']"

fun map_member :: "string \<Rightarrow> (json \<Rightarrow> json) \<Rightarrow> json \<Rightarrow> json" where
  "map_member k f (JObj ms) = JObj (map (\<lambda>(k', v). (k', if k' = k then f v else v)) ms)"
| "map_member k f v = v"

definition map_elements :: "(json \<Rightarrow> json) \<Rightarrow> json \<Rightarrow> json" where
  "map_elements f v = (case v of JArr xs \<Rightarrow> JArr (map f xs) | _ \<Rightarrow> v)"

definition public_ext :: "json \<Rightarrow> json" where
  "public_ext e = map_member ''tools'' (map_elements public_tool) (keep [''name'', ''version'', ''tools''] e)"

lemma map_of_keep: "map_of (filter (\<lambda>(k, _). P k) ms) k = (if P k then map_of ms k else None)"
  by (induction ms) auto

lemma get_keep: "List.member ks k \<Longrightarrow> json_get k (keep ks v) = json_get k v"
  by (cases v) (simp_all add: keep_def map_of_keep)

lemma map_of_map_member: "map_of (map (\<lambda>(k', v). (k', if k' = k then f v else v)) ms) j =
    (if j = k then map_option f (map_of ms j) else map_of ms j)"
  by (induction ms) auto

lemma get_map_member: "json_get j (map_member k f v) = (if j = k then map_option f (json_get j v) else json_get j v)"
  by (cases v) (simp_all add: map_of_map_member)

lemma keep_null: "keep ks v = JNull \<longleftrightarrow> v = JNull"
  by (cases v) (simp_all add: keep_def)

lemma map_member_null: "map_member k f v = JNull \<longleftrightarrow> v = JNull"
  by (cases v) simp_all

lemma tool_meta_public: "tool_meta (public_tool t) = tool_meta t"
  by (simp add: tool_meta_def public_tool_def keep_null get_keep List.member_iff)

lemma elements_map: "elements (map_option (map_elements f) v) = map f (elements v)"
  by (auto simp: elements_def map_elements_def split: option.split json.split)

lemma traverse_map: "traverse f (map g xs) = traverse (f \<circ> g) xs"
  by (induction xs) (simp_all split: option.split)

lemma public_gets:
  "json_get ''name'' (public_ext e) = json_get ''name'' e" "json_get ''version'' (public_ext e) = json_get ''version'' e"
  "json_get ''tools'' (public_ext e) = map_option (map_elements public_tool) (json_get ''tools'' e)"
  by (simp_all add: public_ext_def get_map_member get_keep List.member_iff)

lemma ext_meta_public: "ext_meta (public_ext e) = ext_meta e"
proof -
  have "public_ext e = JNull \<longleftrightarrow> e = JNull" by (simp add: public_ext_def map_member_null keep_null)
  then show ?thesis by (simp add: ext_meta_def public_gets elements_map traverse_map comp_def tool_meta_public)
qed

text \<open>C29. The scripts that seed a kernel show of an extension nothing but its name, its version, and the name,
  description, parameters and example of its tools: its backend, limits and whatever else its declaration
  holds do not reach the VM.\<close>

theorem seeds_hide_backends:
  "seed_scripts (c\<lparr>su_extensions := map public_ext exts\<rparr>) = seed_scripts (c\<lparr>su_extensions := exts\<rparr>)"
proof -
  have "ext_names (map public_ext exts) = ext_names exts"
    by (simp add: ext_names_def List.map_filter_def filter_map comp_def public_gets)
  moreover have "traverse ext_meta (map public_ext exts) = traverse ext_meta exts"
    by (simp add: traverse_map comp_def ext_meta_public)
  ultimately show ?thesis by (simp add: seed_scripts_def ext_meta_src_def)
qed

section \<open>Random bytes\<close>

lemma draw_length: "length (fst (draw n s)) = n"
  by (induction n s rule: draw.induct) (simp_all add: Let_def case_prod_unfold)

lemma draw_add: "draw (m + n) s = (fst (draw m s) @ fst (draw n (snd (draw m s))), snd (draw n (snd (draw m s))))"
  by (induction m s rule: draw.induct) (simp_all add: Let_def case_prod_unfold)

lemma put_bytes_append: "put_bytes p (xs @ ys) m = put_bytes (p + int (length xs)) ys (put_bytes p xs m)"
  by (rule nth_equalityI)
    (auto simp: put_bytes_def nth_append nat_less_iff, rule arg_cong[where f = "(!) ys"], arith)

text \<open>However the engine cuts its requests for random bytes, it gets the same stream: a request for the
  sum of two lengths is the two requests one after the other.\<close>

theorem random_bytes_are_one_stream:
  "random_get p (int m + int n) w = random_get (p + int m) (int n) (snd (random_get p (int m) w))"
proof -
  have "nat (int m + int n) = m + n" by simp
  then show ?thesis
    by (simp add: random_get_def case_prod_unfold Let_def draw_add put_bytes_append draw_length)
qed

lemma rng_state: "snd (draw n s) = s + of_nat n * 0x6d2b79f5"
  by (induction n s rule: draw.induct) (simp_all add: Let_def case_prod_unfold rng_step_def algebra_simps)

text \<open>The generator's states repeat after \<open>2 ^ 32\<close> bytes and not before.\<close>

lemma generator_period: "snd (draw n s) = s \<longleftrightarrow> 2 ^ 32 dvd n"
proof -
  have "(of_nat n * 0x6d2b79f5 :: 32 word) = of_nat (n * 0x6d2b79f5)" by simp
  then have "snd (draw n s) = s \<longleftrightarrow> (of_nat (n * 0x6d2b79f5) :: 32 word) = 0" by (simp add: rng_state)
  also have "\<dots> \<longleftrightarrow> 2 ^ 32 dvd n * 0x6d2b79f5" by (simp only: word_of_nat_eq_0_iff) simp
  also have "\<dots> \<longleftrightarrow> 2 ^ 32 dvd n"
  proof -
    have "coprime (2 ^ 32) (0x6d2b79f5 :: nat)"
      by (simp only: coprime_power_left_iff coprime_left_2_iff_odd) simp
    then show ?thesis by (simp only: coprime_dvd_mult_left_iff)
  qed
  finally show ?thesis .
qed

section \<open>Differences\<close>

text \<open>The engine of this repository exports no \<open>set_clock\<close>: the re-anchoring of real clocks does nothing.\<close>

lemma no_set_clock_no_anchor: "reanchor False now c = c"
  by (simp add: reanchor_def Let_def)

text \<open>With it, the clock of a restored session runs ahead of the wall clock by as many milliseconds as the
  session has ever read it: the seed of the restore and the counter of the snapshot do not belong together.\<close>

lemma restored_clock_runs_ahead:
  assumes "CLOCK_EPOCH_BASE_MS \<le> now" "0 \<le> vc_calls c" "vc_calls c < 2 ^ 31"
  shows "fst (vm_now (reanchor True now (restore_clock now c))) = now + vc_calls c"
proof -
  have "to_int32 (vc_calls c) = vc_calls c" using assms(2,3)
    by (simp add: to_int32_def signed_of_int signed_take_bit_int_eq_self)
  then show ?thesis using assms by (simp add: vm_now_def reanchor_def restore_clock_def Let_def)
qed

text \<open>A restored instance starts the generator again: the bytes it draws are the first of the session.\<close>

lemma restored_randomness_repeats: "wa_seed (makeWasi s m) = wa_seed (makeWasi s m')"
  by (simp add: makeWasi_def)

end
