(* ===== verification/SandboxApp.thy ===== *)
theory SandboxApp
  imports SandboxCall "HOL-Library.Sublist"
begin

text \<open>
  The sandbox worker, \<open>apps/sandbox/src/index.ts\<close>: the HTTP front of the containers, its authorization, the
  mount of a session's files, and its routes.  The container service (\<open>@cloudflare/sandbox\<close>) is a parameter:
  a call to a container answers a JSON value or throws, and changes the world.  Every call is recorded with
  the world it was made in.  A body is the parsed JSON, or nothing when it does not parse.
\<close>

section \<open>Requests, calls and state\<close>

record web_request =
  wr_method :: string
  wr_path :: string
  wr_query :: "(string \<times> string) list"
  wr_headers :: "(string \<times> string) list"
  wr_body :: "json option"
  wr_hostname :: string

datatype sb_response = SbJson nat json | SbStream json

datatype sb_call =
    SbExec json "json option"
  | SbExecStream json string
  | SbGit json "json option" json
  | SbListFiles string
  | SbReadFile string
  | SbWriteFile "json option" json
  | SbMkdir "json option"
  | SbDeleteFile "json option"
  | SbMount string
  | SbUnmount
  | SbExpose "json option" string

type_synonym 'w containers = "string \<Rightarrow> sb_call \<Rightarrow> 'w \<Rightarrow> (string, json) result \<times> 'w"

record 'w sb_world =
  sw_world :: 'w
  sw_calls :: "(string \<times> sb_call \<times> 'w) list"
  sw_points :: "(string \<times> json \<times> string) list"

record 'w sb_env =
  se_key :: "string option"
  se_analytics :: bool
  se_call :: "'w containers"

definition sb_do :: "'w sb_env \<Rightarrow> string \<Rightarrow> sb_call \<Rightarrow> 'w sb_world \<Rightarrow> (string, json) result \<times> 'w sb_world" where
  "sb_do E box c W =
     (let (r, w) = se_call E box c (sw_world W)
      in (r, W\<lparr>sw_world := w, sw_calls := sw_calls W @ [(box, c, sw_world W)]\<rparr>))"

text \<open>Sequencing: an error skips the rest.\<close>

definition sb_then ::
  "(string, 'a) result \<times> 'w sb_world \<Rightarrow> ('a \<Rightarrow> 'w sb_world \<Rightarrow> (string, 'b) result \<times> 'w sb_world)
   \<Rightarrow> (string, 'b) result \<times> 'w sb_world" where
  "sb_then x k = (case x of (Inl e, W) \<Rightarrow> (Inl e, W) | (Inr v, W) \<Rightarrow> k v W)"

section \<open>Sessions\<close>

definition MOUNT_PATH :: string where "MOUNT_PATH = ''/workspace''"

definition sessionPrefix :: "string \<Rightarrow> string" where
  "sessionPrefix doId = ''/fs/'' @ doId @ ''/''"

definition session_char :: "char \<Rightarrow> bool" where
  "session_char c = (let n = of_char c :: nat in 97 \<le> n \<and> n \<le> 122 \<or> 48 \<le> n \<and> n \<le> 57)"

definition normalizeSessionId :: "string \<Rightarrow> string option" where
  "normalizeSessionId raw =
     (let i = js_lower (js_trim raw) in
      if i \<noteq> [] \<and> session_char (hd i) \<and> length i \<le> 128 \<and> list_all (\<lambda>c. session_char c \<or> c = CHR ''_'' \<or> c = CHR ''-'') (tl i)
      then Some i else None)"

definition containerId :: "string \<Rightarrow> string" where
  "containerId doId = take 63 doId"

section \<open>The mount\<close>

text \<open>\<open>/already.*mount|mountpoint.*busy|is not empty/i\<close>; a dot matches no line end.\<close>

definition line_has :: "string \<Rightarrow> string \<Rightarrow> bool" where
  "line_has p s = list_ex (prefix p) (suffixes (takeWhile (\<lambda>c. c \<noteq> CHR 0x0A \<and> c \<noteq> CHR 0x0D) s))"

definition mounted_already :: "string \<Rightarrow> bool" where
  "mounted_already msg =
     list_ex (\<lambda>s. prefix ''already'' s \<and> line_has ''mount'' (drop 7 s) \<or> prefix ''mountpoint'' s \<and> line_has ''busy'' (drop 10 s) \<or>
        prefix ''is not empty'' s) (suffixes (js_lower msg))"

definition check_cmd :: json where
  "check_cmd = JStr (''mountpoint -q '' @ MOUNT_PATH)"

definition clear_cmd :: json where
  "clear_cmd = JStr (''rm -rf '' @ MOUNT_PATH @ ''/* '' @ MOUNT_PATH @ ''/.[!.]* '' @ MOUNT_PATH @ ''/..?* 2>/dev/null || true'')"

definition ensureSessionMount :: "'w sb_env \<Rightarrow> string \<Rightarrow> 'w sb_world \<Rightarrow> (string, unit) result \<times> 'w sb_world" where
  "ensureSessionMount E doId W =
     (let box = containerId doId; (chk, W1) = sb_do E box (SbExec check_cmd None) W in
      if (case chk of Inr v \<Rightarrow> json_get ''exitCode'' v = Some (JNum 0) | Inl _ \<Rightarrow> False) then (Inr (), W1)
      else
       (let (clr, W2) = sb_do E box (SbExec clear_cmd None) W1;
            (mnt, W3) = sb_do E box (SbMount (sessionPrefix doId)) W2
        in (case mnt of
              Inr _ \<Rightarrow> (Inr (), W3)
            | Inl msg \<Rightarrow> if mounted_already msg then (Inr (), W3) else (Inl msg, W3))))"

section \<open>Authorization\<close>

text \<open>\<open>hdr.replace(/^Bearer\s+/i, "")\<close>.\<close>

definition bearer_token :: "string \<Rightarrow> string" where
  "bearer_token v =
     (let r = drop 6 v in
      if js_lower (take 6 v) = ''bearer'' \<and> r \<noteq> [] \<and> js_space (hd r) then dropWhile js_space r else v)"

definition req_header :: "web_request \<Rightarrow> string \<Rightarrow> string option" where
  "req_header rq k = map_of (wr_headers rq) k"

definition requireAuth :: "web_request \<Rightarrow> 'w sb_env \<Rightarrow> bool" where
  "requireAuth rq E =
     (case se_key E of
        None \<Rightarrow> True
      | Some key \<Rightarrow>
          if key = [] then True
          else List.member (map js_trim (js_split CHR '','' key))
                 (bearer_token (case req_header rq ''authorization'' of Some h \<Rightarrow> h | None \<Rightarrow> [])))"

section \<open>Routes\<close>

definition record_point :: "'w sb_env \<Rightarrow> string \<Rightarrow> json \<Rightarrow> string \<Rightarrow> 'w sb_world \<Rightarrow> 'w sb_world" where
  "record_point E op code err W = (if se_analytics E then W\<lparr>sw_points := sw_points W @ [(op, code, err)]\<rparr> else W)"

definition sb_error :: "nat \<Rightarrow> string \<Rightarrow> sb_response" where
  "sb_error code msg = SbJson code (JObj [(''error'', JStr msg)])"

definition sb_ok :: sb_response where
  "sb_ok = SbJson 200 (JObj [(''ok'', JBool True)])"

text \<open>The parsed body; reading a member of what is no object throws for \<open>null\<close> only.\<close>

definition body_of :: "web_request \<Rightarrow> (string, json) result" where
  "body_of rq =
     (case wr_body rq of
        None \<Rightarrow> Inl ''Unexpected end of JSON input''
      | Some v \<Rightarrow> if v = JNull then Inl ''Cannot read properties of null'' else Inr v)"

definition answered :: "sb_response \<Rightarrow> 'w sb_world \<Rightarrow> (string, sb_response) result \<times> 'w sb_world" where
  "answered r W = (Inr r, W)"

definition or_mount_path :: "json option \<Rightarrow> json" where
  "or_mount_path v = (case non_null v of Some x \<Rightarrow> x | None \<Rightarrow> JStr MOUNT_PATH)"

definition route_exec :: "'w sb_env \<Rightarrow> string \<Rightarrow> web_request \<Rightarrow> 'w sb_world \<Rightarrow> (string, sb_response) result \<times> 'w sb_world" where
  "route_exec E doId rq W =
     (if wr_method rq \<noteq> ''POST'' then answered (sb_error 405 ''POST only'') W
      else sb_then (body_of rq, W) (\<lambda>b W.
        case js_field ''cmd'' (Some b) of
          None \<Rightarrow> answered (sb_error 400 ''cmd required'') W
        | Some cmd \<Rightarrow>
            sb_then (ensureSessionMount E doId W) (\<lambda>_ W.
            sb_then (sb_do E (containerId doId) (SbExec cmd (Some (or_mount_path (json_get ''cwd'' b)))) W) (\<lambda>r W.
            answered (SbJson 200 r)
              (record_point E ''exec'' (case json_get ''exitCode'' r of Some x \<Rightarrow> x | None \<Rightarrow> JNull) [] W)))))"

definition route_exec_stream :: "'w sb_env \<Rightarrow> string \<Rightarrow> web_request \<Rightarrow> 'w sb_world \<Rightarrow> (string, sb_response) result \<times> 'w sb_world" where
  "route_exec_stream E doId rq W =
     (if wr_method rq \<noteq> ''POST'' then answered (sb_error 405 ''POST only'') W
      else sb_then (body_of rq, W) (\<lambda>b W.
        case js_field ''cmd'' (Some b) of
          None \<Rightarrow> answered (sb_error 400 ''cmd required'') W
        | Some cmd \<Rightarrow>
            sb_then (ensureSessionMount E doId W) (\<lambda>_ W.
            sb_then (sb_do E (containerId doId) (SbExecStream cmd MOUNT_PATH) W) (\<lambda>r W. answered (SbStream r) W))))"

definition route_git :: "'w sb_env \<Rightarrow> string \<Rightarrow> web_request \<Rightarrow> 'w sb_world \<Rightarrow> (string, sb_response) result \<times> 'w sb_world" where
  "route_git E doId rq W =
     (if wr_method rq \<noteq> ''POST'' then answered (sb_error 405 ''POST only'') W
      else sb_then (case wr_body rq of None \<Rightarrow> Inl ''Unexpected end of JSON input'' | Some b \<Rightarrow> Inr b, W) (\<lambda>b W.
        sb_then (ensureSessionMount E doId W) (\<lambda>_ W.
          if b = JNull then (Inl ''Cannot read properties of null'', W)
          else (case (json_get ''op'' b, js_field ''repo'' (Some b)) of
              (Some (JStr op), Some repo) \<Rightarrow>
                if op = ''checkout'' then
                  sb_then (sb_do E (containerId doId) (SbGit repo (json_get ''branch'' b)
                     (case non_null (json_get ''dir'' b) of Some d \<Rightarrow> d | None \<Rightarrow> JStr (MOUNT_PATH @ ''/repo''))) W)
                    (\<lambda>_ W. answered sb_ok (record_point E ''git'' (JNum 0) [] W))
                else answered (sb_error 400 ''unsupported git op'') W
            | _ \<Rightarrow> answered (sb_error 400 ''unsupported git op'') W))))"

definition files_get :: "'w sb_env \<Rightarrow> string \<Rightarrow> web_request \<Rightarrow> 'w sb_world \<Rightarrow> (string, sb_response) result \<times> 'w sb_world" where
  "files_get E doId rq W =
     (case map_of (wr_query rq) ''path'' of
        None \<Rightarrow> answered (sb_error 400 ''path required'') W
      | Some path \<Rightarrow>
          if path = [] then answered (sb_error 400 ''path required'') W
          else if map_of (wr_query rq) ''op'' = Some ''list'' then
            sb_then (sb_do E (containerId doId) (SbListFiles path) W) (\<lambda>r W. answered (SbJson 200 r) W)
          else sb_then (sb_do E (containerId doId) (SbReadFile path) W)
            (\<lambda>r W. answered (SbJson 200 (JObj (opt_field ''content'' (json_get ''content'' r)))) W))"

definition files_post :: "'w sb_env \<Rightarrow> string \<Rightarrow> web_request \<Rightarrow> 'w sb_world \<Rightarrow> (string, sb_response) result \<times> 'w sb_world" where
  "files_post E doId rq W =
     sb_then (body_of rq, W) (\<lambda>b W.
       let op = json_get ''op'' b; path = json_get ''path'' b in
       if op = Some (JStr ''write'') then
         sb_then (sb_do E (containerId doId) (SbWriteFile path
             (case non_null (json_get ''content'' b) of Some c \<Rightarrow> c | None \<Rightarrow> JStr [])) W)
           (\<lambda>_ W. answered sb_ok (record_point E ''files-write'' (JNum 0) [] W))
       else if op = Some (JStr ''mkdir'') then
         sb_then (sb_do E (containerId doId) (SbMkdir path) W) (\<lambda>_ W. answered sb_ok W)
       else if op = Some (JStr ''delete'') then
         sb_then (sb_do E (containerId doId) (SbDeleteFile path) W) (\<lambda>_ W. answered sb_ok W)
       else answered (sb_error 400 ''bad files request'') W)"

definition route_files :: "'w sb_env \<Rightarrow> string \<Rightarrow> web_request \<Rightarrow> 'w sb_world \<Rightarrow> (string, sb_response) result \<times> 'w sb_world" where
  "route_files E doId rq W =
     sb_then (ensureSessionMount E doId W) (\<lambda>_ W.
       if wr_method rq = ''GET'' then files_get E doId rq W
       else if wr_method rq = ''POST'' then files_post E doId rq W
       else answered (sb_error 400 ''bad files request'') W)"

definition route_expose :: "'w sb_env \<Rightarrow> string \<Rightarrow> web_request \<Rightarrow> 'w sb_world \<Rightarrow> (string, sb_response) result \<times> 'w sb_world" where
  "route_expose E doId rq W =
     (if wr_method rq \<noteq> ''POST'' then answered (sb_error 405 ''POST only'') W
      else sb_then (body_of rq, W) (\<lambda>b W.
        sb_then (sb_do E (containerId doId) (SbExpose (json_get ''port'' b) (wr_hostname rq)) W) (\<lambda>r W. answered (SbJson 200 r) W)))"

definition sb_route :: "'w sb_env \<Rightarrow> string \<Rightarrow> web_request \<Rightarrow> 'w sb_world \<Rightarrow> (string, sb_response) result \<times> 'w sb_world" where
  "sb_route E doId rq W =
     (let p = wr_path rq in
      if p = ''/exec'' then route_exec E doId rq W
      else if p = ''/exec-stream'' then route_exec_stream E doId rq W
      else if p = ''/git'' then route_git E doId rq W
      else if p = ''/files'' then route_files E doId rq W
      else if p = ''/mount'' then
        sb_then (ensureSessionMount E doId W) (\<lambda>_ W. answered
          (SbJson 200 (JObj [(''ok'', JBool True), (''mountPath'', JStr MOUNT_PATH), (''prefix'', JStr (sessionPrefix doId))])) W)
      else if p = ''/unmount'' then sb_then (sb_do E (containerId doId) SbUnmount W) (\<lambda>_ W. answered sb_ok W)
      else if p = ''/expose'' then route_expose E doId rq W
      else answered (sb_error 404 ''not found'') W)"

text \<open>\<open>fetch\<close> on a request that \<open>proxyToSandbox\<close> does not take.\<close>

definition session_header :: "web_request \<Rightarrow> string" where
  "session_header rq =
     (case req_header rq ''x-engram-session'' of
        Some h \<Rightarrow> h
      | None \<Rightarrow> (case map_of (wr_query rq) ''session'' of Some q \<Rightarrow> q | None \<Rightarrow> []))"

definition sandbox_fetch :: "'w sb_env \<Rightarrow> web_request \<Rightarrow> 'w sb_world \<Rightarrow> sb_response \<times> 'w sb_world" where
  "sandbox_fetch E rq W =
     (if wr_path rq = ''/health'' then (SbJson 200 (JObj [(''ok'', JBool True), (''worker'', JStr ''engram-sandbox'')]), W)
      else if \<not> requireAuth rq E then (sb_error 401 ''unauthorized'', W)
      else (case normalizeSessionId (session_header rq) of
          None \<Rightarrow> (sb_error 400 ''missing or invalid session id'', W)
        | Some doId \<Rightarrow>
            (case sb_route E doId rq W of
               (Inr r, W1) \<Rightarrow> (r, W1)
             | (Inl msg, W1) \<Rightarrow> (sb_error 500 msg, record_point E ''error'' (JNum 1) msg W1))))"

end
