(* ===== verification/SandboxAppProps.thy ===== *)
theory SandboxAppProps
  imports SandboxApp
begin

text \<open>
  What the sandbox worker keeps: no container is reached without a configured key's token, every call of a
  request goes to the container of its own session and mounts that session's files only, and the mount is
  made, and the directory cleared, only where nothing is mounted, as long as the check answers.  The last
  section holds what happens when it does not, and the other behaviours that differ from the comments.
\<close>

named_theorems sandbox_calls

section \<open>The calls a handler makes\<close>

text \<open>A check that answers, with the truth, and changes no mount; nor does the clearing of the directory.\<close>

definition honest :: "'w sb_env \<Rightarrow> (string \<Rightarrow> 'w \<Rightarrow> bool) \<Rightarrow> bool" where
  "honest E mounted \<longleftrightarrow>
     (\<forall>box w. \<exists>v w'. se_call E box (SbExec check_cmd None) w = (Inr v, w') \<and>
        (json_get ''exitCode'' v = Some (JNum 0)) = mounted box w \<and> mounted box w' = mounted box w) \<and>
     (\<forall>box w. mounted box (snd (se_call E box (SbExec clear_cmd None) w)) = mounted box w)"

definition own_call :: "'w sb_env \<Rightarrow> (string \<Rightarrow> 'w \<Rightarrow> bool) \<Rightarrow> string \<Rightarrow> string \<times> sb_call \<times> 'w \<Rightarrow> bool" where
  "own_call E mounted doId x =
     (case x of (box, c, w) \<Rightarrow> box = containerId doId \<and>
        (case c of
           SbMount p \<Rightarrow> p = sessionPrefix doId \<and> (honest E mounted \<longrightarrow> \<not> mounted box w)
         | SbExec cmd None \<Rightarrow> cmd = clear_cmd \<longrightarrow> honest E mounted \<longrightarrow> \<not> mounted box w
         | _ \<Rightarrow> True))"

lemma own_callD:
  assumes "own_call E mounted doId (box, c, w)" "honest E mounted"
  shows "box = containerId doId" "c = SbMount p \<Longrightarrow> \<not> mounted box w" "c = SbMount p \<Longrightarrow> p = sessionPrefix doId"
    "c = SbExec clear_cmd None \<Longrightarrow> \<not> mounted box w"
  using assms by (auto simp: own_call_def)

definition calls_of :: "(string \<times> sb_call \<times> 'w \<Rightarrow> bool) \<Rightarrow> 'w sb_world \<Rightarrow> 'w sb_world \<Rightarrow> bool" where
  "calls_of P W W' \<longleftrightarrow> (\<exists>new. sw_calls W' = sw_calls W @ new \<and> list_all P new)"

lemma calls_refl [sandbox_calls]: "calls_of P W W"
  by (simp add: calls_of_def)

lemma calls_trans: "calls_of P U V \<Longrightarrow> calls_of P V W \<Longrightarrow> calls_of P U W"
  by (auto simp: calls_of_def)

lemma calls_do [sandbox_calls]:
  "P (box, c, sw_world W) \<Longrightarrow> calls_of P W (snd (sb_do E box c W))"
  by (auto simp: calls_of_def sb_do_def split_def Let_def)

lemma calls_then [sandbox_calls]:
  assumes "calls_of P W (snd x)" "\<And>v W'. calls_of P W' (snd (k v W'))"
  shows "calls_of P W (snd (sb_then x k))"
proof (cases x)
  case (Pair r W1)
  with assms show ?thesis by (cases r) (auto simp: sb_then_def intro: calls_trans)
qed

lemma calls_answered [sandbox_calls]: "calls_of P W (snd (answered r W))"
  by (simp add: answered_def calls_refl)

lemma calls_answered_point [sandbox_calls]: "calls_of P W (snd (answered r (record_point E op code err W)))"
  by (simp add: answered_def record_point_def calls_of_def)

lemma calls_pair [sandbox_calls]: "calls_of P W (snd (r, W))"
  by (simp add: calls_refl)

lemma own_plain:
  assumes "box = containerId doId" "\<And>p. c \<noteq> SbMount p" "\<And>cmd. c \<noteq> SbExec cmd None"
  shows "own_call E mounted doId (box, c, w)"
  using assms by (auto simp: own_call_def split: sb_call.splits option.splits)

lemma check_is_not_clear: "check_cmd \<noteq> clear_cmd"
  by (simp add: check_cmd_def clear_cmd_def)

section \<open>The mount\<close>

lemma calls_ensure [sandbox_calls]: "calls_of (own_call E mounted doId) W (snd (ensureSessionMount E doId W))"
proof -
  let ?P = "own_call E mounted doId" and ?box = "containerId doId"
  obtain chk W1 where c: "sb_do E ?box (SbExec check_cmd None) W = (chk, W1)" by fastforce
  obtain clr W2 where d: "sb_do E ?box (SbExec clear_cmd None) W1 = (clr, W2)" by fastforce
  obtain mnt W3 where m: "sb_do E ?box (SbMount (sessionPrefix doId)) W2 = (mnt, W3)" by fastforce
  have 1: "calls_of ?P W W1"
    using calls_do [of ?P ?box "SbExec check_cmd None" W E] c check_is_not_clear by (simp add: own_call_def)
  show ?thesis
  proof (cases "case chk of Inr v \<Rightarrow> json_get ''exitCode'' v = Some (JNum 0) | Inl _ \<Rightarrow> False")
    case True
    then show ?thesis using c 1 by (simp add: ensureSessionMount_def)
  next
    case False
    have h: "\<not> mounted ?box (sw_world W1) \<and> \<not> mounted ?box (sw_world W2)" if hon: "honest E mounted"
    proof -
      obtain v w' where v: "se_call E ?box (SbExec check_cmd None) (sw_world W) = (Inr v, w')"
        "(json_get ''exitCode'' v = Some (JNum 0)) = mounted ?box (sw_world W)" "mounted ?box w' = mounted ?box (sw_world W)"
        using hon unfolding honest_def by meson
      have "chk = Inr v" "sw_world W1 = w'" using c v(1) by (auto simp: sb_do_def split_def Let_def)
      moreover have "sw_world W2 = snd (se_call E ?box (SbExec clear_cmd None) (sw_world W1))"
        using d by (auto simp: sb_do_def split_def Let_def)
      ultimately show ?thesis using False v hon by (simp add: honest_def)
    qed
    have "calls_of ?P W1 W2"
      using calls_do [of ?P ?box "SbExec clear_cmd None" W1 E] d h by (simp add: own_call_def)
    moreover have "calls_of ?P W2 W3"
      using calls_do [of ?P ?box "SbMount (sessionPrefix doId)" W2 E] m h by (simp add: own_call_def)
    ultimately have "calls_of ?P W W3" using 1 by (meson calls_trans)
    then show ?thesis using c d m False by (auto simp: ensureSessionMount_def Let_def split: sum.splits)
  qed
qed

section \<open>The routes\<close>

lemma calls_own_do [sandbox_calls]:
  "(\<And>p. c \<noteq> SbMount p) \<Longrightarrow> (\<And>cmd. c \<noteq> SbExec cmd None) \<Longrightarrow>
   calls_of (own_call E mounted doId) W (snd (sb_do E (containerId doId) c W))"
  by (rule calls_do) (rule own_plain, auto)

lemma calls_files_get [sandbox_calls]: "calls_of (own_call E mounted doId) W (snd (files_get E doId rq W))"
  by (auto simp: files_get_def split: option.splits intro!: calls_then calls_own_do calls_answered)

lemma calls_files_post [sandbox_calls]: "calls_of (own_call E mounted doId) W (snd (files_post E doId rq W))"
  by (auto simp: files_post_def Let_def intro!: calls_then calls_pair calls_own_do calls_answered calls_answered_point)

lemma calls_exec [sandbox_calls]: "calls_of (own_call E mounted doId) W (snd (route_exec E doId rq W))"
  by (auto simp: route_exec_def split: option.splits
      intro!: calls_then calls_pair calls_ensure calls_own_do calls_answered calls_answered_point)

lemma calls_exec_stream [sandbox_calls]: "calls_of (own_call E mounted doId) W (snd (route_exec_stream E doId rq W))"
  by (auto simp: route_exec_stream_def split: option.splits intro!: calls_then calls_pair calls_ensure calls_own_do calls_answered)

lemma calls_git [sandbox_calls]: "calls_of (own_call E mounted doId) W (snd (route_git E doId rq W))"
  unfolding route_git_def
  by (auto split: option.splits json.splits
      intro!: calls_then calls_pair calls_refl calls_ensure calls_own_do calls_answered calls_answered_point)

lemma calls_files [sandbox_calls]: "calls_of (own_call E mounted doId) W (snd (route_files E doId rq W))"
  by (auto simp: route_files_def intro!: calls_then calls_ensure calls_files_get calls_files_post calls_answered)

lemma calls_expose [sandbox_calls]: "calls_of (own_call E mounted doId) W (snd (route_expose E doId rq W))"
  by (auto simp: route_expose_def intro!: calls_then calls_pair calls_own_do calls_answered)

lemma calls_route: "calls_of (own_call E mounted doId) W (snd (sb_route E doId rq W))"
  by (simp add: sb_route_def Let_def sandbox_calls)

lemma calls_fetch:
  assumes "normalizeSessionId (session_header rq) = Some doId"
  shows "calls_of (own_call E mounted doId) W (snd (sandbox_fetch E rq W))"
proof -
  obtain r W1 where s: "sb_route E doId rq W = (r, W1)" by fastforce
  have c: "calls_of (own_call E mounted doId) W W1" using calls_route [of E mounted doId W rq] s by simp
  then have "calls_of (own_call E mounted doId) W (record_point E op code err W1)" for op code err
    by (simp add: calls_of_def record_point_def)
  then show ?thesis using assms s c by (auto simp: sandbox_fetch_def calls_refl split: sum.splits)
qed

lemma fetch_no_session: "normalizeSessionId (session_header rq) = None \<Longrightarrow> snd (sandbox_fetch E rq W) = W"
  by (simp add: sandbox_fetch_def)

section \<open>Session ids\<close>

lemma session_id_chars:
  assumes "normalizeSessionId raw = Some i"
  shows "i \<noteq> []" "CHR ''/'' \<notin> set i"
proof -
  let ?t = "js_lower (js_trim raw)"
  have i: "?t = i" "i \<noteq> []" "session_char (hd i)" "list_all (\<lambda>c. session_char c \<or> c = CHR ''_'' \<or> c = CHR ''-'') (tl i)"
    using assms by (auto simp: normalizeSessionId_def Let_def split: if_splits)
  then show "i \<noteq> []" by simp
  have "\<not> session_char (CHR ''/'')" by (simp add: session_char_def)
  then show "CHR ''/'' \<notin> set i" using i by (cases i) (auto simp: list_all_iff)
qed

lemma slash_split_unique: "c \<notin> set a \<Longrightarrow> c \<notin> set b \<Longrightarrow> a @ c # s = b @ c # t \<Longrightarrow> a = b"
proof (induction a arbitrary: b)
  case Nil
  then show ?case by (cases b) auto
next
  case (Cons x a)
  then show ?case by (cases b) auto
qed

lemma prefixes_apart:
  assumes "normalizeSessionId r = Some a" "normalizeSessionId s = Some b" "prefix (sessionPrefix a) (sessionPrefix b @ k)"
  shows "a = b"
proof -
  obtain z where "a @ ''/'' @ z = b @ ''/'' @ k" using assms(3) by (auto simp: sessionPrefix_def elim!: prefixE)
  then show ?thesis using session_id_chars(2) [OF assms(1)] session_id_chars(2) [OF assms(2)]
    by (intro slash_split_unique [of "CHR ''/''" a b z k]) auto
qed

section \<open>Properties\<close>

text \<open>
  A container service with one mount flag per container, in which the check answers: the concrete instance
  of the witnesses.
\<close>

definition flag_service :: "string set containers" where
  "flag_service box c w =
     (case c of
        SbMount p \<Rightarrow> (Inr JNull, insert box w)
      | SbUnmount \<Rightarrow> (Inr JNull, w - {box})
      | SbExec cmd d \<Rightarrow>
          (Inr (JObj [(''exitCode'', JNum (if cmd = check_cmd \<and> d = None \<and> box \<notin> w then 1 else 0))]), w)
      | _ \<Rightarrow> (Inr JNull, w))"

definition flag_env :: "string set sb_env" where
  "flag_env = \<lparr>se_key = Some ''k1, k2'', se_analytics = False, se_call = flag_service\<rparr>"

definition exec_request :: "string \<Rightarrow> web_request" where
  "exec_request auth =
     \<lparr>wr_method = ''POST'', wr_path = ''/exec'', wr_query = [],
      wr_headers = [(''authorization'', auth), (''x-engram-session'', ''ab'')],
      wr_body = Some (JObj [(''cmd'', JStr ''ls'')]), wr_hostname = ''h''\<rparr>"

definition flag_start :: "string set sb_world" where
  "flag_start = \<lparr>sw_world = {}, sw_calls = [], sw_points = []\<rparr>"

lemma flag_honest: "honest flag_env (\<lambda>box w. box \<in> w)"
  using check_is_not_clear by (auto simp: honest_def flag_env_def flag_service_def)

text \<open>With a key configured, a request other than the health check whose token is none of the configured
  ones is answered 401, and neither a container is called nor anything else changed; the token is what
  follows \<open>Bearer\<close>, and a request without the header has the empty one.
\<close>

theorem worker_needs_token:
  assumes "se_key E = Some key" "key \<noteq> []" "wr_path rq \<noteq> ''/health''"
    and "bearer_token (case req_header rq ''authorization'' of Some h \<Rightarrow> h | None \<Rightarrow> [])
      \<notin> js_trim ` set (js_split CHR '','' key)"
  shows "sandbox_fetch E rq W = (SbJson 401 (JObj [(''error'', JStr ''unauthorized'')]), W)"
  using assms by (simp add: sandbox_fetch_def requireAuth_def List.member_iff sb_error_def)

theorem worker_needs_token_witness:
  "sandbox_fetch flag_env (exec_request ''Bearer k3'') flag_start =
     (SbJson 401 (JObj [(''error'', JStr ''unauthorized'')]), flag_start)"
  by (rule worker_needs_token [where key = "''k1, k2''"]; code_simp)

text \<open>C28. Every call a request makes, on every route, succeeding or failing, goes to the container of the session
  the request names, and none is made for a request without a valid session id. What is mounted there is
  that session's prefix of the bucket, and no key under it is under the prefix of any other session. As long
  as the check for a mount answers, a mount is made, and the directory is cleared, only in a container with
  nothing mounted: a mount is never stacked and no mounted file is cleared.
\<close>

theorem request_stays_in_its_session:
  assumes "honest E mounted"
  shows "\<exists>new. sw_calls (snd (sandbox_fetch E rq W)) = sw_calls W @ new \<and>
    (\<forall>(box, c, w) \<in> set new. \<exists>doId. normalizeSessionId (session_header rq) = Some doId \<and> box = containerId doId \<and>
       (\<forall>p. c = SbMount p \<longrightarrow> \<not> mounted box w \<and> p = sessionPrefix doId \<and>
          (\<forall>raw other k. normalizeSessionId raw = Some other \<longrightarrow> prefix (sessionPrefix other) (p @ k) \<longrightarrow> other = doId)) \<and>
       (c = SbExec clear_cmd None \<longrightarrow> \<not> mounted box w))"
proof (cases "normalizeSessionId (session_header rq)")
  case None
  then show ?thesis by (simp add: fetch_no_session)
next
  case (Some doId)
  obtain new where n: "sw_calls (snd (sandbox_fetch E rq W)) = sw_calls W @ new" "list_all (own_call E mounted doId) new"
    using calls_fetch [OF Some, of E mounted W] by (auto simp: calls_of_def)
  have apart: "\<forall>raw other k. normalizeSessionId raw = Some other \<longrightarrow> prefix (sessionPrefix other) (sessionPrefix doId @ k)
      \<longrightarrow> other = doId"
    using prefixes_apart [OF _ Some] by blast
  show ?thesis
  proof (rule exI [of _ new], intro conjI n(1) ballI)
    fix x assume "x \<in> set new"
    then have own: "own_call E mounted doId x" using n(2) by (simp add: list_all_iff)
    obtain b c w where x: "x = (b, c, w)" by (cases x)
    note d = own_callD [OF own [unfolded x] assms]
    show "case x of (box, c, w) \<Rightarrow> \<exists>doId. normalizeSessionId (session_header rq) = Some doId \<and> box = containerId doId \<and>
       (\<forall>p. c = SbMount p \<longrightarrow> \<not> mounted box w \<and> p = sessionPrefix doId \<and>
          (\<forall>raw other k. normalizeSessionId raw = Some other \<longrightarrow> prefix (sessionPrefix other) (p @ k) \<longrightarrow> other = doId)) \<and>
       (c = SbExec clear_cmd None \<longrightarrow> \<not> mounted box w)"
      unfolding x using Some apart d by auto
  qed
qed

theorem request_stays_in_its_session_witness:
  "\<exists>new. sw_calls (snd (sandbox_fetch flag_env (exec_request ''Bearer k2'') flag_start)) = new \<and> length new = 4 \<and>
    (\<forall>(box, c, w) \<in> set new. c = SbMount (sessionPrefix ''ab'') \<longrightarrow> box = ''ab'' \<and> box \<notin> w)"
proof -
  let ?r = "sandbox_fetch flag_env (exec_request ''Bearer k2'') flag_start"
  have "normalizeSessionId (session_header (exec_request ''Bearer k2'')) = Some ''ab''" by code_simp
  moreover have "containerId ''ab'' = ''ab''" by code_simp
  moreover have "length (sw_calls (snd ?r)) = 4" by code_simp
  moreover have "sw_calls flag_start = []" by (simp add: flag_start_def)
  ultimately show ?thesis
    using request_stays_in_its_session [OF flag_honest, of "exec_request ''Bearer k2''" flag_start] by fastforce
qed

section \<open>Behaviours that differ from the comments\<close>

text \<open>
  When the check throws, which the code takes for \<open>no mount\<close>, the directory is cleared all the same, whatever
  is mounted on it: under a mount this deletes the session's files, which the comment calls impossible.
\<close>

lemma failed_check_clears_mount:
  assumes "se_call E (containerId doId) (SbExec check_cmd None) (sw_world W) = (Inl e, w)"
  shows "\<exists>rest. sw_calls (snd (ensureSessionMount E doId W)) =
    sw_calls W @ [(containerId doId, SbExec check_cmd None, sw_world W), (containerId doId, SbExec clear_cmd None, w)] @ rest"
  using assms by (auto simp: ensureSessionMount_def sb_do_def Let_def split_def split: sum.splits)

text \<open>A trailing comma in the configured keys, or only white space between two, admits requests without a token.\<close>

lemma trailing_comma_admits_all:
  assumes "se_key E = Some (k @ '','')" "req_header rq ''authorization'' = None"
  shows "requireAuth rq E"
proof -
  have "[] \<in> set (js_split CHR '','' (k @ [CHR '','']))" by (simp add: js_split_append_sep_gen)
  then have "[] \<in> js_trim ` set (js_split CHR '','' (k @ [CHR '','']))" by (force simp: js_trim_def)
  then show ?thesis using assms by (auto simp: requireAuth_def bearer_token_def List.member_iff)
qed

text \<open>
  Two sessions whose ids share their first 63 characters have one container, and the one that comes second
  works in the mount of the first: its own files are not mounted.
\<close>

lemma long_ids_share_a_mount:
  assumes "take 63 a = take 63 b" "se_call E (containerId a) (SbExec check_cmd None) (sw_world W) = (Inr v, w)"
    and "json_get ''exitCode'' v = Some (JNum 0)"
  shows "ensureSessionMount E b W = (Inr (), W\<lparr>sw_world := w, sw_calls := sw_calls W @ [(containerId a, SbExec check_cmd None, sw_world W)]\<rparr>)"
  using assms by (simp add: ensureSessionMount_def sb_do_def Let_def containerId_def)

text \<open>\<open>/mount\<close> and \<open>/unmount\<close> do the same for every method, a \<open>GET\<close> too, which the comment says gives information only.\<close>

lemma get_mounts_too:
  "wr_path rq \<in> {''/mount'', ''/unmount''} \<Longrightarrow> sb_route E doId (rq\<lparr>wr_method := m\<rparr>) W = sb_route E doId rq W"
  by (auto simp: sb_route_def)

end
