(* ===== verification/Spec2Isabelle.thy ===== *)
theory Spec2Isabelle
  imports FsCoherence Gateway HostFetchProps SnapshotProps ReplProps WsProps CellProps HostCallsProps SandboxCall CloudProps
    SdkFilesProps SdkTransportProps SdkSessionProps CloudClient CliProps
    NetDelivery UiProps UiKernelProps ZstdCodec KernelProps SandboxAppProps
begin

text \<open>
  Verification of engram-repl: a JavaScript REPL whose sessions persist.  A session is a QuickJS virtual
  machine inside a Durable Object; its heap is checkpointed into a store, its files live in a bucket, and it
  reaches the outside only through calls the kernel serves.  This theory imports every other one and holds no
  definition of its own.  Each theory says at its beginning which files of \<open>src/\<close> it translates.

  \<^bold>\<open>The parts and how they work together.\<close>  A client (\<open>packages/sdk\<close>, \<open>packages/cli\<close>) talks to the cloud worker
  (\<open>apps/cloud\<close>) over HTTP or to a kernel over a WebSocket.  The cloud worker resolves a credential to an
  account, picks the shard and the facet of the account's session and meters the request.  The kernel
  (\<open>apps/kernel\<close>) rewrites the source of a cell so that declarations persist, runs it in the engine, and serves
  the engine's host calls one by one in a loop with budgets: fetches and streams, WebSockets, raw sockets, the
  sandbox bridge, extension tools and calls to the client.  Between cells it writes a checkpoint, full or as a
  delta, and on a cold start reconstructs the image or replays the journal of cells.  The file substrate
  (\<open>packages/engram-fs\<close>) is shared by the kernel, the gateway and the client's file frames; the sandbox worker
  (\<open>apps/sandbox\<close>) mounts the same prefix of the bucket in a container.

  \<^bold>\<open>Theories and sources.\<close>
  \<^item> \<^theory_text>\<open>Prelude\<close>, \<^theory_text>\<open>Json\<close>, \<^theory_text>\<open>Base64\<close>: JavaScript's string and array operations, JSON values and their text,
    numbers of 32 bits, \<open>btoa\<close> and \<open>atob\<close>.
  \<^item> Files: \<^theory_text>\<open>FsKeys\<close> (\<open>keys.ts\<close>), \<^theory_text>\<open>FsStore\<close> (\<open>index.ts\<close>, \<open>types.ts\<close>), \<^theory_text>\<open>FsFakes\<close> (the in-memory bucket and
    manifest of \<open>test/fakes.ts\<close>, as instances of the two store interfaces), \<^theory_text>\<open>FsCoherence\<close>; \<^theory_text>\<open>Gateway\<close>
    (\<open>entry.ts\<close> and the kernel's path normaliser); \<^theory_text>\<open>VfsWire\<close>, \<^theory_text>\<open>VfsFrames\<close> (the file frames of \<open>kernel/src/lib.rs\<close>).
  \<^item> Egress: \<^theory_text>\<open>Ssrf\<close>, \<^theory_text>\<open>HostFetch\<close>, \<^theory_text>\<open>HostFetchProps\<close> (guard, fetch and streams of \<open>kernel-glue.ts\<close>), \<^theory_text>\<open>WsClient\<close>,
    \<^theory_text>\<open>WsProps\<close> (WebSockets inside the VM), \<^theory_text>\<open>HostSockets\<close>, \<^theory_text>\<open>HostSocketsProps\<close> (\<open>host-sockets.mjs\<close>).
  \<^item> Modules of the VM: \<^theory_text>\<open>NetShim\<close>, \<^theory_text>\<open>NetShimProps\<close> (\<open>net.js\<close>, \<open>tls.js\<close>), \<^theory_text>\<open>NetDelivery\<close> (the module, the glue and
    the provider of sockets together).
  \<^item> Checkpoints: \<^theory_text>\<open>Crc\<close>, \<^theory_text>\<open>Snapshot\<close>, \<^theory_text>\<open>SnapshotProps\<close>, \<^theory_text>\<open>ZstdCodec\<close> (dumps, deltas, restore and the codec).
  \<^item> Cells: \<^theory_text>\<open>ReplScan\<close>, \<^theory_text>\<open>ReplTransform\<close>, \<^theory_text>\<open>ReplProps\<close> (\<open>repl-transform.ts\<close>), \<^theory_text>\<open>CellLoop\<close>, \<^theory_text>\<open>CellProps\<close>
    (\<open>evalCode\<close>, configuration, journal), \<^theory_text>\<open>KernelSetup\<close>, \<^theory_text>\<open>Wasi\<close>, \<^theory_text>\<open>KernelProps\<close> (creation, clock, system
    interface), \<^theory_text>\<open>HostCalls\<close>, \<^theory_text>\<open>HostCallsProps\<close> (routing, tools, client calls), \<^theory_text>\<open>SandboxCall\<close> (the bridge).
  \<^item> Sandbox worker: \<^theory_text>\<open>SandboxApp\<close>, \<^theory_text>\<open>SandboxAppProps\<close>.
  \<^item> Cloud: \<^theory_text>\<open>Credentials\<close>, \<^theory_text>\<open>CredentialProps\<close>, \<^theory_text>\<open>Supervisor\<close>, \<^theory_text>\<open>SupervisorProps\<close> (\<open>supervisor.ts\<close>), \<^theory_text>\<open>CloudEntry\<close>,
    \<^theory_text>\<open>CloudProps\<close> (its entry).
  \<^item> Client: \<^theory_text>\<open>SdkFiles\<close>, \<^theory_text>\<open>SdkFilesProps\<close>, \<^theory_text>\<open>SdkTransport\<close>, \<^theory_text>\<open>SdkTransportProps\<close>, \<^theory_text>\<open>SdkSession\<close>, \<^theory_text>\<open>SdkSessionProps\<close>,
    \<^theory_text>\<open>Artifacts\<close> (the kernel's side of text artifacts), \<^theory_text>\<open>SdkClient\<close>, \<^theory_text>\<open>SdkConnect\<close>, \<^theory_text>\<open>CloudClient\<close> (client and cloud together).
  \<^item> Command line: \<^theory_text>\<open>CliScan\<close>, \<^theory_text>\<open>CliRender\<close>, \<^theory_text>\<open>CliRepl\<close> (\<open>repl.ts\<close>), \<^theory_text>\<open>CliMain\<close> (\<open>engram.ts\<close>), \<^theory_text>\<open>CliProps\<close>.
  \<^item> Browser console: \<^theory_text>\<open>UiRender\<close>, \<^theory_text>\<open>UiProps\<close> (\<open>apps/ui/src/main.ts\<close>: pages, configuration, end-to-end checks), \<^theory_text>\<open>UiKernel\<close>,
    \<^theory_text>\<open>UiKernelProps\<close> (\<open>kernel.ts\<close>: its client).

  \<^bold>\<open>How code becomes definitions.\<close>  A class is a record of its fields, a method a function from that record to the
  answer and the new record, with the source's name where it is free.  An error that is thrown is \<open>Inl\<close> of its
  text, and every early return is a branch.  An \<open>await\<close> on something outside is one application of a parameter;
  where other events can come in between (the WebSocket transport, the session pool, the host's socket queue, the
  VM's sockets, the console's client, the REPL) the component is a step function or an inductive step relation and its properties hold over every run.
  Loops are recursive functions with a measure.  Fuel occurs where the code polls or retries: the properties
  state how much of it is enough (the number of reads of a stream or a socket, the polls of a parked
  receive), so that ending is proved and not assumed.  Words are used where the code wraps around: the checksum,
  the generator of random bytes, addresses of IPv4, bytes everywhere.

  \<^bold>\<open>What the lemmas show.\<close>  Files: paths cannot leave the session, every reachable state is coherent with the
  bucket, a flush commits what the session sees, and a file written by the client in chunks is read back the
  same in any chunking.  Egress: every spelling of a private address is judged like the address, redirects are
  checked again, and a socket connects to the host that was checked when its address has one name.
  Checkpoints: whatever commits, fails or is interrupted, the stored chain reconstructs the last committed image,
  a damaged one is refused, and the codec gives back the text and its memory.  Cells: the transform is one
  pass of disjoint edits, the host-call loop ends within the budgets, replaying the journal gives the same
  outcomes, and the VM's clock does not run back.  Cloud: a client request reaches its own account's sessions only, keys live until
  they are revoked, the sweep decides as documented.  Client: replies answer their own requests, artifacts are
  never mixed, no connection leaks.  Command line: no line is lost, typing and piping submit the same cells.
  Sockets of the VM: what the program writes reaches the host in order and what the host reads reaches the program.
  Console: no text of a reply becomes a tag of the page, no call is lost, and calls get their own replies.
  Each theory of properties ends with the behaviours that differ from what comments or documents say, as lemmas
  on the very definitions the properties are about.

  \<^bold>\<open>Interfaces.\<close>  The locales \<^theory_text>\<open>object_store\<close>, \<^theory_text>\<open>manifest_store\<close> and \<^theory_text>\<open>engram_substrate\<close> state what the file substrate
  relies on of the bucket and the manifest, \<^theory_text>\<open>vfs_service\<close> what the client's transfers rely on of the file frames;
  each is interpreted on the model of the code that provides it.

  \<^bold>\<open>Parameters.\<close>  The network, digests and signatures, the URL parser, \<open>JSON.parse\<close>, text decoding, the
  TypeScript stripper, the engine (the effect of evaluating a source, its memory image and its verdicts), gzip
  and zstd, the allocator of the codec, the clocks, the containers, the file system of the command line and \<open>sha1\<close>.  A law of one of them is a named
  hypothesis of the property that needs it, and the property's witness has an instance.

  \<^bold>\<open>Bounds of the model.\<close>  Characters have 8 bits, so lengths in characters and in UTF-8 bytes agree where the code
  confuses them; numbers are integers unless a theory says otherwise; a request reads \<open>Date.now()\<close> once; promises that never settle are
  modelled only where a timeout or a deadline deals with them.

  \<^bold>\<open>Not modelled.\<close>  The Durable Object of the kernel other than its file frames and artifact replies, and the engine's
  binding and bootstrap other than the parts named above: they are Rust over a host and an interpreter that are not
  in the repository.  The Node modules of the VM other than \<open>net\<close> and \<open>tls\<close>; the page's wiring of events and its seed
  cells, which only call the browser; inline images and the spinner of the command line; timings and counters that are
  only reported; vendored code, build scripts, load generators, tests, examples and the documentation site.  What a
  continuation would take next is the session life cycle of the Durable Object and the other modules of the VM.
\<close>

end
